(* ===== verification/Prelude.thy ===== *)
theory Prelude
  imports Main "HOL-Library.Word"
begin

text \<open>
  Shared vocabulary of the development: names for the machine integers of the
  C++ sources, the outcome type used by every operation that may leave the
  normal control flow (a C++ exception or a fatal error), its sequencing
  operator with the invariant rules proved once, and bit-level facts about
  masks and fields on \<^verbatim>\<open>w word\<close> used by all the register models.
\<close>

unbundle bit_operations_syntax

type_synonym u8 = "8 word"
type_synonym u16 = "16 word"
type_synonym u32 = "32 word"
type_synonym u64 = "64 word"

named_theorems field_simps_w "reading a register bit field back after writing one"
named_theorems keeps_intros "an operation keeps the invariant of its state"

section \<open>Outcomes\<close>

text \<open>
  \<^verbatim>\<open>Ok a s\<close>: the call returned \<^verbatim>\<open>a\<close> in state \<^verbatim>\<open>s\<close>;
  \<^verbatim>\<open>Annul s\<close>: the call threw \<^verbatim>\<open>annul_exception\<close> in state \<^verbatim>\<open>s\<close>
  (the main loop catches it and goes on from \<^verbatim>\<open>s\<close>);
  \<^verbatim>\<open>Throw e\<close>: the simulation ends with the error \<^verbatim>\<open>e\<close>.
\<close>

datatype ('e, 'a, 's) res = Ok 'a 's | Annul 's | Throw 'e

definition and_then :: "('e, 'a, 's) res \<Rightarrow> ('a \<Rightarrow> 's \<Rightarrow> ('e, 'b, 's) res) \<Rightarrow> ('e, 'b, 's) res" where
  "and_then r f = (case r of Ok a s \<Rightarrow> f a s | Annul s \<Rightarrow> Annul s | Throw e \<Rightarrow> Throw e)"

lemma and_then_simps [simp]:
  "and_then (Ok a s) f = f a s"
  "and_then (Annul s) f = Annul s"
  "and_then (Throw e) f = Throw e"
  by (simp_all add: and_then_def)

definition res_all :: "('s \<Rightarrow> bool) \<Rightarrow> ('e, 'a, 's) res \<Rightarrow> bool" where
  "res_all P r = (case r of Ok a s \<Rightarrow> P s | Annul s \<Rightarrow> P s | Throw e \<Rightarrow> True)"

lemma res_all_simps [simp]:
  "res_all P (Ok a s) = P s"
  "res_all P (Annul s) = P s"
  "res_all P (Throw e)"
  by (simp_all add: res_all_def)

lemma res_all_and_then [keeps_intros]:
  assumes "res_all P r" and "\<And>a s. P s \<Longrightarrow> res_all P (f a s)"
  shows "res_all P (and_then r f)"
  using assms by (cases r) auto

lemma res_all_if [keeps_intros]:
  assumes "c \<Longrightarrow> res_all P r" and "\<not> c \<Longrightarrow> res_all P r'"
  shows "res_all P (if c then r else r')"
  using assms by auto

lemma res_all_Ok [keeps_intros]: "P s \<Longrightarrow> res_all P (Ok a s)"
  by simp

lemma res_all_Annul [keeps_intros]: "P s \<Longrightarrow> res_all P (Annul s)"
  by simp

lemma res_all_Throw [keeps_intros]: "res_all P (Throw e)"
  by simp

definition final_state :: "('e, 'a, 's) res \<Rightarrow> 's option" where
  "final_state r = (case r of Ok a s \<Rightarrow> Some s | Annul s \<Rightarrow> Some s | Throw e \<Rightarrow> None)"

lemma final_state_simps [simp]:
  "final_state (Ok a s) = Some s"
  "final_state (Annul s) = Some s"
  "final_state (Throw e) = None"
  by (simp_all add: final_state_def)

lemma res_all_final_state: "res_all P r \<Longrightarrow> final_state r = Some s \<Longrightarrow> P s"
  by (cases r) auto

section \<open>Bits of a word\<close>

text \<open>C's conversion of a condition to an integer.\<close>

abbreviation int_of_bool :: "bool \<Rightarrow> 'a::len word" where
  "int_of_bool b \<equiv> (if b then 1 else 0)"

lemma unat_1_word [simp]: "unat (1 :: 'a::len word) = 1"
  by simp

lemma and_1_cases: "(x :: 'a::len word) AND 1 = 0 \<or> x AND 1 = 1"
  by (simp add: and_one_eq mod_2_eq_odd)

lemma and_1_bit: "((x :: 'a::len word) AND 1 = 1) = bit x 0"
  by (simp add: and_one_eq mod_2_eq_odd bit_0)

lemma unat_and_mask_less:
  fixes x :: "'a::len word"
  assumes "n < LENGTH('a)"
  shows "unat (x AND mask n) < 2 ^ n"
proof -
  have "unat (x AND mask n) = take_bit n (unat x)"
    by (simp only: take_bit_eq_mask [symmetric] unsigned_take_bit_eq)
  then show ?thesis by (simp only: take_bit_nat_less_exp)
qed

lemma word_eq_bitsI:
  fixes x y :: "'a::len word"
  assumes "\<And>n. n < LENGTH('a) \<Longrightarrow> bit x n = bit y n"
  shows "x = y"
  using assms by (rule bit_word_eqI)

lemma split_mask: "(x AND m) + (x AND NOT m) = (x :: 'a::len word)"
proof -
  have "(x AND m) AND (x AND NOT m) = 0" by (auto intro!: bit_word_eqI simp: bit_simps)
  moreover have "(x AND m) OR (x AND NOT m) = x" by (auto intro!: bit_word_eqI simp: bit_simps)
  ultimately show ?thesis using word_plus_and_or[of "x AND m" "x AND NOT m"] by simp
qed

lemma unat_less_2_32: "unat (a :: u32) < 2 ^ 32"
  by (rule order.strict_trans2[OF unsigned_less]) simp

lemma if_lessI: "a < n \<Longrightarrow> b < n \<Longrightarrow> (if c then a else b) < (n :: nat)"
  by simp

lemma uint_range_u32: "0 \<le> uint (a::u32) \<and> uint a < 4294967296"
  using uint_bounded [of a] by simp

lemma bit_31_uint: "bit (a::u32) 31 = (2147483648 \<le> uint a)"
proof -
  have "uint a div 2 ^ 31 = (if 2147483648 \<le> uint a then 1 else 0)"
    using uint_range_u32 [of a] by auto
  moreover have "bit a 31 = odd (uint a div 2 ^ 31)"
    unfolding bit_int_def [symmetric] bit_uint_iff by simp
  ultimately show ?thesis by simp
qed

lemma sint_uint_u32: "sint (a::u32) = (if bit a 31 then uint a - 4294967296 else uint a)"
proof -
  have "sint a = signed_take_bit 31 (uint a)" by (simp add: sint_uint)
  also have "\<dots> = take_bit 32 (uint a) - 2 ^ 32 * of_bool (bit (uint a) 31)"
    by (simp add: signed_take_bit_eq_take_bit_minus)
  also have "take_bit 32 (uint a) = uint a"
    using uint_range_u32 [of a] by (simp add: take_bit_int_eq_self)
  finally show ?thesis by (simp add: bit_uint_iff)
qed

lemma and_top_bit: "(w AND 0x80000000 \<noteq> 0) = bit (w :: u32) 31"
  using bit_iff_and_push_bit_not_eq_0[of w 31] by simp

lemma and_push_bit_1: "w AND push_bit n 1 = (if bit w n then push_bit n 1 else (0 :: 'a::len word))"
  by (intro bit_word_eqI) (auto simp: bit_simps)

lemma and_submask: "w AND m = 0 \<Longrightarrow> m' AND m = m' \<Longrightarrow> w AND m' = (0 :: 'a::len word)"
  by (metis and.assoc and.commute and_zero_eq)

section \<open>Sequences of operations\<close>

text \<open>A sequence of operations that each give a result or fail, and the simulation between two
  such machines: what the abstract one does, the concrete one does with the same results.\<close>

primrec exec_ops :: "('op \<Rightarrow> 's \<Rightarrow> ('r \<times> 's) option) \<Rightarrow> 'op list \<Rightarrow> 's \<Rightarrow> ('r list \<times> 's) option" where
  "exec_ops step [] s = Some ([], s)"
| "exec_ops step (op # ops) s =
     (case step op s of
        None \<Rightarrow> None
      | Some (r, s) \<Rightarrow> map_option (\<lambda>(rs, s). (r # rs, s)) (exec_ops step ops s))"

lemma exec_ops_simulation:
  assumes "\<And>op s v r v'. R s v \<Longrightarrow> spec op v = Some (r, v') \<Longrightarrow> \<exists>s'. step op s = Some (r, s') \<and> R s' v'"
    and "R s v" and "exec_ops spec ops v = Some (rs, v')"
  shows "\<exists>s'. exec_ops step ops s = Some (rs, s') \<and> R s' v'"
  using assms(2,3)
proof (induction ops arbitrary: s v rs)
  case (Cons op ops)
  obtain r v1 rs1 where v: "spec op v = Some (r, v1)" "exec_ops spec ops v1 = Some (rs1, v')" "rs = r # rs1"
    using Cons.prems(2) by (auto split: option.splits)
  obtain s1 where s1: "step op s = Some (r, s1)" "R s1 v1" using assms(1)[OF Cons.prems(1) v(1)] by blast
  then show ?case using Cons.IH[OF s1(2) v(2)] v(3) by auto
qed simp

end
