(* ===== verification/Leon3_State.thy ===== *)
theory Leon3_State
  imports Prelude
begin

text \<open>
  The architectural state of the LEON3 instruction-set simulator
  (src/gaisler/leon3/intunit): the registers of
  \<^verbatim>\<open>Processor_leon3_funclt\<close>, the alias table \<^verbatim>\<open>REGS\<close> through which
  every instruction names its operands, the bit fields of \<^verbatim>\<open>PSR\<close> and
  \<^verbatim>\<open>TBR\<close> (registers.hpp, registers.cpp), and the helpers of the base class
  \<^verbatim>\<open>Instruction\<close>: \<^verbatim>\<open>IncrementPC\<close>, \<^verbatim>\<open>SignExtend\<close>, the window
  rotation and \<^verbatim>\<open>RaiseException\<close> (instructions.cpp, instructions.hpp).

  The model is the functional one (\<^verbatim>\<open>ACC_MODEL\<close> and
  \<^verbatim>\<open>TSIM_COMPATIBILITY\<close> undefined).  Register callbacks, tracing and power
  counters do not feed back into the architectural state and are left out.
\<close>

section \<open>State\<close>

text \<open>
  What an alias designates: a register of the \<^verbatim>\<open>GLOBAL\<close> bank or one of the
  128 window registers \<^verbatim>\<open>WINREGS\<close>.
\<close>

datatype reg_ref = GlobRef nat | WinRef nat

record 'm leon3 =
  PSR :: u32
  WIM :: u32
  TBR :: u32
  Y :: u32
  PC :: u32
  NPC :: u32
  GLOBAL :: "nat \<Rightarrow> u32"
  WINREGS :: "nat \<Rightarrow> u32"
  ASR :: "nat \<Rightarrow> u32"
  REGS :: "nat \<Rightarrow> reg_ref"
  MEM :: 'm
  irqAck :: "u32 list"
  raisedException :: u32
  raisedExceptionPC :: u32
  raisedExceptionNPC :: u32
  IRQ :: u32

text \<open>The ways a simulation ends (\<^verbatim>\<open>THROW_EXCEPTION\<close>, \<^verbatim>\<open>THROW_ERROR\<close>,
  or C++ behaviour that the language leaves undefined).\<close>

datatype leon3_error =
    Trap_While_Disabled u32
  | Unknown_Instruction u32
  | Invalid_RETT
  | Memory_Fault
  | Undefined_Behaviour

type_synonym ('a, 'm) lres = "(leon3_error, 'a, 'm leon3) res"

definition NUM_REG_WIN :: u32 where
  "NUM_REG_WIN = 8"

section \<open>Bit fields of PSR and TBR\<close>

definition key_ICC_n :: "u32 \<Rightarrow> u32" where
  "key_ICC_n psr = drop_bit 23 (psr AND 0x800000)"

definition key_ICC_z :: "u32 \<Rightarrow> u32" where
  "key_ICC_z psr = drop_bit 22 (psr AND 0x400000)"

definition key_ICC_v :: "u32 \<Rightarrow> u32" where
  "key_ICC_v psr = drop_bit 21 (psr AND 0x200000)"

definition key_ICC_c :: "u32 \<Rightarrow> u32" where
  "key_ICC_c psr = drop_bit 20 (psr AND 0x100000)"

definition key_PIL :: "u32 \<Rightarrow> u32" where
  "key_PIL psr = drop_bit 8 (psr AND 0xf00)"

definition key_S :: "u32 \<Rightarrow> u32" where
  "key_S psr = drop_bit 7 (psr AND 0x80)"

definition key_PS :: "u32 \<Rightarrow> u32" where
  "key_PS psr = drop_bit 6 (psr AND 0x40)"

definition key_ET :: "u32 \<Rightarrow> u32" where
  "key_ET psr = drop_bit 5 (psr AND 0x20)"

definition key_CWP :: "u32 \<Rightarrow> u32" where
  "key_CWP psr = psr AND 0x1f"

definition set_ICC_n :: "u32 \<Rightarrow> u32 \<Rightarrow> u32" where
  "set_ICC_n other psr = (psr AND 0xff7fffff) OR push_bit 23 (other AND 1)"

definition set_ICC_z :: "u32 \<Rightarrow> u32 \<Rightarrow> u32" where
  "set_ICC_z other psr = (psr AND 0xffbfffff) OR push_bit 22 (other AND 1)"

definition set_ICC_v :: "u32 \<Rightarrow> u32 \<Rightarrow> u32" where
  "set_ICC_v other psr = (psr AND 0xffdfffff) OR push_bit 21 (other AND 1)"

definition set_ICC_c :: "u32 \<Rightarrow> u32 \<Rightarrow> u32" where
  "set_ICC_c other psr = (psr AND 0xffefffff) OR push_bit 20 (other AND 1)"

definition set_TT :: "u32 \<Rightarrow> u32 \<Rightarrow> u32" where
  "set_TT other tbr = (tbr AND 0xfffff00f) OR push_bit 4 (other AND 0xff)"

section \<open>Registers through their aliases\<close>

text \<open>
  \<^verbatim>\<open>GLOBAL[0]\<close> is a \<^verbatim>\<open>Reg32_3_const_0\<close>: it reads as 0 and ignores
  writes.
\<close>

definition ref_read :: "'m leon3 \<Rightarrow> reg_ref \<Rightarrow> u32" where
  "ref_read s r = (case r of
      GlobRef k \<Rightarrow> if k = 0 then 0 else GLOBAL s k
    | WinRef k \<Rightarrow> WINREGS s k)"

definition ref_write :: "reg_ref \<Rightarrow> u32 \<Rightarrow> 'm leon3 \<Rightarrow> 'm leon3" where
  "ref_write r v s = (case r of
      GlobRef k \<Rightarrow> if k = 0 then s else s\<lparr>GLOBAL := (GLOBAL s)(k := v)\<rparr>
    | WinRef k \<Rightarrow> s\<lparr>WINREGS := (WINREGS s)(k := v)\<rparr>)"

definition reg :: "'m leon3 \<Rightarrow> nat \<Rightarrow> u32" where
  "reg s i = ref_read s (REGS s i)"

definition set_reg :: "nat \<Rightarrow> u32 \<Rightarrow> 'm leon3 \<Rightarrow> 'm leon3" where
  "set_reg i v s = ref_write (REGS s i) v s"

text \<open>The index of the window register that register \<^verbatim>\<open>i\<close> of window
  \<^verbatim>\<open>cwp\<close> is an alias of, and the loop that re-targets the 24 windowed aliases.\<close>

definition win_index :: "u32 \<Rightarrow> nat \<Rightarrow> nat" where
  "win_index cwp i = unat ((cwp * 16 + of_nat i - 8) AND 0x7f)"

definition updateAliases :: "u32 \<Rightarrow> 'm leon3 \<Rightarrow> 'm leon3" where
  "updateAliases newCwp s =
     s\<lparr>REGS := (\<lambda>i. if 8 \<le> i \<and> i < 32 then WinRef (win_index newCwp i) else REGS s i)\<rparr>"

section \<open>Helpers of class Instruction\<close>

definition IncrementPC :: "'m leon3 \<Rightarrow> 'm leon3" where
  "IncrementPC s = s\<lparr>PC := NPC s, NPC := NPC s + 4\<rparr>"

definition SignExtend :: "u32 \<Rightarrow> nat \<Rightarrow> u32" where
  "SignExtend bitSeq bitSeq_length =
     (if bitSeq AND push_bit (bitSeq_length - 1) 1 \<noteq> 0
      then bitSeq OR push_bit bitSeq_length 0xFFFFFFFF
      else bitSeq)"

definition incCwp :: "u32 \<Rightarrow> u32" where
  "incCwp psr = (key_CWP psr + 1) mod NUM_REG_WIN"

definition decCwp :: "u32 \<Rightarrow> u32" where
  "decCwp psr = (key_CWP psr - 1) mod NUM_REG_WIN"

definition windowInvalid :: "u32 \<Rightarrow> u32 \<Rightarrow> bool" where
  "windowInvalid newCwp wim = (push_bit (unat newCwp) 1 AND wim \<noteq> 0)"

definition IncrementRegWindow :: "'m leon3 \<Rightarrow> bool \<times> 'm leon3" where
  "IncrementRegWindow s =
     (let newCwp = incCwp (PSR s) in
      if windowInvalid newCwp (WIM s) then (False, s)
      else (True, updateAliases newCwp (s\<lparr>PSR := (PSR s AND 0xFFFFFFE0) OR newCwp\<rparr>)))"

definition DecrementRegWindow :: "'m leon3 \<Rightarrow> bool \<times> 'm leon3" where
  "DecrementRegWindow s =
     (let newCwp = decCwp (PSR s) in
      if windowInvalid newCwp (WIM s) then (False, s)
      else (True, updateAliases newCwp (s\<lparr>PSR := (PSR s AND 0xFFFFFFE0) OR newCwp\<rparr>)))"

definition checkIncrementWin :: "'m leon3 \<Rightarrow> bool" where
  "checkIncrementWin s = (\<not> windowInvalid (incCwp (PSR s)) (WIM s))"

definition checkDecrementWin :: "'m leon3 \<Rightarrow> bool" where
  "checkDecrementWin s = (\<not> windowInvalid (decCwp (PSR s)) (WIM s))"

section \<open>Traps\<close>

abbreviation (input) RESET :: u32 where "RESET \<equiv> 0"
abbreviation (input) DATA_STORE_ERROR :: u32 where "DATA_STORE_ERROR \<equiv> 1"
abbreviation (input) INSTR_ACCESS_MMU_MISS :: u32 where "INSTR_ACCESS_MMU_MISS \<equiv> 2"
abbreviation (input) INSTR_ACCESS_ERROR :: u32 where "INSTR_ACCESS_ERROR \<equiv> 3"
abbreviation (input) R_REGISTER_ACCESS_ERROR :: u32 where "R_REGISTER_ACCESS_ERROR \<equiv> 4"
abbreviation (input) INSTR_ACCESS_EXC :: u32 where "INSTR_ACCESS_EXC \<equiv> 5"
abbreviation (input) PRIVILEDGE_INSTR :: u32 where "PRIVILEDGE_INSTR \<equiv> 6"
abbreviation (input) ILLEGAL_INSTR :: u32 where "ILLEGAL_INSTR \<equiv> 7"
abbreviation (input) FP_DISABLED :: u32 where "FP_DISABLED \<equiv> 8"
abbreviation (input) CP_DISABLED :: u32 where "CP_DISABLED \<equiv> 9"
abbreviation (input) UNIMPL_FLUSH :: u32 where "UNIMPL_FLUSH \<equiv> 10"
abbreviation (input) WATCHPOINT_DETECTED :: u32 where "WATCHPOINT_DETECTED \<equiv> 11"
abbreviation (input) WINDOW_OVERFLOW :: u32 where "WINDOW_OVERFLOW \<equiv> 12"
abbreviation (input) WINDOW_UNDERFLOW :: u32 where "WINDOW_UNDERFLOW \<equiv> 13"
abbreviation (input) MEM_ADDR_NOT_ALIGNED :: u32 where "MEM_ADDR_NOT_ALIGNED \<equiv> 14"
abbreviation (input) FP_EXCEPTION :: u32 where "FP_EXCEPTION \<equiv> 15"
abbreviation (input) CP_EXCEPTION :: u32 where "CP_EXCEPTION \<equiv> 16"
abbreviation (input) DATA_ACCESS_ERROR :: u32 where "DATA_ACCESS_ERROR \<equiv> 17"
abbreviation (input) DATA_ACCESS_MMU_MISS :: u32 where "DATA_ACCESS_MMU_MISS \<equiv> 18"
abbreviation (input) DATA_ACCESS_EXC :: u32 where "DATA_ACCESS_EXC \<equiv> 19"
abbreviation (input) TAG_OVERFLOW :: u32 where "TAG_OVERFLOW \<equiv> 20"
abbreviation (input) DIV_ZERO :: u32 where "DIV_ZERO \<equiv> 21"
abbreviation (input) TRAP_INSTRUCTION :: u32 where "TRAP_INSTRUCTION \<equiv> 22"
abbreviation (input) IRQ_LEV_15 :: u32 where "IRQ_LEV_15 \<equiv> 23"
abbreviation (input) IRQ_LEV_1 :: u32 where "IRQ_LEV_1 \<equiv> 37"
abbreviation (input) IMPL_DEP_EXC :: u32 where "IMPL_DEP_EXC \<equiv> 38"

text \<open>The trap type that \<^verbatim>\<open>RaiseException\<close> stores into \<^verbatim>\<open>TBR[key_TT]\<close>;
  \<^const>\<open>None\<close> where its switch stores nothing (\<^verbatim>\<open>RESET\<close> and unknown
  numbers).  The fifteen cases \<^verbatim>\<open>IRQ_LEV_15 .. IRQ_LEV_1\<close> (23 to 37) store
  \<^verbatim>\<open>0x1f .. 0x11\<close>.\<close>

definition trap_type :: "u32 \<Rightarrow> u32 \<Rightarrow> u32 option" where
  "trap_type exceptionId customTrapOffset =
    (if exceptionId = RESET then None
     else if exceptionId = DATA_STORE_ERROR then Some 0x2b
     else if exceptionId = INSTR_ACCESS_MMU_MISS then Some 0x3c
     else if exceptionId = INSTR_ACCESS_ERROR then Some 0x21
     else if exceptionId = R_REGISTER_ACCESS_ERROR then Some 0x20
     else if exceptionId = INSTR_ACCESS_EXC then Some 0x01
     else if exceptionId = PRIVILEDGE_INSTR then Some 0x03
     else if exceptionId = ILLEGAL_INSTR then Some 0x02
     else if exceptionId = FP_DISABLED then Some 0x04
     else if exceptionId = CP_DISABLED then Some 0x24
     else if exceptionId = UNIMPL_FLUSH then Some 0x25
     else if exceptionId = WATCHPOINT_DETECTED then Some 0x0b
     else if exceptionId = WINDOW_OVERFLOW then Some 0x05
     else if exceptionId = WINDOW_UNDERFLOW then Some 0x06
     else if exceptionId = MEM_ADDR_NOT_ALIGNED then Some 0x07
     else if exceptionId = FP_EXCEPTION then Some 0x08
     else if exceptionId = CP_EXCEPTION then Some 0x28
     else if exceptionId = DATA_ACCESS_ERROR then Some 0x29
     else if exceptionId = DATA_ACCESS_MMU_MISS then Some 0x2c
     else if exceptionId = DATA_ACCESS_EXC then Some 0x09
     else if exceptionId = TAG_OVERFLOW then Some 0x0a
     else if exceptionId = DIV_ZERO then Some 0x2a
     else if exceptionId = TRAP_INSTRUCTION then Some (0x80 + customTrapOffset)
     else if IRQ_LEV_15 \<le> exceptionId \<and> exceptionId \<le> IRQ_LEV_1 then Some (0x1f - (exceptionId - IRQ_LEV_15))
     else if exceptionId = IMPL_DEP_EXC then Some (0x60 + customTrapOffset)
     else None)"

definition trapPSR :: "u32 \<Rightarrow> u32" where
  "trapPSR psr =
    (let curPSR = (psr AND 0xffffffbf) OR push_bit 6 (key_S psr);
         curPSR = (curPSR AND 0xffffff7f) OR 0x00000080;
         curPSR = curPSR AND 0xffffffdf
     in (curPSR AND 0xffffffe0) + decCwp psr)"

definition enterTrap :: "u32 \<Rightarrow> u32 \<Rightarrow> u32 \<Rightarrow> u32 \<Rightarrow> 'm leon3 \<Rightarrow> 'm leon3" where
  "enterTrap pcounter npcounter exceptionId customTrapOffset s =
    (let s = updateAliases (decCwp (PSR s)) s;
         s = s\<lparr>PSR := trapPSR (PSR s)\<rparr>;
         s = set_reg 17 pcounter s;
         s = set_reg 18 npcounter s;
         s = (case trap_type exceptionId customTrapOffset of
                None \<Rightarrow> s | Some tt \<Rightarrow> s\<lparr>TBR := set_TT tt (TBR s)\<rparr>);
         s = (if exceptionId = RESET then s\<lparr>PC := 0, NPC := 4\<rparr>
              else s\<lparr>PC := TBR s, NPC := TBR s + 4\<rparr>)
     in if exceptionId > TRAP_INSTRUCTION \<and> exceptionId < IMPL_DEP_EXC
        then s\<lparr>irqAck := irqAck s @ [IMPL_DEP_EXC - exceptionId]\<rparr> else s)"

definition RaiseException ::
  "u32 \<Rightarrow> u32 \<Rightarrow> u32 \<Rightarrow> u32 \<Rightarrow> 'm leon3 \<Rightarrow> (unit, 'm) lres" where
  "RaiseException pcounter npcounter exceptionId customTrapOffset s =
    (if key_ET (PSR s) = 0 then
       (if exceptionId < IRQ_LEV_15 \<or> exceptionId = TRAP_INSTRUCTION
        then Throw (Trap_While_Disabled exceptionId) else Ok () s)
     else Annul (enterTrap pcounter npcounter exceptionId customTrapOffset s))"

text \<open>\<^verbatim>\<open>if (c) RaiseException(pc, npc, id);\<close> with the default offset.\<close>

definition raise_if :: "bool \<Rightarrow> u32 \<Rightarrow> u32 \<Rightarrow> u32 \<Rightarrow> 'm leon3 \<Rightarrow> (unit, 'm) lres" where
  "raise_if c pcounter npcounter exceptionId s =
     (if c then RaiseException pcounter npcounter exceptionId 0 s else Ok () s)"

definition triggerException :: "u32 \<Rightarrow> 'm leon3 \<Rightarrow> 'm leon3" where
  "triggerException exception s =
     s\<lparr>raisedException := exception, raisedExceptionPC := PC s, raisedExceptionNPC := NPC s\<rparr>"

end
