(* ===== verification/Leon3_Window.thy ===== *)
theory Leon3_Window
  imports Leon3_State
begin

text \<open>
  Facts about the register state of Leon3_State: what the bit fields of
  \<^verbatim>\<open>PSR\<close> and \<^verbatim>\<open>TBR\<close> read back, the register-window invariant
  \<^verbatim>\<open>window_ok\<close> that ties the alias table to \<^verbatim>\<open>PSR[CWP]\<close>, the
  read-over-write laws of the visible registers under it, the overlap of
  neighbouring windows, and the effect of \<^verbatim>\<open>RaiseException\<close>.
\<close>

section \<open>Bit fields\<close>

lemma drop_and_bit:
  fixes x :: u32
  assumes "n < 32"
  shows "drop_bit n (x AND push_bit n 1) = int_of_bool (bit x n)"
proof (rule bit_word_eqI)
  fix k
  assume "k < LENGTH(32)"
  then show "bit (drop_bit n (x AND push_bit n 1)) k = bit (int_of_bool (bit x n) :: u32) k"
    using assms by (cases k) (auto simp: bit_simps bit_exp_iff bit_1_iff)
qed

lemma set_bit_field:
  fixes x v :: u32
  assumes "n < 32"
  shows "bit ((x AND NOT (push_bit n 1)) OR push_bit n (v AND 1)) k =
    (if k = n then bit v 0 else bit x k)"
proof (cases "k < 32")
  case True
  then show ?thesis
    using assms by (auto simp: bit_simps bit_1_iff)
next
  case False
  then show ?thesis using assms by (auto dest: bit_imp_le_length)
qed

lemma single_bit_masks:
  "(0x20::u32) = push_bit 5 1" "(0x40::u32) = push_bit 6 1" "(0x80::u32) = push_bit 7 1"
  "(0x100000::u32) = push_bit 20 1" "(0x200000::u32) = push_bit 21 1"
  "(0x400000::u32) = push_bit 22 1" "(0x800000::u32) = push_bit 23 1"
  by simp_all

lemma single_bit_clear_masks:
  "(0xff7fffff::u32) = NOT (push_bit 23 1)" "(0xffbfffff::u32) = NOT (push_bit 22 1)"
  "(0xffdfffff::u32) = NOT (push_bit 21 1)" "(0xffefffff::u32) = NOT (push_bit 20 1)"
  "(0xffffffbf::u32) = NOT (push_bit 6 1)" "(0xffffff7f::u32) = NOT (push_bit 7 1)"
  "(0xffffffdf::u32) = NOT (push_bit 5 1)"
  by simp_all

lemma key_bits:
  "key_ICC_n psr = int_of_bool (bit psr 23)"
  "key_ICC_z psr = int_of_bool (bit psr 22)"
  "key_ICC_v psr = int_of_bool (bit psr 21)"
  "key_ICC_c psr = int_of_bool (bit psr 20)"
  "key_S psr = int_of_bool (bit psr 7)"
  "key_PS psr = int_of_bool (bit psr 6)"
  "key_ET psr = int_of_bool (bit psr 5)"
  unfolding key_ICC_n_def key_ICC_z_def key_ICC_v_def key_ICC_c_def key_S_def key_PS_def key_ET_def
    single_bit_masks by (subst drop_and_bit, simp, rule refl)+

lemma set_ICC_bits:
  "bit (set_ICC_n v psr) k = (if k = 23 then bit v 0 else bit psr k)"
  "bit (set_ICC_z v psr) k = (if k = 22 then bit v 0 else bit psr k)"
  "bit (set_ICC_v v psr) k = (if k = 21 then bit v 0 else bit psr k)"
  "bit (set_ICC_c v psr) k = (if k = 20 then bit v 0 else bit psr k)"
  unfolding set_ICC_n_def set_ICC_z_def set_ICC_v_def set_ICC_c_def single_bit_clear_masks
  by (subst set_bit_field, simp, simp)+

lemma key_CWP_bits: "bit (key_CWP psr) k = (k < 5 \<and> bit psr k)"
proof -
  have "key_CWP psr = take_bit 5 psr"
    by (simp add: key_CWP_def take_bit_eq_mask mask_eq_exp_minus_1)
  then show ?thesis by (simp add: bit_take_bit_iff)
qed

lemma key_CWP_eqI:
  assumes "\<And>k. k < 5 \<Longrightarrow> bit a k = bit b k"
  shows "key_CWP a = key_CWP b"
  using assms by (intro bit_word_eqI) (auto simp: key_CWP_bits)

lemma key_CWP_set_ICC [simp, field_simps_w]:
  "key_CWP (set_ICC_n v psr) = key_CWP psr"
  "key_CWP (set_ICC_z v psr) = key_CWP psr"
  "key_CWP (set_ICC_v v psr) = key_CWP psr"
  "key_CWP (set_ICC_c v psr) = key_CWP psr"
  by (rule key_CWP_eqI, simp add: set_ICC_bits)+

lemma word_less_8_cases:
  fixes c :: u32
  assumes "c < 8"
  shows "c \<in> {0, 1, 2, 3, 4, 5, 6, 7}"
proof -
  have "unat c < 8" using assms by (simp add: word_less_nat_alt)
  then have "unat c = 0 \<or> unat c = 1 \<or> unat c = 2 \<or> unat c = 3 \<or> unat c = 4 \<or> unat c = 5
      \<or> unat c = 6 \<or> unat c = 7" by arith
  moreover have "c = of_nat (unat c)" by simp
  ultimately show ?thesis
    by (elim disjE) (simp_all only: of_nat_0 of_nat_1 of_nat_numeral insert_iff, simp_all)
qed

lemma mod_NUM_REG_WIN_less [simp]: "c mod NUM_REG_WIN < 8"
  by (simp add: NUM_REG_WIN_def word_mod_less_divisor)

lemma incCwp_less [simp]: "incCwp psr < 8" and decCwp_less [simp]: "decCwp psr < 8"
  by (simp_all add: incCwp_def decCwp_def)

text \<open>Replacing the window number of a PSR word.\<close>

lemma cwp_bits_high:
  fixes c :: u32
  assumes "c < 8" "3 \<le> k"
  shows "\<not> bit c k"
proof -
  have "take_bit 3 c = c"
    using word_less_8_cases [OF assms(1)] by auto
  then have "bit c k = bit (take_bit 3 c) k" by simp
  then show ?thesis using assms(2) by (simp add: bit_take_bit_iff)
qed

lemma bit_low5_mask: "bit (x AND 0xFFFFFFE0 :: u32) k = (5 \<le> k \<and> bit x k)"
proof -
  have "(0xFFFFFFE0 :: u32) = NOT (mask 5)" by (simp add: mask_eq_exp_minus_1)
  then have "x AND 0xFFFFFFE0 = x AND NOT (mask 5 :: u32)" by (rule arg_cong)
  then have "bit (x AND 0xFFFFFFE0 :: u32) k = bit (x AND NOT (mask 5)) k"
    by (rule arg_cong)
  then show ?thesis
    unfolding bit_and_iff bit_not_iff bit_mask_iff by (auto dest: bit_imp_le_length)
qed

lemma bit_replace_CWP:
  assumes "c < 8"
  shows "bit ((psr AND 0xFFFFFFE0) OR c :: u32) k = (if k < 5 then bit c k else bit psr k)"
  using cwp_bits_high [OF assms, of k] by (auto simp: bit_or_iff bit_low5_mask)

lemma key_CWP_replace [simp]:
  assumes "c < 8"
  shows "key_CWP ((psr AND 0xFFFFFFE0) OR c) = c"
  using cwp_bits_high [OF assms]
  by (intro bit_word_eqI) (auto simp: key_CWP_bits bit_replace_CWP [OF assms])

lemma add_replace_CWP:
  assumes "c < 8"
  shows "(psr AND 0xFFFFFFE0) + c = (psr AND 0xFFFFFFE0) OR (c :: u32)"
  using cwp_bits_high [OF assms]
  by (intro disjunctive_add) (auto simp: bit_low5_mask)

section \<open>The window invariant\<close>

definition reg_of :: "u32 \<Rightarrow> nat \<Rightarrow> reg_ref" where
  "reg_of cwp i = (if i < 8 then GlobRef i else WinRef (win_index cwp i))"

definition window_ok :: "'m leon3 \<Rightarrow> bool" where
  "window_ok s = (key_CWP (PSR s) < 8 \<and> (\<forall>i\<in>{0..<32}. REGS s i = reg_of (key_CWP (PSR s)) i))"

lemma window_okD:
  assumes "window_ok s"
  shows "key_CWP (PSR s) < 8" and "i < 32 \<Longrightarrow> REGS s i = reg_of (key_CWP (PSR s)) i"
  using assms by (auto simp: window_ok_def)

lemma win_index_nat:
  assumes "cwp < 8" "8 \<le> i" "i < 32"
  shows "win_index cwp i = (16 * unat cwp + i - 8) mod 128"
proof -
  have c: "unat cwp < 8" using assms(1) by (simp add: word_less_nat_alt)
  have eq: "cwp * 16 + of_nat i - 8 = (of_nat (16 * unat cwp + i - 8) :: u32)"
    using assms(2) by (simp add: of_nat_diff)
  have "unat ((of_nat (16 * unat cwp + i - 8) :: u32) AND mask 7) =
      take_bit 7 (unat (of_nat (16 * unat cwp + i - 8) :: u32))"
    by (simp only: take_bit_eq_mask [symmetric] unsigned_take_bit_eq)
  also have "unat (of_nat (16 * unat cwp + i - 8) :: u32) = 16 * unat cwp + i - 8"
    using c assms(3) by (simp add: unat_of_nat)
  finally show ?thesis
    unfolding win_index_def eq by (simp add: take_bit_eq_mod mask_eq_exp_minus_1)
qed

lemma win_index_bound [simp]: "win_index cwp i < 128"
proof -
  have "unat ((cwp * 16 + of_nat i - 8) AND mask 7) < 2 ^ 7"
    by (rule unat_and_mask_less) simp
  then show ?thesis by (simp add: win_index_def mask_eq_exp_minus_1)
qed

lemma win_index_cases:
  assumes "cwp < 8" "8 \<le> i" "i < 32"
  shows "win_index cwp i =
    (if 16 * unat cwp + i < 136 then 16 * unat cwp + i - 8 else 16 * unat cwp + i - 136)"
proof -
  have c: "unat cwp < 8" using assms(1) by (simp add: word_less_nat_alt)
  show ?thesis
  proof (cases "16 * unat cwp + i < 136")
    case True
    then show ?thesis using assms by (simp add: win_index_nat)
  next
    case False
    then have "(16 * unat cwp + i - 8) mod 128 = (16 * unat cwp + i - 8 - 128) mod 128"
      by (intro le_mod_geq) simp
    moreover have "16 * unat cwp + i - 136 < 128" using c assms by linarith
    ultimately show ?thesis using False assms by (simp add: win_index_nat)
  qed
qed

lemma win_index_inj:
  assumes "cwp < 8" "8 \<le> i" "i < 32" "8 \<le> j" "j < 32" "win_index cwp i = win_index cwp j"
  shows "i = j"
  using assms by (simp add: win_index_cases split: if_splits)

lemma reg_of_inj: "cwp < 8 \<Longrightarrow> i < 32 \<Longrightarrow> j < 32 \<Longrightarrow> reg_of cwp i = reg_of cwp j \<Longrightarrow> i = j"
  by (auto simp: reg_of_def not_less intro: win_index_inj split: if_splits)

text \<open>The outs of a window are the ins of the next lower one.\<close>

lemma unat_dec_mod8:
  assumes "(c::u32) < 8"
  shows "unat ((c - 1) mod NUM_REG_WIN) = (if c = 0 then 7 else unat c - 1)"
  using word_less_8_cases [OF assms] by (auto simp: NUM_REG_WIN_def)

lemma unat_inc_mod8:
  assumes "(c::u32) < 8"
  shows "unat ((c + 1) mod NUM_REG_WIN) = (if c = 7 then 0 else unat c + 1)"
  using word_less_8_cases [OF assms] by (auto simp: NUM_REG_WIN_def)

lemma win_index_overlap:
  assumes "cwp < 8" "8 \<le> i" "i < 16"
  shows "win_index ((cwp - 1) mod NUM_REG_WIN) (i + 16) = win_index cwp i"
  using word_less_8_cases [OF assms(1)] assms(2,3) by (auto simp: win_index_cases NUM_REG_WIN_def)

lemma inc_dec_cwp:
  assumes "(c::u32) < 8"
  shows "((c - 1) mod NUM_REG_WIN + 1) mod NUM_REG_WIN = c"
    and "((c + 1) mod NUM_REG_WIN - 1) mod NUM_REG_WIN = c"
  using word_less_8_cases [OF assms] by (auto simp: NUM_REG_WIN_def)

section \<open>Visible registers\<close>

lemma reg_0 [simp]: "window_ok s \<Longrightarrow> reg s 0 = 0"
  by (simp add: reg_def ref_read_def window_okD reg_of_def)

lemma ref_read_write:
  "ref_read (ref_write r v s) r' = (if r = r' \<and> r \<noteq> GlobRef 0 then v else ref_read s r')"
  by (auto simp: ref_read_def ref_write_def split: reg_ref.splits)

lemma REGS_set_reg [simp]: "REGS (set_reg i v s) = REGS s"
  by (auto simp: set_reg_def ref_write_def split: reg_ref.splits)

lemma set_reg_other [simp]:
  "PSR (set_reg i v s) = PSR s" "WIM (set_reg i v s) = WIM s" "TBR (set_reg i v s) = TBR s"
  "Y (set_reg i v s) = Y s" "PC (set_reg i v s) = PC s" "NPC (set_reg i v s) = NPC s"
  "ASR (set_reg i v s) = ASR s" "MEM (set_reg i v s) = MEM s" "irqAck (set_reg i v s) = irqAck s"
  "raisedException (set_reg i v s) = raisedException s" "IRQ (set_reg i v s) = IRQ s"
  "raisedExceptionPC (set_reg i v s) = raisedExceptionPC s"
  "raisedExceptionNPC (set_reg i v s) = raisedExceptionNPC s"
  by (auto simp: set_reg_def ref_write_def split: reg_ref.splits)

lemma reg_set_reg:
  assumes "window_ok s" "i < 32" "j < 32"
  shows "reg (set_reg i v s) j = (if i = j \<and> i \<noteq> 0 then v else reg s j)"
proof -
  have "REGS s i = REGS s j \<longleftrightarrow> i = j"
    using assms by (auto simp: window_okD dest: reg_of_inj [OF window_okD(1)])
  moreover have "REGS s i = GlobRef 0 \<longleftrightarrow> i = 0"
    using assms by (auto simp: window_okD reg_of_def)
  ultimately show ?thesis
    unfolding reg_def REGS_set_reg
    by (simp add: set_reg_def ref_read_write)
qed

lemma reg_cong:
  "GLOBAL s = GLOBAL t \<Longrightarrow> WINREGS s = WINREGS t \<Longrightarrow> REGS s i = REGS t i \<Longrightarrow> reg s i = reg t i"
  by (simp add: reg_def ref_read_def split: reg_ref.splits)

lemma reg_update [simp]:
  "reg (s\<lparr>PSR := a\<rparr>) i = reg s i" "reg (s\<lparr>WIM := a\<rparr>) i = reg s i" "reg (s\<lparr>TBR := a\<rparr>) i = reg s i"
  "reg (s\<lparr>Y := a\<rparr>) i = reg s i" "reg (s\<lparr>PC := a\<rparr>) i = reg s i" "reg (s\<lparr>NPC := a\<rparr>) i = reg s i"
  "reg (s\<lparr>ASR := f\<rparr>) i = reg s i" "reg (s\<lparr>MEM := m\<rparr>) i = reg s i" "reg (s\<lparr>irqAck := l\<rparr>) i = reg s i"
  "reg (s\<lparr>raisedException := a\<rparr>) i = reg s i"
  "reg (IncrementPC s) i = reg s i"
  by (rule reg_cong, simp_all add: IncrementPC_def)+

lemma IncrementPC_simps [simp]:
  "PSR (IncrementPC s) = PSR s" "WIM (IncrementPC s) = WIM s" "TBR (IncrementPC s) = TBR s"
  "Y (IncrementPC s) = Y s" "PC (IncrementPC s) = NPC s" "NPC (IncrementPC s) = NPC s + 4"
  "ASR (IncrementPC s) = ASR s" "MEM (IncrementPC s) = MEM s" "REGS (IncrementPC s) = REGS s"
  "GLOBAL (IncrementPC s) = GLOBAL s" "WINREGS (IncrementPC s) = WINREGS s"
  "irqAck (IncrementPC s) = irqAck s"
  by (simp_all add: IncrementPC_def)

section \<open>Preservation of the invariant\<close>

lemma window_ok_cong:
  "window_ok s \<Longrightarrow> REGS t = REGS s \<Longrightarrow> key_CWP (PSR t) = key_CWP (PSR s) \<Longrightarrow> window_ok t"
  by (simp add: window_ok_def)

lemma window_ok_frame [keeps_intros]:
  "window_ok s \<Longrightarrow> window_ok (set_reg i v s)"
  "window_ok s \<Longrightarrow> window_ok (IncrementPC s)"
  "window_ok s \<Longrightarrow> window_ok (s\<lparr>PC := a\<rparr>)"
  "window_ok s \<Longrightarrow> window_ok (s\<lparr>NPC := a\<rparr>)"
  "window_ok s \<Longrightarrow> window_ok (s\<lparr>PC := a, NPC := b\<rparr>)"
  "window_ok s \<Longrightarrow> window_ok (s\<lparr>Y := a\<rparr>)"
  "window_ok s \<Longrightarrow> window_ok (s\<lparr>WIM := a\<rparr>)"
  "window_ok s \<Longrightarrow> window_ok (s\<lparr>TBR := a\<rparr>)"
  "window_ok s \<Longrightarrow> window_ok (s\<lparr>ASR := f\<rparr>)"
  "window_ok s \<Longrightarrow> window_ok (s\<lparr>MEM := m\<rparr>)"
  "window_ok s \<Longrightarrow> window_ok (s\<lparr>irqAck := l\<rparr>)"
  "window_ok s \<Longrightarrow> window_ok (triggerException e s)"
  "window_ok s \<Longrightarrow> window_ok (s\<lparr>raisedException := a\<rparr>)"
  "window_ok s \<Longrightarrow> window_ok (s\<lparr>IRQ := a\<rparr>)"
  by (erule window_ok_cong, simp_all add: IncrementPC_def triggerException_def)+

lemma window_ok_PSR:
  "window_ok s \<Longrightarrow> key_CWP p = key_CWP (PSR s) \<Longrightarrow> window_ok (s\<lparr>PSR := p\<rparr>)"
  by (erule window_ok_cong) simp_all

lemma updateAliases_simps [simp]:
  "PSR (updateAliases c s) = PSR s" "WIM (updateAliases c s) = WIM s"
  "TBR (updateAliases c s) = TBR s" "GLOBAL (updateAliases c s) = GLOBAL s"
  "WINREGS (updateAliases c s) = WINREGS s" "PC (updateAliases c s) = PC s"
  "NPC (updateAliases c s) = NPC s" "Y (updateAliases c s) = Y s" "MEM (updateAliases c s) = MEM s"
  "ASR (updateAliases c s) = ASR s" "irqAck (updateAliases c s) = irqAck s"
  by (simp_all add: updateAliases_def)

lemma window_ok_updateAliases:
  assumes "\<forall>i\<in>{0..<8}. REGS s i = GlobRef i" "key_CWP (PSR s) = c" "c < 8"
  shows "window_ok (updateAliases c s)"
  using assms by (auto simp: window_ok_def updateAliases_def reg_of_def)

lemma window_ok_globals: "window_ok s \<Longrightarrow> \<forall>i\<in>{0..<8}. REGS s i = GlobRef i"
  by (auto simp: window_ok_def reg_of_def)

lemma window_ok_IncrementRegWindow:
  "window_ok s \<Longrightarrow> window_ok (snd (IncrementRegWindow s))"
  by (auto simp: IncrementRegWindow_def Let_def intro!: window_ok_updateAliases dest: window_ok_globals)

lemma window_ok_DecrementRegWindow:
  "window_ok s \<Longrightarrow> window_ok (snd (DecrementRegWindow s))"
  by (auto simp: DecrementRegWindow_def Let_def intro!: window_ok_updateAliases dest: window_ok_globals)

lemma key_CWP_trapPSR [simp]: "key_CWP (trapPSR psr) = decCwp psr"
  by (simp add: trapPSR_def Let_def add_replace_CWP)

lemma window_ok_enterTrap:
  assumes "window_ok s"
  shows "window_ok (enterTrap pc npc e off s)"
proof -
  define s1 where "s1 = (updateAliases (decCwp (PSR s)) s)\<lparr>PSR := trapPSR (PSR s)\<rparr>"
  have "window_ok (updateAliases (decCwp (PSR s)) (s\<lparr>PSR := trapPSR (PSR s)\<rparr>))"
    using window_ok_globals [OF assms] by (intro window_ok_updateAliases) simp_all
  then have s1: "window_ok s1"
    unfolding s1_def by (rule window_ok_cong) (auto simp: updateAliases_def)
  show ?thesis
    unfolding enterTrap_def Let_def using s1 [unfolded s1_def]
    by (auto intro!: window_ok_frame split: option.splits)
qed

lemma RaiseException_keeps [keeps_intros]:
  "window_ok s \<Longrightarrow> res_all window_ok (RaiseException pc npc e off s)"
  by (simp add: RaiseException_def window_ok_enterTrap)

lemma raise_if_keeps [keeps_intros]:
  "window_ok s \<Longrightarrow> res_all window_ok (raise_if c pc npc e s)"
  by (simp add: raise_if_def RaiseException_keeps)

end
