(* ===== verification/Leon3_Alu.thy ===== *)
theory Leon3_Alu
  imports Leon3_Window "HOL-Library.Signed_Division"
begin

text \<open>
  The integer instructions of the LEON3 core that work on registers and the
  condition codes only (src/gaisler/leon3/intunit/instructions.cpp): logic,
  addition, tagged arithmetic, shifts, multiplication, multiply-accumulate and
  division.  One definition per instruction class is its \<^verbatim>\<open>behavior\<close>;
  it takes the decoded parameters and the state and returns the cycle count
  (\<^verbatim>\<open>totalInstrCycles\<close>) and the new state.  The \<^verbatim>\<open>ICC_write\<close> and
  \<^verbatim>\<open>WB\<close> helpers are those of instructions.hpp.
\<close>

section \<open>Decoded parameters\<close>

record params =
  rd_bit :: nat
  rs1_bit :: nat
  rs2_bit :: nat
  asr :: nat
  simm13 :: u32
  asi :: u32
  cond :: u32
  annul_bit :: u32
  disp22 :: u32
  imm22 :: u32
  imm7 :: u32
  disp30 :: u32

text \<open>\<^verbatim>\<open>setParams\<close> of the instruction classes: each class reads a subset of
  these fields, always at the same bit positions.\<close>

definition setParams :: "u32 \<Rightarrow> params" where
  "setParams bitString = \<lparr>
     rd_bit = unat (drop_bit 25 (bitString AND 0x3e000000)),
     rs1_bit = unat (drop_bit 14 (bitString AND 0x7c000)),
     rs2_bit = unat (bitString AND 0x1f),
     asr = unat (drop_bit 14 (bitString AND 0x7c000)),
     simm13 = bitString AND 0x1fff,
     asi = drop_bit 5 (bitString AND 0x1fe0),
     cond = drop_bit 25 (bitString AND 0x1e000000),
     annul_bit = drop_bit 29 (bitString AND 0x20000000),
     disp22 = bitString AND 0x3fffff,
     imm22 = bitString AND 0x3fffff,
     imm7 = bitString AND 0x7f,
     disp30 = bitString AND 0x3fffffff \<rparr>"

text \<open>The operand aliases \<^verbatim>\<open>rs1\<close>, \<^verbatim>\<open>rs2\<close> and \<^verbatim>\<open>rd\<close>.\<close>

definition rs1 :: "params \<Rightarrow> 'm leon3 \<Rightarrow> u32" where
  "rs1 p s = reg s (rs1_bit p)"

definition rs2 :: "params \<Rightarrow> 'm leon3 \<Rightarrow> u32" where
  "rs2 p s = reg s (rs2_bit p)"

definition rd :: "params \<Rightarrow> 'm leon3 \<Rightarrow> u32" where
  "rd p s = reg s (rd_bit p)"

section \<open>Condition codes and write back\<close>

definition WB_plain :: "nat \<Rightarrow> u32 \<Rightarrow> 'm leon3 \<Rightarrow> 'm leon3" where
  "WB_plain rd_idx result s = set_reg rd_idx result s"

definition WB_tv :: "nat \<Rightarrow> u32 \<Rightarrow> bool \<Rightarrow> 'm leon3 \<Rightarrow> 'm leon3" where
  "WB_tv rd_idx result temp_V s = (if \<not> temp_V then set_reg rd_idx result s else s)"

text \<open>The four field writes in the order of the code.\<close>

definition write_ICC :: "u32 \<Rightarrow> u32 \<Rightarrow> u32 \<Rightarrow> u32 \<Rightarrow> 'm leon3 \<Rightarrow> 'm leon3" where
  "write_ICC n z v c s = s\<lparr>PSR := set_ICC_c c (set_ICC_v v (set_ICC_z z (set_ICC_n n (PSR s))))\<rparr>"

definition ICC_writeLogic :: "u32 \<Rightarrow> 'm leon3 \<Rightarrow> 'm leon3" where
  "ICC_writeLogic result =
     write_ICC (drop_bit 31 (result AND 0x80000000)) (int_of_bool (result = 0)) 0 0"

definition ICC_writeAdd :: "u32 \<Rightarrow> u32 \<Rightarrow> u32 \<Rightarrow> 'm leon3 \<Rightarrow> 'm leon3" where
  "ICC_writeAdd result rs1_op rs2_op =
     write_ICC (drop_bit 31 (result AND 0x80000000)) (int_of_bool (result = 0))
       (drop_bit 31 ((rs1_op AND rs2_op AND NOT result) OR (NOT rs1_op AND NOT rs2_op AND result)))
       (drop_bit 31 ((rs1_op AND rs2_op) OR ((rs1_op OR rs2_op) AND NOT result)))"

definition ICC_writeSub :: "u32 \<Rightarrow> u32 \<Rightarrow> u32 \<Rightarrow> 'm leon3 \<Rightarrow> 'm leon3" where
  "ICC_writeSub result rs1_op rs2_op =
     write_ICC (drop_bit 31 (result AND 0x80000000)) (int_of_bool (result = 0))
       (drop_bit 31 ((rs1_op AND NOT rs2_op AND NOT result) OR (NOT rs1_op AND rs2_op AND result)))
       (drop_bit 31 ((NOT rs1_op AND rs2_op) OR ((NOT rs1_op OR rs2_op) AND result)))"

definition ICC_writeTAdd :: "u32 \<Rightarrow> bool \<Rightarrow> u32 \<Rightarrow> u32 \<Rightarrow> 'm leon3 \<Rightarrow> 'm leon3" where
  "ICC_writeTAdd result temp_V rs1_op rs2_op =
     write_ICC (drop_bit 31 (result AND 0x80000000)) (int_of_bool (result = 0)) (int_of_bool temp_V)
       (drop_bit 31 ((rs1_op AND rs2_op) OR ((rs1_op OR rs2_op) AND NOT result)))"

definition ICC_writeTSub :: "u32 \<Rightarrow> bool \<Rightarrow> u32 \<Rightarrow> u32 \<Rightarrow> 'm leon3 \<Rightarrow> 'm leon3" where
  "ICC_writeTSub result temp_V rs1_op rs2_op =
     write_ICC (drop_bit 31 (result AND 0x80000000)) (int_of_bool (result = 0)) (int_of_bool temp_V)
       (drop_bit 31 ((NOT rs1_op AND rs2_op) OR ((NOT rs1_op OR rs2_op) AND result)))"

definition ICC_writeTVAdd :: "u32 \<Rightarrow> bool \<Rightarrow> u32 \<Rightarrow> u32 \<Rightarrow> 'm leon3 \<Rightarrow> 'm leon3" where
  "ICC_writeTVAdd result temp_V rs1_op rs2_op s =
     (if \<not> temp_V then
        write_ICC (drop_bit 31 (result AND 0x80000000)) (int_of_bool (result = 0)) 0
          (drop_bit 31 ((rs1_op AND rs2_op) OR ((rs1_op OR rs2_op) AND NOT result))) s
      else s)"

definition ICC_writeTVSub :: "u32 \<Rightarrow> bool \<Rightarrow> u32 \<Rightarrow> u32 \<Rightarrow> 'm leon3 \<Rightarrow> 'm leon3" where
  "ICC_writeTVSub result temp_V rs1_op rs2_op s =
     (if \<not> temp_V then
        write_ICC (drop_bit 31 (result AND 0x80000000)) (int_of_bool (result = 0)) (int_of_bool temp_V)
          (drop_bit 31 ((NOT rs1_op AND rs2_op) OR ((NOT rs1_op OR rs2_op) AND result))) s
      else s)"

definition ICC_writeDiv :: "bool \<Rightarrow> u32 \<Rightarrow> bool \<Rightarrow> 'm leon3 \<Rightarrow> 'm leon3" where
  "ICC_writeDiv exception result temp_V s =
     (if \<not> exception then
        write_ICC (drop_bit 31 (result AND 0x80000000)) (int_of_bool (result = 0)) (int_of_bool temp_V) 0 s
      else s)"

section \<open>Logic\<close>

definition AND_imm :: "params \<Rightarrow> 'm leon3 \<Rightarrow> (u32, 'm) lres" where
  "AND_imm p s =
    (let s = IncrementPC s; rs1_op = rs1 p s; rs2_op = SignExtend (simm13 p) 13;
         result = rs1_op AND rs2_op;
         s = WB_plain (rd_bit p) result s
     in Ok 0 s)"

definition AND_reg :: "params \<Rightarrow> 'm leon3 \<Rightarrow> (u32, 'm) lres" where
  "AND_reg p s =
    (let s = IncrementPC s; rs1_op = rs1 p s; rs2_op = rs2 p s;
         result = rs1_op AND rs2_op;
         s = WB_plain (rd_bit p) result s
     in Ok 0 s)"

definition ANDcc_imm :: "params \<Rightarrow> 'm leon3 \<Rightarrow> (u32, 'm) lres" where
  "ANDcc_imm p s =
    (let s = IncrementPC s; rs1_op = rs1 p s; rs2_op = SignExtend (simm13 p) 13;
         result = rs1_op AND rs2_op;
         s = ICC_writeLogic result s;
         s = WB_plain (rd_bit p) result s
     in Ok 0 s)"

definition ANDcc_reg :: "params \<Rightarrow> 'm leon3 \<Rightarrow> (u32, 'm) lres" where
  "ANDcc_reg p s =
    (let s = IncrementPC s; rs1_op = rs1 p s; rs2_op = rs2 p s;
         result = rs1_op AND rs2_op;
         s = ICC_writeLogic result s;
         s = WB_plain (rd_bit p) result s
     in Ok 0 s)"

definition ANDN_imm :: "params \<Rightarrow> 'm leon3 \<Rightarrow> (u32, 'm) lres" where
  "ANDN_imm p s =
    (let s = IncrementPC s; rs1_op = rs1 p s; rs2_op = SignExtend (simm13 p) 13;
         result = rs1_op AND NOT rs2_op;
         s = WB_plain (rd_bit p) result s
     in Ok 0 s)"

definition ANDN_reg :: "params \<Rightarrow> 'm leon3 \<Rightarrow> (u32, 'm) lres" where
  "ANDN_reg p s =
    (let s = IncrementPC s; rs1_op = rs1 p s; rs2_op = rs2 p s;
         result = rs1_op AND NOT rs2_op;
         s = WB_plain (rd_bit p) result s
     in Ok 0 s)"

definition ANDNcc_imm :: "params \<Rightarrow> 'm leon3 \<Rightarrow> (u32, 'm) lres" where
  "ANDNcc_imm p s =
    (let s = IncrementPC s; rs1_op = rs1 p s; rs2_op = SignExtend (simm13 p) 13;
         result = rs1_op AND NOT rs2_op;
         s = ICC_writeLogic result s;
         s = WB_plain (rd_bit p) result s
     in Ok 0 s)"

definition ANDNcc_reg :: "params \<Rightarrow> 'm leon3 \<Rightarrow> (u32, 'm) lres" where
  "ANDNcc_reg p s =
    (let s = IncrementPC s; rs1_op = rs1 p s; rs2_op = rs2 p s;
         result = rs1_op AND NOT rs2_op;
         s = ICC_writeLogic result s;
         s = WB_plain (rd_bit p) result s
     in Ok 0 s)"

definition OR_imm :: "params \<Rightarrow> 'm leon3 \<Rightarrow> (u32, 'm) lres" where
  "OR_imm p s =
    (let s = IncrementPC s; rs1_op = rs1 p s; rs2_op = SignExtend (simm13 p) 13;
         result = rs1_op OR rs2_op;
         s = WB_plain (rd_bit p) result s
     in Ok 0 s)"

definition OR_reg :: "params \<Rightarrow> 'm leon3 \<Rightarrow> (u32, 'm) lres" where
  "OR_reg p s =
    (let s = IncrementPC s; rs1_op = rs1 p s; rs2_op = rs2 p s;
         result = rs1_op OR rs2_op;
         s = WB_plain (rd_bit p) result s
     in Ok 0 s)"

definition ORcc_imm :: "params \<Rightarrow> 'm leon3 \<Rightarrow> (u32, 'm) lres" where
  "ORcc_imm p s =
    (let s = IncrementPC s; rs1_op = rs1 p s; rs2_op = SignExtend (simm13 p) 13;
         result = rs1_op OR rs2_op;
         s = ICC_writeLogic result s;
         s = WB_plain (rd_bit p) result s
     in Ok 0 s)"

definition ORcc_reg :: "params \<Rightarrow> 'm leon3 \<Rightarrow> (u32, 'm) lres" where
  "ORcc_reg p s =
    (let s = IncrementPC s; rs1_op = rs1 p s; rs2_op = rs2 p s;
         result = rs1_op OR rs2_op;
         s = ICC_writeLogic result s;
         s = WB_plain (rd_bit p) result s
     in Ok 0 s)"

definition ORN_imm :: "params \<Rightarrow> 'm leon3 \<Rightarrow> (u32, 'm) lres" where
  "ORN_imm p s =
    (let s = IncrementPC s; rs1_op = rs1 p s; rs2_op = SignExtend (simm13 p) 13;
         result = rs1_op OR NOT rs2_op;
         s = WB_plain (rd_bit p) result s
     in Ok 0 s)"

definition ORN_reg :: "params \<Rightarrow> 'm leon3 \<Rightarrow> (u32, 'm) lres" where
  "ORN_reg p s =
    (let s = IncrementPC s; rs1_op = rs1 p s; rs2_op = rs2 p s;
         result = rs1_op OR NOT rs2_op;
         s = WB_plain (rd_bit p) result s
     in Ok 0 s)"

definition ORNcc_imm :: "params \<Rightarrow> 'm leon3 \<Rightarrow> (u32, 'm) lres" where
  "ORNcc_imm p s =
    (let s = IncrementPC s; rs1_op = rs1 p s; rs2_op = SignExtend (simm13 p) 13;
         result = rs1_op OR NOT rs2_op;
         s = ICC_writeLogic result s;
         s = WB_plain (rd_bit p) result s
     in Ok 0 s)"

definition ORNcc_reg :: "params \<Rightarrow> 'm leon3 \<Rightarrow> (u32, 'm) lres" where
  "ORNcc_reg p s =
    (let s = IncrementPC s; rs1_op = rs1 p s; rs2_op = rs2 p s;
         result = rs1_op OR NOT rs2_op;
         s = ICC_writeLogic result s;
         s = WB_plain (rd_bit p) result s
     in Ok 0 s)"

definition XOR_imm :: "params \<Rightarrow> 'm leon3 \<Rightarrow> (u32, 'm) lres" where
  "XOR_imm p s =
    (let s = IncrementPC s; rs1_op = rs1 p s; rs2_op = SignExtend (simm13 p) 13;
         result = rs1_op XOR rs2_op;
         s = WB_plain (rd_bit p) result s
     in Ok 0 s)"

definition XOR_reg :: "params \<Rightarrow> 'm leon3 \<Rightarrow> (u32, 'm) lres" where
  "XOR_reg p s =
    (let s = IncrementPC s; rs1_op = rs1 p s; rs2_op = rs2 p s;
         result = rs1_op XOR rs2_op;
         s = WB_plain (rd_bit p) result s
     in Ok 0 s)"

definition XORcc_imm :: "params \<Rightarrow> 'm leon3 \<Rightarrow> (u32, 'm) lres" where
  "XORcc_imm p s =
    (let s = IncrementPC s; rs1_op = rs1 p s; rs2_op = SignExtend (simm13 p) 13;
         result = rs1_op XOR rs2_op;
         s = ICC_writeLogic result s;
         s = WB_plain (rd_bit p) result s
     in Ok 0 s)"

definition XORcc_reg :: "params \<Rightarrow> 'm leon3 \<Rightarrow> (u32, 'm) lres" where
  "XORcc_reg p s =
    (let s = IncrementPC s; rs1_op = rs1 p s; rs2_op = rs2 p s;
         result = rs1_op XOR rs2_op;
         s = ICC_writeLogic result s;
         s = WB_plain (rd_bit p) result s
     in Ok 0 s)"

definition XNOR_imm :: "params \<Rightarrow> 'm leon3 \<Rightarrow> (u32, 'm) lres" where
  "XNOR_imm p s =
    (let s = IncrementPC s; rs1_op = rs1 p s; rs2_op = SignExtend (simm13 p) 13;
         result = rs1_op XOR NOT rs2_op;
         s = WB_plain (rd_bit p) result s
     in Ok 0 s)"

definition XNOR_reg :: "params \<Rightarrow> 'm leon3 \<Rightarrow> (u32, 'm) lres" where
  "XNOR_reg p s =
    (let s = IncrementPC s; rs1_op = rs1 p s; rs2_op = rs2 p s;
         result = rs1_op XOR NOT rs2_op;
         s = WB_plain (rd_bit p) result s
     in Ok 0 s)"

definition XNORcc_imm :: "params \<Rightarrow> 'm leon3 \<Rightarrow> (u32, 'm) lres" where
  "XNORcc_imm p s =
    (let s = IncrementPC s; rs1_op = rs1 p s; rs2_op = SignExtend (simm13 p) 13;
         result = rs1_op XOR NOT rs2_op;
         s = ICC_writeLogic result s;
         s = WB_plain (rd_bit p) result s
     in Ok 0 s)"

definition XNORcc_reg :: "params \<Rightarrow> 'm leon3 \<Rightarrow> (u32, 'm) lres" where
  "XNORcc_reg p s =
    (let s = IncrementPC s; rs1_op = rs1 p s; rs2_op = rs2 p s;
         result = rs1_op XOR NOT rs2_op;
         s = ICC_writeLogic result s;
         s = WB_plain (rd_bit p) result s
     in Ok 0 s)"

section \<open>Addition and subtraction\<close>

definition ADD_imm :: "params \<Rightarrow> 'm leon3 \<Rightarrow> (u32, 'm) lres" where
  "ADD_imm p s =
    (let s = IncrementPC s; rs1_op = rs1 p s; rs2_op = SignExtend (simm13 p) 13;
         result = rs1_op + rs2_op;
         s = WB_plain (rd_bit p) result s
     in Ok 0 s)"

definition ADD_reg :: "params \<Rightarrow> 'm leon3 \<Rightarrow> (u32, 'm) lres" where
  "ADD_reg p s =
    (let s = IncrementPC s; rs1_op = rs1 p s; rs2_op = rs2 p s;
         result = rs1_op + rs2_op;
         s = WB_plain (rd_bit p) result s
     in Ok 0 s)"

definition ADDcc_imm :: "params \<Rightarrow> 'm leon3 \<Rightarrow> (u32, 'm) lres" where
  "ADDcc_imm p s =
    (let s = IncrementPC s; rs1_op = rs1 p s; rs2_op = SignExtend (simm13 p) 13;
         result = rs1_op + rs2_op;
         s = ICC_writeAdd result rs1_op rs2_op s;
         s = WB_plain (rd_bit p) result s
     in Ok 0 s)"

definition ADDcc_reg :: "params \<Rightarrow> 'm leon3 \<Rightarrow> (u32, 'm) lres" where
  "ADDcc_reg p s =
    (let s = IncrementPC s; rs1_op = rs1 p s; rs2_op = rs2 p s;
         result = rs1_op + rs2_op;
         s = ICC_writeAdd result rs1_op rs2_op s;
         s = WB_plain (rd_bit p) result s
     in Ok 0 s)"

definition ADDX_imm :: "params \<Rightarrow> 'm leon3 \<Rightarrow> (u32, 'm) lres" where
  "ADDX_imm p s =
    (let s = IncrementPC s; rs1_op = rs1 p s; rs2_op = SignExtend (simm13 p) 13;
         result = rs1_op + rs2_op + key_ICC_c (PSR s);
         s = WB_plain (rd_bit p) result s
     in Ok 0 s)"

definition ADDX_reg :: "params \<Rightarrow> 'm leon3 \<Rightarrow> (u32, 'm) lres" where
  "ADDX_reg p s =
    (let s = IncrementPC s; rs1_op = rs1 p s; rs2_op = rs2 p s;
         result = rs1_op + rs2_op + key_ICC_c (PSR s);
         s = WB_plain (rd_bit p) result s
     in Ok 0 s)"

definition ADDXcc_imm :: "params \<Rightarrow> 'm leon3 \<Rightarrow> (u32, 'm) lres" where
  "ADDXcc_imm p s =
    (let s = IncrementPC s; rs1_op = rs1 p s; rs2_op = SignExtend (simm13 p) 13;
         result = rs1_op + rs2_op + key_ICC_c (PSR s);
         s = ICC_writeAdd result rs1_op rs2_op s;
         s = WB_plain (rd_bit p) result s
     in Ok 0 s)"

definition ADDXcc_reg :: "params \<Rightarrow> 'm leon3 \<Rightarrow> (u32, 'm) lres" where
  "ADDXcc_reg p s =
    (let s = IncrementPC s; rs1_op = rs1 p s; rs2_op = rs2 p s;
         result = rs1_op + rs2_op + key_ICC_c (PSR s);
         s = ICC_writeAdd result rs1_op rs2_op s;
         s = WB_plain (rd_bit p) result s
     in Ok 0 s)"

definition SUB_imm :: "params \<Rightarrow> 'm leon3 \<Rightarrow> (u32, 'm) lres" where
  "SUB_imm p s =
    (let s = IncrementPC s; rs1_op = rs1 p s; rs2_op = SignExtend (simm13 p) 13;
         result = rs1_op - rs2_op;
         s = WB_plain (rd_bit p) result s
     in Ok 0 s)"

definition SUB_reg :: "params \<Rightarrow> 'm leon3 \<Rightarrow> (u32, 'm) lres" where
  "SUB_reg p s =
    (let s = IncrementPC s; rs1_op = rs1 p s; rs2_op = rs2 p s;
         result = rs1_op - rs2_op;
         s = WB_plain (rd_bit p) result s
     in Ok 0 s)"

definition SUBcc_imm :: "params \<Rightarrow> 'm leon3 \<Rightarrow> (u32, 'm) lres" where
  "SUBcc_imm p s =
    (let s = IncrementPC s; rs1_op = rs1 p s; rs2_op = SignExtend (simm13 p) 13;
         result = rs1_op - rs2_op;
         s = ICC_writeSub result rs1_op rs2_op s;
         s = WB_plain (rd_bit p) result s
     in Ok 0 s)"

definition SUBcc_reg :: "params \<Rightarrow> 'm leon3 \<Rightarrow> (u32, 'm) lres" where
  "SUBcc_reg p s =
    (let s = IncrementPC s; rs1_op = rs1 p s; rs2_op = rs2 p s;
         result = rs1_op - rs2_op;
         s = ICC_writeSub result rs1_op rs2_op s;
         s = WB_plain (rd_bit p) result s
     in Ok 0 s)"

definition SUBX_imm :: "params \<Rightarrow> 'm leon3 \<Rightarrow> (u32, 'm) lres" where
  "SUBX_imm p s =
    (let s = IncrementPC s; rs1_op = rs1 p s; rs2_op = SignExtend (simm13 p) 13;
         result = rs1_op - rs2_op - key_ICC_c (PSR s);
         s = WB_plain (rd_bit p) result s
     in Ok 0 s)"

definition SUBX_reg :: "params \<Rightarrow> 'm leon3 \<Rightarrow> (u32, 'm) lres" where
  "SUBX_reg p s =
    (let s = IncrementPC s; rs1_op = rs1 p s; rs2_op = rs2 p s;
         result = rs1_op - rs2_op - key_ICC_c (PSR s);
         s = WB_plain (rd_bit p) result s
     in Ok 0 s)"

definition SUBXcc_imm :: "params \<Rightarrow> 'm leon3 \<Rightarrow> (u32, 'm) lres" where
  "SUBXcc_imm p s =
    (let s = IncrementPC s; rs1_op = rs1 p s; rs2_op = SignExtend (simm13 p) 13;
         result = rs1_op - rs2_op - key_ICC_c (PSR s);
         s = ICC_writeSub result rs1_op rs2_op s;
         s = WB_plain (rd_bit p) result s
     in Ok 0 s)"

definition SUBXcc_reg :: "params \<Rightarrow> 'm leon3 \<Rightarrow> (u32, 'm) lres" where
  "SUBXcc_reg p s =
    (let s = IncrementPC s; rs1_op = rs1 p s; rs2_op = rs2 p s;
         result = rs1_op - rs2_op - key_ICC_c (PSR s);
         s = ICC_writeSub result rs1_op rs2_op s;
         s = WB_plain (rd_bit p) result s
     in Ok 0 s)"

section \<open>Tagged arithmetic\<close>

text \<open>The overflow condition of the tagged instructions: arithmetic overflow, or
  a set tag bit in an operand.\<close>

definition tagged_add_V :: "u32 \<Rightarrow> u32 \<Rightarrow> u32 \<Rightarrow> bool" where
  "tagged_add_V result rs1_op rs2_op =
    (let temp_V = (drop_bit 31 ((rs1_op AND rs2_op AND NOT result) OR (NOT rs1_op AND NOT rs2_op AND result)) \<noteq> 0)
     in temp_V \<or> (rs1_op OR rs2_op) AND 0x00000003 \<noteq> 0)"

definition tagged_sub_V :: "u32 \<Rightarrow> u32 \<Rightarrow> u32 \<Rightarrow> bool" where
  "tagged_sub_V result rs1_op rs2_op =
    (let temp_V = (drop_bit 31 ((rs1_op AND NOT rs2_op AND NOT result) OR (NOT rs1_op AND rs2_op AND result)) \<noteq> 0)
     in temp_V \<or> (rs1_op OR rs2_op) AND 0x00000003 \<noteq> 0)"

definition TADDcc_imm :: "params \<Rightarrow> 'm leon3 \<Rightarrow> (u32, 'm) lres" where
  "TADDcc_imm p s =
    (let s = IncrementPC s; rs1_op = rs1 p s; rs2_op = SignExtend (simm13 p) 13;
         result = rs1_op + rs2_op;
         temp_V = tagged_add_V result rs1_op rs2_op;
         s = ICC_writeTAdd result temp_V rs1_op rs2_op s;
         s = WB_plain (rd_bit p) result s
     in Ok 0 s)"

definition TADDccTV_imm :: "params \<Rightarrow> 'm leon3 \<Rightarrow> (u32, 'm) lres" where
  "TADDccTV_imm p s =
    (let pcounter = PC s; npcounter = NPC s; s = IncrementPC s;
         rs1_op = rs1 p s; rs2_op = SignExtend (simm13 p) 13;
         result = rs1_op + rs2_op;
         temp_V = tagged_add_V result rs1_op rs2_op;
         s = ICC_writeTVAdd result temp_V rs1_op rs2_op s
     in and_then (raise_if temp_V pcounter npcounter TAG_OVERFLOW s)
          (\<lambda>_ s. Ok 0 (WB_tv (rd_bit p) result temp_V s)))"

definition TADDcc_reg :: "params \<Rightarrow> 'm leon3 \<Rightarrow> (u32, 'm) lres" where
  "TADDcc_reg p s =
    (let s = IncrementPC s; rs1_op = rs1 p s; rs2_op = rs2 p s;
         result = rs1_op + rs2_op;
         temp_V = tagged_add_V result rs1_op rs2_op;
         s = ICC_writeTAdd result temp_V rs1_op rs2_op s;
         s = WB_plain (rd_bit p) result s
     in Ok 0 s)"

definition TADDccTV_reg :: "params \<Rightarrow> 'm leon3 \<Rightarrow> (u32, 'm) lres" where
  "TADDccTV_reg p s =
    (let pcounter = PC s; npcounter = NPC s; s = IncrementPC s;
         rs1_op = rs1 p s; rs2_op = rs2 p s;
         result = rs1_op + rs2_op;
         temp_V = tagged_add_V result rs1_op rs2_op;
         s = ICC_writeTVAdd result temp_V rs1_op rs2_op s
     in and_then (raise_if temp_V pcounter npcounter TAG_OVERFLOW s)
          (\<lambda>_ s. Ok 0 (WB_tv (rd_bit p) result temp_V s)))"

definition TSUBcc_imm :: "params \<Rightarrow> 'm leon3 \<Rightarrow> (u32, 'm) lres" where
  "TSUBcc_imm p s =
    (let s = IncrementPC s; rs1_op = rs1 p s; rs2_op = SignExtend (simm13 p) 13;
         result = rs1_op - rs2_op;
         temp_V = tagged_sub_V result rs1_op rs2_op;
         s = ICC_writeTSub result temp_V rs1_op rs2_op s;
         s = WB_plain (rd_bit p) result s
     in Ok 0 s)"

definition TSUBccTV_imm :: "params \<Rightarrow> 'm leon3 \<Rightarrow> (u32, 'm) lres" where
  "TSUBccTV_imm p s =
    (let pcounter = PC s; npcounter = NPC s; s = IncrementPC s;
         rs1_op = rs1 p s; rs2_op = SignExtend (simm13 p) 13;
         result = rs1_op - rs2_op;
         temp_V = tagged_sub_V result rs1_op rs2_op;
         s = ICC_writeTVSub result temp_V rs1_op rs2_op s
     in and_then (raise_if temp_V pcounter npcounter TAG_OVERFLOW s)
          (\<lambda>_ s. Ok 0 (WB_tv (rd_bit p) result temp_V s)))"

definition TSUBcc_reg :: "params \<Rightarrow> 'm leon3 \<Rightarrow> (u32, 'm) lres" where
  "TSUBcc_reg p s =
    (let s = IncrementPC s; rs1_op = rs1 p s; rs2_op = rs2 p s;
         result = rs1_op - rs2_op;
         temp_V = tagged_sub_V result rs1_op rs2_op;
         s = ICC_writeTSub result temp_V rs1_op rs2_op s;
         s = WB_plain (rd_bit p) result s
     in Ok 0 s)"

definition TSUBccTV_reg :: "params \<Rightarrow> 'm leon3 \<Rightarrow> (u32, 'm) lres" where
  "TSUBccTV_reg p s =
    (let pcounter = PC s; npcounter = NPC s; s = IncrementPC s;
         rs1_op = rs1 p s; rs2_op = rs2 p s;
         result = rs1_op - rs2_op;
         temp_V = tagged_sub_V result rs1_op rs2_op;
         s = ICC_writeTVSub result temp_V rs1_op rs2_op s
     in and_then (raise_if temp_V pcounter npcounter TAG_OVERFLOW s)
          (\<lambda>_ s. Ok 0 (WB_tv (rd_bit p) result temp_V s)))"

section \<open>Shifts and SETHI\<close>

text \<open>The immediate forms shift by the whole 13-bit field; C++ leaves a shift
  by 32 or more undefined.\<close>

definition SLL_imm :: "params \<Rightarrow> 'm leon3 \<Rightarrow> (u32, 'm) lres" where
  "SLL_imm p s =
    (let s = IncrementPC s; rs1_op = rs1 p s
     in if simm13 p < 32
        then (let result = push_bit (unat (simm13 p)) rs1_op in Ok 0 (WB_plain (rd_bit p) result s))
        else Throw Undefined_Behaviour)"

definition SLL_reg :: "params \<Rightarrow> 'm leon3 \<Rightarrow> (u32, 'm) lres" where
  "SLL_reg p s =
    (let s = IncrementPC s; rs1_op = rs1 p s; rs2_op = rs2 p s;
         result = push_bit (unat (rs2_op AND 0x0000001f)) rs1_op
     in Ok 0 (WB_plain (rd_bit p) result s))"

definition SRL_imm :: "params \<Rightarrow> 'm leon3 \<Rightarrow> (u32, 'm) lres" where
  "SRL_imm p s =
    (let s = IncrementPC s; rs1_op = rs1 p s
     in if simm13 p < 32
        then (let result = drop_bit (unat (simm13 p)) rs1_op in Ok 0 (WB_plain (rd_bit p) result s))
        else Throw Undefined_Behaviour)"

definition SRL_reg :: "params \<Rightarrow> 'm leon3 \<Rightarrow> (u32, 'm) lres" where
  "SRL_reg p s =
    (let s = IncrementPC s; rs1_op = rs1 p s; rs2_op = rs2 p s;
         result = drop_bit (unat (rs2_op AND 0x0000001f)) rs1_op
     in Ok 0 (WB_plain (rd_bit p) result s))"

definition SRA_imm :: "params \<Rightarrow> 'm leon3 \<Rightarrow> (u32, 'm) lres" where
  "SRA_imm p s =
    (let s = IncrementPC s; rs1_op = rs1 p s
     in if simm13 p < 32
        then (let result = signed_drop_bit (unat (simm13 p)) rs1_op in Ok 0 (WB_plain (rd_bit p) result s))
        else Throw Undefined_Behaviour)"

definition SRA_reg :: "params \<Rightarrow> 'm leon3 \<Rightarrow> (u32, 'm) lres" where
  "SRA_reg p s =
    (let s = IncrementPC s; rs1_op = rs1 p s; rs2_op = rs2 p s;
         result = signed_drop_bit (unat (rs2_op AND 0x0000001f)) rs1_op
     in Ok 0 (WB_plain (rd_bit p) result s))"

definition SETHI :: "params \<Rightarrow> 'm leon3 \<Rightarrow> (u32, 'm) lres" where
  "SETHI p s =
    (let s = IncrementPC s; result = 0xfffffc00 AND push_bit 10 (imm22 p)
     in Ok 0 (WB_plain (rd_bit p) result s))"

section \<open>Multiplication\<close>

definition UMUL_imm :: "params \<Rightarrow> 'm leon3 \<Rightarrow> (u32, 'm) lres" where
  "UMUL_imm p s =
    (let s = IncrementPC s; rs1_op = rs1 p s; rs2_op = SignExtend (simm13 p) 13;
         resultTemp = (ucast rs1_op :: u64) * ucast rs2_op;
         s = s\<lparr>Y := ucast (drop_bit 32 resultTemp)\<rparr>;
         result = ucast (resultTemp AND 0x00000000FFFFFFFF);
         s = WB_plain (rd_bit p) result s
     in Ok 3 s)"

definition UMUL_reg :: "params \<Rightarrow> 'm leon3 \<Rightarrow> (u32, 'm) lres" where
  "UMUL_reg p s =
    (let s = IncrementPC s; rs1_op = rs1 p s; rs2_op = rs2 p s;
         resultTemp = (ucast rs1_op :: u64) * ucast rs2_op;
         s = s\<lparr>Y := ucast (drop_bit 32 resultTemp)\<rparr>;
         result = ucast (resultTemp AND 0x00000000FFFFFFFF);
         s = WB_plain (rd_bit p) result s
     in Ok 3 s)"

definition UMULcc_imm :: "params \<Rightarrow> 'm leon3 \<Rightarrow> (u32, 'm) lres" where
  "UMULcc_imm p s =
    (let s = IncrementPC s; rs1_op = rs1 p s; rs2_op = SignExtend (simm13 p) 13;
         resultTemp = (ucast rs1_op :: u64) * ucast rs2_op;
         s = s\<lparr>Y := ucast (drop_bit 32 resultTemp)\<rparr>;
         result = ucast (resultTemp AND 0x00000000FFFFFFFF);
         s = ICC_writeLogic result s;
         s = WB_plain (rd_bit p) result s
     in Ok 3 s)"

definition UMULcc_reg :: "params \<Rightarrow> 'm leon3 \<Rightarrow> (u32, 'm) lres" where
  "UMULcc_reg p s =
    (let s = IncrementPC s; rs1_op = rs1 p s; rs2_op = rs2 p s;
         resultTemp = (ucast rs1_op :: u64) * ucast rs2_op;
         s = s\<lparr>Y := ucast (drop_bit 32 resultTemp)\<rparr>;
         result = ucast (resultTemp AND 0x00000000FFFFFFFF);
         s = ICC_writeLogic result s;
         s = WB_plain (rd_bit p) result s
     in Ok 3 s)"

definition SMUL_imm :: "params \<Rightarrow> 'm leon3 \<Rightarrow> (u32, 'm) lres" where
  "SMUL_imm p s =
    (let s = IncrementPC s; rs1_op = rs1 p s; rs2_op = SignExtend (simm13 p) 13;
         resultTemp = (scast rs1_op :: u64) * scast rs2_op;
         s = s\<lparr>Y := ucast (drop_bit 32 resultTemp)\<rparr>;
         result = ucast (resultTemp AND 0x00000000FFFFFFFF);
         s = WB_plain (rd_bit p) result s
     in Ok 3 s)"

definition SMUL_reg :: "params \<Rightarrow> 'm leon3 \<Rightarrow> (u32, 'm) lres" where
  "SMUL_reg p s =
    (let s = IncrementPC s; rs1_op = rs1 p s; rs2_op = rs2 p s;
         resultTemp = (scast rs1_op :: u64) * scast rs2_op;
         s = s\<lparr>Y := ucast (drop_bit 32 resultTemp)\<rparr>;
         result = ucast (resultTemp AND 0x00000000FFFFFFFF);
         s = WB_plain (rd_bit p) result s
     in Ok 3 s)"

definition SMULcc_imm :: "params \<Rightarrow> 'm leon3 \<Rightarrow> (u32, 'm) lres" where
  "SMULcc_imm p s =
    (let s = IncrementPC s; rs1_op = rs1 p s; rs2_op = SignExtend (simm13 p) 13;
         resultTemp = (scast rs1_op :: u64) * scast rs2_op;
         s = s\<lparr>Y := ucast (drop_bit 32 resultTemp)\<rparr>;
         result = ucast (resultTemp AND 0x00000000FFFFFFFF);
         s = ICC_writeLogic result s;
         s = WB_plain (rd_bit p) result s
     in Ok 3 s)"

definition SMULcc_reg :: "params \<Rightarrow> 'm leon3 \<Rightarrow> (u32, 'm) lres" where
  "SMULcc_reg p s =
    (let s = IncrementPC s; rs1_op = rs1 p s; rs2_op = rs2 p s;
         resultTemp = (scast rs1_op :: u64) * scast rs2_op;
         s = s\<lparr>Y := ucast (drop_bit 32 resultTemp)\<rparr>;
         result = ucast (resultTemp AND 0x00000000FFFFFFFF);
         s = ICC_writeLogic result s;
         s = WB_plain (rd_bit p) result s
     in Ok 3 s)"

text \<open>One step of the multiply-step instruction: the shifted first operand, the
  addend and the new \<^verbatim>\<open>Y\<close>.\<close>

definition MULScc_imm :: "params \<Rightarrow> 'm leon3 \<Rightarrow> (u32, 'm) lres" where
  "MULScc_imm p s =
    (let s = IncrementPC s; rs1_op = rs1 p s; rs2_op = SignExtend (simm13 p) 13;
         yNew = drop_bit 1 (Y s) OR push_bit 31 rs1_op;
         rs1_op = push_bit 31 (key_ICC_n (PSR s) XOR key_ICC_v (PSR s)) OR drop_bit 1 rs1_op;
         yOld = Y s;
         result = (if yOld AND 0x00000001 \<noteq> 0 then rs1_op + rs2_op else rs1_op);
         rs2_op = (if yOld AND 0x00000001 \<noteq> 0 then rs2_op else 0);
         s = s\<lparr>Y := yNew\<rparr>;
         s = ICC_writeAdd result rs1_op rs2_op s;
         s = WB_plain (rd_bit p) result s
     in Ok 0 s)"

definition MULScc_reg :: "params \<Rightarrow> 'm leon3 \<Rightarrow> (u32, 'm) lres" where
  "MULScc_reg p s =
    (let s = IncrementPC s; rs1_op = rs1 p s; rs2_op = rs2 p s;
         yNew = drop_bit 1 (Y s) OR push_bit 31 rs1_op;
         rs1_op = push_bit 31 (key_ICC_n (PSR s) XOR key_ICC_v (PSR s)) OR drop_bit 1 rs1_op;
         yOld = Y s;
         result = (if yOld AND 0x00000001 \<noteq> 0 then rs1_op + rs2_op else rs1_op);
         rs2_op = (if yOld AND 0x00000001 \<noteq> 0 then rs2_op else 0);
         s = s\<lparr>Y := yNew\<rparr>;
         s = ICC_writeAdd result rs1_op rs2_op s;
         s = WB_plain (rd_bit p) result s
     in Ok 0 s)"

section \<open>Multiply-accumulate\<close>

definition UMAC_imm :: "params \<Rightarrow> 'm leon3 \<Rightarrow> (u32, 'm) lres" where
  "UMAC_imm p s =
    (let s = IncrementPC s; rs1_op = rs1 p s; rs2_op = SignExtend (simm13 p) 13;
         resultTemp = (rs1_op AND 0x0000ffff) * (rs2_op AND 0x0000ffff);
         resultAcc = (push_bit 32 (ucast (Y s AND 0x000000ff)) OR ucast (ASR s 18) :: u64) + ucast resultTemp;
         s = s\<lparr>Y := ucast (drop_bit 32 (resultAcc AND 0x000000ff00000000))\<rparr>;
         s = s\<lparr>ASR := (ASR s)(18 := ucast (resultAcc AND 0x00000000FFFFFFFF))\<rparr>;
         result = ucast (resultAcc AND 0x00000000FFFFFFFF)
     in Ok 1 (WB_plain (rd_bit p) result s))"

definition SMAC_imm :: "params \<Rightarrow> 'm leon3 \<Rightarrow> (u32, 'm) lres" where
  "SMAC_imm p s =
    (let s = IncrementPC s; rs1_op = rs1 p s; rs2_op = SignExtend (simm13 p) 13;
         resultTemp = SignExtend (rs1_op AND 0x0000ffff) 16 * SignExtend (rs2_op AND 0x0000ffff) 16;
         resultAcc = (push_bit 32 (ucast (Y s AND 0x000000ff)) OR scast (ASR s 18) :: u64) + scast resultTemp;
         s = s\<lparr>Y := ucast (drop_bit 32 (resultAcc AND 0x000000ff00000000))\<rparr>;
         s = s\<lparr>ASR := (ASR s)(18 := ucast (resultAcc AND 0x00000000FFFFFFFF))\<rparr>;
         result = ucast (resultAcc AND 0x00000000FFFFFFFF)
     in Ok 1 (WB_plain (rd_bit p) result s))"

definition UMAC_reg :: "params \<Rightarrow> 'm leon3 \<Rightarrow> (u32, 'm) lres" where
  "UMAC_reg p s =
    (let s = IncrementPC s; rs1_op = rs1 p s; rs2_op = rs2 p s;
         resultTemp = (rs1_op AND 0x0000ffff) * (rs2_op AND 0x0000ffff);
         resultAcc = (push_bit 32 (ucast (Y s AND 0x000000ff)) OR ucast (ASR s 18) :: u64) + ucast resultTemp;
         s = s\<lparr>Y := ucast (drop_bit 32 (resultAcc AND 0x000000ff00000000))\<rparr>;
         s = s\<lparr>ASR := (ASR s)(18 := ucast (resultAcc AND 0x00000000FFFFFFFF))\<rparr>;
         result = ucast (resultAcc AND 0x00000000FFFFFFFF)
     in Ok 1 (WB_plain (rd_bit p) result s))"

definition SMAC_reg :: "params \<Rightarrow> 'm leon3 \<Rightarrow> (u32, 'm) lres" where
  "SMAC_reg p s =
    (let s = IncrementPC s; rs1_op = rs1 p s; rs2_op = rs2 p s;
         resultTemp = SignExtend (rs1_op AND 0x0000ffff) 16 * SignExtend (rs2_op AND 0x0000ffff) 16;
         resultAcc = (push_bit 32 (ucast (Y s AND 0x000000ff)) OR scast (ASR s 18) :: u64) + scast resultTemp;
         s = s\<lparr>Y := ucast (drop_bit 32 (resultAcc AND 0x000000ff00000000))\<rparr>;
         s = s\<lparr>ASR := (ASR s)(18 := ucast (resultAcc AND 0x00000000FFFFFFFF))\<rparr>;
         result = ucast (resultAcc AND 0x00000000FFFFFFFF)
     in Ok 1 (WB_plain (rd_bit p) result s))"

section \<open>Division\<close>

text \<open>The 64-by-32-bit quotients with saturation: the result word and
  \<^verbatim>\<open>temp_V\<close>.  The signed division of the smallest 64-bit integer by -1 is
  undefined in C++.\<close>

definition udiv_result :: "u32 \<Rightarrow> u32 \<Rightarrow> u32 \<Rightarrow> u32 \<times> bool" where
  "udiv_result y rs1_op rs2_op =
    (let res64 = (push_bit 32 (ucast y) OR ucast rs1_op :: u64) div ucast rs2_op;
         temp_V = res64 AND 0xFFFFFFFF00000000 \<noteq> 0
     in (if temp_V then 0xFFFFFFFF else ucast (res64 AND 0x00000000FFFFFFFF), temp_V))"

definition sdiv_undefined :: "u32 \<Rightarrow> u32 \<Rightarrow> u32 \<Rightarrow> bool" where
  "sdiv_undefined y rs1_op rs2_op =
    ((push_bit 32 (ucast y) OR ucast rs1_op :: u64) = 0x8000000000000000 \<and> rs2_op = 0xFFFFFFFF)"

definition sdiv_result :: "u32 \<Rightarrow> u32 \<Rightarrow> u32 \<Rightarrow> u32 \<times> bool" where
  "sdiv_result y rs1_op rs2_op =
    (let res64 = (word_of_int (sint (push_bit 32 (ucast y) OR ucast rs1_op :: u64) sdiv sint rs2_op) :: u64);
         temp_V = res64 AND 0xFFFFFFFF80000000 \<noteq> 0 \<and> res64 AND 0xFFFFFFFF80000000 \<noteq> 0xFFFFFFFF80000000
     in (if temp_V then (if 0 <s res64 then 0x7FFFFFFF else 0x80000000)
         else ucast (res64 AND 0x00000000FFFFFFFF), temp_V))"

text \<open>With a zero divisor \<^verbatim>\<open>result\<close> keeps an older value, which nothing reads:
  \<^const>\<open>RaiseException\<close> with \<^verbatim>\<open>DIV_ZERO\<close> does not return.\<close>

definition UDIV_imm :: "params \<Rightarrow> 'm leon3 \<Rightarrow> (u32, 'm) lres" where
  "UDIV_imm p s =
    (let pcounter = PC s; npcounter = NPC s; s = IncrementPC s;
         rs1_op = rs1 p s; rs2_op = SignExtend (simm13 p) 13;
         exception = (rs2_op = 0);
         (result, temp_V) = (if exception then (0, False) else udiv_result (Y s) rs1_op rs2_op);
         wb = WB_plain (rd_bit p) result
     in and_then (raise_if exception pcounter npcounter DIV_ZERO s) (\<lambda>_ s. Ok 34 (wb s)))"

definition UDIV_reg :: "params \<Rightarrow> 'm leon3 \<Rightarrow> (u32, 'm) lres" where
  "UDIV_reg p s =
    (let pcounter = PC s; npcounter = NPC s; s = IncrementPC s;
         rs1_op = rs1 p s; rs2_op = rs2 p s;
         exception = (rs2_op = 0);
         (result, temp_V) = (if exception then (0, False) else udiv_result (Y s) rs1_op rs2_op);
         wb = WB_plain (rd_bit p) result
     in and_then (raise_if exception pcounter npcounter DIV_ZERO s) (\<lambda>_ s. Ok 34 (wb s)))"

definition UDIVcc_imm :: "params \<Rightarrow> 'm leon3 \<Rightarrow> (u32, 'm) lres" where
  "UDIVcc_imm p s =
    (let pcounter = PC s; npcounter = NPC s; s = IncrementPC s;
         rs1_op = rs1 p s; rs2_op = SignExtend (simm13 p) 13;
         exception = (rs2_op = 0);
         (result, temp_V) = (if exception then (0, False) else udiv_result (Y s) rs1_op rs2_op);
         s = ICC_writeDiv exception result temp_V s;
         wb = WB_plain (rd_bit p) result
     in and_then (raise_if exception pcounter npcounter DIV_ZERO s) (\<lambda>_ s. Ok 34 (wb s)))"

definition UDIVcc_reg :: "params \<Rightarrow> 'm leon3 \<Rightarrow> (u32, 'm) lres" where
  "UDIVcc_reg p s =
    (let pcounter = PC s; npcounter = NPC s; s = IncrementPC s;
         rs1_op = rs1 p s; rs2_op = rs2 p s;
         exception = (rs2_op = 0);
         (result, temp_V) = (if exception then (0, False) else udiv_result (Y s) rs1_op rs2_op);
         s = ICC_writeDiv exception result temp_V s;
         wb = WB_plain (rd_bit p) result
     in and_then (raise_if exception pcounter npcounter DIV_ZERO s) (\<lambda>_ s. Ok 34 (wb s)))"

definition SDIV_imm :: "params \<Rightarrow> 'm leon3 \<Rightarrow> (u32, 'm) lres" where
  "SDIV_imm p s =
    (let pcounter = PC s; npcounter = NPC s; s = IncrementPC s;
         rs1_op = rs1 p s; rs2_op = SignExtend (simm13 p) 13;
         exception = (rs2_op = 0);
         undef = (\<not> exception \<and> sdiv_undefined (Y s) rs1_op rs2_op);
         (result, temp_V) = (if exception then (0, False) else sdiv_result (Y s) rs1_op rs2_op);
         wb = WB_plain (rd_bit p) result
     in if undef then Throw Undefined_Behaviour else
          and_then (raise_if exception pcounter npcounter DIV_ZERO s) (\<lambda>_ s. Ok 34 (wb s)))"

definition SDIV_reg :: "params \<Rightarrow> 'm leon3 \<Rightarrow> (u32, 'm) lres" where
  "SDIV_reg p s =
    (let pcounter = PC s; npcounter = NPC s; s = IncrementPC s;
         rs1_op = rs1 p s; rs2_op = rs2 p s;
         exception = (rs2_op = 0);
         undef = (\<not> exception \<and> sdiv_undefined (Y s) rs1_op rs2_op);
         (result, temp_V) = (if exception then (0, False) else sdiv_result (Y s) rs1_op rs2_op);
         wb = WB_plain (rd_bit p) result
     in if undef then Throw Undefined_Behaviour else
          and_then (raise_if exception pcounter npcounter DIV_ZERO s) (\<lambda>_ s. Ok 34 (wb s)))"

definition SDIVcc_imm :: "params \<Rightarrow> 'm leon3 \<Rightarrow> (u32, 'm) lres" where
  "SDIVcc_imm p s =
    (let pcounter = PC s; npcounter = NPC s; s = IncrementPC s;
         rs1_op = rs1 p s; rs2_op = SignExtend (simm13 p) 13;
         exception = (rs2_op = 0);
         undef = (\<not> exception \<and> sdiv_undefined (Y s) rs1_op rs2_op);
         (result, temp_V) = (if exception then (0, False) else sdiv_result (Y s) rs1_op rs2_op);
         s = ICC_writeDiv exception result temp_V s;
         wb = WB_plain (rd_bit p) result
     in if undef then Throw Undefined_Behaviour else
          and_then (raise_if exception pcounter npcounter DIV_ZERO s) (\<lambda>_ s. Ok 34 (wb s)))"

definition SDIVcc_reg :: "params \<Rightarrow> 'm leon3 \<Rightarrow> (u32, 'm) lres" where
  "SDIVcc_reg p s =
    (let pcounter = PC s; npcounter = NPC s; s = IncrementPC s;
         rs1_op = rs1 p s; rs2_op = rs2 p s;
         exception = (rs2_op = 0);
         undef = (\<not> exception \<and> sdiv_undefined (Y s) rs1_op rs2_op);
         (result, temp_V) = (if exception then (0, False) else sdiv_result (Y s) rs1_op rs2_op);
         s = ICC_writeDiv exception result temp_V s;
         wb = WB_plain (rd_bit p) result
     in if undef then Throw Undefined_Behaviour else
          and_then (raise_if exception pcounter npcounter DIV_ZERO s) (\<lambda>_ s. Ok 34 (wb s)))"

section \<open>Every instruction keeps the window invariant\<close>

lemma window_ok_write_ICC [keeps_intros]:
  "window_ok s \<Longrightarrow> window_ok (write_ICC n z v c s)"
  by (simp add: write_ICC_def window_ok_PSR)

lemma window_ok_ICC [keeps_intros]:
  "window_ok s \<Longrightarrow> window_ok (ICC_writeLogic r s)"
  "window_ok s \<Longrightarrow> window_ok (ICC_writeAdd r a b s)"
  "window_ok s \<Longrightarrow> window_ok (ICC_writeSub r a b s)"
  "window_ok s \<Longrightarrow> window_ok (ICC_writeTAdd r t a b s)"
  "window_ok s \<Longrightarrow> window_ok (ICC_writeTSub r t a b s)"
  "window_ok s \<Longrightarrow> window_ok (ICC_writeTVAdd r t a b s)"
  "window_ok s \<Longrightarrow> window_ok (ICC_writeTVSub r t a b s)"
  "window_ok s \<Longrightarrow> window_ok (ICC_writeDiv t r u s)"
  by (simp_all add: ICC_writeLogic_def ICC_writeAdd_def ICC_writeSub_def ICC_writeTAdd_def
      ICC_writeTSub_def ICC_writeTVAdd_def ICC_writeTVSub_def ICC_writeDiv_def window_ok_write_ICC)

lemma window_ok_WB [keeps_intros]:
  "window_ok s \<Longrightarrow> window_ok (WB_plain i r s)"
  "window_ok s \<Longrightarrow> window_ok (WB_tv i r t s)"
  by (simp_all add: WB_plain_def WB_tv_def window_ok_frame)

lemmas logic_defs =
  AND_imm_def AND_reg_def ANDcc_imm_def ANDcc_reg_def ANDN_imm_def ANDN_reg_def ANDNcc_imm_def
  ANDNcc_reg_def OR_imm_def OR_reg_def ORcc_imm_def ORcc_reg_def ORN_imm_def ORN_reg_def ORNcc_imm_def
  ORNcc_reg_def XOR_imm_def XOR_reg_def XORcc_imm_def XORcc_reg_def XNOR_imm_def XNOR_reg_def
  XNORcc_imm_def XNORcc_reg_def

lemma logic_keeps_window [keeps_intros]:
  assumes "window_ok s"
  shows "res_all window_ok (AND_imm p s)"
    and "res_all window_ok (AND_reg p s)"
    and "res_all window_ok (ANDcc_imm p s)"
    and "res_all window_ok (ANDcc_reg p s)"
    and "res_all window_ok (ANDN_imm p s)"
    and "res_all window_ok (ANDN_reg p s)"
    and "res_all window_ok (ANDNcc_imm p s)"
    and "res_all window_ok (ANDNcc_reg p s)"
    and "res_all window_ok (OR_imm p s)"
    and "res_all window_ok (OR_reg p s)"
    and "res_all window_ok (ORcc_imm p s)"
    and "res_all window_ok (ORcc_reg p s)"
    and "res_all window_ok (ORN_imm p s)"
    and "res_all window_ok (ORN_reg p s)"
    and "res_all window_ok (ORNcc_imm p s)"
    and "res_all window_ok (ORNcc_reg p s)"
    and "res_all window_ok (XOR_imm p s)"
    and "res_all window_ok (XOR_reg p s)"
    and "res_all window_ok (XORcc_imm p s)"
    and "res_all window_ok (XORcc_reg p s)"
    and "res_all window_ok (XNOR_imm p s)"
    and "res_all window_ok (XNOR_reg p s)"
    and "res_all window_ok (XNORcc_imm p s)"
    and "res_all window_ok (XNORcc_reg p s)"
  unfolding logic_defs Let_def
  using assms by (auto intro!: keeps_intros split: prod.splits)

lemmas add_defs =
  ADD_imm_def ADD_reg_def ADDcc_imm_def ADDcc_reg_def ADDX_imm_def ADDX_reg_def ADDXcc_imm_def
  ADDXcc_reg_def SUB_imm_def SUB_reg_def SUBcc_imm_def SUBcc_reg_def SUBX_imm_def SUBX_reg_def
  SUBXcc_imm_def SUBXcc_reg_def

lemma add_keeps_window [keeps_intros]:
  assumes "window_ok s"
  shows "res_all window_ok (ADD_imm p s)"
    and "res_all window_ok (ADD_reg p s)"
    and "res_all window_ok (ADDcc_imm p s)"
    and "res_all window_ok (ADDcc_reg p s)"
    and "res_all window_ok (ADDX_imm p s)"
    and "res_all window_ok (ADDX_reg p s)"
    and "res_all window_ok (ADDXcc_imm p s)"
    and "res_all window_ok (ADDXcc_reg p s)"
    and "res_all window_ok (SUB_imm p s)"
    and "res_all window_ok (SUB_reg p s)"
    and "res_all window_ok (SUBcc_imm p s)"
    and "res_all window_ok (SUBcc_reg p s)"
    and "res_all window_ok (SUBX_imm p s)"
    and "res_all window_ok (SUBX_reg p s)"
    and "res_all window_ok (SUBXcc_imm p s)"
    and "res_all window_ok (SUBXcc_reg p s)"
  unfolding add_defs Let_def
  using assms by (auto intro!: keeps_intros split: prod.splits)

lemmas tagged_defs =
  TADDcc_imm_def TADDccTV_imm_def TADDcc_reg_def TADDccTV_reg_def TSUBcc_imm_def TSUBccTV_imm_def
  TSUBcc_reg_def TSUBccTV_reg_def

lemma tagged_keeps_window [keeps_intros]:
  assumes "window_ok s"
  shows "res_all window_ok (TADDcc_imm p s)"
    and "res_all window_ok (TADDccTV_imm p s)"
    and "res_all window_ok (TADDcc_reg p s)"
    and "res_all window_ok (TADDccTV_reg p s)"
    and "res_all window_ok (TSUBcc_imm p s)"
    and "res_all window_ok (TSUBccTV_imm p s)"
    and "res_all window_ok (TSUBcc_reg p s)"
    and "res_all window_ok (TSUBccTV_reg p s)"
  unfolding tagged_defs Let_def
  using assms by (auto intro!: keeps_intros split: prod.splits)

lemmas shift_defs =
  SLL_imm_def SLL_reg_def SRL_imm_def SRL_reg_def SRA_imm_def SRA_reg_def SETHI_def

lemma shift_keeps_window [keeps_intros]:
  assumes "window_ok s"
  shows "res_all window_ok (SLL_imm p s)"
    and "res_all window_ok (SLL_reg p s)"
    and "res_all window_ok (SRL_imm p s)"
    and "res_all window_ok (SRL_reg p s)"
    and "res_all window_ok (SRA_imm p s)"
    and "res_all window_ok (SRA_reg p s)"
    and "res_all window_ok (SETHI p s)"
  unfolding shift_defs Let_def
  using assms by (auto intro!: keeps_intros split: prod.splits)

lemmas mul_defs =
  UMUL_imm_def UMUL_reg_def UMULcc_imm_def UMULcc_reg_def SMUL_imm_def SMUL_reg_def SMULcc_imm_def
  SMULcc_reg_def MULScc_imm_def MULScc_reg_def UMAC_imm_def SMAC_imm_def UMAC_reg_def SMAC_reg_def

lemma mul_keeps_window [keeps_intros]:
  assumes "window_ok s"
  shows "res_all window_ok (UMUL_imm p s)"
    and "res_all window_ok (UMUL_reg p s)"
    and "res_all window_ok (UMULcc_imm p s)"
    and "res_all window_ok (UMULcc_reg p s)"
    and "res_all window_ok (SMUL_imm p s)"
    and "res_all window_ok (SMUL_reg p s)"
    and "res_all window_ok (SMULcc_imm p s)"
    and "res_all window_ok (SMULcc_reg p s)"
    and "res_all window_ok (MULScc_imm p s)"
    and "res_all window_ok (MULScc_reg p s)"
    and "res_all window_ok (UMAC_imm p s)"
    and "res_all window_ok (SMAC_imm p s)"
    and "res_all window_ok (UMAC_reg p s)"
    and "res_all window_ok (SMAC_reg p s)"
  unfolding mul_defs Let_def
  using assms by (auto intro!: keeps_intros split: prod.splits)

lemmas div_defs =
  UDIV_imm_def UDIV_reg_def UDIVcc_imm_def UDIVcc_reg_def SDIV_imm_def SDIV_reg_def SDIVcc_imm_def
  SDIVcc_reg_def

lemma div_keeps_window [keeps_intros]:
  assumes "window_ok s"
  shows "res_all window_ok (UDIV_imm p s)"
    and "res_all window_ok (UDIV_reg p s)"
    and "res_all window_ok (UDIVcc_imm p s)"
    and "res_all window_ok (UDIVcc_reg p s)"
    and "res_all window_ok (SDIV_imm p s)"
    and "res_all window_ok (SDIV_reg p s)"
    and "res_all window_ok (SDIVcc_imm p s)"
    and "res_all window_ok (SDIVcc_reg p s)"
  unfolding div_defs Let_def
  using assms by (auto intro!: keeps_intros split: prod.splits)

end
