(* ===== verification/Leon3_Memory.thy ===== *)
theory Leon3_Memory
  imports Leon3_State
begin

text \<open>
  The memory interface of the LEON3 core (\<^verbatim>\<open>cpu_if\<close>,
  src/gaisler/leon3/mmucache/cpu_if.h) as a record of operations over an
  arbitrary memory state, the locale \<^verbatim>\<open>cpu_memory\<close> that states the
  contract its clients rely on, and the implementation \<^verbatim>\<open>LocalMemory\<close>
  (src/gaisler/leon3/intunit/memory.cpp, memory.hpp) with the interpretation
  that discharges the contract for it.

  An operation returns \<^const>\<open>None\<close> where the C++ code ends the simulation
  (\<^verbatim>\<open>THROW_ERROR\<close>) or touches memory outside its buffer; otherwise the
  value, the exception number the memory system reports through
  \<^verbatim>\<open>trigger_exception\<close> (if any), and the new memory.
\<close>

section \<open>The interface\<close>

record 'm cpu_if =
  if_read_instr :: "u32 \<Rightarrow> u32 \<Rightarrow> u32 \<Rightarrow> 'm \<Rightarrow> (u32 \<times> u32 option \<times> 'm) option"
  if_read_dword :: "u32 \<Rightarrow> u32 \<Rightarrow> u32 \<Rightarrow> u32 \<Rightarrow> 'm \<Rightarrow> (u64 \<times> u32 option \<times> 'm) option"
  if_read_word :: "u32 \<Rightarrow> u32 \<Rightarrow> u32 \<Rightarrow> u32 \<Rightarrow> 'm \<Rightarrow> (u32 \<times> u32 option \<times> 'm) option"
  if_read_half :: "u32 \<Rightarrow> u32 \<Rightarrow> u32 \<Rightarrow> u32 \<Rightarrow> 'm \<Rightarrow> (u16 \<times> u32 option \<times> 'm) option"
  if_read_byte :: "u32 \<Rightarrow> u32 \<Rightarrow> u32 \<Rightarrow> u32 \<Rightarrow> 'm \<Rightarrow> (u8 \<times> u32 option \<times> 'm) option"
  if_write_dword :: "u32 \<Rightarrow> u64 \<Rightarrow> u32 \<Rightarrow> u32 \<Rightarrow> u32 \<Rightarrow> 'm \<Rightarrow> (u32 option \<times> 'm) option"
  if_write_word :: "u32 \<Rightarrow> u32 \<Rightarrow> u32 \<Rightarrow> u32 \<Rightarrow> u32 \<Rightarrow> 'm \<Rightarrow> (u32 option \<times> 'm) option"
  if_write_half :: "u32 \<Rightarrow> u16 \<Rightarrow> u32 \<Rightarrow> u32 \<Rightarrow> u32 \<Rightarrow> 'm \<Rightarrow> (u32 option \<times> 'm) option"
  if_write_byte :: "u32 \<Rightarrow> u8 \<Rightarrow> u32 \<Rightarrow> u32 \<Rightarrow> u32 \<Rightarrow> 'm \<Rightarrow> (u32 option \<times> 'm) option"

text \<open>The contract for word accesses: on the words the memory can serve, with the address
  spaces, flush and lock flags it takes for ordinary accesses, a write succeeds and is read
  back, and leaves every other word alone; reads change no word.\<close>

locale cpu_memory =
  fixes cif :: "'m cpu_if"
    and regular :: "u32 \<Rightarrow> u32 \<Rightarrow> u32 \<Rightarrow> bool"
    and mem_ok :: "'m \<Rightarrow> bool"
    and serves :: "'m \<Rightarrow> u32 \<Rightarrow> bool"
    and word_at :: "'m \<Rightarrow> u32 \<Rightarrow> u32"
  assumes read_word_law:
      "\<And>m a asi f l. regular asi f l \<Longrightarrow> mem_ok m \<Longrightarrow> serves m a \<Longrightarrow>
        \<exists>m'. if_read_word cif a asi f l m = Some (word_at m a, None, m') \<and> mem_ok m' \<and> serves m' = serves m \<and>
          (\<forall>b. serves m b \<longrightarrow> word_at m' b = word_at m b)"
    and write_word_law:
      "\<And>m a v asi f l. regular asi f l \<Longrightarrow> mem_ok m \<Longrightarrow> serves m a \<Longrightarrow>
        \<exists>m'. if_write_word cif a v asi f l m = Some (None, m') \<and> mem_ok m' \<and> serves m' = serves m \<and>
          word_at m' a = v \<and> (\<forall>b. serves m b \<longrightarrow> b \<noteq> a \<longrightarrow> word_at m' b = word_at m b)"
begin

lemma write_then_read:
  assumes "regular asi f l" "regular asi' f' l'" "mem_ok m" "serves m a"
    and "if_write_word cif a v asi f l m = Some (e, m')"
  shows "\<exists>m''. if_read_word cif a asi' f' l' m' = Some (v, None, m'') \<and> mem_ok m''"
proof -
  obtain n where "if_write_word cif a v asi f l m = Some (None, n)" and n: "mem_ok n" "serves n = serves m" "word_at n a = v"
    using write_word_law [OF assms(1,3,4)] by blast
  then have "m' = n" using assms(5) by simp
  then show ?thesis using read_word_law [OF assms(2) n(1), of a] assms(4) n(2,3) by auto
qed

end

section \<open>LocalMemory\<close>

text \<open>
  \<^verbatim>\<open>lm_bytes\<close> is the buffer of \<^verbatim>\<open>size\<close> bytes, \<^verbatim>\<open>lm_debugger\<close>
  tells whether a debugger is attached and \<^verbatim>\<open>lm_notified\<close> collects its
  \<^verbatim>\<open>notify_address\<close> calls.  The host is little endian
  (\<^verbatim>\<open>LITTLE_ENDIAN_BO\<close>).
\<close>

record local_memory =
  lm_bytes :: "u8 list"
  lm_debugger :: bool
  lm_notified :: "(u32 \<times> nat) list"

primrec load_host :: "nat \<Rightarrow> u8 list \<Rightarrow> nat \<Rightarrow> 'a::len word" where
  "load_host 0 bs a = 0"
| "load_host (Suc n) bs a = ucast (bs ! a) OR push_bit 8 (load_host n bs (Suc a))"

primrec store_host :: "nat \<Rightarrow> 'a::len word \<Rightarrow> u8 list \<Rightarrow> nat \<Rightarrow> u8 list" where
  "store_host 0 w bs a = bs"
| "store_host (Suc n) w bs a = store_host n (drop_bit 8 w) (bs[a := ucast w]) (Suc a)"

definition swapEndianess32 :: "u32 \<Rightarrow> u32" where
  "swapEndianess32 d =
     push_bit 24 (d AND 0xff) OR push_bit 8 (d AND 0xff00)
     OR drop_bit 8 (d AND 0xff0000) OR drop_bit 24 d"

definition swapEndianess16 :: "u16 \<Rightarrow> u16" where
  "swapEndianess16 d = push_bit 8 d OR drop_bit 8 d"

definition swapHalves :: "u64 \<Rightarrow> u64" where
  "swapHalves datum =
    (let datum1 = swapEndianess32 (ucast datum);
         datum2 = swapEndianess32 (ucast (drop_bit 32 datum))
     in ucast datum1 OR push_bit 32 (ucast datum2))"

text \<open>\<^verbatim>\<open>address >= size\<close> is \<^verbatim>\<open>THROW_ERROR\<close>; an access that starts
  inside the buffer and runs past its end is undefined in C++.\<close>

definition lm_accessible :: "local_memory \<Rightarrow> u32 \<Rightarrow> nat \<Rightarrow> bool" where
  "lm_accessible m address n = (unat address + n \<le> length (lm_bytes m))"

definition lm_notify :: "u32 \<Rightarrow> nat \<Rightarrow> local_memory \<Rightarrow> local_memory" where
  "lm_notify address n m =
     (if lm_debugger m then m\<lparr>lm_notified := lm_notified m @ [(address, n)]\<rparr> else m)"

definition lm_read_dword ::
  "u32 \<Rightarrow> u32 \<Rightarrow> u32 \<Rightarrow> u32 \<Rightarrow> local_memory \<Rightarrow> (u64 \<times> u32 option \<times> local_memory) option" where
  "lm_read_dword address asi flush lock m =
     (if lm_accessible m address 8
      then Some (swapHalves (load_host 8 (lm_bytes m) (unat address)), None, m) else None)"

definition lm_read_word ::
  "u32 \<Rightarrow> u32 \<Rightarrow> u32 \<Rightarrow> u32 \<Rightarrow> local_memory \<Rightarrow> (u32 \<times> u32 option \<times> local_memory) option" where
  "lm_read_word address asi flush lock m =
     (if lm_accessible m address 4
      then Some (swapEndianess32 (load_host 4 (lm_bytes m) (unat address)), None, m) else None)"

definition lm_read_half ::
  "u32 \<Rightarrow> u32 \<Rightarrow> u32 \<Rightarrow> u32 \<Rightarrow> local_memory \<Rightarrow> (u16 \<times> u32 option \<times> local_memory) option" where
  "lm_read_half address asi flush lock m =
     (if lm_accessible m address 2
      then Some (swapEndianess16 (load_host 2 (lm_bytes m) (unat address)), None, m) else None)"

definition lm_read_byte ::
  "u32 \<Rightarrow> u32 \<Rightarrow> u32 \<Rightarrow> u32 \<Rightarrow> local_memory \<Rightarrow> (u8 \<times> u32 option \<times> local_memory) option" where
  "lm_read_byte address asi flush lock m =
     (if lm_accessible m address 1 then Some (lm_bytes m ! unat address, None, m) else None)"

definition lm_write_dword ::
  "u32 \<Rightarrow> u64 \<Rightarrow> u32 \<Rightarrow> u32 \<Rightarrow> u32 \<Rightarrow> local_memory \<Rightarrow> (u32 option \<times> local_memory) option" where
  "lm_write_dword address datum asi flush lock m =
     (if lm_accessible m address 8
      then Some (None, (lm_notify address 8 m)
             \<lparr>lm_bytes := store_host 8 (swapHalves datum) (lm_bytes m) (unat address)\<rparr>)
      else None)"

definition lm_write_word ::
  "u32 \<Rightarrow> u32 \<Rightarrow> u32 \<Rightarrow> u32 \<Rightarrow> u32 \<Rightarrow> local_memory \<Rightarrow> (u32 option \<times> local_memory) option" where
  "lm_write_word address datum asi flush lock m =
     (if lm_accessible m address 4
      then Some (None, (lm_notify address 4 m)
             \<lparr>lm_bytes := store_host 4 (swapEndianess32 datum) (lm_bytes m) (unat address)\<rparr>)
      else None)"

definition lm_write_half ::
  "u32 \<Rightarrow> u16 \<Rightarrow> u32 \<Rightarrow> u32 \<Rightarrow> u32 \<Rightarrow> local_memory \<Rightarrow> (u32 option \<times> local_memory) option" where
  "lm_write_half address datum asi flush lock m =
     (if lm_accessible m address 2
      then Some (None, (lm_notify address 2 m)
             \<lparr>lm_bytes := store_host 2 (swapEndianess16 datum) (lm_bytes m) (unat address)\<rparr>)
      else None)"

definition lm_write_byte ::
  "u32 \<Rightarrow> u8 \<Rightarrow> u32 \<Rightarrow> u32 \<Rightarrow> u32 \<Rightarrow> local_memory \<Rightarrow> (u32 option \<times> local_memory) option" where
  "lm_write_byte address datum asi flush lock m =
     (if lm_accessible m address 1
      then Some (None, (lm_notify address 1 m)\<lparr>lm_bytes := (lm_bytes m)[unat address := datum]\<rparr>)
      else None)"

text \<open>\<^verbatim>\<open>LocalMemory\<close> does not override \<^verbatim>\<open>read_instr\<close>; as in
  \<^verbatim>\<open>TLMMemory\<close> (externalPorts.hpp) a fetch is a word read.\<close>

definition local_memory_if :: "local_memory cpu_if" where
  "local_memory_if = \<lparr>
     if_read_instr = (\<lambda>address asi flush. lm_read_word address asi flush 0),
     if_read_dword = lm_read_dword, if_read_word = lm_read_word,
     if_read_half = lm_read_half, if_read_byte = lm_read_byte,
     if_write_dword = lm_write_dword, if_write_word = lm_write_word,
     if_write_half = lm_write_half, if_write_byte = lm_write_byte \<rparr>"

section \<open>Loads and stores of the host\<close>

lemma length_store_host [simp]: "length (store_host n w bs a) = length bs"
  by (induction n arbitrary: w bs a) auto

lemma load_host_4:
  "load_host 4 bs a = ucast (bs ! a) OR push_bit 8 (ucast (bs ! Suc a) OR push_bit 8
    (ucast (bs ! Suc (Suc a)) OR push_bit 8 (ucast (bs ! Suc (Suc (Suc a))))))"
proof -
  have "(4::nat) = Suc (Suc (Suc (Suc 0)))" by simp
  then show ?thesis by (simp only: load_host.simps) simp
qed

lemma store_host_before: "k < a \<Longrightarrow> store_host n w bs a ! k = bs ! k"
  by (induction n arbitrary: w bs a) auto

lemma store_host_after: "a + n \<le> k \<Longrightarrow> store_host n w bs a ! k = bs ! k"
  by (induction n arbitrary: w bs a) auto

lemma load_host_cong:
  "(\<And>k. a \<le> k \<Longrightarrow> k < a + n \<Longrightarrow> bs ! k = cs ! k) \<Longrightarrow> load_host n bs a = load_host n cs a"
  by (induction n arbitrary: a) auto

lemma load_store_host:
  "a + n \<le> length bs \<Longrightarrow> load_host n (store_host n w bs a) a = take_bit (8 * n) w"
proof (induction n arbitrary: w bs a)
  case (Suc n)
  have hd: "store_host n (drop_bit 8 w) (bs[a := ucast w]) (Suc a) ! a = ucast w"
    using Suc.prems by (simp add: store_host_before)
  have "load_host n (store_host n (drop_bit 8 w) (bs[a := ucast w]) (Suc a)) (Suc a)
      = take_bit (8 * n) (drop_bit 8 w)"
    using Suc.prems by (intro Suc.IH) simp
  then have "load_host (Suc n) (store_host (Suc n) w bs a) a =
      ucast (ucast w :: u8) OR push_bit 8 (take_bit (8 * n) (drop_bit 8 w))"
    by (simp add: hd)
  also have "\<dots> = take_bit (8 * Suc n) w"
    by (intro bit_word_eqI) (auto simp: bit_simps)
  finally show ?case .
qed simp

lemma load_store_host_other:
  "a + n \<le> b \<or> b + k \<le> a \<Longrightarrow> load_host k (store_host n w bs a) b = load_host k bs b"
  by (intro load_host_cong) (auto simp: store_host_before store_host_after)

lemma swapEndianess32_swap [simp]: "swapEndianess32 (swapEndianess32 d) = d"
proof (rule bit_word_eqI)
  have m: "(0xff::u32) = mask 8" "(0xff00::u32) = push_bit 8 (mask 8)" "(0xff0000::u32) = push_bit 16 (mask 8)"
    by (simp_all add: mask_eq_exp_minus_1)
  fix k assume "k < LENGTH(32)"
  then show "bit (swapEndianess32 (swapEndianess32 d)) k = bit d k"
    unfolding swapEndianess32_def m
    by (cases "k < 8"; cases "k < 16"; cases "k < 24") (auto simp: bit_simps not_less dest: bit_imp_le_length)
qed

lemma swapEndianess16_swap [simp]: "swapEndianess16 (swapEndianess16 d) = d"
  by (intro bit_word_eqI) (auto simp: swapEndianess16_def bit_simps not_less)

lemma take_bit_full [simp]:
  "take_bit 32 (w::u32) = w" "take_bit 64 (w'::u64) = w'" "take_bit 16 (w''::u16) = w''"
  by (simp_all add: take_bit_word_eq_self)

lemma ucast_parts_64:
  "ucast (ucast (a::u32) OR push_bit 32 (ucast (b::u32)) :: u64) = a"
  "ucast (drop_bit 32 (ucast (a::u32) OR push_bit 32 (ucast (b::u32)) :: u64)) = b"
  by (intro bit_word_eqI; auto simp: bit_simps dest: bit_imp_le_length)+

lemma join_parts_64: "ucast (ucast (d::u64) :: u32) OR push_bit 32 (ucast (ucast (drop_bit 32 d) :: u32)) = d"
  by (intro bit_word_eqI) (auto simp: bit_simps)

lemma swapHalves_swap [simp]: "swapHalves (swapHalves d) = d"
  unfolding swapHalves_def Let_def ucast_parts_64 swapEndianess32_swap join_parts_64 ..

lemma lm_notify_simps [simp]:
  "lm_bytes (lm_notify a n m) = lm_bytes m" "lm_debugger (lm_notify a n m) = lm_debugger m"
  by (simp_all add: lm_notify_def)

lemma lm_notify_more [simp]: "local_memory.more (lm_notify a n m) = local_memory.more m"
  by (simp add: lm_notify_def)

section \<open>LocalMemory keeps the contract\<close>

definition lm_word_at :: "local_memory \<Rightarrow> u32 \<Rightarrow> u32" where
  "lm_word_at m a = swapEndianess32 (load_host 4 (lm_bytes m) (unat a))"

definition lm_serves :: "local_memory \<Rightarrow> u32 \<Rightarrow> bool" where
  "lm_serves m a = (lm_accessible m a 4 \<and> 4 dvd unat a)"

lemma lm_write_word_other:
  assumes "lm_serves m a" "lm_serves m b" "b \<noteq> a"
  shows "load_host 4 (store_host 4 (w::u32) (lm_bytes m) (unat a)) (unat b)
    = (load_host 4 (lm_bytes m) (unat b) :: u32)"
proof (rule load_store_host_other)
  have "unat a \<noteq> unat b" using assms(3) by (metis word_unat_eq_iff)
  moreover have "4 dvd unat a" "4 dvd unat b" using assms(1,2) by (simp_all add: lm_serves_def)
  ultimately show "unat a + 4 \<le> unat b \<or> unat b + 4 \<le> unat a" by presburger
qed

interpretation lm: cpu_memory local_memory_if "\<lambda>_ _ _. True" "\<lambda>_. True" lm_serves lm_word_at
proof
  show "\<exists>m'. if_read_word local_memory_if a asi f l m = Some (lm_word_at m a, None, m') \<and> True \<and>
      lm_serves m' = lm_serves m \<and> (\<forall>b. lm_serves m b \<longrightarrow> lm_word_at m' b = lm_word_at m b)"
    if "lm_serves m a" for m a asi f l
    using that by (simp add: local_memory_if_def lm_read_word_def lm_serves_def lm_word_at_def)
next
  fix m a v asi f l
  assume s: "lm_serves m a"
  let ?m = "(lm_notify a 4 m)\<lparr>lm_bytes := store_host 4 (swapEndianess32 v) (lm_bytes m) (unat a)\<rparr>"
  have "if_write_word local_memory_if a v asi f l m = Some (None, ?m)"
    using s by (simp add: local_memory_if_def lm_write_word_def lm_serves_def)
  moreover have "lm_serves ?m = lm_serves m"
    by (rule ext) (simp add: lm_serves_def lm_accessible_def)
  moreover have "lm_word_at ?m a = v"
    using s by (simp add: lm_word_at_def load_store_host lm_serves_def lm_accessible_def)
  moreover have "\<forall>b. lm_serves m b \<longrightarrow> b \<noteq> a \<longrightarrow> lm_word_at ?m b = lm_word_at m b"
    using s by (simp add: lm_word_at_def lm_write_word_other)
  ultimately show "\<exists>m'. if_write_word local_memory_if a v asi f l m = Some (None, m') \<and> True \<and>
      lm_serves m' = lm_serves m \<and> lm_word_at m' a = v \<and>
      (\<forall>b. lm_serves m b \<longrightarrow> b \<noteq> a \<longrightarrow> lm_word_at m' b = lm_word_at m b)"
    by blast
qed

end
