(* ===== verification/Leon3_LoadStore.thy ===== *)
theory Leon3_LoadStore
  imports Leon3_Alu Leon3_Memory
begin

text \<open>
  The load, store and atomic instructions of the LEON3 core
  (src/gaisler/leon3/intunit/instructions.cpp), over an arbitrary memory
  interface \<^verbatim>\<open>cif\<close>.  An exception reported by the memory is only latched
  (\<^verbatim>\<open>triggerException\<close>); the main loop takes the trap at the next
  instruction.  Where the code skips the access and raises a trap that cannot
  return (numbers below \<^verbatim>\<open>IRQ_LEV_15\<close> throw or annul), the continuation
  after it is unreachable and written as \<^const>\<open>Undefined_Behaviour\<close>.
\<close>

section \<open>Memory accesses of an instruction\<close>

definition data_asi :: "'m leon3 \<Rightarrow> u32" where
  "data_asi s = 0xA OR (if key_S (PSR s) \<noteq> 0 then 1 else 0)"

definition report_exception :: "u32 option \<Rightarrow> 'm leon3 \<Rightarrow> 'm leon3" where
  "report_exception e s = (case e of None \<Rightarrow> s | Some x \<Rightarrow> triggerException x s)"

definition finish_read :: "('v \<times> u32 option \<times> 'm) option \<Rightarrow> 'm leon3 \<Rightarrow> ('v, 'm) lres" where
  "finish_read r s = (case r of None \<Rightarrow> Throw Memory_Fault
     | Some (v, e, m) \<Rightarrow> Ok v (report_exception e (s\<lparr>MEM := m\<rparr>)))"

definition finish_write :: "(u32 option \<times> 'm) option \<Rightarrow> 'm leon3 \<Rightarrow> (unit, 'm) lres" where
  "finish_write r s = (case r of None \<Rightarrow> Throw Memory_Fault
     | Some (e, m) \<Rightarrow> Ok () (report_exception e (s\<lparr>MEM := m\<rparr>)))"

abbreviation read_byte where "read_byte cif a sp f l s \<equiv> finish_read (if_read_byte cif a sp f l (MEM s)) s"
abbreviation read_half where "read_half cif a sp f l s \<equiv> finish_read (if_read_half cif a sp f l (MEM s)) s"
abbreviation read_word where "read_word cif a sp f l s \<equiv> finish_read (if_read_word cif a sp f l (MEM s)) s"
abbreviation read_dword where "read_dword cif a sp f l s \<equiv> finish_read (if_read_dword cif a sp f l (MEM s)) s"
abbreviation write_byte where "write_byte cif a v sp f l s \<equiv> finish_write (if_write_byte cif a v sp f l (MEM s)) s"
abbreviation write_half where "write_half cif a v sp f l s \<equiv> finish_write (if_write_half cif a v sp f l (MEM s)) s"
abbreviation write_word where "write_word cif a v sp f l s \<equiv> finish_write (if_write_word cif a v sp f l (MEM s)) s"
abbreviation write_dword where "write_dword cif a v sp f l s \<equiv> finish_write (if_write_dword cif a v sp f l (MEM s)) s"

section \<open>Loads\<close>

definition LDSB_imm :: "'m cpu_if \<Rightarrow> params \<Rightarrow> 'm leon3 \<Rightarrow> (u32, 'm) lres" where
  "LDSB_imm cif p s =
    (let address = rs1 p s + SignExtend (simm13 p) 13
     in and_then (read_byte cif address (data_asi s) 0 0 s) (\<lambda>v s.
        let readValue = SignExtend (ucast v) 8
        in Ok 0 (IncrementPC (set_reg (rd_bit p) readValue s))))"

definition LDSB_reg :: "'m cpu_if \<Rightarrow> params \<Rightarrow> 'm leon3 \<Rightarrow> (u32, 'm) lres" where
  "LDSB_reg cif p s =
    (let address = rs1 p s + rs2 p s
     in and_then (read_byte cif address (data_asi s) 0 0 s) (\<lambda>v s.
        let readValue = SignExtend (ucast v) 8
        in Ok 0 (IncrementPC (set_reg (rd_bit p) readValue s))))"

definition LDUB_imm :: "'m cpu_if \<Rightarrow> params \<Rightarrow> 'm leon3 \<Rightarrow> (u32, 'm) lres" where
  "LDUB_imm cif p s =
    (let address = rs1 p s + SignExtend (simm13 p) 13
     in and_then (read_byte cif address (data_asi s) 0 0 s) (\<lambda>v s.
        let readValue = ucast v
        in Ok 0 (IncrementPC (set_reg (rd_bit p) readValue s))))"

definition LDUB_reg :: "'m cpu_if \<Rightarrow> params \<Rightarrow> 'm leon3 \<Rightarrow> (u32, 'm) lres" where
  "LDUB_reg cif p s =
    (let address = rs1 p s + rs2 p s
     in and_then (read_byte cif address (data_asi s) 0 0 s) (\<lambda>v s.
        let readValue = ucast v
        in Ok 0 (IncrementPC (set_reg (rd_bit p) readValue s))))"

text \<open>\<^verbatim>\<open>LDSH\<close> reads only an aligned address; \<^verbatim>\<open>LDUH\<close> and \<^verbatim>\<open>LD\<close> read first and test the alignment after.\<close>

definition LDSH_imm :: "'m cpu_if \<Rightarrow> params \<Rightarrow> 'm leon3 \<Rightarrow> (u32, 'm) lres" where
  "LDSH_imm cif p s =
    (let pcounter = PC s; npcounter = NPC s; address = rs1 p s + SignExtend (simm13 p) 13;
         notAligned = (address AND 0x00000001 \<noteq> 0)
     in if notAligned
        then and_then (raise_if notAligned pcounter npcounter MEM_ADDR_NOT_ALIGNED s) (\<lambda>_ s. Throw Undefined_Behaviour)
        else and_then (read_half cif address (data_asi s) 0 0 s) (\<lambda>v s.
             let readValue = SignExtend (ucast v) 16
             in Ok 0 (IncrementPC (set_reg (rd_bit p) readValue s))))"

definition LDSH_reg :: "'m cpu_if \<Rightarrow> params \<Rightarrow> 'm leon3 \<Rightarrow> (u32, 'm) lres" where
  "LDSH_reg cif p s =
    (let pcounter = PC s; npcounter = NPC s; address = rs1 p s + rs2 p s;
         notAligned = (address AND 0x00000001 \<noteq> 0)
     in if notAligned
        then and_then (raise_if notAligned pcounter npcounter MEM_ADDR_NOT_ALIGNED s) (\<lambda>_ s. Throw Undefined_Behaviour)
        else and_then (read_half cif address (data_asi s) 0 0 s) (\<lambda>v s.
             let readValue = SignExtend (ucast v) 16
             in Ok 0 (IncrementPC (set_reg (rd_bit p) readValue s))))"

definition LDUH_imm :: "'m cpu_if \<Rightarrow> params \<Rightarrow> 'm leon3 \<Rightarrow> (u32, 'm) lres" where
  "LDUH_imm cif p s =
    (let pcounter = PC s; npcounter = NPC s; address = rs1 p s + SignExtend (simm13 p) 13;
         notAligned = (address AND 0x00000001 \<noteq> 0)
     in and_then (read_half cif address (data_asi s) 0 0 s) (\<lambda>v s.
        let readValue = ucast v
        in and_then (raise_if notAligned pcounter npcounter MEM_ADDR_NOT_ALIGNED s) (\<lambda>_ s.
           Ok 0 (IncrementPC (set_reg (rd_bit p) readValue s)))))"

definition LDUH_reg :: "'m cpu_if \<Rightarrow> params \<Rightarrow> 'm leon3 \<Rightarrow> (u32, 'm) lres" where
  "LDUH_reg cif p s =
    (let pcounter = PC s; npcounter = NPC s; address = rs1 p s + rs2 p s;
         notAligned = (address AND 0x00000001 \<noteq> 0)
     in and_then (read_half cif address (data_asi s) 0 0 s) (\<lambda>v s.
        let readValue = ucast v
        in and_then (raise_if notAligned pcounter npcounter MEM_ADDR_NOT_ALIGNED s) (\<lambda>_ s.
           Ok 0 (IncrementPC (set_reg (rd_bit p) readValue s)))))"

definition LD_imm :: "'m cpu_if \<Rightarrow> params \<Rightarrow> 'm leon3 \<Rightarrow> (u32, 'm) lres" where
  "LD_imm cif p s =
    (let pcounter = PC s; npcounter = NPC s; address = rs1 p s + SignExtend (simm13 p) 13;
         notAligned = (address AND 0x00000003 \<noteq> 0)
     in and_then (read_word cif address (data_asi s) 0 0 s) (\<lambda>v s.
        let readValue = v
        in and_then (raise_if notAligned pcounter npcounter MEM_ADDR_NOT_ALIGNED s) (\<lambda>_ s.
           Ok 0 (IncrementPC (set_reg (rd_bit p) readValue s)))))"

definition LD_reg :: "'m cpu_if \<Rightarrow> params \<Rightarrow> 'm leon3 \<Rightarrow> (u32, 'm) lres" where
  "LD_reg cif p s =
    (let pcounter = PC s; npcounter = NPC s; address = rs1 p s + rs2 p s;
         notAligned = (address AND 0x00000003 \<noteq> 0)
     in and_then (read_word cif address (data_asi s) 0 0 s) (\<lambda>v s.
        let readValue = v
        in and_then (raise_if notAligned pcounter npcounter MEM_ADDR_NOT_ALIGNED s) (\<lambda>_ s.
           Ok 0 (IncrementPC (set_reg (rd_bit p) readValue s)))))"

text \<open>The register pair of a double-word access: the low word goes to the even register, the high word to the odd one.\<close>

definition write_pair :: "nat \<Rightarrow> u64 \<Rightarrow> 'm leon3 \<Rightarrow> 'm leon3" where
  "write_pair rd_idx readValue s =
     (if rd_idx mod 2 = 0 then
        set_reg (rd_idx + 1) (ucast (drop_bit 32 readValue AND 0x00000000FFFFFFFF))
          (set_reg rd_idx (ucast (readValue AND 0x00000000FFFFFFFF)) s)
      else
        set_reg rd_idx (ucast (drop_bit 32 readValue AND 0x00000000FFFFFFFF))
          (set_reg (rd_idx - 1) (ucast (readValue AND 0x00000000FFFFFFFF)) s))"

definition read_pair :: "nat \<Rightarrow> 'm leon3 \<Rightarrow> u64" where
  "read_pair rd_idx s =
     (if rd_idx mod 2 = 0 then ucast (reg s rd_idx) OR push_bit 32 (ucast (reg s (rd_idx + 1)))
      else ucast (reg s (rd_idx - 1)) OR push_bit 32 (ucast (reg s rd_idx)))"

definition LDD_imm :: "'m cpu_if \<Rightarrow> params \<Rightarrow> 'm leon3 \<Rightarrow> (u32, 'm) lres" where
  "LDD_imm cif p s =
    (let pcounter = PC s; npcounter = NPC s; address = rs1 p s + SignExtend (simm13 p) 13;
         notAligned = (address AND 0x00000007 \<noteq> 0)
     in if notAligned
        then and_then (raise_if notAligned pcounter npcounter MEM_ADDR_NOT_ALIGNED s) (\<lambda>_ s. Throw Undefined_Behaviour)
        else and_then (read_dword cif address (data_asi s) 0 0 s) (\<lambda>readValue s.
             Ok 1 (IncrementPC (write_pair (rd_bit p) readValue s))))"

definition LDD_reg :: "'m cpu_if \<Rightarrow> params \<Rightarrow> 'm leon3 \<Rightarrow> (u32, 'm) lres" where
  "LDD_reg cif p s =
    (let pcounter = PC s; npcounter = NPC s; address = rs1 p s + rs2 p s;
         notAligned = (address AND 0x00000007 \<noteq> 0)
     in if notAligned
        then and_then (raise_if notAligned pcounter npcounter MEM_ADDR_NOT_ALIGNED s) (\<lambda>_ s. Throw Undefined_Behaviour)
        else and_then (read_dword cif address (data_asi s) 0 0 s) (\<lambda>readValue s.
             Ok 1 (IncrementPC (write_pair (rd_bit p) readValue s))))"

section \<open>Loads from an alternate space\<close>

text \<open>The access is made before the privilege and alignment tests.\<close>

definition LDSBA_reg :: "'m cpu_if \<Rightarrow> params \<Rightarrow> 'm leon3 \<Rightarrow> (u32, 'm) lres" where
  "LDSBA_reg cif p s =
    (let pcounter = PC s; npcounter = NPC s; address = rs1 p s + rs2 p s;
         supervisor = (key_S (PSR s) \<noteq> 0)
     in and_then (read_byte cif address (asi p) 0 0 s) (\<lambda>v s.
        let readValue = SignExtend (ucast v) 8
        in and_then (raise_if (\<not> supervisor) pcounter npcounter PRIVILEDGE_INSTR s) (\<lambda>_ s.
           Ok 0 (IncrementPC (set_reg (rd_bit p) readValue s)))))"

definition LDUBA_reg :: "'m cpu_if \<Rightarrow> params \<Rightarrow> 'm leon3 \<Rightarrow> (u32, 'm) lres" where
  "LDUBA_reg cif p s =
    (let pcounter = PC s; npcounter = NPC s; address = rs1 p s + rs2 p s;
         supervisor = (key_S (PSR s) \<noteq> 0)
     in and_then (read_byte cif address (asi p) 0 0 s) (\<lambda>v s.
        let readValue = ucast v
        in and_then (raise_if (\<not> supervisor) pcounter npcounter PRIVILEDGE_INSTR s) (\<lambda>_ s.
           Ok 0 (IncrementPC (set_reg (rd_bit p) readValue s)))))"

definition LDSHA_reg :: "'m cpu_if \<Rightarrow> params \<Rightarrow> 'm leon3 \<Rightarrow> (u32, 'm) lres" where
  "LDSHA_reg cif p s =
    (let pcounter = PC s; npcounter = NPC s; address = rs1 p s + rs2 p s;
         supervisor = (key_S (PSR s) \<noteq> 0);
         notAligned = (address AND 0x00000001 \<noteq> 0)
     in and_then (read_half cif address (asi p) 0 0 s) (\<lambda>v s.
        let readValue = SignExtend (ucast v) 16
        in and_then (raise_if (\<not> supervisor) pcounter npcounter PRIVILEDGE_INSTR s) (\<lambda>_ s.
           and_then (raise_if notAligned pcounter npcounter MEM_ADDR_NOT_ALIGNED s) (\<lambda>_ s.
           Ok 0 (IncrementPC (set_reg (rd_bit p) readValue s))))))"

definition LDUHA_reg :: "'m cpu_if \<Rightarrow> params \<Rightarrow> 'm leon3 \<Rightarrow> (u32, 'm) lres" where
  "LDUHA_reg cif p s =
    (let pcounter = PC s; npcounter = NPC s; address = rs1 p s + rs2 p s;
         supervisor = (key_S (PSR s) \<noteq> 0);
         notAligned = (address AND 0x00000001 \<noteq> 0)
     in and_then (read_half cif address (asi p) 0 0 s) (\<lambda>v s.
        let readValue = ucast v
        in and_then (raise_if (\<not> supervisor) pcounter npcounter PRIVILEDGE_INSTR s) (\<lambda>_ s.
           and_then (raise_if notAligned pcounter npcounter MEM_ADDR_NOT_ALIGNED s) (\<lambda>_ s.
           Ok 0 (IncrementPC (set_reg (rd_bit p) readValue s))))))"

definition LDA_reg :: "'m cpu_if \<Rightarrow> params \<Rightarrow> 'm leon3 \<Rightarrow> (u32, 'm) lres" where
  "LDA_reg cif p s =
    (let pcounter = PC s; npcounter = NPC s; address = rs1 p s + rs2 p s;
         supervisor = (key_S (PSR s) \<noteq> 0);
         notAligned = (address AND 0x00000003 \<noteq> 0)
     in and_then (read_word cif address (asi p) 0 0 s) (\<lambda>v s.
        let readValue = v
        in and_then (raise_if (\<not> supervisor) pcounter npcounter PRIVILEDGE_INSTR s) (\<lambda>_ s.
           and_then (raise_if notAligned pcounter npcounter MEM_ADDR_NOT_ALIGNED s) (\<lambda>_ s.
           Ok 0 (IncrementPC (set_reg (rd_bit p) readValue s))))))"

definition LDDA_reg :: "'m cpu_if \<Rightarrow> params \<Rightarrow> 'm leon3 \<Rightarrow> (u32, 'm) lres" where
  "LDDA_reg cif p s =
    (let pcounter = PC s; npcounter = NPC s; address = rs1 p s + rs2 p s;
         supervisor = (key_S (PSR s) \<noteq> 0);
         notAligned = (address AND 0x00000007 \<noteq> 0)
     in and_then (read_dword cif address (asi p) 0 0 s) (\<lambda>readValue s.
        and_then (raise_if (\<not> supervisor) pcounter npcounter PRIVILEDGE_INSTR s) (\<lambda>_ s.
        and_then (raise_if notAligned pcounter npcounter MEM_ADDR_NOT_ALIGNED s) (\<lambda>_ s.
        Ok 0 (IncrementPC (write_pair (rd_bit p) readValue s))))))"

section \<open>Stores\<close>

definition STB_imm :: "'m cpu_if \<Rightarrow> params \<Rightarrow> 'm leon3 \<Rightarrow> (u32, 'm) lres" where
  "STB_imm cif p s =
    (let address = rs1 p s + SignExtend (simm13 p) 13;
         toWrite = ucast (rd p s AND 0x000000FF)
     in and_then (write_byte cif address toWrite (data_asi s) 0 0 s) (\<lambda>_ s.
        Ok 1 (IncrementPC s)))"

definition STB_reg :: "'m cpu_if \<Rightarrow> params \<Rightarrow> 'm leon3 \<Rightarrow> (u32, 'm) lres" where
  "STB_reg cif p s =
    (let address = rs1 p s + rs2 p s;
         toWrite = ucast (rd p s AND 0x000000FF)
     in and_then (write_byte cif address toWrite (data_asi s) 0 0 s) (\<lambda>_ s.
        Ok 1 (IncrementPC s)))"

definition STH_imm :: "'m cpu_if \<Rightarrow> params \<Rightarrow> 'm leon3 \<Rightarrow> (u32, 'm) lres" where
  "STH_imm cif p s =
    (let pcounter = PC s; npcounter = NPC s; address = rs1 p s + SignExtend (simm13 p) 13;
         toWrite = ucast (rd p s AND 0x0000FFFF);
         notAligned = (address AND 0x00000001 \<noteq> 0)
     in and_then (if \<not> notAligned then write_half cif address toWrite (data_asi s) 0 0 s else Ok () s) (\<lambda>_ s.
        and_then (raise_if notAligned pcounter npcounter MEM_ADDR_NOT_ALIGNED s) (\<lambda>_ s.
        Ok 1 (IncrementPC s))))"

definition STH_reg :: "'m cpu_if \<Rightarrow> params \<Rightarrow> 'm leon3 \<Rightarrow> (u32, 'm) lres" where
  "STH_reg cif p s =
    (let pcounter = PC s; npcounter = NPC s; address = rs1 p s + rs2 p s;
         toWrite = ucast (rd p s AND 0x0000FFFF);
         notAligned = (address AND 0x00000001 \<noteq> 0)
     in and_then (if \<not> notAligned then write_half cif address toWrite (data_asi s) 0 0 s else Ok () s) (\<lambda>_ s.
        and_then (raise_if notAligned pcounter npcounter MEM_ADDR_NOT_ALIGNED s) (\<lambda>_ s.
        Ok 1 (IncrementPC s))))"

definition ST_imm :: "'m cpu_if \<Rightarrow> params \<Rightarrow> 'm leon3 \<Rightarrow> (u32, 'm) lres" where
  "ST_imm cif p s =
    (let pcounter = PC s; npcounter = NPC s; address = rs1 p s + SignExtend (simm13 p) 13;
         toWrite = rd p s;
         notAligned = (address AND 0x00000003 \<noteq> 0)
     in and_then (if \<not> notAligned then write_word cif address toWrite (data_asi s) 0 0 s else Ok () s) (\<lambda>_ s.
        and_then (raise_if notAligned pcounter npcounter MEM_ADDR_NOT_ALIGNED s) (\<lambda>_ s.
        Ok 1 (IncrementPC s))))"

definition ST_reg :: "'m cpu_if \<Rightarrow> params \<Rightarrow> 'm leon3 \<Rightarrow> (u32, 'm) lres" where
  "ST_reg cif p s =
    (let pcounter = PC s; npcounter = NPC s; address = rs1 p s + rs2 p s;
         toWrite = rd p s;
         notAligned = (address AND 0x00000003 \<noteq> 0)
     in and_then (if \<not> notAligned then write_word cif address toWrite (data_asi s) 0 0 s else Ok () s) (\<lambda>_ s.
        and_then (raise_if notAligned pcounter npcounter MEM_ADDR_NOT_ALIGNED s) (\<lambda>_ s.
        Ok 1 (IncrementPC s))))"

definition STD_imm :: "'m cpu_if \<Rightarrow> params \<Rightarrow> 'm leon3 \<Rightarrow> (u32, 'm) lres" where
  "STD_imm cif p s =
    (let pcounter = PC s; npcounter = NPC s; address = rs1 p s + SignExtend (simm13 p) 13;
         toWrite = read_pair (rd_bit p) s;
         notAligned = (address AND 0x00000007 \<noteq> 0)
     in and_then (if \<not> notAligned then write_dword cif address toWrite (data_asi s) 0 0 s else Ok () s) (\<lambda>_ s.
        and_then (raise_if notAligned pcounter npcounter MEM_ADDR_NOT_ALIGNED s) (\<lambda>_ s.
        Ok 2 (IncrementPC s))))"

definition STD_reg :: "'m cpu_if \<Rightarrow> params \<Rightarrow> 'm leon3 \<Rightarrow> (u32, 'm) lres" where
  "STD_reg cif p s =
    (let pcounter = PC s; npcounter = NPC s; address = rs1 p s + rs2 p s;
         toWrite = read_pair (rd_bit p) s;
         notAligned = (address AND 0x00000007 \<noteq> 0)
     in and_then (if \<not> notAligned then write_dword cif address toWrite (data_asi s) 0 0 s else Ok () s) (\<lambda>_ s.
        and_then (raise_if notAligned pcounter npcounter MEM_ADDR_NOT_ALIGNED s) (\<lambda>_ s.
        Ok 2 (IncrementPC s))))"

section \<open>Stores to an alternate space\<close>

text \<open>\<^verbatim>\<open>STHA\<close>, \<^verbatim>\<open>STA\<close> and \<^verbatim>\<open>STDA\<close> write when \<^verbatim>\<open>supervisor || !notAligned\<close>, so an aligned store of a user-mode program reaches the memory before the privilege trap.\<close>

definition STBA_reg :: "'m cpu_if \<Rightarrow> params \<Rightarrow> 'm leon3 \<Rightarrow> (u32, 'm) lres" where
  "STBA_reg cif p s =
    (let pcounter = PC s; npcounter = NPC s; address = rs1 p s + rs2 p s;
         toWrite = ucast (rd p s AND 0x000000FF);
         supervisor = (key_S (PSR s) \<noteq> 0)
     in and_then (if supervisor then write_byte cif address toWrite (asi p) 0 0 s else Ok () s) (\<lambda>_ s.
        and_then (raise_if (\<not> supervisor) pcounter npcounter PRIVILEDGE_INSTR s) (\<lambda>_ s.
        Ok 1 (IncrementPC s))))"

definition STHA_reg :: "'m cpu_if \<Rightarrow> params \<Rightarrow> 'm leon3 \<Rightarrow> (u32, 'm) lres" where
  "STHA_reg cif p s =
    (let pcounter = PC s; npcounter = NPC s; address = rs1 p s + rs2 p s;
         toWrite = ucast (rd p s AND 0x0000FFFF);
         supervisor = (key_S (PSR s) \<noteq> 0);
         notAligned = (address AND 0x00000001 \<noteq> 0)
     in and_then (if supervisor \<or> \<not> notAligned then write_half cif address toWrite (asi p) 0 0 s else Ok () s) (\<lambda>_ s.
        and_then (raise_if (\<not> supervisor) pcounter npcounter PRIVILEDGE_INSTR s) (\<lambda>_ s.
        and_then (raise_if notAligned pcounter npcounter MEM_ADDR_NOT_ALIGNED s) (\<lambda>_ s.
        Ok 1 (IncrementPC s)))))"

definition STA_reg :: "'m cpu_if \<Rightarrow> params \<Rightarrow> 'm leon3 \<Rightarrow> (u32, 'm) lres" where
  "STA_reg cif p s =
    (let pcounter = PC s; npcounter = NPC s; address = rs1 p s + rs2 p s;
         toWrite = rd p s;
         supervisor = (key_S (PSR s) \<noteq> 0);
         notAligned = (address AND 0x00000003 \<noteq> 0)
     in and_then (if supervisor \<or> \<not> notAligned then write_word cif address toWrite (asi p) 0 0 s else Ok () s) (\<lambda>_ s.
        and_then (raise_if (\<not> supervisor) pcounter npcounter PRIVILEDGE_INSTR s) (\<lambda>_ s.
        and_then (raise_if notAligned pcounter npcounter MEM_ADDR_NOT_ALIGNED s) (\<lambda>_ s.
        Ok 1 (IncrementPC s)))))"

text \<open>The pair of \<^verbatim>\<open>STDA\<close> is combined with the logical \<^verbatim>\<open>||\<close>, so 0 or 1 is stored; for an odd \<^verbatim>\<open>rd\<close> it names \<^verbatim>\<open>REGS[rd + 1]\<close>, which does not exist for \<^verbatim>\<open>rd = 31\<close>.\<close>

definition STDA_reg :: "'m cpu_if \<Rightarrow> params \<Rightarrow> 'm leon3 \<Rightarrow> (u32, 'm) lres" where
  "STDA_reg cif p s =
    (let pcounter = PC s; npcounter = NPC s; address = rs1 p s + rs2 p s;
         toWrite = (if rd_bit p mod 2 = 0
                    then int_of_bool (rd p s \<noteq> 0 \<or> reg s (rd_bit p + 1) \<noteq> 0)
                    else int_of_bool (reg s (rd_bit p + 1) \<noteq> 0 \<or> rd p s \<noteq> 0));
         supervisor = (key_S (PSR s) \<noteq> 0);
         notAligned = (address AND 0x00000003 \<noteq> 0)
     in if rd_bit p mod 2 \<noteq> 0 \<and> \<not> rd_bit p + 1 < 32 then Throw Undefined_Behaviour
        else and_then (if supervisor \<or> \<not> notAligned then write_dword cif address toWrite (asi p) 0 0 s else Ok () s) (\<lambda>_ s.
        and_then (raise_if (\<not> supervisor) pcounter npcounter PRIVILEDGE_INSTR s) (\<lambda>_ s.
        and_then (raise_if notAligned pcounter npcounter MEM_ADDR_NOT_ALIGNED s) (\<lambda>_ s.
        Ok 1 (IncrementPC s)))))"

section \<open>Atomic load-store\<close>

definition LDSTUB_imm :: "'m cpu_if \<Rightarrow> params \<Rightarrow> 'm leon3 \<Rightarrow> (u32, 'm) lres" where
  "LDSTUB_imm cif p s =
    (let address = rs1 p s + SignExtend (simm13 p) 13
     in and_then (read_byte cif address (data_asi s) 0 0 s) (\<lambda>v s.
        and_then (write_byte cif address 0xff (data_asi s) 0 0 s) (\<lambda>_ s.
        Ok 2 (IncrementPC (set_reg (rd_bit p) (ucast v) s)))))"

definition SWAP_imm :: "'m cpu_if \<Rightarrow> params \<Rightarrow> 'm leon3 \<Rightarrow> (u32, 'm) lres" where
  "SWAP_imm cif p s =
    (let pcounter = PC s; npcounter = NPC s; address = rs1 p s + SignExtend (simm13 p) 13;
         toWrite = rd p s;
         notAligned = (address AND 0x00000003 \<noteq> 0)
     in if notAligned
        then and_then (raise_if notAligned pcounter npcounter MEM_ADDR_NOT_ALIGNED s) (\<lambda>_ s. Throw Undefined_Behaviour)
        else and_then (read_word cif address (data_asi s) 0 1 s) (\<lambda>readValue s.
             and_then (write_word cif address toWrite (data_asi s) 0 0 s) (\<lambda>_ s.
             Ok 2 (IncrementPC (set_reg (rd_bit p) readValue s)))))"

definition LDSTUB_reg :: "'m cpu_if \<Rightarrow> params \<Rightarrow> 'm leon3 \<Rightarrow> (u32, 'm) lres" where
  "LDSTUB_reg cif p s =
    (let address = rs1 p s + rs2 p s
     in and_then (read_byte cif address (data_asi s) 0 0 s) (\<lambda>v s.
        and_then (write_byte cif address 0xff (data_asi s) 0 0 s) (\<lambda>_ s.
        Ok 2 (IncrementPC (set_reg (rd_bit p) (ucast v) s)))))"

definition SWAP_reg :: "'m cpu_if \<Rightarrow> params \<Rightarrow> 'm leon3 \<Rightarrow> (u32, 'm) lres" where
  "SWAP_reg cif p s =
    (let pcounter = PC s; npcounter = NPC s; address = rs1 p s + rs2 p s;
         toWrite = rd p s;
         notAligned = (address AND 0x00000003 \<noteq> 0)
     in if notAligned
        then and_then (raise_if notAligned pcounter npcounter MEM_ADDR_NOT_ALIGNED s) (\<lambda>_ s. Throw Undefined_Behaviour)
        else and_then (read_word cif address (data_asi s) 0 1 s) (\<lambda>readValue s.
             and_then (write_word cif address toWrite (data_asi s) 0 0 s) (\<lambda>_ s.
             Ok 2 (IncrementPC (set_reg (rd_bit p) readValue s)))))"

definition LDSTUBA_reg :: "'m cpu_if \<Rightarrow> params \<Rightarrow> 'm leon3 \<Rightarrow> (u32, 'm) lres" where
  "LDSTUBA_reg cif p s =
    (let pcounter = PC s; npcounter = NPC s; address = rs1 p s + rs2 p s;
         supervisor = (key_S (PSR s) \<noteq> 0)
     in if \<not> supervisor
        then and_then (raise_if (\<not> supervisor) pcounter npcounter PRIVILEDGE_INSTR s) (\<lambda>_ s. Throw Undefined_Behaviour)
        else and_then (read_byte cif address (asi p) 0 0 s) (\<lambda>v s.
             and_then (write_byte cif address 0xff (asi p) 0 0 s) (\<lambda>_ s.
             Ok 2 (IncrementPC (set_reg (rd_bit p) (ucast v) s)))))"

definition SWAPA_reg :: "'m cpu_if \<Rightarrow> params \<Rightarrow> 'm leon3 \<Rightarrow> (u32, 'm) lres" where
  "SWAPA_reg cif p s =
    (let pcounter = PC s; npcounter = NPC s; address = rs1 p s + rs2 p s;
         toWrite = rd p s;
         supervisor = (key_S (PSR s) \<noteq> 0);
         notAligned = (address AND 0x00000003 \<noteq> 0)
     in if \<not> supervisor \<or> notAligned
        then and_then (raise_if (\<not> supervisor) pcounter npcounter PRIVILEDGE_INSTR s) (\<lambda>_ s.
             and_then (raise_if notAligned pcounter npcounter MEM_ADDR_NOT_ALIGNED s) (\<lambda>_ s. Throw Undefined_Behaviour))
        else and_then (read_word cif address (asi p) 0 1 s) (\<lambda>readValue s.
             and_then (write_word cif address toWrite (asi p) 0 0 s) (\<lambda>_ s.
             Ok 2 (IncrementPC (set_reg (rd_bit p) readValue s)))))"

section \<open>Every instruction keeps the window invariant\<close>

lemma window_ok_finish [keeps_intros]:
  "window_ok s \<Longrightarrow> res_all window_ok (finish_read r s)"
  "window_ok s \<Longrightarrow> res_all window_ok (finish_write r' s)"
  by (auto simp: finish_read_def finish_write_def report_exception_def
      intro!: keeps_intros split: option.splits)

lemma window_ok_write_pair [keeps_intros]: "window_ok s \<Longrightarrow> window_ok (write_pair i v s)"
  by (simp add: write_pair_def window_ok_frame)

lemmas load_defs =
  LDSB_imm_def LDSB_reg_def LDUB_imm_def LDUB_reg_def LDSH_imm_def LDSH_reg_def LDUH_imm_def
  LDUH_reg_def LD_imm_def LD_reg_def LDD_imm_def LDD_reg_def LDSBA_reg_def LDUBA_reg_def
  LDSHA_reg_def LDUHA_reg_def LDA_reg_def LDDA_reg_def

lemma load_keeps_window [keeps_intros]:
  assumes "window_ok s"
  shows "res_all window_ok (LDSB_imm cif p s)"
    and "res_all window_ok (LDSB_reg cif p s)"
    and "res_all window_ok (LDUB_imm cif p s)"
    and "res_all window_ok (LDUB_reg cif p s)"
    and "res_all window_ok (LDSH_imm cif p s)"
    and "res_all window_ok (LDSH_reg cif p s)"
    and "res_all window_ok (LDUH_imm cif p s)"
    and "res_all window_ok (LDUH_reg cif p s)"
    and "res_all window_ok (LD_imm cif p s)"
    and "res_all window_ok (LD_reg cif p s)"
    and "res_all window_ok (LDD_imm cif p s)"
    and "res_all window_ok (LDD_reg cif p s)"
    and "res_all window_ok (LDSBA_reg cif p s)"
    and "res_all window_ok (LDUBA_reg cif p s)"
    and "res_all window_ok (LDSHA_reg cif p s)"
    and "res_all window_ok (LDUHA_reg cif p s)"
    and "res_all window_ok (LDA_reg cif p s)"
    and "res_all window_ok (LDDA_reg cif p s)"
  unfolding load_defs Let_def
  using assms by (auto intro!: keeps_intros split: prod.splits)

lemmas store_defs =
  STB_imm_def STB_reg_def STH_imm_def STH_reg_def ST_imm_def ST_reg_def STD_imm_def STD_reg_def
  STBA_reg_def STHA_reg_def STA_reg_def STDA_reg_def

lemma store_keeps_window [keeps_intros]:
  assumes "window_ok s"
  shows "res_all window_ok (STB_imm cif p s)"
    and "res_all window_ok (STB_reg cif p s)"
    and "res_all window_ok (STH_imm cif p s)"
    and "res_all window_ok (STH_reg cif p s)"
    and "res_all window_ok (ST_imm cif p s)"
    and "res_all window_ok (ST_reg cif p s)"
    and "res_all window_ok (STD_imm cif p s)"
    and "res_all window_ok (STD_reg cif p s)"
    and "res_all window_ok (STBA_reg cif p s)"
    and "res_all window_ok (STHA_reg cif p s)"
    and "res_all window_ok (STA_reg cif p s)"
    and "res_all window_ok (STDA_reg cif p s)"
  unfolding store_defs Let_def
  using assms by (auto intro!: keeps_intros split: prod.splits)

lemmas atomic_defs =
  LDSTUB_imm_def SWAP_imm_def LDSTUB_reg_def SWAP_reg_def LDSTUBA_reg_def SWAPA_reg_def

lemma atomic_keeps_window [keeps_intros]:
  assumes "window_ok s"
  shows "res_all window_ok (LDSTUB_imm cif p s)"
    and "res_all window_ok (SWAP_imm cif p s)"
    and "res_all window_ok (LDSTUB_reg cif p s)"
    and "res_all window_ok (SWAP_reg cif p s)"
    and "res_all window_ok (LDSTUBA_reg cif p s)"
    and "res_all window_ok (SWAPA_reg cif p s)"
  unfolding atomic_defs Let_def
  using assms by (auto intro!: keeps_intros split: prod.splits)

end
