(* ===== verification/Leon3_Ctrl.thy ===== *)
theory Leon3_Ctrl
  imports Leon3_Alu
begin

text \<open>
  The control instructions of the LEON3 core
  (src/gaisler/leon3/intunit/instructions.cpp): window save and restore, return
  from trap, conditional branch and trap, call, jump, and the reads and writes
  of the state registers.
\<close>

section \<open>Register windows\<close>

definition SAVE_imm :: "params \<Rightarrow> 'm leon3 \<Rightarrow> (u32, 'm) lres" where
  "SAVE_imm p s =
    (let pcounter = PC s; npcounter = NPC s; s = IncrementPC s;
         result = rs1 p s + SignExtend (simm13 p) 13;
         (okNewWin, s) = DecrementRegWindow s
     in and_then (raise_if (\<not> okNewWin) pcounter npcounter WINDOW_OVERFLOW s) (\<lambda>_ s.
        Ok 0 (if okNewWin then set_reg (rd_bit p) result s else s)))"

definition SAVE_reg :: "params \<Rightarrow> 'm leon3 \<Rightarrow> (u32, 'm) lres" where
  "SAVE_reg p s =
    (let pcounter = PC s; npcounter = NPC s; s = IncrementPC s;
         result = rs1 p s + rs2 p s;
         (okNewWin, s) = DecrementRegWindow s
     in and_then (raise_if (\<not> okNewWin) pcounter npcounter WINDOW_OVERFLOW s) (\<lambda>_ s.
        Ok 0 (if okNewWin then set_reg (rd_bit p) result s else s)))"

definition RESTORE_imm :: "params \<Rightarrow> 'm leon3 \<Rightarrow> (u32, 'm) lres" where
  "RESTORE_imm p s =
    (let pcounter = PC s; npcounter = NPC s; s = IncrementPC s;
         result = rs1 p s + SignExtend (simm13 p) 13;
         (okNewWin, s) = IncrementRegWindow s
     in and_then (raise_if (\<not> okNewWin) pcounter npcounter WINDOW_UNDERFLOW s) (\<lambda>_ s.
        Ok 0 (if okNewWin then set_reg (rd_bit p) result s else s)))"

definition RESTORE_reg :: "params \<Rightarrow> 'm leon3 \<Rightarrow> (u32, 'm) lres" where
  "RESTORE_reg p s =
    (let pcounter = PC s; npcounter = NPC s; s = IncrementPC s;
         result = rs1 p s + rs2 p s;
         (okNewWin, s) = IncrementRegWindow s
     in and_then (raise_if (\<not> okNewWin) pcounter npcounter WINDOW_UNDERFLOW s) (\<lambda>_ s.
        Ok 0 (if okNewWin then set_reg (rd_bit p) result s else s)))"

section \<open>Return from trap\<close>

definition RETT_imm :: "params \<Rightarrow> 'm leon3 \<Rightarrow> (u32, 'm) lres" where
  "RETT_imm p s =
    (let pcounter = PC s; npcounter = NPC s;
         targetAddr = rs1 p s + SignExtend (simm13 p) 13;
         newCwp = incCwp (PSR s);
         exceptionEnabled = (key_ET (PSR s) \<noteq> 0);
         supervisor = (key_S (PSR s) \<noteq> 0);
         invalidWin = windowInvalid newCwp (WIM s);
         notAligned = (targetAddr AND 0x00000003 \<noteq> 0);
         s = (if \<not> exceptionEnabled \<and> supervisor \<and> \<not> invalidWin \<and> \<not> notAligned
              then s\<lparr>PC := npcounter, NPC := targetAddr\<rparr> else IncrementPC s)
     in if exceptionEnabled then
          and_then (RaiseException pcounter npcounter
            (if supervisor then ILLEGAL_INSTR else PRIVILEDGE_INSTR) 0 s) (\<lambda>_ s. Ok 0 s)
        else if \<not> supervisor \<or> invalidWin \<or> notAligned then Throw Invalid_RETT
        else
          (let s = s\<lparr>PSR := (PSR s AND 0xFFFFFF40) OR (newCwp OR 0x20 OR push_bit 7 (key_PS (PSR s)))\<rparr>
           in Ok 2 (updateAliases newCwp s)))"

definition RETT_reg :: "params \<Rightarrow> 'm leon3 \<Rightarrow> (u32, 'm) lres" where
  "RETT_reg p s =
    (let pcounter = PC s; npcounter = NPC s;
         targetAddr = rs1 p s + rs2 p s;
         newCwp = incCwp (PSR s);
         exceptionEnabled = (key_ET (PSR s) \<noteq> 0);
         supervisor = (key_S (PSR s) \<noteq> 0);
         invalidWin = windowInvalid newCwp (WIM s);
         notAligned = (targetAddr AND 0x00000003 \<noteq> 0);
         s = (if \<not> exceptionEnabled \<and> supervisor \<and> \<not> invalidWin \<and> \<not> notAligned
              then s\<lparr>PC := npcounter, NPC := targetAddr\<rparr> else IncrementPC s)
     in if exceptionEnabled then
          and_then (RaiseException pcounter npcounter
            (if supervisor then ILLEGAL_INSTR else PRIVILEDGE_INSTR) 0 s) (\<lambda>_ s. Ok 0 s)
        else if \<not> supervisor \<or> invalidWin \<or> notAligned then Throw Invalid_RETT
        else
          (let s = s\<lparr>PSR := (PSR s AND 0xFFFFFF40) OR (newCwp OR 0x20 OR push_bit 7 (key_PS (PSR s)))\<rparr>
           in Ok 2 (updateAliases newCwp s)))"

section \<open>Conditional branches and traps\<close>

text \<open>The fourteen conditions on the condition codes that \<^verbatim>\<open>BRANCH\<close> and
  \<^verbatim>\<open>TRAP\<close> test; "always" (0x8) and "never" (0x0) are treated apart.\<close>

definition icc_cond :: "u32 \<Rightarrow> u32 \<Rightarrow> bool" where
  "icc_cond c psr =
    (let icc_z = (key_ICC_z psr \<noteq> 0); icc_n = (key_ICC_n psr \<noteq> 0);
         icc_v = (key_ICC_v psr \<noteq> 0); icc_c = (key_ICC_c psr \<noteq> 0)
     in (c = 0x9 \<and> \<not> icc_z) \<or>
        (c = 0x1 \<and> icc_z) \<or>
        (c = 0xa \<and> \<not> icc_z \<and> icc_n = icc_v) \<or>
        (c = 0x2 \<and> (icc_z \<or> icc_n \<noteq> icc_v)) \<or>
        (c = 0xb \<and> icc_n = icc_v) \<or>
        (c = 0x3 \<and> icc_n \<noteq> icc_v) \<or>
        (c = 0xc \<and> \<not> icc_c \<and> \<not> icc_z) \<or>
        (c = 0x4 \<and> (icc_c \<or> icc_z)) \<or>
        (c = 0xd \<and> \<not> icc_c) \<or>
        (c = 0x5 \<and> icc_c) \<or>
        (c = 0xe \<and> \<not> icc_n) \<or>
        (c = 0x6 \<and> icc_n) \<or>
        (c = 0xf \<and> \<not> icc_v) \<or>
        (c = 0x7 \<and> icc_v))"

definition BRANCH :: "params \<Rightarrow> 'm leon3 \<Rightarrow> (u32, 'm) lres" where
  "BRANCH p s =
    (let pcounter = PC s; npcounter = NPC s;
         targetPc = pcounter + 4 * SignExtend (disp22 p) 22
     in if cond p = 0x8 then
          (if annul_bit p = 1 then Ok 2 (s\<lparr>PC := targetPc, NPC := targetPc + 4\<rparr>)
           else Ok 2 (s\<lparr>PC := npcounter, NPC := targetPc\<rparr>))
        else if cond p = 0 then
          (if annul_bit p = 1 then Ok 2 (s\<lparr>PC := npcounter + 4, NPC := npcounter + 8\<rparr>)
           else Ok 2 (s\<lparr>PC := npcounter, NPC := npcounter + 4\<rparr>))
        else if icc_cond (cond p) (PSR s) then
          Ok 2 (s\<lparr>PC := npcounter, NPC := targetPc\<rparr>)
        else
          (if annul_bit p = 1 then Ok 2 (s\<lparr>PC := npcounter + 4, NPC := npcounter + 8\<rparr>)
           else Ok 2 (s\<lparr>PC := npcounter, NPC := npcounter + 4\<rparr>)))"

definition TRAP_imm :: "params \<Rightarrow> 'm leon3 \<Rightarrow> (u32, 'm) lres" where
  "TRAP_imm p s =
    (let pcounter = PC s; npcounter = NPC s;
         raiseException = (cond p = 0x8 \<or> icc_cond (cond p) (PSR s))
     in if raiseException then
          and_then (RaiseException pcounter npcounter TRAP_INSTRUCTION
            ((rs1 p s + SignExtend (imm7 p) 7) AND 0x0000007F) s) (\<lambda>_ s. Ok 4 s)
        else Ok 0 (s\<lparr>PC := npcounter, NPC := npcounter + 4\<rparr>))"

definition TRAP_reg :: "params \<Rightarrow> 'm leon3 \<Rightarrow> (u32, 'm) lres" where
  "TRAP_reg p s =
    (let pcounter = PC s; npcounter = NPC s;
         raiseException = (cond p = 0x8 \<or> icc_cond (cond p) (PSR s))
     in if raiseException then
          and_then (RaiseException pcounter npcounter TRAP_INSTRUCTION
            ((rs1 p s + rs2 p s) AND 0x0000007F) s) (\<lambda>_ s. Ok 4 s)
        else Ok 0 (s\<lparr>PC := npcounter, NPC := npcounter + 4\<rparr>))"

section \<open>Call and jump\<close>

definition CALL :: "params \<Rightarrow> 'm leon3 \<Rightarrow> (u32, 'm) lres" where
  "CALL p s =
    (let pcounter = PC s; npcounter = NPC s;
         target = pcounter + push_bit 2 (disp30 p)
     in Ok 0 (set_reg 15 pcounter (s\<lparr>PC := npcounter, NPC := target\<rparr>)))"

definition JUMP_imm :: "params \<Rightarrow> 'm leon3 \<Rightarrow> (u32, 'm) lres" where
  "JUMP_imm p s =
    (let pcounter = PC s; npcounter = NPC s;
         jumpAddr = rs1 p s + SignExtend (simm13 p) 13;
         trapNotAligned = (jumpAddr AND 0x00000003 \<noteq> 0);
         s = (if trapNotAligned then s else s\<lparr>PC := npcounter, NPC := jumpAddr\<rparr>)
     in and_then (raise_if trapNotAligned pcounter npcounter MEM_ADDR_NOT_ALIGNED s) (\<lambda>_ s.
        Ok 2 (if \<not> trapNotAligned then set_reg (rd_bit p) pcounter s else s)))"

definition JUMP_reg :: "params \<Rightarrow> 'm leon3 \<Rightarrow> (u32, 'm) lres" where
  "JUMP_reg p s =
    (let pcounter = PC s; npcounter = NPC s;
         jumpAddr = rs1 p s + rs2 p s;
         trapNotAligned = (jumpAddr AND 0x00000003 \<noteq> 0);
         s = (if trapNotAligned then s else s\<lparr>PC := npcounter, NPC := jumpAddr\<rparr>)
     in and_then (raise_if trapNotAligned pcounter npcounter MEM_ADDR_NOT_ALIGNED s) (\<lambda>_ s.
        Ok 2 (if \<not> trapNotAligned then set_reg (rd_bit p) pcounter s else s)))"

section \<open>Reading state registers\<close>

definition READy :: "params \<Rightarrow> 'm leon3 \<Rightarrow> (u32, 'm) lres" where
  "READy p s =
    (let s = IncrementPC s; y_temp = Y s
     in Ok 0 (set_reg (rd_bit p) y_temp s))"

definition READasr :: "params \<Rightarrow> 'm leon3 \<Rightarrow> (u32, 'm) lres" where
  "READasr p s =
    (let s = IncrementPC s; asr_temp = ASR s (asr p)
     in Ok 0 (set_reg (rd_bit p) asr_temp s))"

definition READpsr :: "params \<Rightarrow> 'm leon3 \<Rightarrow> (u32, 'm) lres" where
  "READpsr p s =
    (let pcounter = PC s; npcounter = NPC s; s = IncrementPC s;
         psr_temp = PSR s;
         supervisor = (psr_temp AND 0x00000080 \<noteq> 0)
     in and_then (raise_if (\<not> supervisor) pcounter npcounter PRIVILEDGE_INSTR s) (\<lambda>_ s.
        Ok 0 (set_reg (rd_bit p) psr_temp s)))"

definition READwim :: "params \<Rightarrow> 'm leon3 \<Rightarrow> (u32, 'm) lres" where
  "READwim p s =
    (let pcounter = PC s; npcounter = NPC s; s = IncrementPC s;
         wim_temp = WIM s;
         supervisor = (key_S (PSR s) \<noteq> 0)
     in and_then (raise_if (\<not> supervisor) pcounter npcounter PRIVILEDGE_INSTR s) (\<lambda>_ s.
        Ok 0 (set_reg (rd_bit p) wim_temp s)))"

definition READtbr :: "params \<Rightarrow> 'm leon3 \<Rightarrow> (u32, 'm) lres" where
  "READtbr p s =
    (let pcounter = PC s; npcounter = NPC s; s = IncrementPC s;
         tbr_temp = TBR s;
         supervisor = (key_S (PSR s) \<noteq> 0)
     in and_then (raise_if (\<not> supervisor) pcounter npcounter PRIVILEDGE_INSTR s) (\<lambda>_ s.
        Ok 0 (set_reg (rd_bit p) tbr_temp s)))"

section \<open>Writing state registers\<close>

text \<open>In these classes \<^verbatim>\<open>rd\<close> is a plain number, not an alias.\<close>

definition WRITEY_imm :: "params \<Rightarrow> 'm leon3 \<Rightarrow> (u32, 'm) lres" where
  "WRITEY_imm p s =
    (let s = IncrementPC s; result = rs1 p s XOR SignExtend (simm13 p) 13
     in Ok 0 (s\<lparr>Y := result\<rparr>))"

definition WRITEY_reg :: "params \<Rightarrow> 'm leon3 \<Rightarrow> (u32, 'm) lres" where
  "WRITEY_reg p s =
    (let s = IncrementPC s; result = rs1 p s XOR rs2 p s
     in Ok 0 (s\<lparr>Y := result\<rparr>))"

definition WRITEasr_imm :: "params \<Rightarrow> 'm leon3 \<Rightarrow> (u32, 'm) lres" where
  "WRITEasr_imm p s =
    (let s = IncrementPC s; result = rs1 p s XOR SignExtend (simm13 p) 13;
         s = s\<lparr>Y := result\<rparr>
     in Ok 0 (s\<lparr>ASR := (ASR s)(rd_bit p := result)\<rparr>))"

definition WRITEasr_reg :: "params \<Rightarrow> 'm leon3 \<Rightarrow> (u32, 'm) lres" where
  "WRITEasr_reg p s =
    (let s = IncrementPC s; result = rs1 p s XOR rs2 p s;
         s = s\<lparr>Y := result\<rparr>
     in Ok 0 (s\<lparr>ASR := (ASR s)(rd_bit p := result)\<rparr>))"

definition WRITEpsr_imm :: "params \<Rightarrow> 'm leon3 \<Rightarrow> (u32, 'm) lres" where
  "WRITEpsr_imm p s =
    (let pcounter = PC s; npcounter = NPC s; s = IncrementPC s;
         result = ((rs1 p s XOR SignExtend (simm13 p) 13) AND 0x00FFCFFF) OR 0xF3000000;
         supervisorException = (key_S (PSR s) = 0);
         illegalCWP = (result AND 0x0000001f \<ge> NUM_REG_WIN);
         s = (if \<not> (supervisorException \<or> illegalCWP)
              then updateAliases (result AND 0x0000001f) (s\<lparr>PSR := result\<rparr>) else s)
     in and_then (raise_if supervisorException pcounter npcounter PRIVILEDGE_INSTR s) (\<lambda>_ s.
        and_then (raise_if illegalCWP pcounter npcounter ILLEGAL_INSTR s) (\<lambda>_ s. Ok 0 s)))"

definition WRITEpsr_reg :: "params \<Rightarrow> 'm leon3 \<Rightarrow> (u32, 'm) lres" where
  "WRITEpsr_reg p s =
    (let pcounter = PC s; npcounter = NPC s; s = IncrementPC s;
         result = ((rs1 p s XOR rs2 p s) AND 0x00FFCFFF) OR 0xF3000000;
         supervisorException = (key_S (PSR s) = 0);
         illegalCWP = (result AND 0x0000001f \<ge> NUM_REG_WIN);
         s = (if \<not> (supervisorException \<or> illegalCWP)
              then updateAliases (result AND 0x0000001f) (s\<lparr>PSR := result\<rparr>) else s)
     in and_then (raise_if supervisorException pcounter npcounter PRIVILEDGE_INSTR s) (\<lambda>_ s.
        and_then (raise_if illegalCWP pcounter npcounter ILLEGAL_INSTR s) (\<lambda>_ s. Ok 0 s)))"

definition WRITEwim_imm :: "params \<Rightarrow> 'm leon3 \<Rightarrow> (u32, 'm) lres" where
  "WRITEwim_imm p s =
    (let pcounter = PC s; npcounter = NPC s; s = IncrementPC s;
         result = rs1 p s XOR SignExtend (simm13 p) 13;
         raiseException = (key_S (PSR s) = 0)
     in and_then (raise_if raiseException pcounter npcounter PRIVILEDGE_INSTR s) (\<lambda>_ s.
        Ok 0 (if \<not> raiseException then s\<lparr>WIM := result AND drop_bit (unat (32 - NUM_REG_WIN)) 0xFFFFFFFF\<rparr> else s)))"

definition WRITEwim_reg :: "params \<Rightarrow> 'm leon3 \<Rightarrow> (u32, 'm) lres" where
  "WRITEwim_reg p s =
    (let pcounter = PC s; npcounter = NPC s; s = IncrementPC s;
         result = rs1 p s XOR rs2 p s;
         raiseException = (key_S (PSR s) = 0)
     in and_then (raise_if raiseException pcounter npcounter PRIVILEDGE_INSTR s) (\<lambda>_ s.
        Ok 0 (if \<not> raiseException then s\<lparr>WIM := result AND drop_bit (unat (32 - NUM_REG_WIN)) 0xFFFFFFFF\<rparr> else s)))"

definition WRITEtbr_imm :: "params \<Rightarrow> 'm leon3 \<Rightarrow> (u32, 'm) lres" where
  "WRITEtbr_imm p s =
    (let pcounter = PC s; npcounter = NPC s; s = IncrementPC s;
         result = rs1 p s XOR SignExtend (simm13 p) 13;
         raiseException = (key_S (PSR s) = 0)
     in and_then (raise_if raiseException pcounter npcounter PRIVILEDGE_INSTR s) (\<lambda>_ s.
        Ok 0 (if \<not> raiseException then s\<lparr>TBR := TBR s OR (result AND 0xFFFFF000)\<rparr> else s)))"

definition WRITEtbr_reg :: "params \<Rightarrow> 'm leon3 \<Rightarrow> (u32, 'm) lres" where
  "WRITEtbr_reg p s =
    (let pcounter = PC s; npcounter = NPC s; s = IncrementPC s;
         result = rs1 p s XOR rs2 p s;
         raiseException = (key_S (PSR s) = 0)
     in and_then (raise_if raiseException pcounter npcounter PRIVILEDGE_INSTR s) (\<lambda>_ s.
        Ok 0 (if \<not> raiseException then s\<lparr>TBR := TBR s OR (result AND 0xFFFFF000)\<rparr> else s)))"

section \<open>The remaining instructions\<close>

definition FLUSH_imm :: "params \<Rightarrow> 'm leon3 \<Rightarrow> (u32, 'm) lres" where
  "FLUSH_imm p s =
    Ok 0 (IncrementPC s)"

definition FLUSH_reg :: "params \<Rightarrow> 'm leon3 \<Rightarrow> (u32, 'm) lres" where
  "FLUSH_reg p s =
    Ok 0 (IncrementPC s)"

definition STBAR :: "params \<Rightarrow> 'm leon3 \<Rightarrow> (u32, 'm) lres" where
  "STBAR p s =
    Ok 0 (IncrementPC s)"

definition UNIMP :: "params \<Rightarrow> 'm leon3 \<Rightarrow> (u32, 'm) lres" where
  "UNIMP p s =
    (let pcounter = PC s; npcounter = NPC s; s = IncrementPC s
     in and_then (RaiseException pcounter npcounter ILLEGAL_INSTR 0 s) (\<lambda>_ s. Ok 0 s))"

definition InvalidInstr :: "params \<Rightarrow> 'm leon3 \<Rightarrow> (u32, 'm) lres" where
  "InvalidInstr p s =
    Throw (Unknown_Instruction (PC s))"

text \<open>The pseudo-instruction the main loop executes for an accepted interrupt.\<close>

definition IRQ_Instruction :: "'m leon3 \<Rightarrow> (u32, 'm) lres" where
  "IRQ_Instruction s =
    (let pcounter = PC s; npcounter = NPC s
     in and_then (RaiseException pcounter npcounter (38 - IRQ s) 0 s) (\<lambda>_ s. Ok 0 s))"

section \<open>Every instruction keeps the window invariant\<close>

lemma key_CWP_RETT:
  assumes "c < 8"
  shows "key_CWP ((psr AND 0xFFFFFF40) OR (c OR 0x20 OR push_bit 7 (key_PS psr))) = c"
proof -
  have hi: "\<not> bit (0x20::u32) k" if "k < 5" for k
    using that by (auto simp: less_Suc_eq numeral_eq_Suc)
  have sh: "\<not> bit (push_bit 7 x :: u32) k" if "k < 5" for k and x :: u32
    using that unfolding bit_push_bit_iff by simp
  have lo: "\<not> bit (0xFFFFFF40::u32) k" if "k < 5" for k
    using that by (auto simp: less_Suc_eq numeral_eq_Suc)
  have "n < 5" if "bit c n" for n
    using cwp_bits_high [OF assms, of n] that by (cases "n < 5") simp_all
  then show ?thesis
    using hi sh lo
    by (intro bit_word_eqI) (auto simp: key_CWP_bits bit_or_iff bit_and_iff simp del: push_bit_numeral)
qed

lemma window_ok_updateAliases_PSR:
  assumes "window_ok s" "key_CWP psr = c" "c < 8"
  shows "window_ok (updateAliases c (s\<lparr>PSR := psr\<rparr>))"
  using window_ok_globals [OF assms(1)] assms(2,3)
  by (intro window_ok_updateAliases) simp_all

lemmas window_defs =
  SAVE_imm_def SAVE_reg_def RESTORE_imm_def RESTORE_reg_def

lemma window_keeps_window [keeps_intros]:
  assumes "window_ok s"
  shows "res_all window_ok (SAVE_imm p s)"
    and "res_all window_ok (SAVE_reg p s)"
    and "res_all window_ok (RESTORE_imm p s)"
    and "res_all window_ok (RESTORE_reg p s)"
  unfolding window_defs Let_def
  using assms window_ok_IncrementRegWindow [of "IncrementPC s"]
    window_ok_DecrementRegWindow [of "IncrementPC s"] window_ok_frame(2) [OF assms]
  by (auto intro!: keeps_intros split: prod.splits)

lemmas rett_defs =
  RETT_imm_def RETT_reg_def

lemma rett_keeps_window [keeps_intros]:
  assumes "window_ok s"
  shows "res_all window_ok (RETT_imm p s)"
    and "res_all window_ok (RETT_reg p s)"
  unfolding rett_defs Let_def
  using assms window_ok_frame
  by (auto intro!: keeps_intros window_ok_updateAliases_PSR key_CWP_RETT)

lemmas jump_defs =
  BRANCH_def TRAP_imm_def TRAP_reg_def CALL_def JUMP_imm_def JUMP_reg_def

lemma jump_keeps_window [keeps_intros]:
  assumes "window_ok s"
  shows "res_all window_ok (BRANCH p s)"
    and "res_all window_ok (TRAP_imm p s)"
    and "res_all window_ok (TRAP_reg p s)"
    and "res_all window_ok (CALL p s)"
    and "res_all window_ok (JUMP_imm p s)"
    and "res_all window_ok (JUMP_reg p s)"
  unfolding jump_defs Let_def
  using assms by (auto intro!: keeps_intros split: prod.splits)

lemmas read_state_defs =
  READy_def READasr_def READpsr_def READwim_def READtbr_def

lemma read_state_keeps_window [keeps_intros]:
  assumes "window_ok s"
  shows "res_all window_ok (READy p s)"
    and "res_all window_ok (READasr p s)"
    and "res_all window_ok (READpsr p s)"
    and "res_all window_ok (READwim p s)"
    and "res_all window_ok (READtbr p s)"
  unfolding read_state_defs Let_def
  using assms by (auto intro!: keeps_intros split: prod.splits)

lemmas write_state_defs =
  WRITEY_imm_def WRITEY_reg_def WRITEasr_imm_def WRITEasr_reg_def WRITEpsr_imm_def
  WRITEpsr_reg_def WRITEwim_imm_def WRITEwim_reg_def WRITEtbr_imm_def WRITEtbr_reg_def

lemma write_state_keeps_window [keeps_intros]:
  assumes "window_ok s"
  shows "res_all window_ok (WRITEY_imm p s)"
    and "res_all window_ok (WRITEY_reg p s)"
    and "res_all window_ok (WRITEasr_imm p s)"
    and "res_all window_ok (WRITEasr_reg p s)"
    and "res_all window_ok (WRITEpsr_imm p s)"
    and "res_all window_ok (WRITEpsr_reg p s)"
    and "res_all window_ok (WRITEwim_imm p s)"
    and "res_all window_ok (WRITEwim_reg p s)"
    and "res_all window_ok (WRITEtbr_imm p s)"
    and "res_all window_ok (WRITEtbr_reg p s)"
  unfolding write_state_defs Let_def
  using assms
  by (auto intro!: keeps_intros window_ok_updateAliases_PSR simp: key_CWP_def NUM_REG_WIN_def not_le)

lemmas misc_defs =
  FLUSH_imm_def FLUSH_reg_def STBAR_def UNIMP_def InvalidInstr_def

lemma misc_keeps_window [keeps_intros]:
  assumes "window_ok s"
  shows "res_all window_ok (FLUSH_imm p s)"
    and "res_all window_ok (FLUSH_reg p s)"
    and "res_all window_ok (STBAR p s)"
    and "res_all window_ok (UNIMP p s)"
    and "res_all window_ok (InvalidInstr p s)"
  unfolding misc_defs Let_def
  using assms by (auto intro!: keeps_intros split: prod.splits)

lemma IRQ_keeps_window [keeps_intros]:
  "window_ok s \<Longrightarrow> res_all window_ok (IRQ_Instruction s)"
  unfolding IRQ_Instruction_def Let_def by (auto intro!: keeps_intros)

end
