(* ===== verification/Leon3_Decode.thy ===== *)
theory Leon3_Decode
  imports Leon3_LoadStore Leon3_Ctrl
begin

text \<open>
  The decoder of the LEON3 core (src/gaisler/leon3/intunit/decoder.cpp), one
  definition per case of its outermost switch, and the table
  \<^verbatim>\<open>INSTRUCTIONS\<close> of processor.cpp that maps a decoded number to its
  instruction class.
\<close>

section \<open>The decoder\<close>

definition decode_0 :: "u32 \<Rightarrow> nat" where
  "decode_0 instrCode =
    (let k = instrCode AND 0xc0000000 in
     if k = 0xc0000000 then
        (let k = instrCode AND 0x380000 in
         if k = 0x0 then (if instrCode AND 0x2000 \<noteq> 0x0 then 8 else 9)
         else if k = 0x200000 then (if instrCode AND 0x2000 \<noteq> 0x0 then 22 else 23)
         else if k = 0x100000 then (if instrCode AND 0x2000 \<noteq> 0x0 then 6 else 7)
         else if k = 0x80000 then (if instrCode AND 0x2000 = 0x0 then 5 else 4)
         else if k = 0x180000 then (if instrCode AND 0x2000 \<noteq> 0x0 then 10 else 11)
         else if k = 0x380000 then (if instrCode AND 0x2000 \<noteq> 0x0 then 24 else 25)
         else if k = 0x300000 then (if instrCode AND 0x2000 \<noteq> 0x0 then 20 else 21)
         else if k = 0x280000 then (if instrCode AND 0x2000 \<noteq> 0x0 then 18 else 19)
         else 144)
     else if k = 0x80000000 then
        (let k = instrCode AND 0x380000 in
         if k = 0x100000 then (if instrCode AND 0x2000 \<noteq> 0x0 then 45 else 46)
         else if k = 0x0 then (if instrCode AND 0x2000 \<noteq> 0x0 then 67 else 68)
         else if k = 0x80000 then (if instrCode AND 0x2000 \<noteq> 0x0 then 37 else 38)
         else if k = 0x180000 then (if instrCode AND 0x2000 = 0x0 then 54 else 53)
         else if k = 0x200000 then (if instrCode AND 0x2000 = 0x0 then 80 else 79)
         else if k = 0x280000 then (if instrCode AND 0x2000 = 0x0 then 42 else 41)
         else if k = 0x380000 then (if instrCode AND 0x2000 \<noteq> 0x0 then 57 else 58)
         else if k = 0x300000 then (if instrCode AND 0x2000 \<noteq> 0x0 then 49 else 50)
         else 144)
     else if k = 0x40000000 then 118
     else if k = 0x0 then 141
     else 144)"

definition decode_800000 :: "u32 \<Rightarrow> nat" where
  "decode_800000 instrCode =
    (let k = instrCode AND 0xc0000000 in
     if k = 0x80000000 then
        (let k = instrCode AND 0x380000 in
         if k = 0x200000 then (if instrCode AND 0x2000 \<noteq> 0x0 then 81 else 82)
         else if k = 0x0 then (if instrCode AND 0x2000 = 0x0 then 70 else 69)
         else if k = 0x100000 then (if instrCode AND 0x2000 = 0x0 then 48 else 47)
         else if k = 0x80000 then (if instrCode AND 0x2000 \<noteq> 0x0 then 39 else 40)
         else if k = 0x180000 then (if instrCode AND 0x2000 \<noteq> 0x0 then 55 else 56)
         else if k = 0x300000 then (if instrCode AND 0x2000 \<noteq> 0x0 then 51 else 52)
         else if k = 0x280000 then (if instrCode AND 0x2000 = 0x0 then 44 else 43)
         else if k = 0x380000 then (if instrCode AND 0x2000 \<noteq> 0x0 then 59 else 60)
         else 144)
     else if k = 0x0 then 117
     else if k = 0x40000000 then 118
     else if k = 0xc0000000 then
        (let k = instrCode AND 0x380000 in
         if k = 0x380000 then 29
         else if k = 0x280000 then 26
         else if k = 0x300000 then 27
         else if k = 0x200000 then 28
         else if k = 0x180000 then 17
         else if k = 0x80000 then 14
         else if k = 0x100000 then 15
         else if k = 0x0 then 16
         else 144)
     else 144)"

definition decode_1000000 :: "u32 \<Rightarrow> nat" where
  "decode_1000000 instrCode =
    (let k = instrCode AND 0xc0000000 in
     if k = 0x80000000 then
        (let k = instrCode AND 0x380000 in
         if k = 0x280000 then (if instrCode AND 0x2000 \<noteq> 0x0 then 61 else 62)
         else if k = 0x300000 then (if instrCode AND 0x2000 \<noteq> 0x0 then 63 else 64)
         else if k = 0x380000 then (if instrCode AND 0x2000 \<noteq> 0x0 then 65 else 66)
         else if k = 0x200000 then (if instrCode AND 0x2000 \<noteq> 0x0 then 91 else 92)
         else if k = 0x0 then (if instrCode AND 0x2000 \<noteq> 0x0 then 75 else 76)
         else if k = 0x180000 then (if instrCode AND 0x2000 = 0x0 then 90 else 89)
         else if k = 0x100000 then (if instrCode AND 0x2000 = 0x0 then 78 else 77)
         else if k = 0x80000 then (if instrCode AND 0x2000 \<noteq> 0x0 then 87 else 88)
         else 144)
     else if k = 0x0 then 36
     else if k = 0x40000000 then 118
     else 144)"

definition decode_400000 :: "u32 \<Rightarrow> nat" where
  "decode_400000 instrCode =
    (let k = instrCode AND 0xc0000000 in
     if k = 0x80000000 then
        (let k = instrCode AND 0x300000 in
         if k = 0x0 then (if instrCode AND 0x2000 = 0x0 then 72 else 71)
         else if k = 0x100000 then
            (if instrCode AND 0x2000 = 0x0 then
              (if instrCode AND 0x80000 \<noteq> 0x0 then 96 else 94)
             else
              (if instrCode AND 0x80000 = 0x80000 then 95 else 93))
         else if k = 0x300000 then
            (if instrCode AND 0x2000 = 0x0 then
              (if instrCode AND 0x80000 = 0x0 then 106 else 108)
             else
              (if instrCode AND 0x80000 = 0x0 then 105 else 107))
         else if k = 0x200000 then (if instrCode AND 0x2000 = 0x0 then 84 else 83)
         else 144)
     else if k = 0xc0000000 then
        (let k = instrCode AND 0x300000 in
         if k = 0x0 then (if instrCode AND 0x2000 = 0x0 then 1 else 0)
         else if k = 0x200000 then (if instrCode AND 0x2000 \<noteq> 0x0 then 30 else 31)
         else if k = 0x100000 then (if instrCode AND 0x2000 = 0x0 then 3 else 2)
         else if k = 0x300000 then (if instrCode AND 0x2000 = 0x0 then 34 else 33)
         else 144)
     else if k = 0x40000000 then 118
     else 144)"

definition decode_1c00000 :: "u32 \<Rightarrow> nat" where
  "decode_1c00000 instrCode =
    (let k = instrCode AND 0xc0000000 in
     if k = 0x80000000 then
        (let k = instrCode AND 0x380000 in
         if k = 0x0 then (if instrCode AND 0x2000 \<noteq> 0x0 then 119 else 120)
         else if k = 0x200000 then (if instrCode AND 0x2000 \<noteq> 0x0 then 113 else 114)
         else if k = 0x280000 then (if instrCode AND 0x2000 = 0x0 then 116 else 115)
         else if k = 0x80000 then (if instrCode AND 0x2000 = 0x0 then 122 else 121)
         else if k = 0x180000 then (if instrCode AND 0x2000 \<noteq> 0x0 then 143 else 142)
         else if k = 0x380000 then (if instrCode AND 0x2000 \<noteq> 0x0 then 103 else 104)
         else if k = 0x100000 then (if instrCode AND 0x2000 \<noteq> 0x0 then 123 else 124)
         else if k = 0x300000 then (if instrCode AND 0x2000 \<noteq> 0x0 then 101 else 102)
         else 144)
     else if k = 0x40000000 then 118
     else 144)"

definition decode_c00000 :: "u32 \<Rightarrow> nat" where
  "decode_c00000 instrCode =
    (let k = instrCode AND 0xc0000000 in
     if k = 0x80000000 then
        (let k = instrCode AND 0x300000 in
         if k = 0x100000 then
            (if instrCode AND 0x2000 = 0x0 then
              (if instrCode AND 0x80000 \<noteq> 0x0 then 100 else 98)
             else
              (if instrCode AND 0x80000 \<noteq> 0x0 then 99 else 97))
         else if k = 0x300000 then
            (if instrCode AND 0x2000 = 0x0 then
              (if instrCode AND 0x80000 = 0x0 then 110 else 112)
             else
              (if instrCode AND 0x80000 = 0x0 then 109 else 111))
         else if k = 0x200000 then (if instrCode AND 0x2000 \<noteq> 0x0 then 85 else 86)
         else if k = 0x0 then (if instrCode AND 0x2000 \<noteq> 0x0 then 73 else 74)
         else 144)
     else if k = 0x40000000 then 118
     else if k = 0xc0000000 then
        (if instrCode AND 0x100000 = 0x0 then
          (if instrCode AND 0x200000 = 0x0 then 12 else 32)
         else
          (if instrCode AND 0x80000 = 0x0 then 13 else 35))
     else 144)"

definition decode_1800000 :: "u32 \<Rightarrow> nat" where
  "decode_1800000 instrCode =
    (if instrCode AND 0x40000000 \<noteq> 0x40000000 then
      (let k = instrCode AND 0x180000 in
       if k = 0x80000 then (if instrCode AND 0x2000 \<noteq> 0x0 then 135 else 134)
       else if k = 0x0 then
          (if instrCode AND 0x2000 \<noteq> 0x0 then
            (if instrCode AND 0xfff82000 = 0x81802000 then 131 else 133)
           else
            (if instrCode AND 0xfff83fe0 = 0x81800000 then 130 else 132))
       else if k = 0x100000 then (if instrCode AND 0x2000 = 0x0 then 136 else 137)
       else if k = 0x180000 then (if instrCode AND 0x2000 = 0x0 then 138 else 139)
       else 144)
     else
      118)"

definition decode_1400000 :: "u32 \<Rightarrow> nat" where
  "decode_1400000 instrCode =
    (if instrCode AND 0x40000000 \<noteq> 0x0 then
      118
     else
      (if instrCode AND 0x80000 \<noteq> 0x0 then
        (if instrCode AND 0x100000 = 0x0 then 127 else 129)
       else
        (if instrCode AND 0x100000 = 0x0 then
          (if instrCode AND 0xc1ffffff = 0x81400000 then
            125
           else
            (if instrCode AND 0xffffffff = 0x8143c000 then 140 else 126))
         else
          128)))"

definition decode :: "u32 \<Rightarrow> nat" where
  "decode instrCode =
    (let k = instrCode AND 0x1c00000 in
     if k = 0x0 then decode_0 instrCode
     else if k = 0x800000 then decode_800000 instrCode
     else if k = 0x1000000 then decode_1000000 instrCode
     else if k = 0x400000 then decode_400000 instrCode
     else if k = 0x1c00000 then decode_1c00000 instrCode
     else if k = 0xc00000 then decode_c00000 instrCode
     else if k = 0x1800000 then decode_1800000 instrCode
     else if k = 0x1400000 then decode_1400000 instrCode
     else 144)"

section \<open>The instruction table\<close>

definition INSTRUCTIONS :: "'m cpu_if \<Rightarrow> (params \<Rightarrow> 'm leon3 \<Rightarrow> (u32, 'm) lres) list" where
  "INSTRUCTIONS cif = [
     LDSB_imm cif, LDSB_reg cif, LDSH_imm cif, LDSH_reg cif, LDUB_imm cif,
     LDUB_reg cif, LDUH_imm cif, LDUH_reg cif, LD_imm cif, LD_reg cif,
     LDD_imm cif, LDD_reg cif, LDSBA_reg cif, LDSHA_reg cif, LDUBA_reg cif,
     LDUHA_reg cif, LDA_reg cif, LDDA_reg cif, STB_imm cif, STB_reg cif,
     STH_imm cif, STH_reg cif, ST_imm cif, ST_reg cif, STD_imm cif,
     STD_reg cif, STBA_reg cif, STHA_reg cif, STA_reg cif, STDA_reg cif,
     LDSTUB_imm cif, LDSTUB_reg cif, LDSTUBA_reg cif, SWAP_imm cif, SWAP_reg cif,
     SWAPA_reg cif, SETHI, AND_imm, AND_reg, ANDcc_imm,
     ANDcc_reg, ANDN_imm, ANDN_reg, ANDNcc_imm, ANDNcc_reg,
     OR_imm, OR_reg, ORcc_imm, ORcc_reg, ORN_imm,
     ORN_reg, ORNcc_imm, ORNcc_reg, XOR_imm, XOR_reg,
     XORcc_imm, XORcc_reg, XNOR_imm, XNOR_reg, XNORcc_imm,
     XNORcc_reg, SLL_imm, SLL_reg, SRL_imm, SRL_reg,
     SRA_imm, SRA_reg, ADD_imm, ADD_reg, ADDcc_imm,
     ADDcc_reg, ADDX_imm, ADDX_reg, ADDXcc_imm, ADDXcc_reg,
     TADDcc_imm, TADDcc_reg, TADDccTV_imm, TADDccTV_reg, SUB_imm,
     SUB_reg, SUBcc_imm, SUBcc_reg, SUBX_imm, SUBX_reg,
     SUBXcc_imm, SUBXcc_reg, TSUBcc_imm, TSUBcc_reg, TSUBccTV_imm,
     TSUBccTV_reg, MULScc_imm, MULScc_reg, UMUL_imm, UMUL_reg,
     SMUL_imm, SMUL_reg, UMULcc_imm, UMULcc_reg, SMULcc_imm,
     SMULcc_reg, UMAC_imm, UMAC_reg, SMAC_imm, SMAC_reg,
     UDIV_imm, UDIV_reg, SDIV_imm, SDIV_reg, UDIVcc_imm,
     UDIVcc_reg, SDIVcc_imm, SDIVcc_reg, SAVE_imm, SAVE_reg,
     RESTORE_imm, RESTORE_reg, BRANCH, CALL, JUMP_imm,
     JUMP_reg, RETT_imm, RETT_reg, TRAP_imm, TRAP_reg,
     READy, READasr, READpsr, READwim, READtbr,
     WRITEY_reg, WRITEY_imm, WRITEasr_reg, WRITEasr_imm, WRITEpsr_reg,
     WRITEpsr_imm, WRITEwim_reg, WRITEwim_imm, WRITEtbr_reg, WRITEtbr_imm,
     STBAR, UNIMP, FLUSH_reg, FLUSH_imm, InvalidInstr]"

lemma length_INSTRUCTIONS: "length (INSTRUCTIONS cif) = 145"
  by (simp add: INSTRUCTIONS_def)

lemmas decode_defs =
  decode_def decode_0_def decode_800000_def decode_1000000_def decode_400000_def
  decode_1c00000_def decode_c00000_def decode_1800000_def decode_1400000_def

lemma decode_range: "decode bs < length (INSTRUCTIONS cif)"
  unfolding length_INSTRUCTIONS decode_defs Let_def
  by (intro if_lessI; simp)

lemma INSTRUCTIONS_keep_window:
  assumes "f \<in> set (INSTRUCTIONS cif)" "window_ok s"
  shows "res_all window_ok (f p s)"
  using assms(1) unfolding INSTRUCTIONS_def
  by (simp only: list.set insert_iff empty_iff)
     (elim disjE; (simp only:)?; (rule keeps_intros assms(2))+)

section \<open>Operand fields\<close>

lemma setParams_bounds:
  "rd_bit (setParams bs) < 32" "rs1_bit (setParams bs) < 32" "rs2_bit (setParams bs) < 32"
  "asr (setParams bs) < 32"
proof -
  have r: "unat (x AND 0x1f) < 32" for x :: u32
    using unat_and_mask_less [of 5 x] by (simp add: mask_eq_exp_minus_1)
  have e1: "drop_bit 25 (bs AND 0x3e000000) = drop_bit 25 bs AND 0x1f"
    by (simp add: drop_bit_and)
  have e2: "drop_bit 14 (bs AND 0x7c000) = drop_bit 14 bs AND 0x1f"
    by (simp add: drop_bit_and)
  show "rd_bit (setParams bs) < 32" "rs1_bit (setParams bs) < 32" "rs2_bit (setParams bs) < 32"
    "asr (setParams bs) < 32"
    by (simp_all only: setParams_def params.select_convs e1 e2 r)
qed

end
