(* ===== verification/Leon3_Step.thy ===== *)
theory Leon3_Step
  imports Leon3_Decode
begin

text \<open>
  The main loop of the LEON3 core (src/gaisler/leon3/intunit/processor.cpp): one
  iteration takes an accepted interrupt or fetches, decodes and executes one
  instruction; \<^verbatim>\<open>annul_exception\<close> is caught and the loop goes on.  Tools,
  history, power counters and the quantum keeper are left out.  The
  instruction cache of the loop is transparent: its counters are never
  incremented, so every instruction is decoded anew.

  The machine runs as the step relation \<^verbatim>\<open>machine_step\<close>: iterations of the
  loop, interleaved with writes of the interrupt port by the environment.
\<close>

section \<open>Reset\<close>

definition resetOp :: "u32 \<Rightarrow> u32 \<Rightarrow> 'm leon3 \<Rightarrow> 'm leon3" where
  "resetOp entry_point mproc_id s =
     s\<lparr>GLOBAL := (\<lambda>i. if i < 8 then 0 else GLOBAL s i),
       WINREGS := (\<lambda>i. if i < 128 then 0 else WINREGS s i),
       ASR := (\<lambda>i. if i = 17 then mproc_id + 0x307 else if i < 32 then 0 else ASR s i),
       PSR := 0xf3000080, WIM := 0x0, TBR := 0x0, Y := 0x0,
       PC := entry_point, NPC := entry_point + 0x4, IRQ := 0xFFFFFFFF\<rparr>"

text \<open>The constructor sets up the alias table for window 0 and latches no exception.\<close>

definition constructed :: "'m \<Rightarrow> 'm leon3" where
  "constructed m = \<lparr>PSR = 0, WIM = 0, TBR = 0, Y = 0, PC = 0, NPC = 0, GLOBAL = (\<lambda>_. 0),
     WINREGS = (\<lambda>_. 0), ASR = (\<lambda>_. 0),
     REGS = (\<lambda>i. if i < 8 then GlobRef i else WinRef (i - 8)), MEM = m, irqAck = [],
     raisedException = 0, raisedExceptionPC = 0, raisedExceptionNPC = 0, IRQ = 0\<rparr>"

definition power_on :: "u32 \<Rightarrow> u32 \<Rightarrow> 'm \<Rightarrow> 'm leon3" where
  "power_on entry_point mproc_id m = resetOp entry_point mproc_id (constructed m)"

section \<open>One iteration\<close>

definition irq_accepted :: "'m leon3 \<Rightarrow> bool" where
  "irq_accepted s =
     (IRQ s \<noteq> 0xFFFFFFFF \<and> key_ET (PSR s) \<noteq> 0 \<and> (IRQ s = 15 \<or> IRQ s > key_PIL (PSR s)))"

definition execute :: "'m cpu_if \<Rightarrow> u32 \<Rightarrow> 'm leon3 \<Rightarrow> (u32, 'm) lres" where
  "execute cif bitString s = (INSTRUCTIONS cif ! decode bitString) (setParams bitString) s"

definition fetch :: "'m cpu_if \<Rightarrow> 'm leon3 \<Rightarrow> (u32, 'm) lres" where
  "fetch cif s =
     finish_read (if_read_instr cif (PC s) (0x8 OR (if key_S (PSR s) \<noteq> 0 then 1 else 0)) 0 (MEM s)) s"

text \<open>A latched memory exception is taken after the next fetch.\<close>

definition take_latched :: "'m leon3 \<Rightarrow> (unit, 'm) lres" where
  "take_latched s =
     (if raisedException s \<noteq> 0 then
        (let exception = raisedException s; s = s\<lparr>raisedException := 0\<rparr>
         in RaiseException (raisedExceptionPC s) (raisedExceptionNPC s) exception 0 s)
      else Ok () s)"

definition loop_body :: "'m cpu_if \<Rightarrow> 'm leon3 \<Rightarrow> (u32, 'm) lres" where
  "loop_body cif s =
     (if irq_accepted s then IRQ_Instruction s
      else and_then (fetch cif s) (\<lambda>bitString s.
             and_then (take_latched s) (\<lambda>_ s. execute cif bitString s)))"

text \<open>The cycles the quantum keeper is advanced by, and the state the next
  iteration starts from.\<close>

definition loop_cycles :: "(u32, 'm) lres \<Rightarrow> u32" where
  "loop_cycles r = (case r of Ok numCycles _ \<Rightarrow> numCycles + 1 | _ \<Rightarrow> 1)"

definition loop_next :: "'m cpu_if \<Rightarrow> 'm leon3 \<Rightarrow> 'm leon3 option" where
  "loop_next cif s = final_state (loop_body cif s)"

text \<open>\<^verbatim>\<open>n\<close> iterations.\<close>

primrec run :: "'m cpu_if \<Rightarrow> nat \<Rightarrow> 'm leon3 \<Rightarrow> 'm leon3 option" where
  "run cif 0 s = Some s"
| "run cif (Suc n) s = (case loop_next cif s of None \<Rightarrow> None | Some s' \<Rightarrow> run cif n s')"

inductive machine_step :: "'m cpu_if \<Rightarrow> 'm leon3 \<Rightarrow> 'm leon3 \<Rightarrow> bool" for cif where
  loop: "loop_next cif s = Some s' \<Longrightarrow> machine_step cif s s'"
| irq_port: "machine_step cif s (s\<lparr>IRQ := level\<rparr>)"

inductive_cases machine_stepE: "machine_step cif s s'"

inductive reachable :: "'m cpu_if \<Rightarrow> 'm leon3 \<Rightarrow> bool" for cif where
  start: "reachable cif (power_on entry_point mproc_id m)"
| step: "reachable cif s \<Longrightarrow> machine_step cif s s' \<Longrightarrow> reachable cif s'"

section \<open>The window invariant holds in every reachable state\<close>

lemma window_ok_power_on: "window_ok (power_on e i m)"
proof -
  have "key_CWP 0xf3000080 = 0" by (simp add: key_CWP_def)
  moreover have "win_index 0 i = i - 8" if "8 \<le> i" "i < 32" for i
    using that by (simp add: win_index_nat)
  ultimately show ?thesis
    by (simp add: window_ok_def power_on_def resetOp_def constructed_def reg_of_def)
qed

lemma window_ok_execute [keeps_intros]:
  assumes "window_ok s"
  shows "res_all window_ok (execute cif bs s)"
  unfolding execute_def
  using decode_range [of bs cif] assms by (intro INSTRUCTIONS_keep_window [of _ cif]) simp_all

lemma window_ok_take_latched [keeps_intros]:
  "window_ok s \<Longrightarrow> res_all window_ok (take_latched s)"
  unfolding take_latched_def Let_def by (intro keeps_intros)

lemma window_ok_loop_body: "window_ok s \<Longrightarrow> res_all window_ok (loop_body cif s)"
  unfolding loop_body_def fetch_def by (intro keeps_intros)

lemma window_ok_loop_next: "window_ok s \<Longrightarrow> loop_next cif s = Some s' \<Longrightarrow> window_ok s'"
  unfolding loop_next_def by (rule res_all_final_state [OF window_ok_loop_body])

lemma window_ok_machine_step: "machine_step cif s s' \<Longrightarrow> window_ok s \<Longrightarrow> window_ok s'"
  by (erule machine_stepE) (auto intro: window_ok_loop_next window_ok_frame)

lemma reachable_window_ok: "reachable cif s \<Longrightarrow> window_ok s"
  by (induction rule: reachable.induct) (auto intro: window_ok_power_on window_ok_machine_step)

lemma run_reachable: "reachable cif s \<Longrightarrow> run cif n s = Some s' \<Longrightarrow> reachable cif s'"
  by (induction n arbitrary: s)
     (auto split: option.splits intro: reachable.step machine_step.loop)

section \<open>A concrete machine\<close>

text \<open>A core in supervisor mode with traps enabled, as a program leaves it after its
  first instructions; the witnesses of the properties are computed on it.\<close>

definition sample :: "'m \<Rightarrow> 'm leon3" where
  "sample m = (power_on 0x40000000 0 m)\<lparr>PSR := 0xf30000a0\<rparr>"

lemma window_ok_sample: "window_ok (sample m)"
  unfolding sample_def
  by (rule window_ok_PSR [OF window_ok_power_on]) (simp add: power_on_def resetOp_def key_CWP_def)

lemma sample_simps [simp]:
  "PSR (sample m) = 0xf30000a0" "WIM (sample m) = 0" "TBR (sample m) = 0" "Y (sample m) = 0"
  "PC (sample m) = 0x40000000" "NPC (sample m) = 0x40000004" "MEM (sample m) = m"
  "irqAck (sample m) = []" "IRQ (sample m) = 0xFFFFFFFF" "raisedException (sample m) = 0"
  by (simp_all add: sample_def power_on_def resetOp_def constructed_def)

lemma reg_sample: "i < 32 \<Longrightarrow> reg (sample m) i = 0"
  by (simp add: reg_def ref_read_def sample_def power_on_def resetOp_def constructed_def split: reg_ref.split)

lemma reg_sample_0 [simp]: "rs1_bit p < 32 \<Longrightarrow> rs1 p (sample m) = 0" "rs2_bit p < 32 \<Longrightarrow> rs2 p (sample m) = 0"
  by (simp_all add: rs1_def rs2_def reg_sample)

end
