(* ===== verification/Leon3_Alu_Props.thy ===== *)
theory Leon3_Alu_Props
  imports Leon3_Step
begin

text \<open>
  What the integer instructions compute: the condition codes of addition and
  subtraction as carries and overflows of the mathematical operation, the
  branch conditions after a comparison as the word orders, products and
  saturated quotients as integers.
\<close>

section \<open>Words as numbers\<close>

lemma mod_once:
  fixes x n :: int
  assumes "- n \<le> x" "x < 2 * n"
  shows "x mod n = x \<or> x mod n = x - n \<or> x mod n = x + n"
proof -
  consider "0 \<le> x \<and> x < n" | "x < 0" | "n \<le> x" by linarith
  then show ?thesis
  proof cases
    case 1
    then show ?thesis by (simp add: mod_pos_pos_trivial)
  next
    case 2
    then have "(x + n) mod n = x + n" using assms by (intro mod_pos_pos_trivial) auto
    then show ?thesis by simp
  next
    case 3
    then have "(x - n) mod n = x - n" using assms by (intro mod_pos_pos_trivial) auto
    then show ?thesis by simp
  qed
qed

lemma uint_add3:
  fixes a b c :: u32
  assumes "uint c \<le> 1"
  shows "uint (a + b + c) = uint a + uint b + uint c \<or>
    uint (a + b + c) = uint a + uint b + uint c - 4294967296"
proof -
  have "uint (a + b + c) = (uint a + uint b + uint c) mod 4294967296"
    by (simp add: uint_word_ariths mod_simps)
  moreover have "uint a + uint b + uint c < 2 * 4294967296" "0 \<le> uint a + uint b + uint c"
    using uint_range_u32 [of a] uint_range_u32 [of b] uint_range_u32 [of c] assms by linarith+
  ultimately show ?thesis
    using mod_once [of 4294967296 "uint a + uint b + uint c"] uint_range_u32 [of "a + b + c"] by linarith
qed

lemma uint_sub3:
  fixes a b c :: u32
  assumes "uint c \<le> 1"
  shows "uint (a - b - c) = uint a - uint b - uint c \<or>
    uint (a - b - c) = uint a - uint b - uint c + 4294967296"
proof -
  have "uint (a - b - c) = (uint a - uint b - uint c) mod 4294967296"
    by (simp add: uint_word_ariths mod_simps)
  moreover have "uint a - uint b - uint c < 4294967296" "- 4294967296 \<le> uint a - uint b - uint c"
    using uint_range_u32 [of a] uint_range_u32 [of b] uint_range_u32 [of c] assms by linarith+
  ultimately show ?thesis
    using mod_once [of 4294967296 "uint a - uint b - uint c"] uint_range_u32 [of "a - b - c"] by linarith
qed

section \<open>Condition codes\<close>

lemma bit_drop_31: "bit (drop_bit 31 (x::u32)) 0 = bit x 31"
  by (simp add: bit_drop_bit_eq)

lemma bit_31_sign: "bit (drop_bit 31 (x AND 0x80000000 :: u32)) 0 = bit x 31"
  by (simp add: bit_drop_bit_eq bit_and_iff)

lemma not_bit_31: "bit (NOT (x::u32)) 31 = (\<not> bit x 31)"
  by (simp add: bit_not_iff)

lemma key_write_ICC:
  "key_ICC_n (PSR (write_ICC n z v c s)) = int_of_bool (bit n 0)"
  "key_ICC_z (PSR (write_ICC n z v c s)) = int_of_bool (bit z 0)"
  "key_ICC_v (PSR (write_ICC n z v c s)) = int_of_bool (bit v 0)"
  "key_ICC_c (PSR (write_ICC n z v c s)) = int_of_bool (bit c 0)"
  by (simp_all add: write_ICC_def key_bits set_ICC_bits)

lemma write_ICC_other [simp]:
  "WIM (write_ICC n z v c s) = WIM s" "TBR (write_ICC n z v c s) = TBR s"
  "Y (write_ICC n z v c s) = Y s" "PC (write_ICC n z v c s) = PC s"
  "NPC (write_ICC n z v c s) = NPC s" "ASR (write_ICC n z v c s) = ASR s"
  "MEM (write_ICC n z v c s) = MEM s" "REGS (write_ICC n z v c s) = REGS s"
  "reg (write_ICC n z v c s) i = reg s i"
  by (simp_all add: write_ICC_def)

lemma key_write_ICC_mode [simp]:
  "key_S (PSR (write_ICC n z v c s)) = key_S (PSR s)"
  "key_ET (PSR (write_ICC n z v c s)) = key_ET (PSR s)"
  "key_PS (PSR (write_ICC n z v c s)) = key_PS (PSR s)"
  "key_CWP (PSR (write_ICC n z v c s)) = key_CWP (PSR s)"
  by (simp_all add: write_ICC_def key_bits set_ICC_bits)

text \<open>Carry out and signed overflow of an addition with carry in.\<close>

lemma add_carry:
  fixes a b c r :: u32
  assumes "r = a + b + c" "uint c \<le> 1"
  shows "bit ((a AND b) OR ((a OR b) AND NOT r)) 31 = (4294967296 \<le> uint a + uint b + uint c)"
  unfolding bit_or_iff bit_and_iff not_bit_31 assms(1) unfolding bit_31_uint
  using uint_add3 [OF assms(2), of a b] uint_range_u32 [of a] uint_range_u32 [of b]
    uint_range_u32 [of c] uint_range_u32 [of "a + b + c"] assms(2)
  by linarith

lemma add_overflow:
  fixes a b c r :: u32
  assumes "r = a + b + c" "uint c \<le> 1"
  shows "bit ((a AND b AND NOT r) OR (NOT a AND NOT b AND r)) 31 =
    (sint r \<noteq> sint a + sint b + uint c)"
  unfolding bit_or_iff bit_and_iff not_bit_31 assms(1) sint_uint_u32 unfolding bit_31_uint
  using uint_add3 [OF assms(2), of a b] uint_range_u32 [of a] uint_range_u32 [of b]
    uint_range_u32 [of c] uint_range_u32 [of "a + b + c"] assms(2)
  by (simp split: if_splits; linarith)

lemma sub_borrow:
  fixes a b c r :: u32
  assumes "r = a - b - c" "uint c \<le> 1"
  shows "bit ((NOT a AND b) OR ((NOT a OR b) AND r)) 31 = (uint a < uint b + uint c)"
  unfolding bit_or_iff bit_and_iff not_bit_31 assms(1) unfolding bit_31_uint
  using uint_sub3 [OF assms(2), of a b] uint_range_u32 [of a] uint_range_u32 [of b]
    uint_range_u32 [of c] uint_range_u32 [of "a - b - c"] assms(2)
  by linarith

lemma sub_overflow:
  fixes a b c r :: u32
  assumes "r = a - b - c" "uint c \<le> 1"
  shows "bit ((a AND NOT b AND NOT r) OR (NOT a AND b AND r)) 31 =
    (sint r \<noteq> sint a - sint b - uint c)"
  unfolding bit_or_iff bit_and_iff not_bit_31 assms(1) sint_uint_u32 unfolding bit_31_uint
  using uint_sub3 [OF assms(2), of a b] uint_range_u32 [of a] uint_range_u32 [of b]
    uint_range_u32 [of c] uint_range_u32 [of "a - b - c"] assms(2)
  by (simp split: if_splits; linarith)

section \<open>Results of addition and subtraction\<close>

lemma uint_int_of_bool: "uint (int_of_bool b :: u32) = of_bool b"
  by simp

lemma key_ICC_c_le: "uint (key_ICC_c psr) \<le> 1"
  by (simp add: key_bits)

lemma sint_neg_bit: "(sint (r::u32) < 0) = bit r 31"
  using uint_range_u32 [of r] by (simp add: sint_uint_u32 bit_31_uint)

lemma ICC_writeAdd_flags:
  fixes a b c :: u32
  assumes "r = a + b + c" "uint c \<le> 1"
  shows "key_ICC_n (PSR (ICC_writeAdd r a b s)) = int_of_bool (sint r < 0)"
    and "key_ICC_z (PSR (ICC_writeAdd r a b s)) = int_of_bool (r = 0)"
    and "key_ICC_v (PSR (ICC_writeAdd r a b s)) = int_of_bool (sint r \<noteq> sint a + sint b + uint c)"
    and "key_ICC_c (PSR (ICC_writeAdd r a b s)) = int_of_bool (4294967296 \<le> uint a + uint b + uint c)"
  unfolding ICC_writeAdd_def key_write_ICC bit_31_sign bit_drop_31
    add_carry [OF assms] add_overflow [OF assms] sint_neg_bit
  by (simp_all add: bit_and_iff)

lemma ICC_writeSub_flags:
  fixes a b c :: u32
  assumes "r = a - b - c" "uint c \<le> 1"
  shows "key_ICC_n (PSR (ICC_writeSub r a b s)) = int_of_bool (sint r < 0)"
    and "key_ICC_z (PSR (ICC_writeSub r a b s)) = int_of_bool (r = 0)"
    and "key_ICC_v (PSR (ICC_writeSub r a b s)) = int_of_bool (sint r \<noteq> sint a - sint b - uint c)"
    and "key_ICC_c (PSR (ICC_writeSub r a b s)) = int_of_bool (uint a < uint b + uint c)"
  unfolding ICC_writeSub_def key_write_ICC bit_31_sign bit_drop_31
    sub_borrow [OF assms] sub_overflow [OF assms] sint_neg_bit
  by (simp_all add: bit_and_iff)

text \<open>\<^verbatim>\<open>ADDXcc\<close> adds its operands and the carry: the result is the sum modulo
  \<^verbatim>\<open>2^32\<close>, and the four condition codes say that the result is negative,
  is zero, differs from the signed sum, and that the unsigned sum needs a
  33rd bit.\<close>

theorem ADDXcc_condition_codes:
  "\<exists>s'. ADDXcc_reg p s = Ok 0 s' \<and>
    (let a = rs1 p s; b = rs2 p s; c = key_ICC_c (PSR s); r = a + b + c in
      uint r = (uint a + uint b + uint c) mod 2 ^ 32 \<and>
      key_ICC_n (PSR s') = int_of_bool (sint r < 0) \<and>
      key_ICC_z (PSR s') = int_of_bool (r = 0) \<and>
      key_ICC_v (PSR s') = int_of_bool (sint r \<noteq> sint a + sint b + uint c) \<and>
      key_ICC_c (PSR s') = int_of_bool (2 ^ 32 \<le> uint a + uint b + uint c))"
  unfolding Let_def ADDXcc_reg_def
  by (simp add: WB_plain_def rs1_def rs2_def ICC_writeAdd_flags [OF refl key_ICC_c_le] uint_word_ariths mod_simps)

lemma PC_write_ICC_chain [simp]:
  "PC (ICC_writeAdd r a b s) = PC s" "NPC (ICC_writeAdd r a b s) = NPC s"
  "reg (ICC_writeAdd r a b s) i = reg s i" "REGS (ICC_writeAdd r a b s) = REGS s"
  "PC (ICC_writeSub r a b s) = PC s" "NPC (ICC_writeSub r a b s) = NPC s"
  "reg (ICC_writeSub r a b s) i = reg s i" "REGS (ICC_writeSub r a b s) = REGS s"
  "PC (ICC_writeLogic r s) = PC s" "NPC (ICC_writeLogic r s) = NPC s"
  "reg (ICC_writeLogic r s) i = reg s i" "Y (ICC_writeLogic r s) = Y s"
  by (simp_all add: ICC_writeAdd_def ICC_writeSub_def ICC_writeLogic_def)

lemma join_mod:
  fixes h l :: int
  assumes "0 \<le> l" "l < 4294967296"
  shows "(h mod 4294967296) * 4294967296 + l = (h * 4294967296 + l) mod 18446744073709551616"
proof -
  let ?r = "(h mod 4294967296) * 4294967296 + l"
  have r: "0 \<le> h mod 4294967296" "h mod 4294967296 < 4294967296" by simp_all
  have "h = 4294967296 * (h div 4294967296) + h mod 4294967296" by simp
  then have "h * 4294967296 + l = ?r + (h div 4294967296) * 18446744073709551616"
    by linarith
  moreover have "?r mod 18446744073709551616 = ?r"
    using assms r by (intro mod_pos_pos_trivial) linarith+
  ultimately show ?thesis by (simp only: mod_mult_self1)
qed

text \<open>Multi-word addition: \<^verbatim>\<open>ADDcc\<close> on the low words and \<^verbatim>\<open>ADDX\<close> on the
  high words leave the 64-bit sum in the two result registers.\<close>

theorem add64_with_carry:
  assumes "window_ok s" "rd_bit p < 32" "rd_bit q < 32" "rs1_bit q < 32" "rs2_bit q < 32"
    and "rd_bit p \<noteq> 0" "rd_bit q \<noteq> 0" "rd_bit p \<noteq> rd_bit q" "rd_bit p \<noteq> rs1_bit q" "rd_bit p \<noteq> rs2_bit q"
  shows "\<exists>s1 s2. ADDcc_reg p s = Ok 0 s1 \<and> ADDX_reg q s1 = Ok 0 s2 \<and>
    uint (reg s2 (rd_bit q)) * 2 ^ 32 + uint (reg s2 (rd_bit p)) =
      ((uint (rs1 q s) * 2 ^ 32 + uint (rs1 p s)) + (uint (rs2 q s) * 2 ^ 32 + uint (rs2 p s))) mod 2 ^ 64"
proof -
  let ?a = "rs1 p s" let ?b = "rs2 p s" let ?h = "rs1 q s" let ?k = "rs2 q s"
  let ?r = "?a + ?b"
  let ?m = "ICC_writeAdd ?r ?a ?b (IncrementPC s)"
  let ?s1 = "set_reg (rd_bit p) ?r ?m"
  let ?c = "key_ICC_c (PSR ?s1)"
  let ?s2 = "set_reg (rd_bit q) (?h + ?k + ?c) (IncrementPC ?s1)"
  have m: "window_ok ?m" using assms(1) by (intro keeps_intros)
  have ok1: "window_ok ?s1" "window_ok (IncrementPC ?s1)" using m by (auto intro: keeps_intros)
  have e1: "ADDcc_reg p s = Ok 0 ?s1"
    by (simp add: ADDcc_reg_def Let_def WB_plain_def rs1_def rs2_def)
  have q: "rs1 q ?s1 = ?h" "rs2 q ?s1 = ?k"
    using reg_set_reg [OF m] assms by (simp_all add: rs1_def rs2_def)
  have e2: "ADDX_reg q ?s1 = Ok 0 ?s2"
    unfolding ADDX_reg_def Let_def WB_plain_def using q by (simp add: rs1_def rs2_def)
  have lo: "reg ?s2 (rd_bit p) = ?r"
    using reg_set_reg [OF ok1(2)] reg_set_reg [OF m] assms by simp
  have hi: "reg ?s2 (rd_bit q) = ?h + ?k + ?c"
    using reg_set_reg [OF ok1(2)] assms by simp
  have c: "uint ?c = of_bool (4294967296 \<le> uint ?a + uint ?b)"
    using ICC_writeAdd_flags(4) [of ?r ?a ?b 0 "IncrementPC s"] by simp
  have rlo: "uint ?r = uint ?a + uint ?b - 4294967296 * uint ?c"
  proof -
    have "uint ?r = uint ?a + uint ?b \<or> uint ?r = uint ?a + uint ?b - 4294967296"
      using uint_add3 [of 0 ?a ?b] by simp
    then show ?thesis
      unfolding c using uint_range_u32 [of ?r]
      by (cases "4294967296 \<le> uint ?a + uint ?b"; simp only: of_bool_eq; linarith)
  qed
  have "uint (?h + ?k + ?c) = (uint ?h + uint ?k + uint ?c) mod 2 ^ 32"
    by (simp add: uint_word_ariths mod_simps)
  then have sum: "uint (?h + ?k + ?c) * 2 ^ 32 + uint ?r =
      ((uint ?h + uint ?k + uint ?c) * 2 ^ 32 + uint ?r) mod 2 ^ 64"
    using join_mod [of "uint ?r" "uint ?h + uint ?k + uint ?c"] uint_range_u32 [of ?r] by simp
  have parts: "(uint ?h + uint ?k + uint ?c) * 2 ^ 32 + uint ?r =
      (uint ?h * 2 ^ 32 + uint ?a) + (uint ?k * 2 ^ 32 + uint ?b)"
    unfolding rlo by (simp add: algebra_simps)
  show ?thesis
    by (intro exI [of _ ?s1] exI [of _ ?s2] conjI e1 e2) (simp only: lo hi sum parts)
qed

theorem add64_with_carry_witness:
  "\<exists>s1 s2. ADDcc_reg (setParams 0x82800000) (sample ()) = Ok 0 s1 \<and>
    ADDX_reg (setParams 0x84400000) s1 = Ok 0 s2 \<and> uint (reg s2 2) * 2 ^ 32 + uint (reg s2 1) = 0"
  using add64_with_carry [OF window_ok_sample, of "setParams 0x82800000" "setParams 0x84400000" "()"]
  by (auto simp: setParams_def)

end
