(* ===== verification/Leon3_Trap_Props.thy ===== *)
theory Leon3_Trap_Props
  imports Leon3_Step Leon3_Alu_Props
begin

text \<open>
  Register windows and traps of the LEON3 core: the window invariant in every
  reachable state, what \<^verbatim>\<open>SAVE\<close> and \<^verbatim>\<open>RESTORE\<close> do to the visible
  registers, what a trap changes, and that a handler made of the usual
  \<^verbatim>\<open>jmpl %l1\<close> and \<^verbatim>\<open>rett %l2\<close> resumes the interrupted program.
\<close>

section \<open>Helper facts\<close>

lemma RaiseException_enabled:
  "key_ET (PSR s) \<noteq> 0 \<Longrightarrow> RaiseException pc npc e off s = Annul (enterTrap pc npc e off s)"
  by (simp add: RaiseException_def)

lemma bit_trapPSR:
  "bit (trapPSR psr) k =
    (if k < 5 then bit (decCwp psr) k else if k = 5 then False
     else if k = 6 then bit psr 7 else if k = 7 then True else bit psr k)"
proof -
  have e: "trapPSR psr = (((((((psr AND NOT (push_bit 6 1)) OR push_bit 6 (key_S psr)) AND
      NOT (push_bit 7 1)) OR push_bit 7 1) AND NOT (push_bit 5 1))) AND 0xffffffe0) OR decCwp psr"
    unfolding trapPSR_def Let_def add_replace_CWP [OF decCwp_less] single_bit_clear_masks
    by (simp only: single_bit_masks)
  show ?thesis
  proof (cases "k < 32")
    case True
    then show ?thesis
      unfolding e bit_replace_CWP [OF decCwp_less]
      unfolding bit_or_iff bit_and_iff bit_not_iff bit_push_bit_iff key_bits
      by (auto simp: bit_1_iff)
  next
    case False
    then show ?thesis by (auto dest: bit_imp_le_length)
  qed
qed

lemma key_trapPSR [simp]:
  "key_S (trapPSR psr) = 1" "key_ET (trapPSR psr) = 0" "key_PS (trapPSR psr) = key_S psr"
  "key_ICC_n (trapPSR psr) = key_ICC_n psr" "key_ICC_z (trapPSR psr) = key_ICC_z psr"
  "key_ICC_v (trapPSR psr) = key_ICC_v psr" "key_ICC_c (trapPSR psr) = key_ICC_c psr"
  by (simp_all add: key_bits bit_trapPSR)

text \<open>The state a trap is entered in, before the trap vector is computed.\<close>

definition trap_frame :: "u32 \<Rightarrow> u32 \<Rightarrow> 'm leon3 \<Rightarrow> 'm leon3" where
  "trap_frame pc npc s =
     set_reg 18 npc (set_reg 17 pc ((updateAliases (decCwp (PSR s)) s)\<lparr>PSR := trapPSR (PSR s)\<rparr>))"

lemma window_ok_entered:
  assumes "window_ok s"
  shows "window_ok ((updateAliases (decCwp (PSR s)) s)\<lparr>PSR := trapPSR (PSR s)\<rparr>)"
proof -
  have "window_ok (updateAliases (decCwp (PSR s)) (s\<lparr>PSR := trapPSR (PSR s)\<rparr>))"
    using window_ok_globals [OF assms] by (intro window_ok_updateAliases) simp_all
  then show ?thesis
    by (rule window_ok_cong) (auto simp: updateAliases_def)
qed

lemma enterTrap_simps:
  "PSR (enterTrap pc npc e off s) = trapPSR (PSR s)"
  "WIM (enterTrap pc npc e off s) = WIM s"
  "Y (enterTrap pc npc e off s) = Y s"
  "ASR (enterTrap pc npc e off s) = ASR s"
  "MEM (enterTrap pc npc e off s) = MEM s"
  "REGS (enterTrap pc npc e off s) = REGS (trap_frame pc npc s)"
  "GLOBAL (enterTrap pc npc e off s) = GLOBAL (trap_frame pc npc s)"
  "WINREGS (enterTrap pc npc e off s) = WINREGS (trap_frame pc npc s)"
  "TBR (enterTrap pc npc e off s) =
     (case trap_type e off of None \<Rightarrow> TBR s | Some tt \<Rightarrow> set_TT tt (TBR s))"
  "PC (enterTrap pc npc e off s) = (if e = RESET then 0 else TBR (enterTrap pc npc e off s))"
  "NPC (enterTrap pc npc e off s) = (if e = RESET then 4 else TBR (enterTrap pc npc e off s) + 4)"
  "irqAck (enterTrap pc npc e off s) = irqAck s @
     (if e > TRAP_INSTRUCTION \<and> e < IMPL_DEP_EXC then [IMPL_DEP_EXC - e] else [])"
  by (auto simp: enterTrap_def Let_def trap_frame_def split: option.splits)

lemma reg_enterTrap: "reg (enterTrap pc npc e off s) i = reg (trap_frame pc npc s) i"
  by (rule reg_cong) (simp_all add: enterTrap_simps)

lemma reg_trap_frame:
  assumes "window_ok s" "i < 32"
  shows "reg (trap_frame pc npc s) i =
    (if i = 17 then pc else if i = 18 then npc
     else ref_read s (reg_of (decCwp (PSR s)) i))"
proof -
  let ?s = "(updateAliases (decCwp (PSR s)) s)\<lparr>PSR := trapPSR (PSR s)\<rparr>"
  have ok: "window_ok ?s" "window_ok (set_reg 17 pc ?s)"
    using window_ok_entered [OF assms(1)] by (simp_all add: window_ok_frame)
  have "reg ?s i = ref_read s (reg_of (decCwp (PSR s)) i)"
    using window_okD [OF ok(1)] assms(2) by (simp add: reg_def ref_read_def split: reg_ref.split)
  then show ?thesis
    unfolding trap_frame_def using ok assms(2) by (simp add: reg_set_reg)
qed

text \<open>The register of the old window, seen from the new one.\<close>

lemma reg_of_outs:
  assumes "c < 8" "8 \<le> i" "i < 16"
  shows "reg_of ((c - 1) mod NUM_REG_WIN) (i + 16) = reg_of c i"
  using assms by (simp add: reg_of_def win_index_overlap)

lemma reg_eq_reg_of: "window_ok s \<Longrightarrow> i < 32 \<Longrightarrow> reg s i = ref_read s (reg_of (key_CWP (PSR s)) i)"
  by (simp add: reg_def window_okD)

lemma SAVE_reg_ok:
  assumes "checkDecrementWin s"
  shows "SAVE_reg p s = Ok 0 (set_reg (rd_bit p) (rs1 p s + rs2 p s)
    (updateAliases (decCwp (PSR s))
      ((IncrementPC s)\<lparr>PSR := (PSR s AND 0xFFFFFFE0) OR decCwp (PSR s)\<rparr>)))"
  using assms
  by (simp add: SAVE_reg_def DecrementRegWindow_def checkDecrementWin_def Let_def raise_if_def
      rs1_def rs2_def)

section \<open>Windows in reachable states\<close>


text \<open>One instruction, \<^verbatim>\<open>save\<close>, executed from a local memory of four bytes.\<close>

definition save_program :: local_memory where
  "save_program = \<lparr>lm_bytes = [0x81, 0xe0, 0x00, 0x00], lm_debugger = False, lm_notified = []\<rparr>"

lemma save_program_fetch:
  "lm_read_word 0 sp f l save_program = Some (0x81e00000, None, save_program)"
proof -
  have "load_host 4 [0x81, 0xe0, 0x00, 0x00 :: u8] 0 = (0x0000e081 :: u32)"
    by (simp add: load_host_4)
  then show ?thesis
    by (simp add: lm_read_word_def lm_accessible_def save_program_def swapEndianess32_def)
qed

lemma save_program_decode: "INSTRUCTIONS cif ! decode 0x81e00000 = SAVE_reg"
  by (simp add: decode_def decode_1c00000_def INSTRUCTIONS_def)

lemma save_program_step:
  "\<exists>s. loop_next local_memory_if (power_on 0 0 save_program) = Some s \<and> key_CWP (PSR s) = 7"
proof -
  let ?s = "power_on 0 0 save_program"
  have st: "PC ?s = 0" "MEM ?s = save_program" "PSR ?s = 0xf3000080" "raisedException ?s = 0" "WIM ?s = 0"
    by (simp_all add: power_on_def resetOp_def constructed_def)
  have "loop_body local_memory_if ?s = SAVE_reg (setParams 0x81e00000) (?s\<lparr>MEM := save_program\<rparr>)"
    by (simp add: loop_body_def irq_accepted_def fetch_def st local_memory_if_def save_program_fetch
        finish_read_def report_exception_def take_latched_def execute_def save_program_decode key_ET_def)
  then show ?thesis
    using SAVE_reg_ok [of "?s\<lparr>MEM := save_program\<rparr>" "setParams 0x81e00000"]
    by (simp add: loop_next_def checkDecrementWin_def windowInvalid_def st decCwp_def
        NUM_REG_WIN_def key_CWP_def)
qed


section \<open>Save and restore\<close>

lemma RESTORE_reg_ok:
  assumes "checkIncrementWin s"
  shows "RESTORE_reg p s = Ok 0 (set_reg (rd_bit p) (rs1 p s + rs2 p s)
    (updateAliases (incCwp (PSR s))
      ((IncrementPC s)\<lparr>PSR := (PSR s AND 0xFFFFFFE0) OR incCwp (PSR s)\<rparr>)))"
  using assms
  by (simp add: RESTORE_reg_def IncrementRegWindow_def checkIncrementWin_def Let_def raise_if_def
      rs1_def rs2_def)

lemma window_ok_rotated:
  assumes "window_ok s" "c < 8"
  shows "window_ok (updateAliases c ((IncrementPC s)\<lparr>PSR := (PSR s AND 0xFFFFFFE0) OR c\<rparr>))"
  using window_ok_globals [OF assms(1)] assms(2) by (intro window_ok_updateAliases) simp_all

lemma reg_rotated:
  assumes "window_ok s" "c < 8" "i < 32"
  shows "reg (updateAliases c ((IncrementPC s)\<lparr>PSR := (PSR s AND 0xFFFFFFE0) OR c\<rparr>)) i =
    ref_read s (reg_of c i)"
  using window_okD(2) [OF window_ok_rotated [OF assms(1,2)] assms(3)] assms(2)
  by (simp add: reg_def ref_read_def split: reg_ref.split)

text \<open>(C8) A \<^verbatim>\<open>SAVE\<close> that does not run into an invalid window enters the next
  lower window: the globals stay, the caller's outs become the callee's ins,
  the result is computed from the caller's registers and lands in the callee's
  \<^verbatim>\<open>rd\<close>; only the window number of \<^verbatim>\<open>PSR\<close> changes.\<close>

theorem save_enters_callee_window:
  assumes "window_ok s" "checkDecrementWin s" "rd_bit p < 32" "i < 32"
  shows "\<exists>s'. SAVE_reg p s = Ok 0 s' \<and> window_ok s' \<and>
    PSR s' = (PSR s AND 0xFFFFFFE0) OR (key_CWP (PSR s) - 1) mod 8 \<and>
    reg s' i = (if i = rd_bit p \<and> i \<noteq> 0 then rs1 p s + rs2 p s
                else if i < 8 then reg s i
                else if i < 24 then WINREGS s (win_index ((key_CWP (PSR s) - 1) mod 8) i)
                else reg s (i - 16))"
proof -
  let ?c = "decCwp (PSR s)"
  let ?s = "updateAliases ?c ((IncrementPC s)\<lparr>PSR := (PSR s AND 0xFFFFFFE0) OR ?c\<rparr>)"
  have ok: "window_ok ?s" by (rule window_ok_rotated [OF assms(1) decCwp_less])
  have "reg ?s i = (if i < 8 then reg s i
      else if i < 24 then WINREGS s (win_index ?c i) else reg s (i - 16))"
  proof (cases "i < 24")
    case True
    then show ?thesis
      using assms(1,4) by (simp add: reg_rotated [OF assms(1) decCwp_less] reg_eq_reg_of)
        (simp add: reg_of_def ref_read_def)
  next
    case False
    then have "reg_of ?c i = reg_of (key_CWP (PSR s)) (i - 16)"
      using reg_of_outs [of "key_CWP (PSR s)" "i - 16"] window_okD(1) [OF assms(1)] assms(4)
      by (simp add: decCwp_def)
    then show ?thesis
      using False assms(1,4) by (simp add: reg_rotated [OF assms(1) decCwp_less] reg_eq_reg_of)
  qed
  then show ?thesis
    using SAVE_reg_ok [OF assms(2)] window_ok_frame(1) [OF ok] reg_set_reg [OF ok assms(3,4)]
    by (simp add: decCwp_def NUM_REG_WIN_def)
qed

theorem save_enters_callee_window_witness:
  "\<exists>s'. SAVE_reg (setParams 0x9de00001) (sample ()) = Ok 0 s' \<and> window_ok s' \<and> PSR s' = 0xf30000a7 \<and>
    reg s' 24 = reg (sample ()) 8"
proof -
  have "checkDecrementWin (sample ())" by (simp add: checkDecrementWin_def windowInvalid_def)
  then show ?thesis
    using save_enters_callee_window [OF window_ok_sample, of "()" "setParams 0x9de00001" 24]
    by (auto simp: setParams_def key_CWP_def)
qed

lemma replace_CWP_twice:
  assumes "key_CWP psr < 8" "c < 8"
  shows "(((psr AND 0xFFFFFFE0) OR c) AND 0xFFFFFFE0) OR key_CWP psr = psr"
  using assms
  by (intro bit_word_eqI) (auto simp: bit_replace_CWP key_CWP_bits)

text \<open>(C9) A \<^verbatim>\<open>SAVE\<close> followed by a \<^verbatim>\<open>RESTORE\<close>, neither trapping nor naming a
  result register, is the identity on the window state: same \<^verbatim>\<open>PSR\<close>, same
  alias table and the same 31 visible registers as before.\<close>

theorem save_restore_identity:
  assumes "window_ok s" "checkDecrementWin s" "\<not> windowInvalid (key_CWP (PSR s)) (WIM s)"
    and "rd_bit p = 0" "rd_bit q = 0"
  shows "\<exists>s1 s2. SAVE_reg p s = Ok 0 s1 \<and> RESTORE_reg q s1 = Ok 0 s2 \<and>
    PSR s2 = PSR s \<and> (\<forall>i\<in>{0..<32}. REGS s2 i = REGS s i \<and> reg s2 i = reg s i)"
proof -
  let ?c = "decCwp (PSR s)"
  let ?s1 = "updateAliases ?c ((IncrementPC s)\<lparr>PSR := (PSR s AND 0xFFFFFFE0) OR ?c\<rparr>)"
  let ?s1' = "set_reg 0 (rs1 p s + rs2 p s) ?s1"
  let ?d = "incCwp (PSR ?s1')"
  let ?s2 = "updateAliases ?d ((IncrementPC ?s1')\<lparr>PSR := (PSR ?s1' AND 0xFFFFFFE0) OR ?d\<rparr>)"
  have w: "key_CWP (PSR s) < 8" by (rule window_okD(1) [OF assms(1)])
  have ok1: "window_ok ?s1" by (rule window_ok_rotated [OF assms(1) decCwp_less])
  have ok1': "window_ok ?s1'" using ok1 by (rule window_ok_frame)
  have id1: "?s1' = ?s1"
    using window_okD(2) [OF ok1, of 0] by (simp add: set_reg_def ref_write_def reg_of_def)
  have d: "?d = key_CWP (PSR s)"
    using inc_dec_cwp(1) [OF w] by (simp add: incCwp_def decCwp_def)
  have ok2: "window_ok ?s2" by (rule window_ok_rotated [OF ok1' incCwp_less])
  have id2: "set_reg 0 v ?s2 = ?s2" for v
    using window_okD(2) [OF ok2, of 0] by (simp add: set_reg_def ref_write_def reg_of_def)
  have psr: "PSR ?s2 = PSR s"
    unfolding d using replace_CWP_twice [OF w decCwp_less [of "PSR s"]] by simp
  have "checkIncrementWin ?s1'"
    unfolding checkIncrementWin_def d using assms(3) by simp
  then have "RESTORE_reg q ?s1' = Ok 0 ?s2"
    by (simp only: RESTORE_reg_ok assms(5) id2)
  moreover have "SAVE_reg p s = Ok 0 ?s1'"
    by (simp only: SAVE_reg_ok [OF assms(2)] assms(4))
  moreover have "REGS ?s2 i = REGS s i" if "i < 32" for i
    by (simp only: window_okD(2) [OF ok2 that] psr window_okD(2) [OF assms(1) that])
  moreover have "GLOBAL ?s2 = GLOBAL s" "WINREGS ?s2 = WINREGS s"
    unfolding id1 by simp_all
  ultimately show ?thesis
    using psr by (intro exI [of _ ?s1'] exI [of _ ?s2]) (auto intro: reg_cong)
qed

theorem save_restore_identity_witness:
  "\<exists>s1 s2. SAVE_reg (setParams 0x81e00000) (sample ()) = Ok 0 s1 \<and>
    RESTORE_reg (setParams 0x81e80000) s1 = Ok 0 s2 \<and> PSR s2 = PSR (sample ())"
  using save_restore_identity [OF window_ok_sample, of "()" "setParams 0x81e00000" "setParams 0x81e80000"]
  by (auto simp: setParams_def checkDecrementWin_def windowInvalid_def)

section \<open>Traps\<close>

text \<open>(C7) With traps enabled, \<^verbatim>\<open>RaiseException\<close> enters supervisor mode with traps
  disabled, remembers the old mode in \<^verbatim>\<open>PS\<close>, leaves the condition codes and
  the interrupt level alone, rotates to the next lower window, saves the two
  program counters in its \<^verbatim>\<open>l1\<close> and \<^verbatim>\<open>l2\<close>, and continues at the vector
  of the trap type; the globals survive and the interrupted program's outs are
  the handler's ins.\<close>

theorem trap_entry:
  assumes "window_ok s" "key_ET (PSR s) \<noteq> 0" "e \<noteq> RESET"
  shows "\<exists>s'. RaiseException pc npc e off s = Annul s' \<and>
    key_S (PSR s') = 1 \<and> key_ET (PSR s') = 0 \<and> key_PS (PSR s') = key_S (PSR s) \<and>
    key_CWP (PSR s') = (key_CWP (PSR s) - 1) mod 8 \<and>
    (\<forall>k\<in>{8..<32}. bit (PSR s') k = bit (PSR s) k) \<and>
    reg s' 17 = pc \<and> reg s' 18 = npc \<and>
    (\<forall>i\<in>{0..<8}. reg s' i = reg s i) \<and> (\<forall>i\<in>{8..<16}. reg s' (i + 16) = reg s i) \<and>
    TBR s' = (case trap_type e off of None \<Rightarrow> TBR s | Some tt \<Rightarrow> set_TT tt (TBR s)) \<and>
    PC s' = TBR s' \<and> NPC s' = TBR s' + 4 \<and> MEM s' = MEM s"
proof -
  have "reg (trap_frame pc npc s) i = reg s i" if "i < 8" for i
    using that assms(1) by (simp add: reg_trap_frame reg_eq_reg_of) (simp add: reg_of_def)
  moreover have "reg (trap_frame pc npc s) (i + 16) = reg s i" if "8 \<le> i" "i < 16" for i
    using that assms(1) reg_of_outs [OF window_okD(1) [OF assms(1)] that]
    by (simp add: reg_trap_frame reg_eq_reg_of decCwp_def)
  moreover have "bit (trapPSR (PSR s)) k = bit (PSR s) k" if "8 \<le> k" for k
    using that by (simp add: bit_trapPSR)
  ultimately show ?thesis
    using assms by (simp add: RaiseException_enabled enterTrap_simps reg_enterTrap reg_trap_frame
        decCwp_def NUM_REG_WIN_def del: add_Suc_right)
qed

theorem trap_entry_witness:
  "\<exists>s'. RaiseException 0x40000000 0x40000004 WINDOW_OVERFLOW 0 (sample ()) = Annul s' \<and>
    key_S (PSR s') = 1 \<and> key_CWP (PSR s') = 7 \<and> reg s' 17 = 0x40000000 \<and> TBR s' = 0x50 \<and> PC s' = 0x50"
  using trap_entry [OF window_ok_sample, of "()" WINDOW_OVERFLOW "0x40000000" "0x40000004" 0]
  by (auto simp: key_ET_def key_CWP_def trap_type_def set_TT_def)

text \<open>The trap window's locals are not visible in the interrupted window.\<close>

lemma trap_locals_hidden:
  assumes "c < 8" "8 \<le> i" "i < 32" "l \<in> {17, 18}"
  shows "win_index ((c - 1) mod NUM_REG_WIN) l \<noteq> win_index c i"
  using word_less_8_cases [OF assms(1)] assms(2-4)
  by (auto simp: win_index_cases NUM_REG_WIN_def split: if_splits)

lemma WINREGS_trap_frame:
  assumes "window_ok s"
  shows "WINREGS (trap_frame pc npc s) =
    (WINREGS s)(win_index (decCwp (PSR s)) 17 := pc, win_index (decCwp (PSR s)) 18 := npc)"
    and "GLOBAL (trap_frame pc npc s) = GLOBAL s"
  by (simp_all add: trap_frame_def set_reg_def updateAliases_def ref_write_def)

lemma reg_of_visible:
  assumes "window_ok s" "i < 32"
    and "GLOBAL t = GLOBAL s" "WINREGS t = WINREGS (trap_frame pc npc s)"
  shows "ref_read t (reg_of (key_CWP (PSR s)) i) = reg s i"
  using assms trap_locals_hidden [OF window_okD(1) [OF assms(1)], of i 17]
    trap_locals_hidden [OF window_okD(1) [OF assms(1)], of i 18]
  by (auto simp: reg_eq_reg_of reg_of_def ref_read_def WINREGS_trap_frame decCwp_def)

lemma JUMP_imm_ok:
  assumes "reg s (rs1_bit p) AND 3 = 0" "simm13 p = 0" "rd_bit p = 0" "window_ok s"
  shows "JUMP_imm p s = Ok 2 (s\<lparr>PC := NPC s, NPC := reg s (rs1_bit p)\<rparr>)"
  using assms window_okD(2) [OF assms(4), of 0]
  by (simp add: JUMP_imm_def Let_def raise_if_def rs1_def SignExtend_def set_reg_def ref_write_def
      reg_of_def)

lemma bit_RETT_PSR:
  assumes "c < 8"
  shows "bit ((psr AND 0xFFFFFF40) OR (c OR 0x20 OR push_bit 7 (key_PS psr))) k =
    (if k < 5 then bit c k else if k = 5 then True else if k = 7 then bit psr 6 else bit psr k)"
proof (cases "k < 32")
  case True
  have m: "(0xFFFFFF40 :: u32) = NOT (mask 6) AND NOT (push_bit 7 1)" "(0x20 :: u32) = push_bit 5 1"
    by (simp_all add: mask_eq_exp_minus_1)
  have "(psr AND 0xFFFFFF40) OR (c OR 0x20 OR push_bit 7 (key_PS psr)) =
      (psr AND (NOT (mask 6) AND NOT (push_bit 7 1))) OR (c OR push_bit 5 1 OR push_bit 7 (key_PS psr))"
    by (simp only: m)
  then show ?thesis
    using True cwp_bits_high [OF assms, of k]
    by (simp only: bit_or_iff bit_and_iff bit_not_iff bit_mask_iff bit_push_bit_iff key_bits)
      (auto simp: bit_1_iff)
next
  case False
  then show ?thesis by (auto dest: bit_imp_le_length)
qed

lemma RETT_imm_ok:
  assumes "key_ET (PSR s) = 0" "key_S (PSR s) \<noteq> 0" "\<not> windowInvalid (incCwp (PSR s)) (WIM s)"
    and "reg s (rs1_bit q) AND 3 = 0" "simm13 q = 0"
  shows "RETT_imm q s = Ok 2 (updateAliases (incCwp (PSR s))
    (s\<lparr>PC := NPC s, NPC := reg s (rs1_bit q),
       PSR := (PSR s AND 0xFFFFFF40) OR (incCwp (PSR s) OR 0x20 OR push_bit 7 (key_PS (PSR s)))\<rparr>))"
  using assms by (simp add: RETT_imm_def Let_def rs1_def SignExtend_def)

text \<open>(C3) A handler that ends with \<^verbatim>\<open>jmpl %l1; rett %l2\<close> resumes the interrupted
  program exactly: its program counters, its mode and condition codes (only
  the stale \<^verbatim>\<open>PS\<close> bit may differ), its window and all its visible registers
  are those of the moment of the trap.\<close>

theorem trap_return_resumes:
  assumes "window_ok s" "key_ET (PSR s) \<noteq> 0"
    and "pc AND 3 = 0" "npc AND 3 = 0" "\<not> windowInvalid (key_CWP (PSR s)) (WIM s)"
    and "rs1_bit p = 17" "simm13 p = 0" "rd_bit p = 0"
    and "rs1_bit q = 18" "simm13 q = 0"
  shows "\<exists>s1 s2 s3. RaiseException pc npc e off s = Annul s1 \<and>
    JUMP_imm p s1 = Ok 2 s2 \<and> RETT_imm q s2 = Ok 2 s3 \<and>
    PC s3 = pc \<and> NPC s3 = npc \<and>
    (\<forall>k\<in>{0..<32}. bit (PSR s3) k = (if k = 6 then bit (PSR s) 7 else bit (PSR s) k)) \<and>
    window_ok s3 \<and> (\<forall>i\<in>{0..<32}. reg s3 i = reg s i) \<and> MEM s3 = MEM s"
proof -
  let ?s1 = "enterTrap pc npc e off s"
  let ?s2 = "?s1\<lparr>PC := NPC ?s1, NPC := pc\<rparr>"
  let ?c = "key_CWP (PSR s)"
  let ?s3 = "updateAliases ?c (?s2\<lparr>PC := pc, NPC := npc,
    PSR := (PSR ?s1 AND 0xFFFFFF40) OR (?c OR 0x20 OR push_bit 7 (key_PS (PSR ?s1)))\<rparr>)"
  have w: "?c < 8" by (rule window_okD(1) [OF assms(1)])
  have ok1: "window_ok ?s1" by (rule window_ok_enterTrap [OF assms(1)])
  have ok2: "window_ok ?s2" using ok1 by (rule window_ok_frame)
  have inc: "incCwp (PSR ?s2) = ?c"
    using inc_dec_cwp(1) [OF w] by (simp add: enterTrap_simps incCwp_def decCwp_def)
  have "JUMP_imm p ?s1 = Ok 2 ?s2"
    using JUMP_imm_ok [of ?s1 p] ok1 assms by (simp add: reg_enterTrap reg_trap_frame)
  moreover have "RETT_imm q ?s2 = Ok 2 ?s3"
    using RETT_imm_ok [of ?s2 q] assms inc
    by (simp add: enterTrap_simps reg_enterTrap reg_trap_frame)
  moreover have "window_ok ?s3"
    using ok2 w by (intro window_ok_updateAliases) (auto simp: key_CWP_RETT dest: window_ok_globals)
  moreover have "reg ?s3 i = reg s i" if "i < 32" for i
  proof -
    have "reg ?s3 i = ref_read ?s3 (reg_of ?c i)"
      using \<open>window_ok ?s3\<close> that w by (simp add: reg_eq_reg_of key_CWP_RETT)
    also have "\<dots> = reg s i"
      by (rule reg_of_visible [OF assms(1) that])
        (simp_all add: enterTrap_simps WINREGS_trap_frame [OF assms(1)])
    finally show ?thesis .
  qed
  moreover have "bit (PSR ?s3) k = (if k = 6 then bit (PSR s) 7 else bit (PSR s) k)" for k
  proof -
    have "PSR ?s3 = (trapPSR (PSR s) AND 0xFFFFFF40) OR
        (?c OR 0x20 OR push_bit 7 (key_PS (trapPSR (PSR s))))"
      by (simp add: enterTrap_simps del: key_trapPSR)
    moreover have "bit (PSR s) 5" using assms(2) by (simp add: key_bits split: if_splits)
    ultimately show ?thesis
      by (simp only: bit_RETT_PSR [OF w] bit_trapPSR key_CWP_bits) auto
  qed
  moreover have "MEM ?s3 = MEM s" "PC ?s3 = pc" "NPC ?s3 = npc"
    by (simp_all add: enterTrap_simps)
  ultimately show ?thesis
    using RaiseException_enabled [OF assms(2), of pc npc e off]
    by (intro exI [of _ ?s1] exI [of _ ?s2] exI [of _ ?s3] conjI ballI)
      (assumption | simp only: atLeastLessThan_iff)+
qed

theorem trap_return_resumes_witness:
  "\<exists>s1 s2 s3. RaiseException 0x40000000 0x40000004 TRAP_INSTRUCTION 3 (sample ()) = Annul s1 \<and>
    JUMP_imm (setParams 0x81c46000) s1 = Ok 2 s2 \<and> RETT_imm (setParams 0x81cca000) s2 = Ok 2 s3 \<and>
    PC s3 = 0x40000000 \<and> NPC s3 = 0x40000004"
  using trap_return_resumes [OF window_ok_sample, of "()" "0x40000000" "0x40000004"
      "setParams 0x81c46000" "setParams 0x81cca000" TRAP_INSTRUCTION 3]
  by (auto simp: key_ET_def windowInvalid_def setParams_def)

end
