(* ===== verification/Leon3_Mul_Props.thy ===== *)
theory Leon3_Mul_Props
  imports Leon3_Alu_Props
begin

text \<open>
  Products and quotients of the LEON3 core as integers, the order relations a
  comparison leaves in the condition codes, and the control flow of branches.
\<close>

section \<open>Double words\<close>

lemma uint_range_u64: "0 \<le> uint (a::u64) \<and> uint a < 18446744073709551616"
  using uint_bounded [of a] by simp

lemma uint_ucast_up: "uint (ucast (a::u32) :: u64) = uint a"
  by (rule uint_up_ucast) (simp add: is_up)

lemma uint_high_word: "uint (ucast (drop_bit 32 (x::u64)) :: u32) = uint x div 4294967296"
proof -
  have "uint (ucast (drop_bit 32 x) :: u32) = take_bit 32 (uint (drop_bit 32 x))"
    by (simp add: unsigned_ucast_eq)
  also have "uint (drop_bit 32 x) = uint x div 4294967296"
  proof -
    have "uint (drop_bit 32 x) = drop_bit 32 (uint x)"
      using uint_range_u64 [of x] by (simp only: unsigned_drop_bit_eq) (simp add: take_bit_int_eq_self)
    then show ?thesis by (simp only: drop_bit_eq_div) simp
  qed
  also have "take_bit 32 (uint x div 4294967296) = uint x div 4294967296"
    using uint_range_u64 [of x]
    by (intro take_bit_int_eq_self) (auto simp: pos_imp_zdiv_nonneg_iff)
  finally show ?thesis .
qed

lemma uint_low_word: "uint (ucast (x AND 0x00000000FFFFFFFF :: u64) :: u32) = uint x mod 4294967296"
proof -
  have m: "(0x00000000FFFFFFFF :: u64) = mask 32" by (simp add: mask_eq_exp_minus_1)
  have "(ucast (x AND mask 32) :: u32) = ucast x"
    by (intro bit_word_eqI) (simp add: bit_simps)
  then have "uint (ucast (x AND mask 32) :: u32) = take_bit 32 (uint x)"
    by (simp add: unsigned_ucast_eq)
  then show ?thesis unfolding m by (simp add: take_bit_eq_mod)
qed

lemma uint_join: "uint (push_bit 32 (ucast (y::u32)) OR ucast (a::u32) :: u64) = uint y * 4294967296 + uint a"
proof -
  have up: "is_up (ucast :: u32 \<Rightarrow> u64)" by (simp add: is_up)
  have "uint (push_bit 32 (ucast y) OR ucast a :: u64) =
      take_bit 64 (push_bit 32 (uint y)) OR uint a"
    by (simp only: unsigned_or_eq unsigned_push_bit_eq uint_up_ucast [OF up]) simp
  also have "take_bit 64 (push_bit 32 (uint y)) = push_bit 32 (uint y)"
    using uint_range_u32 [of y] by (intro take_bit_int_eq_self) (auto simp: push_bit_eq_mult)
  also have "push_bit 32 (uint y) OR uint a = concat_bit 32 (uint a) (uint y)"
    using uint_range_u32 [of a] by (simp only: concat_bit_def) (simp add: take_bit_int_eq_self or.commute)
  also have "\<dots> = uint y * 4294967296 + uint a"
    using uint_range_u32 [of a] by (simp add: concat_bit_eq push_bit_eq_mult take_bit_int_eq_self)
  finally show ?thesis .
qed

section \<open>Products\<close>

lemma uint_umul: "uint ((ucast (a::u32) :: u64) * ucast (b::u32)) = uint a * uint b"
proof -
  have "uint a * uint b \<le> 4294967295 * 4294967295"
    using uint_range_u32 [of a] uint_range_u32 [of b] by (intro mult_mono) auto
  then have "(uint a * uint b) mod 18446744073709551616 = uint a * uint b"
    by (intro mod_pos_pos_trivial) auto
  then show ?thesis
    by (simp add: uint_word_ariths uint_ucast_up)
qed

lemma sint_smul: "sint ((scast (a::u32) :: u64) * scast (b::u32)) = sint a * sint b"
proof -
  have a: "- 2147483648 \<le> sint a" "sint a < 2147483648" "- 2147483648 \<le> sint b" "sint b < 2147483648"
    using sint_greater_eq [of a] sint_less [of a] sint_greater_eq [of b] sint_less [of b] by simp_all
  have "\<bar>sint a * sint b\<bar> \<le> 2147483648 * 2147483648"
    unfolding abs_mult using a by (intro mult_mono) auto
  then have "- 9223372036854775808 \<le> sint a * sint b" "sint a * sint b < 9223372036854775808"
    by linarith+
  then have "signed_take_bit 63 (sint a * sint b) = sint a * sint b"
    by (intro signed_take_bit_int_eq_self) simp_all
  moreover have "(scast a :: u64) * scast b = word_of_int (sint a * sint b)"
    by (simp only: scast_eq wi_hom_mult)
  ultimately show ?thesis by (simp only: sint_sbintrunc') simp
qed

lemma double_word_parts:
  "uint (ucast (drop_bit 32 (x::u64)) :: u32) * 4294967296 + uint (ucast (x AND 0x00000000FFFFFFFF) :: u32) = uint x"
  by (simp add: uint_high_word uint_low_word)

lemma sint_uint_u64: "sint (a::u64) = (if bit a 63 then uint a - 18446744073709551616 else uint a)"
proof -
  have "sint a = signed_take_bit 63 (uint a)" by (simp add: sint_uint)
  also have "\<dots> = take_bit 64 (uint a) - 2 ^ 64 * of_bool (bit (uint a) 63)"
    by (simp add: signed_take_bit_eq_take_bit_minus)
  also have "take_bit 64 (uint a) = uint a"
    using uint_range_u64 [of a] by (simp add: take_bit_int_eq_self)
  finally show ?thesis by (simp add: bit_uint_iff)
qed

lemma double_word_parts_signed:
  "sint (ucast (drop_bit 32 (x::u64)) :: u32) * 4294967296 + uint (ucast (x AND 0x00000000FFFFFFFF) :: u32) = sint x"
proof -
  have "bit (ucast (drop_bit 32 x) :: u32) 31 = bit x 63" by (simp add: bit_simps)
  then show ?thesis
    using double_word_parts [of x] by (simp add: sint_uint_u32 sint_uint_u64 algebra_simps)
qed

text \<open>The multiply instructions leave the full 64-bit product, unsigned for
  \<^verbatim>\<open>UMUL\<close> and signed for \<^verbatim>\<open>SMUL\<close>, in \<^verbatim>\<open>Y\<close> (high word) and \<^verbatim>\<open>rd\<close>
  (low word).\<close>

theorem multiply_products:
  assumes "window_ok s" "0 < rd_bit p" "rd_bit p < 32"
  shows "(\<exists>s'. UMUL_reg p s = Ok 3 s' \<and>
      uint (Y s') * 2 ^ 32 + uint (reg s' (rd_bit p)) = uint (rs1 p s) * uint (rs2 p s)) \<and>
    (\<exists>s'. SMUL_reg p s = Ok 3 s' \<and>
      sint (Y s') * 2 ^ 32 + uint (reg s' (rd_bit p)) = sint (rs1 p s) * sint (rs2 p s))"
proof -
  have rd: "reg (set_reg (rd_bit p) v ((IncrementPC s)\<lparr>Y := y\<rparr>)) (rd_bit p) = v" for v y
    using assms by (intro reg_set_reg [THEN trans]) (auto intro: keeps_intros)
  have r: "rs1 p (IncrementPC s) = rs1 p s" "rs2 p (IncrementPC s) = rs2 p s"
    by (simp_all add: rs1_def rs2_def)
  show ?thesis
    unfolding UMUL_reg_def SMUL_reg_def Let_def WB_plain_def r
    using double_word_parts [of "ucast (rs1 p s) * ucast (rs2 p s)"]
      double_word_parts_signed [of "scast (rs1 p s) * scast (rs2 p s)"]
    by (simp add: rd uint_umul sint_smul)
qed

theorem multiply_products_witness:
  "\<exists>s'. SMUL_reg (setParams 0x82580000) (sample ()) = Ok 3 s' \<and> sint (Y s') * 2 ^ 32 + uint (reg s' 1) = 0"
  using multiply_products [OF window_ok_sample, of "setParams 0x82580000" "()"]
  by (auto simp: setParams_def)

section \<open>Quotients\<close>

lemma high_bits_zero:
  assumes "n \<le> 64"
  shows "((x::u64) AND NOT (mask n) = 0) = (uint x < 2 ^ n)"
proof -
  have split: "x = take_bit n x OR (x AND NOT (mask n))"
    by (intro bit_word_eqI) (auto simp: bit_simps)
  have "take_bit n x AND NOT (mask n) = 0"
    by (intro bit_word_eqI) (auto simp: bit_simps)
  then have "(x AND NOT (mask n) = 0) = (take_bit n x = x)"
    using split by (metis or.right_neutral)
  also have "\<dots> = (uint (take_bit n x) = uint x)" by (simp only: word_uint_eq_iff)
  also have "uint (take_bit n x) = take_bit n (uint x)" by (simp only: unsigned_take_bit_eq)
  also have "(take_bit n (uint x) = uint x) = (uint x < 2 ^ n)"
    using uint_range_u64 [of x] by (simp add: take_bit_int_eq_self_iff)
  finally show ?thesis .
qed

lemma uint_not_u64: "uint (NOT (x::u64)) = 18446744073709551615 - uint x"
proof -
  have "uint (NOT x) = take_bit 64 (NOT (uint x))"
    by (simp only: unsigned_not_eq) simp
  also have "\<dots> = (- uint x - 1) mod 2 ^ 64"
    by (simp only: take_bit_eq_mod not_eq_complement)
  also have "\<dots> = (- uint x - 1 + 2 ^ 64) mod 2 ^ 64"
    by (simp only: mod_add_self2)
  also have "\<dots> = - uint x - 1 + 2 ^ 64"
  proof (rule mod_pos_pos_trivial)
    show "0 \<le> - uint x - 1 + 2 ^ 64" "- uint x - 1 + 2 ^ 64 < 2 ^ 64"
      using uint_range_u64 [of x] by (simp, linarith)+
  qed
  finally show ?thesis by simp
qed

lemma mask_numerals_64:
  "(0xFFFFFFFF00000000 :: u64) = NOT (mask 32)" "(0xFFFFFFFF80000000 :: u64) = NOT (mask 31)"
  by (simp_all add: mask_eq_exp_minus_1)

lemma uint_ucast_low: "uint (ucast (x AND 0x00000000FFFFFFFF :: u64) :: u32) = uint x mod 4294967296"
  by (rule uint_low_word)

text \<open>The unsigned quotient saturates at the largest word.\<close>

lemma udiv_result_spec:
  fixes y a d :: u32
  defines "q \<equiv> (uint y * 4294967296 + uint a) div uint d"
  assumes "d \<noteq> 0"
  shows "uint (fst (udiv_result y a d)) = min q 4294967295"
    and "snd (udiv_result y a d) = (4294967296 \<le> q)"
proof -
  let ?r = "(push_bit 32 (ucast y) OR ucast a :: u64) div ucast d"
  have r: "uint ?r = q"
    unfolding uint_div uint_join uint_ucast_up q_def ..
  have v: "(?r AND 0xFFFFFFFF00000000 \<noteq> 0) = (4294967296 \<le> q)"
    unfolding mask_numerals_64 using high_bits_zero [of 32 ?r] r by (simp add: not_less)
  have q0: "0 \<le> q" using r uint_range_u64 [of ?r] by simp
  show "snd (udiv_result y a d) = (4294967296 \<le> q)"
    unfolding udiv_result_def Let_def snd_conv v ..
  show "uint (fst (udiv_result y a d)) = min q 4294967295"
    unfolding udiv_result_def Let_def fst_conv v
    using q0 by (simp add: uint_low_word r del: mask_numerals_64)
qed

text \<open>An unsigned division divides \<^verbatim>\<open>Y:rs1\<close> by \<^verbatim>\<open>rs2\<close>: the result is the
  quotient, or \<^verbatim>\<open>0xFFFFFFFF\<close> with the overflow flag set when it does not
  fit; a zero divisor traps with the registers and the condition codes
  untouched.\<close>

theorem UDIVcc_saturates:
  assumes "window_ok s" "0 < rd_bit p" "rd_bit p < 32"
  shows "if rs2 p s = 0 then UDIVcc_reg p s = and_then (RaiseException (PC s) (NPC s) DIV_ZERO 0 (IncrementPC s))
           (\<lambda>_ s. Ok 34 (set_reg (rd_bit p) 0 s))
    else \<exists>s'. UDIVcc_reg p s = Ok 34 s' \<and>
      (let q = (uint (Y s) * 2 ^ 32 + uint (rs1 p s)) div uint (rs2 p s) in
        uint (reg s' (rd_bit p)) = min q (2 ^ 32 - 1) \<and>
        key_ICC_v (PSR s') = int_of_bool (2 ^ 32 \<le> q) \<and>
        key_ICC_z (PSR s') = int_of_bool (q = 0) \<and> key_ICC_c (PSR s') = 0)"
proof (cases "rs2 p s = 0")
  case True
  have "rs2 p (IncrementPC s) = 0" using True by (simp add: rs2_def)
  then show ?thesis
    using True by (simp add: UDIVcc_reg_def Let_def ICC_writeDiv_def raise_if_def WB_plain_def)
next
  case False
  obtain r v where rv: "udiv_result (Y s) (rs1 p s) (rs2 p s) = (r, v)" by fastforce
  have spec: "uint r = min ((uint (Y s) * 4294967296 + uint (rs1 p s)) div uint (rs2 p s)) 4294967295"
    "v = (4294967296 \<le> (uint (Y s) * 4294967296 + uint (rs1 p s)) div uint (rs2 p s))"
    using udiv_result_spec [OF False, of "Y s" "rs1 p s"] rv by simp_all
  have op: "rs1 p (IncrementPC s) = rs1 p s" "rs2 p (IncrementPC s) = rs2 p s"
    by (simp_all add: rs1_def rs2_def)
  let ?m = "ICC_writeDiv False r v (IncrementPC s)"
  have m: "window_ok ?m" using assms(1) by (intro keeps_intros)
  have "UDIVcc_reg p s = Ok 34 (set_reg (rd_bit p) r ?m)"
    using False by (simp add: UDIVcc_reg_def Let_def op rv raise_if_def WB_plain_def)
  moreover have "reg (set_reg (rd_bit p) r ?m) (rd_bit p) = r"
    using reg_set_reg [OF m assms(3) assms(3)] assms(2) by simp
  moreover have "(r = 0) = (uint r = 0)" by (simp add: uint_0_iff)
  ultimately show ?thesis
    using False spec by (auto simp: Let_def ICC_writeDiv_def key_write_ICC min_def)
qed

text \<open>A machine with \<^verbatim>\<open>Y = 1\<close> and 2 in register 1.\<close>

definition div_sample :: "unit leon3" where
  "div_sample = (set_reg 1 2 (sample ()))\<lparr>Y := 1\<rparr>"

lemma window_ok_div_sample: "window_ok div_sample"
  unfolding div_sample_def by (intro window_ok_frame window_ok_sample)

lemma reg_div_sample: "i < 32 \<Longrightarrow> reg div_sample i = (if i = 1 then 2 else 0)"
  using reg_set_reg [OF window_ok_sample, of 1 i 2 "()"] reg_sample [of i "()"]
  by (auto simp: div_sample_def)

theorem UDIVcc_saturates_witness:
  "\<exists>s'. UDIVcc_reg (setParams 0x84f00001) div_sample = Ok 34 s' \<and> uint (reg s' 2) = 2147483648"
  using UDIVcc_saturates [OF window_ok_div_sample, of "setParams 0x84f00001"]
  by (auto simp: setParams_def rs1_def rs2_def reg_div_sample Let_def) (simp add: div_sample_def)

lemma sint_join: "sint (push_bit 32 (ucast (y::u32)) OR ucast (a::u32) :: u64) = sint y * 4294967296 + uint a"
proof -
  let ?x = "push_bit 32 (ucast y) OR ucast a :: u64"
  have "bit ?x 63 = bit y 31"
    by (auto simp: bit_or_iff bit_push_bit_iff bit_ucast_iff dest: bit_imp_le_length)
  then show ?thesis
    unfolding sint_uint_u64 [of ?x] sint_uint_u32 [of y] uint_join by simp
qed

lemma sint_range_u64: "- 9223372036854775808 \<le> sint (x::u64) \<and> sint x < 9223372036854775808"
  using sint_greater_eq [of x] sint_less [of x] by simp

lemma sint_range_u32: "- 2147483648 \<le> sint (x::u32) \<and> sint x < 2147483648"
  using sint_greater_eq [of x] sint_less [of x] by simp

text \<open>Only the smallest dividend divided by -1 leaves the 64-bit range.\<close>

lemma sdiv_in_range:
  fixes k l :: int
  assumes "- 9223372036854775808 \<le> k" "k < 9223372036854775808"
    and "\<not> (k = - 9223372036854775808 \<and> l = - 1)"
  shows "- 9223372036854775808 \<le> k sdiv l \<and> k sdiv l < 9223372036854775808"
proof -
  have "k sdiv l \<in> {- \<bar>k\<bar>..\<bar>k\<bar>}" by (rule sdiv_int_range)
  then have abs: "- \<bar>k\<bar> \<le> k sdiv l" "k sdiv l \<le> \<bar>k\<bar>" by simp_all
  show ?thesis
  proof (cases "k = - 9223372036854775808")
    case True
    then have "k sdiv l \<noteq> - k"
      using assms(3) int_sdiv_negated_is_minus1 [of k l] by simp
    then show ?thesis using abs True by linarith
  next
    case False
    then show ?thesis using abs assms(1,2) by linarith
  qed
qed

lemma and_full_iff: "((x::'a::len word) AND m = m) = (NOT x AND m = 0)"
  by (auto simp: bit_eq_iff bit_simps dest: bit_imp_le_length)

lemma sdiv_result_spec:
  fixes y a d :: u32
  defines "q \<equiv> (sint y * 4294967296 + uint a) sdiv sint d"
  assumes "\<not> sdiv_undefined y a d"
  shows "sint (fst (sdiv_result y a d)) = max (- 2147483648) (min q 2147483647)"
    and "snd (sdiv_result y a d) = (q < - 2147483648 \<or> 2147483647 < q)"
proof -
  let ?n = "push_bit 32 (ucast y) OR ucast a :: u64"
  let ?r = "word_of_int (sint ?n sdiv sint d) :: u64"
  have neg1: "(sint d = - 1) = (d = 0xFFFFFFFF)"
    using signed_word_eqI [of d "0xFFFFFFFF"] by auto
  have min64: "(sint ?n = - 9223372036854775808) = (?n = 0x8000000000000000)"
    using signed_word_eqI [of ?n "0x8000000000000000"] by auto
  have q: "q = sint ?n sdiv sint d" by (simp only: q_def sint_join)
  have range: "- 9223372036854775808 \<le> q" "q < 9223372036854775808"
    unfolding q using sdiv_in_range [of "sint ?n" "sint d"] sint_range_u64 [of ?n] assms(2)
    by (auto simp: sdiv_undefined_def neg1 min64)
  have "sint ?r = signed_take_bit 63 q" unfolding q by (simp only: sint_sbintrunc') simp
  also have "\<dots> = q" using range by (intro signed_take_bit_int_eq_self) simp_all
  finally have r: "sint ?r = q" .
  have ur: "uint ?r = (if q < 0 then q + 18446744073709551616 else q)"
    using r sint_uint_u64 [of ?r] uint_range_u64 [of ?r] range by (simp split: if_splits; linarith)
  have lo: "(?r AND 0xFFFFFFFF80000000 = 0) = (0 \<le> q \<and> q < 2147483648)"
    unfolding mask_numerals_64 using high_bits_zero [of 31 ?r] ur range by (simp split: if_splits; linarith)
  have "(?r AND 0xFFFFFFFF80000000 = 0xFFFFFFFF80000000) = (NOT ?r AND NOT (mask 31) = 0)"
    unfolding mask_numerals_64 by (rule and_full_iff)
  also have "\<dots> = (- 2147483648 \<le> q \<and> q < 0)"
    using high_bits_zero [of 31 "NOT ?r"] ur range uint_not_u64 [of ?r] by (simp split: if_splits; linarith)
  finally have hi: "(?r AND 0xFFFFFFFF80000000 = 0xFFFFFFFF80000000) = (- 2147483648 \<le> q \<and> q < 0)" .
  have v: "(?r AND 0xFFFFFFFF80000000 \<noteq> 0 \<and> ?r AND 0xFFFFFFFF80000000 \<noteq> 0xFFFFFFFF80000000)
      = (q < - 2147483648 \<or> 2147483647 < q)"
    unfolding lo hi by linarith
  show "snd (sdiv_result y a d) = (q < - 2147483648 \<or> 2147483647 < q)"
    unfolding sdiv_result_def Let_def snd_conv by (rule v)
  have low: "sint (ucast (?r AND 0x00000000FFFFFFFF) :: u32) = q"
    if "- 2147483648 \<le> q" "q \<le> 2147483647"
  proof -
    have "uint (ucast (?r AND 0x00000000FFFFFFFF) :: u32) = uint ?r mod 4294967296"
      by (rule uint_low_word)
    also have "\<dots> = (if q < 0 then q + 4294967296 else q)"
    proof (cases "q < 0")
      case True
      then have "uint ?r mod 4294967296 = (q + 4294967296 + 4294967295 * 4294967296) mod 4294967296"
        using ur by (simp add: add.commute)
      also have "\<dots> = (q + 4294967296) mod 4294967296" by (simp only: mod_mult_self1)
      also have "\<dots> = q + 4294967296" using True that by (intro mod_pos_pos_trivial) linarith+
      finally show ?thesis using True by simp
    next
      case False
      then show ?thesis using ur that by simp
    qed
    finally show ?thesis
      unfolding sint_uint_u32 bit_31_uint using that by (simp split: if_splits)
  qed
  show "sint (fst (sdiv_result y a d)) = max (- 2147483648) (min q 2147483647)"
    unfolding sdiv_result_def Let_def fst_conv v
    using low r by (auto simp: word_sless_alt max_def min_def)
qed

text \<open>A signed division divides the 64-bit \<^verbatim>\<open>Y:rs1\<close> by \<^verbatim>\<open>rs2\<close>, truncating
  towards zero, and clamps the quotient to the 32-bit range, reporting the
  clamping in the overflow flag.  The only dividend and divisor without an
  outcome are the smallest 64-bit integer and -1, which C++ leaves undefined.\<close>

theorem SDIVcc_saturates:
  assumes "window_ok s" "0 < rd_bit p" "rd_bit p < 32" "rs2 p s \<noteq> 0"
    and "\<not> (sint (Y s) * 2 ^ 32 + uint (rs1 p s) = - (2 ^ 63) \<and> sint (rs2 p s) = - 1)"
  shows "\<exists>s'. SDIVcc_reg p s = Ok 34 s' \<and>
      (let q = (sint (Y s) * 2 ^ 32 + uint (rs1 p s)) sdiv sint (rs2 p s) in
        sint (reg s' (rd_bit p)) = max (- (2 ^ 31)) (min q (2 ^ 31 - 1)) \<and>
        key_ICC_v (PSR s') = int_of_bool (q < - (2 ^ 31) \<or> 2 ^ 31 - 1 < q))"
proof -
  let ?n = "push_bit 32 (ucast (Y s)) OR ucast (rs1 p s) :: u64"
  have nu: "\<not> sdiv_undefined (Y s) (rs1 p s) (rs2 p s)"
  proof
    assume "sdiv_undefined (Y s) (rs1 p s) (rs2 p s)"
    then have "sint ?n = - 9223372036854775808" "sint (rs2 p s) = - 1"
      by (simp_all add: sdiv_undefined_def)
    then show False using assms(5) unfolding sint_join by simp
  qed
  obtain r v where rv: "sdiv_result (Y s) (rs1 p s) (rs2 p s) = (r, v)" by fastforce
  let ?q = "(sint (Y s) * 4294967296 + uint (rs1 p s)) sdiv sint (rs2 p s)"
  have spec: "sint r = max (- 2147483648) (min ?q 2147483647)"
    "v = (?q < - 2147483648 \<or> 2147483647 < ?q)"
    using sdiv_result_spec [OF nu] rv by simp_all
  have op: "rs1 p (IncrementPC s) = rs1 p s" "rs2 p (IncrementPC s) = rs2 p s"
    by (simp_all add: rs1_def rs2_def)
  let ?m = "ICC_writeDiv False r v (IncrementPC s)"
  have m: "window_ok ?m" using assms(1) by (intro keeps_intros)
  have "SDIVcc_reg p s = Ok 34 (set_reg (rd_bit p) r ?m)"
    using assms(4) nu by (simp add: SDIVcc_reg_def Let_def op rv raise_if_def WB_plain_def)
  moreover have "reg (set_reg (rd_bit p) r ?m) (rd_bit p) = r"
    using reg_set_reg [OF m assms(3) assms(3)] assms(2) by simp
  ultimately show ?thesis
    using spec by (simp add: Let_def ICC_writeDiv_def key_write_ICC)
qed

theorem SDIVcc_saturates_witness:
  "\<exists>s'. SDIVcc_reg (setParams 0x84f80001) div_sample = Ok 34 s' \<and> sint (reg s' 2) = 2147483647 \<and>
    key_ICC_v (PSR s') = 1"
proof -
  have "Y div_sample = 1" by (simp add: div_sample_def)
  then show ?thesis
    using SDIVcc_saturates [OF window_ok_div_sample, of "setParams 0x84f80001"]
    by (auto simp: setParams_def rs1_def rs2_def reg_div_sample Let_def)
qed

section \<open>Comparison and branch\<close>

text \<open>(C21) After \<^verbatim>\<open>SUBcc\<close> (the \<^verbatim>\<open>cmp\<close> of SPARC assembly) the branch conditions are the
  order relations between the operands: \<^verbatim>\<open>be\<close> equality, \<^verbatim>\<open>bl\<close>, \<^verbatim>\<open>ble\<close> the signed
  orders and \<^verbatim>\<open>bcs\<close>, \<^verbatim>\<open>bleu\<close> the unsigned ones.\<close>

theorem compare_sets_conditions:
  "\<exists>s'. SUBcc_reg p s = Ok 0 s' \<and>
    icc_cond 0x1 (PSR s') = (rs1 p s = rs2 p s) \<and>
    icc_cond 0x3 (PSR s') = (rs1 p s <s rs2 p s) \<and>
    icc_cond 0x2 (PSR s') = (rs1 p s \<le>s rs2 p s) \<and>
    icc_cond 0x5 (PSR s') = (rs1 p s < rs2 p s) \<and>
    icc_cond 0x4 (PSR s') = (rs1 p s \<le> rs2 p s)"
proof -
  let ?a = "rs1 p s" let ?b = "rs2 p s"
  let ?r = "?a - ?b"
  let ?s = "set_reg (rd_bit p) ?r (ICC_writeSub ?r ?a ?b (IncrementPC s))"
  have op: "rs1 p (IncrementPC s) = ?a" "rs2 p (IncrementPC s) = ?b"
    by (simp_all add: rs1_def rs2_def)
  have e: "SUBcc_reg p s = Ok 0 ?s"
    by (simp add: SUBcc_reg_def Let_def op WB_plain_def)
  have r0: "?r = ?a - ?b - 0" by simp
  note flags = ICC_writeSub_flags [OF r0, simplified, of "IncrementPC s"]
  have z: "(?r = 0) = (?a = ?b)" by simp
  have lt: "((sint ?r < 0) \<noteq> (sint ?r \<noteq> sint ?a - sint ?b)) = (sint ?a < sint ?b)"
  proof -
    have "uint ?r = uint ?a - uint ?b \<or> uint ?r = uint ?a - uint ?b + 4294967296"
      using uint_sub3 [of 0 ?a ?b] by simp
    then show ?thesis
      unfolding sint_uint_u32 bit_31_uint
      using uint_range_u32 [of ?a] uint_range_u32 [of ?b] uint_range_u32 [of ?r]
      by (simp split: if_splits; linarith)
  qed
  have "icc_cond 0x1 (PSR ?s) = (?a = ?b)" "icc_cond 0x5 (PSR ?s) = (?a < ?b)"
    "icc_cond 0x4 (PSR ?s) = (?a \<le> ?b)"
    using flags by (auto simp: icc_cond_def Let_def word_less_def word_le_def word_uint_eq_iff)
  moreover have "icc_cond 0x3 (PSR ?s) = (sint ?a < sint ?b)"
    using flags lt by (auto simp: icc_cond_def Let_def)
  moreover have "icc_cond 0x2 (PSR ?s) = (sint ?a \<le> sint ?b)"
    using flags lt signed_word_eqI [of ?a ?b] by (auto simp: icc_cond_def Let_def)
  ultimately show ?thesis
    using e by (simp add: word_sless_alt word_sle_eq)
qed

text \<open>The branch conditions come in complementary pairs: flipping the top bit of
  the condition field of any conditional branch negates it.\<close>

lemma conditions_complementary:
  assumes "c < 16" "c \<noteq> 0" "c \<noteq> 8"
  shows "icc_cond (c XOR 8) psr = (\<not> icc_cond c psr)"
proof -
  have "unat c < 16" using assms(1) by (simp add: word_less_nat_alt)
  then have "unat c = 0 \<or> unat c = 1 \<or> unat c = 2 \<or> unat c = 3 \<or> unat c = 4 \<or> unat c = 5 \<or>
      unat c = 6 \<or> unat c = 7 \<or> unat c = 8 \<or> unat c = 9 \<or> unat c = 10 \<or> unat c = 11 \<or>
      unat c = 12 \<or> unat c = 13 \<or> unat c = 14 \<or> unat c = 15" by arith
  moreover have "c = of_nat (unat c)" by simp
  ultimately have "c = 0 \<or> c = 1 \<or> c = 2 \<or> c = 3 \<or> c = 4 \<or> c = 5 \<or> c = 6 \<or> c = 7 \<or>
      c = 8 \<or> c = 9 \<or> c = 10 \<or> c = 11 \<or> c = 12 \<or> c = 13 \<or> c = 14 \<or> c = 15"
    by (elim disjE) (simp_all only: of_nat_0 of_nat_1 of_nat_numeral, simp_all)
  then show ?thesis
    using assms(2,3) by (elim disjE; hypsubst; simp add: icc_cond_def Let_def; blast?)
qed

end
