(* ===== verification/Leon3_Props.thy ===== *)
theory Leon3_Props
  imports Leon3_Trap_Props Leon3_Mul_Props
begin

text \<open>
  Properties of the LEON3 instruction set that involve its memory, its modes
  and its decoder: store and load, misaligned and privileged accesses, delayed
  branches, interrupts, the decoding of calls, and the places where the code
  departs from the SPARC V8 manual.
\<close>

section \<open>Stores and loads\<close>

context cpu_memory
begin

lemma ST_imm_ok:
  assumes "regular (data_asi s) 0 0" "mem_ok (MEM s)" "serves (MEM s) a" "a AND 3 = 0"
    and a: "a = rs1 p s + SignExtend (simm13 p) 13"
  shows "\<exists>m'. ST_imm cif p s = Ok 1 (IncrementPC (s\<lparr>MEM := m'\<rparr>)) \<and> mem_ok m' \<and>
    serves m' = serves (MEM s) \<and> word_at m' a = rd p s \<and>
    (\<forall>b. serves (MEM s) b \<longrightarrow> b \<noteq> a \<longrightarrow> word_at m' b = word_at (MEM s) b)"
  using write_word_law [OF assms(1-3), of "rd p s"] assms(4)
  by (auto simp: ST_imm_def Let_def a finish_write_def report_exception_def raise_if_def)

lemma LD_imm_ok:
  assumes "regular (data_asi s) 0 0" "mem_ok (MEM s)" "serves (MEM s) a" "a AND 3 = 0"
    and a: "a = rs1 p s + SignExtend (simm13 p) 13"
  shows "\<exists>m'. LD_imm cif p s = Ok 0 (IncrementPC (set_reg (rd_bit p) (word_at (MEM s) a) (s\<lparr>MEM := m'\<rparr>))) \<and>
    mem_ok m' \<and> serves m' = serves (MEM s) \<and> (\<forall>b. serves (MEM s) b \<longrightarrow> word_at m' b = word_at (MEM s) b)"
  using read_word_law [OF assms(1-3)] assms(4)
  by (auto simp: LD_imm_def Let_def a finish_read_def report_exception_def raise_if_def)

lemma store_load:
  assumes "window_ok s" "regular (data_asi s) 0 0" "mem_ok (MEM s)" "serves (MEM s) a" "a AND 3 = 0"
    and p: "a = rs1 p s + SignExtend (simm13 p) 13"
    and q: "a = rs1 q s + SignExtend (simm13 q) 13" "0 < rd_bit q" "rd_bit q < 32"
  shows "\<exists>s1 s2. ST_imm cif p s = Ok 1 s1 \<and> LD_imm cif q s1 = Ok 0 s2 \<and>
    reg s2 (rd_bit q) = rd p s \<and> (\<forall>b. serves (MEM s) b \<longrightarrow> b \<noteq> a \<longrightarrow> word_at (MEM s2) b = word_at (MEM s) b)"
proof -
  obtain m' where st: "ST_imm cif p s = Ok 1 (IncrementPC (s\<lparr>MEM := m'\<rparr>))"
    and m: "mem_ok m'" "serves m' = serves (MEM s)" "word_at m' a = rd p s"
      "\<forall>b. serves (MEM s) b \<longrightarrow> b \<noteq> a \<longrightarrow> word_at m' b = word_at (MEM s) b"
    using ST_imm_ok [OF assms(2-5) p] by blast
  let ?s1 = "IncrementPC (s\<lparr>MEM := m'\<rparr>)"
  have "rs1 q ?s1 = rs1 q s" by (simp add: rs1_def)
  moreover have "data_asi ?s1 = data_asi s" by (simp add: data_asi_def)
  ultimately obtain m'' where
      ld: "LD_imm cif q ?s1 = Ok 0 (IncrementPC (set_reg (rd_bit q) (rd p s) (?s1\<lparr>MEM := m''\<rparr>)))"
      and m'': "\<forall>b. serves m' b \<longrightarrow> word_at m'' b = word_at m' b"
    using LD_imm_ok [of ?s1 a q] m assms(2,4,5) q(1) by auto
  have ok: "window_ok (?s1\<lparr>MEM := m''\<rparr>)" using assms(1) by (intro keeps_intros)
  have "reg (set_reg (rd_bit q) (rd p s) (?s1\<lparr>MEM := m''\<rparr>)) (rd_bit q) = rd p s"
    using reg_set_reg [OF ok q(3) q(3)] q(2) by simp
  then show ?thesis using st ld m(2,4) m'' by auto
qed

end

text \<open>A word stored with \<^verbatim>\<open>ST\<close> is what a later \<^verbatim>\<open>LD\<close> from the same aligned
  address of the core's local memory returns, big-endian conversion included,
  and no other word changes.\<close>

theorem store_load_roundtrip:
  assumes "window_ok s" "lm_serves (MEM s) a" "a AND 3 = 0"
    and "a = rs1 p s + SignExtend (simm13 p) 13"
    and "a = rs1 q s + SignExtend (simm13 q) 13" "0 < rd_bit q" "rd_bit q < 32"
  shows "\<exists>s1 s2. ST_imm local_memory_if p s = Ok 1 s1 \<and> LD_imm local_memory_if q s1 = Ok 0 s2 \<and>
    reg s2 (rd_bit q) = rd p s \<and>
    (\<forall>b. lm_serves (MEM s) b \<longrightarrow> b \<noteq> a \<longrightarrow> lm_word_at (MEM s2) b = lm_word_at (MEM s) b)"
  by (rule lm.store_load [OF assms(1) TrueI TrueI assms(2-7)])

theorem store_load_roundtrip_witness:
  "\<exists>s1 s2. ST_imm local_memory_if (setParams 0xc2202000) (sample save_program) = Ok 1 s1 \<and>
    LD_imm local_memory_if (setParams 0xc4002000) s1 = Ok 0 s2 \<and> reg s2 2 = 0"
proof -
  have p: "rs1 (setParams 0xc2202000) (sample save_program) = 0" "rs1 (setParams 0xc4002000) (sample save_program) = 0"
    "rd (setParams 0xc2202000) (sample save_program) = 0"
    by (simp_all add: setParams_def rs1_def rd_def reg_sample)
  show ?thesis
    using store_load_roundtrip [OF window_ok_sample, of save_program 0 "setParams 0xc2202000" "setParams 0xc4002000"] p
    by (auto simp: setParams_def SignExtend_def lm_serves_def lm_accessible_def save_program_def)
qed

text \<open>A misaligned store or swap, of any width and on any memory system, traps with
  "memory address not aligned" before the memory is touched.\<close>

theorem misaligned_store_traps:
  assumes "key_ET (PSR s) \<noteq> 0" and "a = rs1 p s + SignExtend (simm13 p) 13"
    and "trapped = enterTrap (PC s) (NPC s) MEM_ADDR_NOT_ALIGNED 0 s"
  shows "(a AND 1 \<noteq> 0 \<longrightarrow> STH_imm cif p s = Annul trapped) \<and>
      (a AND 3 \<noteq> 0 \<longrightarrow> ST_imm cif p s = Annul trapped \<and> SWAP_imm cif p s = Annul trapped) \<and>
      (a AND 7 \<noteq> 0 \<longrightarrow> STD_imm cif p s = Annul trapped) \<and>
      MEM trapped = MEM s \<and> key_S (PSR trapped) = 1"
  using assms(1) unfolding assms(2,3)
  by (simp add: STH_imm_def ST_imm_def SWAP_imm_def STD_imm_def Let_def raise_if_def
      RaiseException_def enterTrap_simps)

theorem misaligned_store_traps_witness:
  "ST_imm local_memory_if (setParams 0xc2202002) (sample save_program) =
    Annul (enterTrap 0x40000000 0x40000004 MEM_ADDR_NOT_ALIGNED 0 (sample save_program))"
proof -
  have "rs1 (setParams 0xc2202002) (sample save_program) = 0"
    by (simp add: setParams_def rs1_def reg_sample)
  then show ?thesis
    using misaligned_store_traps [OF _ refl refl, of "sample save_program" "setParams 0xc2202002" local_memory_if]
    by (simp add: key_ET_def setParams_def SignExtend_def)
qed

section \<open>Privileged instructions\<close>

lemma user_mode_bit:
  assumes "key_S psr = 0"
  shows "psr AND 0x80 = 0"
proof -
  have "\<not> bit psr 7" using assms by (simp add: key_bits split: if_splits)
  then have "psr AND push_bit 7 1 = 0"
    by (intro bit_word_eqI, unfold bit_and_iff bit_push_bit_iff bit_1_iff) (use le_antisym in auto)
  then show ?thesis by simp
qed

text \<open>In user mode every read or write of \<^verbatim>\<open>PSR\<close>, \<^verbatim>\<open>WIM\<close> and \<^verbatim>\<open>TBR\<close> traps as a
  privileged instruction, with nothing changed but the program counters: no
  state register is read into or written from the program's registers.\<close>

theorem privileged_instructions_trap:
  assumes "key_S (PSR s) = 0" "key_ET (PSR s) \<noteq> 0"
    and "f \<in> {READpsr, READwim, READtbr, WRITEwim_imm, WRITEwim_reg, WRITEtbr_imm, WRITEtbr_reg,
      WRITEpsr_imm, WRITEpsr_reg}"
  shows "f p s = Annul (enterTrap (PC s) (NPC s) PRIVILEDGE_INSTR 0 (IncrementPC s))"
  using assms user_mode_bit [OF assms(1)]
  by (elim insertE emptyE)
    (simp_all add: READpsr_def READwim_def READtbr_def WRITEwim_imm_def WRITEwim_reg_def
      WRITEtbr_imm_def WRITEtbr_reg_def WRITEpsr_imm_def WRITEpsr_reg_def Let_def raise_if_def
      RaiseException_def)

theorem privileged_instructions_trap_witness:
  "WRITEpsr_imm (setParams 0x81882000) ((sample ())\<lparr>PSR := 0xf3000020\<rparr>) =
    Annul (enterTrap 0x40000000 0x40000004 PRIVILEDGE_INSTR 0 (IncrementPC ((sample ())\<lparr>PSR := 0xf3000020\<rparr>)))"
  using privileged_instructions_trap [of "(sample ())\<lparr>PSR := 0xf3000020\<rparr>" WRITEpsr_imm "setParams 0x81882000"]
  by (simp add: key_S_def key_ET_def)

section \<open>Interrupts\<close>

text \<open>(C35) An interrupt is taken exactly when traps are enabled and its level is 15 or
  above the processor's interrupt level.  The core then saves the address of
  the instruction it was about to execute, jumps through the vector
  \<^verbatim>\<open>0x10 + level\<close>, acknowledges that level, and has interrupts disabled.\<close>

theorem interrupt_taken:
  assumes "window_ok s" "irq_accepted s" "0 < IRQ s" "IRQ s < 16"
  shows "\<exists>s'. loop_next cif s = Some s' \<and> reg s' 17 = PC s \<and> reg s' 18 = NPC s \<and>
    TBR s' = set_TT (0x10 + IRQ s) (TBR s) \<and> PC s' = TBR s' \<and> NPC s' = TBR s' + 4 \<and>
    irqAck s' = irqAck s @ [IRQ s] \<and> key_S (PSR s') = 1 \<and> \<not> irq_accepted s' \<and> MEM s' = MEM s"
proof -
  let ?e = "38 - IRQ s"
  have "unat (IRQ s) < 16" "unat (IRQ s) \<noteq> 0" using assms(3,4) by (auto simp: word_less_nat_alt unat_eq_0)
  then have "unat (IRQ s) = 1 \<or> unat (IRQ s) = 2 \<or> unat (IRQ s) = 3 \<or> unat (IRQ s) = 4 \<or>
      unat (IRQ s) = 5 \<or> unat (IRQ s) = 6 \<or> unat (IRQ s) = 7 \<or> unat (IRQ s) = 8 \<or>
      unat (IRQ s) = 9 \<or> unat (IRQ s) = 10 \<or> unat (IRQ s) = 11 \<or> unat (IRQ s) = 12 \<or>
      unat (IRQ s) = 13 \<or> unat (IRQ s) = 14 \<or> unat (IRQ s) = 15" by arith
  moreover have "IRQ s = of_nat (unat (IRQ s))" by simp
  ultimately have e: "trap_type ?e 0 = Some (0x10 + IRQ s) \<and> ?e > TRAP_INSTRUCTION \<and>
      ?e < IMPL_DEP_EXC \<and> IMPL_DEP_EXC - ?e = IRQ s \<and> ?e \<noteq> RESET"
    by (elim disjE) (simp_all only: of_nat_1 of_nat_numeral, simp_all add: trap_type_def)
  have et: "key_ET (PSR s) \<noteq> 0" using assms(2) by (simp add: irq_accepted_def)
  have "loop_next cif s = Some (enterTrap (PC s) (NPC s) ?e 0 s)"
    using assms(2) et by (simp add: loop_next_def loop_body_def IRQ_Instruction_def Let_def RaiseException_def)
  moreover have "\<not> irq_accepted (enterTrap (PC s) (NPC s) ?e 0 s)"
    by (simp add: irq_accepted_def enterTrap_simps)
  ultimately show ?thesis
    using e assms(1) by (simp add: enterTrap_simps reg_enterTrap reg_trap_frame)
qed

theorem interrupt_taken_witness:
  "\<exists>s'. loop_next local_memory_if ((sample save_program)\<lparr>IRQ := 8\<rparr>) = Some s' \<and>
    PC s' = 0x180 \<and> irqAck s' = [8] \<and> reg s' 17 = 0x40000000"
proof -
  have "window_ok ((sample save_program)\<lparr>IRQ := 8\<rparr>)" by (intro window_ok_frame window_ok_sample)
  then show ?thesis
    using interrupt_taken [of "(sample save_program)\<lparr>IRQ := 8\<rparr>" local_memory_if]
    by (auto simp: irq_accepted_def key_ET_def key_PIL_def set_TT_def)
qed

section \<open>Branches\<close>

text \<open>A taken conditional branch executes the instruction in its delay slot and
  then continues at the target, whatever its annul bit; an untaken one falls
  through, skipping the delay slot exactly when the annul bit is set; and no
  branch touches a register, the memory or the condition codes.\<close>

theorem branch_delay_slot:
  assumes "cond p \<noteq> 0" "cond p \<noteq> 8" "annul_bit p \<in> {0, 1}"
  shows "BRANCH p s = Ok 2 (s\<lparr>
    PC := (if \<not> icc_cond (cond p) (PSR s) \<and> annul_bit p = 1 then NPC s + 4 else NPC s),
    NPC := (if icc_cond (cond p) (PSR s) then PC s + 4 * SignExtend (disp22 p) 22
            else if annul_bit p = 1 then NPC s + 8 else NPC s + 4)\<rparr>)"
  using assms by (auto simp: BRANCH_def Let_def)

theorem branch_delay_slot_witness:
  "BRANCH (setParams 0x32800010) (sample ()) =
    Ok 2 ((sample ())\<lparr>PC := 0x40000004, NPC := 0x40000040\<rparr>)"
  using branch_delay_slot [of "setParams 0x32800010" "sample ()"]
  by (simp add: setParams_def icc_cond_def key_ICC_z_def SignExtend_def Let_def)

section \<open>Reset\<close>

text \<open>\<^verbatim>\<open>resetOp\<close> clears \<^verbatim>\<open>PSR\<close>, and with it the window number, but leaves the alias
  table as it is: the registers a program sees after a reset are those of window
  0 exactly when the core was in window 0 before.\<close>

theorem reset_keeps_stale_aliases:
  assumes "window_ok s"
  shows "window_ok (resetOp entry_point mproc_id s) = (key_CWP (PSR s) = 0)"
proof
  let ?r = "resetOp entry_point mproc_id s"
  have regs: "REGS ?r = REGS s" and cwp: "key_CWP (PSR ?r) = 0"
    by (simp_all add: resetOp_def key_CWP_def)
  show "window_ok ?r" if "key_CWP (PSR s) = 0"
    using assms that regs cwp by (simp add: window_ok_def)
  show "key_CWP (PSR s) = 0" if "window_ok ?r"
  proof -
    have "win_index (key_CWP (PSR s)) 8 = win_index 0 8"
      using window_okD(2) [OF assms, of 8] window_okD(2) [OF that, of 8] regs cwp
      by (simp add: reg_of_def)
    then show ?thesis
      using window_okD(1) [OF assms] word_less_8_cases [OF window_okD(1) [OF assms]]
      by (auto simp: win_index_cases)
  qed
qed

theorem reset_keeps_stale_aliases_witness:
  "\<exists>s. reachable local_memory_if s \<and> \<not> window_ok (resetOp 0 0 s)"
proof -
  obtain s where s: "loop_next local_memory_if (power_on 0 0 save_program) = Some s" "key_CWP (PSR s) = 7"
    using save_program_step by blast
  have r: "reachable local_memory_if s"
    by (rule reachable.step [OF reachable.start machine_step.loop [OF s(1)]])
  then show ?thesis
    using reset_keeps_stale_aliases [OF reachable_window_ok [OF r], of 0 0] s(2) by auto
qed

text \<open>The guard of \<^verbatim>\<open>STA\<close> is \<^verbatim>\<open>supervisor || !notAligned\<close>: an aligned store to an
  alternate space executed in user mode has already changed the memory when
  the privileged-instruction trap is taken.\<close>

theorem user_alternate_store_reaches_memory:
  assumes "key_S (PSR s) = 0" "key_ET (PSR s) \<noteq> 0"
    and "lm_serves (MEM s) (rs1 p s + rs2 p s)" "(rs1 p s + rs2 p s) AND 3 = 0"
  shows "\<exists>s'. STA_reg local_memory_if p s = Annul s' \<and> key_S (PSR s') = 1 \<and>
    TBR s' = set_TT 0x03 (TBR s) \<and> lm_word_at (MEM s') (rs1 p s + rs2 p s) = rd p s"
proof -
  let ?a = "rs1 p s + rs2 p s"
  obtain m' where m: "if_write_word local_memory_if ?a (rd p s) (asi p) 0 0 (MEM s) = Some (None, m')"
    "lm_word_at m' ?a = rd p s"
    using lm.write_word_law [OF TrueI TrueI assms(3), of "rd p s" "asi p" 0 0] by blast
  then have "STA_reg local_memory_if p s =
      Annul (enterTrap (PC s) (NPC s) PRIVILEDGE_INSTR 0 (s\<lparr>MEM := m'\<rparr>))"
    using assms by (simp add: STA_reg_def Let_def finish_write_def report_exception_def raise_if_def
        RaiseException_def)
  then show ?thesis
    using m(2) by (simp add: enterTrap_simps trap_type_def)
qed

theorem user_alternate_store_reaches_memory_witness:
  "\<exists>s'. STA_reg local_memory_if (setParams 0xc2a00160) ((sample save_program)\<lparr>PSR := 0xf3000020\<rparr>) = Annul s' \<and>
    lm_word_at save_program 0 \<noteq> 0 \<and> lm_word_at (MEM s') 0 = 0"
proof -
  let ?s = "(sample save_program)\<lparr>PSR := 0xf3000020\<rparr>" and ?p = "setParams 0xc2a00160"
  have r: "rs1 ?p ?s = 0" "rs2 ?p ?s = 0" "rd ?p ?s = 0"
    by (simp_all add: setParams_def rs1_def rs2_def rd_def reg_sample)
  have "lm_word_at save_program 0 = 0x81e00000"
    by (simp add: lm_word_at_def load_host_4 save_program_def swapEndianess32_def)
  then show ?thesis
    using user_alternate_store_reaches_memory [of ?s ?p] r
    by (auto simp: key_S_def key_ET_def lm_serves_def lm_accessible_def save_program_def)
qed

section \<open>Writes of the state registers\<close>

text \<open>A supervisor's \<^verbatim>\<open>WRITEtbr\<close> only sets bits of the trap base address: it ORs
  the operand into \<^verbatim>\<open>TBR\<close>, so a base once set can never be cleared; and
  \<^verbatim>\<open>WRITEasr\<close> overwrites \<^verbatim>\<open>Y\<close> as well as the ancillary register it names.\<close>

theorem state_register_writes:
  assumes "key_S (PSR s) \<noteq> 0"
  shows "WRITEtbr_reg p s = Ok 0 ((IncrementPC s)\<lparr>TBR := TBR s OR ((rs1 p s XOR rs2 p s) AND 0xFFFFF000)\<rparr>) \<and>
    TBR s AND (TBR s OR ((rs1 p s XOR rs2 p s) AND 0xFFFFF000)) = TBR s \<and>
    (\<exists>s'. WRITEasr_reg p s = Ok 0 s' \<and> ASR s' (rd_bit p) = rs1 p s XOR rs2 p s \<and> Y s' = rs1 p s XOR rs2 p s)"
  using assms
  by (simp add: WRITEtbr_reg_def WRITEasr_reg_def Let_def raise_if_def rs1_def rs2_def)

theorem state_register_writes_witness:
  "WRITEtbr_reg (setParams 0x81980000) ((sample ())\<lparr>TBR := 0x1000\<rparr>) =
    Ok 0 ((IncrementPC ((sample ())\<lparr>TBR := 0x1000\<rparr>))\<lparr>TBR := 0x1000\<rparr>)"
proof -
  have "rs1 (setParams 0x81980000) ((sample ())\<lparr>TBR := 0x1000\<rparr>) = 0"
    "rs2 (setParams 0x81980000) ((sample ())\<lparr>TBR := 0x1000\<rparr>) = 0"
    by (simp_all add: setParams_def rs1_def rs2_def reg_sample)
  then show ?thesis
    using state_register_writes [of "(sample ())\<lparr>TBR := 0x1000\<rparr>" "setParams 0x81980000"]
    by (simp add: key_S_def)
qed

end
