(* ===== verification/Leon3_Decode_Props.thy ===== *)
theory Leon3_Decode_Props
  imports Leon3_Props
begin

text \<open>
  The decoder against the opcode tables of the SPARC V8 manual, and the
  encodings it gets wrong.
\<close>

section \<open>The opcode tables\<close>

text \<open>The opcode \<^verbatim>\<open>op3\<close> of a format-3 instruction with its register and immediate form.\<close>

definition sparc_arithmetic ::
  "(u32 \<times> (params \<Rightarrow> 'm leon3 \<Rightarrow> (u32, 'm) lres) \<times> (params \<Rightarrow> 'm leon3 \<Rightarrow> (u32, 'm) lres)) list" where
  "sparc_arithmetic = [
     (0x0, ADD_reg, ADD_imm), (0x1, AND_reg, AND_imm), (0x2, OR_reg, OR_imm),
     (0x3, XOR_reg, XOR_imm), (0x4, SUB_reg, SUB_imm), (0x5, ANDN_reg, ANDN_imm),
     (0x6, ORN_reg, ORN_imm), (0x7, XNOR_reg, XNOR_imm), (0x8, ADDX_reg, ADDX_imm),
     (0xa, UMUL_reg, UMUL_imm), (0xb, SMUL_reg, SMUL_imm), (0xc, SUBX_reg, SUBX_imm),
     (0xe, UDIV_reg, UDIV_imm), (0xf, SDIV_reg, SDIV_imm), (0x10, ADDcc_reg, ADDcc_imm),
     (0x11, ANDcc_reg, ANDcc_imm), (0x12, ORcc_reg, ORcc_imm), (0x13, XORcc_reg, XORcc_imm),
     (0x14, SUBcc_reg, SUBcc_imm), (0x15, ANDNcc_reg, ANDNcc_imm), (0x16, ORNcc_reg, ORNcc_imm),
     (0x17, XNORcc_reg, XNORcc_imm), (0x18, ADDXcc_reg, ADDXcc_imm),
     (0x1a, UMULcc_reg, UMULcc_imm), (0x1b, SMULcc_reg, SMULcc_imm),
     (0x1c, SUBXcc_reg, SUBXcc_imm), (0x1e, UDIVcc_reg, UDIVcc_imm),
     (0x1f, SDIVcc_reg, SDIVcc_imm), (0x20, TADDcc_reg, TADDcc_imm),
     (0x21, TSUBcc_reg, TSUBcc_imm), (0x22, TADDccTV_reg, TADDccTV_imm),
     (0x23, TSUBccTV_reg, TSUBccTV_imm), (0x24, MULScc_reg, MULScc_imm), (0x25, SLL_reg, SLL_imm),
     (0x26, SRL_reg, SRL_imm), (0x27, SRA_reg, SRA_imm), (0x38, JUMP_reg, JUMP_imm),
     (0x39, RETT_reg, RETT_imm), (0x3a, TRAP_reg, TRAP_imm), (0x3b, FLUSH_reg, FLUSH_imm),
     (0x3c, SAVE_reg, SAVE_imm), (0x3d, RESTORE_reg, RESTORE_imm), (0x3e, UMAC_reg, UMAC_imm),
     (0x3f, SMAC_reg, SMAC_imm)]"

definition sparc_memory ::
  "'m cpu_if \<Rightarrow> (u32 \<times> (params \<Rightarrow> 'm leon3 \<Rightarrow> (u32, 'm) lres) \<times> (params \<Rightarrow> 'm leon3 \<Rightarrow> (u32, 'm) lres)) list" where
  "sparc_memory cif = [
     (0x0, LD_reg cif, LD_imm cif), (0x1, LDUB_reg cif, LDUB_imm cif),
     (0x2, LDUH_reg cif, LDUH_imm cif), (0x3, LDD_reg cif, LDD_imm cif),
     (0x4, ST_reg cif, ST_imm cif), (0x5, STB_reg cif, STB_imm cif),
     (0x6, STH_reg cif, STH_imm cif), (0x7, STD_reg cif, STD_imm cif),
     (0x9, LDSB_reg cif, LDSB_imm cif), (0xa, LDSH_reg cif, LDSH_imm cif),
     (0xd, LDSTUB_reg cif, LDSTUB_imm cif), (0xf, SWAP_reg cif, SWAP_imm cif)]"

definition sparc_alternate ::
  "'m cpu_if \<Rightarrow> (u32 \<times> (params \<Rightarrow> 'm leon3 \<Rightarrow> (u32, 'm) lres)) list" where
  "sparc_alternate cif = [
     (0x10, LDA_reg cif), (0x11, LDUBA_reg cif), (0x12, LDUHA_reg cif), (0x13, LDDA_reg cif),
     (0x14, STA_reg cif), (0x15, STBA_reg cif), (0x16, STHA_reg cif), (0x17, STDA_reg cif),
     (0x19, LDSBA_reg cif), (0x1a, LDSHA_reg cif), (0x1d, LDSTUBA_reg cif), (0x1f, SWAPA_reg cif)]"

definition op_field :: "u32 \<Rightarrow> u32" where
  "op_field bs = drop_bit 30 bs"

definition op3_field :: "u32 \<Rightarrow> u32" where
  "op3_field bs = drop_bit 19 (bs AND 0x1f80000)"

section \<open>Only op, op3 and the immediate bit matter\<close>

lemma submasks:
  "(0xC1F82000 :: u32) AND 0x1c00000 = 0x1c00000"
  "(0xC1F82000 :: u32) AND 0xc0000000 = 0xc0000000"
  "(0xC1F82000 :: u32) AND 0x380000 = 0x380000"
  "(0xC1F82000 :: u32) AND 0x300000 = 0x300000"
  "(0xC1F82000 :: u32) AND 0x200000 = 0x200000"
  "(0xC1F82000 :: u32) AND 0x100000 = 0x100000"
  "(0xC1F82000 :: u32) AND 0x80000 = 0x80000"
  "(0xC1F82000 :: u32) AND 0x40000000 = 0x40000000"
  "(0xC1F82000 :: u32) AND 0x2000 = 0x2000"
  by simp_all

lemma decode_parts_masked:
  "decode_0 (bs AND 0xC1F82000) = decode_0 bs"
  "decode_800000 (bs AND 0xC1F82000) = decode_800000 bs"
  "decode_1000000 (bs AND 0xC1F82000) = decode_1000000 bs"
  "decode_400000 (bs AND 0xC1F82000) = decode_400000 bs"
  "decode_1c00000 (bs AND 0xC1F82000) = decode_1c00000 bs"
  "decode_c00000 (bs AND 0xC1F82000) = decode_c00000 bs"
  by (simp_all only: decode_defs and.assoc submasks)

lemma decode_masked:
  assumes "bs AND 0x1c00000 \<noteq> 0x1800000" "bs AND 0x1c00000 \<noteq> 0x1400000"
  shows "decode bs = decode (bs AND 0xC1F82000)"
  using assms by (simp only: decode_def and.assoc submasks decode_parts_masked Let_def if_False)

lemma opcode_parts:
  "bs AND 0xC1F82000 = push_bit 30 (op_field bs) OR push_bit 19 (op3_field bs) OR (bs AND 0x2000)"
proof -
  have m: "(0xC1F82000 :: u32) = push_bit 30 (mask 2) OR push_bit 19 (mask 6) OR push_bit 13 (mask 1)"
    "(0x1f80000 :: u32) = push_bit 19 (mask 6)" "(0x2000 :: u32) = push_bit 13 (mask 1)"
    by (simp_all add: mask_eq_exp_minus_1)
  show ?thesis
    unfolding op_field_def op3_field_def m
    by (intro bit_word_eqI, unfold bit_and_iff bit_or_iff bit_push_bit_iff bit_drop_bit_eq bit_mask_iff)
      (auto dest: bit_imp_le_length)
qed

lemma imm_bit_cases: "(bs::u32) AND 0x2000 = 0 \<or> bs AND 0x2000 = 0x2000"
proof -
  have "bs AND push_bit 13 1 = (if bit bs 13 then push_bit 13 1 else 0)"
    by (intro bit_word_eqI, unfold bit_and_iff bit_push_bit_iff bit_1_iff)
      (auto simp: bit_push_bit_iff bit_1_iff simp del: push_bit_of_1 dest: le_antisym)
  then show ?thesis by (auto split: if_splits)
qed

lemma group_bits: "(bs::u32) AND 0x1c00000 = push_bit 19 (op3_field bs) AND 0x1c00000"
proof -
  have m: "(0x1c00000 :: u32) = push_bit 22 (mask 3)" "(0x1f80000 :: u32) = push_bit 19 (mask 6)"
    by (simp_all add: mask_eq_exp_minus_1)
  show ?thesis
    unfolding op3_field_def m
    by (intro bit_word_eqI, unfold bit_and_iff bit_push_bit_iff bit_drop_bit_eq bit_mask_iff) auto
qed

lemma decode_format3:
  assumes "op_field bs = op" "op3_field bs = op3"
    and "push_bit 19 op3 AND 0x1c00000 \<noteq> 0x1800000" "push_bit 19 op3 AND 0x1c00000 \<noteq> 0x1400000"
  shows "decode bs = (if bs AND 0x2000 = 0 then decode (push_bit 30 op OR push_bit 19 op3)
    else decode (push_bit 30 op OR push_bit 19 op3 OR 0x2000))"
  using decode_masked [of bs] opcode_parts [of bs] imm_bit_cases [of bs] group_bits [of bs] assms
  by auto

lemma INSTRUCTIONS_nth:
  "INSTRUCTIONS cif ! 0 = LDSB_imm cif"
  "INSTRUCTIONS cif ! 1 = LDSB_reg cif"
  "INSTRUCTIONS cif ! 2 = LDSH_imm cif"
  "INSTRUCTIONS cif ! 3 = LDSH_reg cif"
  "INSTRUCTIONS cif ! 4 = LDUB_imm cif"
  "INSTRUCTIONS cif ! 5 = LDUB_reg cif"
  "INSTRUCTIONS cif ! 6 = LDUH_imm cif"
  "INSTRUCTIONS cif ! 7 = LDUH_reg cif"
  "INSTRUCTIONS cif ! 8 = LD_imm cif"
  "INSTRUCTIONS cif ! 9 = LD_reg cif"
  "INSTRUCTIONS cif ! 10 = LDD_imm cif"
  "INSTRUCTIONS cif ! 11 = LDD_reg cif"
  "INSTRUCTIONS cif ! 12 = LDSBA_reg cif"
  "INSTRUCTIONS cif ! 13 = LDSHA_reg cif"
  "INSTRUCTIONS cif ! 14 = LDUBA_reg cif"
  "INSTRUCTIONS cif ! 15 = LDUHA_reg cif"
  "INSTRUCTIONS cif ! 16 = LDA_reg cif"
  "INSTRUCTIONS cif ! 17 = LDDA_reg cif"
  "INSTRUCTIONS cif ! 18 = STB_imm cif"
  "INSTRUCTIONS cif ! 19 = STB_reg cif"
  "INSTRUCTIONS cif ! 20 = STH_imm cif"
  "INSTRUCTIONS cif ! 21 = STH_reg cif"
  "INSTRUCTIONS cif ! 22 = ST_imm cif"
  "INSTRUCTIONS cif ! 23 = ST_reg cif"
  "INSTRUCTIONS cif ! 24 = STD_imm cif"
  "INSTRUCTIONS cif ! 25 = STD_reg cif"
  "INSTRUCTIONS cif ! 26 = STBA_reg cif"
  "INSTRUCTIONS cif ! 27 = STHA_reg cif"
  "INSTRUCTIONS cif ! 28 = STA_reg cif"
  "INSTRUCTIONS cif ! 29 = STDA_reg cif"
  "INSTRUCTIONS cif ! 30 = LDSTUB_imm cif"
  "INSTRUCTIONS cif ! 31 = LDSTUB_reg cif"
  "INSTRUCTIONS cif ! 32 = LDSTUBA_reg cif"
  "INSTRUCTIONS cif ! 33 = SWAP_imm cif"
  "INSTRUCTIONS cif ! 34 = SWAP_reg cif"
  "INSTRUCTIONS cif ! 35 = SWAPA_reg cif"
  "INSTRUCTIONS cif ! 36 = SETHI"
  "INSTRUCTIONS cif ! 37 = AND_imm"
  "INSTRUCTIONS cif ! 38 = AND_reg"
  "INSTRUCTIONS cif ! 39 = ANDcc_imm"
  "INSTRUCTIONS cif ! 40 = ANDcc_reg"
  "INSTRUCTIONS cif ! 41 = ANDN_imm"
  "INSTRUCTIONS cif ! 42 = ANDN_reg"
  "INSTRUCTIONS cif ! 43 = ANDNcc_imm"
  "INSTRUCTIONS cif ! 44 = ANDNcc_reg"
  "INSTRUCTIONS cif ! 45 = OR_imm"
  "INSTRUCTIONS cif ! 46 = OR_reg"
  "INSTRUCTIONS cif ! 47 = ORcc_imm"
  "INSTRUCTIONS cif ! 48 = ORcc_reg"
  "INSTRUCTIONS cif ! 49 = ORN_imm"
  "INSTRUCTIONS cif ! 50 = ORN_reg"
  "INSTRUCTIONS cif ! 51 = ORNcc_imm"
  "INSTRUCTIONS cif ! 52 = ORNcc_reg"
  "INSTRUCTIONS cif ! 53 = XOR_imm"
  "INSTRUCTIONS cif ! 54 = XOR_reg"
  "INSTRUCTIONS cif ! 55 = XORcc_imm"
  "INSTRUCTIONS cif ! 56 = XORcc_reg"
  "INSTRUCTIONS cif ! 57 = XNOR_imm"
  "INSTRUCTIONS cif ! 58 = XNOR_reg"
  "INSTRUCTIONS cif ! 59 = XNORcc_imm"
  "INSTRUCTIONS cif ! 60 = XNORcc_reg"
  "INSTRUCTIONS cif ! 61 = SLL_imm"
  "INSTRUCTIONS cif ! 62 = SLL_reg"
  "INSTRUCTIONS cif ! 63 = SRL_imm"
  "INSTRUCTIONS cif ! 64 = SRL_reg"
  "INSTRUCTIONS cif ! 65 = SRA_imm"
  "INSTRUCTIONS cif ! 66 = SRA_reg"
  "INSTRUCTIONS cif ! 67 = ADD_imm"
  "INSTRUCTIONS cif ! 68 = ADD_reg"
  "INSTRUCTIONS cif ! 69 = ADDcc_imm"
  "INSTRUCTIONS cif ! 70 = ADDcc_reg"
  "INSTRUCTIONS cif ! 71 = ADDX_imm"
  "INSTRUCTIONS cif ! 72 = ADDX_reg"
  "INSTRUCTIONS cif ! 73 = ADDXcc_imm"
  "INSTRUCTIONS cif ! 74 = ADDXcc_reg"
  "INSTRUCTIONS cif ! 75 = TADDcc_imm"
  "INSTRUCTIONS cif ! 76 = TADDcc_reg"
  "INSTRUCTIONS cif ! 77 = TADDccTV_imm"
  "INSTRUCTIONS cif ! 78 = TADDccTV_reg"
  "INSTRUCTIONS cif ! 79 = SUB_imm"
  "INSTRUCTIONS cif ! 80 = SUB_reg"
  "INSTRUCTIONS cif ! 81 = SUBcc_imm"
  "INSTRUCTIONS cif ! 82 = SUBcc_reg"
  "INSTRUCTIONS cif ! 83 = SUBX_imm"
  "INSTRUCTIONS cif ! 84 = SUBX_reg"
  "INSTRUCTIONS cif ! 85 = SUBXcc_imm"
  "INSTRUCTIONS cif ! 86 = SUBXcc_reg"
  "INSTRUCTIONS cif ! 87 = TSUBcc_imm"
  "INSTRUCTIONS cif ! 88 = TSUBcc_reg"
  "INSTRUCTIONS cif ! 89 = TSUBccTV_imm"
  "INSTRUCTIONS cif ! 90 = TSUBccTV_reg"
  "INSTRUCTIONS cif ! 91 = MULScc_imm"
  "INSTRUCTIONS cif ! 92 = MULScc_reg"
  "INSTRUCTIONS cif ! 93 = UMUL_imm"
  "INSTRUCTIONS cif ! 94 = UMUL_reg"
  "INSTRUCTIONS cif ! 95 = SMUL_imm"
  "INSTRUCTIONS cif ! 96 = SMUL_reg"
  "INSTRUCTIONS cif ! 97 = UMULcc_imm"
  "INSTRUCTIONS cif ! 98 = UMULcc_reg"
  "INSTRUCTIONS cif ! 99 = SMULcc_imm"
  "INSTRUCTIONS cif ! 100 = SMULcc_reg"
  "INSTRUCTIONS cif ! 101 = UMAC_imm"
  "INSTRUCTIONS cif ! 102 = UMAC_reg"
  "INSTRUCTIONS cif ! 103 = SMAC_imm"
  "INSTRUCTIONS cif ! 104 = SMAC_reg"
  "INSTRUCTIONS cif ! 105 = UDIV_imm"
  "INSTRUCTIONS cif ! 106 = UDIV_reg"
  "INSTRUCTIONS cif ! 107 = SDIV_imm"
  "INSTRUCTIONS cif ! 108 = SDIV_reg"
  "INSTRUCTIONS cif ! 109 = UDIVcc_imm"
  "INSTRUCTIONS cif ! 110 = UDIVcc_reg"
  "INSTRUCTIONS cif ! 111 = SDIVcc_imm"
  "INSTRUCTIONS cif ! 112 = SDIVcc_reg"
  "INSTRUCTIONS cif ! 113 = SAVE_imm"
  "INSTRUCTIONS cif ! 114 = SAVE_reg"
  "INSTRUCTIONS cif ! 115 = RESTORE_imm"
  "INSTRUCTIONS cif ! 116 = RESTORE_reg"
  "INSTRUCTIONS cif ! 117 = BRANCH"
  "INSTRUCTIONS cif ! 118 = CALL"
  "INSTRUCTIONS cif ! 119 = JUMP_imm"
  "INSTRUCTIONS cif ! 120 = JUMP_reg"
  "INSTRUCTIONS cif ! 121 = RETT_imm"
  "INSTRUCTIONS cif ! 122 = RETT_reg"
  "INSTRUCTIONS cif ! 123 = TRAP_imm"
  "INSTRUCTIONS cif ! 124 = TRAP_reg"
  "INSTRUCTIONS cif ! 125 = READy"
  "INSTRUCTIONS cif ! 126 = READasr"
  "INSTRUCTIONS cif ! 127 = READpsr"
  "INSTRUCTIONS cif ! 128 = READwim"
  "INSTRUCTIONS cif ! 129 = READtbr"
  "INSTRUCTIONS cif ! 130 = WRITEY_reg"
  "INSTRUCTIONS cif ! 131 = WRITEY_imm"
  "INSTRUCTIONS cif ! 132 = WRITEasr_reg"
  "INSTRUCTIONS cif ! 133 = WRITEasr_imm"
  "INSTRUCTIONS cif ! 134 = WRITEpsr_reg"
  "INSTRUCTIONS cif ! 135 = WRITEpsr_imm"
  "INSTRUCTIONS cif ! 136 = WRITEwim_reg"
  "INSTRUCTIONS cif ! 137 = WRITEwim_imm"
  "INSTRUCTIONS cif ! 138 = WRITEtbr_reg"
  "INSTRUCTIONS cif ! 139 = WRITEtbr_imm"
  "INSTRUCTIONS cif ! 140 = STBAR"
  "INSTRUCTIONS cif ! 141 = UNIMP"
  "INSTRUCTIONS cif ! 142 = FLUSH_reg"
  "INSTRUCTIONS cif ! 143 = FLUSH_imm"
  "INSTRUCTIONS cif ! 144 = InvalidInstr"
  by (simp_all add: INSTRUCTIONS_def)

lemma arithmetic_row:
  assumes "op_field bs = 2" "op3_field bs = k"
    and "push_bit 19 k AND 0x1c00000 \<noteq> 0x1800000" "push_bit 19 k AND 0x1c00000 \<noteq> 0x1400000"
    and "INSTRUCTIONS cif ! decode (push_bit 30 2 OR push_bit 19 k) = r"
    and "INSTRUCTIONS cif ! decode (push_bit 30 2 OR push_bit 19 k OR 0x2000) = im"
  shows "INSTRUCTIONS cif ! decode bs = (if bs AND 0x2000 = 0 then r else im)"
  using decode_format3 [OF assms(1-4)] assms(5,6) by simp

lemma memory_row:
  assumes "op_field bs = 3" "op3_field bs = k"
    and "push_bit 19 k AND 0x1c00000 \<noteq> 0x1800000" "push_bit 19 k AND 0x1c00000 \<noteq> 0x1400000"
    and "INSTRUCTIONS cif ! decode (push_bit 30 3 OR push_bit 19 k) = r"
    and "INSTRUCTIONS cif ! decode (push_bit 30 3 OR push_bit 19 k OR 0x2000) = im"
  shows "INSTRUCTIONS cif ! decode bs = (if bs AND 0x2000 = 0 then r else im)"
  using decode_format3 [OF assms(1-4)] assms(5,6) by simp

lemma memory_row_same:
  assumes "op_field bs = 3" "op3_field bs = k"
    and "push_bit 19 k AND 0x1c00000 \<noteq> 0x1800000" "push_bit 19 k AND 0x1c00000 \<noteq> 0x1400000"
    and "INSTRUCTIONS cif ! decode (push_bit 30 3 OR push_bit 19 k) = r"
    and "INSTRUCTIONS cif ! decode (push_bit 30 3 OR push_bit 19 k OR 0x2000) = r"
  shows "INSTRUCTIONS cif ! decode bs = r"
  using memory_row [OF assms] by simp



section \<open>Calls\<close>

lemma group_cases:
  "(bs::u32) AND 0x1c00000 \<in> {0, 0x400000, 0x800000, 0xc00000, 0x1000000, 0x1400000, 0x1800000, 0x1c00000}"
proof -
  have m: "(0x1c00000 :: u32) = push_bit 22 (mask 3)" by (simp add: mask_eq_exp_minus_1)
  have e: "bs AND 0x1c00000 = push_bit 22 (drop_bit 22 bs AND mask 3)"
    unfolding m by (intro bit_word_eqI, unfold bit_and_iff bit_push_bit_iff bit_drop_bit_eq bit_mask_iff) auto
  have "unat (drop_bit 22 bs AND mask 3) < 2 ^ 3" by (rule unat_and_mask_less) simp
  then have "drop_bit 22 bs AND mask 3 < 8" by (simp add: word_less_nat_alt)
  then have "drop_bit 22 bs AND mask 3 \<in> {0, 1, 2, 3, 4, 5, 6, 7}" by (rule word_less_8_cases)
  then show ?thesis unfolding e by (elim insertE emptyE; simp only:) simp_all
qed

text \<open>Every word whose top two bits are 01 is decoded as a call, whatever its 30
  displacement bits.\<close>

lemma decode_call:
  assumes "op_field bs = 1"
  shows "INSTRUCTIONS cif ! decode bs = CALL"
proof -
  have m: "(0xc0000000 :: u32) = push_bit 30 (mask 2)" by (simp add: mask_eq_exp_minus_1)
  have "bs AND 0xc0000000 = push_bit 30 (op_field bs)"
    unfolding m op_field_def
    by (intro bit_word_eqI, unfold bit_and_iff bit_push_bit_iff bit_drop_bit_eq bit_mask_iff) auto
  then have op: "bs AND 0xc0000000 = 0x40000000" using assms by simp
  have "bs AND 0x40000000 = (bs AND 0xc0000000) AND 0x40000000" by (simp add: and.assoc)
  then have b30: "bs AND 0x40000000 = 0x40000000" using op by simp
  have "decode bs = 118"
    using group_cases [of bs]
    by (elim insertE emptyE)
      (simp_all add: decode_def decode_0_def decode_800000_def decode_1000000_def decode_400000_def
        decode_1c00000_def decode_c00000_def decode_1800000_def decode_1400000_def op b30)
  then show ?thesis by (simp add: INSTRUCTIONS_nth)
qed

section \<open>Departures from the manual\<close>

text \<open>The case 0x1800000 of the decoder tests neither \<^verbatim>\<open>op\<close> nor the low bits of
  \<^verbatim>\<open>op3\<close>: every floating-point branch (\<^verbatim>\<open>op = 0\<close>, \<^verbatim>\<open>op2 = 6\<close>) and every
  floating-point operation (\<^verbatim>\<open>op = 2\<close>, \<^verbatim>\<open>op3 = 0x34 .. 0x37\<close>) is executed as a
  write of one of the state registers instead of trapping as FP-disabled.\<close>

theorem floating_point_decoded_as_state_write:
  assumes "bs AND 0xc1c00000 = 0x01800000 \<or> bs AND 0xc1e00000 = 0x81a00000"
  shows "INSTRUCTIONS cif ! decode bs \<in> {WRITEY_reg, WRITEY_imm, WRITEasr_reg, WRITEasr_imm,
    WRITEpsr_reg, WRITEpsr_imm, WRITEwim_reg, WRITEwim_imm, WRITEtbr_reg, WRITEtbr_imm}"
proof -
  have "bs AND 0x1c00000 = (bs AND 0xc1c00000) AND 0x1c00000"
    "bs AND 0x1c00000 = (bs AND 0xc1e00000) AND 0x1c00000"
    "bs AND 0x40000000 = (bs AND 0xc1c00000) AND 0x40000000"
    "bs AND 0x40000000 = (bs AND 0xc1e00000) AND 0x40000000"
    by (simp_all add: and.assoc)
  then have g: "bs AND 0x1c00000 = 0x1800000" "bs AND 0x40000000 = 0"
    using assms by auto
  have "(0x180000 :: u32) = push_bit 19 (mask 2)" by (simp add: mask_eq_exp_minus_1)
  have four: "bs AND 0x180000 \<in> {0, 0x80000, 0x100000, 0x180000}"
  proof -
    have m: "(0x180000 :: u32) = push_bit 19 (mask 2)" by (simp add: mask_eq_exp_minus_1)
    have e: "bs AND 0x180000 = push_bit 19 (drop_bit 19 bs AND mask 2)"
      unfolding m by (intro bit_word_eqI, unfold bit_and_iff bit_push_bit_iff bit_drop_bit_eq bit_mask_iff) auto
    have "unat (drop_bit 19 bs AND mask 2) < 2 ^ 2" by (rule unat_and_mask_less) simp
    then have "unat (drop_bit 19 bs AND mask 2) = 0 \<or> unat (drop_bit 19 bs AND mask 2) = 1 \<or>
        unat (drop_bit 19 bs AND mask 2) = 2 \<or> unat (drop_bit 19 bs AND mask 2) = 3" by simp arith
    then have "drop_bit 19 bs AND mask 2 = 0 \<or> drop_bit 19 bs AND mask 2 = 1 \<or>
        drop_bit 19 bs AND mask 2 = 2 \<or> drop_bit 19 bs AND mask 2 = 3"
      by (simp add: word_unat_eq_iff)
    then show ?thesis unfolding e by (elim disjE; simp only:) simp_all
  qed
  then have "decode bs \<in> {130, 131, 132, 133, 134, 135, 136, 137, 138, 139}"
    by (elim insertE emptyE) (simp_all add: decode_def decode_1800000_def g)
  then show ?thesis
    by (elim insertE emptyE) (simp_all add: INSTRUCTIONS_nth)
qed

theorem floating_point_decoded_as_state_write_witness:
  "INSTRUCTIONS local_memory_if ! decode 0x13880010 \<in> {WRITEY_reg, WRITEY_imm, WRITEasr_reg, WRITEasr_imm,
    WRITEpsr_reg, WRITEpsr_imm, WRITEwim_reg, WRITEwim_imm, WRITEtbr_reg, WRITEtbr_imm}"
  by (rule floating_point_decoded_as_state_write) simp

end
