(* ===== verification/Sr_Register.thy ===== *)
theory Sr_Register
  imports Prelude
begin

text \<open>
  The memory-mapped register bank every peripheral of the repository is built
  on (src/core/sr_register/sr_register.h) and the signal selector through which
  interrupt lines and per-processor wires are driven
  (src/core/sr_signal/sr_signal_selector.h).

  A bank maps offsets to registers; a register holds its value and the mask of
  the bits the bus may write.  The callbacks of a peripheral are part of that
  peripheral's model: its bus operations are these primitives with its handlers
  around them.
\<close>

section \<open>Registers\<close>

record sr_reg =
  sr_value :: u32
  sr_mask :: u32

type_synonym sr_bank = "u32 \<Rightarrow> sr_reg option"

definition create_register :: "u32 \<Rightarrow> u32 \<Rightarrow> u32 \<Rightarrow> sr_bank \<Rightarrow> sr_bank" where
  "create_register addr init_val write_mask r =
     (case r addr of
        None \<Rightarrow> r(addr \<mapsto> \<lparr>sr_value = init_val, sr_mask = write_mask\<rparr>)
      | Some _ \<Rightarrow> r)"

text \<open>\<^verbatim>\<open>r[offset]\<close> read as a number and assigned; an unknown offset raises
  \<^verbatim>\<open>std::out_of_range\<close>, which the peripherals exclude by construction
  (the clients prove that the offsets they name exist).\<close>

definition sr_get :: "sr_bank \<Rightarrow> u32 \<Rightarrow> u32" where
  "sr_get r offset = (case r offset of Some g \<Rightarrow> sr_value g | None \<Rightarrow> 0)"

definition sr_set :: "u32 \<Rightarrow> u32 \<Rightarrow> sr_bank \<Rightarrow> sr_bank" where
  "sr_set offset v r = (case r offset of Some g \<Rightarrow> r(offset \<mapsto> g\<lparr>sr_value := v\<rparr>) | None \<Rightarrow> r)"

definition sr_bit :: "u32 \<Rightarrow> nat \<Rightarrow> bool" where
  "sr_bit v pos = (v AND push_bit pos 1 \<noteq> 0)"

definition sr_write_bit :: "nat \<Rightarrow> bool \<Rightarrow> u32 \<Rightarrow> u32" where
  "sr_write_bit pos b v = (v AND NOT (push_bit pos 1)) OR push_bit pos (int_of_bool b)"

text \<open>The bus side: a write stores the masked value, an unknown offset reads as 0
  and ignores writes.\<close>

definition sr_bus_write :: "u32 \<Rightarrow> u32 \<Rightarrow> sr_bank \<Rightarrow> sr_bank" where
  "sr_bus_write offset v r =
     (case r offset of Some g \<Rightarrow> r(offset \<mapsto> g\<lparr>sr_value := v AND sr_mask g\<rparr>) | None \<Rightarrow> r)"

definition sr_bus_read :: "sr_bank \<Rightarrow> u32 \<Rightarrow> u32" where
  "sr_bus_read r offset = (case r offset of Some g \<Rightarrow> sr_value g | None \<Rightarrow> 0)"

definition sr_mask_of :: "sr_bank \<Rightarrow> u32 \<Rightarrow> u32" where
  "sr_mask_of r offset = (case r offset of Some g \<Rightarrow> sr_mask g | None \<Rightarrow> 0)"

section \<open>The contract of a register bank\<close>

locale register_bank =
  fixes bread :: "'b \<Rightarrow> u32 \<Rightarrow> u32"
    and bwrite :: "u32 \<Rightarrow> u32 \<Rightarrow> 'b \<Rightarrow> 'b"
    and bmask :: "'b \<Rightarrow> u32 \<Rightarrow> u32"
  assumes read_write: "bread (bwrite a v r) a = v AND bmask r a"
    and read_write_other: "a \<noteq> b \<Longrightarrow> bread (bwrite a v r) b = bread r b"
    and mask_write: "bmask (bwrite a v r) b = bmask r b"
begin

lemma write_write: "bread (bwrite a w (bwrite a v r)) b = bread (bwrite a w r) b"
  by (cases "a = b") (simp_all add: read_write read_write_other mask_write)

lemma write_commute:
  "a \<noteq> b \<Longrightarrow> bread (bwrite a v (bwrite b w r)) c = bread (bwrite b w (bwrite a v r)) c"
  by (cases "a = c"; cases "b = c") (simp_all add: read_write read_write_other mask_write)

lemma protected_bits: "bread (bwrite a v r) a AND NOT (bmask r a) = 0"
  by (simp add: read_write and.assoc)

text \<open>A sequence of bus writes: the last write to an offset decides.\<close>

lemma writes_other:
  "a \<notin> fst ` set ws \<Longrightarrow> bread (foldl (\<lambda>r (o', v). bwrite o' v r) r ws) a = bread r a"
  by (induction ws arbitrary: r) (auto simp: read_write_other split: prod.splits)

lemma mask_writes: "bmask (foldl (\<lambda>r (o', v). bwrite o' v r) r ws) a = bmask r a"
  by (induction ws arbitrary: r) (auto simp: mask_write split: prod.splits)

lemma last_write_wins:
  assumes "a \<notin> fst ` set after"
  shows "bread (foldl (\<lambda>r (o', v). bwrite o' v r) r (before @ (a, v) # after)) a = v AND bmask r a"
  using assms by (simp add: writes_other read_write mask_writes)

end

interpretation sr: register_bank sr_bus_read sr_bus_write sr_mask_of
  by unfold_locales
    (auto simp: sr_bus_read_def sr_bus_write_def sr_mask_of_def split: option.splits)

section \<open>Laws of the internal accesses\<close>

lemma sr_get_set: "sr_get (sr_set a v r) b = (if a = b \<and> r a \<noteq> None then v else sr_get r b)"
  by (auto simp: sr_get_def sr_set_def split: option.splits)

lemma sr_set_dom [simp]: "(sr_set a v r b = None) = (r b = None)"
  by (auto simp: sr_set_def split: option.splits)

lemma sr_set_not_None [simp]: "(\<exists>g. sr_set a v r b = Some g) = (\<exists>g. r b = Some g)"
  by (auto simp: sr_set_def split: option.splits)

lemma sr_mask_of_set [simp]: "sr_mask_of (sr_set a v r) b = sr_mask_of r b"
  by (auto simp: sr_mask_of_def sr_set_def split: option.splits)

lemma sr_bus_write_dom [simp]: "(sr_bus_write a v r b = None) = (r b = None)"
  by (auto simp: sr_bus_write_def split: option.splits)

lemma sr_get_bus_write: "sr_get (sr_bus_write a v r) b =
    (if a = b \<and> r a \<noteq> None then v AND sr_mask_of r a else sr_get r b)"
  by (auto simp: sr_get_def sr_bus_write_def sr_mask_of_def split: option.splits)

lemma sr_bus_read_get: "sr_bus_read r a = sr_get r a"
  by (simp add: sr_bus_read_def sr_get_def)

lemma sr_bit_iff: "n < 32 \<Longrightarrow> sr_bit v n = bit v n"
proof -
  assume n: "n < 32"
  have "v AND push_bit n 1 = (if bit v n then push_bit n 1 else 0)"
    by (intro bit_word_eqI, unfold bit_and_iff bit_push_bit_iff bit_1_iff)
      (auto simp: bit_push_bit_iff bit_1_iff simp del: push_bit_of_1 dest: le_antisym)
  moreover have "push_bit n 1 \<noteq> (0 :: u32)"
  proof
    assume "push_bit n 1 = (0 :: u32)"
    then have "bit (push_bit n 1 :: u32) n = bit (0 :: u32) n" by (rule arg_cong)
    then show False using n by (simp add: bit_push_bit_iff bit_1_iff del: push_bit_of_1)
  qed
  ultimately show ?thesis by (simp add: sr_bit_def del: push_bit_of_1)
qed

lemma bit_sr_write_bit: "n < 32 \<Longrightarrow> bit (sr_write_bit n b v) k = (if k = n then b else bit v k)"
  unfolding sr_write_bit_def
  by (cases "k < 32"; unfold bit_or_iff bit_and_iff bit_not_iff bit_push_bit_iff)
    (auto simp: bit_1_iff dest: bit_imp_le_length)

section \<open>The signal selector\<close>

text \<open>Driving the channels of a selector: every connected channel \<^verbatim>\<open>ch\<close> whose bit is
  set in \<^verbatim>\<open>msk\<close> takes the value.  The channels are the processors
  \<^verbatim>\<open>0 .. n - 1\<close>.\<close>

definition selector_write :: "nat \<Rightarrow> u32 \<Rightarrow> 'v \<Rightarrow> (nat \<Rightarrow> 'v) \<Rightarrow> nat \<Rightarrow> 'v" where
  "selector_write n msk v out = (\<lambda>ch. if ch < n \<and> msk AND push_bit ch 1 \<noteq> 0 then v else out ch)"

end
