(* ===== verification/Irqmp.thy ===== *)
theory Irqmp
  imports Sr_Register
begin

text \<open>
  The multiprocessor interrupt controller (src/gaisler/irqmp/irqmp.cpp,
  irqmp.h): its register bank, the processes that take interrupt lines in, the
  process that arbitrates and drives the processors, the acknowledge port and
  the bus callbacks.

  The state holds the construction parameters \<^verbatim>\<open>g_ncpu\<close> and \<^verbatim>\<open>g_eirq\<close>, the
  registers, the shadow \<^verbatim>\<open>forcereg\<close>, what is driven on \<^verbatim>\<open>irq_req\<close>, the writes to
  \<^verbatim>\<open>cpu_rst\<close> (latest last), the input \<^verbatim>\<open>cpu_stat\<close>, the performance counters and
  the pending notification of \<^verbatim>\<open>e_signal\<close> (cycles from now).  Notifying a pending
  event keeps the earlier of both times, as SystemC does.
\<close>

section \<open>State\<close>

record irqmp =
  g_ncpu :: nat
  g_eirq :: nat
  ip_regs :: sr_bank
  forcereg :: "nat \<Rightarrow> u32"
  irq_req :: "nat \<Rightarrow> u32 \<times> bool"
  cpu_rst :: "(u32 \<times> bool) list"
  cpu_stat :: "nat \<Rightarrow> bool"
  m_irq_counter :: "nat \<Rightarrow> u64"
  m_cpu_counter :: "nat \<Rightarrow> u64"
  e_signal :: "nat option"

definition IR_LEVEL :: u32 where "IR_LEVEL = 0x00"
definition IR_PENDING :: u32 where "IR_PENDING = 0x04"
definition IR_FORCE :: u32 where "IR_FORCE = 0x08"
definition IR_CLEAR :: u32 where "IR_CLEAR = 0x0C"
definition MP_STAT :: u32 where "MP_STAT = 0x10"
definition BROADCAST :: u32 where "BROADCAST = 0x14"

definition PROC_IR_MASK :: "nat \<Rightarrow> u32" where
  "PROC_IR_MASK CPU_INDEX = 0x40 + 0x4 * of_nat CPU_INDEX"

definition PROC_IR_FORCE :: "nat \<Rightarrow> u32" where
  "PROC_IR_FORCE CPU_INDEX = 0x80 + 0x4 * of_nat CPU_INDEX"

definition PROC_EXTIR_ID :: "nat \<Rightarrow> u32" where
  "PROC_EXTIR_ID CPU_INDEX = 0xC0 + 0x4 * of_nat CPU_INDEX"

definition IR_PENDING_EIP :: u32 where "IR_PENDING_EIP = 0xFFFF0000"
definition IR_PENDING_IP :: u32 where "IR_PENDING_IP = 0x0000FFFE"
definition IR_FORCE_IF :: u32 where "IR_FORCE_IF = 0x0000FFFE"
definition PROC_IR_FORCE_IF :: u32 where "PROC_IR_FORCE_IF = 0x0000FFFE"
definition PROC_IR_FORCE_IFC :: u32 where "PROC_IR_FORCE_IFC = 0xFFFE0000"

section \<open>Construction and reset\<close>

definition init_cpu_registers :: "nat \<Rightarrow> sr_bank \<Rightarrow> sr_bank" where
  "init_cpu_registers i r =
     create_register (PROC_EXTIR_ID i) 0 0x1F
       (create_register (PROC_IR_FORCE i) 0 (PROC_IR_FORCE_IFC OR PROC_IR_FORCE_IF)
         (create_register (PROC_IR_MASK i) 0xFFFFFFFE 0xFFFFFFFE r))"

definition init_registers :: "nat \<Rightarrow> sr_bank" where
  "init_registers ncpu =
     fold init_cpu_registers [0..<ncpu]
       (create_register 0x28 0 0
         (create_register 0x24 0 0
           (create_register 0x20 0 0
             (create_register BROADCAST 0 0xFFFE
               (create_register MP_STAT 0 0xFFFF
                 (create_register IR_CLEAR 0 0xFFFFFFFE
                   (create_register IR_FORCE 0 IR_FORCE_IF
                     (create_register IR_PENDING 0 (IR_PENDING_EIP OR IR_PENDING_IP)
                       (create_register IR_LEVEL 0 0xFFFE Map.empty)))))))))"

definition irqmp_init :: "nat \<Rightarrow> nat \<Rightarrow> irqmp" where
  "irqmp_init ncpu eirq = \<lparr>
     g_ncpu = ncpu, g_eirq = eirq, ip_regs = init_registers ncpu, forcereg = (\<lambda>_. 0),
     irq_req = (\<lambda>_. (0, False)), cpu_rst = [], cpu_stat = (\<lambda>_. False),
     m_irq_counter = (\<lambda>_. 0), m_cpu_counter = (\<lambda>_. 0), e_signal = None\<rparr>"

definition rget :: "irqmp \<Rightarrow> u32 \<Rightarrow> u32" where
  "rget s a = sr_get (ip_regs s) a"

definition rset :: "u32 \<Rightarrow> u32 \<Rightarrow> irqmp \<Rightarrow> irqmp" where
  "rset a v s = s\<lparr>ip_regs := sr_set a v (ip_regs s)\<rparr>"

definition rset_bit :: "u32 \<Rightarrow> nat \<Rightarrow> bool \<Rightarrow> irqmp \<Rightarrow> irqmp" where
  "rset_bit a pos b s = rset a (sr_write_bit pos b (rget s a)) s"

definition notify :: "nat \<Rightarrow> irqmp \<Rightarrow> irqmp" where
  "notify d s = s\<lparr>e_signal := (case e_signal s of None \<Rightarrow> Some d | Some d' \<Rightarrow> Some (min d d'))\<rparr>"

definition irq_req_write :: "u32 \<Rightarrow> u32 \<times> bool \<Rightarrow> irqmp \<Rightarrow> irqmp" where
  "irq_req_write m v s = s\<lparr>irq_req := selector_write (g_ncpu s) m v (irq_req s)\<rparr>"

definition reset_cpu :: "nat \<Rightarrow> irqmp \<Rightarrow> irqmp" where
  "reset_cpu cpu s =
     (rset (PROC_EXTIR_ID cpu) 0
       (rset (PROC_IR_FORCE cpu) 0
         (rset (PROC_IR_MASK cpu) 0xFFFFFFFE s)))\<lparr>forcereg := (forcereg s)(cpu := 0)\<rparr>"

definition reset_fixed :: "irqmp \<Rightarrow> irqmp" where
  "reset_fixed s0 =
     (let s = rset IR_PENDING 0 (rset IR_LEVEL 0 s0);
          s = (if g_ncpu s = 0 then rset IR_FORCE 0 s else s);
          s = rset IR_CLEAR 0 s;
          s = rset MP_STAT (0xFFFE OR push_bit 28 (of_nat (g_ncpu s)) OR push_bit 16 (of_nat (g_eirq s))) s
      in rset BROADCAST 0 s)"

definition dorst :: "irqmp \<Rightarrow> irqmp" where
  "dorst s0 =
     (let s = fold reset_cpu [0..<g_ncpu s0] (reset_fixed s0)
      in s\<lparr>cpu_rst := cpu_rst s @ [(1, True)]\<rparr>)"

section \<open>Incoming interrupts\<close>

definition broadcast_cpu :: "nat \<Rightarrow> nat \<Rightarrow> irqmp \<Rightarrow> irqmp" where
  "broadcast_cpu line cpu s0 =
     (let s = rset_bit (PROC_IR_FORCE cpu) line True s0
      in s\<lparr>forcereg := (forcereg s)(cpu := forcereg s cpu OR push_bit line 1)\<rparr>)"

definition incomming_line :: "u32 \<Rightarrow> nat \<Rightarrow> irqmp \<Rightarrow> irqmp" where
  "incomming_line lines line s0 =
     (if push_bit line 1 AND lines \<noteq> 0 then
        (let s = s0\<lparr>m_irq_counter := (m_irq_counter s0)(line := m_irq_counter s0 line + 1)\<rparr>;
             s = (if \<not> sr_bit (rget s BROADCAST) (line + 1) then rset_bit IR_PENDING line True s else s)
         in if sr_bit (rget s BROADCAST) (line + 1) \<and> line < 16
            then fold (broadcast_cpu line) [0..<g_ncpu s] s else s)
      else s0)"

definition incomming_irq :: "u32 \<times> bool \<Rightarrow> irqmp \<Rightarrow> irqmp" where
  "incomming_irq irq s =
     (if \<not> snd irq then s
      else notify 2 (fold (incomming_line (fst irq)) [0..<32] s))"

section \<open>Arbitration\<close>

primrec scan_down :: "u32 \<Rightarrow> nat \<Rightarrow> nat" where
  "scan_down masked 0 = 0"
| "scan_down masked (Suc n) =
     (if masked AND push_bit (Suc n) 1 \<noteq> 0 then Suc n else scan_down masked n)"

definition pending_for :: "irqmp \<Rightarrow> nat \<Rightarrow> u32" where
  "pending_for s cpu = (rget s IR_PENDING OR rget s IR_FORCE) AND rget s (PROC_IR_MASK cpu)"

definition eirq_enabled :: "irqmp \<Rightarrow> nat \<Rightarrow> bool" where
  "eirq_enabled s cpu = (g_eirq s \<noteq> 0 \<and>
     (pending_for s cpu OR (rget s (PROC_IR_FORCE cpu) AND IR_FORCE_IF)) AND IR_PENDING_EIP \<noteq> 0)"

definition all_for :: "irqmp \<Rightarrow> nat \<Rightarrow> u32" where
  "all_for s cpu = pending_for s cpu OR push_bit (g_eirq s) (int_of_bool (eirq_enabled s cpu)) OR
     (rget s (PROC_IR_FORCE cpu) AND IR_FORCE_IF)"

definition select_irq :: "u32 \<Rightarrow> u32 \<Rightarrow> nat" where
  "select_irq level all =
     (let high = scan_down ((all AND level) AND IR_PENDING_IP) 15
      in if high = 0 then scan_down ((all AND NOT level) AND IR_PENDING_IP) 15 else high)"

definition launch_cpu :: "nat \<Rightarrow> irqmp \<Rightarrow> irqmp" where
  "launch_cpu cpu s0 =
     (let high = select_irq (rget s0 IR_LEVEL) (all_for s0 cpu);
          s = (if g_eirq s0 \<noteq> 0 then rset_bit IR_PENDING (g_eirq s0) (eirq_enabled s0 cpu) s0 else s0);
          value = (0xF AND of_nat high, True)
      in if high \<noteq> 0 then
           (if value \<noteq> irq_req s cpu then
              (irq_req_write (push_bit cpu 1) value s)
                \<lparr>m_cpu_counter := (m_cpu_counter s)(cpu := m_cpu_counter s cpu + 1)\<rparr>
            else s)
         else if fst (irq_req s cpu) \<noteq> 0 then irq_req_write (push_bit cpu 1) (0, False) s
         else s)"

definition launch_irq :: "irqmp \<Rightarrow> irqmp" where
  "launch_irq s = fold launch_cpu (rev [0..<g_ncpu s]) (s\<lparr>e_signal := None\<rparr>)"

section \<open>Bus callbacks and acknowledge\<close>

definition clear_cpu :: "nat \<Rightarrow> irqmp \<times> bool \<Rightarrow> irqmp \<times> bool" where
  "clear_cpu cpu sx =
     (let (s, extirq) = sx
      in if g_eirq s \<noteq> 0 \<and> rget s (PROC_EXTIR_ID cpu) \<noteq> 0
         then (rset (PROC_EXTIR_ID cpu) 0
                 (rset IR_PENDING (rget s IR_PENDING AND
                    NOT (push_bit (unat (rget s (PROC_EXTIR_ID cpu))) 1)) s), True)
         else (s, extirq))"

definition deassert_lines :: "u32 \<Rightarrow> irqmp \<Rightarrow> irqmp" where
  "deassert_lines lines s =
     fold (\<lambda>i s. if push_bit i 1 AND lines \<noteq> 0 then irq_req_write (NOT 0) (of_nat i, False) s else s)
       (rev [1..<16]) s"

definition clear_write :: "irqmp \<Rightarrow> irqmp" where
  "clear_write s0 =
     (let (s, extirq) = fold clear_cpu [0..<g_ncpu s0] (s0, False);
          extirq = fold (\<lambda>i e. if push_bit i 1 AND rget s IR_CLEAR \<noteq> 0 then True else e) (rev [16..<32]) extirq;
          s = (if extirq then irq_req_write (NOT 0) (of_nat (g_eirq s), False) s else s);
          s = deassert_lines (rget s IR_CLEAR) s;
          s = rset IR_PENDING (rget s IR_PENDING AND NOT (rget s IR_CLEAR)) s;
          s = rset IR_FORCE (rget s IR_FORCE AND NOT (rget s IR_CLEAR)) s;
          s = rset IR_CLEAR 0 s
      in notify 2 s)"

definition force_cpu :: "nat \<Rightarrow> irqmp \<Rightarrow> irqmp" where
  "force_cpu cpu s0 =
     (let r = rget s0 (PROC_IR_FORCE cpu);
          s = deassert_lines (drop_bit 16 r) s0;
          f = forcereg s cpu OR r;
          f = f AND (NOT (drop_bit 16 f) AND PROC_IR_FORCE_IF);
          s = rset (PROC_IR_FORCE cpu) f (s\<lparr>forcereg := (forcereg s)(cpu := f)\<rparr>)
      in if g_eirq s \<noteq> 0 \<and> rget s (PROC_EXTIR_ID cpu) \<noteq> 0
         then rset IR_PENDING (rget s IR_PENDING AND
                NOT (push_bit (unat (rget s (PROC_EXTIR_ID cpu))) 1)) s
         else s)"

definition force_write :: "irqmp \<Rightarrow> irqmp" where
  "force_write s = notify 2 (fold force_cpu [0..<g_ncpu s] s)"

text \<open>An acknowledge that names a processor without registers raises
  \<^verbatim>\<open>std::out_of_range\<close> (or indexes \<^verbatim>\<open>forcereg\<close> outside its bounds first): \<^verbatim>\<open>None\<close> here.\<close>

definition acknowledged_irq :: "nat \<Rightarrow> nat \<Rightarrow> irqmp \<Rightarrow> irqmp option" where
  "acknowledged_irq irq cpu s0 =
     (if \<not> cpu < g_ncpu s0 then None
      else
        let s = (if g_eirq s0 \<noteq> 0 \<and> rget s0 (PROC_EXTIR_ID cpu) \<noteq> 0
                 then rset IR_PENDING (rget s0 IR_PENDING AND
                        NOT (push_bit (unat (rget s0 (PROC_EXTIR_ID cpu))) 1)) s0
                 else s0);
            s = rset_bit (PROC_IR_FORCE cpu) irq False s;
            s = s\<lparr>forcereg := (forcereg s)(cpu := forcereg s cpu AND (NOT (push_bit irq 1) AND 0xFFFE))\<rparr>;
            s = irq_req_write (NOT 0) (of_nat irq, False) s;
            s = rset_bit IR_PENDING irq False s;
            s = rset_bit IR_FORCE irq False s;
            s = rset (PROC_EXTIR_ID cpu) 0 s
        in Some (notify 2 s))"

definition start_cpu :: "u32 \<Rightarrow> nat \<Rightarrow> irqmp \<Rightarrow> irqmp" where
  "start_cpu stat i s =
     (if stat AND push_bit i 1 \<noteq> 0 \<and> \<not> cpu_stat s i
      then s\<lparr>cpu_rst := cpu_rst s @ [(push_bit i 1, True)]\<rparr> else s)"

definition mpstat_write :: "irqmp \<Rightarrow> irqmp" where
  "mpstat_write s = fold (start_cpu (rget s MP_STAT AND 0xFFFF)) [0..<g_ncpu s] s"

definition mpstat_read :: "irqmp \<Rightarrow> irqmp" where
  "mpstat_read s =
     (let reg0 = push_bit 28 (of_nat (g_ncpu s)) OR push_bit 16 (of_nat (g_eirq s));
          reg = fold (\<lambda>i reg. reg OR push_bit i (int_of_bool (\<not> cpu_stat s i))) [0..<g_ncpu s] reg0
      in rset MP_STAT reg s)"

definition pending_write :: "irqmp \<Rightarrow> irqmp" where
  "pending_write s = notify 1 s"

text \<open>The bus side: the bank's access with the callbacks that \<^const>\<open>init_registers\<close>'s code
  registers.\<close>

definition post_write :: "u32 \<Rightarrow> irqmp \<Rightarrow> irqmp" where
  "post_write offset s =
     (if offset = IR_PENDING \<or> offset = IR_FORCE then pending_write s
      else if offset = IR_CLEAR then clear_write s
      else if offset = MP_STAT then mpstat_write s
      else if offset \<in> set (map PROC_IR_MASK [0..<g_ncpu s]) then pending_write s
      else if offset \<in> set (map PROC_IR_FORCE [0..<g_ncpu s]) then force_write s
      else s)"

definition irqmp_bus_write :: "u32 \<Rightarrow> u32 \<Rightarrow> irqmp \<Rightarrow> irqmp" where
  "irqmp_bus_write offset v s =
     (if ip_regs s offset = None then s
      else post_write offset (s\<lparr>ip_regs := sr_bus_write offset v (ip_regs s)\<rparr>))"

definition irqmp_bus_read :: "u32 \<Rightarrow> irqmp \<Rightarrow> u32 \<times> irqmp" where
  "irqmp_bus_read offset s =
     (if ip_regs s offset = None then (0, s)
      else let s' = (if offset = MP_STAT then mpstat_read s else s)
           in (sr_bus_read (ip_regs s') offset, s'))"

section \<open>Events\<close>

text \<open>What can happen to the controller: reset, a change of the interrupt lines, the
  arbitration process waking up (only when its event has been notified), an
  acknowledge, bus accesses, and a change of a processor's status wire.  An event
  that cannot happen, or that ends in an exception, is \<^verbatim>\<open>None\<close>.\<close>

datatype irqmp_event =
    Reset
  | Lines u32 bool
  | Arbitrate
  | Acknowledge nat nat
  | Bus_write u32 u32
  | Bus_read u32
  | Cpu_status nat bool

fun irqmp_do :: "irqmp_event \<Rightarrow> irqmp \<Rightarrow> irqmp option" where
  "irqmp_do Reset s = Some (dorst s)"
| "irqmp_do (Lines m v) s = Some (incomming_irq (m, v) s)"
| "irqmp_do Arbitrate s = (if e_signal s = None then None else Some (launch_irq s))"
| "irqmp_do (Acknowledge irq cpu) s = acknowledged_irq irq cpu s"
| "irqmp_do (Bus_write a v) s = Some (irqmp_bus_write a v s)"
| "irqmp_do (Bus_read a) s = Some (snd (irqmp_bus_read a s))"
| "irqmp_do (Cpu_status c b) s = Some (s\<lparr>cpu_stat := (cpu_stat s)(c := b)\<rparr>)"

fun irqmp_run :: "irqmp_event list \<Rightarrow> irqmp \<Rightarrow> irqmp option" where
  "irqmp_run [] s = Some s"
| "irqmp_run (e # es) s = (case irqmp_do e s of None \<Rightarrow> None | Some t \<Rightarrow> irqmp_run es t)"

inductive irqmp_step :: "irqmp \<Rightarrow> irqmp \<Rightarrow> bool" where
  event: "irqmp_do e s = Some t \<Longrightarrow> irqmp_step s t"

inductive irqmp_reachable :: "nat \<Rightarrow> nat \<Rightarrow> irqmp \<Rightarrow> bool" for ncpu eirq where
  start: "irqmp_reachable ncpu eirq (irqmp_init ncpu eirq)"
| step: "irqmp_reachable ncpu eirq s \<Longrightarrow> irqmp_step s t \<Longrightarrow> irqmp_reachable ncpu eirq t"

inductive_cases irqmp_stepE: "irqmp_step s t"

end
