(* ===== verification/Irqmp_Props.thy ===== *)
theory Irqmp_Props
  imports Irqmp
begin

text \<open>
  The interrupt controller's lemmas: where its registers lie, what each handler
  leaves unchanged, the agreement of the force registers with their shadow, the
  arbitration rule, and the invariant of all reachable states.
\<close>

section \<open>The register map\<close>

lemma offset_unat:
  assumes "c < 16"
  shows "unat (PROC_IR_MASK c) = 64 + 4 * c"
    and "unat (PROC_IR_FORCE c) = 128 + 4 * c"
    and "unat (PROC_EXTIR_ID c) = 192 + 4 * c"
  using assms
  by (simp_all add: PROC_IR_MASK_def PROC_IR_FORCE_def PROC_EXTIR_ID_def unat_word_ariths unat_of_nat)

lemma fixed_unat:
  "unat IR_LEVEL = 0" "unat IR_PENDING = 4" "unat IR_FORCE = 8" "unat IR_CLEAR = 12"
  "unat MP_STAT = 16" "unat BROADCAST = 20"
  by (simp_all add: IR_LEVEL_def IR_PENDING_def IR_FORCE_def IR_CLEAR_def MP_STAT_def BROADCAST_def)

lemma offsets_fixed [simp]:
  "IR_LEVEL \<noteq> IR_PENDING" "IR_LEVEL \<noteq> IR_FORCE" "IR_LEVEL \<noteq> IR_CLEAR" "IR_LEVEL \<noteq> MP_STAT" "IR_LEVEL \<noteq> BROADCAST"
  "IR_PENDING \<noteq> IR_LEVEL" "IR_PENDING \<noteq> IR_FORCE" "IR_PENDING \<noteq> IR_CLEAR" "IR_PENDING \<noteq> MP_STAT" "IR_PENDING \<noteq> BROADCAST"
  "IR_FORCE \<noteq> IR_LEVEL" "IR_FORCE \<noteq> IR_PENDING" "IR_FORCE \<noteq> IR_CLEAR" "IR_FORCE \<noteq> MP_STAT" "IR_FORCE \<noteq> BROADCAST"
  "IR_CLEAR \<noteq> IR_LEVEL" "IR_CLEAR \<noteq> IR_PENDING" "IR_CLEAR \<noteq> IR_FORCE" "IR_CLEAR \<noteq> MP_STAT" "IR_CLEAR \<noteq> BROADCAST"
  "MP_STAT \<noteq> IR_LEVEL" "MP_STAT \<noteq> IR_PENDING" "MP_STAT \<noteq> IR_FORCE" "MP_STAT \<noteq> IR_CLEAR" "MP_STAT \<noteq> BROADCAST"
  "BROADCAST \<noteq> IR_LEVEL" "BROADCAST \<noteq> IR_PENDING" "BROADCAST \<noteq> IR_FORCE" "BROADCAST \<noteq> IR_CLEAR" "BROADCAST \<noteq> MP_STAT"
  by (simp_all add: word_unat_eq_iff fixed_unat)

definition fixed_offsets :: "u32 set" where
  "fixed_offsets = {IR_LEVEL, IR_PENDING, IR_FORCE, IR_CLEAR, MP_STAT, BROADCAST}"

lemma offsets_cpu_fixed:
  assumes "c < 16" and "a \<in> fixed_offsets"
  shows "PROC_IR_MASK c \<noteq> a" "PROC_IR_FORCE c \<noteq> a" "PROC_EXTIR_ID c \<noteq> a"
    "a \<noteq> PROC_IR_MASK c" "a \<noteq> PROC_IR_FORCE c" "a \<noteq> PROC_EXTIR_ID c"
  using assms by (auto simp: word_unat_eq_iff offset_unat fixed_unat fixed_offsets_def)

lemma fixed_offsets_mem [simp]:
  "IR_LEVEL \<in> fixed_offsets" "IR_PENDING \<in> fixed_offsets" "IR_FORCE \<in> fixed_offsets"
  "IR_CLEAR \<in> fixed_offsets" "MP_STAT \<in> fixed_offsets" "BROADCAST \<in> fixed_offsets"
  by (simp_all add: fixed_offsets_def)

lemma offsets_cpu:
  assumes "c < 16" and "d < 16"
  shows "(PROC_IR_MASK c = PROC_IR_MASK d) = (c = d)"
    "(PROC_IR_FORCE c = PROC_IR_FORCE d) = (c = d)"
    "(PROC_EXTIR_ID c = PROC_EXTIR_ID d) = (c = d)"
    "PROC_IR_MASK c \<noteq> PROC_IR_FORCE d" "PROC_IR_MASK c \<noteq> PROC_EXTIR_ID d"
    "PROC_IR_FORCE c \<noteq> PROC_IR_MASK d" "PROC_IR_FORCE c \<noteq> PROC_EXTIR_ID d"
    "PROC_EXTIR_ID c \<noteq> PROC_IR_MASK d" "PROC_EXTIR_ID c \<noteq> PROC_IR_FORCE d"
  using assms by (auto simp: word_unat_eq_iff offset_unat)

lemmas offsets = offsets_cpu_fixed offsets_cpu

section \<open>Reading back\<close>

definition reg_at :: "irqmp \<Rightarrow> u32 \<Rightarrow> bool" where
  "reg_at s a = (ip_regs s a \<noteq> None)"

lemma rget_rset: "rget (rset a v s) b = (if a = b \<and> reg_at s a then v else rget s b)"
  by (auto simp: rget_def rset_def sr_get_set reg_at_def)

lemma rget_rset_bit: "rget (rset_bit a n v s) b =
    (if a = b \<and> reg_at s a then sr_write_bit n v (rget s a) else rget s b)"
  by (simp add: rset_bit_def rget_rset)

lemma rget_updates [simp]:
  "rget (forcereg_update f s) a = rget s a" "rget (irq_req_update g s) a = rget s a"
  "rget (cpu_rst_update h s) a = rget s a" "rget (m_irq_counter_update i s) a = rget s a"
  "rget (m_cpu_counter_update j s) a = rget s a" "rget (e_signal_update k s) a = rget s a"
  "rget (irq_req_write m v s) a = rget s a" "rget (notify d s) a = rget s a"
  by (simp_all add: rget_def irq_req_write_def notify_def)

lemma forcereg_ops [simp]:
  "forcereg (rset a v s) = forcereg s" "forcereg (rset_bit a n b s) = forcereg s"
  "forcereg (irq_req_write m w s) = forcereg s" "forcereg (notify d s) = forcereg s"
  by (simp_all add: rset_def rset_bit_def irq_req_write_def notify_def)

lemma irq_req_ops [simp]:
  "irq_req (rset a v s) = irq_req s" "irq_req (rset_bit a n b s) = irq_req s" "irq_req (notify d s) = irq_req s"
  by (simp_all add: rset_def rset_bit_def notify_def)

section \<open>What every operation keeps\<close>

text \<open>The construction parameters, the set of registers and their write masks never
  change.\<close>

definition framed :: "irqmp \<Rightarrow> irqmp \<Rightarrow> bool" where
  "framed s s' = (g_ncpu s' = g_ncpu s \<and> g_eirq s' = g_eirq s \<and>
     (\<forall>a. reg_at s' a = reg_at s a \<and> sr_mask_of (ip_regs s') a = sr_mask_of (ip_regs s) a))"

named_theorems framed_intros "an operation keeps the frame"

lemma framed_refl [simp, framed_intros]: "framed s s"
  by (simp add: framed_def)

lemma framed_trans: "framed s s' \<Longrightarrow> framed s' s'' \<Longrightarrow> framed s s''"
  by (simp add: framed_def)

lemma framed_prims [framed_intros]:
  assumes "framed s t"
  shows "framed s (rset a v t)" "framed s (rset_bit a n b t)" "framed s (irq_req_write m w t)"
    "framed s (notify d t)" "framed s (t\<lparr>forcereg := f\<rparr>)" "framed s (t\<lparr>cpu_rst := l\<rparr>)"
    "framed s (t\<lparr>m_irq_counter := g\<rparr>)" "framed s (t\<lparr>m_cpu_counter := h\<rparr>)" "framed s (t\<lparr>e_signal := e\<rparr>)"
    "framed s (t\<lparr>cpu_stat := p\<rparr>)" "framed s (t\<lparr>ip_regs := sr_bus_write a v (ip_regs t)\<rparr>)"
  using assms by (simp_all add: framed_def rset_def rset_bit_def reg_at_def irq_req_write_def
      notify_def sr.mask_write)

lemma framed_fold [framed_intros]:
  assumes "framed s t" and "\<And>x t. framed s t \<Longrightarrow> framed s (f x t)"
  shows "framed s (fold f xs t)"
  using assms(1) by (induction xs arbitrary: t) (auto intro: assms(2))

lemma framed_if [framed_intros]:
  "\<lbrakk>c \<Longrightarrow> framed s t; \<not> c \<Longrightarrow> framed s u\<rbrakk> \<Longrightarrow> framed s (if c then t else u)"
  by simp

lemma framed_parts [framed_intros]:
  assumes "framed s t"
  shows "framed s (reset_cpu cpu t)" "framed s (broadcast_cpu line cpu t)"
    "framed s (launch_cpu cpu t)" "framed s (deassert_lines lines t)"
  unfolding reset_cpu_def broadcast_cpu_def launch_cpu_def deassert_lines_def Let_def
  by (intro framed_intros assms | assumption)+

lemma framed_line [framed_intros]: "framed s t \<Longrightarrow> framed s (incomming_line lines line t)"
  unfolding incomming_line_def Let_def
  by (intro framed_intros | assumption)+

lemma framed_start_cpu [framed_intros]: "framed s t \<Longrightarrow> framed s (start_cpu stat i t)"
  unfolding start_cpu_def by (intro framed_intros | assumption)+

lemma framed_force_cpu [framed_intros]: "framed s t \<Longrightarrow> framed s (force_cpu cpu t)"
  unfolding force_cpu_def Let_def
  by (intro framed_intros | assumption)+

lemma framed_clear_cpu: "framed s t \<Longrightarrow> framed s (fst (clear_cpu cpu (t, e)))"
  unfolding clear_cpu_def Let_def prod.case
  by (cases "g_eirq t \<noteq> 0 \<and> rget t (PROC_EXTIR_ID cpu) \<noteq> 0")
    (simp_all only: if_True if_False fst_conv framed_prims simp_thms)

lemma framed_clear_fold: "framed s (fst x) \<Longrightarrow> framed s (fst (fold clear_cpu xs x))"
proof (induction xs arbitrary: x)
  case (Cons c cs)
  have "framed s (fst (clear_cpu c x))"
    using Cons.prems framed_clear_cpu[of s "fst x" c "snd x"] by simp
  then show ?case using Cons.IH by simp
qed simp

lemma framed_handlers:
  "framed s (dorst s)" "framed s (incomming_irq irq s)" "framed s (launch_irq s)"
  "framed s (force_write s)" "framed s (mpstat_write s)" "framed s (mpstat_read s)"
  "framed s (pending_write s)"
  unfolding dorst_def reset_fixed_def incomming_irq_def launch_irq_def force_write_def
    mpstat_write_def mpstat_read_def pending_write_def Let_def
  by (intro framed_intros | assumption)+

lemma framed_clear_write: "framed s (clear_write s)"
proof -
  obtain t e where te: "fold clear_cpu [0..<g_ncpu s] (s, False) = (t, e)" by fastforce
  then have "framed s t"
    using framed_clear_fold[of s "(s, False)" "[0..<g_ncpu s]"] by simp
  then show ?thesis
    unfolding clear_write_def te Let_def prod.case by (intro framed_intros)
qed

lemma framed_acknowledged: "acknowledged_irq irq cpu s = Some t \<Longrightarrow> framed s t"
proof -
  assume ack: "acknowledged_irq irq cpu s = Some t"
  have "framed s (the (acknowledged_irq irq cpu s))" if "cpu < g_ncpu s"
    using that unfolding acknowledged_irq_def Let_def
    by (simp only: not_True_eq_False not_not if_False if_True option.sel) (intro framed_intros)
  moreover have "cpu < g_ncpu s" using ack by (simp add: acknowledged_irq_def split: if_splits)
  ultimately show ?thesis using ack by simp
qed

lemma framed_post_write: "framed s (post_write a s)"
  unfolding post_write_def by (simp add: framed_handlers framed_clear_write)

lemma framed_bus: "framed s (irqmp_bus_write a v s)" "framed s (snd (irqmp_bus_read a s))"
proof -
  let ?t = "s\<lparr>ip_regs := sr_bus_write a v (ip_regs s)\<rparr>"
  have "framed s ?t" by (intro framed_intros)
  from framed_trans[OF this framed_post_write[of ?t a]]
  show "framed s (irqmp_bus_write a v s)" by (simp add: irqmp_bus_write_def)
  show "framed s (snd (irqmp_bus_read a s))"
    by (simp add: irqmp_bus_read_def Let_def framed_handlers)
qed


section \<open>The registers exist\<close>

definition regs_ok :: "irqmp \<Rightarrow> bool" where
  "regs_ok s = (g_ncpu s \<le> 16 \<and> (\<forall>a\<in>fixed_offsets. reg_at s a) \<and>
     (\<forall>c<g_ncpu s. reg_at s (PROC_IR_MASK c) \<and> reg_at s (PROC_IR_FORCE c) \<and>
        reg_at s (PROC_EXTIR_ID c) \<and> sr_mask_of (ip_regs s) (PROC_IR_FORCE c) = 0xFFFEFFFE))"

lemma regs_ok_framed: "framed s t \<Longrightarrow> regs_ok s \<Longrightarrow> regs_ok t"
  by (simp add: framed_def regs_ok_def)

lemma regs_okD:
  assumes "regs_ok s"
  shows "a \<in> fixed_offsets \<Longrightarrow> reg_at s a"
    and "c < g_ncpu s \<Longrightarrow> reg_at s (PROC_IR_MASK c)"
    and "c < g_ncpu s \<Longrightarrow> reg_at s (PROC_IR_FORCE c)"
    and "c < g_ncpu s \<Longrightarrow> reg_at s (PROC_EXTIR_ID c)"
    and "c < g_ncpu s \<Longrightarrow> sr_mask_of (ip_regs s) (PROC_IR_FORCE c) = 0xFFFEFFFE"
    and "c < g_ncpu s \<Longrightarrow> c < 16"
  using assms by (auto simp: regs_ok_def)

lemma create_lookup: "create_register addr i m r a =
    (if a = addr \<and> r addr = None then Some \<lparr>sr_value = i, sr_mask = m\<rparr> else r a)"
  by (auto simp: create_register_def split: option.splits)

lemma create_dom: "(create_register addr i m r a = None) = (a \<noteq> addr \<and> r a = None)"
  by (auto simp: create_lookup)

definition base_offsets :: "u32 set" where
  "base_offsets = fixed_offsets \<union> {0x20, 0x24, 0x28}"

lemma base_offsets_unat: "a \<in> base_offsets \<Longrightarrow> unat a < 64"
  by (auto simp: base_offsets_def fixed_offsets_def fixed_unat)

lemma init_registers_Suc: "init_registers (Suc n) = init_cpu_registers n (init_registers n)"
  by (simp add: init_registers_def)

lemma init_registers_dom:
  "(init_registers n a = None) = (a \<notin> base_offsets \<and>
     (\<forall>c<n. a \<noteq> PROC_IR_MASK c \<and> a \<noteq> PROC_IR_FORCE c \<and> a \<noteq> PROC_EXTIR_ID c))"
proof (induction n)
  case 0
  show ?case by (auto simp: init_registers_def create_dom base_offsets_def fixed_offsets_def)
next
  case (Suc n)
  then show ?case
    by (auto simp: init_registers_Suc init_cpu_registers_def create_dom less_Suc_eq)
qed

lemma init_registers_force:
  "n \<le> 16 \<Longrightarrow> c < n \<Longrightarrow>
    init_registers n (PROC_IR_FORCE c) = Some \<lparr>sr_value = 0, sr_mask = 0xFFFEFFFE\<rparr>"
proof (induction n)
  case (Suc n)
  have fresh: "init_registers n (PROC_IR_FORCE n) = None"
    using Suc.prems base_offsets_unat[of "PROC_IR_FORCE n"]
    by (auto simp: init_registers_dom offset_unat offsets_cpu)
  have "n < 16" "c < 16" using Suc.prems by simp_all
  then show ?case using Suc fresh
    by (auto simp: init_registers_Suc init_cpu_registers_def create_lookup less_Suc_eq offsets_cpu
        PROC_IR_FORCE_IFC_def PROC_IR_FORCE_IF_def)
qed simp

lemma regs_ok_init: "n \<le> 16 \<Longrightarrow> regs_ok (irqmp_init n e)"
proof -
  assume n: "n \<le> 16"
  have reg: "reg_at (irqmp_init n e) a \<longleftrightarrow> init_registers n a \<noteq> None" for a
    by (simp add: reg_at_def irqmp_init_def)
  show ?thesis
    unfolding regs_ok_def reg using n
    by (auto simp: init_registers_dom base_offsets_def irqmp_init_def sr_mask_of_def
        init_registers_force)
qed

section \<open>The force registers and their shadow\<close>

definition force_agree :: "u32 \<Rightarrow> u32 \<Rightarrow> bool" where
  "force_agree f r = (drop_bit 16 f = 0 \<and> drop_bit 16 r = 0 \<and> f AND 0xFFFE = r AND 0xFFFE)"

lemma bit_FFFE: "bit (0xFFFE :: u32) k = (1 \<le> k \<and> k < 16)"
proof -
  have "(0xFFFE :: u32) = mask 16 AND NOT (mask 1)" by (simp add: mask_eq_exp_minus_1)
  then show ?thesis by (simp only: bit_and_iff bit_not_iff bit_mask_iff) auto
qed

lemma drop_16_zero: "drop_bit 16 (f :: u32) = 0 \<longleftrightarrow> (\<forall>k\<ge>16. \<not> bit f k)"
proof
  assume z: "drop_bit 16 f = 0"
  show "\<forall>k\<ge>16. \<not> bit f k"
  proof (intro allI impI)
    fix k :: nat assume "16 \<le> k"
    then have "bit f k = bit (drop_bit 16 f) (k - 16)" by (simp add: bit_drop_bit_eq)
    then show "\<not> bit f k" by (simp add: z)
  qed
next
  assume "\<forall>k\<ge>16. \<not> bit f k"
  then show "drop_bit 16 f = 0" by (intro bit_word_eqI) (simp add: bit_drop_bit_eq)
qed

lemma force_agree_bits:
  "force_agree f r \<longleftrightarrow> (\<forall>k\<ge>16. \<not> bit f k \<and> \<not> bit r k) \<and> (\<forall>k. 1 \<le> k \<and> k < 16 \<longrightarrow> bit f k = bit r k)"
proof -
  have bits: "bit (x AND 0xFFFE) k = (1 \<le> k \<and> k < 16 \<and> bit x k)" for x :: u32 and k
    unfolding bit_and_iff bit_FFFE by auto
  have "f AND 0xFFFE = r AND 0xFFFE \<longleftrightarrow> (\<forall>k. 1 \<le> k \<and> k < 16 \<longrightarrow> bit f k = bit r k)"
  proof
    assume e: "f AND 0xFFFE = r AND 0xFFFE"
    show "\<forall>k. 1 \<le> k \<and> k < 16 \<longrightarrow> bit f k = bit r k" using bits[of f] bits[of r] unfolding e by blast
  next
    assume "\<forall>k. 1 \<le> k \<and> k < 16 \<longrightarrow> bit f k = bit r k"
    then show "f AND 0xFFFE = r AND 0xFFFE" by (intro bit_word_eqI) (auto simp: bits)
  qed
  then show ?thesis unfolding force_agree_def drop_16_zero by auto
qed

lemma bit_sr_write_bit_any: "bit (sr_write_bit n b v) k = (if k = n \<and> n < 32 then b else bit v k)"
proof (cases "n < 32")
  case True
  then show ?thesis by (simp add: bit_sr_write_bit)
next
  case False
  have "push_bit n x = (0 :: u32)" for x :: u32
    using False by (intro bit_word_eqI) (simp add: bit_push_bit_iff)
  then show ?thesis using False by (simp add: sr_write_bit_def del: push_bit_of_1)
qed

lemma bit_push_1: "bit (push_bit n 1 :: u32) k = (k = n \<and> n < 32)"
  unfolding bit_push_bit_iff bit_1_iff by auto

lemma force_agree_set:
  "force_agree f r \<Longrightarrow> line < 16 \<Longrightarrow> force_agree (f OR push_bit line 1) (sr_write_bit line True r)"
  unfolding force_agree_bits bit_or_iff bit_push_1 bit_sr_write_bit_any by auto

lemma force_agree_clear:
  "force_agree f r \<Longrightarrow>
    force_agree (f AND (NOT (push_bit line 1) AND 0xFFFE)) (sr_write_bit line False r)"
  unfolding force_agree_bits bit_and_iff bit_not_iff bit_push_1 bit_sr_write_bit_any bit_FFFE
  by (auto dest: bit_imp_le_length)

lemma force_agree_0: "force_agree 0 0"
  by (simp add: force_agree_def)

lemma force_agree_new: "force_agree (f AND (NOT (drop_bit 16 f) AND 0xFFFE)) (f AND (NOT (drop_bit 16 f) AND 0xFFFE))"
  unfolding force_agree_bits bit_and_iff bit_FFFE by auto

definition force_ok :: "irqmp \<Rightarrow> bool" where
  "force_ok s = (\<forall>c<g_ncpu s. force_agree (forcereg s c) (rget s (PROC_IR_FORCE c)))"

text \<open>Operations that keep every processor's force register and its shadow.\<close>

definition keeps_force :: "irqmp \<Rightarrow> irqmp \<Rightarrow> bool" where
  "keeps_force s t = (framed s t \<and> forcereg t = forcereg s \<and>
     (\<forall>c<16. rget t (PROC_IR_FORCE c) = rget s (PROC_IR_FORCE c)))"

named_theorems keeps_force_intros "an operation keeps the force registers"

lemma keeps_force_ok: "keeps_force s t \<Longrightarrow> regs_ok s \<Longrightarrow> force_ok s \<Longrightarrow> force_ok t"
  by (auto simp: keeps_force_def force_ok_def framed_def dest: regs_okD(6))

lemma keeps_force_refl [keeps_force_intros]: "keeps_force s s"
  by (simp add: keeps_force_def)

lemma keeps_force_trans: "keeps_force s t \<Longrightarrow> keeps_force t u \<Longrightarrow> keeps_force s u"
  by (auto simp: keeps_force_def intro: framed_trans)

lemma keeps_force_prims [keeps_force_intros]:
  assumes "keeps_force s t"
  shows "a \<in> fixed_offsets \<Longrightarrow> keeps_force s (rset a v t)"
    and "a \<in> fixed_offsets \<Longrightarrow> keeps_force s (rset_bit a n b t)"
    and "i < 16 \<Longrightarrow> keeps_force s (rset (PROC_EXTIR_ID i) v t)"
    and "keeps_force s (irq_req_write m w t)" and "keeps_force s (notify d t)"
    and "keeps_force s (t\<lparr>cpu_rst := l\<rparr>)" and "keeps_force s (t\<lparr>m_irq_counter := g\<rparr>)"
    and "keeps_force s (t\<lparr>m_cpu_counter := h\<rparr>)" and "keeps_force s (t\<lparr>e_signal := e\<rparr>)"
    and "keeps_force s (t\<lparr>cpu_stat := p\<rparr>)"
  using assms
  by (auto simp: keeps_force_def rget_rset rget_rset_bit offsets intro!: framed_prims)
    (simp_all add: rget_def)

lemma keeps_force_if [keeps_force_intros]:
  "\<lbrakk>c \<Longrightarrow> keeps_force s t; \<not> c \<Longrightarrow> keeps_force s u\<rbrakk> \<Longrightarrow> keeps_force s (if c then t else u)"
  by simp

lemma keeps_force_fold [keeps_force_intros]:
  assumes "keeps_force s t" and "\<And>x t. x \<in> set xs \<Longrightarrow> keeps_force s t \<Longrightarrow> keeps_force s (f x t)"
  shows "keeps_force s (fold f xs t)"
  using assms by (induction xs arbitrary: t) auto

lemma keeps_force_launch_cpu [keeps_force_intros]: "keeps_force s t \<Longrightarrow> keeps_force s (launch_cpu cpu t)"
  unfolding launch_cpu_def Let_def
  by (intro keeps_force_intros fixed_offsets_mem | assumption)+

lemma keeps_force_deassert [keeps_force_intros]: "keeps_force s t \<Longrightarrow> keeps_force s (deassert_lines lines t)"
  unfolding deassert_lines_def
  by (intro keeps_force_intros | assumption)+

lemma keeps_force_start_cpu [keeps_force_intros]: "keeps_force s t \<Longrightarrow> keeps_force s (start_cpu stat i t)"
  unfolding start_cpu_def by (intro keeps_force_intros | assumption)+

lemma keeps_force_handlers:
  "keeps_force s (launch_irq s)" "keeps_force s (mpstat_write s)" "keeps_force s (mpstat_read s)"
  "keeps_force s (pending_write s)"
  unfolding launch_irq_def mpstat_write_def mpstat_read_def pending_write_def Let_def
  by (intro keeps_force_intros fixed_offsets_mem | assumption)+

section \<open>The handlers that change the force registers\<close>

lemma force_ok_reset_cpu:
  assumes "regs_ok s" and "c < g_ncpu s"
  shows "forcereg (reset_cpu c s) = (forcereg s)(c := 0)"
    and "d < 16 \<Longrightarrow> rget (reset_cpu c s) (PROC_IR_FORCE d) = (if d = c then 0 else rget s (PROC_IR_FORCE d))"
  using assms regs_okD(3,6)[OF assms(1), of c]
  by (auto simp: reset_cpu_def rget_rset offsets) (simp add: reg_at_def rset_def)

lemma fold_reset_cpu_force:
  assumes "regs_ok s" and "set cs \<subseteq> {..<g_ncpu s}" and "d < g_ncpu s"
    and "d \<in> set cs \<or> force_agree (forcereg s d) (rget s (PROC_IR_FORCE d))"
  shows "force_agree (forcereg (fold reset_cpu cs s) d) (rget (fold reset_cpu cs s) (PROC_IR_FORCE d))"
  using assms
proof (induction cs arbitrary: s)
  case (Cons c cs)
  have fr: "framed s (reset_cpu c s)" by (intro framed_intros)
  then have "g_ncpu (reset_cpu c s) = g_ncpu s" by (simp add: framed_def)
  moreover have "d < 16" using Cons.prems regs_okD(6) by blast
  ultimately show ?case
    using Cons.prems Cons.IH[of "reset_cpu c s"] regs_ok_framed[OF fr]
      force_ok_reset_cpu(1)[of s c] force_ok_reset_cpu(2)[of s c d] force_agree_0
    by (cases "d = c") simp_all
qed simp

lemma force_ok_dorst: "regs_ok s \<Longrightarrow> force_ok (dorst s)"
proof -
  assume ok: "regs_ok s"
  let ?t = "reset_fixed s" and ?u = "fold reset_cpu [0..<g_ncpu s] (reset_fixed s)"
  have ft: "framed s ?t" unfolding reset_fixed_def Let_def by (intro framed_intros)
  have fu: "framed ?t ?u" by (intro framed_intros | assumption)+
  have n: "g_ncpu ?t = g_ncpu s" "g_ncpu ?u = g_ncpu s"
    using ft fu by (simp_all add: framed_def)
  have "regs_ok ?t" by (rule regs_ok_framed[OF ft ok])
  from fold_reset_cpu_force[OF this, of "[0..<g_ncpu s]"] show ?thesis
    by (simp add: dorst_def Let_def force_ok_def n atLeast0LessThan)
qed

lemma broadcast_cpu_force:
  assumes "regs_ok s" and "c < g_ncpu s"
  shows "forcereg (broadcast_cpu line c s) = (forcereg s)(c := forcereg s c OR push_bit line 1)"
    and "d < 16 \<Longrightarrow> rget (broadcast_cpu line c s) (PROC_IR_FORCE d) =
      (if d = c then sr_write_bit line True (rget s (PROC_IR_FORCE c)) else rget s (PROC_IR_FORCE d))"
  using assms regs_okD(3,6)[OF assms(1), of c]
  by (auto simp: broadcast_cpu_def rget_rset_bit offsets)

lemma force_ok_broadcast:
  assumes "regs_ok s" and "force_ok s" and "c < g_ncpu s" and "line < 16"
  shows "force_ok (broadcast_cpu line c s)"
proof -
  have "framed s (broadcast_cpu line c s)" by (intro framed_intros)
  then have n: "g_ncpu (broadcast_cpu line c s) = g_ncpu s" by (simp add: framed_def)
  show ?thesis
    unfolding force_ok_def n
  proof (intro allI impI)
    fix d assume d: "d < g_ncpu s"
    then have "d < 16" using regs_okD(6)[OF assms(1)] by simp
    then show "force_agree (forcereg (broadcast_cpu line c s) d)
        (rget (broadcast_cpu line c s) (PROC_IR_FORCE d))"
      using broadcast_cpu_force(1)[OF assms(1,3), of line]
        broadcast_cpu_force(2)[OF assms(1,3), of d line] assms(2) d force_agree_set[OF _ assms(4)]
      by (simp add: force_ok_def)
  qed
qed

text \<open>Folding a handler over processors or lines keeps the pair of invariants.\<close>

definition irqmp_ok :: "irqmp \<Rightarrow> bool" where
  "irqmp_ok s = (regs_ok s \<and> force_ok s)"

lemma keeps_force_irqmp_ok: "keeps_force s t \<Longrightarrow> irqmp_ok s \<Longrightarrow> irqmp_ok t"
  unfolding irqmp_ok_def
  by (blast intro: keeps_force_ok regs_ok_framed dest: keeps_force_def[THEN iffD1])

lemma irqmp_ok_broadcasts:
  assumes "irqmp_ok s" and "line < 16" and "set cs \<subseteq> {..<g_ncpu s}"
  shows "irqmp_ok (fold (broadcast_cpu line) cs s)"
  using assms
proof (induction cs arbitrary: s)
  case (Cons c cs)
  have fr: "framed s (broadcast_cpu line c s)" by (intro framed_intros)
  with Cons.prems have "irqmp_ok (broadcast_cpu line c s)"
    by (auto simp: irqmp_ok_def force_ok_broadcast intro: regs_ok_framed)
  moreover have "g_ncpu (broadcast_cpu line c s) = g_ncpu s" using fr by (simp add: framed_def)
  ultimately show ?case using Cons by simp
qed simp

lemma irqmp_ok_line: "irqmp_ok s \<Longrightarrow> irqmp_ok (incomming_line lines line s)"
proof -
  assume ok: "irqmp_ok s"
  define t where "t = s\<lparr>m_irq_counter := (m_irq_counter s)(line := m_irq_counter s line + 1)\<rparr>"
  define u where "u = (if \<not> sr_bit (rget t BROADCAST) (line + 1) then rset_bit IR_PENDING line True t else t)"
  have "keeps_force s u"
    unfolding u_def t_def by (intro keeps_force_intros fixed_offsets_mem)
  then have u: "irqmp_ok u" "g_ncpu u = g_ncpu s"
    using ok by (auto intro: keeps_force_irqmp_ok simp: keeps_force_def framed_def)
  have "incomming_line lines line s = (if push_bit line 1 AND lines \<noteq> 0
      then (if sr_bit (rget u BROADCAST) (line + 1) \<and> line < 16
            then fold (broadcast_cpu line) [0..<g_ncpu u] u else u) else s)"
    unfolding incomming_line_def Let_def u_def t_def by (rule refl)
  then show ?thesis using ok u by (auto intro!: irqmp_ok_broadcasts)
qed

lemma irqmp_ok_incomming: "irqmp_ok s \<Longrightarrow> irqmp_ok (incomming_irq irq s)"
proof -
  assume ok: "irqmp_ok s"
  have "irqmp_ok (fold (incomming_line (fst irq)) xs s)" for xs
    using ok by (induction xs arbitrary: s) (simp_all add: irqmp_ok_line)
  from keeps_force_irqmp_ok[OF _ this, of _ "notify 2 (fold (incomming_line (fst irq)) [0..<32] s)"] ok
  show ?thesis by (auto simp: incomming_irq_def intro: keeps_force_intros)
qed

lemma force_cpu_force:
  assumes "regs_ok s" and "c < g_ncpu s" and "f = forcereg s c OR rget s (PROC_IR_FORCE c)"
  shows "forcereg (force_cpu c s) = (forcereg s)(c := f AND (NOT (drop_bit 16 f) AND 0xFFFE))"
    and "d < 16 \<Longrightarrow> rget (force_cpu c s) (PROC_IR_FORCE d) =
      (if d = c then f AND (NOT (drop_bit 16 f) AND 0xFFFE) else rget s (PROC_IR_FORCE d))"
proof -
  define t where "t = deassert_lines (drop_bit 16 (rget s (PROC_IR_FORCE c))) s"
  have kt: "keeps_force s t" unfolding t_def by (intro keeps_force_intros)
  then have "g_ncpu t = g_ncpu s" "forcereg t = forcereg s"
      "\<forall>d<16. rget t (PROC_IR_FORCE d) = rget s (PROC_IR_FORCE d)" and rt: "regs_ok t"
    using assms(1) by (auto simp: keeps_force_def framed_def intro: regs_ok_framed[of s t])
  note t = this
  have c: "c < 16" "reg_at t (PROC_IR_FORCE c)"
    using assms(2) t regs_okD(3,6)[OF rt, of c] by auto
  note simps = force_cpu_def Let_def t_def[symmetric] assms(3) PROC_IR_FORCE_IF_def
  show "forcereg (force_cpu c s) = (forcereg s)(c := f AND (NOT (drop_bit 16 f) AND 0xFFFE))"
    by (simp add: simps t)
  show "rget (force_cpu c s) (PROC_IR_FORCE d) =
      (if d = c then f AND (NOT (drop_bit 16 f) AND 0xFFFE) else rget s (PROC_IR_FORCE d))" if "d < 16"
    using that c t by (simp add: simps rget_rset offsets reg_at_def)
qed

definition force_result :: "u32 \<Rightarrow> u32" where
  "force_result f = f AND (NOT (drop_bit 16 f) AND 0xFFFE)"

lemma force_agree_result: "force_agree (force_result f) (force_result f)"
  unfolding force_result_def by (rule force_agree_new)

lemma fold_force_cpu:
  assumes "regs_ok s" and "distinct cs" and "set cs \<subseteq> {..<g_ncpu s}" and "d < g_ncpu s"
  shows "forcereg (fold force_cpu cs s) d =
      (if d \<in> set cs then force_result (forcereg s d OR rget s (PROC_IR_FORCE d)) else forcereg s d) \<and>
    rget (fold force_cpu cs s) (PROC_IR_FORCE d) =
      (if d \<in> set cs then force_result (forcereg s d OR rget s (PROC_IR_FORCE d))
       else rget s (PROC_IR_FORCE d))"
  using assms
proof (induction cs arbitrary: s)
  case (Cons c cs)
  have fr: "framed s (force_cpu c s)" by (intro framed_intros)
  have n: "g_ncpu (force_cpu c s) = g_ncpu s" using fr by (simp add: framed_def)
  have d: "d < 16" using Cons.prems(1,4) by (rule regs_okD(6))
  have c: "c < g_ncpu s" "c \<notin> set cs" using Cons.prems by auto
  note step = force_cpu_force(1)[OF Cons.prems(1) c(1) refl] force_cpu_force(2)[OF Cons.prems(1) c(1) refl d]
  have prems: "regs_ok (force_cpu c s)" "distinct cs" "set cs \<subseteq> {..<g_ncpu (force_cpu c s)}"
      "d < g_ncpu (force_cpu c s)"
    using Cons.prems n regs_ok_framed[OF fr] by auto
  show ?case using Cons.IH[OF prems] step c(2) by (auto simp: force_result_def)
qed simp

lemma force_write_force:
  assumes "regs_ok s" and "d < g_ncpu s"
  shows "forcereg (force_write s) d = force_result (forcereg s d OR rget s (PROC_IR_FORCE d))"
    and "rget (force_write s) (PROC_IR_FORCE d) = force_result (forcereg s d OR rget s (PROC_IR_FORCE d))"
  using fold_force_cpu[OF assms(1), of "[0..<g_ncpu s]" d] assms(2)
  by (simp_all add: force_write_def atLeast0LessThan)

lemma force_ok_force_write: "regs_ok s \<Longrightarrow> force_ok (force_write s)"
proof -
  assume ok: "regs_ok s"
  have "g_ncpu (force_write s) = g_ncpu s" using framed_handlers(4) by (simp add: framed_def)
  then show ?thesis
    by (simp add: force_ok_def force_write_force[OF ok] force_agree_result)
qed

lemma clear_cpu_force:
  assumes "c < 16" and "keeps_force s (fst x)"
  shows "keeps_force s (fst (clear_cpu c x))"
  using assms(2) keeps_force_prims(1,3)[OF _ , of s] assms(1)
  by (cases x) (simp add: clear_cpu_def Let_def)

lemma keeps_force_clear: "regs_ok s \<Longrightarrow> keeps_force s (clear_write s)"
proof -
  assume ok: "regs_ok s"
  have fold: "keeps_force s (fst (fold clear_cpu cs x))"
    if "set cs \<subseteq> {..<16}" "keeps_force s (fst x)" for cs x
    using that by (induction cs arbitrary: x) (simp_all add: clear_cpu_force)
  obtain t e where te: "fold clear_cpu [0..<g_ncpu s] (s, False) = (t, e)" by fastforce
  have "keeps_force s t"
    using fold[of "[0..<g_ncpu s]" "(s, False)"] te ok
    by (simp add: keeps_force_refl regs_ok_def atLeast0LessThan)
  then show ?thesis
    unfolding clear_write_def te Let_def prod.case
    by (intro keeps_force_intros fixed_offsets_mem)
qed

lemma acknowledged_force:
  assumes "regs_ok s" and "acknowledged_irq irq cpu s = Some t"
  shows "forcereg t = (forcereg s)(cpu := forcereg s cpu AND (NOT (push_bit irq 1) AND 0xFFFE))"
    and "d < 16 \<Longrightarrow> rget t (PROC_IR_FORCE d) =
      (if d = cpu then sr_write_bit irq False (rget s (PROC_IR_FORCE cpu)) else rget s (PROC_IR_FORCE d))"
proof -
  define u where "u = (if g_eirq s \<noteq> 0 \<and> rget s (PROC_EXTIR_ID cpu) \<noteq> 0
      then rset IR_PENDING (rget s IR_PENDING AND NOT (push_bit (unat (rget s (PROC_EXTIR_ID cpu))) 1)) s
      else s)"
  have ku: "keeps_force s u" unfolding u_def by (intro keeps_force_intros fixed_offsets_mem)
  have cpu: "cpu < g_ncpu s" using assms(2) by (simp add: acknowledged_irq_def split: if_splits)
  then have c: "cpu < 16" "reg_at u (PROC_IR_FORCE cpu)"
    using regs_okD(3,6)[OF assms(1), of cpu] ku by (auto simp: keeps_force_def framed_def)
  define w where "w = rset_bit (PROC_IR_FORCE cpu) irq False u"
  let ?w = "w\<lparr>forcereg := (forcereg w)(cpu := forcereg w cpu AND (NOT (push_bit irq 1) AND 0xFFFE))\<rparr>"
  have "t = notify 2 (rset (PROC_EXTIR_ID cpu) 0 (rset_bit IR_FORCE irq False
      (rset_bit IR_PENDING irq False (irq_req_write (NOT 0) (of_nat irq, False) ?w))))"
    using assms(2) cpu unfolding acknowledged_irq_def Let_def u_def[symmetric] w_def[symmetric]
    by (simp only: not_not if_False not_True_eq_False option.inject simp_thms)
  then have kt: "keeps_force ?w t"
    by (simp only:) (intro keeps_force_intros fixed_offsets_mem c(1))
  show "forcereg t = (forcereg s)(cpu := forcereg s cpu AND (NOT (push_bit irq 1) AND 0xFFFE))"
    using kt ku by (simp add: keeps_force_def w_def)
  show "rget t (PROC_IR_FORCE d) =
      (if d = cpu then sr_write_bit irq False (rget s (PROC_IR_FORCE cpu)) else rget s (PROC_IR_FORCE d))"
    if "d < 16"
    using that kt ku c by (simp add: keeps_force_def w_def rget_rset_bit offsets)
qed

lemma irqmp_ok_acknowledged:
  assumes "irqmp_ok s" and "acknowledged_irq irq cpu s = Some t"
  shows "irqmp_ok t"
proof -
  have regs: "regs_ok s" using assms(1) by (simp add: irqmp_ok_def)
  have fr: "framed s t" by (rule framed_acknowledged[OF assms(2)])
  have "force_agree (forcereg t d) (rget t (PROC_IR_FORCE d))" if "d < g_ncpu s" for d
    using acknowledged_force(1)[OF regs assms(2)] acknowledged_force(2)[OF regs assms(2), of d] assms(1)
      that regs_okD(6)[OF regs, of d] force_agree_clear
    by (simp add: irqmp_ok_def force_ok_def)
  then show ?thesis using regs_ok_framed[OF fr regs] fr by (simp add: irqmp_ok_def force_ok_def framed_def)
qed

section \<open>The bus side\<close>

lemma rget_bus_write: "rget (s\<lparr>ip_regs := sr_bus_write a v (ip_regs s)\<rparr>) b =
    (if a = b \<and> reg_at s a then v AND sr_mask_of (ip_regs s) a else rget s b)"
  by (auto simp: rget_def sr_get_bus_write reg_at_def)

lemma irqmp_ok_bus_write: "irqmp_ok s \<Longrightarrow> irqmp_ok (irqmp_bus_write a v s)"
proof -
  assume ok: "irqmp_ok s"
  define t where "t = s\<lparr>ip_regs := sr_bus_write a v (ip_regs s)\<rparr>"
  have fr: "framed s t" unfolding t_def by (intro framed_intros)
  then have regs: "regs_ok t" and n: "g_ncpu t = g_ncpu s"
    using ok by (auto simp: irqmp_ok_def framed_def intro: regs_ok_framed[OF fr])
  show ?thesis
  proof (cases "a \<in> set (map PROC_IR_FORCE [0..<g_ncpu s])")
    case True
    then obtain c where a: "c < g_ncpu s" "a = PROC_IR_FORCE c" by auto
    then have c: "c < 16" using ok regs_okD(6) by (auto simp: irqmp_ok_def)
    have "post_write a t = force_write t"
      using a c regs_okD(6)[OF regs]
      by (auto simp: post_write_def n offsets)
    moreover have "framed t (force_write t)" by (rule framed_handlers)
    ultimately have "irqmp_ok (post_write a t)"
      using regs force_ok_force_write[OF regs] regs_ok_framed by (simp add: irqmp_ok_def)
    then show ?thesis using ok by (simp add: irqmp_bus_write_def t_def)
  next
    case False
    have "force_ok t"
      using ok False by (auto simp: force_ok_def irqmp_ok_def n) (auto simp: t_def rget_bus_write)
    then have okt: "irqmp_ok t" using regs by (simp add: irqmp_ok_def)
    have "keeps_force t (post_write a t)"
      using False unfolding post_write_def n
      by (simp add: keeps_force_refl keeps_force_handlers keeps_force_clear[OF regs])
    then have "irqmp_ok (post_write a t)" using okt by (rule keeps_force_irqmp_ok)
    then show ?thesis using ok by (simp add: irqmp_bus_write_def t_def)
  qed
qed

lemma irqmp_ok_step: "irqmp_step s t \<Longrightarrow> irqmp_ok s \<Longrightarrow> irqmp_ok t"
proof (elim irqmp_stepE)
  fix e assume "irqmp_do e s = Some t" and ok: "irqmp_ok s"
  then show "irqmp_ok t"
  proof (cases e)
    case Reset
    with \<open>irqmp_do e s = Some t\<close> ok show ?thesis
      using regs_ok_framed[OF framed_handlers(1)[of s]] by (auto simp: irqmp_ok_def force_ok_dorst)
  next
    case (Cpu_status c b)
    then have "t = s\<lparr>cpu_stat := (cpu_stat s)(c := b)\<rparr>" using \<open>irqmp_do e s = Some t\<close> by simp
    then have "keeps_force s t" by (simp only:) (intro keeps_force_intros)
    then show ?thesis using ok by (rule keeps_force_irqmp_ok)
  next
    case (Bus_read a)
    have "keeps_force s (snd (irqmp_bus_read a s))"
      by (simp add: irqmp_bus_read_def Let_def keeps_force_refl keeps_force_handlers)
    then show ?thesis using \<open>irqmp_do e s = Some t\<close> Bus_read ok keeps_force_irqmp_ok by simp
  qed (auto simp: irqmp_ok_incomming irqmp_ok_bus_write irqmp_ok_acknowledged
      intro: keeps_force_irqmp_ok keeps_force_handlers split: if_splits)
qed

lemma irqmp_ok_init: "n \<le> 16 \<Longrightarrow> irqmp_ok (irqmp_init n e)"
  using regs_ok_init[of n e]
  by (auto simp: irqmp_ok_def force_ok_def rget_def sr_get_def irqmp_init_def
      init_registers_force force_agree_0)

lemma irqmp_reachable_ok: "irqmp_reachable n e s \<Longrightarrow> n \<le> 16 \<Longrightarrow> irqmp_ok s"
  by (induction rule: irqmp_reachable.induct) (auto simp: irqmp_ok_init irqmp_ok_step)

lemma framed_do: "irqmp_do e s = Some t \<Longrightarrow> framed s t"
  by (cases e) (auto simp: framed_handlers framed_bus framed_acknowledged framed_prims split: if_splits)

lemma framed_run: "irqmp_run es s = Some t \<Longrightarrow> framed s t"
  by (induction es arbitrary: s) (auto split: option.splits intro: framed_do framed_trans)

lemma irqmp_reachable_ncpu: "irqmp_reachable n e s \<Longrightarrow> g_ncpu s = n \<and> g_eirq s = e"
proof (induction rule: irqmp_reachable.induct)
  case start
  show ?case by (simp add: irqmp_init_def)
next
  case (step s t)
  have "framed s t" using step.hyps(2) by (elim irqmp_stepE) (rule framed_do)
  then show ?case using step.IH by (simp add: framed_def)
qed

section \<open>Arbitration\<close>

lemma bit_IP: "bit IR_PENDING_IP k = (1 \<le> k \<and> k < 16)"
  unfolding IR_PENDING_IP_def by (rule bit_FFFE)

lemma scan_down_le: "scan_down m n \<le> n"
  by (induction n) auto

lemma and_push_1: "n < 32 \<Longrightarrow> ((m :: u32) AND push_bit n 1 \<noteq> 0) = bit m n"
  using sr_bit_iff[of n m] by (simp add: sr_bit_def)

lemma scan_down_highest:
  "n < 32 \<Longrightarrow> scan_down m n < k \<Longrightarrow> k \<le> n \<Longrightarrow> \<not> bit m k"
proof (induction n)
  case (Suc n)
  then show ?case by (cases "k = Suc n") (auto simp: and_push_1 simp del: push_bit_of_1 push_bit_Suc split: if_splits)
qed simp

lemma scan_down_bit: "n < 32 \<Longrightarrow> scan_down m n \<noteq> 0 \<Longrightarrow> bit m (scan_down m n)"
  by (induction n) (auto simp: and_push_1 simp del: push_bit_of_1 push_bit_Suc)

text \<open>The abstract rule: among the lines 1 to 15 that are raised, those of level 1
  come before those of level 0, and a higher line before a lower one.\<close>

definition line_rank :: "u32 \<Rightarrow> nat \<Rightarrow> nat" where
  "line_rank level h = (if bit level h then 16 + h else h)"

definition best_line :: "u32 \<Rightarrow> u32 \<Rightarrow> nat \<Rightarrow> bool" where
  "best_line level lines h = (h \<in> {1..15} \<and> bit lines h \<and>
     (\<forall>k\<in>{1..15}. bit lines k \<longrightarrow> line_rank level k \<le> line_rank level h))"

lemma select_irq_le: "select_irq level all \<le> 15"
  using scan_down_le[of _ 15] by (simp add: select_irq_def Let_def)

lemma select_irq_best:
  assumes "select_irq level lines \<noteq> 0"
  shows "best_line level lines (select_irq level lines)"
proof -
  let ?m1 = "(lines AND level) AND IR_PENDING_IP" and ?m0 = "(lines AND NOT level) AND IR_PENDING_IP"
  have m1: "bit ?m1 k = (bit lines k \<and> bit level k)" and m0: "bit ?m0 k = (bit lines k \<and> \<not> bit level k)"
    if "1 \<le> k" "k \<le> 15" for k
    using that unfolding bit_and_iff bit_IP bit_not_iff by auto
  note le = scan_down_le[of ?m1 15] scan_down_le[of ?m0 15]
  show ?thesis
  proof (cases "scan_down ?m1 15 = 0")
    case False
    let ?h = "scan_down ?m1 15"
    have sel: "select_irq level lines = ?h" using False by (simp add: select_irq_def)
    have h: "1 \<le> ?h" "?h \<le> 15" using False le by simp_all
    then have "bit lines ?h" "bit level ?h" using scan_down_bit[of 15 ?m1] False m1 by simp_all
    moreover have "line_rank level k \<le> line_rank level ?h" if "k \<in> {1..15}" "bit lines k" for k
      using that scan_down_highest[of 15 ?m1 k] m1[of k] \<open>bit level ?h\<close>
      by (cases "?h < k") (auto simp: line_rank_def)
    ultimately show ?thesis using h by (simp add: best_line_def sel)
  next
    case True
    let ?h = "scan_down ?m0 15"
    have sel: "select_irq level lines = ?h" using True by (simp add: select_irq_def)
    have h: "1 \<le> ?h" "?h \<le> 15" using assms le by (simp_all add: sel)
    then have "bit lines ?h" "\<not> bit level ?h" using scan_down_bit[of 15 ?m0] assms m0 by (simp_all add: sel)
    moreover have "line_rank level k \<le> line_rank level ?h" if "k \<in> {1..15}" "bit lines k" for k
      using that scan_down_highest[of 15 ?m0 k] scan_down_highest[of 15 ?m1 k] m0[of k] m1[of k]
        True \<open>\<not> bit level ?h\<close>
      by (cases "?h < k") (auto simp: line_rank_def)
    ultimately show ?thesis using h by (simp add: best_line_def sel)
  qed
qed

lemma select_irq_none: "select_irq level lines = 0 \<longleftrightarrow> (\<forall>k\<in>{1..15}. \<not> bit lines k)"
proof
  assume "select_irq level lines = 0"
  then have z: "scan_down ((lines AND level) AND IR_PENDING_IP) 15 = 0"
      "scan_down ((lines AND NOT level) AND IR_PENDING_IP) 15 = 0"
    by (auto simp: select_irq_def Let_def split: if_splits)
  show "\<forall>k\<in>{1..15}. \<not> bit lines k"
  proof
    fix k :: nat assume "k \<in> {1..15}"
    then show "\<not> bit lines k"
      using scan_down_highest[of 15 "(lines AND level) AND IR_PENDING_IP" k]
        scan_down_highest[of 15 "(lines AND NOT level) AND IR_PENDING_IP" k] z
      unfolding bit_and_iff bit_IP bit_not_iff by (auto dest: bit_imp_le_length)
  qed
next
  assume "\<forall>k\<in>{1..15}. \<not> bit lines k"
  then show "select_irq level lines = 0"
    using select_irq_best[of level lines] by (cases "select_irq level lines = 0") (auto simp: best_line_def)
qed

definition request :: "u32 \<Rightarrow> u32 \<Rightarrow> u32 \<times> bool" where
  "request level lines = (let h = select_irq level lines in if h = 0 then (0, False) else (of_nat h, True))"

definition requests_ok :: "irqmp \<Rightarrow> bool" where
  "requests_ok s = (\<forall>c. fst (irq_req s c) = 0 \<longrightarrow> \<not> snd (irq_req s c))"

lemma irl_field: "h \<le> 15 \<Longrightarrow> (0xF :: u32) AND of_nat h = of_nat h"
proof -
  assume "h \<le> 15"
  then have "h \<in> set [0..<16]" by simp
  moreover have "\<forall>h\<in>set [0..<16]. (0xF :: u32) AND of_nat h = of_nat h"
    by (simp add: upt_conv_Cons)
  ultimately show ?thesis by blast
qed

lemma of_nat_irl: "h \<le> 15 \<Longrightarrow> (of_nat h :: u32) = 0 \<longleftrightarrow> h = 0"
  by (auto simp: word_unat_eq_iff unat_of_nat)

lemma selector_one: "c < n \<Longrightarrow> n \<le> 16 \<Longrightarrow> selector_write n (push_bit c 1) v out = out(c := v)"
proof
  fix ch assume "c < n" "n \<le> 16"
  then show "selector_write n (push_bit c 1) v out ch = (out(c := v)) ch"
    using and_push_1[of ch "push_bit c 1"] bit_push_1[of c ch]
    by (auto simp: selector_write_def simp del: push_bit_of_1)
qed

lemma launch_cpu_request:
  assumes "regs_ok s" and "c < g_ncpu s" and "requests_ok s"
  shows "irq_req (launch_cpu c s) = (irq_req s)(c := request (rget s IR_LEVEL) (all_for s c))"
proof -
  let ?h = "select_irq (rget s IR_LEVEL) (all_for s c)"
  have h: "?h \<le> 15" by (rule select_irq_le)
  have n: "g_ncpu s \<le> 16" using assms(1) by (simp add: regs_ok_def)
  have one: "irq_req (irq_req_write (push_bit c 1) v t) = (irq_req t)(c := v)" if "g_ncpu t = g_ncpu s" for v t
    using selector_one[OF assms(2) n] that by (simp add: irq_req_write_def)
  have z: "irq_req s c = (0, False)" if "fst (irq_req s c) = 0"
    using assms(3)[unfolded requests_ok_def, rule_format, of c] that by (cases "irq_req s c") auto
  define t where "t = (if g_eirq s \<noteq> 0 then rset_bit IR_PENDING (g_eirq s) (eirq_enabled s c) s else s)"
  have t: "g_ncpu t = g_ncpu s" "irq_req t = irq_req s"
    by (simp_all add: t_def rset_bit_def rset_def)
  show ?thesis
    unfolding launch_cpu_def Let_def t_def[symmetric] t irl_field[OF h] request_def
    using one[OF t(1)] t(2) z by (auto simp: fun_eq_iff)
qed

text \<open>Without an extended interrupt line arbitration leaves the registers alone.\<close>

lemma rget_launch_cpu: "g_eirq s = 0 \<Longrightarrow> rget (launch_cpu c s) a = rget s a"
  by (simp add: launch_cpu_def Let_def)

lemma requests_ok_upd: "requests_ok s \<Longrightarrow> irq_req t = (irq_req s)(c := request l x) \<Longrightarrow> requests_ok t"
  using select_irq_le[of l x] by (auto simp: requests_ok_def request_def Let_def of_nat_irl)

lemma all_for_cong:
  assumes "g_eirq t = g_eirq s" and "rget t IR_PENDING = rget s IR_PENDING"
    and "rget t IR_FORCE = rget s IR_FORCE" and "rget t (PROC_IR_MASK c) = rget s (PROC_IR_MASK c)"
    and "rget t (PROC_IR_FORCE c) = rget s (PROC_IR_FORCE c)"
  shows "all_for t c = all_for s c"
  using assms by (simp add: all_for_def pending_for_def eirq_enabled_def)

lemma fold_launch_cpu:
  assumes "regs_ok s" and "requests_ok s" and "g_eirq s = 0" and "distinct cs" and "set cs \<subseteq> {..<g_ncpu s}"
  shows "irq_req (fold launch_cpu cs s) =
      (\<lambda>c. if c \<in> set cs then request (rget s IR_LEVEL) (all_for s c) else irq_req s c) \<and>
    (\<forall>a. rget (fold launch_cpu cs s) a = rget s a) \<and> requests_ok (fold launch_cpu cs s)"
  using assms
proof (induction cs arbitrary: s)
  case (Cons c cs)
  have fr: "framed s (launch_cpu c s)" by (intro framed_intros)
  have req: "irq_req (launch_cpu c s) = (irq_req s)(c := request (rget s IR_LEVEL) (all_for s c))"
    using Cons.prems by (intro launch_cpu_request) auto
  have regs: "rget (launch_cpu c s) a = rget s a" for a by (rule rget_launch_cpu[OF Cons.prems(3)])
  have n: "g_ncpu (launch_cpu c s) = g_ncpu s" "g_eirq (launch_cpu c s) = g_eirq s"
    using fr by (simp_all add: framed_def)
  have all: "all_for (launch_cpu c s) d = all_for s d" for d
    by (rule all_for_cong) (simp_all add: regs n)
  show ?case
    using Cons.IH[of "launch_cpu c s"] Cons.prems n all regs req
      regs_ok_framed[OF fr Cons.prems(1)] requests_ok_upd[OF Cons.prems(2) req]
    by (auto simp: fun_eq_iff)
qed simp

lemma launch_irq_requests:
  assumes "regs_ok s" and "requests_ok s" and "g_eirq s = 0"
  shows "c < g_ncpu s \<Longrightarrow> irq_req (launch_irq s) c = request (rget s IR_LEVEL) (all_for s c)"
    and "rget (launch_irq s) a = rget s a" and "requests_ok (launch_irq s)"
proof -
  let ?t = "s\<lparr>e_signal := None\<rparr>"
  have fr: "framed s ?t" by (intro framed_intros)
  have "regs_ok ?t" "requests_ok ?t" "g_eirq ?t = 0" using assms regs_ok_framed[OF fr]
    by (auto simp: requests_ok_def)
  moreover have "all_for ?t d = all_for s d" for d by (rule all_for_cong) simp_all
  ultimately show "c < g_ncpu s \<Longrightarrow> irq_req (launch_irq s) c = request (rget s IR_LEVEL) (all_for s c)"
      "rget (launch_irq s) a = rget s a" "requests_ok (launch_irq s)"
    using fold_launch_cpu[of ?t "rev [0..<g_ncpu s]"]
    by (simp_all add: launch_irq_def atLeast0LessThan)
qed

end
