(* ===== verification/Irqmp_Settle.thy ===== *)
theory Irqmp_Settle
  imports Irqmp_Props
begin

text \<open>
  The arbitration process of the interrupt controller runs only when its event has
  been notified.  This theory shows that every operation that changes what the
  arbitration depends on (but for reset and the level register) notifies it, so
  that between notifications every processor sees the line the rule selects.
\<close>

section \<open>No interrupt is lost between notifications\<close>

definition arbitrated :: "irqmp \<Rightarrow> bool" where
  "arbitrated s = (\<forall>c<g_ncpu s. irq_req s c = request (rget s IR_LEVEL) (all_for s c))"

definition settled :: "irqmp \<Rightarrow> bool" where
  "settled s = (irqmp_ok s \<and> requests_ok s \<and> g_eirq s = 0 \<and> (e_signal s = None \<longrightarrow> arbitrated s))"

text \<open>Writing the level register and the reset do not wake the arbitration.\<close>

fun rearbitrates :: "irqmp_event \<Rightarrow> bool" where
  "rearbitrates Reset = False"
| "rearbitrates (Bus_write a v) = (a \<noteq> IR_LEVEL)"
| "rearbitrates _ = True"

definition quiet :: "irqmp \<Rightarrow> irqmp \<Rightarrow> bool" where
  "quiet s t = (framed s t \<and> irq_req t = irq_req s \<and> e_signal t = e_signal s \<and>
     (\<forall>a\<in>{IR_LEVEL, IR_PENDING, IR_FORCE}. rget t a = rget s a) \<and>
     (\<forall>c<g_ncpu s. rget t (PROC_IR_MASK c) = rget s (PROC_IR_MASK c) \<and>
        rget t (PROC_IR_FORCE c) = rget s (PROC_IR_FORCE c)))"

lemma quiet_settled: "quiet s t \<Longrightarrow> settled s \<Longrightarrow> irqmp_ok t \<Longrightarrow> settled t"
proof -
  assume q: "quiet s t" and st: "settled s" and ok: "irqmp_ok t"
  have "all_for t c = all_for s c" if "c < g_ncpu s" for c
    by (rule all_for_cong) (use q that in \<open>auto simp: quiet_def framed_def\<close>)
  then show ?thesis using q st ok
    by (auto simp: settled_def quiet_def framed_def requests_ok_def arbitrated_def)
qed

lemma quiet_cpu_stat: "quiet s (s\<lparr>cpu_stat := p\<rparr>)"
proof -
  have "framed s (s\<lparr>cpu_stat := p\<rparr>)" by (rule framed_prims) (rule framed_refl)
  then show ?thesis by (simp add: quiet_def rget_def)
qed

lemma notified_settled:
  "irqmp_ok t \<Longrightarrow> requests_ok t \<Longrightarrow> framed s t \<Longrightarrow> settled s \<Longrightarrow> e_signal t \<noteq> None \<Longrightarrow> settled t"
  by (auto simp: settled_def framed_def)

lemma e_signal_notify [simp]: "e_signal (notify d s) \<noteq> None"
  by (simp add: notify_def split: option.splits)

lemma e_signal_notify_Some [simp]: "\<exists>d'. e_signal (notify d s) = Some d'"
  by (simp add: notify_def split: option.splits)

lemma requests_ok_prims [simp]:
  "requests_ok (rset a v s) = requests_ok s" "requests_ok (rset_bit a n b s) = requests_ok s"
  "requests_ok (notify d s) = requests_ok s"
  "requests_ok (s\<lparr>forcereg := f\<rparr>) = requests_ok s" "requests_ok (s\<lparr>m_irq_counter := g\<rparr>) = requests_ok s"
  "requests_ok (s\<lparr>ip_regs := r\<rparr>) = requests_ok s"
  by (simp_all add: requests_ok_def)

lemma requests_ok_deassert: "requests_ok s \<Longrightarrow> requests_ok (irq_req_write m (i, False) s)"
  by (auto simp: requests_ok_def irq_req_write_def selector_write_def)

lemma requests_ok_fold: "\<lbrakk>\<And>x s. requests_ok s \<Longrightarrow> requests_ok (f x s); requests_ok s\<rbrakk> \<Longrightarrow> requests_ok (fold f xs s)"
  by (induction xs arbitrary: s) auto

lemma requests_ok_lines: "requests_ok s \<Longrightarrow> requests_ok (deassert_lines lines s)"
  unfolding deassert_lines_def by (rule requests_ok_fold) (auto simp: requests_ok_deassert)

lemma requests_ok_incomming: "requests_ok s \<Longrightarrow> requests_ok (incomming_irq irq s)"
proof -
  have "requests_ok s \<Longrightarrow> requests_ok (broadcast_cpu line c s)" for line c s
    by (simp add: broadcast_cpu_def Let_def)
  then have "requests_ok s \<Longrightarrow> requests_ok (incomming_line lines line s)" for lines line s
    by (auto simp: incomming_line_def Let_def intro!: requests_ok_fold)
  then show "requests_ok s \<Longrightarrow> requests_ok (incomming_irq irq s)"
    by (auto simp: incomming_irq_def intro!: requests_ok_fold)
qed

lemma requests_ok_force_write: "requests_ok s \<Longrightarrow> requests_ok (force_write s)"
  unfolding force_write_def requests_ok_prims
  by (rule requests_ok_fold) (auto simp: force_cpu_def Let_def requests_ok_lines)

lemma requests_ok_clear_write: "requests_ok s \<Longrightarrow> requests_ok (clear_write s)"
proof -
  assume ok: "requests_ok s"
  have fold: "requests_ok (fst x) \<Longrightarrow> requests_ok (fst (fold clear_cpu cs x))" for cs x
    by (induction cs arbitrary: x) (auto simp: clear_cpu_def Let_def split: prod.splits)
  obtain t e where te: "fold clear_cpu [0..<g_ncpu s] (s, False) = (t, e)" by fastforce
  have "requests_ok t" using fold[of "(s, False)" "[0..<g_ncpu s]"] ok te by simp
  then show ?thesis
    unfolding clear_write_def te Let_def by (auto simp: requests_ok_lines requests_ok_deassert)
qed

lemma requests_ok_acknowledged: "requests_ok s \<Longrightarrow> acknowledged_irq irq cpu s = Some t \<Longrightarrow> requests_ok t"
  by (auto simp: acknowledged_irq_def Let_def requests_ok_deassert split: if_splits)

lemma e_signal_launch: "e_signal (launch_irq s) = None"
proof -
  have cpu: "e_signal (launch_cpu c u) = e_signal u" for c u
    by (simp add: launch_cpu_def Let_def irq_req_write_def rset_bit_def rset_def)
  have "e_signal (fold launch_cpu cs u) = e_signal u" for cs u
    by (induction cs arbitrary: u) (simp_all add: cpu)
  then show ?thesis by (simp add: launch_irq_def)
qed

lemma quiet_mpstat:
  assumes "regs_ok s"
  shows "quiet s (mpstat_write s)" and "quiet s (mpstat_read s)"
proof -
  have c: "c < 16" if "c < g_ncpu s" for c using regs_okD(6)[OF assms that] .
  have fold: "irq_req (fold (start_cpu st) xs t) = irq_req t \<and>
      e_signal (fold (start_cpu st) xs t) = e_signal t \<and>
      (\<forall>a. rget (fold (start_cpu st) xs t) a = rget t a)" for xs t st
    by (induction xs arbitrary: t) (auto simp: start_cpu_def)
  show "quiet s (mpstat_write s)"
    unfolding quiet_def using framed_handlers(5)[of s] fold
    by (simp add: mpstat_write_def)
  show "quiet s (mpstat_read s)"
    unfolding quiet_def using framed_handlers(6)[of s] c
    by (auto simp: mpstat_read_def Let_def rget_rset offsets) (simp add: rset_def)
qed

lemma acknowledged_notifies:
  assumes "acknowledged_irq irq cpu s = Some t"
  shows "e_signal t \<noteq> None"
proof -
  have cpu: "cpu < g_ncpu s" using assms by (simp add: acknowledged_irq_def split: if_splits)
  have "\<exists>u. the (acknowledged_irq irq cpu s) = notify 2 u"
    unfolding acknowledged_irq_def Let_def using cpu
    by (simp only: not_True_eq_False if_False option.sel) (rule exI, rule refl)
  then show ?thesis using assms by auto
qed

definition wakes :: "irqmp \<Rightarrow> bool" where
  "wakes s = (requests_ok s \<and> e_signal s \<noteq> None)"

lemma wakes_pending_write: "requests_ok s \<Longrightarrow> wakes (pending_write s)"
  by (simp add: wakes_def pending_write_def)

lemma wakes_clear_write: "requests_ok s \<Longrightarrow> wakes (clear_write s)"
  by (simp add: wakes_def requests_ok_clear_write) (simp add: clear_write_def Let_def split: prod.splits)

lemma wakes_force_write: "requests_ok s \<Longrightarrow> wakes (force_write s)"
  by (simp add: wakes_def requests_ok_force_write) (simp add: force_write_def)

lemma settled_bus_write:
  assumes "settled s" and "a \<noteq> IR_LEVEL"
  shows "settled (irqmp_bus_write a v s)"
proof -
  define t where "t = s\<lparr>ip_regs := sr_bus_write a v (ip_regs s)\<rparr>"
  have ok: "irqmp_ok s" and req: "requests_ok s" using assms(1) by (simp_all add: settled_def)
  have fr: "framed s t" unfolding t_def by (intro framed_intros)
  then have n: "g_ncpu t = g_ncpu s" by (simp add: framed_def)
  have regs: "regs_ok t" using ok regs_ok_framed[OF fr] by (simp add: irqmp_ok_def)
  have reqt: "requests_ok t" using req by (simp add: t_def)
  have fw: "framed s (irqmp_bus_write a v s)" by (rule framed_bus)
  have okw: "irqmp_ok (irqmp_bus_write a v s)" by (rule irqmp_ok_bus_write[OF ok])
  show ?thesis
  proof (cases "ip_regs s a = None")
    case True
    then show ?thesis using assms(1) by (simp add: irqmp_bus_write_def)
  next
    case False
    then have w: "irqmp_bus_write a v s = post_write a t"
      unfolding irqmp_bus_write_def t_def by (simp only: if_False)
    let ?inputs = "a = IR_PENDING \<or> a = IR_FORCE \<or> a \<in> set (map PROC_IR_MASK [0..<g_ncpu s]) \<or>
      a \<in> set (map PROC_IR_FORCE [0..<g_ncpu s])"
    show ?thesis
    proof (cases "?inputs \<or> a = IR_CLEAR")
      case True
      then have "a \<noteq> MP_STAT"
        using regs_okD(6)[OF regs] offsets_cpu_fixed[OF _ fixed_offsets_mem(5)] by (auto simp: n)
      with True have "wakes (post_write a t)"
        using wakes_pending_write[OF reqt] wakes_clear_write[OF reqt] wakes_force_write[OF reqt]
        unfolding post_write_def n by auto
      then show ?thesis using notified_settled[OF okw _ fw assms(1)] unfolding w wakes_def by blast
    next
      case inputs: False
      have "rget t b = rget s b" if "a \<noteq> b" for b
        using that by (simp add: t_def rget_bus_write)
      moreover have "irq_req t = irq_req s" "e_signal t = e_signal s" by (simp_all add: t_def)
      moreover have "a \<noteq> PROC_IR_MASK c" "a \<noteq> PROC_IR_FORCE c" if "c < g_ncpu s" for c
        using inputs that by auto
      ultimately have q: "quiet s t"
        unfolding quiet_def using fr inputs assms(2) by simp
      then have "force_ok t"
        using ok by (simp add: force_ok_def irqmp_ok_def quiet_def framed_def) (simp add: t_def)
      then have st: "settled t"
        using q assms(1) regs by (intro quiet_settled[of s t]) (simp_all add: irqmp_ok_def)
      have "quiet t (post_write a t)"
        using inputs quiet_mpstat[OF regs] by (auto simp: post_write_def n quiet_def)
      then show ?thesis using st okw unfolding w by (rule quiet_settled)
    qed
  qed
qed

lemma settled_step:
  assumes "irqmp_do e s = Some t" and "settled s" and "rearbitrates e"
  shows "settled t"
proof -
  have ok: "irqmp_ok s" and req: "requests_ok s" and eirq: "g_eirq s = 0"
    using assms(2) by (simp_all add: settled_def)
  then have regs: "regs_ok s" by (simp add: irqmp_ok_def)
  have okt: "irqmp_ok t" by (rule irqmp_ok_step[OF irqmp_step.intros[OF assms(1)] ok])
  show ?thesis
  proof (cases e)
    case Reset
    then show ?thesis using assms(3) by simp
  next
    case (Lines m v)
    show ?thesis
    proof (cases v)
      case True
      then have "e_signal t \<noteq> None" "requests_ok t" "framed s t"
        using assms(1) Lines requests_ok_incomming[OF req, of "(m, v)"] framed_handlers(2)[of s "(m, v)"]
        by (auto simp: incomming_irq_def)
      then show ?thesis using notified_settled[OF okt] assms(2) by blast
    qed (use assms Lines in \<open>simp add: incomming_irq_def\<close>)
  next
    case Arbitrate
    then have t: "t = launch_irq s" using assms(1) by (simp split: if_splits)
    have fr: "framed s t" unfolding t by (rule framed_handlers)
    have "all_for t c = all_for s c" for c
      using fr by (intro all_for_cong) (simp_all add: t launch_irq_requests(2)[OF regs req eirq] framed_def)
    then have "arbitrated t"
      using fr launch_irq_requests[OF regs req eirq] by (simp add: arbitrated_def t framed_def)
    then show ?thesis using okt fr eirq launch_irq_requests(3)[OF regs req eirq]
      by (simp add: settled_def t framed_def)
  next
    case (Acknowledge irq cpu)
    then have ack: "acknowledged_irq irq cpu s = Some t" using assms(1) by simp
    then have "e_signal t \<noteq> None" by (rule acknowledged_notifies)
    then show ?thesis
      using notified_settled[OF okt _ _ assms(2)] requests_ok_acknowledged[OF req ack]
        framed_acknowledged[OF ack] by blast
  next
    case (Bus_write a v)
    then show ?thesis using assms settled_bus_write by auto
  next
    case (Bus_read a)
    then have "t = s \<or> t = mpstat_read s"
      using assms(1) by (auto simp: irqmp_bus_read_def Let_def simp del: not_None_eq split: if_splits)
    then show ?thesis using quiet_settled[OF quiet_mpstat(2)[OF regs] assms(2)] okt assms(2) by blast
  next
    case (Cpu_status c b)
    then have t: "t = s\<lparr>cpu_stat := (cpu_stat s)(c := b)\<rparr>" using assms(1) by simp
    have "quiet s t" unfolding t by (rule quiet_cpu_stat)
    then show ?thesis using assms(2) okt by (rule quiet_settled)
  qed
qed

lemma settled_run: "irqmp_run es s = Some t \<Longrightarrow> settled s \<Longrightarrow> list_all rearbitrates es \<Longrightarrow> settled t"
  by (induction es arbitrary: s) (auto split: option.splits intro: settled_step)

lemma init_registers_base:
  "n \<le> 16 \<Longrightarrow> init_registers n IR_PENDING = Some \<lparr>sr_value = 0, sr_mask = 0xFFFFFFFE\<rparr> \<and>
    init_registers n IR_FORCE = Some \<lparr>sr_value = 0, sr_mask = 0xFFFE\<rparr> \<and>
    init_registers n BROADCAST = Some \<lparr>sr_value = 0, sr_mask = 0xFFFE\<rparr>"
proof (induction n)
  case 0
  have asym: "a \<noteq> 0x20 \<and> a \<noteq> 0x24 \<and> a \<noteq> 0x28" if "a \<in> fixed_offsets" for a
    using that by (auto simp: fixed_offsets_def IR_LEVEL_def IR_PENDING_def IR_FORCE_def IR_CLEAR_def
        MP_STAT_def BROADCAST_def)
  show ?case
    using asym[OF fixed_offsets_mem(2)] asym[OF fixed_offsets_mem(3)] asym[OF fixed_offsets_mem(6)]
    by (simp add: init_registers_def create_lookup IR_PENDING_EIP_def IR_PENDING_IP_def IR_FORCE_IF_def)
next
  case (Suc n)
  then have "a \<in> fixed_offsets \<Longrightarrow> init_registers (Suc n) a = init_registers n a" for a
    by (simp add: init_registers_Suc init_cpu_registers_def create_lookup offsets)
  with Suc show ?case by simp
qed

lemma init_registers_mask:
  "n \<le> 16 \<Longrightarrow> c < n \<Longrightarrow>
    init_registers n (PROC_IR_MASK c) = Some \<lparr>sr_value = 0xFFFFFFFE, sr_mask = 0xFFFFFFFE\<rparr>"
proof (induction n)
  case (Suc n)
  have fresh: "init_registers n (PROC_IR_MASK n) = None"
    using Suc.prems base_offsets_unat[of "PROC_IR_MASK n"]
    by (auto simp: init_registers_dom offset_unat offsets_cpu)
  have "n < 16" "c < 16" using Suc.prems by simp_all
  then show ?case using Suc fresh
    by (auto simp: init_registers_Suc init_cpu_registers_def create_lookup less_Suc_eq offsets_cpu)
qed simp

lemma settled_init: "n \<le> 16 \<Longrightarrow> settled (irqmp_init n 0)"
proof -
  assume n: "n \<le> 16"
  have "all_for (irqmp_init n 0) c = 0" if "c < n" for c
    using that n init_registers_base[OF n] init_registers_force[of n c]
    by (simp add: all_for_def pending_for_def eirq_enabled_def rget_def sr_get_def irqmp_init_def)
  moreover have "select_irq l 0 = 0" for l by (simp add: select_irq_none)
  ultimately show ?thesis
    using irqmp_ok_init[OF n, of 0]
    by (auto simp: settled_def requests_ok_def arbitrated_def request_def irqmp_init_def)
qed

section \<open>Where an incoming line goes\<close>

lemma sr_bit_any: "sr_bit v n = bit v n"
proof (cases "n < 32")
  case False
  have "push_bit n 1 = (0 :: u32)"
    using False by (intro bit_word_eqI) (simp add: bit_push_1 del: push_bit_of_1)
  then show ?thesis using False
    by (auto simp: sr_bit_def simp del: push_bit_of_1 dest: bit_imp_le_length)
qed (rule sr_bit_iff)

lemma line_in_mask: "l < 32 \<Longrightarrow> (push_bit l 1 AND m \<noteq> 0) = bit (m :: u32) l"
  using and_push_1[of l m] by (simp add: and.commute)

lemma fold_broadcast:
  assumes "regs_ok s" and "set cs \<subseteq> {..<g_ncpu s}"
  shows "(a \<in> fixed_offsets \<longrightarrow> rget (fold (broadcast_cpu l) cs s) a = rget s a) \<and>
    (d < g_ncpu s \<longrightarrow> rget (fold (broadcast_cpu l) cs s) (PROC_IR_MASK d) = rget s (PROC_IR_MASK d)) \<and>
    (d < g_ncpu s \<longrightarrow> bit (rget (fold (broadcast_cpu l) cs s) (PROC_IR_FORCE d)) k =
      (bit (rget s (PROC_IR_FORCE d)) k \<or> d \<in> set cs \<and> k = l \<and> l < 32))"
  using assms
proof (induction cs arbitrary: s)
  case (Cons c cs)
  have fr: "framed s (broadcast_cpu l c s)" by (intro framed_intros)
  then have n: "g_ncpu (broadcast_cpu l c s) = g_ncpu s" by (simp add: framed_def)
  have c: "c < g_ncpu s" "c < 16" using Cons.prems regs_okD(6)[OF Cons.prems(1)] by auto
  have "a \<in> fixed_offsets \<Longrightarrow> rget (broadcast_cpu l c s) a = rget s a"
    using c(2) by (simp add: broadcast_cpu_def Let_def rget_rset_bit offsets)
  moreover have "d < g_ncpu s \<Longrightarrow> rget (broadcast_cpu l c s) (PROC_IR_MASK d) = rget s (PROC_IR_MASK d)"
    using c(2) regs_okD(6)[OF Cons.prems(1), of d]
    by (simp add: broadcast_cpu_def Let_def rget_rset_bit offsets)
  moreover have "d < g_ncpu s \<Longrightarrow> bit (rget (broadcast_cpu l c s) (PROC_IR_FORCE d)) k =
      (bit (rget s (PROC_IR_FORCE d)) k \<or> d = c \<and> k = l \<and> l < 32)"
    using broadcast_cpu_force(2)[OF Cons.prems(1) c(1), where d = d and line = l]
      regs_okD(6)[OF Cons.prems(1), of d]
    by (auto simp: bit_sr_write_bit_any)
  ultimately show ?case
    using Cons.IH[of "broadcast_cpu l c s"] Cons.prems regs_ok_framed[OF fr] n by auto
qed simp

lemma incomming_line_routes:
  assumes "regs_ok s" and "l < 32"
  shows "rget (incomming_line m l s) BROADCAST = rget s BROADCAST"
    and "bit (rget (incomming_line m l s) IR_PENDING) k = (bit (rget s IR_PENDING) k \<or>
      k = l \<and> bit m l \<and> \<not> bit (rget s BROADCAST) (l + 1))"
    and "d < g_ncpu s \<Longrightarrow> bit (rget (incomming_line m l s) (PROC_IR_FORCE d)) k =
      (bit (rget s (PROC_IR_FORCE d)) k \<or> k = l \<and> bit m l \<and> bit (rget s BROADCAST) (l + 1) \<and> l < 16)"
    and "d < g_ncpu s \<Longrightarrow> rget (incomming_line m l s) (PROC_IR_MASK d) = rget s (PROC_IR_MASK d)"
proof -
  define t where "t = s\<lparr>m_irq_counter := (m_irq_counter s)(l := m_irq_counter s l + 1)\<rparr>"
  define u where "u = (if \<not> bit (rget t BROADCAST) (l + 1) then rset_bit IR_PENDING l True t else t)"
  have ku: "keeps_force s u" unfolding u_def t_def by (intro keeps_force_intros fixed_offsets_mem)
  then have fr: "framed s u" by (simp add: keeps_force_def)
  have ru: "regs_ok u" by (rule regs_ok_framed[OF fr assms(1)])
  have b: "rget u BROADCAST = rget s BROADCAST" by (simp add: u_def t_def rget_rset_bit)
  have at: "reg_at t IR_PENDING" using regs_okD(1)[OF assms(1)] by (simp add: t_def reg_at_def)
  have p: "bit (rget u IR_PENDING) k = (bit (rget s IR_PENDING) k \<or> k = l \<and> \<not> bit (rget s BROADCAST) (l + 1))"
    using assms(2) at by (auto simp: u_def rget_rset_bit bit_sr_write_bit_any) (simp_all add: t_def)
  have f: "d < g_ncpu s \<Longrightarrow> rget u (PROC_IR_FORCE d) = rget s (PROC_IR_FORCE d)"
    using ku regs_okD(6)[OF assms(1)] by (simp add: keeps_force_def)
  have line: "incomming_line m l s = (if bit m l
      then (if bit (rget u BROADCAST) (l + 1) \<and> l < 16
            then fold (broadcast_cpu l) [0..<g_ncpu u] u else u) else s)"
    unfolding incomming_line_def Let_def u_def t_def sr_bit_any line_in_mask[OF assms(2)] by (rule refl)
  have n: "g_ncpu u = g_ncpu s" using fr by (simp add: framed_def)
  have sub: "set [0..<g_ncpu u] \<subseteq> {..<g_ncpu u}" by auto
  note fold = fold_broadcast[OF ru sub]
  show "rget (incomming_line m l s) BROADCAST = rget s BROADCAST"
    using fold[where a = BROADCAST] b by (simp add: line)
  show "bit (rget (incomming_line m l s) IR_PENDING) k = (bit (rget s IR_PENDING) k \<or>
      k = l \<and> bit m l \<and> \<not> bit (rget s BROADCAST) (l + 1))"
    using fold[where a = IR_PENDING] p b by (simp add: line)
  show "d < g_ncpu s \<Longrightarrow> bit (rget (incomming_line m l s) (PROC_IR_FORCE d)) k =
      (bit (rget s (PROC_IR_FORCE d)) k \<or> k = l \<and> bit m l \<and> bit (rget s BROADCAST) (l + 1) \<and> l < 16)"
    using fold[where d = d and l = l and k = k] f b n assms(2) by (auto simp: line)
  show "d < g_ncpu s \<Longrightarrow> rget (incomming_line m l s) (PROC_IR_MASK d) = rget s (PROC_IR_MASK d)"
    using fold[where d = d and l = l] n regs_okD(6)[OF assms(1), of d]
    by (auto simp: line u_def t_def rget_rset_bit offsets)
qed

lemma incomming_irq_routes:
  assumes "regs_ok s"
  shows "rget (incomming_irq (m, True) s) BROADCAST = rget s BROADCAST"
    and "bit (rget (incomming_irq (m, True) s) IR_PENDING) k = (bit (rget s IR_PENDING) k \<or>
      bit m k \<and> \<not> bit (rget s BROADCAST) (k + 1))"
    and "d < g_ncpu s \<Longrightarrow> bit (rget (incomming_irq (m, True) s) (PROC_IR_FORCE d)) k =
      (bit (rget s (PROC_IR_FORCE d)) k \<or> bit m k \<and> bit (rget s BROADCAST) (k + 1) \<and> k < 16)"
    and "d < g_ncpu s \<Longrightarrow> rget (incomming_irq (m, True) s) (PROC_IR_MASK d) = rget s (PROC_IR_MASK d)"
proof -
  have fold: "rget (fold (incomming_line m) ls s) BROADCAST = rget s BROADCAST \<and>
      bit (rget (fold (incomming_line m) ls s) IR_PENDING) k = (bit (rget s IR_PENDING) k \<or>
        k \<in> set ls \<and> bit m k \<and> \<not> bit (rget s BROADCAST) (k + 1)) \<and>
      (d < g_ncpu s \<longrightarrow> bit (rget (fold (incomming_line m) ls s) (PROC_IR_FORCE d)) k =
        (bit (rget s (PROC_IR_FORCE d)) k \<or>
          k \<in> set ls \<and> bit m k \<and> bit (rget s BROADCAST) (k + 1) \<and> k < 16) \<and>
        rget (fold (incomming_line m) ls s) (PROC_IR_MASK d) = rget s (PROC_IR_MASK d))"
    if "regs_ok s" "set ls \<subseteq> {..<32}" for ls and s :: irqmp
    using that
  proof (induction ls arbitrary: s)
    case (Cons l ls)
    have fr: "framed s (incomming_line m l s)" by (intro framed_intros)
    then have n: "g_ncpu (incomming_line m l s) = g_ncpu s" by (simp add: framed_def)
    have l: "l < 32" using Cons.prems by simp
    show ?case
      using Cons.IH[OF regs_ok_framed[OF fr Cons.prems(1)]] Cons.prems(2)
        incomming_line_routes(1,2)[OF Cons.prems(1) l, where m = m]
        incomming_line_routes(3)[OF Cons.prems(1) l, where d = d and m = m and k = k]
        incomming_line_routes(4)[OF Cons.prems(1) l, where d = d and m = m] n
      by auto
  qed simp
  have l: "bit m k \<Longrightarrow> k < 32" by (auto dest: bit_imp_le_length)
  have sub: "set [0..<32] \<subseteq> {..<32 :: nat}" by auto
  show "rget (incomming_irq (m, True) s) BROADCAST = rget s BROADCAST"
    "bit (rget (incomming_irq (m, True) s) IR_PENDING) k = (bit (rget s IR_PENDING) k \<or>
      bit m k \<and> \<not> bit (rget s BROADCAST) (k + 1))"
    "d < g_ncpu s \<Longrightarrow> bit (rget (incomming_irq (m, True) s) (PROC_IR_FORCE d)) k =
      (bit (rget s (PROC_IR_FORCE d)) k \<or> bit m k \<and> bit (rget s BROADCAST) (k + 1) \<and> k < 16)"
    "d < g_ncpu s \<Longrightarrow> rget (incomming_irq (m, True) s) (PROC_IR_MASK d) = rget s (PROC_IR_MASK d)"
    using fold[OF assms sub] l by (auto simp: incomming_irq_def)
qed

section \<open>Acknowledging\<close>

lemma acknowledged_registers:
  assumes "regs_ok s" and "cpu < g_ncpu s" and "irq < 32" and "acknowledged_irq irq cpu s = Some t"
    and "g_eirq s = 0 \<or> rget s (PROC_EXTIR_ID cpu) = 0"
  shows "rget t IR_PENDING = sr_write_bit irq False (rget s IR_PENDING)"
    and "rget t IR_FORCE = sr_write_bit irq False (rget s IR_FORCE)"
    and "irq_req t = selector_write (g_ncpu s) (NOT 0) (of_nat irq, False) (irq_req s)"
    and "d < g_ncpu s \<Longrightarrow> d \<noteq> cpu \<Longrightarrow> rget t (PROC_EXTIR_ID d) = rget s (PROC_EXTIR_ID d)"
    and "rget t (PROC_EXTIR_ID cpu) = 0"
    and "d < g_ncpu s \<Longrightarrow> rget t (PROC_IR_MASK d) = rget s (PROC_IR_MASK d)"
proof -
  define w where "w = rset_bit (PROC_IR_FORCE cpu) irq False s"
  let ?w = "w\<lparr>forcereg := (forcereg w)(cpu := forcereg w cpu AND (NOT (push_bit irq 1) AND 0xFFFE))\<rparr>"
  have skip: "(if g_eirq s \<noteq> 0 \<and> rget s (PROC_EXTIR_ID cpu) \<noteq> 0 then u else s) = s" for u
    using assms(5) by auto
  have t: "t = notify 2 (rset (PROC_EXTIR_ID cpu) 0 (rset_bit IR_FORCE irq False
      (rset_bit IR_PENDING irq False (irq_req_write (NOT 0) (of_nat irq, False) ?w))))"
    using assms(2,4) unfolding acknowledged_irq_def Let_def skip w_def[symmetric]
    by (simp only: not_not if_False not_True_eq_False option.inject simp_thms)
  have fr: "framed s ?w" unfolding w_def by (intro framed_intros)
  then have at: "reg_at ?w a = reg_at s a" "g_ncpu ?w = g_ncpu s" for a by (simp_all add: framed_def)
  have ats: "reg_at (rset_bit a n b u) = reg_at u" "reg_at (irq_req_write m v u) = reg_at u" for a n b m v u
    by (auto simp: fun_eq_iff reg_at_def rset_bit_def rset_def irq_req_write_def)
  have ats': "reg_at (u\<lparr>forcereg := f\<rparr>) = reg_at u" for f u
    by (auto simp: fun_eq_iff reg_at_def)
  have c: "cpu < 16" "d < g_ncpu s \<Longrightarrow> d < 16" for d using regs_okD(6)[OF assms(1)] assms(2) by auto
  note regs = regs_okD(1,4)[OF assms(1)] assms(2)
  show "rget t IR_PENDING = sr_write_bit irq False (rget s IR_PENDING)"
      "rget t IR_FORCE = sr_write_bit irq False (rget s IR_FORCE)"
    unfolding t using regs c by (simp_all add: rget_rset rget_rset_bit offsets ats ats' at)
      (simp_all add: w_def rget_rset_bit offsets ats)
  show "rget t (PROC_EXTIR_ID cpu) = 0"
    unfolding t using regs c by (simp add: rget_rset offsets ats ats' w_def)
  show "d < g_ncpu s \<Longrightarrow> d \<noteq> cpu \<Longrightarrow> rget t (PROC_EXTIR_ID d) = rget s (PROC_EXTIR_ID d)"
    unfolding t using c by (simp add: rget_rset rget_rset_bit offsets w_def)
  show "d < g_ncpu s \<Longrightarrow> rget t (PROC_IR_MASK d) = rget s (PROC_IR_MASK d)"
    unfolding t using c by (simp add: rget_rset rget_rset_bit offsets w_def)
  show "irq_req t = selector_write (g_ncpu s) (NOT 0) (of_nat irq, False) (irq_req s)"
    unfolding t using at by (simp add: irq_req_write_def) (simp add: w_def)
qed

lemma selector_all: "n \<le> 32 \<Longrightarrow> c < n \<Longrightarrow> selector_write n (NOT 0) v out c = v"
  using and_push_1[of c "NOT 0"] by (simp add: selector_write_def del: push_bit_of_1)

lemma g_ncpu_init [simp]: "g_ncpu (irqmp_init n e) = n" "g_eirq (irqmp_init n e) = e"
  by (simp_all add: irqmp_init_def)

lemma broadcast_bus_write:
  assumes "regs_ok s"
  shows "rget (irqmp_bus_write BROADCAST v s) BROADCAST = v AND sr_mask_of (ip_regs s) BROADCAST"
proof -
  have "BROADCAST \<notin> set (map PROC_IR_MASK [0..<g_ncpu s])" "BROADCAST \<notin> set (map PROC_IR_FORCE [0..<g_ncpu s])"
    using regs_okD(6)[OF assms] offsets_cpu_fixed[OF _ fixed_offsets_mem(6)] by auto
  moreover have "ip_regs s BROADCAST \<noteq> None" "reg_at s BROADCAST"
    using regs_okD(1)[OF assms fixed_offsets_mem(6)] by (simp_all add: reg_at_def)
  ultimately show ?thesis
    by (auto simp: irqmp_bus_write_def post_write_def rget_bus_write)
qed

section \<open>The extended interrupt identification registers\<close>

lemma extid_init: "n \<le> 16 \<Longrightarrow> c < n \<Longrightarrow> rget (irqmp_init n e) (PROC_EXTIR_ID c) = 0"
proof -
  assume n: "n \<le> 16" and "c < n"
  moreover have "init_registers m a = Some g \<Longrightarrow> a = PROC_EXTIR_ID c \<Longrightarrow> c < 16 \<Longrightarrow> m \<le> 16 \<Longrightarrow> sr_value g = 0" for m a g
  proof (induction m)
    case 0
    have "unat a \<ge> 64" using 0 by (simp add: offset_unat)
    then have "a \<notin> base_offsets" using base_offsets_unat[of a] by fastforce
    then show ?case using 0 init_registers_dom[of 0 a] by simp
  next
    case (Suc m)
    then show ?case
      by (auto simp: init_registers_Suc init_cpu_registers_def create_lookup offsets split: if_splits)
  qed
  ultimately show ?thesis
    by (auto simp: rget_def sr_get_def irqmp_init_def split: option.splits)
qed

lemma extid_incomming:
  assumes "regs_ok s" and "c < g_ncpu s"
  shows "rget (incomming_irq irq s) (PROC_EXTIR_ID c) = rget s (PROC_EXTIR_ID c)"
proof -
  have c: "c < 16" by (rule regs_okD(6)[OF assms])
  have cpus: "rget (fold (broadcast_cpu l) cs u) (PROC_EXTIR_ID c) = rget u (PROC_EXTIR_ID c)"
    if "set cs \<subseteq> {..<16}" for l cs u
    using that c
    by (induction cs arbitrary: u) (simp_all add: broadcast_cpu_def Let_def rget_rset_bit offsets)
  have "rget (incomming_line m l u) (PROC_EXTIR_ID c) = rget u (PROC_EXTIR_ID c)" if "regs_ok u" for m l u
  proof -
    have "g_ncpu (rset_bit a n b v) = g_ncpu v" for a n b v by (simp add: rset_bit_def rset_def)
    moreover have "g_ncpu u \<le> 16" using that by (simp add: regs_ok_def)
    ultimately show ?thesis
      using c cpus[of "[0..<g_ncpu u]"]
      by (auto simp: incomming_line_def Let_def rget_rset_bit offsets atLeast0LessThan
          simp del: push_bit_of_1)
  qed
  moreover have "regs_ok u \<Longrightarrow> regs_ok (incomming_line m l u)" for m l u
    by (rule regs_ok_framed[OF framed_line[OF framed_refl]])
  ultimately have "regs_ok u \<Longrightarrow> rget (fold (incomming_line m) ls u) (PROC_EXTIR_ID c) = rget u (PROC_EXTIR_ID c)" for m ls u
    by (induction ls arbitrary: u) simp_all
  then show ?thesis using assms(1) by (simp add: incomming_irq_def)
qed

lemma extid_launch: "c < 16 \<Longrightarrow> rget (launch_irq s) (PROC_EXTIR_ID c) = rget s (PROC_EXTIR_ID c)"
proof -
  assume c: "c < 16"
  have cpu: "rget (launch_cpu d u) (PROC_EXTIR_ID c) = rget u (PROC_EXTIR_ID c)" for d u
    using c by (simp add: launch_cpu_def Let_def rget_rset_bit offsets)
  have "rget (fold launch_cpu cs u) (PROC_EXTIR_ID c) = rget u (PROC_EXTIR_ID c)" for cs u
    by (induction cs arbitrary: u) (simp_all add: cpu)
  then show ?thesis by (simp add: launch_irq_def)
qed

lemma extended_enabled:
  assumes "g_eirq s \<noteq> 0" and "bit (pending_for s cpu) k" and "16 \<le> k" and "k < 32"
  shows "eirq_enabled s cpu"
proof -
  have "bit IR_PENDING_EIP k"
  proof -
    have eip: "IR_PENDING_EIP = push_bit 16 (mask 16)" by (simp add: IR_PENDING_EIP_def mask_eq_exp_minus_1)
    show ?thesis unfolding eip bit_push_bit_iff bit_mask_iff using assms(3,4) by auto
  qed
  then have "bit ((pending_for s cpu OR x) AND IR_PENDING_EIP) k" for x
    using assms(2) by (simp add: bit_and_iff bit_or_iff)
  then have "(pending_for s cpu OR x) AND IR_PENDING_EIP \<noteq> 0" for x by (metis bit_0_eq bot_apply bot_bool_def)
  then show ?thesis using assms(1) by (simp add: eirq_enabled_def)
qed

section \<open>Writing a force register\<close>

lemma force_result_same: "force_agree f r \<Longrightarrow> force_result (f OR r) = r AND 0xFFFE"
proof -
  assume "force_agree f r"
  then have hi: "\<not> bit f k" "\<not> bit r k" if "16 \<le> k" for k using that by (simp_all add: force_agree_bits)
  have lo: "bit f k = bit r k" if "1 \<le> k" "k < 16" for k
    using \<open>force_agree f r\<close> that by (simp add: force_agree_bits)
  show ?thesis
    unfolding force_result_def
    by (intro bit_word_eqI, unfold bit_and_iff bit_or_iff bit_not_iff bit_FFFE bit_drop_bit_eq)
      (auto simp: hi lo)
qed

lemma force_result_new:
  "force_agree f r \<Longrightarrow>
    force_result (f OR (v AND 0xFFFEFFFE)) = ((r OR v) AND NOT (drop_bit 16 v)) AND 0xFFFE"
proof -
  assume "force_agree f r"
  then have hi: "\<not> bit f k" if "16 \<le> k" for k using that by (simp add: force_agree_bits)
  have lo: "bit f k = bit r k" if "1 \<le> k" "k < 16" for k
    using \<open>force_agree f r\<close> that by (simp add: force_agree_bits)
  have m: "bit (0xFFFEFFFE :: u32) k = (k < 32 \<and> k \<noteq> 0 \<and> k \<noteq> 16)" for k
  proof -
    have "(0xFFFEFFFE :: u32) = mask 32 AND NOT (push_bit 0 1) AND NOT (push_bit 16 1)"
      by (simp add: mask_eq_exp_minus_1)
    then show ?thesis by (simp only: bit_and_iff bit_not_iff bit_mask_iff bit_push_1) auto
  qed
  show ?thesis
    unfolding force_result_def
    by (intro bit_word_eqI, unfold bit_and_iff bit_or_iff bit_not_iff bit_FFFE bit_drop_bit_eq m)
      (auto simp: hi lo)
qed

lemma force_bus_write:
  assumes "irqmp_ok s" and "c < g_ncpu s"
  shows "rget (irqmp_bus_write (PROC_IR_FORCE c) v s) (PROC_IR_FORCE c) =
      ((rget s (PROC_IR_FORCE c) OR v) AND NOT (drop_bit 16 v)) AND 0xFFFE"
    and "forcereg (irqmp_bus_write (PROC_IR_FORCE c) v s) c =
      rget (irqmp_bus_write (PROC_IR_FORCE c) v s) (PROC_IR_FORCE c)"
    and "d < g_ncpu s \<Longrightarrow> d \<noteq> c \<Longrightarrow>
      rget (irqmp_bus_write (PROC_IR_FORCE c) v s) (PROC_IR_FORCE d) = rget s (PROC_IR_FORCE d) AND 0xFFFE"
    and "e_signal (irqmp_bus_write (PROC_IR_FORCE c) v s) \<noteq> None"
proof -
  let ?a = "PROC_IR_FORCE c"
  define t where "t = s\<lparr>ip_regs := sr_bus_write ?a v (ip_regs s)\<rparr>"
  have regs: "regs_ok s" and force: "force_ok s" using assms(1) by (simp_all add: irqmp_ok_def)
  have fr: "framed s t" unfolding t_def by (intro framed_intros)
  then have n: "g_ncpu t = g_ncpu s" and rt: "regs_ok t" by (simp add: framed_def) (rule regs_ok_framed[OF fr regs])
  have c: "c < 16" and at: "reg_at s ?a" and m: "sr_mask_of (ip_regs s) ?a = 0xFFFEFFFE"
    using regs_okD[OF regs] assms(2) by auto
  have "irqmp_bus_write ?a v s = post_write ?a t"
    using at unfolding irqmp_bus_write_def t_def reg_at_def by (simp only: if_False)
  moreover have "post_write ?a t = force_write t"
    using assms(2) c regs_okD(6)[OF regs] by (auto simp: post_write_def n offsets)
  ultimately have w: "irqmp_bus_write ?a v s = force_write t" by simp
  have rc: "rget t ?a = v AND 0xFFFEFFFE" and fc: "forcereg t = forcereg s"
    using at by (simp_all add: t_def rget_bus_write m)
  have rd: "d < g_ncpu s \<Longrightarrow> d \<noteq> c \<Longrightarrow> rget t (PROC_IR_FORCE d) = rget s (PROC_IR_FORCE d)" for d
    using c regs_okD(6)[OF regs] by (simp add: t_def rget_bus_write offsets)
  have agree: "d < g_ncpu s \<Longrightarrow> force_agree (forcereg s d) (rget s (PROC_IR_FORCE d))" for d
    using force by (simp add: force_ok_def)
  show "rget (irqmp_bus_write ?a v s) ?a = ((rget s ?a OR v) AND NOT (drop_bit 16 v)) AND 0xFFFE"
    using agree[OF assms(2)] assms(2)
    by (simp add: w force_write_force[OF rt] n rc fc force_result_new)
  show "forcereg (irqmp_bus_write ?a v s) c = rget (irqmp_bus_write ?a v s) ?a"
    using assms(2) by (simp add: w force_write_force[OF rt] n)
  show "d < g_ncpu s \<Longrightarrow> d \<noteq> c \<Longrightarrow>
      rget (irqmp_bus_write ?a v s) (PROC_IR_FORCE d) = rget s (PROC_IR_FORCE d) AND 0xFFFE"
    using agree[of d] by (simp add: w force_write_force[OF rt] n rd fc force_result_same)
  show "e_signal (irqmp_bus_write ?a v s) \<noteq> None"
    unfolding w force_write_def by (rule e_signal_notify)
qed

end
