(* ===== verification/Irqmp_Claims.thy ===== *)
theory Irqmp_Claims
  imports Irqmp_Settle
begin

text \<open>
  The properties of the interrupt controller, each with the state or the run at
  which its hypotheses hold.
\<close>

text \<open>(C11) In every state the controller can reach from construction, whatever the
  order of resets, interrupt lines, arbitrations, acknowledges and bus accesses:
  every register a handler names for a processor exists (so no handler raises
  \<^verbatim>\<open>std::out_of_range\<close>), the force register of every processor holds only lines, and
  the shadow \<^verbatim>\<open>forcereg\<close> agrees with it on the lines 1 to 15.\<close>

theorem irqmp_reachable_registers:
  assumes "irqmp_reachable ncpu eirq s" and "ncpu \<le> 16" and "c < ncpu"
  shows "ip_regs s (PROC_IR_MASK c) \<noteq> None \<and> ip_regs s (PROC_IR_FORCE c) \<noteq> None \<and>
    ip_regs s (PROC_EXTIR_ID c) \<noteq> None \<and>
    (\<forall>a\<in>{IR_LEVEL, IR_PENDING, IR_FORCE, IR_CLEAR, MP_STAT, BROADCAST}. ip_regs s a \<noteq> None) \<and>
    drop_bit 16 (rget s (PROC_IR_FORCE c)) = 0 \<and>
    forcereg s c AND 0xFFFE = rget s (PROC_IR_FORCE c) AND 0xFFFE"
proof (intro conjI)
  have ok: "regs_ok s" "force_ok s" and c: "c < g_ncpu s"
    using irqmp_reachable_ok[OF assms(1,2)] irqmp_reachable_ncpu[OF assms(1)] assms(3)
    by (simp_all add: irqmp_ok_def)
  show "ip_regs s (PROC_IR_MASK c) \<noteq> None" "ip_regs s (PROC_IR_FORCE c) \<noteq> None"
    "ip_regs s (PROC_EXTIR_ID c) \<noteq> None"
    using regs_okD(2-4)[OF ok(1) c] by (simp_all add: reg_at_def)
  show "\<forall>a\<in>{IR_LEVEL, IR_PENDING, IR_FORCE, IR_CLEAR, MP_STAT, BROADCAST}. ip_regs s a \<noteq> None"
    using regs_okD(1)[OF ok(1)] unfolding reg_at_def fixed_offsets_def by blast
  show "drop_bit 16 (rget s (PROC_IR_FORCE c)) = 0" "forcereg s c AND 0xFFFE = rget s (PROC_IR_FORCE c) AND 0xFFFE"
    using ok(2) c by (simp_all add: force_ok_def force_agree_def)
qed

theorem irqmp_reachable_registers_witness:
  "forcereg (dorst (irqmp_init 2 0)) 1 AND 0xFFFE =
    rget (dorst (irqmp_init 2 0)) (PROC_IR_FORCE 1) AND 0xFFFE"
proof -
  have "irqmp_reachable 2 0 (dorst (irqmp_init 2 0))"
    by (rule irqmp_reachable.step[OF irqmp_reachable.start irqmp_step.event[of Reset]]) simp
  from irqmp_reachable_registers[OF this, of 1] show ?thesis by simp
qed


text \<open>A run on two processors: the lines 3 and 5 are raised and arbitrated.\<close>

definition two_lines :: irqmp where
  "two_lines = launch_irq (incomming_irq (0x28, True) (irqmp_init 2 0))"


text \<open>Where raised lines go: a raised line \<^verbatim>\<open>k\<close> becomes pending unless bit \<^verbatim>\<open>k + 1\<close> of
  the broadcast register is set, in which case (below line 16) it is forced on
  every processor; nothing else becomes pending or forced.  The register is
  documented to broadcast line \<^verbatim>\<open>k\<close> by its bit \<^verbatim>\<open>k\<close>, so a broadcast set up for one
  line takes effect for the line below it.\<close>

theorem raised_lines_routed:
  assumes "irqmp_reachable ncpu eirq s" and "ncpu \<le> 16" and "c < ncpu"
  shows "bit (rget (incomming_irq (lines, True) s) IR_PENDING) k =
      (bit (rget s IR_PENDING) k \<or> bit lines k \<and> \<not> bit (rget s BROADCAST) (k + 1)) \<and>
    bit (rget (incomming_irq (lines, True) s) (PROC_IR_FORCE c)) k =
      (bit (rget s (PROC_IR_FORCE c)) k \<or> bit lines k \<and> bit (rget s BROADCAST) (k + 1) \<and> k < 16)"
  using irqmp_reachable_ok[OF assms(1,2)] irqmp_reachable_ncpu[OF assms(1)] assms(3)
  by (simp add: irqmp_ok_def incomming_irq_routes)

text \<open>Broadcasting is requested for line 6, and line 5 is broadcast.\<close>

theorem raised_lines_routed_witness:
  "let s = irqmp_bus_write BROADCAST 0x40 (irqmp_init 2 0)
   in bit (rget (incomming_irq (0x20, True) s) (PROC_IR_FORCE 1)) 5"
proof -
  let ?s = "irqmp_bus_write BROADCAST 0x40 (irqmp_init 2 0)"
  have r: "irqmp_reachable 2 0 ?s"
    by (rule irqmp_reachable.step[OF irqmp_reachable.start irqmp_step.event[of "Bus_write BROADCAST 0x40"]])
      simp
  have "rget ?s BROADCAST = 0x40 AND 0xFFFE"
    using broadcast_bus_write[OF regs_ok_init, of 2 "0x40" 0] init_registers_base[of 2]
    by (simp add: sr_mask_of_def) (simp add: irqmp_init_def)
  then show ?thesis using raised_lines_routed[OF r, of 1 "0x20" 5] by (simp add: Let_def)
qed

text \<open>Acknowledging line \<^verbatim>\<open>irq\<close> from processor \<^verbatim>\<open>cpu\<close> (no extended interrupt being
  identified) removes exactly that line from the pending register, the common
  force register and that processor's force register, leaves every other bit and
  every mask, withdraws the request of all processors and wakes the arbitration;
  an acknowledge from a processor the controller does not have raises.\<close>

lemma acknowledge_clears_line:
  assumes "irqmp_reachable ncpu eirq s" and "ncpu \<le> 16" and "cpu < ncpu" and "irq < 32"
    and "rget s (PROC_EXTIR_ID cpu) = 0" and "acknowledged_irq irq cpu s = Some t"
  shows "bit (rget t IR_PENDING) k = (k \<noteq> irq \<and> bit (rget s IR_PENDING) k) \<and>
    bit (rget t IR_FORCE) k = (k \<noteq> irq \<and> bit (rget s IR_FORCE) k) \<and>
    (\<forall>d<ncpu. bit (rget t (PROC_IR_FORCE d)) k =
        (\<not> (d = cpu \<and> k = irq) \<and> bit (rget s (PROC_IR_FORCE d)) k) \<and>
      rget t (PROC_IR_MASK d) = rget s (PROC_IR_MASK d) \<and> irq_req t d = (of_nat irq, False)) \<and>
    e_signal t \<noteq> None \<and> (\<forall>cpu'\<ge>ncpu. acknowledged_irq irq cpu' s = None)"
proof (intro conjI allI impI)
  have ok: "regs_ok s" and n: "g_ncpu s = ncpu"
    using irqmp_reachable_ok[OF assms(1,2)] irqmp_reachable_ncpu[OF assms(1)] by (simp_all add: irqmp_ok_def)
  have cpu: "cpu < g_ncpu s" using assms(3) by (simp add: n)
  note regs = acknowledged_registers[OF ok cpu assms(4,6) disjI2[OF assms(5)]]
  show "bit (rget t IR_PENDING) k = (k \<noteq> irq \<and> bit (rget s IR_PENDING) k)"
      "bit (rget t IR_FORCE) k = (k \<noteq> irq \<and> bit (rget s IR_FORCE) k)"
    using assms(4) by (simp_all add: regs(1,2) bit_sr_write_bit)
  show "bit (rget t (PROC_IR_FORCE d)) k =
      (\<not> (d = cpu \<and> k = irq) \<and> bit (rget s (PROC_IR_FORCE d)) k)" if "d < ncpu" for d
    using that acknowledged_force(2)[OF ok assms(6), of d] regs_okD(6)[OF ok, of d] assms(4)
    by (auto simp: n bit_sr_write_bit)
  show "rget t (PROC_IR_MASK d) = rget s (PROC_IR_MASK d)" if "d < ncpu" for d
    using that regs(6)[of d] by (simp add: n)
  show "irq_req t d = (of_nat irq, False)" if "d < ncpu" for d
    using that selector_all[of ncpu d] assms(2) by (simp add: regs(3) n)
  show "e_signal t \<noteq> None" by (rule acknowledged_notifies[OF assms(6)])
  show "acknowledged_irq irq cpu' s = None" if "ncpu \<le> cpu'" for cpu'
    using that by (simp add: acknowledged_irq_def n)
qed

text \<open>Writing a processor's force register through the bus: the lines set in the low
  half are added to the forced lines, those set in the high half are removed
  (removal wins), everything else is dropped; the shadow follows, the force
  registers of the other processors keep their lines, and arbitration is woken.\<close>

theorem force_register_write:
  assumes "irqmp_reachable ncpu eirq s" and "ncpu \<le> 16" and "c < ncpu"
    and "t = irqmp_bus_write (PROC_IR_FORCE c) v s"
  shows "rget t (PROC_IR_FORCE c) = ((rget s (PROC_IR_FORCE c) OR v) AND NOT (drop_bit 16 v)) AND 0xFFFE \<and>
    forcereg t c = rget t (PROC_IR_FORCE c) \<and>
    (\<forall>d<ncpu. d \<noteq> c \<longrightarrow> rget t (PROC_IR_FORCE d) = rget s (PROC_IR_FORCE d) AND 0xFFFE) \<and>
    e_signal t \<noteq> None"
  using force_bus_write[where s = s and c = c and v = v] irqmp_reachable_ok[OF assms(1,2)] irqmp_reachable_ncpu[OF assms(1)] assms(3)
  unfolding assms(4) by simp

theorem force_register_write_witness:
  "let t = irqmp_bus_write (PROC_IR_FORCE 1) 0x00020006 (irqmp_init 2 0)
   in rget t (PROC_IR_FORCE 1) = 4"
proof -
  have "rget (irqmp_init 2 0) (PROC_IR_FORCE 1) = 0"
    using init_registers_force[of 2 1] by (simp add: rget_def sr_get_def irqmp_init_def)
  then show ?thesis
    using force_register_write[OF irqmp_reachable.start _ _ refl, where ncpu = 2 and c = 1 and eirq = 0 and v = "0x00020006"]
    by (simp add: Let_def)
qed

text \<open>An extended interrupt is never identified and never goes away by being
  acknowledged: arbitration leaves every identification register as it is, and
  acknowledging the extended line on a processor whose identification register
  is 0 keeps every pending line above 15, so that the next arbitration drives
  that processor again.\<close>

theorem extended_interrupt_stays:
  assumes "irqmp_reachable ncpu eirq s" and "ncpu \<le> 16" and "cpu < ncpu" and "eirq \<in> {1..15}"
    and "rget s (PROC_EXTIR_ID cpu) = 0" and "acknowledged_irq eirq cpu s = Some t"
    and "16 \<le> k" and "bit (rget s IR_PENDING) k" and "bit (rget s (PROC_IR_MASK cpu)) k"
  shows "rget (launch_irq s) (PROC_EXTIR_ID cpu) = rget s (PROC_EXTIR_ID cpu) \<and>
    bit (rget t IR_PENDING) k \<and> request (rget t IR_LEVEL) (all_for t cpu) \<noteq> (0, False)"
proof (intro conjI)
  have ok: "regs_ok s" and n: "g_ncpu s = ncpu" "g_eirq s = eirq"
    using irqmp_reachable_ok[OF assms(1,2)] irqmp_reachable_ncpu[OF assms(1)] by (simp_all add: irqmp_ok_def)
  have cpu: "cpu < g_ncpu s" and e: "eirq < 32" using assms(3,4) by (simp_all add: n)
  note regs = acknowledged_registers[OF ok cpu e assms(6) disjI2[OF assms(5)]]
  show "rget (launch_irq s) (PROC_EXTIR_ID cpu) = rget s (PROC_EXTIR_ID cpu)"
    using extid_launch[of cpu s] regs_okD(6)[OF ok cpu] by simp
  have k: "k < 32" using assms(8) by (auto dest: bit_imp_le_length)
  show p: "bit (rget t IR_PENDING) k"
    using assms(4,7,8) e by (simp add: regs(1) bit_sr_write_bit)
  have "g_eirq t = eirq" using framed_acknowledged[OF assms(6)] n by (simp add: framed_def)
  moreover have "bit (pending_for t cpu) k"
    using p assms(9) regs(6)[OF cpu] by (simp add: pending_for_def bit_or_iff bit_and_iff)
  ultimately have "eirq_enabled t cpu"
    using extended_enabled[of t cpu k] assms(4,7) k by simp
  then have "bit (all_for t cpu) eirq"
    using \<open>g_eirq t = eirq\<close> e by (simp add: all_for_def bit_or_iff bit_push_1 del: push_bit_of_1)
  then show "request (rget t IR_LEVEL) (all_for t cpu) \<noteq> (0, False)"
    using select_irq_none[of "rget t IR_LEVEL" "all_for t cpu"] assms(4) by (auto simp: request_def Let_def)
qed

text \<open>Line 20 is raised on a single processor whose extended line is 1.\<close>

theorem extended_interrupt_stays_witness:
  "let s = incomming_irq (0x100000, True) (irqmp_init 1 1)
   in \<exists>t. acknowledged_irq 1 0 s = Some t \<and> request (rget t IR_LEVEL) (all_for t 0) \<noteq> (0, False)"
proof -
  let ?i = "irqmp_init 1 1"
  let ?s = "incomming_irq (0x100000, True) ?i"
  have ok: "regs_ok ?i" by (simp add: regs_ok_init)
  have r: "irqmp_reachable 1 1 ?s"
    by (rule irqmp_reachable.step[OF irqmp_reachable.start irqmp_step.event[of "Lines 0x100000 True"]]) simp
  have init: "rget ?i BROADCAST = 0" "rget ?i (PROC_IR_MASK 0) = 0xFFFFFFFE"
    using init_registers_base[of 1] init_registers_mask[of 1 0]
    by (simp_all add: rget_def sr_get_def irqmp_init_def)
  have ext: "rget ?s (PROC_EXTIR_ID 0) = 0"
    using extid_incomming[OF ok, of 0] extid_init[of 1 0 1] by simp
  have pend: "bit (rget ?s IR_PENDING) 20"
    using incomming_irq_routes(2)[OF ok, of "0x100000" 20] init by simp
  have msk: "bit (rget ?s (PROC_IR_MASK 0)) 20"
    using incomming_irq_routes(4)[OF ok, where d = 0 and m = "0x100000"] init by simp
  have "g_ncpu ?s = 1" using irqmp_reachable_ncpu[OF r] by simp
  then obtain t where t: "acknowledged_irq 1 0 ?s = Some t" by (simp add: acknowledged_irq_def Let_def)
  from extended_interrupt_stays[OF r _ _ _ ext t _ pend msk] t show ?thesis by (auto simp: Let_def)
qed

end
