(* ===== verification/Amba.thy ===== *)
theory Amba
  imports Prelude
begin

text \<open>
  What the bus models share (src/amba): the transaction they pass around, the bank
  address registers of an AHB device (amba.h, ahbdevice.tpp) with the address ranges
  and the plug-and-play record derived from them, and the same for an APB device
  (apbdevice.tpp).

  \<^verbatim>\<open>payload\<close> is the TLM 2.0 generic payload as far as the sources use it: command,
  address, data (its length is the data length), response status, the DMI hint and the
  extensions for cacheability, bus locking and erasure.
\<close>

section \<open>Transactions\<close>

datatype tlm_command = Read_command | Write_command | Ignore_command

datatype tlm_response = Incomplete_response | Ok_response | Address_error_response | Command_error_response

record payload =
  p_command :: tlm_command
  p_address :: u64
  p_data :: "u8 list"
  p_response :: tlm_response
  p_dmi :: bool
  p_cacheable :: bool
  p_lock :: bool
  p_erase :: bool

abbreviation p_length :: "payload \<Rightarrow> u32" where
  "p_length gp \<equiv> of_nat (length (p_data gp))"

lemma ucast_u64_u32 [simp]: "(ucast (ucast (a :: u32) :: u64) :: u32) = a"
  by (auto intro!: bit_word_eqI simp: bit_simps)

text \<open>The bytes of a 32-bit word on the little-endian host, and the word swapped by
  \<^verbatim>\<open>swap_Endianess\<close> (vendian.h).\<close>

definition host_bytes :: "u32 \<Rightarrow> u8 list" where
  "host_bytes w = [ucast w, ucast (drop_bit 8 w), ucast (drop_bit 16 w), ucast (drop_bit 24 w)]"

definition swap_Endianess :: "u32 \<Rightarrow> u32" where
  "swap_Endianess w = push_bit 24 (w AND 0xFF) OR push_bit 8 (w AND 0xFF00) OR
     (drop_bit 8 w AND 0xFF00) OR drop_bit 24 w"

lemma host_bytes_swap: "host_bytes (swap_Endianess w) = rev (host_bytes w)"
proof -
  have m: "(0xFF :: u32) = Bit_Operations.mask 8" "(0xFF00 :: u32) = push_bit 8 (Bit_Operations.mask 8)"
    by (simp_all add: mask_eq_exp_minus_1)
  show ?thesis
    unfolding host_bytes_def swap_Endianess_def m
    by (auto intro!: bit_word_eqI simp: bit_simps)
qed

section \<open>Bank address registers\<close>

datatype amba_device_type = NONE | APBIO | AHBMEM | AHBIO

definition type_code :: "amba_device_type \<Rightarrow> u32" where
  "type_code t = (case t of NONE \<Rightarrow> 0 | APBIO \<Rightarrow> 1 | AHBMEM \<Rightarrow> 2 | AHBIO \<Rightarrow> 3)"

text \<open>A bar as the device keeps it, its parameters 32 bits wide.\<close>

record bar =
  b_haddr :: u32
  b_hmask :: u32
  b_htype :: u32
  b_hcacheable :: bool
  b_hprefetchable :: bool

text \<open>\<^verbatim>\<open>toRegister\<close> takes the mask and the address at 16 bits.\<close>

definition toRegister :: "u32 \<Rightarrow> u16 \<Rightarrow> bool \<Rightarrow> bool \<Rightarrow> u16 \<Rightarrow> u32" where
  "toRegister type m cacheable prefetchable address =
     (type AND 0xFF) OR push_bit 4 (ucast m) OR push_bit 16 (int_of_bool cacheable) OR
     push_bit 17 (int_of_bool prefetchable) OR push_bit 20 (ucast address)"

section \<open>AHBDevice\<close>

record ahb_device =
  g_hindex :: u32
  g_hvendorid :: u8
  g_hdeviceid :: u16
  g_hversion :: u8
  g_hirq :: u8
  g_bar0 :: bar
  g_bar1 :: bar
  g_bar2 :: bar
  g_bar3 :: bar

text \<open>Every getter falls back to bar 0 for a number above 3.\<close>

definition select_bar :: "ahb_device \<Rightarrow> u32 \<Rightarrow> bar" where
  "select_bar d n = (if n = 0 then g_bar0 d else if n = 1 then g_bar1 d else if n = 2 then g_bar2 d
     else if n = 3 then g_bar3 d else g_bar0 d)"

definition get_ahb_bar_type :: "ahb_device \<Rightarrow> u32 \<Rightarrow> u32" where
  "get_ahb_bar_type d n = b_htype (select_bar d n) AND 0xF"

definition get_ahb_bar_base :: "ahb_device \<Rightarrow> u32 \<Rightarrow> u32" where
  "get_ahb_bar_base d n = b_haddr (select_bar d n) AND 0xFFF"

definition get_ahb_bar_mask :: "ahb_device \<Rightarrow> u32 \<Rightarrow> u32" where
  "get_ahb_bar_mask d n = b_hmask (select_bar d n) AND 0xFFF"

definition get_ahb_bar_addr :: "ahb_device \<Rightarrow> u32 \<Rightarrow> u32" where
  "get_ahb_bar_addr d n = push_bit 20 (get_ahb_bar_base d n AND get_ahb_bar_mask d n)"

definition get_ahb_bar_size :: "ahb_device \<Rightarrow> u32 \<Rightarrow> u32" where
  "get_ahb_bar_size d n = push_bit 20 ((NOT (get_ahb_bar_mask d n) AND 0xFFF) + 1)"

definition get_ahb_bar_relative_addr :: "ahb_device \<Rightarrow> u32 \<Rightarrow> u32 \<Rightarrow> u32" where
  "get_ahb_bar_relative_addr d n addr = addr - get_ahb_bar_addr d n"

definition get_ahb_base_addr :: "ahb_device \<Rightarrow> u64" where
  "get_ahb_base_addr d =
     (let addr = get_ahb_bar_addr d 0;
          addr = (if get_ahb_bar_addr d 1 \<noteq> 0 then min addr (get_ahb_bar_addr d 1) else addr);
          addr = (if get_ahb_bar_addr d 2 \<noteq> 0 then min addr (get_ahb_bar_addr d 2) else addr);
          addr = (if get_ahb_bar_addr d 3 \<noteq> 0 then min addr (get_ahb_bar_addr d 3) else addr)
      in ucast addr)"

text \<open>The total size keeps the highest bar's address and size; for the later bars the
  code stores the bar's address as its size.\<close>

definition size_step :: "ahb_device \<Rightarrow> u32 \<Rightarrow> u32 \<times> u32 \<times> u32 \<Rightarrow> u32 \<times> u32 \<times> u32" where
  "size_step d n = (\<lambda>(addr, sz, old).
     if get_ahb_bar_addr d n \<noteq> 0
     then (let addr = max addr (get_ahb_bar_addr d n)
           in if addr \<noteq> old then (addr, get_ahb_bar_addr d n, addr) else (addr, sz, old))
     else (addr, sz, old))"

definition get_ahb_size :: "ahb_device \<Rightarrow> u64" where
  "get_ahb_size d =
     (let (addr, sz, _) = size_step d 3 (size_step d 2 (size_step d 1
            (get_ahb_bar_addr d 0, get_ahb_bar_size d 0, get_ahb_bar_addr d 0)))
      in ucast (addr + sz) - get_ahb_base_addr d)"

text \<open>The plug-and-play record: the identification word and the four bars.\<close>

definition bar_register :: "bar \<Rightarrow> u32" where
  "bar_register b = toRegister (b_htype b AND 0xF) (ucast (b_hmask b)) (b_hcacheable b)
     (b_hprefetchable b) (ucast (b_haddr b))"

definition get_ahb_device_info :: "ahb_device \<Rightarrow> u32 list" where
  "get_ahb_device_info d =
     [(ucast (g_hirq d) AND 0x1F) OR push_bit 5 (ucast (g_hversion d) AND 0x1F) OR
        push_bit 12 (ucast (g_hdeviceid d) AND 0xFFF) OR push_bit 24 (ucast (g_hvendorid d)),
      0, 0, 0,
      bar_register (g_bar0 d), bar_register (g_bar1 d), bar_register (g_bar2 d), bar_register (g_bar3 d)]"

definition get_ahb_bar_cachable :: "u32 list \<Rightarrow> nat \<Rightarrow> bool" where
  "get_ahb_bar_cachable m_register n = (m_register ! (4 + n) AND push_bit 16 1 \<noteq> 0)"

section \<open>APBDevice\<close>

record apb_device =
  g_pindex :: u32
  g_pvendorid :: u8
  g_pdeviceid :: u16
  g_pversion :: u8
  g_pirq :: u8
  g_paddr :: u32
  g_pmask :: u32
  g_ptype :: u32
  g_pcacheable :: bool
  g_pprefetchable :: bool

definition get_apb_type :: "apb_device \<Rightarrow> u32" where
  "get_apb_type d = g_ptype d AND 0xF"

definition get_apb_base :: "apb_device \<Rightarrow> u32" where
  "get_apb_base d = g_paddr d AND 0xFFF"

definition get_apb_mask :: "apb_device \<Rightarrow> u32" where
  "get_apb_mask d = g_pmask d AND 0xFFF"

definition get_apb_base_addr :: "apb_device \<Rightarrow> u64" where
  "get_apb_base_addr d = ucast (push_bit 8 (get_apb_base d AND get_apb_mask d))"

definition get_apb_size :: "apb_device \<Rightarrow> u64" where
  "get_apb_size d = ucast (push_bit 8 ((NOT (get_apb_mask d) AND 0xFFF) + 1))"

definition get_apb_relative_addr :: "apb_device \<Rightarrow> u32 \<Rightarrow> u32" where
  "get_apb_relative_addr d addr = addr - push_bit 8 (get_apb_base d AND get_apb_mask d)"

definition get_apb_device_info :: "apb_device \<Rightarrow> u32 list" where
  "get_apb_device_info d =
     [(ucast (g_pirq d) AND 0x1F) OR push_bit 5 (ucast (g_pversion d) AND 0x1F) OR
        push_bit 12 (ucast (g_pdeviceid d) AND 0xFFF) OR push_bit 24 (ucast (g_pvendorid d)),
      (g_ptype d AND 0xF) OR push_bit 4 (g_pmask d) OR push_bit 16 (int_of_bool (g_pcacheable d)) OR
        push_bit 17 (int_of_bool (g_pprefetchable d)) OR push_bit 20 (g_paddr d)]"

lemma length_host_bytes [simp]: "length (host_bytes w) = 4"
  by (simp add: host_bytes_def)

end
