(* ===== verification/Bus_Decoder.thy ===== *)
theory Bus_Decoder
  imports Prelude
begin

text \<open>
  Address decoding as both bus controllers do it (src/gaisler/ahbctrl/ahbctrl.cpp and
  src/gaisler/apbctrl/apbctrl.cpp keep a copy each): a \<^verbatim>\<open>std::map\<close> from the twelve-bit
  addresses of the slaves to their masks, in front of it a cache with the entry that
  matched last.  The map is the list of its entries in iteration order.
\<close>

section \<open>Ordered maps\<close>

type_synonym 'v omap = "(u32 \<times> 'v) list"

text \<open>\<^verbatim>\<open>insert\<close> keeps an entry that is already there.\<close>

fun omap_insert :: "u32 \<Rightarrow> 'v \<Rightarrow> 'v omap \<Rightarrow> 'v omap" where
  "omap_insert k v [] = [(k, v)]"
| "omap_insert k v ((k', v') # m) =
     (if k < k' then (k, v) # (k', v') # m
      else if k = k' then (k', v') # m
      else (k', v') # omap_insert k v m)"

text \<open>\<^verbatim>\<open>--upper_bound(a)\<close>: the entry with the greatest key up to \<^verbatim>\<open>a\<close>; decrementing the
  first position is undefined.\<close>

definition omap_floor :: "u32 \<Rightarrow> 'v omap \<Rightarrow> (u32 \<times> 'v) option" where
  "omap_floor a m = (let below = takeWhile (\<lambda>(k, _). k \<le> a) m in if below = [] then None else Some (last below))"

definition omap_wf :: "'v omap \<Rightarrow> bool" where
  "omap_wf m = (sorted (map fst m) \<and> distinct (map fst m))"

lemma omap_wf_Nil [simp]: "omap_wf []"
  by (simp add: omap_wf_def)

lemma set_omap_insert_subset: "set (omap_insert k v m) \<subseteq> insert (k, v) (set m)"
  by (induction k v m rule: omap_insert.induct) auto

lemma set_omap_insert: "k \<notin> fst ` set m \<Longrightarrow> set (omap_insert k v m) = insert (k, v) (set m)"
  by (induction k v m rule: omap_insert.induct) auto

lemma omap_wf_Cons:
  "omap_wf ((k, v) # m) = ((\<forall>k' \<in> fst ` set m. k < k') \<and> omap_wf m)"
  by (auto simp: omap_wf_def order_less_le)

lemma omap_wf_insert: "omap_wf m \<Longrightarrow> omap_wf (omap_insert k v m)"
proof (induction m)
  case (Cons e m)
  obtain k' v' where e: "e = (k', v')" by (cases e)
  have sub: "fst ` set (omap_insert k v m) \<subseteq> insert k (fst ` set m)"
    using set_omap_insert_subset[of k v m] by force
  have m: "\<forall>k'' \<in> fst ` set m. k' < k''" "omap_wf m" "omap_wf (omap_insert k v m)"
    using Cons unfolding e omap_wf_Cons by auto
  consider "k < k'" | "k = k'" | "k' < k" by fastforce
  then show ?case
  proof cases
    case 1
    then show ?thesis using m unfolding e by (auto simp: omap_wf_Cons)
  next
    case 2
    then show ?thesis using Cons.prems unfolding e by simp
  next
    case 3
    have "\<forall>k'' \<in> fst ` set (omap_insert k v m). k' < k''"
      using sub m(1) 3 by blast
    moreover have "\<not> k < k'" "k \<noteq> k'" using 3 by auto
    ultimately show ?thesis using m(3) unfolding e by (simp add: omap_wf_Cons)
  qed
qed (simp add: omap_wf_def)

lemma omap_floor_Some:
  assumes "omap_wf m" and "omap_floor a m = Some (k, v)"
  shows "(k, v) \<in> set m" and "k \<le> a" and "\<And>k' v'. (k', v') \<in> set m \<Longrightarrow> k' \<le> a \<Longrightarrow> k' \<le> k"
proof -
  let ?b = "takeWhile (\<lambda>(k, _). k \<le> a) m"
  have ne: "?b \<noteq> []" and l: "last ?b = (k, v)"
    using assms(2) by (auto simp: omap_floor_def Let_def split: if_splits)
  then have in_b: "(k, v) \<in> set ?b" using last_in_set[OF ne] by simp
  then show "(k, v) \<in> set m" "k \<le> a" by (auto dest: set_takeWhileD)
  fix k' v' assume kv: "(k', v') \<in> set m" "k' \<le> a"
  have sorted: "sorted (map fst m)" using assms(1) by (simp add: omap_wf_def)
  have "(k', v') \<in> set ?b"
    using kv sorted by (induction m) force+
  moreover have sb: "sorted (map fst ?b)"
    using sorted sorted_append[of "map fst ?b" "map fst (dropWhile (\<lambda>(k, _). k \<le> a) m)"]
    by (simp flip: map_append)
  ultimately show "k' \<le> k"
    using l ne
  proof (induction ?b rule: rev_induct)
    case (snoc x xs)
    show ?case using snoc(2)[symmetric] snoc.prems by (auto simp: sorted_append)
  qed simp
qed

lemma omap_floor_None: "omap_wf m \<Longrightarrow> (omap_floor a m = None) = (\<forall>(k, v) \<in> set m. a < k)"
  by (cases m) (auto simp: omap_floor_def Let_def omap_wf_def takeWhile_eq_Nil_iff)

section \<open>Slaves and their regions\<close>

text \<open>A slave's entry: its bus index, its twelve-bit mask and its binding.\<close>

record slave_info =
  si_index :: u32
  si_mask :: u32
  si_binding :: u32

text \<open>The comparison of the decoders.\<close>

definition region_hit :: "u32 \<Rightarrow> u32 \<times> slave_info \<Rightarrow> bool" where
  "region_hit addr e = ((addr XOR fst e) AND si_mask (snd e) = 0)"

text \<open>The map a decoder is meant for: every address lies on a boundary of its mask, a
  mask clears a number of low bits, and no address belongs to two regions.\<close>

definition entry_wf :: "u32 \<times> slave_info \<Rightarrow> bool" where
  "entry_wf e = (fst e AND si_mask (snd e) = fst e \<and>
     (\<exists>n \<le> 12. si_mask (snd e) = 0xFFF AND NOT (Bit_Operations.mask n)))"

definition slave_map_wf :: "slave_info omap \<Rightarrow> bool" where
  "slave_map_wf m = (omap_wf m \<and> list_all entry_wf m \<and>
     (\<forall>e \<in> set m. \<forall>f \<in> set m. \<forall>a. region_hit a e \<and> region_hit a f \<longrightarrow> e = f))"

lemma xor_zero_iff: "((x :: 'a::len word) XOR y = 0) = (x = y)"
proof
  assume "x XOR y = 0"
  then have "(x XOR y) XOR y = y" by simp
  then show "x = y" by (simp add: xor.assoc)
qed simp

lemma hit_aligned: "entry_wf e \<Longrightarrow> region_hit a e = (a AND si_mask (snd e) = fst e)"
  unfolding region_hit_def entry_wf_def by (simp add: bit.conj_xor_distrib2 xor_zero_iff)

lemma hit_self: "entry_wf e \<Longrightarrow> region_hit (fst e) e"
  by (simp add: hit_aligned entry_wf_def)

lemma contiguous_mask:
  fixes a :: u32
  assumes "a \<le> 0xFFF"
  shows "unat (a AND (0xFFF AND NOT (Bit_Operations.mask n))) = unat a div 2 ^ n * 2 ^ n"
proof -
  have "a AND 0xFFF = a"
  proof -
    have "unat a < 2 ^ 12" using assms by (simp add: word_le_nat_alt)
    then have "a AND Bit_Operations.mask 12 = a"
      by (simp add: word_unat_eq_iff unsigned_take_bit_eq take_bit_nat_eq_self flip: take_bit_eq_mask)
    then show ?thesis by (simp add: mask_eq_exp_minus_1)
  qed
  then have "a AND (0xFFF AND NOT (Bit_Operations.mask n)) = a AND NOT (Bit_Operations.mask n)"
    by (simp flip: and.assoc)
  also have "\<dots> = push_bit n (drop_bit n a)"
    by (auto intro!: bit_word_eqI simp: bit_simps)
  also have "unat \<dots> = unat a div 2 ^ n * 2 ^ n"
  proof -
    have ua: "unat a < 2 ^ LENGTH(32)" by (rule unsigned_less)
    have "unat (push_bit n (drop_bit n a)) = take_bit 32 (push_bit n (drop_bit n (unat a)))"
      using ua by (simp add: unsigned_push_bit_eq unsigned_drop_bit_eq take_bit_nat_eq_self)
    also have "push_bit n (drop_bit n (unat a)) = unat a div 2 ^ n * 2 ^ n"
      by (simp add: push_bit_eq_mult drop_bit_eq_div)
    also have "take_bit 32 (unat a div 2 ^ n * 2 ^ n) = unat a div 2 ^ n * 2 ^ n"
    proof (rule take_bit_nat_eq_self)
      show "unat a div 2 ^ n * 2 ^ n < 2 ^ 32"
        using le_less_trans[OF div_times_less_eq_dividend[of "unat a" "2 ^ n"] ua] by simp
    qed
    finally show ?thesis .
  qed
  finally show ?thesis .
qed

text \<open>The entry with the greatest address is the only one that can match.\<close>

lemma floor_finds_region:
  assumes "slave_map_wf m" and "e \<in> set m" and "region_hit a e" and "a \<le> 0xFFF"
  shows "omap_floor a m = Some e"
proof -
  have wf: "entry_wf f" if "f \<in> set m" for f
    using assms(1) that by (simp add: slave_map_wf_def list_all_iff)
  obtain n where n: "si_mask (snd e) = 0xFFF AND NOT (Bit_Operations.mask n)"
    using wf[OF assms(2)] by (auto simp: entry_wf_def)
  have a: "a AND si_mask (snd e) = fst e" using assms(3) hit_aligned wf[OF assms(2)] by blast
  then have base: "unat (fst e) = unat a div 2 ^ n * 2 ^ n"
    using contiguous_mask[OF assms(4), of n] n by simp
  then have le: "fst e \<le> a" by (simp add: word_le_nat_alt)
  have omap: "omap_wf m" using assms(1) by (simp add: slave_map_wf_def)
  have "omap_floor a m \<noteq> None"
    using omap_floor_None[OF omap, of a] assms(2) le by (cases e) force
  then obtain f where f: "omap_floor a m = Some f" by blast
  then have fm: "f \<in> set m" "fst f \<le> a" "fst e \<le> fst f"
    using omap_floor_Some[OF omap, of a "fst f" "snd f"] assms(2) le by (cases e; auto)+
  have f12: "fst f \<le> 0xFFF" using fm(2) assms(4) by order
  have "unat (fst f) div 2 ^ n = unat a div 2 ^ n"
  proof (rule antisym)
    show "unat (fst f) div 2 ^ n \<le> unat a div 2 ^ n"
      using fm(2) by (simp add: div_le_mono word_le_nat_alt)
    have "unat (fst e) div 2 ^ n \<le> unat (fst f) div 2 ^ n"
      using fm(3) by (simp add: div_le_mono word_le_nat_alt)
    then show "unat a div 2 ^ n \<le> unat (fst f) div 2 ^ n" by (simp add: base)
  qed
  then have "unat (fst f AND si_mask (snd e)) = unat (fst e)"
    using contiguous_mask[OF f12, of n] n base by simp
  then have "region_hit (fst f) e"
    using hit_aligned[OF wf[OF assms(2)]] by (simp add: word_unat_eq_iff)
  then have "f = e"
    using assms(1,2) fm(1) hit_self[OF wf[OF fm(1)]] unfolding slave_map_wf_def by blast
  then show ?thesis using f by simp
qed

text \<open>The addresses of a region, for the decoder of the AHB controller: its base, and its
  size from the bits the mask leaves out.\<close>

definition region_base :: "u32 \<times> slave_info \<Rightarrow> nat" where
  "region_base e = unat (fst e) * 2 ^ 20"

definition region_size :: "u32 \<times> slave_info \<Rightarrow> nat" where
  "region_size e = 2 ^ 20 * (0x1000 - unat (si_mask (snd e)))"

lemma unat_12_bit_mask:
  assumes "n \<le> 12"
  shows "unat (0xFFF AND NOT (Bit_Operations.mask n) :: u32) = 0x1000 - 2 ^ n"
proof -
  have "n \<in> {0..12}" using assms by simp
  then have "n \<in> set [0..<13]" by auto
  moreover have "\<forall>n \<in> set [0..<13]. unat (0xFFF AND NOT (Bit_Operations.mask n) :: u32) = 0x1000 - 2 ^ n"
    by code_simp
  ultimately show ?thesis by blast
qed

lemma segment_div: "unat (drop_bit 20 (a :: u32)) = unat a div 2 ^ 20"
  by (simp add: drop_bit_eq_div unat_div)

lemma segment_12_bits: "drop_bit 20 (a :: u32) \<le> 0xFFF"
proof -
  have "unat a < 2 ^ LENGTH(32)" by (rule unsigned_less)
  then have "unat a div 2 ^ 20 < 2 ^ 12"
    by (simp add: less_mult_imp_div_less)
  then show ?thesis by (simp add: word_le_nat_alt drop_bit_eq_div unat_div)
qed

lemma div_eq_range: "0 < (S :: nat) \<Longrightarrow> (a div S = d) = (d * S \<le> a \<and> a < (d + 1) * S)"
  using div_nat_eqI[of S d a] dividend_less_times_div[of S a] div_times_less_eq_dividend[of a S]
  by (auto simp: algebra_simps)

lemma region_hit_range:
  assumes "entry_wf e"
  shows "region_hit (drop_bit 20 a) e = (region_base e \<le> unat a \<and> unat a < region_base e + region_size e)"
proof -
  obtain n where n: "n \<le> 12" "si_mask (snd e) = 0xFFF AND NOT (Bit_Operations.mask n)"
    using assms by (auto simp: entry_wf_def)
  let ?S = "2 ^ (20 + n) :: nat" and ?k = "unat (fst e)"
  have size: "region_size e = ?S"
  proof -
    have "(2 :: nat) ^ n \<le> 2 ^ 12" using n(1) by (rule power_increasing) simp
    then show ?thesis unfolding region_size_def n(2) unat_12_bit_mask[OF n(1)] by (simp add: power_add)
  qed
  have k: "?k div 2 ^ n * 2 ^ n = ?k"
  proof -
    have self: "fst e AND si_mask (snd e) = fst e" using assms by (simp add: entry_wf_def)
    have "fst e AND 0xFFF = (fst e AND (0xFFF AND NOT (Bit_Operations.mask n))) AND 0xFFF"
      using self unfolding n(2) by simp
    also have "\<dots> = fst e AND (0xFFF AND NOT (Bit_Operations.mask n))"
      by (auto intro!: bit_word_eqI simp: bit_simps)
    finally have "fst e AND 0xFFF = fst e" using self unfolding n(2) by simp
    moreover have "(0xFFF :: u32) = Bit_Operations.mask 12" by code_simp
    ultimately have "unat (fst e) < 2 ^ 12" using unat_and_mask_less[of 12 "fst e"] by simp
    then have "fst e \<le> 0xFFF" by (simp add: word_le_nat_alt)
    then show ?thesis using contiguous_mask[of "fst e" n] self unfolding n(2) by simp
  qed
  have "region_hit (drop_bit 20 a) e = (unat (drop_bit 20 a AND si_mask (snd e)) = ?k)"
    unfolding hit_aligned[OF assms] by (simp add: word_unat_eq_iff)
  also have "\<dots> = (unat a div ?S * 2 ^ n = ?k)"
    unfolding n(2) contiguous_mask[OF segment_12_bits] segment_div
    by (simp add: div_mult2_eq power_add)
  also have "\<dots> = (unat a div ?S = ?k div 2 ^ n)"
    using k by (metis nonzero_mult_div_cancel_right power_not_zero zero_neq_numeral)
  also have "\<dots> = (?k div 2 ^ n * ?S \<le> unat a \<and> unat a < (?k div 2 ^ n + 1) * ?S)"
    by (rule div_eq_range) simp
  also have "(?k div 2 ^ n + 1) * ?S = ?k div 2 ^ n * ?S + region_size e"
    unfolding size by (simp only: add_mult_distrib nat_mult_1)
  also have "?k div 2 ^ n * ?S = region_base e"
  proof -
    have "?k div 2 ^ n * ?S = (?k div 2 ^ n * 2 ^ n) * 2 ^ 20" by (simp only: power_add mult_ac)
    then show ?thesis unfolding k region_base_def .
  qed
  finally show ?thesis .
qed

text \<open>A map is well formed when this finite check succeeds: no two addresses agree on the
  bits both masks look at.\<close>

definition map_check :: "slave_info omap \<Rightarrow> bool" where
  "map_check m = (omap_wf m \<and> list_all (\<lambda>e. fst e AND si_mask (snd e) = fst e \<and>
       list_ex (\<lambda>n. si_mask (snd e) = 0xFFF AND NOT (Bit_Operations.mask n)) [0..<13]) m \<and>
     list_all (\<lambda>e. list_all (\<lambda>f. fst e = fst f \<or>
       fst e AND (si_mask (snd e) AND si_mask (snd f)) \<noteq> fst f AND (si_mask (snd e) AND si_mask (snd f))) m) m)"

lemma hit_both:
  assumes "region_hit a e" and "region_hit a f"
  shows "fst e AND (si_mask (snd e) AND si_mask (snd f)) = fst f AND (si_mask (snd e) AND si_mask (snd f))"
proof -
  let ?m = "si_mask (snd e)" and ?n = "si_mask (snd f)"
  have "a AND ?m = fst e AND ?m" "a AND ?n = fst f AND ?n"
    using assms unfolding region_hit_def bit.conj_xor_distrib2 xor_zero_iff by simp_all
  then have "a AND (?m AND ?n) = fst e AND (?m AND ?n)" "a AND (?n AND ?m) = fst f AND (?n AND ?m)"
    by (simp_all flip: and.assoc)
  then show ?thesis by (simp add: and.commute)
qed

lemma map_check_wf: assumes "map_check m" shows "slave_map_wf m"
proof -
  have omap: "omap_wf m" and check: "\<And>e. e \<in> set m \<Longrightarrow> fst e AND si_mask (snd e) = fst e \<and>
       list_ex (\<lambda>n. si_mask (snd e) = 0xFFF AND NOT (Bit_Operations.mask n)) [0..<13]"
      and apart: "\<And>e f. e \<in> set m \<Longrightarrow> f \<in> set m \<Longrightarrow> fst e = fst f \<or>
       fst e AND (si_mask (snd e) AND si_mask (snd f)) \<noteq> fst f AND (si_mask (snd e) AND si_mask (snd f))"
    using assms unfolding map_check_def list_all_iff by blast+
  have "list_all entry_wf m"
  proof -
    have "entry_wf e" if e: "e \<in> set m" for e
    proof -
      obtain n where "n \<in> set [0..<13]" "si_mask (snd e) = 0xFFF AND NOT (Bit_Operations.mask n)"
        using check[OF e] unfolding list_ex_iff by blast
      moreover from this have "n \<le> 12" by simp
      ultimately show ?thesis using check[OF e] unfolding entry_wf_def by blast
    qed
    then show ?thesis by (simp add: list_all_iff)
  qed
  moreover have "e = f" if "e \<in> set m" "f \<in> set m" "region_hit a e" "region_hit a f" for a e f
  proof -
    have "fst e = fst f" using apart[OF that(1,2)] hit_both[OF that(3,4)] by blast
    then show ?thesis
      using omap that(1,2) unfolding omap_wf_def distinct_map inj_on_def by blast
  qed
  ultimately show ?thesis using omap unfolding slave_map_wf_def by blast
qed

section \<open>The cached lookup\<close>

text \<open>The search of \<^verbatim>\<open>get_index\<close>: the cached entry first, then the map; a match in the map
  replaces the cached entry.  The result is the matching entry and the cache; \<^verbatim>\<open>None\<close> is
  the undefined decrement.\<close>

definition cached_lookup ::
    "u32 \<Rightarrow> u32 \<times> slave_info \<Rightarrow> slave_info omap \<Rightarrow> ((u32 \<times> slave_info) option \<times> (u32 \<times> slave_info)) option" where
  "cached_lookup addr cache m =
     (if region_hit addr cache then Some (Some cache, cache)
      else case omap_floor addr m of
          None \<Rightarrow> None
        | Some e \<Rightarrow> if region_hit addr e then Some (Some e, e) else Some (None, cache))"

text \<open>The cache of a fresh controller, which no twelve-bit address matches.\<close>

definition bogus_entry :: "u32 \<times> slave_info" where
  "bogus_entry = (NOT 0, \<lparr>si_index = 0, si_mask = NOT 0, si_binding = NOT 0\<rparr>)"

definition cache_wf :: "u32 \<times> slave_info \<Rightarrow> slave_info omap \<Rightarrow> bool" where
  "cache_wf c m = (c = bogus_entry \<or> c \<in> set m)"

lemma bogus_misses: "a \<le> 0xFFF \<Longrightarrow> \<not> region_hit a bogus_entry"
proof
  assume a: "a \<le> 0xFFF" and "region_hit a bogus_entry"
  then have "NOT a = 0" by (simp add: region_hit_def bogus_entry_def)
  then have "a = NOT 0" by (metis bit.double_compl)
  moreover have "\<not> (NOT 0 :: u32) \<le> 0xFFF" by code_simp
  ultimately show False using a by blast
qed

text \<open>Decoding without a cache.\<close>

definition matching :: "u32 \<Rightarrow> slave_info omap \<Rightarrow> (u32 \<times> slave_info) option" where
  "matching a m = find (region_hit a) m"

definition decodable :: "u32 \<Rightarrow> slave_info omap \<Rightarrow> bool" where
  "decodable a m = (\<exists>e \<in> set m. fst e \<le> a)"

lemma matching_Some:
  assumes "slave_map_wf m"
  shows "matching a m = Some e \<longleftrightarrow> e \<in> set m \<and> region_hit a e"
proof
  assume "matching a m = Some e"
  then show "e \<in> set m \<and> region_hit a e"
    unfolding matching_def by (metis find_Some_iff nth_mem)
next
  assume e: "e \<in> set m \<and> region_hit a e"
  then have "matching a m \<noteq> None" by (metis find_None_iff matching_def)
  then obtain f where f: "matching a m = Some f" by blast
  then have "f \<in> set m \<and> region_hit a f" unfolding matching_def by (metis find_Some_iff nth_mem)
  then have "f = e" using assms e unfolding slave_map_wf_def by blast
  then show "matching a m = Some e" using f by simp
qed

lemma cached_lookup_correct:
  assumes "slave_map_wf m" and "cache_wf c m" and "a \<le> 0xFFF" and "decodable a m"
  shows "\<exists>c'. cached_lookup a c m = Some (matching a m, c') \<and> cache_wf c' m"
proof (cases "region_hit a c")
  case True
  then have "c \<in> set m" using assms(2,3) bogus_misses by (auto simp: cache_wf_def)
  then show ?thesis
    using True assms(1,2) by (simp add: cached_lookup_def matching_Some[THEN iffD2])
next
  case miss: False
  show ?thesis
  proof (cases "matching a m")
    case None
    have omap: "omap_wf m" using assms(1) by (simp add: slave_map_wf_def)
    obtain e where e: "omap_floor a m = Some e"
      using omap_floor_None[OF omap, of a] assms(4) by (fastforce simp: decodable_def)
    then have "e \<in> set m" using omap_floor_Some(1)[OF omap, of a "fst e" "snd e"] by simp
    then have "\<not> region_hit a e" using None by (metis find_None_iff matching_def)
    then show ?thesis using miss e None assms(2) by (simp add: cached_lookup_def)
  next
    case (Some e)
    then have "e \<in> set m" "region_hit a e" using matching_Some[OF assms(1)] by blast+
    then show ?thesis
      using miss Some floor_finds_region[OF assms(1) _ _ assms(3)]
      by (simp add: cached_lookup_def cache_wf_def)
  qed
qed

section \<open>The decoder interface\<close>

text \<open>What the transports of both controllers rely on: a lookup finds the target of the
  region an address lies in, whatever was looked up before.\<close>

locale address_decoder =
  fixes lookup :: "u32 \<Rightarrow> 's \<Rightarrow> (int \<times> 's) option"
    and ready :: "'s \<Rightarrow> bool"
    and regions :: "'s \<Rightarrow> slave_info omap"
    and segment :: "u32 \<Rightarrow> u32"
    and target :: "u32 \<times> slave_info \<Rightarrow> int"
  assumes lookup_ok: "\<lbrakk>ready s; decodable (segment a) (regions s)\<rbrakk> \<Longrightarrow>
      \<exists>s'. lookup a s = Some (case matching (segment a) (regions s) of Some e \<Rightarrow> target e | None \<Rightarrow> -1, s') \<and>
        ready s' \<and> regions s' = regions s"
begin

fun lookups :: "u32 list \<Rightarrow> 's \<Rightarrow> int list option" where
  "lookups [] s = Some []"
| "lookups (a # as) s = (case lookup a s of None \<Rightarrow> None | Some (i, s') \<Rightarrow> map_option ((#) i) (lookups as s'))"

lemma lookups_history_free:
  assumes "ready s" and "\<forall>a \<in> set as. decodable (segment a) (regions s)"
  shows "lookups as s = Some (map (\<lambda>a. case matching (segment a) (regions s) of Some e \<Rightarrow> target e | None \<Rightarrow> -1) as)"
  using assms
proof (induction "as" arbitrary: s)
  case (Cons a "as")
  obtain s' where s': "lookup a s = Some (case matching (segment a) (regions s) of Some e \<Rightarrow> target e | None \<Rightarrow> -1, s')"
      "ready s'" "regions s' = regions s"
    using lookup_ok[of s a] Cons.prems by auto
  then show ?case using Cons.IH[of s'] Cons.prems by simp
qed simp

end

section \<open>Checking the memory map\<close>

text \<open>\<^verbatim>\<open>checkMemMap\<close>: the ranges of the slaves by their start addresses, where a second
  range with the same start is dropped, and a report for each range that starts before
  the previous one ends.\<close>

record check_slave =
  cs_start :: u32
  cs_end :: u32
  cs_index :: u32

fun check_adjacent :: "check_slave \<Rightarrow> (u32 \<times> check_slave) list \<Rightarrow> (u32 \<times> u32) list" where
  "check_adjacent prev [] = []"
| "check_adjacent prev ((k, cur) # rest) =
     (if cs_index prev \<noteq> NOT 0 \<and> (cs_start cur \<le> cs_start prev \<or> cs_start cur \<le> cs_end prev)
      then [(cs_index prev, cs_index cur)] else [])
     @ check_adjacent cur rest"

definition check_range :: "nat \<Rightarrow> u32 \<Rightarrow> u32 \<times> slave_info \<Rightarrow> check_slave" where
  "check_range n index e =
     (let start = push_bit n (fst e AND si_mask (snd e));
          sz = push_bit n ((NOT (si_mask (snd e)) AND 0xFFF) + 1)
      in \<lparr>cs_start = start, cs_end = start + sz - 1, cs_index = index\<rparr>)"

definition check_map :: "nat \<Rightarrow> (slave_info \<Rightarrow> u32) \<Rightarrow> slave_info omap \<Rightarrow> (u32 \<times> u32) list" where
  "check_map n index m =
     check_adjacent \<lparr>cs_start = 0, cs_end = 0, cs_index = NOT 0\<rparr>
       (fold (\<lambda>e slaves. let r = check_range n (index (snd e)) e in omap_insert (cs_start r) r slaves) m [])"

end
