(* ===== verification/Ahbctrl.thy ===== *)
theory Ahbctrl
  imports Amba Bus_Decoder
begin

text \<open>
  The AHB controller (src/gaisler/ahbctrl/ahbctrl.cpp): address decoding, the
  plug-and-play area, the blocking transport of the loosely timed mode, the debug
  transport, the collection of the slaves at the start of the simulation with the check
  of the memory map, and for the approximately timed mode the arbiter and the threads
  around it.

  A slave is reached through its socket: a function from the transaction and the state of
  everything behind the bus.  Time passes in \<^verbatim>\<open>wait\<close>; the blocking transport holds
  \<^verbatim>\<open>busy\<close> from its first to its last statement, so it is one step for everybody who
  uses the bus.  What \<^verbatim>\<open>wait\<close> is called with is part of the result.
\<close>

section \<open>State\<close>

datatype trans_state = TRANS_INIT | TRANS_PENDING | TRANS_SCHEDULED

datatype dbus_state = IDLE | RESPONSE | WAITSTATES

text \<open>An entry of the request and response maps; the transaction is the number the
  simulation knows it by.\<close>

record connection =
  cn_master :: u32
  cn_slave :: int
  cn_state :: trans_state
  cn_trans :: nat

record ahbctrl =
  g_ioaddr :: u32
  g_iomask :: u32
  g_cfgaddr :: u32
  g_cfgmask :: u32
  g_rrobin :: bool
  g_fpnpen :: bool
  g_mcheck :: bool
  g_pow_mon :: bool
  slave_map :: "slave_info omap"
  slave_map_cache :: "u32 \<times> slave_info"
  mSlaves :: "u32 list option list"
  mMasters :: "u32 list option list"
  num_of_slave_bindings :: u32
  num_of_master_bindings :: u32
  busy :: bool
  is_lock :: bool
  lock_master :: u32
  total_transactions :: u64
  right_transactions :: u64
  bus_writes :: u64
  bus_reads :: u64
  bus_dyn_writes :: u64
  bus_dyn_reads :: u64
  robin :: u32
  request_map :: "connection list"
  response_map :: "connection list"
  address_bus_owner :: int
  data_bus_state :: dbus_state
  arbitrated :: u64
  idle_count :: u64

text \<open>The transaction a master sends is also written to the snoop socket.\<close>

record snoop_info =
  sn_master :: u32
  sn_address :: u32
  sn_length :: u32

section \<open>Decoding\<close>

definition setAddressMap :: "u32 \<Rightarrow> u32 \<Rightarrow> u32 \<Rightarrow> u32 \<Rightarrow> ahbctrl \<Rightarrow> ahbctrl" where
  "setAddressMap binding hindex haddr hmask c =
     c\<lparr>slave_map := omap_insert haddr \<lparr>si_index = hindex, si_mask = hmask, si_binding = binding\<rparr> (slave_map c)\<rparr>"

definition get_index :: "u32 \<Rightarrow> ahbctrl \<Rightarrow> (int \<times> ahbctrl) option" where
  "get_index address c =
     (let c = c\<lparr>total_transactions := total_transactions c + 1\<rparr>;
          addr = drop_bit 20 address
      in case cached_lookup addr (slave_map_cache c) (slave_map c) of
           None \<Rightarrow> None
         | Some (Some e, cache) \<Rightarrow>
             Some (uint (drop_bit 2 (si_binding (snd e))),
               c\<lparr>slave_map_cache := cache, right_transactions := right_transactions c + 1\<rparr>)
         | Some (None, cache) \<Rightarrow> Some (-1, c\<lparr>slave_map_cache := cache\<rparr>))"

section \<open>The plug-and-play area\<close>

definition pnp_base :: "ahbctrl \<Rightarrow> u32" where
  "pnp_base c = push_bit 20 (g_ioaddr c) OR push_bit 8 (g_cfgaddr c)"

definition pnp_mask :: "ahbctrl \<Rightarrow> u32" where
  "pnp_mask c = push_bit 20 (g_iomask c) OR push_bit 8 (g_cfgmask c)"

definition is_pnp :: "ahbctrl \<Rightarrow> u32 \<Rightarrow> bool" where
  "is_pnp c addr = (g_fpnpen c \<and> (addr XOR pnp_base c) AND pnp_mask c = 0)"

text \<open>\<^verbatim>\<open>None\<close> is an index outside one of the two arrays.\<close>

definition pnp_entry :: "u32 list option list \<Rightarrow> u32 \<Rightarrow> u32 \<Rightarrow> u32 option" where
  "pnp_entry devices device offset =
     (if unat device < length devices
      then (case devices ! unat device of
              None \<Rightarrow> Some 0
            | Some info \<Rightarrow> if unat offset < length info then Some (info ! unat offset) else None)
      else None)"

definition getPNPReg :: "u32 \<Rightarrow> ahbctrl \<Rightarrow> (u32 \<times> ahbctrl) option" where
  "getPNPReg address c =
     (let c = c\<lparr>total_transactions := total_transactions c + 1\<rparr>
      in if address \<ge> 0xFFFFFFF0 \<and> address \<le> 0xFFFFFFF3 then Some (0x30100000, c)
         else let addr = address - (pnp_base c AND pnp_mask c)
              in if addr \<ge> 0x800
                 then let addr = addr - 0x800;
                          device = drop_bit 3 (drop_bit 2 addr);
                          offset = drop_bit 2 addr AND 7
                      in if device \<ge> num_of_slave_bindings c then Some (0, c)
                         else map_option (\<lambda>r. (swap_Endianess r, c\<lparr>right_transactions := right_transactions c + 1\<rparr>))
                                (pnp_entry (mSlaves c) device offset)
                 else let device = drop_bit 3 (drop_bit 2 addr);
                          offset = drop_bit 2 addr AND 7
                      in if device \<ge> num_of_master_bindings c then Some (0, c)
                         else map_option (\<lambda>r. (swap_Endianess r, c)) (pnp_entry (mMasters c) device offset))"

text \<open>The loop over the bytes of a configuration read.\<close>

fun pnp_bytes :: "u32 \<Rightarrow> nat \<Rightarrow> ahbctrl \<Rightarrow> (u8 list \<times> ahbctrl) option" where
  "pnp_bytes addr 0 c = Some ([], c)"
| "pnp_bytes addr (Suc n) c =
     (case getPNPReg addr c of
        None \<Rightarrow> None
      | Some (reg, c) \<Rightarrow>
          map_option (\<lambda>(ds, c). (host_bytes reg ! unat (addr AND 3) # ds, c)) (pnp_bytes (addr + 1) n c))"

section \<open>The transports\<close>

definition transport_statistics :: "payload \<Rightarrow> ahbctrl \<Rightarrow> ahbctrl" where
  "transport_statistics gp c =
     (case p_command gp of
        Write_command \<Rightarrow> c\<lparr>bus_writes := bus_writes c + ucast (p_length gp),
          bus_dyn_writes := bus_dyn_writes c + (if g_pow_mon c then ucast (drop_bit 2 (p_length gp) + 1) else 0)\<rparr>
      | Read_command \<Rightarrow> c\<lparr>bus_reads := bus_reads c + ucast (p_length gp),
          bus_dyn_reads := bus_dyn_reads c + (if g_pow_mon c then ucast (drop_bit 2 (p_length gp) + 1) else 0)\<rparr>
      | Ignore_command \<Rightarrow> c)"

type_synonym 'w slaves = "nat \<Rightarrow> payload \<Rightarrow> 'w \<Rightarrow> (u32 \<times> payload \<times> 'w) option"

definition must_wait :: "u32 \<Rightarrow> ahbctrl \<Rightarrow> bool" where
  "must_wait master c = (busy c \<or> (is_lock c \<and> master \<noteq> lock_master c))"

text \<open>The result of a transport: the clock cycles it waited, the transaction, what was
  written to the snoop socket, and both states.\<close>

definition ahb_b_transport ::
    "'w slaves \<Rightarrow> u32 \<Rightarrow> payload \<Rightarrow> nat \<Rightarrow> ahbctrl \<Rightarrow> 'w
      \<Rightarrow> (nat \<times> payload \<times> snoop_info option \<times> ahbctrl \<times> 'w) option" where
  "ahb_b_transport slaves master gp delay c w =
     (let c = transport_statistics gp (c\<lparr>busy := True, is_lock := p_lock gp, lock_master := master\<rparr>);
          addr = ucast (p_address gp)
      in if is_pnp c addr
         then (if p_command gp = Read_command
               then map_option (\<lambda>(d, c). (delay + length (p_data gp), gp\<lparr>p_data := d, p_response := Ok_response\<rparr>,
                        None, c\<lparr>busy := False\<rparr>, w))
                      (pnp_bytes addr (length (p_data gp)) c)
               else Some (0, gp\<lparr>p_response := Command_error_response\<rparr>, None, c\<lparr>busy := False\<rparr>, w))
         else case get_index addr c of
             None \<Rightarrow> None
           | Some (i, c) \<Rightarrow>
               if i \<ge> 0
               then map_option (\<lambda>(cycles, gp', w).
                        (delay + 1 + unat cycles, gp',
                         if p_command gp' = Write_command
                         then Some \<lparr>sn_master = master, sn_address = addr, sn_length = p_length gp\<rparr> else None,
                         c\<lparr>busy := False\<rparr>, w))
                      (slaves (nat i) gp w)
               else Some (delay, gp\<lparr>p_response := Address_error_response\<rparr>, None, c\<lparr>busy := False\<rparr>, w))"

definition ahb_transport_dbg ::
    "'w slaves \<Rightarrow> payload \<Rightarrow> ahbctrl \<Rightarrow> 'w \<Rightarrow> (u32 \<times> payload \<times> ahbctrl \<times> 'w) option" where
  "ahb_transport_dbg slaves_dbg gp c w =
     (let addr = ucast (p_address gp)
      in if is_pnp c addr
         then (if p_command gp = Read_command
               then map_option (\<lambda>(d, c). (p_length gp, gp\<lparr>p_data := d, p_response := Ok_response\<rparr>, c, w))
                      (pnp_bytes addr (length (p_data gp)) c)
               else Some (0, gp\<lparr>p_response := Command_error_response\<rparr>, c, w))
         else case get_index addr c of
             None \<Rightarrow> None
           | Some (i, c) \<Rightarrow>
               if i \<ge> 0 then map_option (\<lambda>(n, gp, w). (n, gp, c, w)) (slaves_dbg (nat i) gp w)
               else Some (0, gp\<lparr>p_response := Address_error_response\<rparr>, c, w))"

section \<open>Start of the simulation\<close>

definition bind_bar :: "nat \<Rightarrow> ahb_device \<Rightarrow> nat \<Rightarrow> ahbctrl \<Rightarrow> ahbctrl" where
  "bind_bar i d j c =
     (if get_ahb_bar_type d (of_nat j) \<noteq> 0
      then setAddressMap (of_nat (4 * i + j)) (g_hindex d)
             (get_ahb_bar_base d (of_nat j)) (get_ahb_bar_mask d (of_nat j)) c
      else c)"

fun bind_slaves :: "nat \<Rightarrow> ahb_device list \<Rightarrow> ahbctrl \<Rightarrow> ahbctrl option" where
  "bind_slaves i [] c = Some c"
| "bind_slaves i (d # ds) c =
     (if g_hindex d < 16
      then bind_slaves (i + 1) ds
             (fold (bind_bar i d) [0..<4]
               (if g_fpnpen c then c\<lparr>mSlaves := (mSlaves c)[unat (g_hindex d) := Some (get_ahb_device_info d)]\<rparr> else c))
      else None)"

fun bind_masters :: "ahb_device list \<Rightarrow> ahbctrl \<Rightarrow> ahbctrl option" where
  "bind_masters [] c = Some c"
| "bind_masters (d # ds) c =
     (if g_hindex d < 16
      then bind_masters ds
             (if g_fpnpen c then c\<lparr>mMasters := (mMasters c)[unat (g_hindex d) := Some (get_ahb_device_info d)]\<rparr> else c)
      else None)"

definition ahb_checkMemMap :: "ahbctrl \<Rightarrow> (u32 \<times> u32) list" where
  "ahb_checkMemMap c = check_map 20 (\<lambda>i. drop_bit 2 (si_binding i)) (slave_map c)"

text \<open>Every assertion of \<^verbatim>\<open>start_of_simulation\<close> that fails ends the simulation.  The
  result has the overlaps reported by the check.\<close>

definition ahb_start_of_simulation ::
    "ahb_device list \<Rightarrow> ahb_device list \<Rightarrow> ahbctrl \<Rightarrow> ((u32 \<times> u32) list \<times> ahbctrl) option" where
  "ahb_start_of_simulation slaves masters c =
     (let c = c\<lparr>num_of_slave_bindings := of_nat (length slaves), num_of_master_bindings := of_nat (length masters)\<rparr>
      in if length slaves \<le> 16 \<and> length masters \<le> 16
         then (case bind_slaves 0 slaves c of
                 None \<Rightarrow> None
               | Some c \<Rightarrow> map_option (\<lambda>c. (if g_mcheck c then ahb_checkMemMap c else [], c)) (bind_masters masters c))
         else None)"

text \<open>A controller as constructed; the state of the data bus is left uninitialised by the
  constructor and is an argument.\<close>

definition ahbctrl_init ::
    "u32 \<Rightarrow> u32 \<Rightarrow> u32 \<Rightarrow> u32 \<Rightarrow> bool \<Rightarrow> bool \<Rightarrow> bool \<Rightarrow> bool \<Rightarrow> dbus_state \<Rightarrow> ahbctrl" where
  "ahbctrl_init ioaddr iomask cfgaddr cfgmask rrobin fpnpen mcheck pow_mon dbus =
     \<lparr>g_ioaddr = ioaddr, g_iomask = iomask, g_cfgaddr = cfgaddr, g_cfgmask = cfgmask, g_rrobin = rrobin,
      g_fpnpen = fpnpen, g_mcheck = mcheck, g_pow_mon = pow_mon,
      slave_map = [], slave_map_cache = bogus_entry,
      mSlaves = replicate 64 None, mMasters = replicate 64 None,
      num_of_slave_bindings = 0, num_of_master_bindings = 0,
      busy = False, is_lock = False, lock_master = 0,
      total_transactions = 0, right_transactions = 0, bus_writes = 0, bus_reads = 0,
      bus_dyn_writes = 0, bus_dyn_reads = 0, robin = 0,
      request_map = replicate 16 \<lparr>cn_master = 0, cn_slave = 0, cn_state = TRANS_INIT, cn_trans = 0\<rparr>,
      response_map = replicate 16 \<lparr>cn_master = 0, cn_slave = 0, cn_state = TRANS_INIT, cn_trans = 0\<rparr>,
      address_bus_owner = -1, data_bus_state = dbus, arbitrated = 0, idle_count = 0\<rparr>"

section \<open>The approximately timed mode\<close>

text \<open>The transactions in flight are a store from their numbers to payloads.  What the
  threads do besides changing the state is an action: calls to a slave or a master, and
  notifications of the controller's own queues.\<close>

datatype bus_action =
    Slave_begin_req int nat
  | Slave_end_resp int nat
  | Master_end_req u32 nat
  | Master_begin_resp u32 nat
  | Notify_request nat
  | Notify_response nat
  | Snoop snoop_info

type_synonym transactions = "nat \<Rightarrow> payload"

text \<open>\<^verbatim>\<open>AcceptThread\<close>: a transaction of a master is decoded and queued.  The reserved number
  16 stands for the plug-and-play area.  An address without a slave is only reported.\<close>

definition accept_transaction :: "transactions \<Rightarrow> u32 \<Rightarrow> nat \<Rightarrow> ahbctrl \<Rightarrow> ahbctrl option" where
  "accept_transaction store master t c =
     (let addr = ucast (p_address (store t));
          decoded = (if is_pnp c addr then Some (16, c) else get_index addr c)
      in map_option (\<lambda>(slave, c).
             if slave \<ge> 0
             then let cn = \<lparr>cn_master = master, cn_slave = slave, cn_state = TRANS_PENDING, cn_trans = t\<rparr>
                  in c\<lparr>request_map := (request_map c)[unat master := cn], response_map := (response_map c)[unat master := cn]\<rparr>
             else c)
           decoded)"

text \<open>The scheduling of the master \<^verbatim>\<open>i\<close>.\<close>

definition schedule :: "transactions \<Rightarrow> nat \<Rightarrow> ahbctrl \<Rightarrow> ahbctrl" where
  "schedule store i c =
     c\<lparr>address_bus_owner := int i,
       request_map := (request_map c)[i := (request_map c ! i)\<lparr>cn_state := TRANS_SCHEDULED\<rparr>],
       is_lock := p_lock (store (cn_trans (request_map c ! i)))\<rparr>"

abbreviation pending :: "ahbctrl \<Rightarrow> nat \<Rightarrow> bool" where
  "pending c i \<equiv> cn_state (request_map c ! i) = TRANS_PENDING"

definition arbitrate_locked :: "transactions \<Rightarrow> ahbctrl \<Rightarrow> ahbctrl" where
  "arbitrate_locked store c =
     (if pending c (unat (lock_master c)) then schedule store (unat (lock_master c)) c else c)"

text \<open>Fixed priorities: the highest number wins.\<close>

fun arbitrate_priority :: "transactions \<Rightarrow> nat \<Rightarrow> ahbctrl \<Rightarrow> ahbctrl" where
  "arbitrate_priority store 0 c = c"
| "arbitrate_priority store (Suc i) c =
     (if pending c i then (schedule store i c)\<lparr>lock_master := of_nat i\<rparr> else arbitrate_priority store i c)"

text \<open>Round robin: at most one round from the pointer.\<close>

fun arbitrate_robin :: "transactions \<Rightarrow> nat \<Rightarrow> ahbctrl \<Rightarrow> ahbctrl" where
  "arbitrate_robin store 0 c = c"
| "arbitrate_robin store (Suc n) c =
     (let c = c\<lparr>robin := (robin c + 1) mod num_of_master_bindings c\<rparr>
      in if pending c (unat (robin c)) then (schedule store (unat (robin c)) c)\<lparr>lock_master := robin c\<rparr>
         else arbitrate_robin store n c)"

definition bus_free :: "ahbctrl \<Rightarrow> bool" where
  "bus_free c = (address_bus_owner c = -1 \<and> (data_bus_state c = RESPONSE \<or> data_bus_state c = IDLE))"

definition arbitration :: "transactions \<Rightarrow> ahbctrl \<Rightarrow> ahbctrl" where
  "arbitration store c =
     (if is_lock c then arbitrate_locked store c
      else if g_rrobin c then arbitrate_robin store (unat (num_of_master_bindings c)) c
      else arbitrate_priority store 16 c)"

text \<open>One cycle of the arbiter.  A scheduled access to the plug-and-play area is answered at
  once; the other transactions are forwarded to their slave.\<close>

definition arbitrate ::
    "transactions \<Rightarrow> ahbctrl \<Rightarrow> (transactions \<times> bus_action list \<times> ahbctrl) option" where
  "arbitrate store c =
     (if bus_free c
      then let c = arbitration store c
           in if address_bus_owner c \<noteq> -1
              then let c = c\<lparr>arbitrated := arbitrated c + 1\<rparr>;
                       cn = request_map c ! nat (address_bus_owner c);
                       t = cn_trans cn
                   in if cn_slave cn = 16
                      then map_option (\<lambda>(d, c). (store(t := (store t)\<lparr>p_data := d, p_response := Ok_response\<rparr>),
                               [Notify_request t, Notify_response t], c))
                             (pnp_bytes (ucast (p_address (store t))) (length (p_data (store t))) c)
                      else Some (store, [Slave_begin_req (cn_slave cn) t], c)
              else Some (store, [], c)
      else Some (store, [], c\<lparr>idle_count := idle_count c + 1\<rparr>))"

definition request_thread :: "transactions \<Rightarrow> u32 \<Rightarrow> nat \<Rightarrow> ahbctrl \<Rightarrow> bus_action list \<times> ahbctrl" where
  "request_thread store master t c =
     ((if p_command (store t) = Write_command
       then [Snoop \<lparr>sn_master = master, sn_address = ucast (p_address (store t)), sn_length = p_length (store t)\<rparr>]
       else []) @ [Master_end_req (cn_master (request_map c ! unat master)) t],
      c\<lparr>address_bus_owner := -1,
        data_bus_state := (if data_bus_state c \<noteq> RESPONSE then WAITSTATES else data_bus_state c)\<rparr>)"

definition response_thread :: "u32 \<Rightarrow> nat \<Rightarrow> ahbctrl \<Rightarrow> bus_action list \<times> ahbctrl" where
  "response_thread master t c =
     ([Master_begin_resp (cn_master (response_map c ! unat master)) t], c\<lparr>data_bus_state := RESPONSE\<rparr>)"

definition end_response_thread :: "u32 \<Rightarrow> nat \<Rightarrow> ahbctrl \<Rightarrow> bus_action list \<times> ahbctrl" where
  "end_response_thread master t c =
     (if cn_slave (response_map c ! unat master) = 16 then []
      else [Slave_end_resp (cn_slave (response_map c ! unat master)) t],
      c\<lparr>data_bus_state := IDLE\<rparr>)"

end
