(* ===== verification/Ahbctrl_Arbiter.thy ===== *)
theory Ahbctrl_Arbiter
  imports Ahbctrl_Props
begin

text \<open>
  The round-robin arbiter of the AHB controller in the approximately timed mode: what one
  arbitration selects, and that no master waits for more arbitrations than there are
  masters.
\<close>

section \<open>One arbitration\<close>

definition robin_wf :: "nat \<Rightarrow> ahbctrl \<Rightarrow> bool" where
  "robin_wf n c = (unat (num_of_master_bindings c) = n \<and> n \<le> 16 \<and> unat (robin c) < n)"

lemma robin_step:
  assumes "robin_wf n c"
  shows "unat ((robin c + 1) mod num_of_master_bindings c) = (unat (robin c) + 1) mod n"
proof -
  have "unat (robin c + 1) = unat (robin c) + 1"
    using assms unsigned_less[of "robin c"] by (simp add: robin_wf_def unat_word_ariths)
  then show ?thesis using assms by (simp add: unat_mod robin_wf_def)
qed

text \<open>The first pending master after the pointer is selected and becomes the pointer.\<close>

lemma arbitrate_robin_selects:
  assumes "robin_wf n c" and "1 \<le> d" and "d \<le> k" and "pending c ((unat (robin c) + d) mod n)"
    and "\<And>e. 1 \<le> e \<Longrightarrow> e < d \<Longrightarrow> \<not> pending c ((unat (robin c) + e) mod n)"
  shows "address_bus_owner (arbitrate_robin store k c) = int ((unat (robin c) + d) mod n) \<and>
    unat (robin (arbitrate_robin store k c)) = (unat (robin c) + d) mod n"
  using assms
proof (induction k arbitrary: c d)
  case (Suc k)
  let ?c = "c\<lparr>robin := (robin c + 1) mod num_of_master_bindings c\<rparr>"
  have r: "unat (robin ?c) = (unat (robin c) + 1) mod n" using robin_step[OF Suc.prems(1)] by simp
  have wf: "robin_wf n ?c"
    using Suc.prems(1) r by (simp add: robin_wf_def)
  show ?case
  proof (cases "d = 1")
    case True
    then have "pending ?c (unat (robin ?c))" using Suc.prems(4) r by simp
    then show ?thesis using True r by (simp add: schedule_def Let_def)
  next
    case False
    then have d: "1 < d" using Suc.prems(2) by simp
    have np: "\<not> pending ?c (unat (robin ?c))" using Suc.prems(5)[of 1] d r by simp
    have shift: "(unat (robin ?c) + e) mod n = (unat (robin c) + Suc e) mod n" for e
      unfolding r by (simp add: mod_add_left_eq)
    have "address_bus_owner (arbitrate_robin store k ?c) = int ((unat (robin ?c) + (d - 1)) mod n) \<and>
        unat (robin (arbitrate_robin store k ?c)) = (unat (robin ?c) + (d - 1)) mod n"
    proof (rule Suc.IH[OF wf])
      show "1 \<le> d - 1" "d - 1 \<le> k" using d Suc.prems(3) by simp_all
      show "pending ?c ((unat (robin ?c) + (d - 1)) mod n)"
        unfolding shift using Suc.prems(4) d by simp
      fix e assume "1 \<le> e" "e < d - 1"
      then show "\<not> pending ?c ((unat (robin ?c) + e) mod n)"
        unfolding shift using Suc.prems(5)[of "Suc e"] by simp
    qed
    then show ?thesis using np shift[of "d - 1"] d by (simp add: Let_def)
  qed
qed simp

section \<open>Fairness\<close>

text \<open>A point at which the arbiter decides while master \<^verbatim>\<open>j\<close> has a request pending: the bus is
  free, round robin is configured and no lock is held.\<close>

definition contention :: "nat \<Rightarrow> nat \<Rightarrow> ahbctrl \<Rightarrow> bool" where
  "contention n j c = (bus_free c \<and> g_rrobin c \<and> \<not> is_lock c \<and> robin_wf n c \<and> j < n \<and> pending c j)"

text \<open>The arbiter's decisions in the order in which they are made.  Between two of them the
  threads and the masters may do anything that leaves the pointer alone: new requests may
  arrive, requests may be served.\<close>

definition decisions :: "transactions \<Rightarrow> ahbctrl list \<Rightarrow> bool" where
  "decisions store cs =
     (\<forall>i. Suc i < length cs \<longrightarrow> robin (cs ! Suc i) = robin (arbitration store (cs ! i)))"

lemma decisions_Cons: "decisions store (c # c' # cs) \<Longrightarrow> robin c' = robin (arbitration store c) \<and> decisions store (c' # cs)"
  unfolding decisions_def by (force simp: nth_Cons split: nat.splits)

lemma arbitration_advances:
  assumes "contention n j c" and "1 \<le> D" and "D \<le> n" and "(unat (robin c) + D) mod n = j"
  shows "address_bus_owner (arbitration store c) = int j \<or>
    (\<exists>D'. 1 \<le> D' \<and> D' < D \<and> (unat (robin (arbitration store c)) + D') mod n = j)"
proof -
  define P where "P e = (1 \<le> e \<and> pending c ((unat (robin c) + e) mod n))" for e
  have PD: "P D" using assms by (simp add: P_def contention_def)
  define d where "d = (LEAST e. P e)"
  have d: "P d" "d \<le> D" "\<And>e. e < d \<Longrightarrow> \<not> P e"
    using PD not_less_Least unfolding d_def by (auto intro: LeastI Least_le)
  have arb: "arbitration store c = arbitrate_robin store (unat (num_of_master_bindings c)) c"
    using assms(1) by (simp add: arbitration_def contention_def)
  have "d \<le> unat (num_of_master_bindings c)"
    using assms(1,3) d(2) by (simp add: contention_def robin_wf_def)
  then have sel: "address_bus_owner (arbitration store c) = int ((unat (robin c) + d) mod n)"
      "unat (robin (arbitration store c)) = (unat (robin c) + d) mod n"
    using arbitrate_robin_selects[of n c d "unat (num_of_master_bindings c)" store] assms(1) d
    unfolding arb by (auto simp: contention_def P_def)
  show ?thesis
  proof (cases "d = D")
    case True
    then show ?thesis using sel assms(4) by simp
  next
    case False
    have "((unat (robin c) + d) mod n + (D - d)) mod n = (unat (robin c) + d + (D - d)) mod n"
      by (rule mod_add_left_eq)
    also have "\<dots> = j" using assms(4) d(2) by simp
    finally have "(unat (robin (arbitration store c)) + (D - d)) mod n = j" using sel by simp
    then show ?thesis using False d(1,2) by (intro disjI2 exI[of _ "D - d"]) (auto simp: P_def)
  qed
qed

lemma robin_grants:
  assumes "decisions store cs" and "\<forall>c \<in> set cs. contention n j c" and "cs \<noteq> []"
    and "1 \<le> D" and "D \<le> n" and "D \<le> length cs" and "(unat (robin (hd cs)) + D) mod n = j"
  shows "\<exists>c \<in> set cs. address_bus_owner (arbitration store c) = int j"
  using assms
proof (induction cs arbitrary: D)
  case (Cons c cs)
  have adv: "address_bus_owner (arbitration store c) = int j \<or>
      (\<exists>D'. 1 \<le> D' \<and> D' < D \<and> (unat (robin (arbitration store c)) + D') mod n = j)"
    using Cons.prems by (intro arbitration_advances) simp_all
  show ?case
  proof (cases "address_bus_owner (arbitration store c) = int j")
    case False
    then obtain D' where D': "1 \<le> D'" "D' < D" "(unat (robin (arbitration store c)) + D') mod n = j"
      using adv by blast
    then obtain c' cs' where cs: "cs = c' # cs'" using Cons.prems(6) by (cases cs) auto
    then have "robin c' = robin (arbitration store c)" "decisions store cs"
      using decisions_Cons Cons.prems(1) by blast+
    then show ?thesis using Cons.IH[of D'] Cons.prems D' cs by auto
  qed simp
qed simp

text \<open>(C13) No starvation: with round robin and no lock held, among any \<^verbatim>\<open>n\<close> consecutive
  decisions of the arbiter during which a master's request is pending, \<^verbatim>\<open>n\<close> being the number
  of masters, one selects that master.\<close>

theorem round_robin_fair:
  assumes "decisions store cs" and "\<forall>c \<in> set cs. contention n j c" and "length cs = n" and "0 < n"
  shows "\<exists>c \<in> set cs. address_bus_owner (arbitration store c) = int j"
proof -
  have ne: "cs \<noteq> []" using assms(3,4) by auto
  have wf: "robin_wf n (hd cs)" "j < n" using assms(2) hd_in_set[OF ne] by (auto simp: contention_def)
  let ?r = "unat (robin (hd cs))"
  have r: "?r < n" using wf by (simp add: robin_wf_def)
  define D where "D = (if ?r < j then j - ?r else n + j - ?r)"
  have D: "1 \<le> D" "D \<le> n" using r wf(2) by (auto simp: D_def)
  have "(?r + D) mod n = j" using r wf(2) by (auto simp: D_def)
  with D show ?thesis using robin_grants[OF assms(1,2) ne] assms(3) by blast
qed

definition three_masters :: "u32 \<Rightarrow> nat list \<Rightarrow> ahbctrl" where
  "three_masters r ps = (ahbctrl_init 0xFFF 0xFFF 0xFF0 0xFF0 True True True False IDLE)\<lparr>
     num_of_master_bindings := 3, robin := r,
     request_map := map (\<lambda>i. \<lparr>cn_master = of_nat i, cn_slave = 0,
        cn_state = (if i \<in> set ps then TRANS_PENDING else TRANS_INIT), cn_trans = i\<rparr>) [0..<16]\<rparr>"

theorem round_robin_fair_witness:
  "\<exists>c \<in> set [three_masters 0 [0, 1, 2], three_masters 1 [0, 1, 2], three_masters 2 [0, 1, 2]].
     address_bus_owner (arbitration (\<lambda>_. word_read 0) c) = int 0"
proof (rule round_robin_fair)
  show "decisions (\<lambda>_. word_read 0) [three_masters 0 [0, 1, 2], three_masters 1 [0, 1, 2], three_masters 2 [0, 1, 2]]"
  proof -
    have "robin (arbitration (\<lambda>_. word_read 0) (three_masters 0 [0, 1, 2])) = 1"
      "robin (arbitration (\<lambda>_. word_read 0) (three_masters 1 [0, 1, 2])) = 2"
      by code_simp+
    then show ?thesis
      by (auto simp: decisions_def three_masters_def less_Suc_eq)
  qed
  show "\<forall>c \<in> set [three_masters 0 [0, 1, 2], three_masters 1 [0, 1, 2], three_masters 2 [0, 1, 2]]. contention 3 0 c"
    by (simp add: contention_def three_masters_def bus_free_def robin_wf_def ahbctrl_init_def)
qed simp_all

end
