(* ===== verification/Storage.thy ===== *)
theory Storage
  imports Prelude
begin

text \<open>
  The byte storages behind every memory model of the repository
  (src/gaisler/memory): the interface \<^verbatim>\<open>Storage\<close> (storage.h) as a locale with
  what its users rely on, and its two implementations, \<^verbatim>\<open>ArrayStorage\<close>
  (arraystorage.cpp) and \<^verbatim>\<open>MapStorage\<close> (mapstorage.cpp).

  An access outside the array of an \<^verbatim>\<open>ArrayStorage\<close> is undefined in C++: the
  operations return \<^verbatim>\<open>None\<close> there.
\<close>

section \<open>ArrayStorage\<close>

text \<open>\<^verbatim>\<open>set_size\<close> allocates without initialising: what the fresh array holds is an
  argument of the model.\<close>

record array_storage =
  as_data :: "u8 list"
  as_size :: u64

definition as_set_size :: "u8 list \<Rightarrow> u32 \<Rightarrow> array_storage \<Rightarrow> array_storage" where
  "as_set_size fresh sz s = s\<lparr>as_data := fresh, as_size := ucast sz\<rparr>"

definition as_write :: "u32 \<Rightarrow> u8 \<Rightarrow> array_storage \<Rightarrow> array_storage option" where
  "as_write addr byte s =
     (if unat addr < length (as_data s) then Some (s\<lparr>as_data := (as_data s)[unat addr := byte]\<rparr>) else None)"

definition as_read :: "array_storage \<Rightarrow> u32 \<Rightarrow> u8 option" where
  "as_read s addr = (if unat addr < length (as_data s) then Some (as_data s ! unat addr) else None)"

definition as_erase :: "u32 \<Rightarrow> u32 \<Rightarrow> array_storage \<Rightarrow> array_storage option" where
  "as_erase start end' s =
     (if unat start + unat (end' - start) \<le> length (as_data s)
      then Some (s\<lparr>as_data := take (unat start) (as_data s) @ replicate (unat (end' - start)) 0 @
                    drop (unat start + unat (end' - start)) (as_data s)\<rparr>)
      else None)"

definition as_write_block :: "u32 \<Rightarrow> u8 list \<Rightarrow> array_storage \<Rightarrow> array_storage option" where
  "as_write_block addr ptr s =
     (if unat addr + length ptr \<le> length (as_data s)
      then Some (s\<lparr>as_data := take (unat addr) (as_data s) @ ptr @
                    drop (unat addr + length ptr) (as_data s)\<rparr>)
      else None)"

definition as_read_block :: "array_storage \<Rightarrow> u32 \<Rightarrow> nat \<Rightarrow> u8 list option" where
  "as_read_block s addr len =
     (if unat addr + len \<le> length (as_data s) then Some (take len (drop (unat addr) (as_data s))) else None)"

section \<open>MapStorage\<close>

text \<open>A map from addresses to bytes; an address without an entry reads as 0.  The
  addresses of a block are 32 bits wide and wrap.\<close>

record map_storage =
  ms_data :: "u32 \<Rightarrow> u8 option"
  ms_size :: u64

definition ms_set_size :: "u32 \<Rightarrow> map_storage \<Rightarrow> map_storage" where
  "ms_set_size sz s = s\<lparr>ms_size := ucast sz\<rparr>"

definition ms_write :: "u32 \<Rightarrow> u8 \<Rightarrow> map_storage \<Rightarrow> map_storage" where
  "ms_write addr byte s = s\<lparr>ms_data := (ms_data s)(addr \<mapsto> byte)\<rparr>"

definition ms_read :: "map_storage \<Rightarrow> u32 \<Rightarrow> u8" where
  "ms_read s addr = (case ms_data s addr of Some b \<Rightarrow> b | None \<Rightarrow> 0)"

definition ms_read_block :: "map_storage \<Rightarrow> u32 \<Rightarrow> nat \<Rightarrow> u8 list" where
  "ms_read_block s addr len = map (\<lambda>i. ms_read s (addr + of_nat i)) [0..<len]"

definition ms_write_block :: "u32 \<Rightarrow> u8 list \<Rightarrow> map_storage \<Rightarrow> map_storage" where
  "ms_write_block addr ptr s =
     fold (\<lambda>i s. ms_write (addr + of_nat i) (ptr ! i) s) [0..<length ptr] s"

text \<open>\<^verbatim>\<open>erase\<close> looks up, or inserts with 0, the two ends and erases from the one iterator
  to the other in the container's iteration order.  \<^verbatim>\<open>vmap\<close> is the standard library's
  unordered map under GCC and an ordered map elsewhere: the order in which the
  container enumerates its keys is an argument.  If the end does not come after the
  start in that order, the erasure runs off the container, which is undefined.\<close>

definition ms_insert_if_absent :: "u32 \<Rightarrow> (u32 \<Rightarrow> u8 option) \<Rightarrow> u32 \<Rightarrow> u8 option" where
  "ms_insert_if_absent a d = (if d a = None then d(a \<mapsto> 0) else d)"

definition erased_keys :: "u32 list \<Rightarrow> u32 \<Rightarrow> u32 \<Rightarrow> u32 list option" where
  "erased_keys order start end' =
     (let rest = dropWhile (\<lambda>k. k \<noteq> start) order
      in if end' \<in> set rest then Some (takeWhile (\<lambda>k. k \<noteq> end') rest) else None)"

definition ms_erase :: "u32 list \<Rightarrow> u32 \<Rightarrow> u32 \<Rightarrow> map_storage \<Rightarrow> map_storage option" where
  "ms_erase order start end' s =
     (let d = ms_insert_if_absent end' (ms_insert_if_absent start (ms_data s))
      in map_option (\<lambda>ks. s\<lparr>ms_data := (\<lambda>a. if a \<in> set ks then None else d a)\<rparr>)
           (erased_keys order start end'))"

definition enumerates :: "u32 list \<Rightarrow> (u32 \<Rightarrow> u8 option) \<Rightarrow> bool" where
  "enumerates order d = (distinct order \<and> set order = dom d)"

section \<open>The storage interface\<close>

text \<open>What the users of a \<^verbatim>\<open>Storage\<close> rely on: addresses that are backed can be read and
  written, a write is seen by reads of that address and by no others, and the block
  operations are the byte operations one after the other.\<close>

locale byte_storage =
  fixes byte :: "'s \<Rightarrow> u32 \<Rightarrow> u8"
    and backed :: "'s \<Rightarrow> u32 \<Rightarrow> bool"
    and put :: "u32 \<Rightarrow> u8 list \<Rightarrow> 's \<Rightarrow> 's option"
    and get :: "'s \<Rightarrow> u32 \<Rightarrow> nat \<Rightarrow> u8 list option"
  assumes put_ok: "\<lbrakk>d \<noteq> []; unat a + length d \<le> 2 ^ 32; \<And>i. i < length d \<Longrightarrow> backed s (a + of_nat i)\<rbrakk> \<Longrightarrow>
      \<exists>t. put a d s = Some t \<and> (\<forall>b. backed t b = backed s b) \<and>
        (\<forall>b. backed s b \<longrightarrow> byte t b = (if unat (b - a) < length d then d ! unat (b - a) else byte s b))"
    and get_ok: "\<lbrakk>0 < n; unat a + n \<le> 2 ^ 32; \<And>i. i < n \<Longrightarrow> backed s (a + of_nat i)\<rbrakk> \<Longrightarrow>
      get s a n = Some (map (\<lambda>i. byte s (a + of_nat i)) [0..<n])"
begin

definition in_range :: "'s \<Rightarrow> u32 \<Rightarrow> nat \<Rightarrow> bool" where
  "in_range s a n = (0 < n \<and> unat a + n \<le> 2 ^ 32 \<and> (\<forall>i<n. backed s (a + of_nat i)))"

lemma offset_in_block: "i < n \<Longrightarrow> unat a + n \<le> 2 ^ 32 \<Longrightarrow> unat ((a :: u32) + of_nat i - a) = i"
  by (simp add: unat_of_nat)

lemma put_get:
  assumes "in_range s a (length d)"
  shows "\<exists>t. put a d s = Some t \<and> get t a (length d) = Some d \<and> in_range t a (length d)"
proof -
  obtain t where t: "put a d s = Some t" "\<And>b. backed t b = backed s b"
      "\<And>b. backed s b \<Longrightarrow> byte t b = (if unat (b - a) < length d then d ! unat (b - a) else byte s b)"
    using put_ok[of d a s] assms by (auto simp: in_range_def)
  have "byte t (a + of_nat i) = d ! i" if "i < length d" for i
    using t(3)[of "a + of_nat i"] assms that offset_in_block[of i "length d" a]
    by (simp add: in_range_def)
  then have "map (\<lambda>i. byte t (a + of_nat i)) [0..<length d] = d"
    by (intro nth_equalityI) simp_all
  then show ?thesis
    using get_ok[of "length d" a t] t(1,2) assms by (auto simp: in_range_def)
qed

text \<open>A block that does not meet the written one reads as before.\<close>

lemma put_get_other:
  assumes "in_range s a (length d)" and "in_range s b n"
    and "unat a + length d \<le> unat b \<or> unat b + n \<le> unat a" and "put a d s = Some t"
  shows "get t b n = get s b n"
proof -
  have t: "\<And>c. backed t c = backed s c"
      "\<And>c. backed s c \<Longrightarrow> byte t c = (if unat (c - a) < length d then d ! unat (c - a) else byte s c)"
    using put_ok[of d a s] assms(1,4) by (auto simp: in_range_def)
  have "byte t (b + of_nat i) = byte s (b + of_nat i)" if i: "i < n" for i
  proof -
    have ub: "unat (b + of_nat i) = unat b + i"
      using assms(2) i by (simp add: in_range_def unat_word_ariths unat_of_nat)
    have "\<not> unat (b + of_nat i - a) < length d"
    proof (cases "unat a \<le> unat (b + of_nat i)")
      case True
      then have "unat (b + of_nat i - a) = unat b + i - unat a"
        using ub by (simp add: unat_sub word_le_nat_alt)
      then show ?thesis using assms(3) True ub i by linarith
    next
      case False
      then have "unat (b + of_nat i - a) = 2 ^ 32 + (unat b + i) - unat a"
        using ub unat_sub_if'[of "b + of_nat i" a] by (simp add: word_le_nat_alt)
      moreover have "unat a + length d \<le> 2 ^ 32" using assms(1) by (simp add: in_range_def)
      ultimately show ?thesis using False ub by linarith
    qed
    then show ?thesis using t(2)[of "b + of_nat i"] assms(2) i by (simp add: in_range_def)
  qed
  then show ?thesis
    using get_ok[of n b t] get_ok[of n b s] assms(2) t(1) by (auto simp: in_range_def)
qed

text \<open>The last of two writes to the same block is the one that is read.\<close>

lemma put_put_get:
  assumes "in_range s a (length d)" and "length e = length d"
  shows "\<exists>t u. put a d s = Some t \<and> put a e t = Some u \<and> get u a (length e) = Some e"
proof -
  obtain t where t: "put a d s = Some t" "in_range t a (length d)" using put_get[OF assms(1)] by blast
  then obtain u where "put a e t = Some u" "get u a (length e) = Some e"
    using put_get[of t a e] assms(2) by auto
  with t show ?thesis by blast
qed

end

section \<open>Both storages keep the contract\<close>

definition as_byte :: "array_storage \<Rightarrow> u32 \<Rightarrow> u8" where
  "as_byte s a = as_data s ! unat a"

definition as_backed :: "array_storage \<Rightarrow> u32 \<Rightarrow> bool" where
  "as_backed s a = (unat a < length (as_data s))"

lemma unat_in_block: "i < n \<Longrightarrow> unat a + n \<le> 2 ^ 32 \<Longrightarrow> unat ((a :: u32) + of_nat i) = unat a + i"
  by (simp add: unat_word_ariths unat_of_nat)

lemma block_backed:
  assumes "unat a + n \<le> 2 ^ 32" and "\<And>i. i < n \<Longrightarrow> as_backed s (a + of_nat i)" and "0 < n"
  shows "unat a + n \<le> length (as_data s)"
  using assms(2)[of "n - 1"] assms(1,3) unat_in_block[of "n - 1" n a] by (simp add: as_backed_def)

lemma unat_diff_less:
  fixes a b :: u32
  assumes "unat a + n \<le> 2 ^ 32"
  shows "unat (b - a) < n \<longleftrightarrow> unat a \<le> unat b \<and> unat b < unat a + n"
    and "unat a \<le> unat b \<Longrightarrow> unat (b - a) = unat b - unat a"
proof -
  show le: "unat a \<le> unat b \<Longrightarrow> unat (b - a) = unat b - unat a"
    by (simp add: unat_sub word_le_nat_alt)
  show "unat (b - a) < n \<longleftrightarrow> unat a \<le> unat b \<and> unat b < unat a + n"
  proof (cases "unat a \<le> unat b")
    case False
    then have "unat (b - a) = 2 ^ 32 + unat b - unat a"
      using unat_sub_if'[of b a] by (simp add: word_le_nat_alt)
    then show ?thesis using False assms by linarith
  qed (auto simp: le)
qed

lemma as_put_spec:
  assumes "unat a + length d \<le> 2 ^ 32" and "unat a + length d \<le> length (as_data s)"
  shows "\<exists>t. as_write_block a d s = Some t \<and> (\<forall>b. as_backed t b = as_backed s b) \<and>
    (\<forall>b. as_backed s b \<longrightarrow> as_byte t b = (if unat (b - a) < length d then d ! unat (b - a) else as_byte s b))"
  using assms
  by (auto simp: as_write_block_def as_backed_def as_byte_def unat_diff_less nth_append)

lemma as_get_spec:
  assumes "unat a + n \<le> 2 ^ 32" and "unat a + n \<le> length (as_data s)"
  shows "as_read_block s a n = Some (map (\<lambda>i. as_byte s (a + of_nat i)) [0..<n])"
  using assms by (auto simp: as_read_block_def as_byte_def unat_in_block intro!: nth_equalityI)

interpretation array: byte_storage as_byte as_backed as_write_block as_read_block
proof unfold_locales
  fix d :: "u8 list" and a :: u32 and s
  assume "d \<noteq> []" "unat a + length d \<le> 2 ^ 32" "\<And>i. i < length d \<Longrightarrow> as_backed s (a + of_nat i)"
  then show "\<exists>t. as_write_block a d s = Some t \<and> (\<forall>b. as_backed t b = as_backed s b) \<and>
      (\<forall>b. as_backed s b \<longrightarrow> as_byte t b = (if unat (b - a) < length d then d ! unat (b - a) else as_byte s b))"
    using as_put_spec block_backed by blast
next
  fix n and a :: u32 and s
  assume "0 < n" "unat a + n \<le> 2 ^ 32" "\<And>i. i < n \<Longrightarrow> as_backed s (a + of_nat i)"
  then show "as_read_block s a n = Some (map (\<lambda>i. as_byte s (a + of_nat i)) [0..<n])"
    using as_get_spec block_backed by blast
qed

lemma ms_write_block_read:
  assumes "unat a + n \<le> 2 ^ 32"
  shows "ms_read (fold (\<lambda>i s. ms_write (a + of_nat i) (d ! i) s) [0..<n] s) b =
    (if unat (b - a) < n then d ! unat (b - a) else ms_read s b)"
  using assms
proof (induction n)
  case (Suc n)
  have "(b = a + of_nat n) = (unat (b - a) = n)"
  proof
    assume "unat (b - a) = n"
    moreover have "b - a = of_nat (unat (b - a))" by simp
    ultimately have "b - a = of_nat n" by simp
    then show "b = a + of_nat n" by (simp add: algebra_simps)
  qed (use Suc.prems in \<open>simp add: unat_of_nat\<close>)
  then show ?case
    using Suc by (auto simp: ms_write_def ms_read_def less_Suc_eq)
qed simp

interpretation maps: byte_storage ms_read "\<lambda>_ _. True" "\<lambda>a d s. Some (ms_write_block a d s)"
    "\<lambda>s a n. Some (ms_read_block s a n)"
  by unfold_locales (auto simp: ms_write_block_def ms_write_block_read ms_read_block_def)

section \<open>Both storages behave alike\<close>

text \<open>The operations of the interface with their results.  \<^verbatim>\<open>ord\<close> is the iteration order
  of the map's container, the standard library's.\<close>

datatype storage_op =
    Write u32 u8
  | Read u32
  | Write_block u32 "u8 list"
  | Read_block u32 nat
  | Erase u32 u32

fun as_op :: "storage_op \<Rightarrow> array_storage \<Rightarrow> (array_storage \<times> u8 list) option" where
  "as_op (Write a b) s = map_option (\<lambda>t. (t, [])) (as_write a b s)"
| "as_op (Read a) s = map_option (\<lambda>b. (s, [b])) (as_read s a)"
| "as_op (Write_block a d) s = map_option (\<lambda>t. (t, [])) (as_write_block a d s)"
| "as_op (Read_block a n) s = map_option (\<lambda>d. (s, d)) (as_read_block s a n)"
| "as_op (Erase a b) s = (if a \<le> b then map_option (\<lambda>t. (t, [])) (as_erase a b s) else None)"

fun ms_op :: "((u32 \<Rightarrow> u8 option) \<Rightarrow> u32 list) \<Rightarrow> storage_op \<Rightarrow> map_storage \<Rightarrow> (map_storage \<times> u8 list) option" where
  "ms_op ord (Write a b) s = Some (ms_write a b s, [])"
| "ms_op ord (Read a) s = Some (s, [ms_read s a])"
| "ms_op ord (Write_block a d) s = Some (ms_write_block a d s, [])"
| "ms_op ord (Read_block a n) s = Some (s, ms_read_block s a n)"
| "ms_op ord (Erase a b) s = map_option (\<lambda>t. (t, []))
     (ms_erase (ord (ms_insert_if_absent b (ms_insert_if_absent a (ms_data s)))) a b s)"

fun run_ops :: "('op \<Rightarrow> 's \<Rightarrow> ('s \<times> u8 list) option) \<Rightarrow> 'op list \<Rightarrow> 's \<Rightarrow> u8 list list option" where
  "run_ops f [] s = Some []"
| "run_ops f (e # es) s =
     (case f e s of None \<Rightarrow> None | Some (t, out) \<Rightarrow> map_option ((#) out) (run_ops f es t))"

definition ordered_container :: "((u32 \<Rightarrow> u8 option) \<Rightarrow> u32 list) \<Rightarrow> bool" where
  "ordered_container ord = (\<forall>d. finite (dom d) \<longrightarrow> enumerates (ord d) d \<and> sorted (ord d))"

lemma set_dropWhile_sorted:
  "sorted xs \<Longrightarrow> distinct xs \<Longrightarrow> a \<in> set xs \<Longrightarrow>
    set (dropWhile (\<lambda>k. k \<noteq> a) xs) = {k \<in> set xs. (a :: 'a::linorder) \<le> k}"
  by (induction xs) (auto dest: order.antisym)

lemma set_takeWhile_sorted:
  "sorted xs \<Longrightarrow> distinct xs \<Longrightarrow> b \<in> set xs \<Longrightarrow>
    set (takeWhile (\<lambda>k. k \<noteq> b) xs) = {k \<in> set xs. k < (b :: 'a::linorder)}"
proof (induction xs)
  case (Cons x xs)
  then show ?case by (cases "x = b") (auto simp: less_le)
qed simp

lemma ms_erase_ordered:
  assumes "ordered_container ord" and "finite (dom (ms_data s))" and "a \<le> b"
  shows "\<exists>t. ms_erase (ord (ms_insert_if_absent b (ms_insert_if_absent a (ms_data s)))) a b s = Some t \<and>
    finite (dom (ms_data t)) \<and>
    (\<forall>c. ms_read t c = (if a \<le> c \<and> c < b then 0 else ms_read s c))"
proof -
  define d where "d = ms_insert_if_absent b (ms_insert_if_absent a (ms_data s))"
  have fin: "finite (dom d)" and ab: "a \<in> dom d" "b \<in> dom d"
    using assms(2) by (auto simp: d_def ms_insert_if_absent_def)
  have d: "(case d c of Some v \<Rightarrow> v | None \<Rightarrow> 0) = ms_read s c" for c
    by (auto simp: d_def ms_insert_if_absent_def ms_read_def split: option.splits)
  have ord: "distinct (ord d)" "set (ord d) = dom d" "sorted (ord d)"
    using assms(1) fin by (auto simp: ordered_container_def enumerates_def)
  let ?rest = "dropWhile (\<lambda>k. k \<noteq> a) (ord d)"
  have rest: "set ?rest = {k \<in> dom d. a \<le> k}" "sorted ?rest" "distinct ?rest"
    using set_dropWhile_sorted[of "ord d" a] ord ab by (simp_all add: sorted_dropWhile)
  then have b: "b \<in> set ?rest" using ab assms(3) by simp
  have ks: "set (takeWhile (\<lambda>k. k \<noteq> b) ?rest) = {k \<in> dom d. a \<le> k \<and> k < b}"
    using set_takeWhile_sorted[OF rest(2,3) b] rest(1) by auto
  let ?t = "s\<lparr>ms_data := (\<lambda>c. if c \<in> set (takeWhile (\<lambda>k. k \<noteq> b) ?rest) then None else d c)\<rparr>"
  have "ms_erase (ord d) a b s = Some ?t"
    using b by (simp add: ms_erase_def erased_keys_def d_def[symmetric] Let_def)
  moreover have "finite (dom (ms_data ?t))"
    by (rule finite_subset[OF _ fin]) (auto split: if_splits)
  moreover have "ms_read ?t c = (if a \<le> c \<and> c < b then 0 else ms_read s c)" for c
    using d[of c] by (auto simp: ms_read_def ks dom_def split: option.splits)
  ultimately show ?thesis unfolding d_def by blast
qed

definition same_contents :: "array_storage \<Rightarrow> map_storage \<Rightarrow> bool" where
  "same_contents s m = (finite (dom (ms_data m)) \<and> length (as_data s) \<le> 2 ^ 32 \<and>
     (\<forall>a. unat a < length (as_data s) \<longrightarrow> ms_read m a = as_data s ! unat a))"

lemma finite_write_block: "finite (dom (ms_data m)) \<Longrightarrow> finite (dom (ms_data (ms_write_block a d m)))"
proof -
  have "finite (dom (ms_data m)) \<Longrightarrow>
      finite (dom (ms_data (fold (\<lambda>i s. ms_write (a + of_nat i) (d ! i) s) is m)))" for "is" m
    by (induction "is" arbitrary: m) (auto simp: ms_write_def)
  then show "finite (dom (ms_data m)) \<Longrightarrow> ?thesis" by (simp add: ms_write_block_def)
qed

lemma same_contents_op:
  assumes "same_contents s m" and "ordered_container ord" and "as_op e s = Some (s', out)"
  shows "\<exists>m'. ms_op ord e m = Some (m', out) \<and> same_contents s' m'"
proof (cases e)
  case (Write a b)
  then show ?thesis using assms by (auto simp: same_contents_def as_write_def ms_write_def ms_read_def
      nth_list_update word_unat_eq_iff split: if_splits)
next
  case (Read a)
  then show ?thesis using assms by (auto simp: same_contents_def as_read_def split: if_splits)
next
  case (Write_block a d)
  then have r: "unat a + length d \<le> length (as_data s)" "out = []"
      "as_data s' = take (unat a) (as_data s) @ d @ drop (unat a + length d) (as_data s)"
    using assms(3) by (auto simp: as_write_block_def split: if_splits)
  then have le: "unat a + length d \<le> 2 ^ 32" using assms(1) by (simp add: same_contents_def)
  have "ms_read (ms_write_block a d m) c = as_data s' ! unat c" if "unat c < length (as_data s)" for c
    using r that assms(1) ms_write_block_read[OF le, of d m c]
    by (auto simp: ms_write_block_def unat_diff_less[OF le] nth_append same_contents_def)
  then show ?thesis using r assms(1) Write_block
    by (auto simp: same_contents_def finite_write_block)
next
  case (Read_block a n)
  then have r: "unat a + n \<le> length (as_data s)" "s' = s" "out = take n (drop (unat a) (as_data s))"
    using assms(3) by (auto simp: as_read_block_def split: if_splits)
  then have "unat (a + of_nat i) = unat a + i" if "i < n" for i
    using that assms(1) unat_in_block[of i n a] by (simp add: same_contents_def)
  then have "ms_read_block m a n = out"
    using r assms(1) by (auto simp: ms_read_block_def same_contents_def intro!: nth_equalityI)
  then show ?thesis using r assms(1) Read_block by simp
next
  case (Erase a b)
  then have r: "a \<le> b" "unat a + unat (b - a) \<le> length (as_data s)" "out = []"
      "as_data s' = take (unat a) (as_data s) @ replicate (unat (b - a)) 0 @
        drop (unat a + unat (b - a)) (as_data s)"
    using assms(3) by (auto simp: as_erase_def split: if_splits)
  then have ub: "unat b = unat a + unat (b - a)" by (simp add: unat_sub word_le_nat_alt)
  obtain m' where m': "ms_op ord e m = Some (m', [])" "finite (dom (ms_data m'))"
      "\<And>c. ms_read m' c = (if a \<le> c \<and> c < b then 0 else ms_read m c)"
    using ms_erase_ordered[OF assms(2) _ r(1), of m] assms(1) Erase by (auto simp: same_contents_def)
  have "ms_read m' c = as_data s' ! unat c" if "unat c < length (as_data s)" for c
    using that r(2) ub assms(1)
    by (auto simp: m'(3) r(4) nth_append word_le_nat_alt word_less_nat_alt same_contents_def)
  then show ?thesis using m' r assms(1) ub by (auto simp: same_contents_def)
qed

lemma same_contents_run:
  "same_contents s m \<Longrightarrow> ordered_container ord \<Longrightarrow> run_ops as_op es s = Some outs \<Longrightarrow>
    run_ops (ms_op ord) es m = Some outs"
proof (induction es arbitrary: s m outs)
  case (Cons e es)
  obtain s' out rest where e: "as_op e s = Some (s', out)" "run_ops as_op es s' = Some rest" "outs = out # rest"
    using Cons.prems(3) by (auto split: option.splits)
  obtain m' where "ms_op ord e m = Some (m', out)" "same_contents s' m'"
    using same_contents_op[OF Cons.prems(1,2) e(1)] by blast
  then show ?case using Cons.IH[OF _ Cons.prems(2) e(2)] e(3) by simp
qed simp



text \<open>Under GCC the map storage's container is unordered.  Erasing walks from one key
  to the other in the container's order, so an enumeration that satisfies the
  container's specification leaves a byte of the erased range in place.\<close>

theorem unordered_erase_keeps_bytes:
  "\<exists>order. enumerates order (ms_insert_if_absent 4 (ms_insert_if_absent 0 [2 \<mapsto> 7])) \<and>
    (\<exists>t. ms_erase order 0 4 \<lparr>ms_data = [2 \<mapsto> 7], ms_size = 16\<rparr> = Some t \<and> ms_read t 2 = 7)"
proof (intro exI conjI)
  show "enumerates [2, 0, 4] (ms_insert_if_absent 4 (ms_insert_if_absent 0 [2 \<mapsto> 7]))"
    by (auto simp: enumerates_def ms_insert_if_absent_def)
  show "ms_erase [2, 0, 4] 0 4 \<lparr>ms_data = [2 \<mapsto> 7], ms_size = 16\<rparr> =
      Some \<lparr>ms_data = (\<lambda>a. if a \<in> set [0] then None else ms_insert_if_absent 4 (ms_insert_if_absent 0 [2 \<mapsto> 7]) a),
        ms_size = 16\<rparr>"
    by (simp add: ms_erase_def erased_keys_def)
  show "ms_read \<lparr>ms_data = (\<lambda>a. if a \<in> set [0] then None else ms_insert_if_absent 4 (ms_insert_if_absent 0 [2 \<mapsto> 7]) a),
        ms_size = 16\<rparr> 2 = 7"
    by (simp add: ms_read_def ms_insert_if_absent_def)
qed

end
