(* ===== verification/Memory.thy ===== *)
theory Memory
  imports Amba Storage
begin

text \<open>
  The memory models: \<^verbatim>\<open>BaseMemory\<close> (src/gaisler/memory/basememory.cpp), which counts the
  accesses and passes them to its storage, the memory device behind the memory
  controller (memory.cpp) and the AHB memory (src/gaisler/ahbmem/ahbmem.cpp).

  The storage is called through its virtual functions, here a record of functions with
  the two implementations of \<^verbatim>\<open>Storage\<close> as its instances; \<^verbatim>\<open>None\<close> is an access the storage
  leaves undefined.  The observers registered on a memory are not modelled.
\<close>

section \<open>The virtual functions of a storage\<close>

record 's storage_ops =
  v_read :: "u32 \<Rightarrow> 's \<Rightarrow> u8 option"
  v_write :: "u32 \<Rightarrow> u8 \<Rightarrow> 's \<Rightarrow> 's option"
  v_erase :: "u32 \<Rightarrow> u32 \<Rightarrow> 's \<Rightarrow> 's option"
  v_write_block :: "u32 \<Rightarrow> u8 list \<Rightarrow> 's \<Rightarrow> 's option"
  v_read_block :: "u32 \<Rightarrow> u32 \<Rightarrow> 's \<Rightarrow> u8 list option"
  v_dmi :: bool

definition array_ops :: "array_storage storage_ops" where
  "array_ops = \<lparr>v_read = (\<lambda>a s. as_read s a), v_write = as_write, v_erase = as_erase,
     v_write_block = as_write_block, v_read_block = (\<lambda>a n s. as_read_block s a (unat n)), v_dmi = True\<rparr>"

definition map_ops :: "((u32 \<Rightarrow> u8 option) \<Rightarrow> u32 list) \<Rightarrow> map_storage storage_ops" where
  "map_ops ord = \<lparr>v_read = (\<lambda>a s. Some (ms_read s a)), v_write = (\<lambda>a b s. Some (ms_write a b s)),
     v_erase = (\<lambda>a b s. ms_erase (ord (ms_insert_if_absent b (ms_insert_if_absent a (ms_data s)))) a b s),
     v_write_block = (\<lambda>a d s. Some (ms_write_block a d s)),
     v_read_block = (\<lambda>a n s. Some (ms_read_block s a (unat n))), v_dmi = False\<rparr>"

section \<open>BaseMemory\<close>

record 's base_memory =
  m_storage :: 's
  m_reads :: u64
  m_reads32 :: u64
  m_writes :: u64
  m_writes32 :: u64

definition base_memory_init :: "'s \<Rightarrow> 's base_memory" where
  "base_memory_init s = \<lparr>m_storage = s, m_reads = 0, m_reads32 = 0, m_writes = 0, m_writes32 = 0\<rparr>"

definition read_dbg :: "'s storage_ops \<Rightarrow> u32 \<Rightarrow> 's base_memory \<Rightarrow> u8 option" where
  "read_dbg ops addr m = v_read ops addr (m_storage m)"

definition write_dbg :: "'s storage_ops \<Rightarrow> u32 \<Rightarrow> u8 \<Rightarrow> 's base_memory \<Rightarrow> 's base_memory option" where
  "write_dbg ops addr byte m =
     map_option (\<lambda>s. m\<lparr>m_storage := s\<rparr>) (v_write ops addr byte (m_storage m))"

definition read_byte :: "'s storage_ops \<Rightarrow> u32 \<Rightarrow> 's base_memory \<Rightarrow> (u8 \<times> 's base_memory) option" where
  "read_byte ops addr m =
     map_option (\<lambda>b. (b, m\<lparr>m_reads := m_reads m + 1, m_reads32 := m_reads32 m + 1\<rparr>)) (read_dbg ops addr m)"

definition write_byte :: "'s storage_ops \<Rightarrow> u32 \<Rightarrow> u8 \<Rightarrow> 's base_memory \<Rightarrow> 's base_memory option" where
  "write_byte ops addr byte m =
     write_dbg ops addr byte (m\<lparr>m_writes := m_writes m + 1, m_writes32 := m_writes32 m + 1\<rparr>)"

definition erase_dbg :: "'s storage_ops \<Rightarrow> u32 \<Rightarrow> u32 \<Rightarrow> 's base_memory \<Rightarrow> 's base_memory option" where
  "erase_dbg ops start end' m =
     map_option (\<lambda>s. m\<lparr>m_storage := s\<rparr>) (v_erase ops start end' (m_storage m))"

definition write_block_dbg :: "'s storage_ops \<Rightarrow> u32 \<Rightarrow> u8 list \<Rightarrow> 's base_memory \<Rightarrow> 's base_memory option" where
  "write_block_dbg ops addr data m =
     map_option (\<lambda>s. m\<lparr>m_storage := s\<rparr>) (v_write_block ops addr data (m_storage m))"

definition read_block_dbg :: "'s storage_ops \<Rightarrow> u32 \<Rightarrow> u32 \<Rightarrow> 's base_memory \<Rightarrow> u8 list option" where
  "read_block_dbg ops addr len m = v_read_block ops addr len (m_storage m)"

text \<open>The number of 32-bit words a block counts for, in 32-bit arithmetic.\<close>

definition words32 :: "u32 \<Rightarrow> u32" where
  "words32 len = drop_bit 2 (len - 1) + 1"

definition write_block :: "'s storage_ops \<Rightarrow> u32 \<Rightarrow> u8 list \<Rightarrow> 's base_memory \<Rightarrow> 's base_memory option" where
  "write_block ops addr data m =
     (let len = of_nat (length data) :: u32
      in write_block_dbg ops addr data
           (m\<lparr>m_writes := m_writes m + ucast len, m_writes32 := m_writes32 m + ucast (words32 len)\<rparr>))"

definition read_block :: "'s storage_ops \<Rightarrow> u32 \<Rightarrow> u32 \<Rightarrow> 's base_memory \<Rightarrow> (u8 list \<times> 's base_memory) option" where
  "read_block ops addr len m =
     map_option (\<lambda>d. (d, m\<lparr>m_reads := m_reads m + ucast len, m_reads32 := m_reads32 m + ucast (words32 len)\<rparr>))
       (read_block_dbg ops addr len m)"

section \<open>The memory device\<close>

text \<open>\<^verbatim>\<open>b_transport\<close>: with the erase extension the start is the address and the end is the
  first word of the data; the read and write commands access a block; any other command
  is ignored, its response left as it was.\<close>

definition host_word :: "u8 list \<Rightarrow> u32" where
  "host_word d = ucast (d ! 0) OR push_bit 8 (ucast (d ! 1)) OR push_bit 16 (ucast (d ! 2)) OR
     push_bit 24 (ucast (d ! 3))"

definition memory_b_transport ::
    "'s storage_ops \<Rightarrow> payload \<Rightarrow> 's base_memory \<Rightarrow> (payload \<times> 's base_memory) option" where
  "memory_b_transport ops gp m =
     (let gp = gp\<lparr>p_dmi := v_dmi ops\<rparr>;
          addr = ucast (p_address gp)
      in if p_erase gp
         then (if length (p_data gp) < 4 then None
               else let end' = host_word (p_data gp)
                    in if end' < addr then Some (gp\<lparr>p_response := Address_error_response\<rparr>, m)
                       else map_option (\<lambda>m. (gp\<lparr>p_response := Ok_response\<rparr>, m)) (erase_dbg ops addr end' m))
         else (case p_command gp of
             Read_command \<Rightarrow> map_option (\<lambda>(d, m). (gp\<lparr>p_data := d, p_response := Ok_response\<rparr>, m))
                               (read_block ops addr (p_length gp) m)
           | Write_command \<Rightarrow> map_option (\<lambda>m. (gp\<lparr>p_response := Ok_response\<rparr>, m))
                               (write_block ops addr (p_data gp) m)
           | Ignore_command \<Rightarrow> Some (gp, m)))"

text \<open>The debug transport returns the number of bytes it moved and counts nothing.\<close>

definition memory_transport_dbg ::
    "'s storage_ops \<Rightarrow> payload \<Rightarrow> 's base_memory \<Rightarrow> (u32 \<times> payload \<times> 's base_memory) option" where
  "memory_transport_dbg ops gp m =
     (let addr = ucast (p_address gp)
      in case p_command gp of
           Read_command \<Rightarrow> map_option (\<lambda>d. (p_length gp, gp\<lparr>p_data := d, p_response := Ok_response\<rparr>, m))
                             (read_block_dbg ops addr (p_length gp) m)
         | Write_command \<Rightarrow> map_option (\<lambda>m. (p_length gp, gp\<lparr>p_response := Ok_response\<rparr>, m))
                             (write_block_dbg ops addr (p_data gp) m)
         | Ignore_command \<Rightarrow> Some (0, gp, m))"

section \<open>The AHB memory\<close>

record 's ahbmem =
  am_device :: ahb_device
  am_haddr :: u32
  am_hmask :: u32
  am_cacheable :: bool
  am_wait_states :: u32
  am_pow_mon :: bool
  am_memory :: "'s base_memory"
  am_dyn_reads :: u64
  am_dyn_writes :: u64

definition ahbmem_dorst :: "'s storage_ops \<Rightarrow> 's ahbmem \<Rightarrow> 's ahbmem option" where
  "ahbmem_dorst ops a =
     map_option (\<lambda>m. a\<lparr>am_memory := m\<rparr>) (erase_dbg ops 0 (ucast (get_ahb_size (am_device a) - 1)) (am_memory a))"

definition words_transferred :: "u32 \<Rightarrow> u32" where
  "words_transferred len = (if len < 4 then 1 else drop_bit 2 len)"

text \<open>\<^verbatim>\<open>exec_func\<close> answers with the address error outside the masked address; otherwise
  everything that is not a write is a read.  The result has the clock cycles added to the
  delay.\<close>

definition ahbmem_exec_func ::
    "'s storage_ops \<Rightarrow> payload \<Rightarrow> 's ahbmem \<Rightarrow> (u32 \<times> payload \<times> 's ahbmem) option" where
  "ahbmem_exec_func ops gp a =
     (if (ucast (am_haddr a) XOR drop_bit 20 (p_address gp)) AND ucast (am_hmask a) = 0
      then let gp = gp\<lparr>p_dmi := v_dmi ops\<rparr>;
               addr = get_ahb_bar_relative_addr (am_device a) 0 (ucast (p_address gp));
               len = p_length gp;
               cycles = words_transferred len + am_wait_states a;
               words = ucast (words_transferred len)
           in if p_command gp = Write_command
              then map_option (\<lambda>m. (cycles, gp\<lparr>p_response := Ok_response\<rparr>,
                       a\<lparr>am_memory := m,
                         am_dyn_writes := am_dyn_writes a + (if am_pow_mon a then words else 0)\<rparr>))
                     (write_block ops addr (p_data gp) (am_memory a))
              else map_option (\<lambda>(d, m). (cycles,
                       gp\<lparr>p_data := d, p_response := Ok_response, p_cacheable := p_cacheable gp \<or> am_cacheable a\<rparr>,
                       a\<lparr>am_memory := m,
                         am_dyn_reads := am_dyn_reads a + (if am_pow_mon a then words else 0)\<rparr>))
                     (read_block ops addr len (am_memory a))
      else Some (0, gp\<lparr>p_response := Address_error_response\<rparr>, a))"

text \<open>\<^verbatim>\<open>AHBSlave::b_transport\<close>: the slave's own byte counters, the cacheability of its
  bar 0 as its record says, then the functional part.\<close>

record slave_statistics =
  ss_reads :: u64
  ss_writes :: u64

definition slave_transport_statistics :: "payload \<Rightarrow> slave_statistics \<Rightarrow> slave_statistics" where
  "slave_transport_statistics gp st =
     (case p_command gp of
        Write_command \<Rightarrow> st\<lparr>ss_writes := ss_writes st + ucast (p_length gp)\<rparr>
      | Read_command \<Rightarrow> st\<lparr>ss_reads := ss_reads st + ucast (p_length gp)\<rparr>
      | Ignore_command \<Rightarrow> st)"

definition ahbslave_b_transport ::
    "(payload \<Rightarrow> 'a \<Rightarrow> (u32 \<times> payload \<times> 'a) option) \<Rightarrow> u32 list \<Rightarrow> payload \<Rightarrow> 'a \<Rightarrow> slave_statistics
      \<Rightarrow> (u32 \<times> payload \<times> 'a \<times> slave_statistics) option" where
  "ahbslave_b_transport exec_func m_register gp a st =
     (let st = slave_transport_statistics gp st;
          gp = (if get_ahb_bar_cachable m_register 0 then gp\<lparr>p_cacheable := True\<rparr> else gp)
      in map_option (\<lambda>(c, gp, a). (c, gp, a, st)) (exec_func gp a))"

section \<open>Properties\<close>

text \<open>What the memories rely on: a storage that is well formed behaves like a list of
  bytes, its addresses the positions in the list.\<close>

definition overlay :: "u8 list \<Rightarrow> nat \<Rightarrow> u8 list \<Rightarrow> u8 list" where
  "overlay bs a d = take a bs @ d @ drop (a + length d) bs"

definition cleared :: "u8 list \<Rightarrow> nat \<Rightarrow> nat \<Rightarrow> u8 list" where
  "cleared bs a b = overlay bs a (replicate (b - a) 0)"

definition slice :: "u8 list \<Rightarrow> nat \<Rightarrow> nat \<Rightarrow> u8 list" where
  "slice bs a n = take n (drop a bs)"

lemma length_overlay [simp]: "a + length d \<le> length bs \<Longrightarrow> length (overlay bs a d) = length bs"
  by (simp add: overlay_def)

lemma length_cleared [simp]: "a \<le> b \<Longrightarrow> b \<le> length bs \<Longrightarrow> length (cleared bs a b) = length bs"
  by (simp add: cleared_def)

lemma nth_overlay:
  "a + length d \<le> length bs \<Longrightarrow> i < length bs \<Longrightarrow>
    overlay bs a d ! i = (if a \<le> i \<and> i < a + length d then d ! (i - a) else bs ! i)"
  by (auto simp: overlay_def nth_append)

lemma slice_overlay [simp]: "a + length d \<le> length bs \<Longrightarrow> slice (overlay bs a d) a (length d) = d"
  by (simp add: slice_def overlay_def)

lemma slice_overlay_other:
  assumes "a + length d \<le> length bs" and "b + n \<le> length bs" and "b + n \<le> a \<or> a + length d \<le> b"
  shows "slice (overlay bs a d) b n = slice bs b n"
proof (rule nth_equalityI)
  show "length (slice (overlay bs a d) b n) = length (slice bs b n)"
    using assms(1) by (simp add: slice_def)
  show "slice (overlay bs a d) b n ! i = slice bs b n ! i" if "i < length (slice (overlay bs a d) b n)" for i
    using that assms by (auto simp: slice_def nth_overlay)
qed

lemma nth_cleared:
  "a \<le> b \<Longrightarrow> b \<le> length bs \<Longrightarrow> i < length bs \<Longrightarrow>
    cleared bs a b ! i = (if a \<le> i \<and> i < b then 0 else bs ! i)"
  by (auto simp: cleared_def nth_overlay)

locale storage_functions =
  fixes ops :: "'s storage_ops" and wf :: "'s \<Rightarrow> bool" and bytes :: "'s \<Rightarrow> u8 list"
  assumes write_block_ok: "\<lbrakk>wf s; unat a + length d \<le> length (bytes s)\<rbrakk> \<Longrightarrow>
      \<exists>t. v_write_block ops a d s = Some t \<and> wf t \<and> bytes t = overlay (bytes s) (unat a) d"
    and read_block_ok: "\<lbrakk>wf s; unat a + unat n \<le> length (bytes s)\<rbrakk> \<Longrightarrow>
      v_read_block ops a n s = Some (slice (bytes s) (unat a) (unat n))"
    and erase_ok: "\<lbrakk>wf s; a \<le> b; unat b \<le> length (bytes s)\<rbrakk> \<Longrightarrow>
      \<exists>t. v_erase ops a b s = Some t \<and> wf t \<and> bytes t = cleared (bytes s) (unat a) (unat b)"
begin

definition memory_wf :: "'s base_memory \<Rightarrow> bool" where
  "memory_wf m = wf (m_storage m)"

definition memory_bytes :: "'s base_memory \<Rightarrow> u8 list" where
  "memory_bytes m = bytes (m_storage m)"

lemma write_block_bytes:
  assumes "memory_wf m" and "unat a + length d \<le> length (memory_bytes m)"
  shows "\<exists>m'. write_block ops a d m = Some m' \<and> memory_wf m' \<and>
    memory_bytes m' = overlay (memory_bytes m) (unat a) d"
  using write_block_ok[of "m_storage m" a d] assms
  by (auto simp: write_block_def write_block_dbg_def memory_wf_def memory_bytes_def Let_def)

lemma read_block_bytes:
  assumes "memory_wf m" and "unat a + unat n \<le> length (memory_bytes m)"
  shows "\<exists>m'. read_block ops a n m = Some (slice (memory_bytes m) (unat a) (unat n), m') \<and> memory_wf m' \<and>
    memory_bytes m' = memory_bytes m"
  using read_block_ok[of "m_storage m" a n] assms
  by (auto simp: read_block_def read_block_dbg_def memory_wf_def memory_bytes_def)

lemma erase_bytes:
  assumes "memory_wf m" and "a \<le> b" and "unat b \<le> length (memory_bytes m)"
  shows "\<exists>m'. erase_dbg ops a b m = Some m' \<and> memory_wf m' \<and>
    memory_bytes m' = cleared (memory_bytes m) (unat a) (unat b)"
  using erase_ok[of "m_storage m" a b] assms
  by (auto simp: erase_dbg_def memory_wf_def memory_bytes_def)

end

section \<open>Both storages are lists of bytes\<close>

definition as_wf :: "array_storage \<Rightarrow> bool" where
  "as_wf s = (length (as_data s) \<le> 2 ^ 32)"

interpretation array_functions: storage_functions array_ops as_wf as_data
proof unfold_locales
  fix s and a b :: u32
  assume "as_wf s" "a \<le> b" "unat b \<le> length (as_data s)"
  moreover from this have "unat (b - a) = unat b - unat a" by (simp add: unat_sub)
  ultimately show "\<exists>t. v_erase array_ops a b s = Some t \<and> as_wf t \<and>
      as_data t = cleared (as_data s) (unat a) (unat b)"
    by (auto simp: array_ops_def as_erase_def as_wf_def cleared_def overlay_def word_le_nat_alt)
qed (auto simp: array_ops_def as_wf_def as_write_block_def as_read_block_def overlay_def slice_def)

definition ms_wf :: "map_storage \<Rightarrow> bool" where
  "ms_wf s = (finite (dom (ms_data s)) \<and> unat (ms_size s) \<le> 2 ^ 32)"

definition ms_bytes :: "map_storage \<Rightarrow> u8 list" where
  "ms_bytes s = map (\<lambda>i. ms_read s (of_nat i)) [0..<unat (ms_size s)]"

definition sorted_container :: "(u32 \<Rightarrow> u8 option) \<Rightarrow> u32 list" where
  "sorted_container d = sorted_list_of_set (dom d)"

lemma sorted_container_ordered: "ordered_container sorted_container"
  by (simp add: ordered_container_def enumerates_def sorted_container_def)

lemma ms_write_block_size: "ms_size (ms_write_block a d s) = ms_size s"
proof -
  have "ms_size (fold (\<lambda>i s. ms_write (a + of_nat i) (d ! i) s) is s) = ms_size s" for "is"
    by (induction "is" arbitrary: s) (simp_all add: ms_write_def)
  then show ?thesis by (simp add: ms_write_block_def)
qed

lemma ms_erase_size: "ms_erase ord a b s = Some t \<Longrightarrow> ms_size t = ms_size s"
  by (auto simp: ms_erase_def Let_def)

interpretation map_functions: storage_functions "map_ops sorted_container" ms_wf ms_bytes
proof unfold_locales
  fix s and a :: u32 and d :: "u8 list"
  assume wf: "ms_wf s" and le: "unat a + length d \<le> length (ms_bytes s)"
  then have le32: "unat a + length d \<le> 2 ^ 32" by (simp add: ms_wf_def ms_bytes_def)
  have "ms_bytes (ms_write_block a d s) = overlay (ms_bytes s) (unat a) d"
  proof (rule nth_equalityI)
    show "length (ms_bytes (ms_write_block a d s)) = length (overlay (ms_bytes s) (unat a) d)"
      using le by (simp add: ms_bytes_def ms_write_block_size)
    fix i assume "i < length (ms_bytes (ms_write_block a d s))"
    then have i: "i < unat (ms_size s)" "i < 2 ^ 32"
      using wf by (simp_all add: ms_bytes_def ms_write_block_size ms_wf_def)
    then have ui: "unat (of_nat i :: u32) = i" by (simp add: unat_of_nat)
    have "ms_read (ms_write_block a d s) (of_nat i) =
        (if unat (of_nat i - a) < length d then d ! unat (of_nat i - a) else ms_read s (of_nat i))"
      using ms_write_block_read[OF le32, of d s] by (simp add: ms_write_block_def)
    then show "ms_bytes (ms_write_block a d s) ! i = overlay (ms_bytes s) (unat a) d ! i"
      using le i ui unat_diff_less[OF le32, of "of_nat i"]
      by (auto simp: ms_bytes_def ms_write_block_size nth_overlay)
  qed
  then show "\<exists>t. v_write_block (map_ops sorted_container) a d s = Some t \<and> ms_wf t \<and>
      ms_bytes t = overlay (ms_bytes s) (unat a) d"
    using wf by (simp add: map_ops_def ms_wf_def finite_write_block ms_write_block_size)
next
  fix s and a n :: u32
  assume "ms_wf s" "unat a + unat n \<le> length (ms_bytes s)"
  then have "ms_read_block s a (unat n) = slice (ms_bytes s) (unat a) (unat n)"
    by (auto simp: ms_read_block_def slice_def ms_bytes_def intro!: nth_equalityI)
  then show "v_read_block (map_ops sorted_container) a n s = Some (slice (ms_bytes s) (unat a) (unat n))"
    by (simp add: map_ops_def)
next
  fix s and a b :: u32
  assume wf: "ms_wf s" and ab: "a \<le> b" "unat b \<le> length (ms_bytes s)"
  obtain t where t: "v_erase (map_ops sorted_container) a b s = Some t" "finite (dom (ms_data t))"
      "\<And>c. ms_read t c = (if a \<le> c \<and> c < b then 0 else ms_read s c)"
    using ms_erase_ordered[OF sorted_container_ordered _ ab(1), of s] wf
    by (auto simp: map_ops_def ms_wf_def)
  have sz: "ms_size t = ms_size s" using t(1) ms_erase_size by (auto simp: map_ops_def)
  have "ms_bytes t = cleared (ms_bytes s) (unat a) (unat b)"
  proof (rule nth_equalityI)
    show "length (ms_bytes t) = length (cleared (ms_bytes s) (unat a) (unat b))"
      using ab by (simp add: ms_bytes_def sz word_le_nat_alt)
    fix i assume "i < length (ms_bytes t)"
    then have i: "i < unat (ms_size s)" "unat (of_nat i :: u32) = i"
      using wf by (simp_all add: ms_bytes_def sz ms_wf_def unat_of_nat)
    then show "ms_bytes t ! i = cleared (ms_bytes s) (unat a) (unat b) ! i"
      using ab t(3)[of "of_nat i"]
      by (auto simp: ms_bytes_def sz nth_cleared word_le_nat_alt word_less_nat_alt)
  qed
  then show "\<exists>t. v_erase (map_ops sorted_container) a b s = Some t \<and> ms_wf t \<and>
      ms_bytes t = cleared (ms_bytes s) (unat a) (unat b)"
    using t wf sz by (auto simp: ms_wf_def)
qed

end
