(* ===== verification/Bus_Memory.thy ===== *)
theory Bus_Memory
  imports Ahbctrl_Props Memory
begin

text \<open>
  The AHB controller, the slave sockets and the AHB memories together: for the masters the
  bus is one flat memory.  The memories stand behind the controller as a list, the number
  of a memory is its binding.
\<close>

section \<open>The system\<close>

record memory_slave =
  ms_info :: "u32 list"
  ms_mem :: "array_storage ahbmem"
  ms_stats :: slave_statistics

definition memory_socket :: "memory_slave list slaves" where
  "memory_socket i gp w =
     (if i < length w
      then let sl = w ! i
           in map_option (\<lambda>(cycles, gp, a, st). (cycles, gp, w[i := sl\<lparr>ms_mem := a, ms_stats := st\<rparr>]))
                (ahbslave_b_transport (ahbmem_exec_func array_ops) (ms_info sl) gp (ms_mem sl) (ms_stats sl))
      else None)"

abbreviation contents :: "memory_slave \<Rightarrow> u8 list" where
  "contents sl \<equiv> as_data (m_storage (am_memory (ms_mem sl)))"

text \<open>A slave fits its entry of the map: it is configured with the address and the mask of
  the entry and its storage has the size of the region.\<close>

definition slave_fits :: "u32 \<times> slave_info \<Rightarrow> memory_slave \<Rightarrow> bool" where
  "slave_fits e sl =
     (am_haddr (ms_mem sl) = fst e \<and> am_hmask (ms_mem sl) = si_mask (snd e) \<and>
      get_ahb_bar_base (am_device (ms_mem sl)) 0 = fst e \<and>
      get_ahb_bar_mask (am_device (ms_mem sl)) 0 = si_mask (snd e) \<and>
      length (contents sl) = region_size e)"

abbreviation slave_nr :: "u32 \<times> slave_info \<Rightarrow> nat" where
  "slave_nr e \<equiv> nat (slave_of e)"

definition system_wf :: "ahbctrl \<Rightarrow> memory_slave list \<Rightarrow> bool" where
  "system_wf c w =
     (decoder_wf c \<and> inj_on slave_nr (set (slave_map c)) \<and>
      (\<forall>e \<in> set (slave_map c). slave_nr e < length w \<and> slave_fits e (w ! slave_nr e)))"

text \<open>The flat memory the system stands for.\<close>

definition flat_memory :: "ahbctrl \<Rightarrow> memory_slave list \<Rightarrow> u32 \<Rightarrow> u8 option" where
  "flat_memory c w a =
     map_option (\<lambda>e. contents (w ! slave_nr e) ! (unat a - region_base e)) (matching (drop_bit 20 a) (slave_map c))"

text \<open>A block lies in one region and not in the plug-and-play area.\<close>

definition block_ok :: "ahbctrl \<Rightarrow> u32 \<Rightarrow> nat \<Rightarrow> bool" where
  "block_ok c a n =
     (\<not> is_pnp c a \<and> n < 2 ^ 32 \<and>
      (\<exists>e \<in> set (slave_map c). region_base e \<le> unat a \<and> unat a < region_base e + region_size e \<and>
         unat a + n \<le> region_base e + region_size e))"

section \<open>One transfer\<close>

lemma slave_of_nonneg: "0 \<le> slave_of e"
  by (simp add: slave_of_def)

lemma region_unique:
  assumes "slave_map_wf m" and "e \<in> set m" and "region_base e \<le> unat a" and "unat a < region_base e + region_size e"
  shows "matching (drop_bit 20 a) m = Some e"
  using assms region_hit_range[of e a] unfolding matching_Some[OF assms(1)]
  by (simp add: slave_map_wf_def list_all_iff)

lemma region_top: "entry_wf e \<Longrightarrow> region_base e + region_size e \<le> 2 ^ 32"
proof -
  assume wf: "entry_wf e"
  obtain n where n: "n \<le> 12" "si_mask (snd e) = 0xFFF AND NOT (Bit_Operations.mask n)"
    using wf by (auto simp: entry_wf_def)
  have "fst e = fst e AND (0xFFF AND NOT (Bit_Operations.mask n))" using wf n(2) by (simp add: entry_wf_def)
  also have "\<dots> = (fst e AND NOT (Bit_Operations.mask n)) AND 0xFFF"
    by (auto intro!: bit_word_eqI simp: bit_simps)
  finally have "fst e AND si_mask (snd e) = fst e \<and> unat (fst e) \<le> unat (si_mask (snd e))"
    using wf unfolding entry_wf_def by (metis word_and_le2 word_and_le1 word_le_nat_alt)
  moreover have "unat (si_mask (snd e)) \<le> 0x1000" unfolding n(2) unat_12_bit_mask[OF n(1)] by simp
  ultimately have "unat (fst e) + (0x1000 - unat (si_mask (snd e))) \<le> 0x1000" by linarith
  then show ?thesis unfolding region_base_def region_size_def by simp
qed

lemma relative_address:
  assumes "slave_fits e sl" and "entry_wf e" and "region_base e \<le> unat a"
  shows "unat (get_ahb_bar_relative_addr (am_device (ms_mem sl)) 0 a) = unat a - region_base e"
proof -
  have "get_ahb_bar_addr (am_device (ms_mem sl)) 0 = push_bit 20 (fst e)"
    using assms(1,2) by (simp add: slave_fits_def get_ahb_bar_addr_def entry_wf_def)
  moreover have "unat (push_bit 20 (fst e)) = region_base e"
  proof -
    have "unat a < 2 ^ LENGTH(32)" by (rule unsigned_less)
    then have "region_base e < 2 ^ 32" using assms(3) by simp
    moreover have "unat (push_bit 20 (fst e)) = take_bit 32 (region_base e)"
      using push_bit_eq_mult[of 20 "unat (fst e)"] by (simp add: unsigned_push_bit_eq region_base_def)
    ultimately show ?thesis by (simp add: take_bit_nat_eq_self)
  qed
  ultimately show ?thesis
    using assms(3) by (simp add: get_ahb_bar_relative_addr_def unat_sub word_le_nat_alt)
qed

lemma slave_accepts:
  assumes "slave_fits e sl" and "entry_wf e" and "region_hit (drop_bit 20 a) e"
  shows "(ucast (am_haddr (ms_mem sl)) XOR drop_bit 20 (ucast a :: u64)) AND ucast (am_hmask (ms_mem sl)) = 0"
proof -
  have "(ucast h XOR drop_bit 20 (ucast a :: u64)) AND ucast m = (ucast ((drop_bit 20 a XOR h) AND m) :: u64)"
    for h m :: u32
    by (auto intro!: bit_word_eqI simp: bit_simps) (auto dest: bit_imp_le_length)
  then show ?thesis
    using assms by (simp add: slave_fits_def region_hit_def)
qed

lemma block_region:
  assumes "system_wf c w" and "block_ok c a n"
  obtains e where "e \<in> set (slave_map c)" and "entry_wf e" and "matching (drop_bit 20 a) (slave_map c) = Some e"
    and "region_hit (drop_bit 20 a) e" and "slave_nr e < length w" and "slave_fits e (w ! slave_nr e)"
    and "region_base e \<le> unat a" and "unat a + n \<le> region_base e + region_size e"
    and "unat a < region_base e + region_size e"
proof -
  have map_wf: "slave_map_wf (slave_map c)" using assms(1) by (simp add: system_wf_def decoder_wf_def)
  obtain e where e: "e \<in> set (slave_map c)" "region_base e \<le> unat a" "unat a < region_base e + region_size e"
      "unat a + n \<le> region_base e + region_size e"
    using assms(2) by (auto simp: block_ok_def)
  have m: "matching (drop_bit 20 a) (slave_map c) = Some e" by (rule region_unique[OF map_wf e(1-3)])
  show thesis
    using that[OF e(1) _ m] m e matching_Some[OF map_wf] assms(1) map_wf
    by (auto simp: system_wf_def slave_map_wf_def list_all_iff)
qed

text \<open>The controller routes a block to the memory of its region.\<close>

lemma route_block:
  assumes "system_wf c w" and "block_ok c a n" and "p_address gp = ucast a"
    and "matching (drop_bit 20 a) (slave_map c) = Some e"
    and "memory_socket (slave_nr e) gp w = Some (cycles, gp', w')" and "p_command gp' = p_command gp"
  shows "\<exists>t sn c'. ahb_b_transport memory_socket m gp delay c w = Some (t, gp', sn, c', w') \<and>
    decoder_wf c' \<and> slave_map c' = slave_map c \<and> is_pnp c' = is_pnp c \<and>
    sn = (if p_command gp = Write_command then Some \<lparr>sn_master = m, sn_address = a, sn_length = p_length gp\<rparr> else None)"
proof -
  let ?c = "transport_statistics gp (c\<lparr>busy := True, is_lock := p_lock gp, lock_master := m\<rparr>)"
  have keep: "decoder_wf ?c" "slave_map ?c = slave_map c" "is_pnp ?c = is_pnp c"
    using assms(1)
    by (auto simp: transport_statistics_def system_wf_def decoder_wf_def is_pnp_def pnp_base_def pnp_mask_def
        fun_eq_iff split: tlm_command.splits)
  have map_wf: "slave_map_wf (slave_map c)" using assms(1) by (simp add: system_wf_def decoder_wf_def)
  have e: "e \<in> set (slave_map c)" "region_hit (drop_bit 20 a) e"
    using assms(4) matching_Some[OF map_wf] by simp_all
  have "fst e \<le> drop_bit 20 a"
  proof -
    have "drop_bit 20 a AND si_mask (snd e) = fst e"
      using e map_wf hit_aligned by (auto simp: slave_map_wf_def list_all_iff)
    then show ?thesis by (metis word_and_le1 word_and_le2)
  qed
  then have "decodable (drop_bit 20 a) (slave_map ?c)" using e(1) keep(2) by (auto simp: decodable_def)
  then obtain c1 where c1: "get_index a ?c = Some (slave_of e, c1)" "decoder_wf c1" "slave_map c1 = slave_map ?c"
    using get_index_decodes[OF keep(1), of a] assms(4) keep(2) by auto
  have "is_pnp c1 = is_pnp ?c"
    using c1(1) by (auto simp: get_index_def Let_def is_pnp_def pnp_base_def pnp_mask_def fun_eq_iff
        split: option.splits prod.splits)
  moreover have "\<not> is_pnp ?c a" using assms(2) keep(3) by (simp add: block_ok_def)
  ultimately show ?thesis
    using c1 assms(3,5,6) keep slave_of_nonneg[of e]
    by (auto simp: ahb_b_transport_def Let_def decoder_wf_def is_pnp_def pnp_base_def pnp_mask_def fun_eq_iff)
qed

definition block_write :: "u32 \<Rightarrow> u8 list \<Rightarrow> payload" where
  "block_write a d = \<lparr>p_command = Write_command, p_address = ucast a, p_data = d,
     p_response = Incomplete_response, p_dmi = False, p_cacheable = False, p_lock = False, p_erase = False\<rparr>"

definition block_read :: "u32 \<Rightarrow> nat \<Rightarrow> payload" where
  "block_read a n = \<lparr>p_command = Read_command, p_address = ucast a, p_data = replicate n 0,
     p_response = Incomplete_response, p_dmi = False, p_cacheable = False, p_lock = False, p_erase = False\<rparr>"

lemma block_payloads [simp]:
  "p_command (block_write a d) = Write_command" "p_address (block_write a d) = ucast a" "p_data (block_write a d) = d"
  "p_command (block_read a n) = Read_command" "p_address (block_read a n) = ucast a"
  "p_data (block_read a n) = replicate n 0"
  by (simp_all add: block_write_def block_read_def)

lemma socket_write:
  assumes "slave_nr e < length w" and "slave_fits e (w ! slave_nr e)" and "entry_wf e"
    and "region_hit (drop_bit 20 a) e" and "region_base e \<le> unat a"
    and "unat a + length d \<le> region_base e + region_size e"
    and gp: "p_command gp = Write_command" "p_address gp = ucast a" "p_data gp = d"
  shows "\<exists>cycles gp' sl. memory_socket (slave_nr e) gp w = Some (cycles, gp', w[slave_nr e := sl]) \<and>
    p_command gp' = Write_command \<and> p_response gp' = Ok_response \<and> p_data gp' = d \<and> slave_fits e sl \<and>
    contents sl = overlay (contents (w ! slave_nr e)) (unat a - region_base e) d"
proof -
  let ?sl = "w ! slave_nr e" and ?rel = "get_ahb_bar_relative_addr (am_device (ms_mem (w ! slave_nr e))) 0 a"
  have rel: "unat ?rel = unat a - region_base e" by (rule relative_address[OF assms(2,3,5)])
  have len: "length (contents ?sl) = region_size e" using assms(2) by (simp add: slave_fits_def)
  have fit: "unat ?rel + length d \<le> length (contents ?sl)" using rel len assms(5,6) by simp
  have wf: "as_wf (m_storage (am_memory (ms_mem ?sl)))"
    using len region_top[OF assms(3)] by (simp add: as_wf_def)
  obtain m' where m': "write_block array_ops ?rel d (am_memory (ms_mem ?sl)) = Some m'"
      "as_data (m_storage m') = overlay (contents ?sl) (unat a - region_base e) d"
    using array_functions.write_block_bytes[of "am_memory (ms_mem ?sl)" ?rel d] wf fit rel
    by (auto simp: array_functions.memory_wf_def array_functions.memory_bytes_def)
  have "length (overlay (contents ?sl) (unat a - region_base e) d) = region_size e"
    using fit rel len by simp
  then show ?thesis
    using assms(1,2) m' slave_accepts[OF assms(2-4)] gp
    by (auto simp: memory_socket_def ahbslave_b_transport_def ahbmem_exec_func_def Let_def slave_fits_def)
qed

lemma socket_read:
  assumes "slave_nr e < length w" and "slave_fits e (w ! slave_nr e)" and "entry_wf e"
    and "region_hit (drop_bit 20 a) e" and "region_base e \<le> unat a"
    and "unat a + n \<le> region_base e + region_size e" and "n < 2 ^ 32"
    and gp: "p_command gp = Read_command" "p_address gp = ucast a" "length (p_data gp) = n"
  shows "\<exists>cycles gp' sl. memory_socket (slave_nr e) gp w = Some (cycles, gp', w[slave_nr e := sl]) \<and>
    p_command gp' = Read_command \<and> p_response gp' = Ok_response \<and>
    p_data gp' = slice (contents (w ! slave_nr e)) (unat a - region_base e) n \<and> slave_fits e sl \<and>
    contents sl = contents (w ! slave_nr e)"
proof -
  let ?sl = "w ! slave_nr e" and ?rel = "get_ahb_bar_relative_addr (am_device (ms_mem (w ! slave_nr e))) 0 a"
  have rel: "unat ?rel = unat a - region_base e" by (rule relative_address[OF assms(2,3,5)])
  have len: "length (contents ?sl) = region_size e" using assms(2) by (simp add: slave_fits_def)
  have wf: "as_wf (m_storage (am_memory (ms_mem ?sl)))"
    using len region_top[OF assms(3)] by (simp add: as_wf_def)
  have n: "unat (of_nat n :: u32) = n" using assms(7) by (simp add: unat_of_nat)
  have fit: "unat ?rel + unat (of_nat n :: u32) \<le> length (contents ?sl)"
    using rel len assms(5,6) n by simp
  obtain m' where m': "read_block array_ops ?rel (of_nat n) (am_memory (ms_mem ?sl)) =
        Some (slice (contents ?sl) (unat a - region_base e) n, m')"
      "as_data (m_storage m') = contents ?sl"
    using array_functions.read_block_bytes[of "am_memory (ms_mem ?sl)" ?rel "of_nat n"] wf fit rel n
    by (auto simp: array_functions.memory_wf_def array_functions.memory_bytes_def)
  then show ?thesis
    using assms(1,2) slave_accepts[OF assms(2-4)] gp
    by (auto simp: memory_socket_def ahbslave_b_transport_def ahbmem_exec_func_def Let_def slave_fits_def)
qed

section \<open>The bus is a flat memory\<close>

definition flat_write :: "u32 \<Rightarrow> u8 list \<Rightarrow> (u32 \<Rightarrow> u8 option) \<Rightarrow> u32 \<Rightarrow> u8 option" where
  "flat_write a d f = (\<lambda>x. if unat a \<le> unat x \<and> unat x < unat a + length d then Some (d ! (unat x - unat a)) else f x)"

lemma flat_write_Nil: "flat_write a [] f = f"
  by (auto simp: flat_write_def fun_eq_iff)

definition flat_read :: "u32 \<Rightarrow> nat \<Rightarrow> (u32 \<Rightarrow> u8 option) \<Rightarrow> u8 list" where
  "flat_read a n f = map (\<lambda>i. the (f (a + of_nat i))) [0..<n]"

lemma system_wf_update:
  assumes "system_wf c w" and "e \<in> set (slave_map c)" and "slave_fits e sl"
    and "decoder_wf c'" and "slave_map c' = slave_map c"
  shows "system_wf c' (w[slave_nr e := sl])"
proof -
  have "slave_fits f (w[slave_nr e := sl] ! slave_nr f)" if "f \<in> set (slave_map c)" for f
    using assms(1-3) that unfolding system_wf_def
    by (cases "f = e") (auto simp: nth_list_update dest: inj_onD)
  then show ?thesis using assms by (simp add: system_wf_def)
qed

lemma matching_in_set: "slave_map_wf m \<Longrightarrow> matching a m = Some e \<Longrightarrow> e \<in> set m \<and> entry_wf e \<and> region_hit a e"
  by (simp add: matching_Some) (simp add: slave_map_wf_def list_all_iff)

lemma flat_memory_update:
  assumes "system_wf c w" and "e \<in> set (slave_map c)" and "slave_map c' = slave_map c"
    and "region_base e \<le> unat a" and "unat a + length d \<le> region_base e + region_size e"
    and "contents sl = overlay (contents (w ! slave_nr e)) (unat a - region_base e) d"
  shows "flat_memory c' (w[slave_nr e := sl]) = flat_write a d (flat_memory c w)"
proof
  fix x
  have map_wf: "slave_map_wf (slave_map c)" and inj: "inj_on slave_nr (set (slave_map c))"
    and fits: "slave_nr e < length w" "slave_fits e (w ! slave_nr e)"
    using assms(1,2) by (auto simp: system_wf_def decoder_wf_def)
  have e: "entry_wf e" using map_wf assms(2) by (simp add: slave_map_wf_def list_all_iff)
  have len: "length (contents (w ! slave_nr e)) = region_size e" using fits by (simp add: slave_fits_def)
  show "flat_memory c' (w[slave_nr e := sl]) x = flat_write a d (flat_memory c w) x"
  proof (cases "matching (drop_bit 20 x) (slave_map c) = Some e")
    case True
    then have "region_base e \<le> unat x" "unat x < region_base e + region_size e"
      using matching_in_set[OF map_wf] region_hit_range by blast+
    then show ?thesis
      using True assms(3-6) fits len
      by (auto simp: flat_memory_def flat_write_def nth_overlay)
  next
    case False
    have "\<not> (unat a \<le> unat x \<and> unat x < unat a + length d)"
      using False region_unique[OF map_wf assms(2), of x] assms(4,5) by auto
    moreover have "slave_nr f \<noteq> slave_nr e" if "matching (drop_bit 20 x) (slave_map c) = Some f" for f
      using that False matching_in_set[OF map_wf that] inj assms(2) by (auto dest: inj_onD)
    ultimately show ?thesis
      using assms(3) by (cases "matching (drop_bit 20 x) (slave_map c)") (auto simp: flat_memory_def flat_write_def)
  qed
qed

lemma flat_read_region:
  assumes "system_wf c w" and "e \<in> set (slave_map c)"
    and "region_base e \<le> unat a" and "unat a + n \<le> region_base e + region_size e"
  shows "flat_read a n (flat_memory c w) = slice (contents (w ! slave_nr e)) (unat a - region_base e) n"
proof (rule nth_equalityI)
  have map_wf: "slave_map_wf (slave_map c)" and fits: "slave_fits e (w ! slave_nr e)"
    using assms(1,2) by (auto simp: system_wf_def decoder_wf_def)
  have e: "entry_wf e" using map_wf assms(2) by (simp add: slave_map_wf_def list_all_iff)
  have len: "length (contents (w ! slave_nr e)) = region_size e" using fits by (simp add: slave_fits_def)
  then show "length (flat_read a n (flat_memory c w)) = length (slice (contents (w ! slave_nr e)) (unat a - region_base e) n)"
    using assms(3,4) by (simp add: flat_read_def slice_def)
  fix i assume "i < length (flat_read a n (flat_memory c w))"
  then have i: "i < n" by (simp add: flat_read_def)
  have "unat (a + of_nat i) = unat a + i"
    using unat_in_block[OF i, of a] assms(4) region_top[OF e] by simp
  moreover from this have "matching (drop_bit 20 (a + of_nat i)) (slave_map c) = Some e"
    using assms(3,4) i by (intro region_unique[OF map_wf assms(2)]) simp_all
  ultimately show "flat_read a n (flat_memory c w) ! i = slice (contents (w ! slave_nr e)) (unat a - region_base e) n ! i"
    using i assms(3,4) len by (simp add: flat_read_def flat_memory_def slice_def)
qed

text \<open>One transfer through the bus.\<close>

lemma bus_write:
  assumes "system_wf c w" and "block_ok c a (length d)"
    and gp: "p_command gp = Write_command" "p_address gp = ucast a" "p_data gp = d"
  shows "\<exists>t gp' sn c' w'. ahb_b_transport memory_socket m gp delay c w = Some (t, gp', sn, c', w') \<and>
    p_response gp' = Ok_response \<and> p_data gp' = d \<and> system_wf c' w' \<and> slave_map c' = slave_map c \<and> is_pnp c' = is_pnp c \<and>
    flat_memory c' w' = flat_write a d (flat_memory c w) \<and>
    sn = Some \<lparr>sn_master = m, sn_address = a, sn_length = p_length gp\<rparr>"
proof -
  obtain e where e: "e \<in> set (slave_map c)" "entry_wf e" "matching (drop_bit 20 a) (slave_map c) = Some e"
      "region_hit (drop_bit 20 a) e" "slave_nr e < length w" "slave_fits e (w ! slave_nr e)"
      "region_base e \<le> unat a" "unat a + length d \<le> region_base e + region_size e"
    using block_region[OF assms(1,2)] by blast
  obtain cycles gp' sl where s: "memory_socket (slave_nr e) gp w = Some (cycles, gp', w[slave_nr e := sl])"
      "p_command gp' = Write_command" "p_response gp' = Ok_response" "p_data gp' = d" "slave_fits e sl"
      "contents sl = overlay (contents (w ! slave_nr e)) (unat a - region_base e) d"
    using socket_write[OF e(5,6,2,4,7,8) gp] by blast
  obtain t sn c' where r: "ahb_b_transport memory_socket m gp delay c w = Some (t, gp', sn, c', w[slave_nr e := sl])"
      "decoder_wf c'" "slave_map c' = slave_map c" "is_pnp c' = is_pnp c"
      "sn = Some \<lparr>sn_master = m, sn_address = a, sn_length = p_length gp\<rparr>"
    using route_block[OF assms(1,2) gp(2) e(3) s(1), where m = m and delay = delay] s(2) gp(1) by auto
  then show ?thesis
    using s system_wf_update[OF assms(1) e(1) s(5) r(2,3)] flat_memory_update[OF assms(1) e(1) r(3) e(7,8) s(6)]
    by blast
qed

lemma bus_read:
  assumes "system_wf c w" and "block_ok c a n"
    and gp: "p_command gp = Read_command" "p_address gp = ucast a" "length (p_data gp) = n"
  shows "\<exists>t gp' sn c' w'. ahb_b_transport memory_socket m gp delay c w = Some (t, gp', sn, c', w') \<and>
    p_response gp' = Ok_response \<and> p_data gp' = flat_read a n (flat_memory c w) \<and> system_wf c' w' \<and>
    slave_map c' = slave_map c \<and> is_pnp c' = is_pnp c \<and> flat_memory c' w' = flat_memory c w \<and>
    sn = None"
proof -
  obtain e where e: "e \<in> set (slave_map c)" "entry_wf e" "matching (drop_bit 20 a) (slave_map c) = Some e"
      "region_hit (drop_bit 20 a) e" "slave_nr e < length w" "slave_fits e (w ! slave_nr e)"
      "region_base e \<le> unat a" "unat a + n \<le> region_base e + region_size e"
    using block_region[OF assms(1,2)] by blast
  have n: "n < 2 ^ 32" using assms(2) by (simp add: block_ok_def)
  obtain cycles gp' sl where s: "memory_socket (slave_nr e) gp w = Some (cycles, gp', w[slave_nr e := sl])"
      "p_command gp' = Read_command" "p_response gp' = Ok_response"
      "p_data gp' = slice (contents (w ! slave_nr e)) (unat a - region_base e) n" "slave_fits e sl"
      "contents sl = contents (w ! slave_nr e)"
    using socket_read[OF e(5,6,2,4,7,8) n gp] by blast
  obtain t sn c' where r: "ahb_b_transport memory_socket m gp delay c w = Some (t, gp', sn, c', w[slave_nr e := sl])"
      "decoder_wf c'" "slave_map c' = slave_map c" "is_pnp c' = is_pnp c" "sn = None"
    using route_block[OF assms(1,2) gp(2) e(3) s(1), where m = m and delay = delay] s(2) gp(1) by auto
  have "contents sl = overlay (contents (w ! slave_nr e)) (unat a - region_base e) []"
    using s(6) by (simp add: overlay_def)
  then have "flat_memory c' (w[slave_nr e := sl]) = flat_memory c w"
    using flat_memory_update[OF assms(1) e(1) r(3) e(7), of "[]" sl] e(7) e(8)
    by (simp add: flat_write_Nil)
  then show ?thesis
    using s r system_wf_update[OF assms(1) e(1) s(5) r(2,3)] flat_read_region[OF assms(1) e(1,7,8)]
    by auto
qed

text \<open>Runs: the masters' requests in the order in which they get the bus, and what comes
  back: the response status and the data.\<close>

datatype request = Wr u32 "u8 list" | Rd u32 nat

fun request_payload :: "request \<Rightarrow> payload" where
  "request_payload (Wr a d) = block_write a d"
| "request_payload (Rd a n) = block_read a n"

fun request_ok :: "ahbctrl \<Rightarrow> request \<Rightarrow> bool" where
  "request_ok c (Wr a d) = block_ok c a (length d)"
| "request_ok c (Rd a n) = block_ok c a n"

fun bus_run :: "(u32 \<times> request) list \<Rightarrow> ahbctrl \<Rightarrow> memory_slave list \<Rightarrow> (tlm_response \<times> u8 list) list option" where
  "bus_run [] c w = Some []"
| "bus_run ((m, r) # rs) c w =
     (case ahb_b_transport memory_socket m (request_payload r) 0 c w of
        None \<Rightarrow> None
      | Some (t, gp, sn, c, w) \<Rightarrow> map_option ((#) (p_response gp, p_data gp)) (bus_run rs c w))"

fun flat_run :: "request list \<Rightarrow> (u32 \<Rightarrow> u8 option) \<Rightarrow> (tlm_response \<times> u8 list) list" where
  "flat_run [] f = []"
| "flat_run (Wr a d # rs) f = (Ok_response, d) # flat_run rs (flat_write a d f)"
| "flat_run (Rd a n # rs) f = (Ok_response, flat_read a n f) # flat_run rs f"

lemma request_ok_cong: "slave_map c' = slave_map c \<Longrightarrow> is_pnp c' = is_pnp c \<Longrightarrow> request_ok c' r = request_ok c r"
  by (cases r) (simp_all add: block_ok_def)

text \<open>(C4) Refinement of a flat memory: for every sequence of block transfers by any masters,
  each within one slave's region, the controller, its decoder cache and the AHB memories
  behind it answer exactly as one array of bytes would.\<close>

theorem bus_is_flat_memory:
  assumes "system_wf c w" and "\<forall>(m, r) \<in> set rs. request_ok c r"
  shows "bus_run rs c w = Some (flat_run (map snd rs) (flat_memory c w))"
  using assms
proof (induction rs arbitrary: c w)
  case (Cons mr rs)
  obtain m r where mr: "mr = (m, r)" by (cases mr)
  have ok: "request_ok c r" using Cons.prems(2) mr by simp
  show ?case
  proof (cases r)
    case (Wr a d)
    then have "block_ok c a (length d)" using ok by simp
    then obtain t gp sn c' w' where s: "ahb_b_transport memory_socket m (block_write a d) 0 c w = Some (t, gp, sn, c', w')"
        "p_response gp = Ok_response" "p_data gp = d" "system_wf c' w'" "slave_map c' = slave_map c" "is_pnp c' = is_pnp c"
        "flat_memory c' w' = flat_write a d (flat_memory c w)"
      using bus_write[OF Cons.prems(1), of a d "block_write a d" m 0] by auto
    have "bus_run rs c' w' = Some (flat_run (map snd rs) (flat_memory c' w'))"
      using Cons.prems(2) request_ok_cong[OF s(5,6)] by (intro Cons.IH[OF s(4)]) auto
    then show ?thesis using s mr Wr by simp
  next
    case (Rd a n)
    then have "block_ok c a n" using ok by simp
    then obtain t gp sn c' w' where s: "ahb_b_transport memory_socket m (block_read a n) 0 c w = Some (t, gp, sn, c', w')"
        "p_response gp = Ok_response" "p_data gp = flat_read a n (flat_memory c w)" "system_wf c' w'"
        "slave_map c' = slave_map c" "is_pnp c' = is_pnp c" "flat_memory c' w' = flat_memory c w"
      using bus_read[OF Cons.prems(1), of a n "block_read a n" m 0] by auto
    have "bus_run rs c' w' = Some (flat_run (map snd rs) (flat_memory c' w'))"
      using Cons.prems(2) request_ok_cong[OF s(5,6)] by (intro Cons.IH[OF s(4)]) auto
    then show ?thesis using s mr Rd by simp
  qed
qed simp

text \<open>Two memories of 1 MB each.\<close>

definition sample_memory :: "u32 \<Rightarrow> u8 \<Rightarrow> memory_slave" where
  "sample_memory haddr b = \<lparr>ms_info = get_ahb_device_info sample_device,
     ms_mem = \<lparr>am_device = sample_device\<lparr>g_bar0 := \<lparr>b_haddr = haddr, b_hmask = 0xFFF, b_htype = 2,
         b_hcacheable = True, b_hprefetchable = False\<rparr>\<rparr>,
       am_haddr = haddr, am_hmask = 0xFFF, am_cacheable = True, am_wait_states = 1, am_pow_mon = False,
       am_memory = base_memory_init \<lparr>as_data = replicate (2 ^ 20) b, as_size = 2 ^ 20\<rparr>,
       am_dyn_reads = 0, am_dyn_writes = 0\<rparr>,
     ms_stats = \<lparr>ss_reads = 0, ss_writes = 0\<rparr>\<rparr>"

definition sample_map :: "slave_info omap" where
  "sample_map = [(0x400, \<lparr>si_index = 1, si_mask = 0xFFF, si_binding = 4\<rparr>),
                 (0x401, \<lparr>si_index = 2, si_mask = 0xFFF, si_binding = 0\<rparr>)]"

definition sample_bus :: ahbctrl where
  "sample_bus = (ahbctrl_init 0xFFF 0xFFF 0xFF0 0xFF0 True True True False IDLE)\<lparr>slave_map := sample_map\<rparr>"

lemma sample_system_wf: "system_wf sample_bus [sample_memory 0x401 7, sample_memory 0x400 9]"
proof -
  have "map_check sample_map" by code_simp
  then have "decoder_wf sample_bus"
    using map_check_wf by (simp add: decoder_wf_def sample_bus_def ahbctrl_init_def cache_wf_def)
  moreover have "slave_nr (0x400, \<lparr>si_index = 1, si_mask = 0xFFF, si_binding = 4\<rparr>) = 1"
    "slave_nr (0x401, \<lparr>si_index = 2, si_mask = 0xFFF, si_binding = 0\<rparr>) = 0"
    by code_simp+
  moreover have "slave_fits (0x400, \<lparr>si_index = 1, si_mask = 0xFFF, si_binding = 4\<rparr>) (sample_memory 0x400 9)"
    "slave_fits (0x401, \<lparr>si_index = 2, si_mask = 0xFFF, si_binding = 0\<rparr>) (sample_memory 0x401 7)"
    by (simp_all add: slave_fits_def sample_memory_def get_ahb_bar_base_def get_ahb_bar_mask_def select_bar_def
        base_memory_init_def region_size_def)
  ultimately show ?thesis
    by (simp add: system_wf_def sample_bus_def sample_map_def inj_on_def)
qed

theorem bus_is_flat_memory_witness:
  "bus_run [(0, Wr 0x400FFFFE [1, 2]), (1, Rd 0x400FFFFE 2), (1, Rd 0x40100000 2)]
     sample_bus [sample_memory 0x401 7, sample_memory 0x400 9]
   = Some [(Ok_response, [1, 2]), (Ok_response, [1, 2]), (Ok_response, [7, 7])]"
proof -
  let ?w = "[sample_memory 0x401 7, sample_memory 0x400 9]"
  have ok: "\<forall>(m, r) \<in> set [(0 :: u32, Wr 0x400FFFFE [1, 2]), (1, Rd 0x400FFFFE 2), (1, Rd 0x40100000 2)]. request_ok sample_bus r"
    by (simp add: block_ok_def sample_bus_def sample_map_def is_pnp_def pnp_base_def pnp_mask_def ahbctrl_init_def
        region_base_def region_size_def)
  have "flat_memory sample_bus ?w 0x40100000 = Some 7" "flat_memory sample_bus ?w 0x40100001 = Some 7"
  proof -
    have "matching (drop_bit 20 0x40100000) (slave_map sample_bus) = Some (0x401, \<lparr>si_index = 2, si_mask = 0xFFF, si_binding = 0\<rparr>)"
      "matching (drop_bit 20 0x40100001) (slave_map sample_bus) = Some (0x401, \<lparr>si_index = 2, si_mask = 0xFFF, si_binding = 0\<rparr>)"
      by code_simp+
    then show "flat_memory sample_bus ?w 0x40100000 = Some 7" "flat_memory sample_bus ?w 0x40100001 = Some 7"
      by (simp_all add: flat_memory_def slave_of_def sample_memory_def base_memory_init_def region_base_def)
  qed
  then show ?thesis
    unfolding bus_is_flat_memory[OF sample_system_wf ok]
    by (simp add: flat_read_def flat_write_def upt_rec)
qed

end
