(* ===== verification/Memory_Props.thy ===== *)
theory Memory_Props
  imports Bus_Memory
begin

text \<open>
  Erasing and resetting: the memory device's erase transaction, the AHB memory's reset,
  and the statistics of block accesses.
\<close>

section \<open>Reset of the AHB memory\<close>

lemma ucast_minus_u64: "(ucast (x - y :: u64) :: u32) = ucast x - ucast y"
proof -
  have "uint (x - y) = take_bit 64 (uint x - uint y)"
    by (simp add: uint_word_ariths take_bit_eq_mod)
  then have "take_bit 32 (uint (x - y)) = take_bit 32 (uint x - uint y)"
    by (simp add: take_bit_take_bit)
  then have "(word_of_int (uint (x - y)) :: u32) = word_of_int (uint x - uint y)"
    unfolding word_of_int_eq_iff by simp
  also have "\<dots> = word_of_int (uint x) - word_of_int (uint y)" by simp
  finally show ?thesis by (simp only: ucast_eq)
qed

text \<open>A device with bar 0 only.\<close>

definition single_bar :: "ahb_device \<Rightarrow> bool" where
  "single_bar d = (get_ahb_bar_addr d 1 = 0 \<and> get_ahb_bar_addr d 2 = 0 \<and> get_ahb_bar_addr d 3 = 0)"

lemma single_bar_size:
  assumes "single_bar d"
  shows "(ucast (get_ahb_size d - 1) :: u32) = get_ahb_bar_size d 0 - 1"
  using assms by (simp add: get_ahb_size_def get_ahb_base_addr_def single_bar_def size_step_def ucast_minus_u64)

text \<open>Resetting an AHB memory clears every byte of its storage except the last one, which
  keeps its value: the end of the erased range is taken as inclusive by the caller and as
  exclusive by the storage.\<close>

theorem ahbmem_reset:
  assumes "single_bar (am_device a)" and "get_ahb_bar_size (am_device a) 0 \<noteq> 0"
    and "length (as_data (m_storage (am_memory a))) = unat (get_ahb_bar_size (am_device a) 0)"
  shows "\<exists>a'. ahbmem_dorst array_ops a = Some a' \<and>
    (\<forall>i < length (as_data (m_storage (am_memory a))).
       as_data (m_storage (am_memory a')) ! i =
         (if i + 1 = length (as_data (m_storage (am_memory a))) then as_data (m_storage (am_memory a)) ! i else 0))"
proof -
  let ?m = "am_memory a" and ?sz = "get_ahb_bar_size (am_device a) 0"
  let ?bs = "as_data (m_storage ?m)"
  have sz: "unat (?sz - 1) = unat ?sz - 1"
    using assms(2) by (rule unat_minus_one)
  have wf: "array_functions.memory_wf ?m"
    using assms(3) unat_less_2_32[of ?sz] by (simp add: array_functions.memory_wf_def as_wf_def)
  obtain m' where m': "erase_dbg array_ops 0 (?sz - 1) ?m = Some m'"
      "as_data (m_storage m') = cleared ?bs 0 (unat ?sz - 1)"
    using array_functions.erase_bytes[OF wf, of 0 "?sz - 1"] assms(3) sz
    by (auto simp: array_functions.memory_bytes_def)
  have "cleared ?bs 0 (unat ?sz - 1) ! i = (if i + 1 = length ?bs then ?bs ! i else 0)" if "i < length ?bs" for i
    using that assms(3) nth_cleared[of 0 "unat ?sz - 1" ?bs i] by auto
  then show ?thesis
    using m' by (simp add: ahbmem_dorst_def single_bar_size[OF assms(1)])
qed

theorem ahbmem_reset_witness:
  "\<exists>a'. ahbmem_dorst array_ops (ms_mem (sample_memory 0x400 9)) = Some a' \<and>
    as_data (m_storage (am_memory a')) ! 5 = 0 \<and> as_data (m_storage (am_memory a')) ! 0xFFFFF = 9"
proof -
  let ?a = "ms_mem (sample_memory 0x400 9)"
  have "single_bar (am_device ?a)"
    by (simp add: single_bar_def get_ahb_bar_addr_def get_ahb_bar_base_def get_ahb_bar_mask_def select_bar_def
        sample_memory_def sample_device_def)
  moreover have "get_ahb_bar_size (am_device ?a) 0 = 0x100000"
    by (simp add: get_ahb_bar_size_def get_ahb_bar_mask_def select_bar_def sample_memory_def sample_device_def)
  moreover have data: "as_data (m_storage (am_memory ?a)) = replicate 0x100000 9"
    by (simp add: sample_memory_def base_memory_init_def)
  ultimately obtain a' where a': "ahbmem_dorst array_ops ?a = Some a'"
    "\<forall>i < 0x100000. as_data (m_storage (am_memory a')) ! i = (if i + 1 = 0x100000 then replicate 0x100000 9 ! i else 0)"
    using ahbmem_reset[of ?a] by (auto simp: data)
  then show ?thesis using a' by auto
qed

section \<open>Block statistics\<close>

text \<open>A block of \<^verbatim>\<open>n > 0\<close> bytes counts as the words it needs; the empty block counts as
  2^30 words, because the length is decremented before the division.\<close>

lemma words32_count: "0 < len \<Longrightarrow> unat (words32 len) = (unat len + 3) div 4"
proof -
  assume "0 < len"
  then have "len \<noteq> 0" "0 < unat len" by (auto simp: word_less_nat_alt)
  moreover from this have "unat (len - 1) = unat len - 1" by (intro unat_minus_one)
  moreover have "unat (drop_bit 2 (len - 1)) = unat (len - 1) div 4" by (simp add: drop_bit_eq_div unat_div)
  moreover have "unat (len - 1) div 4 + 1 < 2 ^ 32" using unat_less_2_32[of "len - 1"] by simp
  ultimately show ?thesis unfolding words32_def by (simp add: unat_word_ariths)
qed

lemma words32_empty: "words32 0 = 0x40000000"
  by code_simp

end
