(* ===== verification/Vectorcache.thy ===== *)
theory Vectorcache
  imports Amba
begin

text \<open>
  The caches of the LEON3 processor (src/gaisler/leon3/mmucache/vectorcache.cpp with its
  two instances dvectorcache.cpp and ivectorcache.cpp): look-up, line fill, the four
  replacement strategies, write-through, the diagnostic accesses, flush and snooping.

  The next level is a \<^verbatim>\<open>mem_if\<close> (mem_if.h), a record of functions.  \<^verbatim>\<open>None\<close> stands for an
  access outside the cache memory, which is undefined in C++, and for a loop that does not
  end.  Delays, the energy counters and the debug word are not modelled.  The cache
  control register, which the cache asks its controller for, is an argument.
\<close>

section \<open>The memory interface\<close>

text \<open>Reading gives the bytes and whether they may be cached.\<close>

record 'm mem_if =
  if_read :: "u32 \<Rightarrow> u32 \<Rightarrow> u32 \<Rightarrow> bool \<Rightarrow> 'm \<Rightarrow> (u8 list \<times> bool \<times> 'm) option"
  if_write :: "u32 \<Rightarrow> u32 \<Rightarrow> u8 list \<Rightarrow> bool \<Rightarrow> 'm \<Rightarrow> 'm option"

section \<open>State\<close>

datatype cache_kind = Icache | Dcache

record cache_line =
  cl_valid :: u32
  cl_atag :: u32
  cl_lrr :: u32
  cl_lru :: u32
  cl_lock :: u32
  cl_entry :: "u8 list"

record vectorcache =
  vc_kind :: cache_kind
  m_new_linefetch_en :: bool
  m_burst_en :: bool
  m_pseudo_rand :: u32
  m_sets :: nat
  m_setlock :: bool
  m_linesize :: nat
  m_offset_bits :: nat
  m_idx_bits :: nat
  m_tag_bits :: nat
  m_repl :: nat
  m_max_lru :: u32
  CACHE_CONFIG_REG :: u32
  cache_mem :: "cache_line list"
  rhits :: "u64 list"
  rmisses :: u64
  whits :: "u64 list"
  wmisses :: u64
  bypassops :: u64

definition m_bytesperline :: "vectorcache \<Rightarrow> u32" where
  "m_bytesperline c = push_bit 2 (push_bit (m_linesize c) 1)"

text \<open>\<^verbatim>\<open>check_mode\<close>: 3 is enabled, 1 is frozen.\<close>

definition check_mode :: "vectorcache \<Rightarrow> u32 \<Rightarrow> u32" where
  "check_mode c ccr = (case vc_kind c of Dcache \<Rightarrow> drop_bit 2 ccr AND 3 | Icache \<Rightarrow> ccr AND 3)"

section \<open>Addresses and lines\<close>

definition get_tag :: "vectorcache \<Rightarrow> u32 \<Rightarrow> u32" where
  "get_tag c address = drop_bit (m_idx_bits c + m_offset_bits c) address"

definition get_idx :: "vectorcache \<Rightarrow> u32 \<Rightarrow> u32" where
  "get_idx c address = drop_bit (m_tag_bits c + m_offset_bits c) (push_bit (m_tag_bits c) address)"

definition get_offset :: "vectorcache \<Rightarrow> u32 \<Rightarrow> u32" where
  "get_offset c address =
     drop_bit (m_tag_bits c + m_idx_bits c) (push_bit (m_tag_bits c + m_idx_bits c) address)"

definition lookup_line :: "vectorcache \<Rightarrow> u32 \<Rightarrow> nat \<Rightarrow> nat" where
  "lookup_line c idx way = unat idx * (m_sets c + 1) + way"

definition line_at :: "vectorcache \<Rightarrow> u32 \<Rightarrow> nat \<Rightarrow> cache_line" where
  "line_at c idx way = cache_mem c ! lookup_line c idx way"

definition set_line :: "u32 \<Rightarrow> nat \<Rightarrow> cache_line \<Rightarrow> vectorcache \<Rightarrow> vectorcache" where
  "set_line idx way l c = c\<lparr>cache_mem := (cache_mem c)[lookup_line c idx way := l]\<rparr>"

definition in_cache :: "vectorcache \<Rightarrow> u32 \<Rightarrow> nat \<Rightarrow> bool" where
  "in_cache c idx way = (lookup_line c idx way < length (cache_mem c))"

text \<open>\<^verbatim>\<open>copy_from\<close> and \<^verbatim>\<open>copy_to\<close> of a line's data.\<close>

definition copy_from :: "u32 \<Rightarrow> u32 \<Rightarrow> cache_line \<Rightarrow> u8 list option" where
  "copy_from offset len l =
     (if unat offset + unat len \<le> length (cl_entry l)
      then Some (take (unat len) (drop (unat offset) (cl_entry l))) else None)"

definition copy_to :: "u32 \<Rightarrow> u8 list \<Rightarrow> cache_line \<Rightarrow> cache_line option" where
  "copy_to offset data l =
     (if unat offset + length data \<le> length (cl_entry l)
      then Some (l\<lparr>cl_entry := take (unat offset) (cl_entry l) @ data @ drop (unat offset + length data) (cl_entry l)\<rparr>)
      else None)"

text \<open>\<^verbatim>\<open>offset2valid\<close>: the valid bits of the words an access touches.\<close>

fun widen :: "nat \<Rightarrow> u32 \<Rightarrow> u32" where
  "widen 0 r = r"
| "widen (Suc n) r = widen n (r OR push_bit 1 r)"

definition offset2valid :: "vectorcache \<Rightarrow> u32 \<Rightarrow> u32 \<Rightarrow> u32" where
  "offset2valid c offset len =
     (if len = 0 \<or> m_bytesperline c < offset + len then 0
      else let r = widen (unat (drop_bit 2 len) - 1) (push_bit (unat (drop_bit 2 offset)) 1)
           in if offset AND 3 \<noteq> 0 \<or> len AND 3 \<noteq> 0 then r OR push_bit 1 r else r)"

section \<open>Replacement\<close>

text \<open>The counters of the least-recently-used strategy.\<close>

definition lru_step :: "vectorcache \<Rightarrow> u32 \<Rightarrow> nat \<Rightarrow> nat \<Rightarrow> cache_line \<Rightarrow> cache_line" where
  "lru_step c pivot way_select way l =
     (if way = way_select then l\<lparr>cl_lru := m_max_lru c\<rparr>
      else if cl_lru l > pivot then l\<lparr>cl_lru := cl_lru l - 1\<rparr>
      else l)"

definition lru_update :: "u32 \<Rightarrow> nat \<Rightarrow> vectorcache \<Rightarrow> vectorcache" where
  "lru_update idx way_select c =
     (let pivot = cl_lru (line_at c idx way_select)
      in fold (\<lambda>way c. set_line idx way (lru_step c pivot way_select way (line_at c idx way)) c) [0..<m_sets c + 1] c)"

definition lrr_update :: "u32 \<Rightarrow> nat \<Rightarrow> vectorcache \<Rightarrow> vectorcache" where
  "lrr_update idx way_select c =
     fold (\<lambda>way c. set_line idx way ((line_at c idx way)\<lparr>cl_lrr := int_of_bool (way = way_select)\<rparr>) c) [0..<2] c"

text \<open>Least recently used: the code reads the LRU counter a second time where it means the
  lock bit.\<close>

fun select_lru :: "cache_line list \<Rightarrow> nat \<Rightarrow> u32 \<Rightarrow> nat \<Rightarrow> nat" where
  "select_lru [] way min_lru way_select = way_select"
| "select_lru (l # ls) way min_lru way_select =
     (let tmp_lru = cl_lru l; tmp_lock = cl_lru l
      in if tmp_lru \<le> min_lru \<and> tmp_lock = 0 then select_lru ls (way + 1) tmp_lru way
         else select_lru ls (way + 1) min_lru way_select)"

text \<open>Least recently replaced: the loop looks at three lines from the start of the set.\<close>

fun select_lrr :: "nat \<Rightarrow> vectorcache \<Rightarrow> u32 \<Rightarrow> nat \<Rightarrow> nat option" where
  "select_lrr 0 c idx way = Some 1"
| "select_lrr (Suc n) c idx way =
     (if in_cache c idx way
      then let l = line_at c idx way
           in if cl_lrr l = 0 \<and> cl_lock l = 0 then Some way else select_lrr n c idx (way + 1)
      else None)"

text \<open>Pseudo random: the counter advances until it meets a line that is not locked; with
  every line locked the loop does not end.\<close>

partial_function (option) select_random :: "u32 list \<Rightarrow> u32 \<Rightarrow> (nat \<times> u32) option" where
  "select_random locks rand =
     (let way_select = unat (rand mod of_nat (length locks))
      in if locks ! way_select \<noteq> 0 then select_random locks (rand + 1) else Some (way_select, rand + 1))"

definition ways :: "vectorcache \<Rightarrow> u32 \<Rightarrow> cache_line list" where
  "ways c idx = map (line_at c idx) [0..<m_sets c + 1]"

definition replacement_selector :: "u32 \<Rightarrow> nat \<Rightarrow> vectorcache \<Rightarrow> (nat \<times> vectorcache) option" where
  "replacement_selector idx mode c =
     (if mode = 0 then Some (0, c)
      else if mode = 1 then Some (select_lru (ways c idx) 0 (m_max_lru c) 0, c)
      else if mode = 2 then map_option (\<lambda>w. (w, c)) (select_lrr 3 c idx 0)
      else map_option (\<lambda>(w, r). (w, c\<lparr>m_pseudo_rand := r\<rparr>))
             (select_random (map cl_lock (ways c idx)) (m_pseudo_rand c)))"

section \<open>Finding and filling lines\<close>

fun first_way :: "(cache_line \<Rightarrow> bool) \<Rightarrow> cache_line list \<Rightarrow> nat \<Rightarrow> nat option" where
  "first_way P [] way = None"
| "first_way P (l # ls) way = (if P l then Some way else first_way P ls (way + 1))"

definition line_hit :: "vectorcache \<Rightarrow> u32 \<Rightarrow> u32 \<Rightarrow> u32 \<Rightarrow> cache_line \<Rightarrow> bool" where
  "line_hit c tag offset len l =
     (cl_atag l = tag \<and>
      (if m_new_linefetch_en c then cl_valid l AND 1 \<noteq> 0
       else cl_valid l AND offset2valid c offset len = offset2valid c offset len))"

definition locate_line :: "vectorcache \<Rightarrow> u32 \<Rightarrow> u32 \<Rightarrow> u32 \<Rightarrow> u32 \<Rightarrow> nat option" where
  "locate_line c tag idx offset len = first_way (line_hit c tag offset len) (ways c idx) 0"

text \<open>The tag part of \<^verbatim>\<open>update_line\<close>, then the valid bits and the LRU counters.\<close>

definition claim_line :: "u32 \<Rightarrow> u32 \<Rightarrow> nat \<Rightarrow> vectorcache \<Rightarrow> vectorcache" where
  "claim_line tag idx way c =
     (if cl_atag (line_at c idx way) \<noteq> tag
      then let c = set_line idx way ((line_at c idx way)\<lparr>cl_atag := tag\<rparr>) c;
               c = (if m_repl c = 2 then lrr_update idx way c else c)
           in set_line idx way ((line_at c idx way)\<lparr>cl_valid := 0\<rparr>) c
      else c)"

definition validate_line :: "u32 \<Rightarrow> u32 \<Rightarrow> u32 \<Rightarrow> nat \<Rightarrow> vectorcache \<Rightarrow> vectorcache" where
  "validate_line idx offset len way c =
     set_line idx way ((line_at c idx way)\<lparr>cl_valid :=
        (if m_new_linefetch_en c then 1 else cl_valid (line_at c idx way) OR offset2valid c offset len)\<rparr>) c"

definition update_line :: "u32 \<Rightarrow> u32 \<Rightarrow> u32 \<Rightarrow> nat \<Rightarrow> u8 list \<Rightarrow> vectorcache \<Rightarrow> vectorcache option" where
  "update_line tag idx offset way data c =
     (if in_cache c idx way
      then map_option (\<lambda>l.
             let c = claim_line tag idx way (set_line idx way l c);
                 c = validate_line idx offset (of_nat (length data)) way c
             in if m_repl c = 1 then lru_update idx way c else c)
             (copy_to offset data (line_at c idx way))
      else None)"

definition line_free :: "vectorcache \<Rightarrow> u32 \<Rightarrow> u32 \<Rightarrow> cache_line \<Rightarrow> bool" where
  "line_free c offset len l =
     (if m_new_linefetch_en c then cl_valid l AND 1 = 0 else cl_valid l AND offset2valid c offset len = 0)"

definition allocate_line :: "u32 \<Rightarrow> u32 \<Rightarrow> u32 \<Rightarrow> u8 list \<Rightarrow> vectorcache \<Rightarrow> vectorcache option" where
  "allocate_line tag idx offset data c =
     (case first_way (line_free c offset (of_nat (length data))) (ways c idx) 0 of
        Some way \<Rightarrow> update_line tag idx offset way data c
      | None \<Rightarrow> (case replacement_selector idx (m_repl c) c of
                  None \<Rightarrow> None
                | Some (way, c) \<Rightarrow> update_line tag idx offset way data c))"

section \<open>Reading and writing\<close>

text \<open>What a miss reads: the line, the rest of the line, or the word.\<close>

definition fetch_range :: "vectorcache \<Rightarrow> u32 \<Rightarrow> u32 \<Rightarrow> u32 \<Rightarrow> u32 \<times> u32" where
  "fetch_range c ccr address len =
     (if m_new_linefetch_en c
      then (push_bit (m_linesize c + 2) (drop_bit (m_linesize c + 2) address), m_bytesperline c)
      else if m_burst_en c \<and> ccr AND 0x10000 \<noteq> 0
      then (push_bit 2 (drop_bit 2 address), m_bytesperline c - push_bit 2 (drop_bit 2 (get_offset c address)))
      else (push_bit 2 (drop_bit 2 address), if len = 8 then 8 else 4))"

definition count_at :: "nat \<Rightarrow> u64 list \<Rightarrow> u64 list" where
  "count_at way ns = ns[way := ns ! way + 1]"

definition vc_mem_read ::
    "'m mem_if \<Rightarrow> u32 \<Rightarrow> u32 \<Rightarrow> u32 \<Rightarrow> u32 \<Rightarrow> bool \<Rightarrow> vectorcache \<Rightarrow> 'm
      \<Rightarrow> (u8 list \<times> vectorcache \<times> 'm) option" where
  "vc_mem_read mif ccr address asi len is_dbg c m =
     (let tag = get_tag c address; idx = get_idx c address; offset = get_offset c address; byt = address AND 3
      in if \<not> is_dbg \<and> asi \<noteq> 0x1c \<and> check_mode c ccr AND 1 \<noteq> 0
         then (case locate_line c tag idx offset len of
             Some way \<Rightarrow>
               if asi > 3
               then map_option (\<lambda>data.
                      let c = (if m_repl c = 1 then lru_update idx way c else c)
                      in (data, c\<lparr>rhits := count_at way (rhits c)\<rparr>, m))
                    (copy_from offset len (line_at c idx way))
               else let (ahb_address, ahb_len) = fetch_range c ccr address len
                    in case if_read mif ahb_address asi ahb_len is_dbg m of
                         None \<Rightarrow> None
                       | Some (ahb_data, _, m) \<Rightarrow>
                           map_option (\<lambda>c. (take (unat len) (drop (unat (if m_new_linefetch_en c then offset else byt)) ahb_data),
                               c\<lparr>rmisses := rmisses c + 1\<rparr>, m))
                             (update_line (get_tag c ahb_address) (get_idx c ahb_address)
                                (get_offset c ahb_address) way ahb_data c)
           | None \<Rightarrow>
               let (ahb_address, ahb_len) = fetch_range c ccr address len
               in case if_read mif ahb_address asi ahb_len is_dbg m of
                    None \<Rightarrow> None
                  | Some (ahb_data, cacheable, m) \<Rightarrow>
                      map_option (\<lambda>c. (take (unat len) (drop (unat (if m_new_linefetch_en c then offset else byt)) ahb_data),
                          c\<lparr>rmisses := rmisses c + 1\<rparr>, m))
                        (if check_mode c ccr AND 2 \<noteq> 0 \<and> cacheable
                         then allocate_line (get_tag c ahb_address) (get_idx c ahb_address)
                                (get_offset c ahb_address) ahb_data c
                         else Some c))
         else map_option (\<lambda>(data, _, m). (data, c\<lparr>bypassops := bypassops c + 1\<rparr>, m))
                (if_read mif address asi len is_dbg m))"

definition vc_mem_write ::
    "'m mem_if \<Rightarrow> u32 \<Rightarrow> u32 \<Rightarrow> u32 \<Rightarrow> u8 list \<Rightarrow> bool \<Rightarrow> vectorcache \<Rightarrow> 'm \<Rightarrow> (vectorcache \<times> 'm) option" where
  "vc_mem_write mif ccr address asi data is_dbg c m =
     (let tag = get_tag c address; idx = get_idx c address; offset = get_offset c address
      in if asi \<noteq> 0x1c \<and> check_mode c ccr AND 1 \<noteq> 0
         then (let c' = (case locate_line c tag idx offset (of_nat (length data)) of
                           Some way \<Rightarrow> map_option (\<lambda>c. c\<lparr>whits := count_at way (whits c)\<rparr>)
                                         (update_line tag idx offset way data c)
                         | None \<Rightarrow> Some (c\<lparr>wmisses := wmisses c + 1\<rparr>))
               in case c' of
                    None \<Rightarrow> None
                  | Some c \<Rightarrow> map_option (\<lambda>m. (c, m)) (if_write mif address asi data is_dbg m))
         else map_option (\<lambda>m. (c\<lparr>bypassops := bypassops c + 1\<rparr>, m)) (if_write mif address asi data is_dbg m))"

section \<open>Control and diagnostic accesses\<close>

definition read_config_reg :: "vectorcache \<Rightarrow> u32" where
  "read_config_reg c = swap_Endianess (CACHE_CONFIG_REG c)"

definition diag_way :: "vectorcache \<Rightarrow> u32 \<Rightarrow> nat" where
  "diag_way c address = unat (get_tag c address AND 3)"

definition read_cache_tag :: "vectorcache \<Rightarrow> u32 \<Rightarrow> u32 option" where
  "read_cache_tag c address =
     (let idx = get_idx c address; way = diag_way c address; l = line_at c idx way
      in if in_cache c idx way
         then Some (swap_Endianess (push_bit 10 (cl_atag l) OR push_bit 9 (cl_lrr l) OR push_bit 8 (cl_lock l) OR cl_valid l))
         else None)"

definition write_cache_tag :: "u32 \<Rightarrow> u32 \<Rightarrow> vectorcache \<Rightarrow> vectorcache option" where
  "write_cache_tag address data c =
     (let data = swap_Endianess data; idx = get_idx c address; way = diag_way c address; l = line_at c idx way
      in if in_cache c idx way
         then Some (set_line idx way (l\<lparr>cl_atag := drop_bit 10 data,
                cl_lrr := drop_bit 9 (data AND 0x100),
                cl_lock := (if m_setlock c \<and> way \<noteq> m_sets c then drop_bit 8 (data AND 0x100) else 0),
                cl_valid := data AND 0xFF\<rparr>) c)
         else None)"

definition subblock :: "vectorcache \<Rightarrow> u32 \<Rightarrow> nat" where
  "subblock c address = unat (drop_bit (34 - m_offset_bits c) (push_bit (32 - m_offset_bits c) address))"

definition word_of_bytes :: "u8 list \<Rightarrow> u32" where
  "word_of_bytes d = ucast (d ! 0) OR push_bit 8 (ucast (d ! 1)) OR push_bit 16 (ucast (d ! 2)) OR push_bit 24 (ucast (d ! 3))"

definition read_cache_entry :: "vectorcache \<Rightarrow> u32 \<Rightarrow> u32 option" where
  "read_cache_entry c address =
     (let idx = get_idx c address; way = diag_way c address
      in if in_cache c idx way
         then map_option word_of_bytes (copy_from (of_nat (4 * subblock c address)) 4 (line_at c idx way))
         else None)"

definition write_cache_entry :: "u32 \<Rightarrow> u32 \<Rightarrow> vectorcache \<Rightarrow> vectorcache option" where
  "write_cache_entry address data c =
     (let idx = get_idx c address; way = diag_way c address
      in if in_cache c idx way
         then map_option (\<lambda>l. set_line idx way l c)
                (copy_to (of_nat (4 * subblock c address)) (host_bytes data) (line_at c idx way))
         else None)"

definition vc_flush :: "vectorcache \<Rightarrow> vectorcache" where
  "vc_flush c = c\<lparr>cache_mem := map (\<lambda>l. l\<lparr>cl_valid := 0\<rparr>) (cache_mem c)\<rparr>"

definition snoop_way :: "u32 \<Rightarrow> u32 \<Rightarrow> u32 \<Rightarrow> nat \<Rightarrow> vectorcache \<Rightarrow> vectorcache" where
  "snoop_way tag idx offset way c =
     (let l = line_at c idx way
      in if cl_atag l = tag
         then set_line idx way (l\<lparr>cl_valid := (if m_new_linefetch_en c then 0
                                             else cl_valid l AND NOT (offset2valid c offset 4))\<rparr>) c
         else c)"

definition snoop_word :: "u32 \<Rightarrow> vectorcache \<Rightarrow> vectorcache" where
  "snoop_word address c =
     fold (snoop_way (get_tag c address) (get_idx c address) (get_offset c address)) [0..<m_sets c + 1] c"

text \<open>The loop steps by words while the address stays below the end, a 32-bit sum; with a
  range at the top of the address space it may run on for ever.\<close>

partial_function (option) snoop_loop :: "u32 \<Rightarrow> u32 \<Rightarrow> vectorcache \<Rightarrow> vectorcache option" where
  "snoop_loop address limit c = (if address < limit then snoop_loop (address + 4) limit (snoop_word address c) else Some c)"

definition snoop_invalidate :: "u32 \<Rightarrow> u32 \<Rightarrow> u32 \<Rightarrow> vectorcache \<Rightarrow> vectorcache option" where
  "snoop_invalidate ccr address len c =
     (if check_mode c ccr AND 3 \<noteq> 0 then snoop_loop address (address + len) c else Some c)"

section \<open>Construction\<close>

text \<open>The constructor's assertions end the simulation.  The data of a fresh line is not
  initialised: it is an argument.\<close>

fun log2_floor :: "nat \<Rightarrow> nat" where
  "log2_floor n = (if n < 2 then 0 else 1 + log2_floor (n div 2))"

declare log2_floor.simps [simp del]

definition vectorcache_init ::
    "cache_kind \<Rightarrow> (nat \<Rightarrow> u8 list) \<Rightarrow> u32 \<Rightarrow> bool \<Rightarrow> bool \<Rightarrow> nat \<Rightarrow> nat \<Rightarrow> bool \<Rightarrow> nat \<Rightarrow> nat \<Rightarrow> u32 \<Rightarrow> u32 \<Rightarrow> nat
      \<Rightarrow> vectorcache option" where
  "vectorcache_init kind fresh mmu_en burst_en linefetch sets setsize setlock linesize repl lram lramstart lramsize =
     (let repl' = (if sets = 1 then 0 else repl);
          lsz = log2_floor linesize; ssz = log2_floor setsize; rsz = log2_floor lramsize;
          obits = log2_floor (4 * linesize); ibits = ssz + 8 - lsz
      in if 1 \<le> sets \<and> sets \<le> 4 \<and> (linesize = 4 \<or> linesize = 8) \<and> 1 \<le> setsize \<and> setsize \<le> 256 \<and>
            \<not> (repl = 2 \<and> sets \<noteq> 2) \<and> \<not> (1 < sets \<and> repl = 0) \<and> rsz \<le> 9 \<and> repl' \<le> 3
         then Some \<lparr>vc_kind = kind, m_new_linefetch_en = linefetch, m_burst_en = burst_en, m_pseudo_rand = 0,
           m_sets = sets - 1, m_setlock = setlock, m_linesize = lsz, m_offset_bits = obits, m_idx_bits = ibits,
           m_tag_bits = 32 - ibits - obits, m_repl = repl', m_max_lru = push_bit (sets - 1) 1 - 1,
           CACHE_CONFIG_REG = push_bit 3 mmu_en OR push_bit 4 (lramstart AND 0xFF) OR
             push_bit 12 (of_nat rsz AND 0xF) OR push_bit 16 (of_nat lsz AND 7) OR push_bit 19 (lram AND 1) OR
             push_bit 20 (of_nat ssz AND 0xF) OR push_bit 24 (of_nat (sets - 1) AND 7) OR push_bit 28 (of_nat repl' AND 3),
           cache_mem = map (\<lambda>i. \<lparr>cl_valid = 0, cl_atag = 0, cl_lrr = 0, cl_lru = 0, cl_lock = 0, cl_entry = fresh i\<rparr>)
             [0..<setsize * 256 div linesize * sets],
           rhits = replicate sets 0, rmisses = 0, whits = replicate sets 0, wmisses = 0, bypassops = 0\<rparr>
         else None)"

end
