(* ===== verification/Vectorcache_Props.thy ===== *)
theory Vectorcache_Props
  imports Vectorcache Bus_Decoder
begin

text \<open>
  The data cache in its line-fetch mode is transparent: as long as it is enabled or
  frozen, reads through the cache return what the memory holds, for every replacement
  strategy.  The invariant is the coherence of the valid lines with the memory.
\<close>

section \<open>Geometry\<close>

definition geometry :: "vectorcache \<Rightarrow> bool" where
  "geometry c =
     ((m_offset_bits c = 4 \<or> m_offset_bits c = 5) \<and> m_linesize c + 2 = m_offset_bits c \<and>
      m_tag_bits c + m_idx_bits c + m_offset_bits c = 32 \<and> 0 < m_tag_bits c \<and> m_sets c \<le> 3 \<and>
      length (cache_mem c) = 2 ^ m_idx_bits c * (m_sets c + 1) \<and>
      list_all (\<lambda>l. length (cl_entry l) = 2 ^ m_offset_bits c) (cache_mem c))"

abbreviation line_bytes :: "vectorcache \<Rightarrow> nat" where
  "line_bytes c \<equiv> 2 ^ m_offset_bits c"

abbreviation set_count :: "vectorcache \<Rightarrow> nat" where
  "set_count c \<equiv> 2 ^ m_idx_bits c"

text \<open>The number of the memory line an address lies in.\<close>

definition line_no :: "vectorcache \<Rightarrow> u32 \<Rightarrow> nat" where
  "line_no c a = unat a div line_bytes c"

lemma unat_take_bit: "unat (take_bit n (w :: u32)) = unat w mod 2 ^ n"
  unfolding unsigned_take_bit_eq by (rule take_bit_eq_mod)

lemma unat_drop_bit: "unat (drop_bit n (w :: u32)) = unat w div 2 ^ n"
proof -
  have "take_bit LENGTH(32) (unat w) = unat w"
    using unat_less_2_32[of w] by (intro take_bit_nat_eq_self) simp
  then show ?thesis unfolding unsigned_drop_bit_eq by (simp only: drop_bit_eq_div)
qed

lemma address_parts:
  assumes "geometry c"
  shows "unat (get_tag c a) = line_no c a div set_count c"
    and "unat (get_idx c a) = line_no c a mod set_count c"
    and "unat (get_offset c a) = unat a mod line_bytes c"
proof -
  have s: "m_tag_bits c + m_idx_bits c + m_offset_bits c = 32" using assms by (simp add: geometry_def)
  show "unat (get_tag c a) = line_no c a div set_count c"
    unfolding get_tag_def line_no_def unat_drop_bit
    by (simp only: power_add div_mult2_eq mult.commute[of "2 ^ m_idx_bits c"])
  have "get_idx c a = take_bit (m_idx_bits c) (drop_bit (m_offset_bits c) a)"
    unfolding get_idx_def
    by (rule bit_word_eqI) (use s in \<open>auto simp: bit_simps\<close>)
  then show "unat (get_idx c a) = line_no c a mod set_count c"
    by (simp add: unat_take_bit unat_drop_bit line_no_def)
  have "get_offset c a = take_bit (m_offset_bits c) a"
    unfolding get_offset_def
    by (rule bit_word_eqI) (use s in \<open>auto simp: bit_simps\<close>)
  then show "unat (get_offset c a) = unat a mod line_bytes c"
    by (simp add: unat_take_bit)
qed

lemma line_no_parts:
  "geometry c \<Longrightarrow> line_no c a = unat (get_tag c a) * set_count c + unat (get_idx c a)"
  unfolding address_parts by (rule div_mult_mod_eq[symmetric])

lemma address_split:
  "geometry c \<Longrightarrow> unat a = line_no c a * line_bytes c + unat (get_offset c a)"
  unfolding address_parts line_no_def by (rule div_mult_mod_eq[symmetric])

section \<open>The lines of a cache\<close>

definition ln :: "vectorcache \<Rightarrow> nat \<Rightarrow> nat \<Rightarrow> cache_line" where
  "ln c j w = cache_mem c ! (j * (m_sets c + 1) + w)"

lemma line_at_ln: "line_at c idx w = ln c (unat idx) w"
  by (simp add: line_at_def ln_def lookup_line_def)

lemma position_inj:
  assumes "w \<le> s" and "w' \<le> s"
  shows "(j * (s + 1) + w = j' * (s + 1) + w') = (j = j' \<and> w = (w' :: nat))"
proof
  assume eq: "j * (s + 1) + w = j' * (s + 1) + w'"
  have div: "(j * (s + 1) + w) div (s + 1) = j" if "w \<le> s" for j w :: nat
    using that by (subst add.commute) (simp del: mult_Suc_right add: div_mult_self1)
  have "(j * (s + 1) + w) div (s + 1) = j" "(j' * (s + 1) + w') div (s + 1) = j'"
    using div assms by blast+
  with eq show "j = j' \<and> w = w'" by auto
qed simp

lemma position_less:
  assumes "j < n" and "w \<le> (s :: nat)"
  shows "j * (s + 1) + w < n * (s + 1)"
proof -
  have "j * (s + 1) + w < (j + 1) * (s + 1)" using assms(2) by simp
  also have "\<dots> \<le> n * (s + 1)" using assms(1) by (intro mult_le_mono) simp_all
  finally show ?thesis .
qed

text \<open>What stays fixed while the cache runs, and what matters of a line: its bookkeeping for
  the replacement strategies does not.\<close>

definition config :: "vectorcache \<Rightarrow> cache_kind \<times> bool \<times> bool \<times> nat \<times> bool \<times> nat \<times> nat \<times> nat \<times> nat \<times> nat \<times> u32" where
  "config c = (vc_kind c, m_new_linefetch_en c, m_burst_en c, m_sets c, m_setlock c, m_linesize c,
     m_offset_bits c, m_idx_bits c, m_tag_bits c, m_repl c, m_max_lru c)"

definition core :: "cache_line \<Rightarrow> u32 \<times> u32 \<times> u32 \<times> u8 list" where
  "core l = (cl_valid l, cl_atag l, cl_lock l, cl_entry l)"

lemma config_set_line [simp]: "config (set_line idx w l c) = config c"
  by (simp add: config_def set_line_def)

lemma config_fields:
  assumes "config c' = config c"
  shows "m_sets c' = m_sets c" "m_idx_bits c' = m_idx_bits c" "m_offset_bits c' = m_offset_bits c"
    "m_tag_bits c' = m_tag_bits c" "m_repl c' = m_repl c" "m_new_linefetch_en c' = m_new_linefetch_en c"
    "m_linesize c' = m_linesize c" "vc_kind c' = vc_kind c" "m_max_lru c' = m_max_lru c"
  using assms by (simp_all add: config_def)

lemma length_set_line [simp]: "length (cache_mem (set_line idx w l c)) = length (cache_mem c)"
  by (simp add: set_line_def)

lemma ln_set_line:
  assumes "geometry c" and "unat idx < set_count c" and "w \<le> m_sets c" and "w' \<le> m_sets c"
  shows "ln (set_line idx w l c) j w' = (if j = unat idx \<and> w' = w then l else ln c j w')"
proof -
  have "unat idx * (m_sets c + 1) + w < length (cache_mem c)"
    using position_less[OF assms(2,3)] assms(1) by (simp add: geometry_def)
  then show ?thesis
    using position_inj[OF assms(4,3), of j "unat idx"]
    by (auto simp: ln_def set_line_def lookup_line_def nth_list_update)
qed

lemma geometry_set_line:
  assumes "geometry c" and "length (cl_entry l) = line_bytes c"
  shows "geometry (set_line idx w l c)"
  using assms unfolding geometry_def list_all_iff
  by (auto simp: set_line_def dest: set_update_subset_insert[THEN subsetD])

lemma geometry_line:
  assumes "geometry c" and "j < set_count c" and "w \<le> m_sets c"
  shows "length (cl_entry (ln c j w)) = line_bytes c"
  using assms position_less[OF assms(2,3)] unfolding geometry_def ln_def list_all_length by metis

text \<open>The bookkeeping of the strategies leaves the cores alone.\<close>

definition same_cores :: "vectorcache \<Rightarrow> vectorcache \<Rightarrow> bool" where
  "same_cores c c' = (config c' = config c \<and> map core (cache_mem c') = map core (cache_mem c))"

lemma same_cores_refl [simp]: "same_cores c c"
  by (simp add: same_cores_def)

lemma same_cores_trans: "same_cores c c' \<Longrightarrow> same_cores c' c'' \<Longrightarrow> same_cores c c''"
  by (simp add: same_cores_def)

lemma same_cores_length: "same_cores c c' \<Longrightarrow> length (cache_mem c') = length (cache_mem c)"
  unfolding same_cores_def by (metis length_map)

lemma same_cores_nth:
  "same_cores c c' \<Longrightarrow> p < length (cache_mem c) \<Longrightarrow> core (cache_mem c' ! p) = core (cache_mem c ! p)"
  using same_cores_length unfolding same_cores_def by (metis nth_map)

lemma same_cores_ln:
  assumes "same_cores c c'" and "geometry c" and "j < set_count c" and "w \<le> m_sets c"
  shows "core (ln c' j w) = core (ln c j w)"
proof -
  have sets: "m_sets c' = m_sets c" using assms(1) unfolding same_cores_def by (blast intro: config_fields(1))
  have "j * (m_sets c + 1) + w < length (cache_mem c)"
    using position_less[OF assms(3,4)] assms(2) unfolding geometry_def by metis
  then show ?thesis unfolding ln_def sets by (rule same_cores_nth[OF assms(1)])
qed

lemma same_cores_geometry:
  assumes "same_cores c c'"
  shows "geometry c' = geometry c"
proof -
  have "list_all (\<lambda>l. length (cl_entry l) = n) ls = list_all (\<lambda>t. length (snd (snd (snd t))) = n) (map core ls)" for ls n
    by (simp add: list_all_iff core_def)
  then have "list_all (\<lambda>l. length (cl_entry l) = n) (cache_mem c') = list_all (\<lambda>l. length (cl_entry l) = n) (cache_mem c)" for n
    using assms unfolding same_cores_def by metis
  then show ?thesis
    using assms same_cores_length[OF assms] config_fields[of c' c] unfolding same_cores_def geometry_def by simp
qed

lemma same_cores_set_line:
  "core l = core (line_at c idx w) \<Longrightarrow> same_cores c (set_line idx w l c)"
  unfolding same_cores_def
  by (auto simp: set_line_def config_def line_at_def map_update intro!: nth_equalityI)
     (metis list_update_id map_update nth_map length_map list_update_beyond linorder_not_less nth_list_update)

lemma same_cores_fold:
  assumes "\<And>w c. same_cores c (f w c)"
  shows "same_cores c (fold f ws c)"
proof (induction ws arbitrary: c)
  case (Cons w ws)
  then show ?case using assms same_cores_trans by fastforce
qed simp

lemma same_cores_lru_update: "same_cores c (lru_update idx w c)"
  unfolding lru_update_def Let_def
  by (rule same_cores_fold, rule same_cores_set_line) (simp add: lru_step_def core_def)

lemma same_cores_lrr_update: "same_cores c (lrr_update idx w c)"
  unfolding lrr_update_def
  by (rule same_cores_fold, rule same_cores_set_line) (simp add: core_def)

lemma core_eq:
  assumes "core l = core l'"
  shows "cl_valid l = cl_valid l'" "cl_atag l = cl_atag l'" "cl_lock l = cl_lock l'" "cl_entry l = cl_entry l'"
  using assms by (simp_all add: core_def)

section \<open>Changing one line\<close>

definition updates :: "vectorcache \<Rightarrow> vectorcache \<Rightarrow> nat \<Rightarrow> nat \<Rightarrow> u32 \<times> u32 \<times> u32 \<times> u8 list \<Rightarrow> bool" where
  "updates c c' j w t =
     (config c' = config c \<and> length (cache_mem c') = length (cache_mem c) \<and>
      (\<forall>j' < set_count c. \<forall>w' \<le> m_sets c. core (ln c' j' w') = (if j' = j \<and> w' = w then t else core (ln c j' w'))))"

lemma updates_set_line:
  assumes "geometry c" and "unat idx < set_count c" and "w \<le> m_sets c"
  shows "updates c (set_line idx w l c) (unat idx) w (core l)"
  using assms by (simp add: updates_def ln_set_line)

lemma updates_same:
  assumes "updates c c' j w t" and "same_cores c' c''" and "geometry c'"
  shows "updates c c'' j w t"
proof -
  have cfg: "config c' = config c" using assms(1) by (simp add: updates_def)
  have "core (ln c'' j' w') = core (ln c' j' w')" if "j' < set_count c" "w' \<le> m_sets c" for j' w'
    using same_cores_ln[OF assms(2,3)] that config_fields[OF cfg] by simp
  then show ?thesis
    using assms(1,2) same_cores_length[OF assms(2)] unfolding updates_def same_cores_def by simp
qed

lemma updates_trans:
  assumes "updates c c' j w t" and "updates c' c'' j w t'"
  shows "updates c c'' j w t'"
proof -
  have cfg: "config c' = config c" using assms(1) by (simp add: updates_def)
  then show ?thesis
    using assms config_fields[OF cfg] unfolding updates_def by auto
qed

lemma updates_geometry:
  assumes "updates c c' j w (v, t, k, e)" and "geometry c" and "length e = line_bytes c"
  shows "geometry c'"
proof -
  have cfg: "config c' = config c" using assms(1) by (simp add: updates_def)
  have len: "length (cache_mem c') = set_count c * (m_sets c + 1)"
    using assms(1,2) by (simp add: updates_def geometry_def)
  have "length (cl_entry (cache_mem c' ! p)) = line_bytes c" if p: "p < length (cache_mem c')" for p
  proof -
    let ?j = "p div (m_sets c + 1)" and ?w = "p mod (m_sets c + 1)"
    have j: "?j < set_count c" using p unfolding len by (simp add: less_mult_imp_div_less)
    have w: "?w \<le> m_sets c" using mod_less_divisor[of "m_sets c + 1" p] by linarith
    have "ln c' ?j ?w = cache_mem c' ! p" unfolding ln_def config_fields(1)[OF cfg] div_mult_mod_eq ..
    moreover have "core (ln c' ?j ?w) = (if ?j = j \<and> ?w = w then (v, t, k, e) else core (ln c ?j ?w))"
      using assms(1) j w unfolding updates_def by blast
    ultimately show ?thesis
      using geometry_line[OF assms(2) j w] assms(3) by (auto simp: core_def split: if_splits)
  qed
  then show ?thesis
    using assms(2) len config_fields[OF cfg] by (simp add: geometry_def list_all_length)
qed

lemma updates_line:
  "updates c c' j w t \<Longrightarrow> j < set_count c \<Longrightarrow> w \<le> m_sets c \<Longrightarrow> core (ln c' j w) = t"
  by (simp add: updates_def)

lemma updates_config: "updates c c' j w t \<Longrightarrow> config c' = config c"
  by (simp add: updates_def)

lemma claim_line_updates:
  assumes g: "geometry c" and i: "unat idx < set_count c" and w: "way \<le> m_sets c"
  shows "updates c (claim_line tag idx way c) (unat idx) way
    (let l = ln c (unat idx) way in
     (if cl_atag l = tag then cl_valid l else 0, tag, cl_lock l, cl_entry l))"
proof (cases "cl_atag (line_at c idx way) = tag")
  case True
  then show ?thesis
    by (auto simp: claim_line_def updates_def Let_def core_def line_at_ln)
next
  case False
  let ?l = "ln c (unat idx) way"
  let ?c1 = "set_line idx way ((line_at c idx way)\<lparr>cl_atag := tag\<rparr>) c"
  let ?c2 = "if m_repl c = 2 then lrr_update idx way ?c1 else ?c1"
  have len: "length (cl_entry ?l) = line_bytes c" by (rule geometry_line[OF g i w])
  have u1: "updates c ?c1 (unat idx) way (cl_valid ?l, tag, cl_lock ?l, cl_entry ?l)"
    using updates_set_line[OF g i w, of "(line_at c idx way)\<lparr>cl_atag := tag\<rparr>"] by (simp add: core_def line_at_ln)
  have g1: "geometry ?c1" by (rule updates_geometry[OF u1 g len])
  have s2: "same_cores ?c1 ?c2" using same_cores_lrr_update by simp
  have u2: "updates c ?c2 (unat idx) way (cl_valid ?l, tag, cl_lock ?l, cl_entry ?l)"
    by (rule updates_same[OF u1 s2 g1])
  have g2: "geometry ?c2" by (rule updates_geometry[OF u2 g len])
  note cfg2 = config_fields[OF updates_config[OF u2]]
  have line2: "core (line_at ?c2 idx way) = (cl_valid ?l, tag, cl_lock ?l, cl_entry ?l)"
    using updates_line[OF u2 i w] line_at_ln[of ?c2 idx way] by metis
  have u3: "updates ?c2 (set_line idx way ((line_at ?c2 idx way)\<lparr>cl_valid := 0\<rparr>) ?c2) (unat idx) way
      (0, tag, cl_lock ?l, cl_entry ?l)"
    using updates_set_line[of ?c2 idx way "(line_at ?c2 idx way)\<lparr>cl_valid := 0\<rparr>"] g2 i w cfg2 line2
    by (simp add: core_def)
  have "claim_line tag idx way c = set_line idx way ((line_at ?c2 idx way)\<lparr>cl_valid := 0\<rparr>) ?c2"
    using False unfolding claim_line_def Let_def by (simp add: set_line_def)
  then show ?thesis
    using updates_trans[OF u2 u3] False by (simp add: Let_def line_at_ln)
qed

lemma update_line_updates:
  assumes g: "geometry c" and lf: "m_new_linefetch_en c" and i: "unat idx < set_count c" and w: "way \<le> m_sets c"
    and fit: "unat offset + length data \<le> line_bytes c"
  shows "\<exists>c'. update_line tag idx offset way data c = Some c' \<and>
    updates c c' (unat idx) way (1, tag, cl_lock (ln c (unat idx) way),
      take (unat offset) (cl_entry (ln c (unat idx) way)) @ data @
      drop (unat offset + length data) (cl_entry (ln c (unat idx) way)))"
proof -
  let ?l = "ln c (unat idx) way"
  define e where "e = take (unat offset) (cl_entry ?l) @ data @ drop (unat offset + length data) (cl_entry ?l)"
  define c1 where "c1 = set_line idx way (?l\<lparr>cl_entry := e\<rparr>) c"
  define c2 where "c2 = claim_line tag idx way c1"
  define c3 where "c3 = validate_line idx offset (of_nat (length data)) way c2"
  have len: "length (cl_entry ?l) = line_bytes c" by (rule geometry_line[OF g i w])
  then have elen: "length e = line_bytes c" using fit by (simp add: e_def)
  have u1: "updates c c1 (unat idx) way (cl_valid ?l, cl_atag ?l, cl_lock ?l, e)"
    using updates_set_line[OF g i w, of "?l\<lparr>cl_entry := e\<rparr>"] by (simp add: c1_def core_def)
  have g1: "geometry c1" by (rule updates_geometry[OF u1 g elen])
  note cfg1 = config_fields[OF updates_config[OF u1]]
  have i1: "unat idx < set_count c1" and w1: "way \<le> m_sets c1" using i w cfg1 by simp_all
  have line1: "core (ln c1 (unat idx) way) = (cl_valid ?l, cl_atag ?l, cl_lock ?l, e)"
    by (rule updates_line[OF u1 i w])
  obtain v where "updates c1 c2 (unat idx) way (v, tag, cl_lock ?l, e)"
    using claim_line_updates[OF g1 i1 w1, of tag] line1 by (simp add: c2_def core_def Let_def)
  then have u2: "updates c c2 (unat idx) way (v, tag, cl_lock ?l, e)" by (rule updates_trans[OF u1])
  have g2: "geometry c2" by (rule updates_geometry[OF u2 g elen])
  note cfg2 = config_fields[OF updates_config[OF u2]]
  have line2: "core (line_at c2 idx way) = (v, tag, cl_lock ?l, e)"
    unfolding line_at_ln by (rule updates_line[OF u2 i w])
  have "updates c2 c3 (unat idx) way (1, tag, cl_lock ?l, e)"
    using updates_set_line[of c2 idx way "(line_at c2 idx way)\<lparr>cl_valid := 1\<rparr>"] g2 i w cfg2 line2 lf
    by (simp add: c3_def validate_line_def core_def)
  then have u3: "updates c c3 (unat idx) way (1, tag, cl_lock ?l, e)" by (rule updates_trans[OF u2])
  have g3: "geometry c3" by (rule updates_geometry[OF u3 g elen])
  have u4: "updates c (if m_repl c3 = 1 then lru_update idx way c3 else c3) (unat idx) way (1, tag, cl_lock ?l, e)"
    using updates_same[OF u3 same_cores_lru_update g3] u3 by simp
  have "in_cache c idx way"
    using position_less[OF i w] g by (simp add: in_cache_def lookup_line_def geometry_def)
  moreover have "copy_to offset data (line_at c idx way) = Some (?l\<lparr>cl_entry := e\<rparr>)"
    using fit len by (simp add: copy_to_def line_at_ln e_def)
  ultimately have "update_line tag idx offset way data c =
      Some (if m_repl c3 = 1 then lru_update idx way c3 else c3)"
    by (simp add: update_line_def Let_def c1_def c2_def c3_def)
  then show ?thesis using u4 unfolding e_def by blast
qed

section \<open>Coherence\<close>

text \<open>The bytes of a block of memory, and a block written to memory.\<close>

definition bytes_at :: "(u32 \<Rightarrow> u8) \<Rightarrow> u32 \<Rightarrow> nat \<Rightarrow> u8 list" where
  "bytes_at f a n = map (\<lambda>i. f (a + of_nat i)) [0..<n]"

definition write_at :: "u32 \<Rightarrow> u8 list \<Rightarrow> (u32 \<Rightarrow> u8) \<Rightarrow> u32 \<Rightarrow> u8" where
  "write_at a d f = (\<lambda>x. if unat a \<le> unat x \<and> unat x < unat a + length d then d ! (unat x - unat a) else f x)"

lemma length_bytes_at [simp]: "length (bytes_at f a n) = n"
  by (simp add: bytes_at_def)

text \<open>The memory line a cached line stands for.\<close>

definition cached_no :: "vectorcache \<Rightarrow> nat \<Rightarrow> cache_line \<Rightarrow> nat" where
  "cached_no c j l = unat (cl_atag l) * set_count c + j"

abbreviation valid_line :: "cache_line \<Rightarrow> bool" where
  "valid_line l \<equiv> cl_valid l AND 1 \<noteq> 0"

definition coherent :: "vectorcache \<Rightarrow> (u32 \<Rightarrow> u8) \<Rightarrow> bool" where
  "coherent c f =
     (\<forall>j < set_count c. \<forall>w \<le> m_sets c. valid_line (ln c j w) \<longrightarrow>
        cached_no c j (ln c j w) < 2 ^ (m_tag_bits c + m_idx_bits c) \<and>
        cl_entry (ln c j w) = bytes_at f (of_nat (cached_no c j (ln c j w) * line_bytes c)) (line_bytes c) \<and>
        (\<forall>w' \<le> m_sets c. valid_line (ln c j w') \<and> cl_atag (ln c j w') = cl_atag (ln c j w) \<longrightarrow> w' = w))"

lemma coherentD:
  assumes "coherent c f" and "j < set_count c" and "w \<le> m_sets c" and "valid_line (ln c j w)"
  shows "cached_no c j (ln c j w) < 2 ^ (m_tag_bits c + m_idx_bits c)"
    and "cl_entry (ln c j w) = bytes_at f (of_nat (cached_no c j (ln c j w) * line_bytes c)) (line_bytes c)"
    and "\<And>w'. w' \<le> m_sets c \<Longrightarrow> valid_line (ln c j w') \<Longrightarrow> cl_atag (ln c j w') = cl_atag (ln c j w) \<Longrightarrow> w' = w"
  using assms unfolding coherent_def by blast+

lemma coherent_same_cores:
  assumes "same_cores c c'" and "geometry c" and "coherent c f"
  shows "coherent c' f"
proof -
  have cfg: "config c' = config c" using assms(1) by (simp add: same_cores_def)
  have "core (ln c' j w) = core (ln c j w)" if "j < set_count c" "w \<le> m_sets c" for j w
    using same_cores_ln[OF assms(1,2) that] .
  note eqs = core_eq[OF this]
  show ?thesis
    using assms(3) unfolding coherent_def config_fields[OF cfg] cached_no_def by (simp add: eqs)
qed

text \<open>Coherence of all lines but one, the one about to be filled.\<close>

definition coherent_but :: "nat \<Rightarrow> nat \<Rightarrow> vectorcache \<Rightarrow> (u32 \<Rightarrow> u8) \<Rightarrow> bool" where
  "coherent_but j w c f =
     (\<forall>j' < set_count c. \<forall>w' \<le> m_sets c. (j', w') \<noteq> (j, w) \<longrightarrow> valid_line (ln c j' w') \<longrightarrow>
        cached_no c j' (ln c j' w') < 2 ^ (m_tag_bits c + m_idx_bits c) \<and>
        cl_entry (ln c j' w') = bytes_at f (of_nat (cached_no c j' (ln c j' w') * line_bytes c)) (line_bytes c) \<and>
        (\<forall>w'' \<le> m_sets c. (j', w'') \<noteq> (j, w) \<longrightarrow> valid_line (ln c j' w'') \<longrightarrow>
           cl_atag (ln c j' w'') = cl_atag (ln c j' w') \<longrightarrow> w'' = w'))"

lemma coherent_but: "coherent c f \<Longrightarrow> coherent_but j w c f"
  unfolding coherent_def coherent_but_def by blast

text \<open>Filling a line with the memory's bytes, when the tag is in no other way.\<close>

lemma coherent_fill:
  assumes "coherent_but j w c f" and "updates c c' j w (1, t, k, bytes_at f (of_nat (n * line_bytes c)) (line_bytes c))"
    and "n = unat t * set_count c + j" and "n < 2 ^ (m_tag_bits c + m_idx_bits c)"
    and "\<And>w'. w' \<le> m_sets c \<Longrightarrow> w' \<noteq> w \<Longrightarrow> valid_line (ln c j w') \<Longrightarrow> cl_atag (ln c j w') \<noteq> t"
  shows "coherent c' f"
proof -
  have cfg: "config c' = config c" using assms(2) by (simp add: updates_def)
  have cores: "core (ln c' j' w') = (if j' = j \<and> w' = w then (1, t, k, bytes_at f (of_nat (n * line_bytes c)) (line_bytes c))
      else core (ln c j' w'))" if "j' < set_count c" "w' \<le> m_sets c" for j' w'
    using assms(2) that by (simp add: updates_def)
  show ?thesis
    unfolding coherent_def config_fields[OF cfg]
  proof (intro allI impI)
    fix j' w'
    assume j: "j' < set_count c" and w: "w' \<le> m_sets c" and v: "valid_line (ln c' j' w')"
    show "cached_no c' j' (ln c' j' w') < 2 ^ (m_tag_bits c + m_idx_bits c) \<and>
        cl_entry (ln c' j' w') = bytes_at f (of_nat (cached_no c' j' (ln c' j' w') * line_bytes c)) (line_bytes c) \<and>
        (\<forall>w'' \<le> m_sets c. valid_line (ln c' j' w'') \<and> cl_atag (ln c' j' w'') = cl_atag (ln c' j' w') \<longrightarrow> w'' = w')"
    proof (cases "j' = j")
      case False
      then have "core (ln c' j' u) = core (ln c j' u)" if "u \<le> m_sets c" for u
        using cores[OF j that] by simp
      note eqs = core_eq[OF this]
      show ?thesis
        using assms(1) False j w v eqs unfolding coherent_but_def cached_no_def config_fields[OF cfg] by simp
    next
      case True
      have this_line: "core (ln c' j w) = (1, t, k, bytes_at f (of_nat (n * line_bytes c)) (line_bytes c))" if "w \<le> m_sets c"
        using cores[of j w] j True that by simp
      have other: "core (ln c' j u) = core (ln c j u)" if "u \<le> m_sets c" "u \<noteq> w" for u
        using cores[of j u] j True that by simp
      note eqs = core_eq[OF other]
      show ?thesis
      proof (cases "w' = w")
        case w': True
        then have l: "cl_atag (ln c' j w) = t" "cl_entry (ln c' j w) = bytes_at f (of_nat (n * line_bytes c)) (line_bytes c)"
          using this_line w by (simp_all add: core_def)
        have "cached_no c' j (ln c' j w) = n" using assms(3) l(1) config_fields[OF cfg] by (simp add: cached_no_def)
        moreover have "w'' = w" if "w'' \<le> m_sets c" "valid_line (ln c' j w'')" "cl_atag (ln c' j w'') = t" for w''
          using that eqs[of w''] assms(5)[of w''] by (cases "w'' = w") auto
        ultimately show ?thesis using True w' l assms(4) by auto
      next
        case w': False
        have old: "valid_line (ln c j w')" "cl_atag (ln c' j w') = cl_atag (ln c j w')"
            "cl_entry (ln c' j w') = cl_entry (ln c j w')"
          using v eqs[OF w w'] True by simp_all
        have ne: "cl_atag (ln c j w') \<noteq> t" using assms(5)[OF w w' old(1)] .
        have "w'' = w'" if u: "w'' \<le> m_sets c" "valid_line (ln c' j w'')" "cl_atag (ln c' j w'') = cl_atag (ln c' j w')" for w''
        proof -
          have "w'' \<noteq> w" using u old(2) ne this_line by (auto simp: core_def)
          then have "valid_line (ln c j w'')" "cl_atag (ln c j w'') = cl_atag (ln c j w')"
            using u eqs[of w''] old(2) by simp_all
          then show ?thesis
            using assms(1) j True w w' old(1) u(1) \<open>w'' \<noteq> w\<close> unfolding coherent_but_def by blast
        qed
        moreover have "cached_no c' j (ln c' j w') = cached_no c j (ln c j w')"
          using old(2) config_fields[OF cfg] by (simp add: cached_no_def)
        ultimately show ?thesis
          using assms(1) j True w w' old unfolding coherent_but_def by auto
      qed
    qed
  qed
qed

text \<open>Writing to memory.\<close>

lemma line_address:
  assumes "geometry c" and "n < 2 ^ (m_tag_bits c + m_idx_bits c)" and "k < line_bytes c"
  shows "unat (of_nat (n * line_bytes c) + of_nat k :: u32) = n * line_bytes c + k"
proof -
  have "(n + 1) * line_bytes c \<le> 2 ^ (m_tag_bits c + m_idx_bits c) * line_bytes c"
    using assms(2) by (intro mult_le_mono) simp_all
  also have "\<dots> = 2 ^ 32" using assms(1) by (simp add: geometry_def flip: power_add)
  finally have "n * line_bytes c + k < 2 ^ 32" using assms(3) by simp
  then have "unat (of_nat (n * line_bytes c + k) :: u32) = n * line_bytes c + k"
    by (simp add: unat_of_nat del: of_nat_add of_nat_mult)
  then show ?thesis by (simp only: of_nat_add)
qed

lemma line_no_less: "geometry c \<Longrightarrow> line_no c a < 2 ^ (m_tag_bits c + m_idx_bits c)"
proof -
  assume g: "geometry c"
  have "unat a < 2 ^ (m_tag_bits c + m_idx_bits c) * line_bytes c"
    using unat_less_2_32[of a] g by (simp add: geometry_def flip: power_add)
  then show ?thesis unfolding line_no_def by (rule less_mult_imp_div_less)
qed

lemma bytes_write_other:
  assumes "geometry c" and "n < 2 ^ (m_tag_bits c + m_idx_bits c)" and "n \<noteq> line_no c a"
    and "unat (get_offset c a) + length d \<le> line_bytes c"
  shows "bytes_at (write_at a d f) (of_nat (n * line_bytes c)) (line_bytes c) = bytes_at f (of_nat (n * line_bytes c)) (line_bytes c)"
proof -
  have "write_at a d f (of_nat (n * line_bytes c) + of_nat k) = f (of_nat (n * line_bytes c) + of_nat k)"
    if k: "k < line_bytes c" for k
  proof -
    let ?x = "of_nat (n * line_bytes c) + of_nat k :: u32"
    have x: "unat ?x = n * line_bytes c + k" by (rule line_address[OF assms(1,2) k])
    have "\<not> (unat a \<le> unat ?x \<and> unat ?x < unat a + length d)"
    proof
      assume b: "unat a \<le> unat ?x \<and> unat ?x < unat a + length d"
      have a: "unat a = line_no c a * line_bytes c + unat (get_offset c a)" by (rule address_split[OF assms(1)])
      have "unat ?x < line_no c a * line_bytes c + line_bytes c" using b a assms(4) by linarith
      then have "unat ?x < (line_no c a + 1) * line_bytes c" by simp
      then have "unat ?x div line_bytes c < line_no c a + 1" by (rule less_mult_imp_div_less)
      moreover have "line_no c a \<le> unat ?x div line_bytes c"
        using b by (simp add: line_no_def div_le_mono)
      moreover have "unat ?x div line_bytes c = n" unfolding x using k by simp
      ultimately show False using assms(3) by simp
    qed
    then show ?thesis unfolding write_at_def by (rule if_not_P)
  qed
  then show ?thesis by (simp add: bytes_at_def)
qed

lemma bytes_write_same:
  assumes "geometry c" and "unat (get_offset c a) + length d \<le> line_bytes c"
  shows "bytes_at (write_at a d f) (of_nat (line_no c a * line_bytes c)) (line_bytes c) =
    take (unat (get_offset c a)) (bytes_at f (of_nat (line_no c a * line_bytes c)) (line_bytes c)) @ d @
    drop (unat (get_offset c a) + length d) (bytes_at f (of_nat (line_no c a * line_bytes c)) (line_bytes c))"
    (is "?L = ?R")
proof (rule nth_equalityI)
  show "length ?L = length ?R" using assms(2) by simp
  fix k assume "k < length ?L"
  then have k: "k < line_bytes c" by simp
  let ?x = "of_nat (line_no c a * line_bytes c) + of_nat k :: u32"
  have x: "unat ?x = line_no c a * line_bytes c + k"
    by (rule line_address[OF assms(1) line_no_less[OF assms(1)] k])
  have a: "unat a = line_no c a * line_bytes c + unat (get_offset c a)" by (rule address_split[OF assms(1)])
  have "?L ! k = write_at a d f ?x" using k by (simp add: bytes_at_def)
  also have "\<dots> = (if unat (get_offset c a) \<le> k \<and> k < unat (get_offset c a) + length d
      then d ! (k - unat (get_offset c a)) else f ?x)"
    unfolding write_at_def x a by (simp add: add_le_cancel_left)
  also have "\<dots> = ?R ! k"
    using k assms(2) by (auto simp: nth_append bytes_at_def)
  finally show "?L ! k = ?R ! k" .
qed

lemma cached_no_tag:
  assumes "geometry c" and "j < set_count c" and "cached_no c j l = line_no c a"
  shows "cl_atag l = get_tag c a" and "j = unat (get_idx c a)"
proof -
  have "cached_no c j l div set_count c = unat (cl_atag l)" "cached_no c j l mod set_count c = j"
    using assms(2) by (simp_all add: cached_no_def)
  then show "cl_atag l = get_tag c a" "j = unat (get_idx c a)"
    using assms(3) address_parts(1,2)[OF assms(1), of a] by (simp_all add: word_unat_eq_iff)
qed

text \<open>After a write, only the line that was written is not up to date.\<close>

lemma coherent_write_line:
  assumes "geometry c" and "coherent c f" and "unat (get_offset c a) + length d \<le> line_bytes c"
    and "j < set_count c" and "w \<le> m_sets c" and "valid_line (ln c j w)"
    and "j = unat (get_idx c a) \<Longrightarrow> cl_atag (ln c j w) \<noteq> get_tag c a"
  shows "cl_entry (ln c j w) = bytes_at (write_at a d f) (of_nat (cached_no c j (ln c j w) * line_bytes c)) (line_bytes c)"
proof -
  have old: "cached_no c j (ln c j w) < 2 ^ (m_tag_bits c + m_idx_bits c)"
    "cl_entry (ln c j w) = bytes_at f (of_nat (cached_no c j (ln c j w) * line_bytes c)) (line_bytes c)"
    by (rule coherentD(1)[OF assms(2,4-6)], rule coherentD(2)[OF assms(2,4-6)])
  have "cached_no c j (ln c j w) \<noteq> line_no c a"
    using cached_no_tag[OF assms(1,4), of "ln c j w" a] assms(7) by blast
  then show ?thesis using old(2) bytes_write_other[OF assms(1) old(1) _ assms(3)] by metis
qed

lemma coherent_write_miss:
  assumes "geometry c" and "coherent c f" and "unat (get_offset c a) + length d \<le> line_bytes c"
    and "\<And>w. w \<le> m_sets c \<Longrightarrow> valid_line (ln c (unat (get_idx c a)) w) \<Longrightarrow> cl_atag (ln c (unat (get_idx c a)) w) \<noteq> get_tag c a"
  shows "coherent c (write_at a d f)"
  unfolding coherent_def
proof (intro allI impI)
  fix j w
  assume b: "j < set_count c" "w \<le> m_sets c" "valid_line (ln c j w)"
  show "cached_no c j (ln c j w) < 2 ^ (m_tag_bits c + m_idx_bits c) \<and>
      cl_entry (ln c j w) = bytes_at (write_at a d f) (of_nat (cached_no c j (ln c j w) * line_bytes c)) (line_bytes c) \<and>
      (\<forall>w' \<le> m_sets c. valid_line (ln c j w') \<and> cl_atag (ln c j w') = cl_atag (ln c j w) \<longrightarrow> w' = w)"
  proof (intro conjI allI impI)
    show "cached_no c j (ln c j w) < 2 ^ (m_tag_bits c + m_idx_bits c)" by (rule coherentD(1)[OF assms(2) b])
    show "cl_entry (ln c j w) = bytes_at (write_at a d f) (of_nat (cached_no c j (ln c j w) * line_bytes c)) (line_bytes c)"
      by (rule coherent_write_line[OF assms(1-3) b]) (use assms(4) b in blast)
  qed (use coherentD(3)[OF assms(2) b] in blast)
qed

lemma coherent_but_write_hit:
  assumes "geometry c" and "coherent c f" and "unat (get_offset c a) + length d \<le> line_bytes c"
    and "\<And>w'. w' \<le> m_sets c \<Longrightarrow> w' \<noteq> w \<Longrightarrow> valid_line (ln c (unat (get_idx c a)) w') \<Longrightarrow>
      cl_atag (ln c (unat (get_idx c a)) w') \<noteq> get_tag c a"
  shows "coherent_but (unat (get_idx c a)) w c (write_at a d f)"
  unfolding coherent_but_def
proof (intro allI impI)
  fix j' w'
  assume b: "j' < set_count c" "w' \<le> m_sets c" "(j', w') \<noteq> (unat (get_idx c a), w)" "valid_line (ln c j' w')"
  show "cached_no c j' (ln c j' w') < 2 ^ (m_tag_bits c + m_idx_bits c) \<and>
      cl_entry (ln c j' w') = bytes_at (write_at a d f) (of_nat (cached_no c j' (ln c j' w') * line_bytes c)) (line_bytes c) \<and>
      (\<forall>w'' \<le> m_sets c. (j', w'') \<noteq> (unat (get_idx c a), w) \<longrightarrow> valid_line (ln c j' w'') \<longrightarrow>
         cl_atag (ln c j' w'') = cl_atag (ln c j' w') \<longrightarrow> w'' = w')"
  proof (intro conjI allI impI)
    show "cached_no c j' (ln c j' w') < 2 ^ (m_tag_bits c + m_idx_bits c)" by (rule coherentD(1)[OF assms(2) b(1,2,4)])
    show "cl_entry (ln c j' w') = bytes_at (write_at a d f) (of_nat (cached_no c j' (ln c j' w') * line_bytes c)) (line_bytes c)"
      by (rule coherent_write_line[OF assms(1-3) b(1,2,4)]) (use assms(4) b in blast)
  qed (use coherentD(3)[OF assms(2) b(1,2,4)] in blast)
qed

text \<open>Invalidating lines keeps coherence, and removes what stands in the way of a write.\<close>

definition weaker :: "vectorcache \<Rightarrow> vectorcache \<Rightarrow> bool" where
  "weaker c c' =
     (config c' = config c \<and> geometry c' \<and>
      (\<forall>j < set_count c. \<forall>w \<le> m_sets c. core (ln c' j w) = core (ln c j w) \<or> \<not> valid_line (ln c' j w)))"

lemma coherent_weaker:
  assumes "coherent c f" and "weaker c c'"
  shows "coherent c' f"
proof -
  have cfg: "config c' = config c" using assms(2) by (simp add: weaker_def)
  have line: "core (ln c' j w) = core (ln c j w)" if "j < set_count c" "w \<le> m_sets c" "valid_line (ln c' j w)" for j w
    using assms(2) that unfolding weaker_def by blast
  note eqs = core_eq[OF line]
  show ?thesis
    unfolding coherent_def config_fields[OF cfg]
  proof (intro allI impI)
    fix j w
    assume j: "j < set_count c" and w: "w \<le> m_sets c" and v: "valid_line (ln c' j w)"
    have old: "valid_line (ln c j w)" "cl_atag (ln c' j w) = cl_atag (ln c j w)" "cl_entry (ln c' j w) = cl_entry (ln c j w)"
      using v eqs[OF j w v] by simp_all
    have "w' = w" if "w' \<le> m_sets c" "valid_line (ln c' j w')" "cl_atag (ln c' j w') = cl_atag (ln c' j w)" for w'
    proof -
      have "valid_line (ln c j w')" "cl_atag (ln c j w') = cl_atag (ln c j w)"
        using that eqs[OF j that(1,2)] old(2) by simp_all
      then show ?thesis using assms(1) j w old(1) that(1) unfolding coherent_def by blast
    qed
    moreover have "cached_no c' j (ln c' j w) = cached_no c j (ln c j w)"
      using old(2) config_fields[OF cfg] by (simp add: cached_no_def)
    ultimately show "cached_no c' j (ln c' j w) < 2 ^ (m_tag_bits c + m_idx_bits c) \<and>
        cl_entry (ln c' j w) = bytes_at f (of_nat (cached_no c' j (ln c' j w) * line_bytes c)) (line_bytes c) \<and>
        (\<forall>w' \<le> m_sets c. valid_line (ln c' j w') \<and> cl_atag (ln c' j w') = cl_atag (ln c' j w) \<longrightarrow> w' = w)"
      using assms(1) j w old unfolding coherent_def by auto
  qed
qed

section \<open>Choosing a line\<close>

lemma first_way_Some:
  "first_way P ls n = Some w \<Longrightarrow> n \<le> w \<and> w - n < length ls \<and> P (ls ! (w - n)) \<and> (\<forall>k < w - n. \<not> P (ls ! k))"
proof (induction P ls n rule: first_way.induct)
  case (2 P l ls n)
  show ?case
  proof (cases "P l")
    case False
    then have ih: "Suc n \<le> w \<and> w - Suc n < length ls \<and> P (ls ! (w - Suc n)) \<and> (\<forall>k < w - Suc n. \<not> P (ls ! k))"
      using 2 by simp
    then have s: "w - n = Suc (w - Suc n)" by linarith
    have "\<not> P ((l # ls) ! k)" if "k < w - n" for k
      using that ih False unfolding s by (cases k) auto
    then show ?thesis using ih unfolding s by auto
  qed (use 2 in auto)
qed simp

lemma first_way_None: "first_way P ls n = None \<Longrightarrow> k < length ls \<Longrightarrow> \<not> P (ls ! k)"
proof (induction P ls n arbitrary: k rule: first_way.induct)
  case (2 P l ls n)
  then show ?case by (cases k) (auto split: if_splits)
qed simp

lemma length_ways [simp]: "length (ways c idx) = m_sets c + 1"
  by (simp add: ways_def)

lemma nth_ways: "w \<le> m_sets c \<Longrightarrow> ways c idx ! w = ln c (unat idx) w"
  unfolding ways_def line_at_ln by (simp del: upt_Suc)

text \<open>The random choice.\<close>

lemma select_random_sound:
  assumes "select_random locks r = Some y" and "locks \<noteq> []" and "length locks < 2 ^ 32"
  shows "fst y < length locks \<and> locks ! fst y = 0"
proof -
  have "locks \<noteq> [] \<longrightarrow> length locks < 2 ^ 32 \<longrightarrow> fst y < length locks \<and> locks ! fst y = 0"
  proof (rule select_random.raw_induct[OF _ assms(1)])
    fix f and locks :: "u32 list" and r :: u32 and y
    assume ih: "\<And>rand b y. f rand b = Some y \<Longrightarrow>
        rand \<noteq> [] \<longrightarrow> length rand < 2 ^ 32 \<longrightarrow> fst y < length rand \<and> rand ! fst y = 0"
      and body: "(let way_select = unat (r mod of_nat (length locks))
        in if locks ! way_select \<noteq> 0 then f locks (r + 1) else Some (way_select, r + 1)) = Some y"
    let ?w = "unat (r mod of_nat (length locks))"
    show "locks \<noteq> [] \<longrightarrow> length locks < 2 ^ 32 \<longrightarrow> fst y < length locks \<and> locks ! fst y = 0"
    proof (intro impI)
      assume ne: "locks \<noteq> []" and len: "length locks < 2 ^ 32"
      have "unat (of_nat (length locks) :: u32) = length locks" using len by (simp add: unat_of_nat)
      then have w: "?w < length locks" using ne by (simp add: unat_mod)
      show "fst y < length locks \<and> locks ! fst y = 0"
      proof (cases "locks ! ?w = 0")
        case True
        then have "y = (?w, r + 1)" using body by (simp add: Let_def)
        then show ?thesis using True w by simp
      next
        case False
        then have "f locks (r + 1) = Some y" using body by (simp add: Let_def)
        from ih[OF this] show ?thesis using ne len by blast
      qed
    qed
  qed
  then show ?thesis using assms by blast
qed

lemma select_random_reaches:
  assumes "locks ! unat ((r + of_nat k) mod of_nat (length locks)) = 0"
  shows "select_random locks r \<noteq> None"
  using assms
proof (induction k arbitrary: r)
  case 0
  then show ?case by (subst select_random.simps) simp
next
  case (Suc k)
  then show ?case
    by (subst select_random.simps) (simp add: Let_def algebra_simps)
qed

lemma select_random_total:
  assumes "w < length locks" and "locks ! w = 0" and "length locks < 2 ^ 32"
  shows "select_random locks r \<noteq> None"
proof (rule select_random_reaches)
  let ?k = "2 ^ 32 - unat r + w"
  have "r + of_nat ?k = of_nat (unat r + ?k)" by (simp only: of_nat_add of_nat_unat ucast_id)
  also have "unat r + ?k = 2 ^ 32 + w" using unat_less_2_32[of r] by simp
  also have "(of_nat (2 ^ 32 + w) :: u32) = of_nat w" by (simp add: word_of_nat_eq_iff take_bit_eq_mod)
  finally have "(r + of_nat ?k) mod of_nat (length locks) = (of_nat w mod of_nat (length locks) :: u32)"
    by (rule arg_cong)
  moreover have "unat (of_nat w mod of_nat (length locks) :: u32) = w"
    using assms(1,3) by (simp add: unat_mod unat_of_nat)
  ultimately show "locks ! unat ((r + of_nat ?k) mod of_nat (length locks)) = 0" using assms(2) by simp
qed

text \<open>(C20) Random replacement ends exactly when some way of the set is not locked, and then
  selects a way that is not locked; with every way locked the loop runs for ever.\<close>

theorem random_replacement_terminates:
  assumes "geometry c"
  shows "(replacement_selector idx 3 c \<noteq> None) = (\<exists>w \<le> m_sets c. cl_lock (ln c (unat idx) w) = 0) \<and>
    (\<forall>w c'. replacement_selector idx 3 c = Some (w, c') \<longrightarrow>
       w \<le> m_sets c \<and> cl_lock (ln c (unat idx) w) = 0 \<and> same_cores c c')"
proof -
  let ?locks = "map cl_lock (ways c idx)"
  have len: "length ?locks = m_sets c + 1" "?locks \<noteq> []" "length ?locks < 2 ^ 32"
    using assms by (auto simp: geometry_def ways_def)
  have nth: "?locks ! w = cl_lock (ln c (unat idx) w)" if "w \<le> m_sets c" for w
    using that nth_ways[OF that, of idx] by simp
  have sound: "w \<le> m_sets c \<and> cl_lock (ln c (unat idx) w) = 0" if "select_random ?locks (m_pseudo_rand c) = Some (w, r)" for w r
    using select_random_sound[OF that len(2,3)] len(1) nth[of w] by (simp del: nth_map)
  have total: "select_random ?locks (m_pseudo_rand c) \<noteq> None" if "w \<le> m_sets c" "cl_lock (ln c (unat idx) w) = 0" for w
    using select_random_total[of w ?locks] that len nth[of w] by simp
  have sel: "replacement_selector idx 3 c = map_option (\<lambda>(w, r). (w, c\<lparr>m_pseudo_rand := r\<rparr>)) (select_random ?locks (m_pseudo_rand c))"
    by (simp add: replacement_selector_def)
  have "same_cores c (c\<lparr>m_pseudo_rand := r\<rparr>)" for r by (simp add: same_cores_def config_def)
  then show ?thesis
    unfolding sel using sound total by auto
qed

definition two_ways :: vectorcache where
  "two_ways = \<lparr>vc_kind = Dcache, m_new_linefetch_en = True, m_burst_en = False, m_pseudo_rand = 0, m_sets = 1,
     m_setlock = True, m_linesize = 2, m_offset_bits = 4, m_idx_bits = 0, m_tag_bits = 28, m_repl = 3, m_max_lru = 1,
     CACHE_CONFIG_REG = 0,
     cache_mem = [\<lparr>cl_valid = 1, cl_atag = 5, cl_lrr = 0, cl_lru = 0, cl_lock = 1, cl_entry = replicate 16 0\<rparr>,
       \<lparr>cl_valid = 1, cl_atag = 6, cl_lrr = 0, cl_lru = 0, cl_lock = 0, cl_entry = replicate 16 0\<rparr>],
     rhits = [0, 0], rmisses = 0, whits = [0, 0], wmisses = 0, bypassops = 0\<rparr>"

theorem random_replacement_terminates_witness:
  "replacement_selector 0 3 two_ways \<noteq> None"
proof -
  have g: "geometry two_ways" by (simp add: geometry_def two_ways_def)
  have "\<exists>w \<le> m_sets two_ways. cl_lock (ln two_ways (unat 0) w) = 0"
    by (rule exI[of _ 1]) (simp add: ln_def two_ways_def)
  then show ?thesis using random_replacement_terminates[OF g, of 0] by simp
qed

end
