(* ===== verification/Vectorcache_Transparent.thy ===== *)
theory Vectorcache_Transparent
  imports Vectorcache_Props
begin

text \<open>
  Reads and writes of the data cache over a memory that keeps its promises.  The locale
  \<^verbatim>\<open>mem_level\<close> states what a cache expects of its next level; the local scratchpad RAM
  satisfies it, and so does a cache over such a level.
\<close>

section \<open>The replacement strategies find a line\<close>

definition lrr_free :: "vectorcache \<Rightarrow> bool" where
  "lrr_free c = (\<forall>j < set_count c. \<exists>w \<le> 1. cl_lrr (ln c j w) = 0)"

definition unlocked :: "vectorcache \<Rightarrow> bool" where
  "unlocked c = (\<forall>j < set_count c. \<forall>w \<le> m_sets c. cl_lock (ln c j w) = 0)"

text \<open>No line is locked, and with the two-way strategy one of the two lines of each set was
  not the last one replaced.\<close>

definition selectable :: "vectorcache \<Rightarrow> bool" where
  "selectable c = (unlocked c \<and> (m_repl c = 2 \<longrightarrow> m_sets c = 1 \<and> lrr_free c))"

lemma unlocked_updates:
  assumes "unlocked c" and "updates c c' j w (v, t, 0, e)"
  shows "unlocked c'"
  unfolding unlocked_def config_fields[OF updates_config[OF assms(2)]]
proof (intro allI impI)
  fix j' w'
  assume b: "j' < set_count c" "w' \<le> m_sets c"
  then have "core (ln c' j' w') = (if j' = j \<and> w' = w then (v, t, 0, e) else core (ln c j' w'))"
    using assms(2) by (simp add: updates_def)
  then show "cl_lock (ln c' j' w') = 0"
    using assms(1) b by (auto simp: unlocked_def core_def split: if_splits)
qed

lemma unlocked_same_cores:
  assumes "same_cores c c'" and "geometry c" and "unlocked c"
  shows "unlocked c'"
proof -
  have cfg: "config c' = config c" using assms(1) by (simp add: same_cores_def)
  show ?thesis
    using assms(3) core_eq(3)[OF same_cores_ln[OF assms(1,2)]] unfolding unlocked_def config_fields[OF cfg] by simp
qed

lemma lrr_free_set_line:
  assumes "geometry c" and "unat idx < set_count c" and "w \<le> m_sets c" and "m_sets c = 1"
    and "lrr_free c" and "cl_lrr l = cl_lrr (line_at c idx w)"
  shows "lrr_free (set_line idx w l c)"
proof -
  have "cl_lrr (ln (set_line idx w l c) j w') = cl_lrr (ln c j w')" if "w' \<le> 1" for j w'
    using ln_set_line[OF assms(1-3), of w'] that assms(4,6) by (simp add: line_at_ln)
  moreover have "set_count (set_line idx w l c) = set_count c" by (simp add: set_line_def)
  ultimately show ?thesis using assms(5) unfolding lrr_free_def by metis
qed

lemma lrr_free_lrr_update:
  assumes g: "geometry c" and i: "unat idx < set_count c" and s: "m_sets c = 1" and free: "lrr_free c"
  shows "lrr_free (lrr_update idx w c)"
proof -
  define c1 where "c1 = set_line idx 0 ((line_at c idx 0)\<lparr>cl_lrr := int_of_bool (0 = w)\<rparr>) c"
  define c2 where "c2 = set_line idx 1 ((line_at c1 idx 1)\<lparr>cl_lrr := int_of_bool (1 = w)\<rparr>) c1"
  have fold: "lrr_update idx w c = c2"
    by (simp add: lrr_update_def c1_def c2_def upt_conv_Cons)
  have g1: "geometry c1" unfolding c1_def
    by (rule geometry_set_line[OF g]) (use geometry_line[OF g i, of 0] in \<open>simp add: line_at_ln\<close>)
  have same: "set_count c1 = set_count c" "m_sets c1 = m_sets c" "set_count c2 = set_count c"
    by (simp_all add: c1_def c2_def set_line_def)
  have ln1: "ln c1 j w' = (if j = unat idx \<and> w' = 0 then (line_at c idx 0)\<lparr>cl_lrr := int_of_bool (0 = w)\<rparr> else ln c j w')"
    if "w' \<le> 1" for j w'
    unfolding c1_def using that s by (intro ln_set_line[OF g i]) simp_all
  have ln2: "ln c2 j w' = (if j = unat idx \<and> w' = 1 then (line_at c1 idx 1)\<lparr>cl_lrr := int_of_bool (1 = w)\<rparr> else ln c1 j w')"
    if "w' \<le> 1" for j w'
    unfolding c2_def using that s i same by (intro ln_set_line[OF g1]) simp_all
  have "\<exists>w' \<le> 1. cl_lrr (ln c2 j w') = 0" if j: "j < set_count c" for j
  proof (cases "j = unat idx")
    case True
    then show ?thesis
      using ln1[of 0 j] ln2[of 0 j] ln2[of 1 j] by (cases "w = 0") (auto intro: exI[of _ "0::nat"] exI[of _ "1::nat"])
  next
    case False
    obtain w' where "w' \<le> 1" "cl_lrr (ln c j w') = 0" using free j unfolding lrr_free_def by blast
    then show ?thesis using False ln1[of w' j] ln2[of w' j] by auto
  qed
  then show ?thesis unfolding fold lrr_free_def same by blast
qed

lemma lrr_free_claim_line:
  assumes g: "geometry c" and i: "unat idx < set_count c" and w: "way \<le> m_sets c" and s: "m_sets c = 1" and free: "lrr_free c"
  shows "lrr_free (claim_line tag idx way c)"
proof (cases "cl_atag (line_at c idx way) = tag")
  case True
  then show ?thesis using free by (simp add: claim_line_def)
next
  case False
  define c1 where "c1 = set_line idx way ((line_at c idx way)\<lparr>cl_atag := tag\<rparr>) c"
  define c2 where "c2 = (if m_repl c1 = 2 then lrr_update idx way c1 else c1)"
  have len: "length (cl_entry (line_at c idx way)) = line_bytes c"
    unfolding line_at_ln by (rule geometry_line[OF g i w])
  have g1: "geometry c1" unfolding c1_def by (rule geometry_set_line[OF g]) (simp add: len)
  have same1: "set_count c1 = set_count c" "m_sets c1 = m_sets c" by (simp_all add: c1_def set_line_def)
  have f1: "lrr_free c1" unfolding c1_def by (rule lrr_free_set_line[OF g i w s free]) simp
  have sc2: "same_cores c1 c2" using same_cores_lrr_update by (simp add: c2_def)
  have g2: "geometry c2" using same_cores_geometry[OF sc2] g1 by simp
  have cfg2: "config c2 = config c1" using sc2 by (simp add: same_cores_def)
  have f2: "lrr_free c2"
    using lrr_free_lrr_update[OF g1 _ _ f1] f1 i s same1 by (simp add: c2_def)
  have "claim_line tag idx way c = set_line idx way ((line_at c2 idx way)\<lparr>cl_valid := 0\<rparr>) c2"
    using False by (simp add: claim_line_def Let_def c1_def c2_def)
  moreover have "lrr_free (set_line idx way ((line_at c2 idx way)\<lparr>cl_valid := 0\<rparr>) c2)"
    by (rule lrr_free_set_line[OF g2 _ _ _ f2]) (use i w s same1 config_fields[OF cfg2] in simp_all)
  ultimately show ?thesis by simp
qed


lemma lrr_free_update_line:
  assumes g: "geometry c" and i: "unat idx < set_count c" and w: "way \<le> m_sets c" and s: "m_sets c = 1" and free: "lrr_free c"
    and repl: "m_repl c = 2" and upd: "update_line tag idx offset way data c = Some c'"
  shows "lrr_free c'"
proof -
  obtain l where copy: "copy_to offset data (line_at c idx way) = Some l"
    using upd by (auto simp: update_line_def split: if_splits)
  have l: "length (cl_entry l) = line_bytes c" "cl_lrr l = cl_lrr (line_at c idx way)"
    using copy geometry_line[OF g i w] by (auto simp: copy_to_def line_at_ln split: if_splits)
  define c1 where "c1 = set_line idx way l c"
  define c2 where "c2 = claim_line tag idx way c1"
  define c3 where "c3 = validate_line idx offset (of_nat (length data)) way c2"
  have g1: "geometry c1" unfolding c1_def by (rule geometry_set_line[OF g l(1)])
  have f1: "lrr_free c1" unfolding c1_def by (rule lrr_free_set_line[OF g i w s free l(2)])
  have cfg1: "config c1 = config c" by (simp add: c1_def)
  note e1 = config_fields[OF cfg1]
  have i1: "unat idx < set_count c1" "way \<le> m_sets c1" "m_sets c1 = 1" using i w s e1 by simp_all
  have f2: "lrr_free c2" unfolding c2_def by (rule lrr_free_claim_line[OF g1 i1 f1])
  note u2 = claim_line_updates[OF g1 i1(1,2), of tag, folded c2_def]
  have g2: "geometry c2"
    by (rule updates_geometry[OF u2[unfolded Let_def] g1]) (rule geometry_line[OF g1 i1(1,2)])
  note e2 = config_fields[OF updates_config[OF u2]]
  have "lrr_free c3"
    unfolding c3_def validate_line_def
    by (rule lrr_free_set_line[OF g2 _ _ _ f2]) (use i1 e2 in simp_all)
  moreover have "m_repl c3 = 2" using e1 e2 repl by (simp add: c3_def validate_line_def set_line_def)
  then have "c' = c3"
    using upd copy by (auto simp: update_line_def Let_def c1_def c2_def c3_def split: if_splits)
  ultimately show ?thesis by simp
qed

lemma select_lru_bound: "way_select < n \<Longrightarrow> way + length ls \<le> n \<Longrightarrow> select_lru ls way m way_select < n"
  by (induction ls way m way_select rule: select_lru.induct) (auto simp: Let_def)

text \<open>With a selectable cache the replacement finds a line of the set.\<close>

lemma replacement_selector_ok:
  assumes g: "geometry c" and i: "unat idx < set_count c" and sel: "selectable c"
  shows "\<exists>w c'. replacement_selector idx (m_repl c) c = Some (w, c') \<and> w \<le> m_sets c \<and>
    same_cores c c' \<and> lrr_free c' = lrr_free c \<and> m_repl c' = m_repl c \<and> m_sets c' = m_sets c"
proof -
  consider "m_repl c = 0" | "m_repl c = 1" | "m_repl c = 2" | "m_repl c \<ge> 3" by linarith
  then show ?thesis
  proof cases
    case 2
    have "select_lru (ways c idx) 0 (m_max_lru c) 0 < m_sets c + 1"
      by (rule select_lru_bound) simp_all
    then show ?thesis using 2 by (simp add: replacement_selector_def)
  next
    case 3
    then have s: "m_sets c = 1" and free: "lrr_free c" and lock: "\<And>w. w \<le> 1 \<Longrightarrow> cl_lock (ln c (unat idx) w) = 0"
      using sel i by (auto simp: selectable_def unlocked_def)
    have ic: "in_cache c idx w" if "w \<le> 1" for w
      using position_less[OF i, of w 1] that g s by (simp add: in_cache_def lookup_line_def geometry_def)
    have "select_lrr 3 c idx 0 \<in> {Some 0, Some 1}"
      using free i lock ic
      by (auto simp: numeral_3_eq_3 Let_def line_at_ln lrr_free_def le_Suc_eq split: if_splits)
    then show ?thesis using 3 s by (auto simp: replacement_selector_def)
  next
    case 4
    have "select_random (map cl_lock (ways c idx)) (m_pseudo_rand c) \<noteq> None"
    proof (rule select_random_total[of 0])
      show "map cl_lock (ways c idx) ! 0 = 0"
        using sel i nth_ways[of 0 c idx] by (simp add: selectable_def unlocked_def)
    qed (use g in \<open>auto simp: geometry_def\<close>)
    then obtain w r where sr: "select_random (map cl_lock (ways c idx)) (m_pseudo_rand c) = Some (w, r)" by auto
    have ne: "map cl_lock (ways c idx) \<noteq> []" by (simp add: ways_def)
    have "w < m_sets c + 1" using select_random_sound[OF sr ne] g by (simp add: geometry_def)
    then show ?thesis
      using 4 sr by (simp add: replacement_selector_def same_cores_def config_def lrr_free_def ln_def)
  qed (simp add: replacement_selector_def)
qed


section \<open>The next level\<close>

text \<open>What a cache needs from the level behind it, on the addresses \<^verbatim>\<open>inside\<close> it: an access
  within 32 bytes reads and writes the contents.\<close>

locale mem_level =
  fixes mif :: "'m mem_if"
    and contents :: "'m \<Rightarrow> u32 \<Rightarrow> u8"
    and inside :: "u32 \<Rightarrow> bool"
    and ok :: "'m \<Rightarrow> bool"
  assumes inside_block: "inside a \<Longrightarrow> unat b div 32 = unat a div 32 \<Longrightarrow> inside b"
    and read_ok: "ok m \<Longrightarrow> inside a \<Longrightarrow> unat a mod 32 + unat len \<le> 32 \<Longrightarrow>
      \<exists>cacheable m'. if_read mif a asi len False m = Some (bytes_at (contents m) a (unat len), cacheable, m') \<and>
        ok m' \<and> contents m' = contents m"
    and write_ok: "ok m \<Longrightarrow> inside a \<Longrightarrow> unat a mod 32 + length d \<le> 32 \<Longrightarrow>
      \<exists>m'. if_write mif a asi d False m = Some m' \<and> ok m' \<and> contents m' = write_at a d (contents m)"

text \<open>The state of a cache that is fit to run over a level with contents \<^verbatim>\<open>f\<close>.\<close>

definition fit :: "vectorcache \<Rightarrow> (u32 \<Rightarrow> u8) \<Rightarrow> bool" where
  "fit c f = (geometry c \<and> m_new_linefetch_en c \<and> selectable c \<and> coherent c f)"

lemma config_counters [simp]:
  "config (c\<lparr>rhits := a\<rparr>) = config c" "config (c\<lparr>rmisses := b\<rparr>) = config c" "config (c\<lparr>whits := a\<rparr>) = config c"
  "config (c\<lparr>wmisses := b\<rparr>) = config c" "config (c\<lparr>bypassops := b\<rparr>) = config c"
  by (simp_all add: config_def)

lemma config_lru_update [simp]: "config (lru_update idx w c) = config c"
  using same_cores_lru_update by (simp add: same_cores_def)

lemma fit_linefetch: "fit c f \<Longrightarrow> m_new_linefetch_en c"
  by (simp add: fit_def)

lemma selectable_cong:
  assumes "same_cores c c'" and "geometry c" and "lrr_free c' = lrr_free c" and "selectable c"
  shows "selectable c'"
proof -
  have cfg: "config c' = config c" using assms(1) by (simp add: same_cores_def)
  show ?thesis
    using unlocked_same_cores[OF assms(1,2)] assms(3,4) config_fields[OF cfg] by (simp add: selectable_def)
qed

lemma fit_same_cores:
  assumes "same_cores c c'" and "lrr_free c' = lrr_free c" and "fit c f"
  shows "fit c' f"
proof -
  have cfg: "config c' = config c" using assms(1) by (simp add: same_cores_def)
  have g: "geometry c" and s: "selectable c" and h: "coherent c f" using assms(3) by (simp_all add: fit_def)
  show ?thesis
    unfolding fit_def
    using assms(3) same_cores_geometry[OF assms(1)] selectable_cong[OF assms(1) g assms(2) s]
      coherent_same_cores[OF assms(1) g h] config_fields[OF cfg]
    by (simp add: fit_def)
qed

lemma fit_counters [simp]:
  "fit (c\<lparr>rhits := a\<rparr>) f = fit c f" "fit (c\<lparr>rmisses := b\<rparr>) f = fit c f" "fit (c\<lparr>whits := a\<rparr>) f = fit c f"
  "fit (c\<lparr>wmisses := b\<rparr>) f = fit c f" "fit (c\<lparr>bypassops := b\<rparr>) f = fit c f"
  by (simp_all add: fit_def geometry_def selectable_def unlocked_def lrr_free_def coherent_def cached_no_def ln_def)

lemma selectable_lru_update:
  assumes "geometry c" and "selectable c" and "m_repl c = 1"
  shows "selectable (lru_update idx w c)"
proof -
  have cfg: "config (lru_update idx w c) = config c"
    using same_cores_lru_update by (simp add: same_cores_def)
  show ?thesis
    using unlocked_same_cores[OF same_cores_lru_update assms(1)] assms(2,3) config_fields[OF cfg]
    by (simp add: selectable_def)
qed

lemma fit_lru_update:
  assumes "fit c f" and "m_repl c = 1"
  shows "fit (lru_update idx w c) f"
proof -
  have g: "geometry c" and s: "selectable c" and h: "coherent c f" using assms(1) by (simp_all add: fit_def)
  have cfg: "config (lru_update idx w c) = config c"
    using same_cores_lru_update by (simp add: same_cores_def)
  show ?thesis
    unfolding fit_def
    using assms same_cores_geometry[OF same_cores_lru_update] selectable_lru_update[OF g s]
      coherent_same_cores[OF same_cores_lru_update g h] config_fields[OF cfg]
    by (simp add: fit_def)
qed

text \<open>A line is filled, or written, with what the level behind holds.\<close>

lemma update_line_fit:
  assumes f: "geometry c" "m_new_linefetch_en c" "selectable c" and h: "coherent_but (unat (get_idx c a)) way c g"
    and w: "way \<le> m_sets c" and len: "unat offset + length data \<le> line_bytes c"
    and line: "take (unat offset) (cl_entry (ln c (unat (get_idx c a)) way)) @ data @
      drop (unat offset + length data) (cl_entry (ln c (unat (get_idx c a)) way)) =
      bytes_at g (of_nat (line_no c a * line_bytes c)) (line_bytes c)"
    and free: "\<And>w'. w' \<le> m_sets c \<Longrightarrow> w' \<noteq> way \<Longrightarrow> valid_line (ln c (unat (get_idx c a)) w') \<Longrightarrow>
      cl_atag (ln c (unat (get_idx c a)) w') \<noteq> get_tag c a"
  shows "\<exists>c'. update_line (get_tag c a) (get_idx c a) offset way data c = Some c' \<and> fit c' g \<and> config c' = config c"
proof -
  have i: "unat (get_idx c a) < set_count c" by (simp add: address_parts(2)[OF f(1)])
  obtain c' where upd: "update_line (get_tag c a) (get_idx c a) offset way data c = Some c'"
    and u: "updates c c' (unat (get_idx c a)) way (1, get_tag c a, cl_lock (ln c (unat (get_idx c a)) way),
      bytes_at g (of_nat (line_no c a * line_bytes c)) (line_bytes c))"
    using update_line_updates[OF f(1,2) i w len, of "get_tag c a"] unfolding line by blast
  note cfg = config_fields[OF updates_config[OF u]]
  have g': "geometry c'" by (rule updates_geometry[OF u f(1)]) simp
  have lock: "cl_lock (ln c (unat (get_idx c a)) way) = 0" using f(3) i w by (simp add: selectable_def unlocked_def)
  have "unlocked c'" by (rule unlocked_updates[OF _ u[unfolded lock]]) (use f(3) in \<open>simp add: selectable_def\<close>)
  moreover have "lrr_free c'" if "m_repl c = 2"
    by (rule lrr_free_update_line[OF f(1) i w _ _ that upd]) (use f(3) that in \<open>simp_all add: selectable_def\<close>)
  ultimately have "selectable c'" using f(3) cfg by (simp add: selectable_def)
  moreover have "coherent c' g"
    by (rule coherent_fill[OF h u line_no_parts[OF f(1)] line_no_less[OF f(1)] free])
  ultimately show ?thesis using upd g' f(2) cfg updates_config[OF u] by (simp add: fit_def)
qed


section \<open>Hits, misses and the line read\<close>

lemma locate_Some:
  assumes "locate_line c tag idx offset len = Some w" and "m_new_linefetch_en c"
  shows "w \<le> m_sets c \<and> valid_line (ln c (unat idx) w) \<and> cl_atag (ln c (unat idx) w) = tag"
  using first_way_Some[OF assms(1)[unfolded locate_line_def]] assms(2) nth_ways[of w c idx]
  by (auto simp: line_hit_def)

lemma locate_None:
  assumes "locate_line c tag idx offset len = None" and "m_new_linefetch_en c" and "w \<le> m_sets c"
    and "valid_line (ln c (unat idx) w)"
  shows "cl_atag (ln c (unat idx) w) \<noteq> tag"
  using first_way_None[OF assms(1)[unfolded locate_line_def], of w] assms(2-4) nth_ways[of w c idx]
  by (auto simp: line_hit_def)

lemma hit_line:
  assumes "fit c g" and "locate_line c (get_tag c a) (get_idx c a) offset len = Some w"
  shows "w \<le> m_sets c"
    and "cl_entry (ln c (unat (get_idx c a)) w) = bytes_at g (of_nat (line_no c a * line_bytes c)) (line_bytes c)"
    and "\<And>w'. w' \<le> m_sets c \<Longrightarrow> w' \<noteq> w \<Longrightarrow> valid_line (ln c (unat (get_idx c a)) w') \<Longrightarrow>
      cl_atag (ln c (unat (get_idx c a)) w') \<noteq> get_tag c a"
proof -
  have f: "geometry c" "m_new_linefetch_en c" "coherent c g" using assms(1) by (simp_all add: fit_def)
  have i: "unat (get_idx c a) < set_count c" by (simp add: address_parts(2)[OF f(1)])
  note loc = locate_Some[OF assms(2) f(2)]
  then show "w \<le> m_sets c" by blast
  have "cached_no c (unat (get_idx c a)) (ln c (unat (get_idx c a)) w) = line_no c a"
    using loc line_no_parts[OF f(1), of a] by (simp add: cached_no_def)
  then show "cl_entry (ln c (unat (get_idx c a)) w) = bytes_at g (of_nat (line_no c a * line_bytes c)) (line_bytes c)"
    using f(3) i loc unfolding coherent_def by metis
  show "\<And>w'. w' \<le> m_sets c \<Longrightarrow> w' \<noteq> w \<Longrightarrow> valid_line (ln c (unat (get_idx c a)) w') \<Longrightarrow>
      cl_atag (ln c (unat (get_idx c a)) w') \<noteq> get_tag c a"
    using f(3) i loc unfolding coherent_def by metis
qed

lemma bytes_at_slice:
  assumes "off + n \<le> len"
  shows "take n (drop off (bytes_at g base len)) = bytes_at g (base + of_nat off) n"
  using assms by (intro nth_equalityI) (simp_all add: bytes_at_def add.assoc)

lemma line_slice:
  assumes "geometry c" and "unat (get_offset c a) + n \<le> line_bytes c"
  shows "take n (drop (unat (get_offset c a)) (bytes_at g (of_nat (line_no c a * line_bytes c)) (line_bytes c))) = bytes_at g a n"
proof -
  have "of_nat (line_no c a * line_bytes c) + of_nat (unat (get_offset c a)) = (of_nat (unat a) :: u32)"
    by (simp only: address_split[OF assms(1), of a] of_nat_add)
  also have "\<dots> = a" by (simp only: of_nat_unat ucast_id)
  finally show ?thesis using bytes_at_slice[OF assms(2), of g "of_nat (line_no c a * line_bytes c)"] by simp
qed

lemma unat_line_base:
  assumes "geometry c"
  shows "unat (of_nat (line_no c a * line_bytes c) :: u32) = line_no c a * line_bytes c"
  using line_address[OF assms line_no_less[OF assms], of 0 a] by simp

lemma fetch_line:
  assumes "geometry c" and "m_new_linefetch_en c"
  shows "fetch_range c ccr a len = (of_nat (line_no c a * line_bytes c), m_bytesperline c)"
proof -
  have o: "m_linesize c + 2 = m_offset_bits c" using assms(1) by (simp add: geometry_def)
  have "drop_bit (m_offset_bits c) a = (of_nat (unat (drop_bit (m_offset_bits c) a)) :: u32)"
    by (simp only: of_nat_unat ucast_id)
  then have "push_bit (m_offset_bits c) (drop_bit (m_offset_bits c) a) = (of_nat (line_no c a * line_bytes c) :: u32)"
    unfolding line_no_def unat_drop_bit by (simp add: push_bit_eq_mult)
  then show ?thesis unfolding fetch_range_def o using assms(2) by simp
qed

lemma unat_bytesperline:
  assumes "geometry c"
  shows "unat (m_bytesperline c) = line_bytes c"
proof -
  have "m_linesize c = 2 \<and> m_offset_bits c = 4 \<or> m_linesize c = 3 \<and> m_offset_bits c = 5"
    using assms by (auto simp: geometry_def)
  then show ?thesis by (auto simp: m_bytesperline_def)
qed

lemma line_base_parts:
  assumes "geometry c"
  shows "line_no c (of_nat (line_no c a * line_bytes c)) = line_no c a"
    and "get_tag c (of_nat (line_no c a * line_bytes c)) = get_tag c a"
    and "get_idx c (of_nat (line_no c a * line_bytes c)) = get_idx c a"
    and "get_offset c (of_nat (line_no c a * line_bytes c)) = 0"
proof -
  show n: "line_no c (of_nat (line_no c a * line_bytes c)) = line_no c a"
    by (subst line_no_def) (simp add: unat_line_base[OF assms] del: of_nat_mult)
  show "get_tag c (of_nat (line_no c a * line_bytes c)) = get_tag c a"
    and "get_idx c (of_nat (line_no c a * line_bytes c)) = get_idx c a"
    unfolding word_unat_eq_iff address_parts[OF assms] n by (rule refl)+
  show "get_offset c (of_nat (line_no c a * line_bytes c)) = 0"
    unfolding word_unat_eq_iff address_parts[OF assms] unat_line_base[OF assms] by simp
qed


text \<open>The bytes of a line, as a miss reads them.\<close>

lemma line_fetched:
  assumes "geometry c" and "unat (get_offset c a) + n \<le> line_bytes c"
    and "data = bytes_at g (of_nat (line_no c a * line_bytes c)) (line_bytes c)"
  shows "take n (drop (unat (get_offset c a)) data) = bytes_at g a n"
  unfolding assms(3) by (rule line_slice[OF assms(1,2)])

lemma same_block:
  assumes "geometry c"
  shows "unat (of_nat (line_no c a * line_bytes c) :: u32) div 32 = unat a div 32"
    and "unat (of_nat (line_no c a * line_bytes c) :: u32) mod 32 + line_bytes c \<le> 32"
    and "unat (get_offset c a) + n \<le> line_bytes c \<Longrightarrow> unat a mod 32 + n \<le> 32"
proof -
  have o: "m_offset_bits c = 4 \<or> m_offset_bits c = 5" using assms by (auto simp: geometry_def)
  have "(x div 16 * 16) div 32 = x div 32" for x :: nat
    using div_mult2_eq[of "x div 16 * 16" 16 2] div_mult2_eq[of x 16 2] by simp
  moreover have "(x div 16 * 16) mod 32 + 16 \<le> 32" for x :: nat
    using mod_mult2_eq[of "x div 16 * 16" 16 2] by simp
  moreover have "x mod 16 + n \<le> 16 \<Longrightarrow> x mod 32 + n \<le> 32" for x n :: nat
    using mod_mult2_eq[of x 16 2] by simp
  ultimately show "unat (of_nat (line_no c a * line_bytes c) :: u32) div 32 = unat a div 32"
    and "unat (of_nat (line_no c a * line_bytes c) :: u32) mod 32 + line_bytes c \<le> 32"
    and "unat (get_offset c a) + n \<le> line_bytes c \<Longrightarrow> unat a mod 32 + n \<le> 32"
    using o unfolding unat_line_base[OF assms] address_parts[OF assms] unfolding line_no_def by auto
qed

lemma fill_fit:
  assumes "fit c g" and "way \<le> m_sets c"
    and "\<And>w'. w' \<le> m_sets c \<Longrightarrow> w' \<noteq> way \<Longrightarrow> valid_line (ln c (unat (get_idx c a)) w') \<Longrightarrow>
      cl_atag (ln c (unat (get_idx c a)) w') \<noteq> get_tag c a"
  shows "\<exists>c'. update_line (get_tag c a) (get_idx c a) 0 way (bytes_at g (of_nat (line_no c a * line_bytes c)) (line_bytes c)) c =
      Some c' \<and> fit c' g \<and> config c' = config c"
proof -
  have f: "geometry c" "m_new_linefetch_en c" "selectable c" "coherent c g" using assms(1) by (simp_all add: fit_def)
  have i: "unat (get_idx c a) < set_count c" by (simp add: address_parts(2)[OF f(1)])
  show ?thesis
    by (rule update_line_fit[OF f(1-3) coherent_but[OF f(4)] assms(2) _ _ assms(3)]) (simp_all add: geometry_line[OF f(1) i assms(2)])
qed

lemma allocate_fit:
  assumes "fit c g"
    and miss: "\<And>w. w \<le> m_sets c \<Longrightarrow> valid_line (ln c (unat (get_idx c a)) w) \<Longrightarrow>
      cl_atag (ln c (unat (get_idx c a)) w) \<noteq> get_tag c a"
  shows "\<exists>c'. allocate_line (get_tag c a) (get_idx c a) 0 (bytes_at g (of_nat (line_no c a * line_bytes c)) (line_bytes c)) c =
      Some c' \<and> fit c' g \<and> config c' = config c"
proof (cases "first_way (line_free c 0 (of_nat (line_bytes c))) (ways c (get_idx c a)) 0")
  case (Some way)
  then have "way \<le> m_sets c" using first_way_Some[OF Some] by simp
  then show ?thesis using fill_fit[OF assms(1) _ miss] Some by (simp add: allocate_line_def)
next
  case None
  have f: "geometry c" "selectable c" using assms(1) by (simp_all add: fit_def)
  have i: "unat (get_idx c a) < set_count c" by (simp add: address_parts(2)[OF f(1)])
  obtain w c2 where sel: "replacement_selector (get_idx c a) (m_repl c) c = Some (w, c2)" and w: "w \<le> m_sets c"
    and same: "same_cores c c2" "lrr_free c2 = lrr_free c"
    using replacement_selector_ok[OF f(1) i f(2)] by blast
  have cfg: "config c2 = config c" using same(1) by (simp add: same_cores_def)
  note e = config_fields[OF cfg]
  have parts: "get_tag c2 a = get_tag c a" "get_idx c2 a = get_idx c a" "line_no c2 a = line_no c a"
    unfolding get_tag_def get_idx_def line_no_def e by (rule refl)+
  have "fit c2 g" by (rule fit_same_cores[OF same assms(1)])
  moreover have "cl_atag (ln c2 (unat (get_idx c2 a)) w') \<noteq> get_tag c2 a"
    if "w' \<le> m_sets c2" "valid_line (ln c2 (unat (get_idx c2 a)) w')" for w'
    using that miss[of w'] core_eq[OF same_cores_ln[OF same(1) f(1) i, of w']] unfolding parts e by simp
  ultimately have "\<exists>c'. update_line (get_tag c2 a) (get_idx c2 a) 0 w
      (bytes_at g (of_nat (line_no c2 a * line_bytes c2)) (line_bytes c2)) c2 = Some c' \<and> fit c' g \<and> config c' = config c2"
    using w e by (intro fill_fit) simp_all
  then show ?thesis unfolding parts e cfg using None sel by (simp add: allocate_line_def)
qed

section \<open>Transparency\<close>

context mem_level
begin

text \<open>The line read that a miss makes.\<close>

lemma line_read:
  assumes "geometry c" and "ok m" and "inside a"
  shows "\<exists>cacheable m'. if_read mif (of_nat (line_no c a * line_bytes c)) asi (m_bytesperline c) False m =
      Some (bytes_at (contents m) (of_nat (line_no c a * line_bytes c)) (line_bytes c), cacheable, m') \<and>
    ok m' \<and> contents m' = contents m"
proof -
  have "inside (of_nat (line_no c a * line_bytes c))"
    using assms(3) same_block(1)[OF assms(1)] by (rule inside_block)
  from read_ok[OF assms(2) this, of "m_bytesperline c"] show ?thesis
    using same_block(2)[OF assms(1)] unfolding unat_bytesperline[OF assms(1)] by blast
qed

lemma read_transparent:
  assumes fit: "fit c (contents m)" and "ok m" and "inside a"
    and span: "unat (get_offset c a) + unat len \<le> line_bytes c"
  shows "\<exists>c' m'. vc_mem_read mif ccr a asi len False c m = Some (bytes_at (contents m) a (unat len), c', m') \<and>
    fit c' (contents m') \<and> ok m' \<and> contents m' = contents m \<and> config c' = config c"
proof -
  have f: "geometry c" "m_new_linefetch_en c" "selectable c" "coherent c (contents m)"
    using fit by (simp_all add: fit_def)
  define base where "base = (of_nat (line_no c a * line_bytes c) :: u32)"
  define line where "line = bytes_at (contents m) base (line_bytes c)"
  have slice: "take (unat len) (drop (unat (get_offset c a)) line) = bytes_at (contents m) a (unat len)"
    unfolding line_def base_def by (rule line_slice[OF f(1) span])
  obtain cb m1 where rd: "if_read mif base asi (m_bytesperline c) False m = Some (line, cb, m1)"
    and m1: "ok m1" "contents m1 = contents m"
    using line_read[OF f(1) assms(2,3)] unfolding line_def base_def by blast
  note base = fetch_line[OF f(1,2), of ccr a len, folded base_def] line_base_parts(2-)[OF f(1), of a, folded base_def]
  show ?thesis
  proof (cases "asi \<noteq> 0x1c \<and> check_mode c ccr AND 1 \<noteq> 0")
    case False
    from read_ok[OF assms(2,3) same_block(3)[OF f(1) span], of asi] show ?thesis
      using False fit unfolding vc_mem_read_def Let_def by auto
  next
    case on: True
    show ?thesis
    proof (cases "locate_line c (get_tag c a) (get_idx c a) (get_offset c a) len")
      case None
      obtain c' where al: "allocate_line (get_tag c a) (get_idx c a) 0 line c = Some c'" and c': "fit c' (contents m)"
          and cfg: "config c' = config c"
        using allocate_fit[OF fit locate_None[OF None f(2)]] unfolding line_def base_def by blast
      then show ?thesis
        using on None rd m1 fit slice f(2) al c' cfg fit_linefetch[OF c'] unfolding vc_mem_read_def Let_def base
        by (cases "check_mode c ccr AND 2 \<noteq> 0 \<and> cb") (auto simp: base)
    next
      case (Some w)
      note hit = hit_line[OF fit Some, folded base_def, folded line_def]
      show ?thesis
      proof (cases "asi > 3")
        case True
        have "copy_from (get_offset c a) len (ln c (unat (get_idx c a)) w) = Some (bytes_at (contents m) a (unat len))"
          using slice span unfolding copy_from_def hit(2) by (simp add: line_def)
        then show ?thesis
          using on Some True fit assms(2) fit_lru_update unfolding vc_mem_read_def Let_def by (auto simp: line_at_ln)
      next
        case False
        obtain c' where ul: "update_line (get_tag c a) (get_idx c a) 0 w line c = Some c'" and c': "fit c' (contents m)"
            and cfg: "config c' = config c"
          using fill_fit[OF fit hit(1,3)] unfolding line_def base_def by blast
        then show ?thesis
          using on Some False rd m1 slice f(2) ul c' cfg fit_linefetch[OF c'] unfolding vc_mem_read_def Let_def base by (auto simp: base)
      qed
    qed
  qed
qed

text \<open>A write with the cache enabled or frozen; with the cache off, lines would go stale.\<close>

lemma write_transparent:
  assumes fit: "fit c (contents m)" and "ok m" and "inside a"
    and span: "unat (get_offset c a) + length d \<le> line_bytes c"
    and on: "asi \<noteq> 0x1c" "check_mode c ccr AND 1 \<noteq> 0"
  shows "\<exists>c' m'. vc_mem_write mif ccr a asi d False c m = Some (c', m') \<and>
    fit c' (contents m') \<and> ok m' \<and> contents m' = write_at a d (contents m) \<and> config c' = config c"
proof -
  have f: "geometry c" "m_new_linefetch_en c" "selectable c" "coherent c (contents m)"
    using fit by (simp_all add: fit_def)
  let ?g = "write_at a d (contents m)"
  obtain m' where wr: "if_write mif a asi d False m = Some m'" and m': "ok m'" "contents m' = ?g"
    using write_ok[OF assms(2,3) same_block(3)[OF f(1) span]] by blast
  show ?thesis
  proof (cases "locate_line c (get_tag c a) (get_idx c a) (get_offset c a) (of_nat (length d))")
    case None
    have "coherent c ?g"
      by (rule coherent_write_miss[OF f(1,4) span locate_None[OF None f(2)]])
    then have "fit c ?g" using f by (simp add: fit_def)
    then show ?thesis using None wr m' on unfolding vc_mem_write_def Let_def by simp
  next
    case (Some w)
    note hit = hit_line[OF fit Some]
    have i: "unat (get_idx c a) < set_count c" by (simp add: address_parts(2)[OF f(1)])
    have "\<exists>c'. update_line (get_tag c a) (get_idx c a) (get_offset c a) w d c = Some c' \<and> fit c' ?g \<and> config c' = config c"
      by (rule update_line_fit[OF f(1-3) coherent_but_write_hit[OF f(1,4) span hit(3)] hit(1) span
            bytes_write_same[OF f(1) span, of "contents m", folded hit(2), symmetric] hit(3)])
    then obtain c' where "update_line (get_tag c a) (get_idx c a) (get_offset c a) w d c = Some c'" "fit c' ?g" "config c' = config c"
      by blast
    then show ?thesis using Some wr m' on unfolding vc_mem_write_def Let_def by simp
  qed
qed

end

end
