(* ===== verification/Vectorcache_Runs.thy ===== *)
theory Vectorcache_Runs
  imports Vectorcache_Transparent
begin

text \<open>
  Flushing and snooping only take lines away: the cache stays coherent after a flush, and with
  the memory that another master has written to after its write has been snooped.
\<close>

section \<open>Taking lines away\<close>

definition fewer :: "vectorcache \<Rightarrow> vectorcache \<Rightarrow> bool" where
  "fewer c c' =
     (config c' = config c \<and> geometry c' \<and>
      (\<forall>j < set_count c. \<forall>w \<le> m_sets c. ln c' j w = ln c j w \<or> ln c' j w = (ln c j w)\<lparr>cl_valid := 0\<rparr>))"

lemma fewer_refl: "geometry c \<Longrightarrow> fewer c c"
  by (simp add: fewer_def)

lemma fewerD:
  assumes "fewer c c'" and "j < set_count c" and "w \<le> m_sets c"
  shows "ln c' j w = ln c j w \<or> ln c' j w = (ln c j w)\<lparr>cl_valid := 0\<rparr>"
  using assms by (simp add: fewer_def)

lemma fewer_trans:
  assumes "fewer c c'" and "fewer c' c''"
  shows "fewer c c''"
proof -
  have cfg: "config c' = config c" using assms(1) by (simp add: fewer_def)
  have "ln c'' j w = ln c j w \<or> ln c'' j w = (ln c j w)\<lparr>cl_valid := 0\<rparr>" if b: "j < set_count c" "w \<le> m_sets c" for j w
    using fewerD[OF assms(1) b] fewerD[OF assms(2), of j w] b config_fields[OF cfg] by auto
  then show ?thesis using assms cfg by (simp add: fewer_def)
qed

lemma fewer_fit:
  assumes "fit c f" and "fewer c c'"
  shows "fit c' f"
proof -
  have cfg: "config c' = config c" and g: "geometry c'" using assms(2) by (simp_all add: fewer_def)
  note e = config_fields[OF cfg]
  have line: "cl_lock (ln c' j w) = cl_lock (ln c j w)" "cl_lrr (ln c' j w) = cl_lrr (ln c j w)"
    if "j < set_count c" "w \<le> m_sets c" for j w
    using fewerD[OF assms(2) that] by auto
  have "core (ln c' j w) = core (ln c j w) \<or> \<not> valid_line (ln c' j w)" if "j < set_count c" "w \<le> m_sets c" for j w
    using fewerD[OF assms(2) that] by auto
  then have "weaker c c'" using cfg g by (simp add: weaker_def)
  then have "coherent c' f" using coherent_weaker assms(1) unfolding fit_def by blast
  moreover have "selectable c'"
    using assms(1) line e unfolding fit_def selectable_def unlocked_def lrr_free_def by (metis le_numeral_extra(4))
  ultimately show ?thesis using assms(1) g e by (simp add: fit_def)
qed

text \<open>No valid line stands for the memory line \<^verbatim>\<open>n\<close>.\<close>

definition gone :: "vectorcache \<Rightarrow> nat \<Rightarrow> bool" where
  "gone c n = (\<forall>j < set_count c. \<forall>w \<le> m_sets c. valid_line (ln c j w) \<longrightarrow> cached_no c j (ln c j w) \<noteq> n)"

lemma fewer_gone:
  assumes "fewer c c'" and "gone c n"
  shows "gone c' n"
proof -
  have cfg: "config c' = config c" using assms(1) by (simp add: fewer_def)
  note e = config_fields[OF cfg]
  show ?thesis
    unfolding gone_def e
  proof (intro allI impI)
    fix j w
    assume b: "j < set_count c" "w \<le> m_sets c" and v: "valid_line (ln c' j w)"
    have "ln c' j w = ln c j w" using fewerD[OF assms(1) b] v by auto
    then show "cached_no c' j (ln c' j w) \<noteq> n"
      using assms(2) b v e unfolding gone_def cached_no_def by simp
  qed
qed

lemma line_fewer:
  assumes "geometry c" and "config c' = config c" and "length (cache_mem c') = length (cache_mem c)"
    and "\<And>j w. j < set_count c \<Longrightarrow> w \<le> m_sets c \<Longrightarrow> ln c' j w = ln c j w \<or> ln c' j w = (ln c j w)\<lparr>cl_valid := 0\<rparr>"
  shows "fewer c c'"
proof -
  have "length (cl_entry (cache_mem c' ! p)) = line_bytes c" if p: "p < length (cache_mem c')" for p
  proof -
    let ?j = "p div (m_sets c + 1)" and ?w = "p mod (m_sets c + 1)"
    have j: "?j < set_count c" using p assms(1,3) by (simp add: geometry_def less_mult_imp_div_less)
    have w: "?w \<le> m_sets c" using mod_less_divisor[of "m_sets c + 1" p] by linarith
    have "ln c' ?j ?w = cache_mem c' ! p" unfolding ln_def config_fields(1)[OF assms(2)] div_mult_mod_eq ..
    then show ?thesis using assms(4)[OF j w] geometry_line[OF assms(1) j w] by auto
  qed
  then have "geometry c'"
    using assms(1,3) config_fields[OF assms(2)] by (simp add: geometry_def list_all_length)
  then show ?thesis using assms(2,4) by (simp add: fewer_def)
qed

lemma flush_fewer:
  assumes "geometry c"
  shows "fewer c (vc_flush c)"
proof (rule line_fewer[OF assms])
  fix j w
  assume b: "j < set_count c" "w \<le> m_sets c"
  have "j * (m_sets c + 1) + w < length (cache_mem c)"
    using position_less[OF b] assms by (simp add: geometry_def)
  then show "ln (vc_flush c) j w = ln c j w \<or> ln (vc_flush c) j w = (ln c j w)\<lparr>cl_valid := 0\<rparr>"
    by (simp add: ln_def vc_flush_def)
qed (simp_all add: config_def vc_flush_def)

text \<open>A snooped word.\<close>

lemma snoop_ways:
  assumes g: "geometry c" and lf: "m_new_linefetch_en c" and i: "unat idx < set_count c" and n: "n \<le> m_sets c + 1"
  shows "config (fold (snoop_way tag idx offset) [0..<n] c) = config c \<and>
    length (cache_mem (fold (snoop_way tag idx offset) [0..<n] c)) = length (cache_mem c) \<and>
    (\<forall>j < set_count c. \<forall>w \<le> m_sets c. ln (fold (snoop_way tag idx offset) [0..<n] c) j w =
       (if j = unat idx \<and> w < n \<and> cl_atag (ln c j w) = tag then (ln c j w)\<lparr>cl_valid := 0\<rparr> else ln c j w))"
  using n
proof (induction n)
  case (Suc n)
  define d where "d = fold (snoop_way tag idx offset) [0..<n] c"
  have n: "n \<le> m_sets c" using Suc.prems by simp
  have ih: "config d = config c" "length (cache_mem d) = length (cache_mem c)"
    "\<And>j w. j < set_count c \<Longrightarrow> w \<le> m_sets c \<Longrightarrow> ln d j w =
       (if j = unat idx \<and> w < n \<and> cl_atag (ln c j w) = tag then (ln c j w)\<lparr>cl_valid := 0\<rparr> else ln c j w)"
    using Suc.IH n unfolding d_def by simp_all
  note e = config_fields[OF ih(1)]
  have "fewer c d" by (rule line_fewer[OF g ih(1,2)]) (use ih(3) in auto)
  then have gd: "geometry d" by (simp add: fewer_def)
  have step: "fold (snoop_way tag idx offset) [0..<Suc n] c = snoop_way tag idx offset n d"
    by (simp add: d_def)
  have new: "ln (set_line idx n l d) j w = (if j = unat idx \<and> w = n then l else ln d j w)" if "w \<le> m_sets c" for l j w
    using ln_set_line[OF gd, of idx n w l j] i n that e by simp
  have here: "line_at d idx n = ln c (unat idx) n" using ih(3)[OF i n] by (simp add: line_at_ln)
  show ?case
  proof (cases "cl_atag (ln c (unat idx) n) = tag")
    case True
    then have "snoop_way tag idx offset n d = set_line idx n ((ln c (unat idx) n)\<lparr>cl_valid := 0\<rparr>) d"
      using lf e by (simp add: snoop_way_def Let_def here)
    then show ?thesis unfolding step using True ih new by (auto simp: less_Suc_eq)
  next
    case False
    then have "snoop_way tag idx offset n d = d"
      by (simp add: snoop_way_def Let_def here)
    then show ?thesis unfolding step using False ih by (auto simp: less_Suc_eq)
  qed
qed simp

lemma snoop_word_fewer:
  assumes g: "geometry c" and lf: "m_new_linefetch_en c"
  shows "fewer c (snoop_word a c)" and "gone (snoop_word a c) (line_no c a)"
proof -
  have i: "unat (get_idx c a) < set_count c" by (simp add: address_parts(2)[OF g])
  define d where "d = snoop_word a c"
  have sw: "config d = config c" "length (cache_mem d) = length (cache_mem c)"
    "\<And>j w. j < set_count c \<Longrightarrow> w \<le> m_sets c \<Longrightarrow> ln d j w =
       (if j = unat (get_idx c a) \<and> cl_atag (ln c j w) = get_tag c a then (ln c j w)\<lparr>cl_valid := 0\<rparr> else ln c j w)"
    using snoop_ways[OF g lf i order.refl, of "get_tag c a" "get_offset c a"]
    unfolding d_def snoop_word_def by (simp_all add: less_Suc_eq_le del: upt_Suc)
  note e = config_fields[OF sw(1)]
  show "fewer c (snoop_word a c)" unfolding d_def[symmetric] by (rule line_fewer[OF g sw(1,2)]) (use sw(3) in auto)
  show "gone (snoop_word a c) (line_no c a)"
    unfolding d_def[symmetric] gone_def e
  proof (intro allI impI)
    fix j w
    assume b: "j < set_count c" "w \<le> m_sets c" and v: "valid_line (ln d j w)"
    have ne: "\<not> (j = unat (get_idx c a) \<and> cl_atag (ln c j w) = get_tag c a)" and l: "ln d j w = ln c j w"
      using sw(3)[OF b] v by (auto split: if_splits)
    show "cached_no d j (ln d j w) \<noteq> line_no c a"
    proof
      assume "cached_no d j (ln d j w) = line_no c a"
      then have "cached_no c j (ln c j w) = line_no c a" unfolding l by (simp add: cached_no_def e)
      from cached_no_tag[OF g b(1) this] ne show False by blast
    qed
  qed
qed


section \<open>Snooping a range\<close>

lemma line_of_word:
  assumes "geometry c" and "4 dvd unat a" and "unat a \<le> x" and "x < unat a + 4"
  shows "x div line_bytes c = line_no c a"
proof -
  have "line_bytes c = 4 * 2 ^ (m_offset_bits c - 2)"
    using assms(1) by (auto simp: geometry_def)
  moreover have "x div 4 = unat a div 4" using assms(2-4) by (auto elim!: dvdE)
  ultimately show ?thesis unfolding line_no_def by (simp add: div_mult2_eq)
qed

text \<open>A range of words that ends below the top of the address space.\<close>

lemma snoop_loop_fewer:
  assumes "geometry c" and "m_new_linefetch_en c" and "4 dvd unat a" and "unat limit + 3 < 2 ^ 32"
  shows "\<exists>c'. snoop_loop a limit c = Some c' \<and> fewer c c' \<and>
    (\<forall>x. unat a \<le> x \<and> x < unat limit \<longrightarrow> gone c' (x div line_bytes c))"
  using assms(1-3)
proof (induction "unat limit - unat a" arbitrary: a c rule: less_induct)
  case less
  show ?case
  proof (cases "a < limit")
    case True
    then have lt: "unat a < unat limit" by (simp add: word_less_nat_alt)
    have nxt: "unat (a + 4) = unat a + 4" using lt assms(4) by (simp add: unat_word_ariths)
    define d where "d = snoop_word a c"
    have few: "fewer c d" and g: "gone d (line_no c a)"
      using snoop_word_fewer[OF less.prems(1,2)] unfolding d_def by blast+
    have cfg: "config d = config c" and gd: "geometry d" using few by (simp_all add: fewer_def)
    note e = config_fields[OF cfg]
    have "\<exists>c'. snoop_loop (a + 4) limit d = Some c' \<and> fewer d c' \<and>
        (\<forall>x. unat (a + 4) \<le> x \<and> x < unat limit \<longrightarrow> gone c' (x div line_bytes d))"
      by (rule less.hyps[OF _ gd]) (use lt nxt less.prems e in simp_all)
    then obtain c' where c': "snoop_loop (a + 4) limit d = Some c'" "fewer d c'"
      "\<And>x. unat a + 4 \<le> x \<Longrightarrow> x < unat limit \<Longrightarrow> gone c' (x div line_bytes c)"
      unfolding nxt e by blast
    have "gone c' (x div line_bytes c)" if "unat a \<le> x" "x < unat limit" for x
    proof (cases "x < unat a + 4")
      case True
      then show ?thesis
        using line_of_word[OF less.prems(1,3) that(1)] fewer_gone[OF c'(2) g] by (simp only:)
    qed (use c'(3) that in simp)
    then show ?thesis
      using True c'(1) fewer_trans[OF few c'(2)] by (subst snoop_loop.simps) (auto simp: d_def)
  next
    case False
    then have "snoop_loop a limit c = Some c" by (subst snoop_loop.simps) simp
    then show ?thesis using False fewer_refl[OF less.prems(1)] by (auto simp: word_less_nat_alt)
  qed
qed

text \<open>A write that touches no cached line.\<close>

lemma coherent_write_gone:
  assumes "geometry c" and "coherent c f"
    and "\<And>x. unat a \<le> x \<Longrightarrow> x < unat a + length d \<Longrightarrow> gone c (x div line_bytes c)"
  shows "coherent c (write_at a d f)"
  unfolding coherent_def
proof (intro allI impI)
  fix j w
  assume b: "j < set_count c" "w \<le> m_sets c" "valid_line (ln c j w)"
  let ?n = "cached_no c j (ln c j w)"
  have "write_at a d f (of_nat (?n * line_bytes c) + of_nat k) = f (of_nat (?n * line_bytes c) + of_nat k)"
    if k: "k < line_bytes c" for k
  proof -
    let ?x = "of_nat (?n * line_bytes c) + of_nat k :: u32"
    have "unat ?x = ?n * line_bytes c + k" by (rule line_address[OF assms(1) coherentD(1)[OF assms(2) b] k])
    then have "unat ?x div line_bytes c = ?n" using k by simp
    then have "gone c ?n" if "unat a \<le> unat ?x" "unat ?x < unat a + length d"
      using assms(3)[OF that] by (simp only:)
    moreover have "\<not> gone c ?n" using b unfolding gone_def by auto
    ultimately have "\<not> (unat a \<le> unat ?x \<and> unat ?x < unat a + length d)" by blast
    then show ?thesis unfolding write_at_def by (rule if_not_P)
  qed
  then have "bytes_at (write_at a d f) (of_nat (?n * line_bytes c)) (line_bytes c) =
      bytes_at f (of_nat (?n * line_bytes c)) (line_bytes c)"
    by (simp add: bytes_at_def)
  then show "?n < 2 ^ (m_tag_bits c + m_idx_bits c) \<and>
      cl_entry (ln c j w) = bytes_at (write_at a d f) (of_nat (?n * line_bytes c)) (line_bytes c) \<and>
      (\<forall>w' \<le> m_sets c. valid_line (ln c j w') \<and> cl_atag (ln c j w') = cl_atag (ln c j w) \<longrightarrow> w' = w)"
    using coherentD[OF assms(2) b] by simp
qed

lemma snoop_write_fit:
  assumes fit: "fit c f" and on: "check_mode c ccr AND 3 \<noteq> 0"
    and a: "4 dvd unat a" and top_of: "unat a + length d + 3 < 2 ^ 32"
  shows "\<exists>c'. snoop_invalidate ccr a (of_nat (length d)) c = Some c' \<and> fit c' (write_at a d f) \<and> config c' = config c"
proof -
  have f: "geometry c" "m_new_linefetch_en c" using fit by (simp_all add: fit_def)
  have len: "unat (a + of_nat (length d)) = unat a + length d"
    using top_of by (simp add: unat_word_ariths unat_of_nat)
  obtain c' where c': "snoop_loop a (a + of_nat (length d)) c = Some c'" "fewer c c'"
    "\<And>x. unat a \<le> x \<Longrightarrow> x < unat a + length d \<Longrightarrow> gone c' (x div line_bytes c)"
    using snoop_loop_fewer[OF f a, of "a + of_nat (length d)"] top_of unfolding len by auto
  have cfg: "config c' = config c" using c'(2) by (simp add: fewer_def)
  have "fit c' f" by (rule fewer_fit[OF fit c'(2)])
  moreover from this have "coherent c' (write_at a d f)"
    using c'(3) config_fields[OF cfg] by (intro coherent_write_gone) (simp_all add: fit_def)
  ultimately show ?thesis using c'(1) on cfg by (simp add: snoop_invalidate_def fit_def)
qed

section \<open>A new cache\<close>

lemma log2_floor_power: "log2_floor (2 ^ k) = k"
  by (induction k) (simp_all add: log2_floor.simps)

lemma log2_floor_lines: "log2_floor 4 = 2" "log2_floor 8 = 3" "log2_floor 16 = 4" "log2_floor 32 = 5"
  using log2_floor_power[of 2] log2_floor_power[of 3] log2_floor_power[of 4] log2_floor_power[of 5] by simp_all

text \<open>What the constructor leaves, when it does not end the simulation.\<close>

lemma vectorcache_init_fields:
  assumes "vectorcache_init kind fresh mmu_en burst_en linefetch sets (2 ^ k) setlock linesize repl lram lramstart lramsize = Some c"
  shows "linesize = 4 \<or> linesize = 8" and "k \<le> 8" and "1 \<le> sets" and "sets \<le> 4" and "vc_kind c = kind" and "m_new_linefetch_en c = linefetch"
    and "m_sets c = sets - 1" and "m_linesize c = (if linesize = 4 then 2 else 3)" and "m_offset_bits c = (if linesize = 4 then 4 else 5)"
    and "m_idx_bits c = k + 8 - m_linesize c" and "m_tag_bits c = 32 - m_idx_bits c - m_offset_bits c"
    and "m_repl c = 2 \<longrightarrow> sets = 2"
    and "cache_mem c = map (\<lambda>i. \<lparr>cl_valid = 0, cl_atag = 0, cl_lrr = 0, cl_lru = 0, cl_lock = 0, cl_entry = fresh i\<rparr>)
      [0..<2 ^ k * 256 div linesize * sets]"
proof -
  have k: "2 ^ k \<le> (256 :: nat) \<longleftrightarrow> k \<le> 8"
    using power_increasing_iff[of "2 :: nat" k 8] by simp
  show "linesize = 4 \<or> linesize = 8" and "k \<le> 8" and "1 \<le> sets" and "sets \<le> 4" and "vc_kind c = kind" and "m_new_linefetch_en c = linefetch"
    "m_sets c = sets - 1" "m_linesize c = (if linesize = 4 then 2 else 3)" "m_offset_bits c = (if linesize = 4 then 4 else 5)"
    "m_idx_bits c = k + 8 - m_linesize c" "m_tag_bits c = 32 - m_idx_bits c - m_offset_bits c" "m_repl c = 2 \<longrightarrow> sets = 2"
    "cache_mem c = map (\<lambda>i. \<lparr>cl_valid = 0, cl_atag = 0, cl_lrr = 0, cl_lru = 0, cl_lock = 0, cl_entry = fresh i\<rparr>)
      [0..<2 ^ k * 256 div linesize * sets]"
    using assms by (auto simp: vectorcache_init_def Let_def log2_floor_power log2_floor_lines k split: if_splits)
qed

lemma new_cache:
  assumes "vectorcache_init kind fresh mmu_en burst_en True sets (2 ^ k) setlock linesize repl lram lramstart lramsize = Some c"
    and "\<And>i. length (fresh i) = 4 * linesize"
  shows "fit c f"
proof -
  note c = vectorcache_init_fields[OF assms(1)]
  have count: "2 ^ k * 256 div linesize = (2 ^ m_idx_bits c :: nat)"
  proof -
    have "(2 :: nat) ^ k * 256 = 2 ^ m_idx_bits c * linesize"
      using c(1) unfolding c(10) c(8) by (auto simp flip: power_add) (simp_all add: power_add)
    then show ?thesis using c(1) by auto
  qed
  have sets: "m_sets c + 1 = sets" using c(3,7) by simp
  have len: "length (cache_mem c) = 2 ^ m_idx_bits c * (m_sets c + 1)" by (simp only: c(13) count sets length_map length_upt diff_zero)
  have line: "ln c j w = \<lparr>cl_valid = 0, cl_atag = 0, cl_lrr = 0, cl_lru = 0, cl_lock = 0, cl_entry = fresh (j * (m_sets c + 1) + w)\<rparr>"
    if "j < set_count c" "w \<le> m_sets c" for j w
  proof -
    have "j * (m_sets c + 1) + w < set_count c * (m_sets c + 1)"
    proof -
      have "(j + 1) * (m_sets c + 1) \<le> set_count c * (m_sets c + 1)" using that(1) by (intro mult_le_mono1) simp
      then show ?thesis using that(2) by simp
    qed
    then show ?thesis using len unfolding ln_def by (simp add: c(13))
  qed
  have "2 ^ m_offset_bits c = 4 * linesize" using c(1,9) by auto
  then have "geometry c"
    unfolding geometry_def using c(1-12) len assms(2) by (auto simp: c(13) list_all_iff)
  moreover have "unlocked c" by (simp add: unlocked_def line)
  moreover have "lrr_free c" if "m_sets c = 1" using that by (auto simp: lrr_free_def line intro: exI[of _ 0])
  moreover have "coherent c f" by (simp add: coherent_def line)
  ultimately show ?thesis using c(6,7,12) by (simp add: fit_def selectable_def)
qed



end
