(* ===== verification/Mmu.thy ===== *)
theory Mmu
  imports Vectorcache Bus_Decoder
begin

text \<open>
  The memory management unit of the LEON3 (src/gaisler/leon3/mmucache/mmu.cpp) and the
  adaptor that puts it between a cache and the bus (tlb_adaptor.h): the walk through the
  page tables, the protection check, the fault registers, the TLB bookkeeping and the
  diagnostic accesses.

  The bus is a \<^verbatim>\<open>mem_if\<close> that depends on the lock flag of the access.  \<^verbatim>\<open>junk\<close> gives the
  bytes of a buffer that the code reads without having written it.  An exception the MMU
  raises in the processor (\<^verbatim>\<open>trigger_exception\<close>) is kept in the state of the adaptor.
\<close>

abbreviation junk_bytes :: "(nat \<Rightarrow> u8) \<Rightarrow> nat \<Rightarrow> u8 list" where
  "junk_bytes junk n \<equiv> map junk [0..<n]"

section \<open>State\<close>

record pte_context =
  pc_tlb_no :: u32
  pc_context :: u32
  pc_pte :: u32
  pc_lru :: u64
  pc_page_size :: u64

type_synonym tlb = "pte_context omap"

record mmu =
  m_itlbnum :: u32
  m_dtlbnum :: u32
  m_tlb_type :: u32
  m_tlb_rep :: u32
  m_vtag_width :: nat
  mmu_pseudo_rand :: u32
  MMU_CONTROL_REG :: u32
  MMU_CONTEXT_TABLE_POINTER_REG :: u32
  MMU_CONTEXT_REG :: u32
  MMU_FAULT_STATUS_REG :: u32
  MMU_FAULT_ADDRESS_REG :: u32
  m_itlb :: tlb
  m_dtlb :: tlb

text \<open>With a combined TLB the data TLB is the instruction TLB.\<close>

definition get_tlb :: "bool \<Rightarrow> mmu \<Rightarrow> tlb" where
  "get_tlb data u = (if data \<and> m_tlb_type u = 0 then m_dtlb u else m_itlb u)"

definition set_tlb :: "bool \<Rightarrow> tlb \<Rightarrow> mmu \<Rightarrow> mmu" where
  "set_tlb data t u = (if data \<and> m_tlb_type u = 0 then u\<lparr>m_dtlb := t\<rparr> else u\<lparr>m_itlb := t\<rparr>)"

definition tlb_num :: "bool \<Rightarrow> mmu \<Rightarrow> u32" where
  "tlb_num data u = (if data \<and> m_tlb_type u = 0 then m_dtlbnum u else m_itlbnum u)"

text \<open>The constructor; its assertions end the simulation.\<close>

definition mmu_init :: "u32 \<Rightarrow> u32 \<Rightarrow> u32 \<Rightarrow> u32 \<Rightarrow> u32 \<Rightarrow> mmu option" where
  "mmu_init itlbnum dtlbnum tlb_type tlb_rep mmupgsz =
     (if 2 \<le> itlbnum \<and> itlbnum \<le> 32 \<and> 2 \<le> dtlbnum \<and> dtlbnum \<le> 32 \<and> mmupgsz \<le> 3
      then Some \<lparr>m_itlbnum = itlbnum, m_dtlbnum = dtlbnum, m_tlb_type = tlb_type, m_tlb_rep = tlb_rep,
        m_vtag_width = 20 - unat mmupgsz, mmu_pseudo_rand = 0,
        MMU_CONTROL_REG = push_bit 24 1 OR push_bit 21 (of_nat (log2_floor (unat itlbnum))) OR
          push_bit 18 (of_nat (log2_floor (unat dtlbnum))) OR (if tlb_type = 0 then push_bit 14 1 else 0) OR
          push_bit 16 mmupgsz,
        MMU_CONTEXT_TABLE_POINTER_REG = 0, MMU_CONTEXT_REG = 0, MMU_FAULT_STATUS_REG = 0, MMU_FAULT_ADDRESS_REG = 0,
        m_itlb = [], m_dtlb = []\<rparr>
      else None)"

section \<open>The table walk\<close>

text \<open>A page descriptor is read from the bus and brought to the host's byte order.\<close>

definition read_pde :: "(bool \<Rightarrow> 'w mem_if) \<Rightarrow> bool \<Rightarrow> u32 \<Rightarrow> 'w \<Rightarrow> (u32 \<times> 'w) option" where
  "read_pde bus is_dbg pde_ptr w =
     map_option (\<lambda>(d, _, w). (swap_Endianess (word_of_bytes d), w)) (if_read (bus False) pde_ptr 8 4 is_dbg w)"

definition access_table :: "u32 list list" where
  "access_table =
     [[0, 0, 0, 0, 2, 0, 3, 3],
      [0, 0, 0, 0, 2, 0, 0, 0],
      [2, 2, 0, 0, 0, 2, 3, 3],
      [2, 2, 0, 0, 0, 2, 0, 0],
      [2, 0, 2, 0, 2, 2, 3, 3],
      [2, 0, 2, 0, 2, 0, 2, 0],
      [2, 2, 2, 0, 2, 2, 3, 3],
      [2, 2, 2, 0, 2, 2, 2, 0]]"

definition is_instruction_access :: "u32 \<Rightarrow> bool" where
  "is_instruction_access asi = (asi AND 2 = 0)"

definition access_index :: "u32 \<Rightarrow> bool \<Rightarrow> u32" where
  "access_index asi is_write =
     push_bit 2 (int_of_bool is_write) OR push_bit 1 (int_of_bool (is_instruction_access asi)) OR
       int_of_bool (\<not> asi AND 1 = 0)"

text \<open>The walk: the fault (0 if there is none), the page size and the last descriptor read.\<close>

record walk =
  wk_error :: u32
  wk_page_size :: u64
  wk_pde :: u32

definition fault :: "u32 \<Rightarrow> u32 \<Rightarrow> u32 \<Rightarrow> walk" where
  "fault level ft pde = \<lparr>wk_error = push_bit 8 level OR push_bit 2 ft, wk_page_size = 0, wk_pde = pde\<rparr>"

definition check_access :: "u32 \<Rightarrow> bool \<Rightarrow> u64 \<Rightarrow> u32 \<Rightarrow> walk" where
  "check_access asi is_write page_size pde =
     \<lparr>wk_error = push_bit 2 (access_table ! unat (access_index asi is_write) ! unat (drop_bit 2 pde AND 7)),
      wk_page_size = page_size, wk_pde = pde\<rparr>"

definition get_physical_address ::
    "(bool \<Rightarrow> 'w mem_if) \<Rightarrow> mmu \<Rightarrow> u32 \<Rightarrow> u32 \<Rightarrow> bool \<Rightarrow> bool \<Rightarrow> 'w \<Rightarrow> (walk \<times> 'w) option" where
  "get_physical_address bus u vaddr asi is_dbg is_write w =
     (let vpn = drop_bit (32 - m_vtag_width u) vaddr;
          idx1 = drop_bit 12 vpn AND 0xff;
          idx2 = drop_bit 6 vpn AND 0x3f;
          idx3 = vpn AND 0x3f;
          next_table = (\<lambda>pde idx. push_bit 4 (pde AND NOT 3) + push_bit 2 idx)
      in case read_pde bus is_dbg (push_bit 4 (MMU_CONTEXT_TABLE_POINTER_REG u) + push_bit 2 (MMU_CONTEXT_REG u)) w of
           None \<Rightarrow> None
         | Some (pde, w) \<Rightarrow>
      if pde AND 3 = 0 then Some (fault 0 1 pde, w)
      else if pde AND 3 \<noteq> 1 then Some (fault 0 4 pde, w)
      else case read_pde bus is_dbg (next_table pde idx1) w of
           None \<Rightarrow> None
         | Some (pde, w) \<Rightarrow>
      if pde AND 3 = 0 then Some (fault 1 1 pde, w)
      else if pde AND 3 = 3 then Some (fault 1 4 pde, w)
      else if pde AND 3 = 2 then Some (check_access asi is_write 0x1000000 pde, w)
      else case read_pde bus is_dbg (next_table pde idx2) w of
           None \<Rightarrow> None
         | Some (pde, w) \<Rightarrow>
      if pde AND 3 = 0 then Some (fault 2 1 pde, w)
      else if pde AND 3 = 3 then Some (fault 2 4 pde, w)
      else if pde AND 3 = 2 then Some (check_access asi is_write 0x40000 pde, w)
      else case read_pde bus is_dbg (next_table pde idx3) w of
           None \<Rightarrow> None
         | Some (pde, w) \<Rightarrow>
      if pde AND 3 = 0 then Some (fault 3 1 pde, w)
      else if pde AND 3 \<noteq> 2 then Some (fault 3 4 pde, w)
      else Some (check_access asi is_write 0x1000 pde, w))"

text \<open>The physical address: the shift of the page number is a 32-bit shift.\<close>

definition physical :: "u32 \<Rightarrow> u64 \<Rightarrow> u32 \<Rightarrow> u64" where
  "physical pde page_size addr =
     (ucast (push_bit 4 (pde AND NOT 0xFF)) OR (ucast addr AND (page_size - 1))) AND mask 36"

section \<open>The TLB\<close>

text \<open>Assignment through \<^verbatim>\<open>operator[]\<close>.\<close>

definition omap_assign :: "u32 \<Rightarrow> 'v \<Rightarrow> 'v omap \<Rightarrow> 'v omap" where
  "omap_assign k v m = omap_insert k v (filter (\<lambda>e. fst e \<noteq> k) m)"

definition omap_find :: "u32 \<Rightarrow> 'v omap \<Rightarrow> 'v option" where
  "omap_find k m = map_of m k"

text \<open>The entry with the smallest counter below the start value, the first of equals.\<close>

fun lru_selector :: "tlb \<Rightarrow> u64 \<Rightarrow> (u32 \<times> pte_context) option \<Rightarrow> (u32 \<times> pte_context) option" where
  "lru_selector [] min_lru sel = sel"
| "lru_selector (e # t) min_lru sel =
     (if pc_lru (snd e) < min_lru then lru_selector t (pc_lru (snd e)) (Some e) else lru_selector t min_lru sel)"

text \<open>The number of the freed entry and the remaining TLB.  The random choice compares a
  count that stays 0, and its pseudo random number is never advanced.\<close>

definition tlb_remove :: "mmu \<Rightarrow> tlb \<Rightarrow> u32 \<Rightarrow> (u32 \<times> tlb) option" where
  "tlb_remove u t tlb_size =
     (if m_tlb_rep u = 0
      then map_option (\<lambda>e. (pc_tlb_no (snd e), filter (\<lambda>e'. fst e' \<noteq> fst e) t)) (lru_selector t (NOT 0) None)
      else let tlb_select = mmu_pseudo_rand u mod (tlb_size + 1)
           in Some (tlb_select, if tlb_select = 0 then drop 1 t else t))"

definition tlb_lru_update :: "u32 \<Rightarrow> tlb \<Rightarrow> tlb" where
  "tlb_lru_update vpn t =
     map (\<lambda>(k, e). (k, if k \<noteq> vpn then (if pc_lru e \<noteq> 0 then e\<lparr>pc_lru := pc_lru e - 1\<rparr> else e)
                       else e\<lparr>pc_lru := NOT 0 - 1\<rparr>)) t"

definition tlb_flush :: "mmu \<Rightarrow> mmu" where
  "tlb_flush u = u\<lparr>m_itlb := [], m_dtlb := []\<rparr>"

section \<open>Translation\<close>

text \<open>The fault registers after a fault.\<close>

definition record_fault :: "u32 \<Rightarrow> u32 \<Rightarrow> bool \<Rightarrow> u32 \<Rightarrow> mmu \<Rightarrow> mmu" where
  "record_fault addr asi is_write error_code u =
     (let fsr = (if MMU_FAULT_STATUS_REG u = 0 then 1 else MMU_FAULT_STATUS_REG u);
          fsr = fsr OR push_bit 5 (access_index asi is_write);
          fsr = fsr OR error_code;
          fsr = (if \<not> is_instruction_access asi then fsr OR 2 else fsr)
      in u\<lparr>MMU_FAULT_STATUS_REG := fsr, MMU_FAULT_ADDRESS_REG := addr\<rparr>)"

text \<open>The outcome of a look-up: the physical address and its cacheability unless it failed,
  the MMU, the bus, and the exception raised in the processor.\<close>

record 'w lookup =
  lk_result :: "(u64 \<times> bool) option"
  lk_mmu :: mmu
  lk_bus :: 'w
  lk_exception :: "u32 option"

definition tlb_enter :: "bool \<Rightarrow> u32 \<Rightarrow> walk \<Rightarrow> mmu \<Rightarrow> mmu option" where
  "tlb_enter data vpn wk u =
     (let t = get_tlb data u; tlb_size = tlb_num data u
      in map_option (\<lambda>(no, t). set_tlb data (omap_assign vpn
             \<lparr>pc_tlb_no = no, pc_context = MMU_CONTEXT_REG u, pc_pte = wk_pde wk, pc_lru = NOT 0 - 1,
              pc_page_size = wk_page_size wk\<rparr> t) u)
           (if length t = unat tlb_size then tlb_remove u t tlb_size else Some (of_nat (length t), t)))"

definition tlb_lookup ::
    "(bool \<Rightarrow> 'w mem_if) \<Rightarrow> bool \<Rightarrow> u32 \<Rightarrow> u32 \<Rightarrow> bool \<Rightarrow> bool \<Rightarrow> mmu \<Rightarrow> 'w \<Rightarrow> 'w lookup option" where
  "tlb_lookup bus data addr asi is_dbg is_write u w =
     (case get_physical_address bus u addr asi is_dbg is_write w of
        None \<Rightarrow> None
      | Some (wk, w) \<Rightarrow>
          let u' = (if wk_error wk \<noteq> 0 then record_fault addr asi is_write (wk_error wk) u else u)
          in if wk_error wk \<noteq> 0 \<and> (MMU_CONTROL_REG u' AND 2 = 0 \<or> asi = 9)
             then Some \<lparr>lk_result = None, lk_mmu = u', lk_bus = w,
                        lk_exception = Some (if is_instruction_access asi then 5 else 19)\<rparr>
             else if wk_pde wk AND 3 = 2
             then map_option (\<lambda>u. \<lparr>lk_result = Some (physical (wk_pde wk) (wk_page_size wk) addr, wk_pde wk AND 0x80 \<noteq> 0),
                        lk_mmu = u, lk_bus = w, lk_exception = None\<rparr>)
                    (tlb_enter data (drop_bit (32 - m_vtag_width u') addr) wk u')
             else Some \<lparr>lk_result = None, lk_mmu = u', lk_bus = w, lk_exception = None\<rparr>)"

section \<open>Registers and diagnostics\<close>

definition read_mcr :: "mmu \<Rightarrow> u32" where
  "read_mcr u = swap_Endianess (MMU_CONTROL_REG u)"

definition write_mcr :: "u32 \<Rightarrow> mmu \<Rightarrow> mmu" where
  "write_mcr data u =
     u\<lparr>MMU_CONTROL_REG := (MMU_CONTROL_REG u AND NOT 0x8003) OR (swap_Endianess data AND 0x8003)\<rparr>"

definition read_mctpr :: "mmu \<Rightarrow> u32" where
  "read_mctpr u = swap_Endianess (MMU_CONTEXT_TABLE_POINTER_REG u)"

definition write_mctpr :: "u32 \<Rightarrow> mmu \<Rightarrow> mmu" where
  "write_mctpr data u = u\<lparr>MMU_CONTEXT_TABLE_POINTER_REG := swap_Endianess data AND NOT 3\<rparr>"

definition read_mctxr :: "mmu \<Rightarrow> u32" where
  "read_mctxr u = swap_Endianess (MMU_CONTEXT_REG u)"

definition write_mctxr :: "u32 \<Rightarrow> mmu \<Rightarrow> mmu" where
  "write_mctxr data u = u\<lparr>MMU_CONTEXT_REG := swap_Endianess data\<rparr>"

definition read_mfsr :: "mmu \<Rightarrow> u32 \<times> mmu" where
  "read_mfsr u = (swap_Endianess (MMU_FAULT_STATUS_REG u), u\<lparr>MMU_FAULT_STATUS_REG := 0\<rparr>)"

definition read_mfar :: "mmu \<Rightarrow> u32" where
  "read_mfar u = swap_Endianess (MMU_FAULT_ADDRESS_REG u)"

definition diag_read_tlb :: "bool \<Rightarrow> u32 \<Rightarrow> u32 \<Rightarrow> mmu \<Rightarrow> u32" where
  "diag_read_tlb data junk addr u =
     swap_Endianess
       (if addr AND 3 = 3
        then (case omap_find (drop_bit (32 - m_vtag_width u) addr) (get_tlb data u) of
                Some e \<Rightarrow> pc_pte e
              | None \<Rightarrow> 0)
        else junk)"

section \<open>The adaptor\<close>

text \<open>The state behind an adaptor: the MMU, the bus and the last exception raised.\<close>

record 'w mmu_world =
  mw_mmu :: mmu
  mw_bus :: 'w
  mw_exception :: "u32 option"

definition mw_update :: "'w lookup \<Rightarrow> 'w mmu_world \<Rightarrow> 'w mmu_world" where
  "mw_update lk s =
     \<lparr>mw_mmu = lk_mmu lk, mw_bus = lk_bus lk,
      mw_exception = (case lk_exception lk of None \<Rightarrow> mw_exception s | Some e \<Rightarrow> Some e)\<rparr>"

text \<open>A read whose translation fails leaves its buffer as it was.\<close>

definition tlb_mem_read ::
    "(nat \<Rightarrow> u8) \<Rightarrow> (bool \<Rightarrow> 'w mem_if) \<Rightarrow> bool \<Rightarrow> bool \<Rightarrow> u32 \<Rightarrow> u32 \<Rightarrow> u32 \<Rightarrow> bool \<Rightarrow> 'w mmu_world
      \<Rightarrow> (u8 list \<times> bool \<times> 'w mmu_world) option" where
  "tlb_mem_read junk bus data is_lock addr asi len is_dbg s =
     (let forward = (\<lambda>paddr s. map_option (\<lambda>(d, cacheable, w). (d, cacheable, s\<lparr>mw_bus := w\<rparr>))
                       (if_read (bus is_lock) paddr asi len is_dbg (mw_bus s)))
      in if MMU_CONTROL_REG (mw_mmu s) AND 1 \<noteq> 0
         then (case tlb_lookup bus data addr asi is_dbg False (mw_mmu s) (mw_bus s) of
                 None \<Rightarrow> None
               | Some lk \<Rightarrow>
                   (case lk_result lk of
                      None \<Rightarrow> Some (junk_bytes junk (unat len), False, mw_update lk s)
                    | Some (paddr, _) \<Rightarrow> forward (ucast paddr) (mw_update lk s)))
         else forward addr s)"

text \<open>A write passes its last two arguments on in the wrong order: the access is locked when
  the page is cacheable.  Without translation the flag keeps the value the caller gave it,
  which is true for every data access.\<close>

definition tlb_mem_write ::
    "(bool \<Rightarrow> 'w mem_if) \<Rightarrow> bool \<Rightarrow> u32 \<Rightarrow> u32 \<Rightarrow> u8 list \<Rightarrow> bool \<Rightarrow> 'w mmu_world \<Rightarrow> 'w mmu_world option" where
  "tlb_mem_write bus data addr asi d is_dbg s =
     (let forward = (\<lambda>paddr is_lock s. map_option (\<lambda>w. s\<lparr>mw_bus := w\<rparr>)
                       (if_write (bus is_lock) paddr asi d is_dbg (mw_bus s)))
      in if MMU_CONTROL_REG (mw_mmu s) AND 1 \<noteq> 0
         then (case tlb_lookup bus data addr asi is_dbg True (mw_mmu s) (mw_bus s) of
                 None \<Rightarrow> None
               | Some lk \<Rightarrow>
                   (case lk_result lk of
                      None \<Rightarrow> Some (mw_update lk s)
                    | Some (paddr, cacheable) \<Rightarrow> forward (ucast paddr) cacheable (mw_update lk s)))
         else forward addr True s)"

definition tlb_adaptor :: "(nat \<Rightarrow> u8) \<Rightarrow> (bool \<Rightarrow> 'w mem_if) \<Rightarrow> bool \<Rightarrow> bool \<Rightarrow> 'w mmu_world mem_if" where
  "tlb_adaptor junk bus data is_lock =
     \<lparr>if_read = tlb_mem_read junk bus data is_lock, if_write = tlb_mem_write bus data\<rparr>"

end
