(* ===== verification/Mmu_Cache.thy ===== *)
theory Mmu_Cache
  imports Mmu Ahbctrl
begin

text \<open>
  The memory sub-system of the LEON3 processor (src/gaisler/leon3/mmucache/mmu_cache_base.cpp)
  with its scratchpads (localram.cpp) and the dummy cache (nocache.cpp): instruction and data
  accesses by address space, the cache control register, snooping, and the AHB master.

  A component that may be missing is an \<^verbatim>\<open>option\<close>; where the code follows a null pointer the
  result is \<^verbatim>\<open>None\<close>.  The write buffer and the thread that serialises the bus accesses keep
  their order, so an access is performed at once.  \<^verbatim>\<open>ahb\<close> is the master socket, without and
  with the debug transport.
\<close>

section \<open>Scratchpad\<close>

record localram =
  lr_size :: u32
  lr_start :: u32
  lr_pad :: "u8 list"

definition localram_init :: "u32 \<Rightarrow> u32 \<Rightarrow> u8 list \<Rightarrow> localram option" where
  "localram_init lrsize lrstart fresh =
     (if push_bit 10 lrsize \<le> 524288
      then Some \<lparr>lr_size = push_bit 10 lrsize, lr_start = push_bit 24 lrstart, lr_pad = fresh\<rparr> else None)"

text \<open>The byte of the scratchpad that an access touches: the range check only reports.\<close>

definition pad_index :: "localram \<Rightarrow> u32 \<Rightarrow> nat \<Rightarrow> nat" where
  "pad_index r addr i = unat (push_bit 2 (drop_bit 2 (addr - lr_start r)) + ((addr AND 3) + of_nat i))"

definition localram_read :: "u32 \<Rightarrow> u32 \<Rightarrow> localram \<Rightarrow> u8 list option" where
  "localram_read addr len r =
     (if list_all (\<lambda>i. pad_index r addr i < length (lr_pad r)) [0..<unat len]
      then Some (map (\<lambda>i. lr_pad r ! pad_index r addr i) [0..<unat len]) else None)"

definition localram_write :: "u32 \<Rightarrow> u8 list \<Rightarrow> localram \<Rightarrow> localram option" where
  "localram_write addr d r =
     (if list_all (\<lambda>i. pad_index r addr i < length (lr_pad r)) [0..<length d]
      then Some (r\<lparr>lr_pad := fold (\<lambda>i p. p[pad_index r addr i := d ! i]) [0..<length d] (lr_pad r)\<rparr>) else None)"

section \<open>The AHB master\<close>

type_synonym 'w master = "bool \<Rightarrow> payload \<Rightarrow> 'w \<Rightarrow> (payload \<times> 'w) option"

definition master_payload :: "tlm_command \<Rightarrow> u32 \<Rightarrow> u8 list \<Rightarrow> bool \<Rightarrow> payload" where
  "master_payload cmd addr d locked =
     \<lparr>p_command = cmd, p_address = ucast addr, p_data = d, p_response = Incomplete_response, p_dmi = False,
      p_cacheable = False, p_lock = locked, p_erase = False\<rparr>"

text \<open>A read gives the bytes and whether they may be cached: the slave says so, unless the
  fixed cacheability mask of the 16 segments forbids it.\<close>

definition base_mem_read ::
    "(nat \<Rightarrow> u8) \<Rightarrow> 'w master \<Rightarrow> u32 \<Rightarrow> bool \<Rightarrow> u32 \<Rightarrow> u32 \<Rightarrow> u32 \<Rightarrow> bool \<Rightarrow> 'w \<Rightarrow> (u8 list \<times> bool \<times> 'w) option" where
  "base_mem_read junk ahb cached locked addr asi len is_dbg w =
     map_option (\<lambda>(gp, w). (p_data gp,
         is_dbg \<or> (p_cacheable gp \<and> (cached = 0 \<or> cached AND push_bit (unat (drop_bit 28 addr)) 1 \<noteq> 0)), w))
       (ahb is_dbg (master_payload Read_command addr (junk_bytes junk (unat len)) (locked \<and> \<not> is_dbg)) w)"

definition base_mem_write ::
    "'w master \<Rightarrow> bool \<Rightarrow> u32 \<Rightarrow> u32 \<Rightarrow> u8 list \<Rightarrow> bool \<Rightarrow> 'w \<Rightarrow> 'w option" where
  "base_mem_write ahb locked addr asi d is_dbg w =
     map_option snd (ahb is_dbg (master_payload Write_command addr d (locked \<and> \<not> is_dbg)) w)"

definition bus_if :: "(nat \<Rightarrow> u8) \<Rightarrow> 'w master \<Rightarrow> u32 \<Rightarrow> bool \<Rightarrow> 'w mem_if" where
  "bus_if junk ahb cached locked =
     \<lparr>if_read = base_mem_read junk ahb cached locked, if_write = base_mem_write ahb locked\<rparr>"

section \<open>The level behind the caches\<close>

text \<open>The MMU if there is one, and the bus.\<close>

record 'w below =
  bl_mmu :: "mmu option"
  bl_bus :: 'w
  bl_exception :: "u32 option"

definition to_world :: "mmu \<Rightarrow> 'w below \<Rightarrow> 'w mmu_world" where
  "to_world u b = \<lparr>mw_mmu = u, mw_bus = bl_bus b, mw_exception = bl_exception b\<rparr>"

definition of_world :: "'w mmu_world \<Rightarrow> 'w below" where
  "of_world s = \<lparr>bl_mmu = Some (mw_mmu s), bl_bus = mw_bus s, bl_exception = mw_exception s\<rparr>"

definition next_read ::
    "(nat \<Rightarrow> u8) \<Rightarrow> (bool \<Rightarrow> 'w mem_if) \<Rightarrow> bool \<Rightarrow> bool \<Rightarrow> u32 \<Rightarrow> u32 \<Rightarrow> u32 \<Rightarrow> bool \<Rightarrow> 'w below
      \<Rightarrow> (u8 list \<times> bool \<times> 'w below) option" where
  "next_read junk bus data locked addr asi len is_dbg b =
     (case bl_mmu b of
        None \<Rightarrow> map_option (\<lambda>(d, cacheable, w). (d, cacheable, b\<lparr>bl_bus := w\<rparr>))
                  (if_read (bus locked) addr asi len is_dbg (bl_bus b))
      | Some u \<Rightarrow> map_option (\<lambda>(d, cacheable, s). (d, cacheable, of_world s))
                    (if_read (tlb_adaptor junk bus data locked) addr asi len is_dbg (to_world u b)))"

definition next_write ::
    "(nat \<Rightarrow> u8) \<Rightarrow> (bool \<Rightarrow> 'w mem_if) \<Rightarrow> bool \<Rightarrow> bool \<Rightarrow> u32 \<Rightarrow> u32 \<Rightarrow> u8 list \<Rightarrow> bool \<Rightarrow> 'w below
      \<Rightarrow> 'w below option" where
  "next_write junk bus data locked addr asi d is_dbg b =
     (case bl_mmu b of
        None \<Rightarrow> map_option (\<lambda>w. b\<lparr>bl_bus := w\<rparr>) (if_write (bus locked) addr asi d is_dbg (bl_bus b))
      | Some u \<Rightarrow> map_option of_world
                    (if_write (tlb_adaptor junk bus data locked) addr asi d is_dbg (to_world u b)))"

definition next_level :: "(nat \<Rightarrow> u8) \<Rightarrow> (bool \<Rightarrow> 'w mem_if) \<Rightarrow> bool \<Rightarrow> bool \<Rightarrow> 'w below mem_if" where
  "next_level junk bus data locked =
     \<lparr>if_read = next_read junk bus data locked, if_write = next_write junk bus data locked\<rparr>"

section \<open>State\<close>

record 'w mmu_cache =
  mc_icache :: "vectorcache option"
  mc_dcache :: "vectorcache option"
  mc_ilocalram :: "localram option"
  mc_dlocalram :: "localram option"
  m_dcen :: bool
  m_dsnoop :: bool
  m_ilram :: bool
  m_ilramstart :: u32
  m_dlram :: bool
  m_dlramstart :: u32
  m_cached :: u32
  m_mmu_en :: bool
  m_master_id :: u32
  CACHE_CONTROL_REG :: u32
  mc_below :: "'w below"

text \<open>A cache operation; a missing cache passes reads and writes on.\<close>

definition cache_read ::
    "'m mem_if \<Rightarrow> u32 \<Rightarrow> u32 \<Rightarrow> u32 \<Rightarrow> u32 \<Rightarrow> bool \<Rightarrow> vectorcache option \<Rightarrow> 'm
      \<Rightarrow> (u8 list \<times> vectorcache option \<times> 'm) option" where
  "cache_read mif ccr addr asi len is_dbg cache b =
     (case cache of
        None \<Rightarrow> map_option (\<lambda>(d, _, b). (d, None, b)) (if_read mif addr asi len is_dbg b)
      | Some c \<Rightarrow> map_option (\<lambda>(d, c, b). (d, Some c, b)) (vc_mem_read mif ccr addr asi len is_dbg c b))"

definition cache_write ::
    "'m mem_if \<Rightarrow> u32 \<Rightarrow> u32 \<Rightarrow> u32 \<Rightarrow> u8 list \<Rightarrow> bool \<Rightarrow> vectorcache option \<Rightarrow> 'm \<Rightarrow> (vectorcache option \<times> 'm) option" where
  "cache_write mif ccr addr asi d is_dbg cache b =
     (case cache of
        None \<Rightarrow> map_option (\<lambda>b. (None, b)) (if_write mif addr asi d is_dbg b)
      | Some c \<Rightarrow> map_option (\<lambda>(c, b). (Some c, b)) (vc_mem_write mif ccr addr asi d is_dbg c b))"

abbreviation cache_flush :: "vectorcache option \<Rightarrow> vectorcache option" where
  "cache_flush \<equiv> map_option vc_flush"

section \<open>Instruction accesses\<close>

definition in_segment :: "u32 \<Rightarrow> u32 \<Rightarrow> bool" where
  "in_segment addr start = (drop_bit 24 addr AND 0xff = start)"

definition exec_instr ::
    "(nat \<Rightarrow> u8) \<Rightarrow> 'w master \<Rightarrow> u32 \<Rightarrow> u32 \<Rightarrow> bool \<Rightarrow> 'w mmu_cache \<Rightarrow> (u8 list \<times> 'w mmu_cache) option" where
  "exec_instr junk ahb addr asi is_dbg s =
     (if m_ilram s \<and> in_segment addr (m_ilramstart s)
      then (case mc_ilocalram s of
              None \<Rightarrow> None
            | Some r \<Rightarrow> map_option (\<lambda>d. (d, s)) (localram_read addr 4 r))
      else map_option (\<lambda>(d, c, b). (d, s\<lparr>mc_icache := c, mc_below := b\<rparr>))
             (cache_read (next_level junk (bus_if junk ahb (m_cached s)) False False) (CACHE_CONTROL_REG s)
                addr asi 4 is_dbg (mc_icache s) (mc_below s)))"

section \<open>Data accesses\<close>

definition mc_read_ccr :: "'w mmu_cache \<Rightarrow> u32" where
  "mc_read_ccr s = swap_Endianess (CACHE_CONTROL_REG s)"

text \<open>A register access goes through a pointer to a word: with a buffer shorter than a word it
  is undefined.  The control register is copied with the length of the access into a local
  word, so a longer access is undefined, too.\<close>

definition word_arg :: "u8 list \<Rightarrow> u32 option" where
  "word_arg d = (if 4 \<le> length d then Some (word_of_bytes d) else None)"

definition put_word :: "u8 list \<Rightarrow> u32 \<Rightarrow> u8 list option" where
  "put_word d v = (if 4 \<le> length d then Some (host_bytes v @ drop 4 d) else None)"

definition mc_write_ccr :: "u8 list \<Rightarrow> 'w mmu_cache \<Rightarrow> 'w mmu_cache option" where
  "mc_write_ccr d s =
     (if length d = 4
      then let tmp = swap_Endianess (word_of_bytes d);
               s = (if tmp AND 0x400000 \<noteq> 0 then s\<lparr>mc_dcache := cache_flush (mc_dcache s)\<rparr> else s);
               s = (if tmp AND 0x200000 \<noteq> 0 then s\<lparr>mc_icache := cache_flush (mc_icache s)\<rparr> else s)
           in Some (s\<lparr>CACHE_CONTROL_REG := tmp AND 0xff9f3fff\<rparr>)
      else None)"

definition flush_both :: "'w mmu_cache \<Rightarrow> 'w mmu_cache" where
  "flush_both s = s\<lparr>mc_icache := cache_flush (mc_icache s), mc_dcache := cache_flush (mc_dcache s)\<rparr>"

text \<open>The memory address spaces: a scratchpad, or the data cache.\<close>

definition data_read ::
    "(nat \<Rightarrow> u8) \<Rightarrow> 'w master \<Rightarrow> u32 \<Rightarrow> u32 \<Rightarrow> u32 \<Rightarrow> bool \<Rightarrow> bool \<Rightarrow> 'w mmu_cache \<Rightarrow> (u8 list \<times> 'w mmu_cache) option" where
  "data_read junk ahb addr asi len locked is_dbg s =
     (if m_ilram s \<and> in_segment addr (m_ilramstart s)
      then (case mc_ilocalram s of None \<Rightarrow> None | Some r \<Rightarrow> map_option (\<lambda>d. (d, s)) (localram_read addr len r))
      else if m_dlram s \<and> in_segment addr (m_dlramstart s)
      then (case mc_dlocalram s of None \<Rightarrow> None | Some r \<Rightarrow> map_option (\<lambda>d. (d, s)) (localram_read addr len r))
      else map_option (\<lambda>(d, c, b). (d, s\<lparr>mc_dcache := c, mc_below := b\<rparr>))
             (cache_read (next_level junk (bus_if junk ahb (m_cached s)) True locked) (CACHE_CONTROL_REG s)
                addr asi len is_dbg (mc_dcache s) (mc_below s)))"

definition data_write ::
    "(nat \<Rightarrow> u8) \<Rightarrow> 'w master \<Rightarrow> u32 \<Rightarrow> u32 \<Rightarrow> u8 list \<Rightarrow> bool \<Rightarrow> bool \<Rightarrow> 'w mmu_cache \<Rightarrow> 'w mmu_cache option" where
  "data_write junk ahb addr asi d locked is_dbg s =
     (if m_ilram s \<and> in_segment addr (m_ilramstart s)
      then (case mc_ilocalram s of
              None \<Rightarrow> None | Some r \<Rightarrow> map_option (\<lambda>r. s\<lparr>mc_ilocalram := Some r\<rparr>) (localram_write addr d r))
      else if m_dlram s \<and> in_segment addr (m_dlramstart s)
      then (case mc_dlocalram s of
              None \<Rightarrow> None | Some r \<Rightarrow> map_option (\<lambda>r. s\<lparr>mc_dlocalram := Some r\<rparr>) (localram_write addr d r))
      else map_option (\<lambda>(c, b). s\<lparr>mc_dcache := c, mc_below := b\<rparr>)
             (cache_write (next_level junk (bus_if junk ahb (m_cached s)) True locked) (CACHE_CONTROL_REG s)
                addr asi d is_dbg (mc_dcache s) (mc_below s)))"

abbreviation memory_asi :: "u32 \<Rightarrow> bool" where
  "memory_asi asi \<equiv> asi \<in> {0, 1, 3, 8, 9, 0xa, 0xb}"

text \<open>The registers of the MMU in address space 0x19.\<close>

definition mmu_reg_read :: "u32 \<Rightarrow> mmu \<Rightarrow> (u32 \<times> mmu) option" where
  "mmu_reg_read addr u =
     (if addr = 0x000 then Some (read_mcr u, u)
      else if addr = 0x100 then Some (read_mctpr u, u)
      else if addr = 0x200 then Some (read_mctxr u, u)
      else if addr = 0x300 then Some (read_mfsr u)
      else if addr = 0x400 then Some (read_mfar u, u)
      else None)"

definition mmu_reg_write :: "u32 \<Rightarrow> u32 \<Rightarrow> mmu \<Rightarrow> mmu option" where
  "mmu_reg_write addr v u =
     (if addr = 0x000 then Some (write_mcr v u)
      else if addr = 0x100 then Some (write_mctpr v u)
      else if addr = 0x200 then Some (write_mctxr v u)
      else None)"

definition set_mmu :: "mmu \<Rightarrow> 'w mmu_cache \<Rightarrow> 'w mmu_cache" where
  "set_mmu u s = s\<lparr>mc_below := (mc_below s)\<lparr>bl_mmu := Some u\<rparr>\<rparr>"


section \<open>Address spaces\<close>

text \<open>The diagnostic accesses to a cache, by the address space: tags and entries.\<close>

definition diag_cache_read :: "bool \<Rightarrow> u32 \<Rightarrow> u8 list \<Rightarrow> vectorcache option \<Rightarrow> u8 list option" where
  "diag_cache_read tags addr buf cache =
     (case cache of
        None \<Rightarrow> Some buf
      | Some c \<Rightarrow> (case (if tags then read_cache_tag c addr else read_cache_entry c addr) of
                    None \<Rightarrow> None
                  | Some v \<Rightarrow> put_word buf v))"

definition diag_cache_write :: "bool \<Rightarrow> u32 \<Rightarrow> u8 list \<Rightarrow> vectorcache option \<Rightarrow> vectorcache option option" where
  "diag_cache_write tags addr d cache =
     (case cache of
        None \<Rightarrow> Some None
      | Some c \<Rightarrow> (case word_arg d of
                    None \<Rightarrow> None
                  | Some v \<Rightarrow> map_option Some (if tags then write_cache_tag addr v c else write_cache_entry addr v c)))"

definition config_reg :: "vectorcache option \<Rightarrow> u32" where
  "config_reg cache = (case cache of None \<Rightarrow> 0 | Some c \<Rightarrow> read_config_reg c)"

text \<open>The outcome of an access: the response, the buffer and the state.  (A diagnostic tag
  write leaves its buffer byte-swapped, which no caller looks at.)\<close>

type_synonym 'w access = "(tlm_response \<times> u8 list \<times> 'w mmu_cache) option"

definition exec_read ::
    "(nat \<Rightarrow> u8) \<Rightarrow> 'w master \<Rightarrow> tlm_response \<Rightarrow> u32 \<Rightarrow> u8 list \<Rightarrow> u32 \<Rightarrow> bool \<Rightarrow> bool \<Rightarrow> 'w mmu_cache \<Rightarrow> 'w access" where
  "exec_read junk ahb response addr buf asi locked is_dbg s =
     (let len = of_nat (length buf);
          error = Some (Address_error_response, buf, s);
          word = (\<lambda>v s. map_option (\<lambda>d. (Ok_response, d, s)) (put_word buf v))
      in if asi = 2
         then (if addr = 0 then word (mc_read_ccr s) s
               else if addr = 8 then word (config_reg (mc_icache s)) s
               else if addr = 0xc then word (config_reg (mc_dcache s)) s
               else error)
         else if asi = 5 \<or> asi = 6
         then (if m_mmu_en s
               then (case bl_mmu (mc_below s) of
                       None \<Rightarrow> None
                     | Some u \<Rightarrow> word (diag_read_tlb (asi = 6) (word_of_bytes (junk_bytes junk 4)) addr u) s)
               else error)
         else if asi = 0xc \<or> asi = 0xd
         then map_option (\<lambda>d. (Ok_response, d, s)) (diag_cache_read (asi = 0xc) addr buf (mc_icache s))
         else if asi = 0xe \<or> asi = 0xf
         then map_option (\<lambda>d. (Ok_response, d, s)) (diag_cache_read (asi = 0xe) addr buf (mc_dcache s))
         else if asi = 0x19
         then (if m_mmu_en s
               then (case bl_mmu (mc_below s) of
                       None \<Rightarrow> None
                     | Some u \<Rightarrow> (case mmu_reg_read addr u of
                                   None \<Rightarrow> error
                                 | Some (v, u) \<Rightarrow> word v (set_mmu u s)))
               else error)
         else if memory_asi asi
         then map_option (\<lambda>(d, s). (Ok_response, d, s)) (data_read junk ahb addr asi len locked is_dbg s)
         else if asi = 0x1c
         then map_option (\<lambda>(d, _, w). (response, d, s\<lparr>mc_below := (mc_below s)\<lparr>bl_bus := w\<rparr>\<rparr>))
                (base_mem_read junk ahb (m_cached s) locked addr asi len is_dbg (bl_bus (mc_below s)))
         else error)"

definition exec_write ::
    "(nat \<Rightarrow> u8) \<Rightarrow> 'w master \<Rightarrow> tlm_response \<Rightarrow> u32 \<Rightarrow> u8 list \<Rightarrow> u32 \<Rightarrow> bool \<Rightarrow> bool \<Rightarrow> 'w mmu_cache \<Rightarrow> 'w access" where
  "exec_write junk ahb response addr d asi locked is_dbg s =
     (let error = Some (Address_error_response, d, s);
          done = map_option (\<lambda>s. (Ok_response, d, s))
      in if asi = 2
         then (if addr = 0 then done (mc_write_ccr d s)
               else if addr = 0xfe \<or> addr = 0xff then done (Some s)
               else error)
         else if asi = 5 \<or> asi = 6
         then (if m_mmu_en s then done (Some s) else error)
         else if asi = 0xc \<or> asi = 0xd
         then done (map_option (\<lambda>c. s\<lparr>mc_icache := c\<rparr>) (diag_cache_write (asi = 0xc) addr d (mc_icache s)))
         else if asi = 0xe \<or> asi = 0xf
         then done (map_option (\<lambda>c. s\<lparr>mc_dcache := c\<rparr>) (diag_cache_write (asi = 0xe) addr d (mc_dcache s)))
         else if asi = 0x11 then done (Some (flush_both s))
         else if asi = 0x15 then done (Some (s\<lparr>mc_icache := cache_flush (mc_icache s)\<rparr>))
         else if asi = 0x16 then done (Some (s\<lparr>mc_dcache := cache_flush (mc_dcache s)\<rparr>))
         else if asi = 0x18
         then done (map_option (\<lambda>u. set_mmu (tlb_flush u) s) (bl_mmu (mc_below s)))
         else if asi = 0x19
         then (if m_mmu_en s
               then (case bl_mmu (mc_below s) of
                       None \<Rightarrow> None
                     | Some u \<Rightarrow>
                         if addr = 0x000 \<or> addr = 0x100 \<or> addr = 0x200
                         then done (case word_arg d of
                                      None \<Rightarrow> None
                                    | Some v \<Rightarrow> map_option (\<lambda>u. set_mmu u s) (mmu_reg_write addr v u))
                         else error)
               else error)
         else if memory_asi asi then done (data_write junk ahb addr asi d locked is_dbg s)
         else if asi = 0x1c
         then map_option (\<lambda>w. (response, d, s\<lparr>mc_below := (mc_below s)\<lparr>bl_bus := w\<rparr>\<rparr>))
                (base_mem_write ahb locked addr asi d is_dbg (bl_bus (mc_below s)))
         else error)"

definition exec_data ::
    "(nat \<Rightarrow> u8) \<Rightarrow> 'w master \<Rightarrow> tlm_command \<Rightarrow> u32 \<Rightarrow> u8 list \<Rightarrow> u32 \<Rightarrow> u32 \<Rightarrow> u32 \<Rightarrow> bool \<Rightarrow> tlm_response
      \<Rightarrow> 'w mmu_cache \<Rightarrow> 'w access" where
  "exec_data junk ahb cmd addr buf asi flush locked is_dbg response s =
     (if flush \<noteq> 0 then Some (Ok_response, buf, flush_both s)
      else case cmd of
          Read_command \<Rightarrow> exec_read junk ahb response addr buf asi (locked \<noteq> 0) is_dbg s
        | Write_command \<Rightarrow> exec_write junk ahb response addr buf asi (locked \<noteq> 0) is_dbg s
        | Ignore_command \<Rightarrow> Some (Command_error_response, buf, s))"

section \<open>Snooping\<close>

definition snoopingCallBack :: "snoop_info \<Rightarrow> 'w mmu_cache \<Rightarrow> 'w mmu_cache option" where
  "snoopingCallBack snoop s =
     (if sn_master snoop \<noteq> m_master_id s \<and> m_dcen s \<and> m_dsnoop s
      then (case mc_dcache s of
              None \<Rightarrow> Some s
            | Some c \<Rightarrow> map_option (\<lambda>c. s\<lparr>mc_dcache := Some c\<rparr>)
                         (snoop_invalidate (CACHE_CONTROL_REG s) (sn_address snoop) (sn_length snoop) c))
      else Some s)"

end
