(* ===== verification/Bus_Level.thy ===== *)
theory Bus_Level
  imports Vectorcache_Runs Bus_Memory Mmu_Cache
begin

text \<open>
  The AHB system as the level behind the caches: the master of the memory sub-system
  (src/amba/ahbmaster.tpp) over the controller and the AHB memories satisfies what a cache
  expects of its next level, and the MMU, while it is missing or switched off, passes this on.
\<close>

section \<open>The master socket on the AHB system\<close>

type_synonym ahb_system = "ahbctrl \<times> memory_slave list"

definition memory_socket_dbg :: "nat \<Rightarrow> payload \<Rightarrow> memory_slave list \<Rightarrow> (u32 \<times> payload \<times> memory_slave list) option" where
  "memory_socket_dbg i gp w =
     (if i < length w
      then map_option (\<lambda>(cycles, gp', a). (p_length gp, gp', w[i := (w ! i)\<lparr>ms_mem := a\<rparr>]))
             (ahbmem_exec_func array_ops gp (ms_mem (w ! i)))
      else None)"

text \<open>\<^verbatim>\<open>ahbaccess\<close> in the loosely timed mode and \<^verbatim>\<open>ahbaccess_dbg\<close>.\<close>

definition system_master :: "u32 \<Rightarrow> ahb_system master" where
  "system_master mid is_dbg gp cw =
     (if is_dbg
      then map_option (\<lambda>(n, gp, c, w). (gp, (c, w))) (ahb_transport_dbg memory_socket_dbg gp (fst cw) (snd cw))
      else map_option (\<lambda>(t, gp, sn, c, w). (gp, (c, w))) (ahb_b_transport memory_socket mid gp 0 (fst cw) (snd cw)))"

section \<open>What the system holds\<close>

definition bus_contents :: "ahb_system \<Rightarrow> u32 \<Rightarrow> u8" where
  "bus_contents cw a = the (flat_memory (fst cw) (snd cw) a)"

text \<open>The map of the controller and its plug-and-play area stay as they are.\<close>

definition bus_ok :: "slave_info omap \<Rightarrow> (u32 \<Rightarrow> bool) \<Rightarrow> ahb_system \<Rightarrow> bool" where
  "bus_ok m pnp cw = (system_wf (fst cw) (snd cw) \<and> slave_map (fst cw) = m \<and> is_pnp (fst cw) = pnp)"

text \<open>The block of 32 bytes around an address lies in one region, outside the plug-and-play
  area.\<close>

definition bus_inside :: "slave_info omap \<Rightarrow> (u32 \<Rightarrow> bool) \<Rightarrow> u32 \<Rightarrow> bool" where
  "bus_inside m pnp a =
     ((\<forall>b. unat b div 32 = unat a div 32 \<longrightarrow> \<not> pnp b) \<and>
      (\<exists>e \<in> set m. region_base e \<le> unat a div 32 * 32 \<and> unat a div 32 * 32 + 32 \<le> region_base e + region_size e))"

lemma bus_inside_block:
  assumes "bus_ok m pnp (c, w)" and "bus_inside m pnp a" and "unat a mod 32 + n \<le> 32"
  shows "block_ok c a n"
proof -
  obtain e where e: "e \<in> set m" "region_base e \<le> unat a div 32 * 32" "unat a div 32 * 32 + 32 \<le> region_base e + region_size e"
    using assms(2) by (auto simp: bus_inside_def)
  have a: "unat a = unat a div 32 * 32 + unat a mod 32" by simp
  have "unat a mod 32 < 32" by simp
  then have "region_base e \<le> unat a" "unat a < region_base e + region_size e" "unat a + n \<le> region_base e + region_size e"
    using a e assms(3) by linarith+
  moreover have "\<not> is_pnp c a" using assms(1,2) by (auto simp: bus_ok_def bus_inside_def)
  moreover have "n < 2 ^ 32" using assms(3) by simp
  ultimately show ?thesis using e(1) assms(1) by (auto simp: block_ok_def bus_ok_def)
qed

text \<open>The flat memory as a function.\<close>

lemma flat_read_contents: "flat_read a n (flat_memory c w) = bytes_at (bus_contents (c, w)) a n"
  by (simp add: flat_read_def bytes_at_def bus_contents_def)

lemma flat_write_contents:
  assumes "flat_memory c' w' = flat_write a d (flat_memory c w)"
  shows "bus_contents (c', w') = write_at a d (bus_contents (c, w))"
  unfolding bus_contents_def fst_conv snd_conv assms by (auto simp: flat_write_def write_at_def)

lemma flat_memory_contents: "flat_memory c' w' = flat_memory c w \<Longrightarrow> bus_contents (c', w') = bus_contents (c, w)"
  by (simp add: bus_contents_def fun_eq_iff)

interpretation ahb: mem_level "bus_if junk (system_master mid) cached locked" bus_contents "bus_inside m pnp" "bus_ok m pnp"
  for junk mid cached locked m pnp
proof
  show "bus_inside m pnp b" if "bus_inside m pnp a" "unat b div 32 = unat a div 32" for a b
    using that by (simp add: bus_inside_def)
next
  fix cw a asi and len :: u32
  assume ok: "bus_ok m pnp cw" and inside: "bus_inside m pnp a" and span: "unat a mod 32 + unat len \<le> 32"
  obtain c w where cw: "cw = (c, w)" by (cases cw)
  have wf: "system_wf c w" and m: "slave_map c = m" "is_pnp c = pnp" using ok cw by (simp_all add: bus_ok_def)
  let ?gp = "master_payload Read_command a (junk_bytes junk (unat len)) locked"
  have block: "block_ok c a (unat len)" using bus_inside_block ok inside span unfolding cw by blast
  obtain t gp' sn c' w' where tr: "ahb_b_transport memory_socket mid ?gp 0 c w = Some (t, gp', sn, c', w')"
      and d: "p_data gp' = flat_read a (unat len) (flat_memory c w)"
      and s: "system_wf c' w'" "slave_map c' = slave_map c" "is_pnp c' = is_pnp c" "flat_memory c' w' = flat_memory c w"
    using bus_read[OF wf block, of ?gp mid 0] by (auto simp: master_payload_def)
  have "\<exists>cacheable. if_read (bus_if junk (system_master mid) cached locked) a asi len False cw =
      Some (bytes_at (bus_contents cw) a (unat len), cacheable, (c', w'))"
    using tr d by (simp add: bus_if_def base_mem_read_def system_master_def cw flat_read_contents)
  moreover have "bus_ok m pnp (c', w')" using s m by (simp add: bus_ok_def)
  ultimately show "\<exists>cacheable m'. if_read (bus_if junk (system_master mid) cached locked) a asi len False cw =
      Some (bytes_at (bus_contents cw) a (unat len), cacheable, m') \<and> bus_ok m pnp m' \<and> bus_contents m' = bus_contents cw"
    using flat_memory_contents[OF s(4)] cw by blast
next
  fix cw a asi and d :: "u8 list"
  assume ok: "bus_ok m pnp cw" and inside: "bus_inside m pnp a" and span: "unat a mod 32 + length d \<le> 32"
  obtain c w where cw: "cw = (c, w)" by (cases cw)
  have wf: "system_wf c w" and m: "slave_map c = m" "is_pnp c = pnp" using ok cw by (simp_all add: bus_ok_def)
  have block: "block_ok c a (length d)" using bus_inside_block ok inside span unfolding cw by blast
  obtain t gp' sn c' w' where
      tr: "ahb_b_transport memory_socket mid (master_payload Write_command a d locked) 0 c w = Some (t, gp', sn, c', w')"
      and s: "system_wf c' w'" "slave_map c' = slave_map c" "is_pnp c' = is_pnp c" "flat_memory c' w' = flat_write a d (flat_memory c w)"
    using bus_write[OF wf block, of "master_payload Write_command a d locked" mid 0] by (auto simp: master_payload_def)
  have "if_write (bus_if junk (system_master mid) cached locked) a asi d False cw = Some (c', w')"
    using tr by (simp add: bus_if_def base_mem_write_def system_master_def cw)
  moreover have "bus_ok m pnp (c', w')" using s m by (simp add: bus_ok_def)
  ultimately show "\<exists>m'. if_write (bus_if junk (system_master mid) cached locked) a asi d False cw = Some m' \<and>
      bus_ok m pnp m' \<and> bus_contents m' = write_at a d (bus_contents cw)"
    using flat_write_contents[OF s(4)] cw by blast
qed


section \<open>The MMU, missing or switched off\<close>

definition translation_off :: "'w below \<Rightarrow> bool" where
  "translation_off b = (case bl_mmu b of None \<Rightarrow> True | Some u \<Rightarrow> Mmu.MMU_CONTROL_REG u AND 1 = 0)"

locale behind_mmu =
  fixes junk :: "nat \<Rightarrow> u8"
    and bus :: "bool \<Rightarrow> 'w mem_if"
    and contents :: "'w \<Rightarrow> u32 \<Rightarrow> u8"
    and inside :: "u32 \<Rightarrow> bool"
    and ok :: "'w \<Rightarrow> bool"
  assumes level: "mem_level (bus locked) contents inside ok"
begin

lemma off_read:
  assumes "translation_off b" and "ok (bl_bus b)" and "inside a" and "unat a mod 32 + unat len \<le> 32"
  shows "\<exists>cacheable w. if_read (next_level junk bus data locked) a asi len False b =
      Some (bytes_at (contents (bl_bus b)) a (unat len), cacheable, b\<lparr>bl_bus := w\<rparr>) \<and> ok w \<and> contents w = contents (bl_bus b)"
  using mem_level.read_ok[OF level assms(2-4), of locked asi] assms(1)
  by (cases b, cases "bl_mmu b")
    (auto simp: next_level_def next_read_def translation_off_def tlb_adaptor_def tlb_mem_read_def Let_def to_world_def of_world_def)

lemma off_write:
  assumes "translation_off b" and "ok (bl_bus b)" and "inside a" and "unat a mod 32 + length d \<le> 32"
  shows "\<exists>w. if_write (next_level junk bus data locked) a asi d False b = Some (b\<lparr>bl_bus := w\<rparr>) \<and>
    ok w \<and> contents w = write_at a d (contents (bl_bus b))"
proof (cases "bl_mmu b")
  case None
  then show ?thesis
    using mem_level.write_ok[OF level assms(2-4), of locked asi] by (auto simp: next_level_def next_write_def)
next
  case (Some u)
  then show ?thesis
    using mem_level.write_ok[OF level assms(2-4), of True asi] assms(1)
    by (cases b) (auto simp: next_level_def next_write_def translation_off_def tlb_adaptor_def tlb_mem_write_def Let_def to_world_def of_world_def)
qed

end

text \<open>The level behind the caches, with no exception pending.\<close>

definition below_ok :: "('w \<Rightarrow> bool) \<Rightarrow> 'w below \<Rightarrow> bool" where
  "below_ok ok b = (ok (bl_bus b) \<and> translation_off b \<and> bl_exception b = None)"

sublocale behind_mmu < off: mem_level "next_level junk bus data locked" "\<lambda>b. contents (bl_bus b)" inside "below_ok ok"
  for data locked
proof
  show "inside b" if "inside a" "unat b div 32 = unat a div 32" for a b
    using mem_level.inside_block[OF level that] .
  show "\<exists>cacheable b'. if_read (next_level junk bus data locked) a asi len False b =
      Some (bytes_at (contents (bl_bus b)) a (unat len), cacheable, b') \<and> below_ok ok b' \<and> contents (bl_bus b') = contents (bl_bus b)"
    if "below_ok ok b" "inside a" "unat a mod 32 + unat len \<le> 32" for b a asi and len :: u32
    using off_read[of b a len] that by (fastforce simp: below_ok_def translation_off_def)
  show "\<exists>b'. if_write (next_level junk bus data locked) a asi d False b = Some b' \<and> below_ok ok b' \<and>
      contents (bl_bus b') = write_at a d (contents (bl_bus b))"
    if "below_ok ok b" "inside a" "unat a mod 32 + length d \<le> 32" for b a asi d
    using off_write[of b a d] that by (fastforce simp: below_ok_def translation_off_def)
qed

interpretation ahb: behind_mmu junk "bus_if junk (system_master mid) cached" bus_contents "bus_inside m pnp" "bus_ok m pnp"
  for junk mid cached m pnp
  by unfold_locales

end
