(* ===== verification/Mmu_Translation.thy ===== *)
theory Mmu_Translation
  imports Mmu_Props
begin

text \<open>
  Address translation as a whole: the bound on the TLBs, the physical address and the fault
  registers of a look-up, and sequences of loads and stores through the adaptor as accesses to
  a virtual memory that lives, page tables included, in the memory behind it.
\<close>

section \<open>The TLBs\<close>

text \<open>A TLB never has more entries than the configuration says; the counters stay below the
  value the selection starts with, so there is always an entry to replace.\<close>

definition tlb_fits :: "u32 \<Rightarrow> tlb \<Rightarrow> bool" where
  "tlb_fits n t = (length t \<le> unat n \<and> (\<forall>(k, e) \<in> set t. pc_lru e \<noteq> NOT 0))"

definition mmu_wf :: "mmu \<Rightarrow> bool" where
  "mmu_wf u =
     (2 \<le> m_itlbnum u \<and> m_itlbnum u \<le> 32 \<and> 2 \<le> m_dtlbnum u \<and> m_dtlbnum u \<le> 32 \<and> mmu_pseudo_rand u = 0 \<and>
      tlb_fits (m_itlbnum u) (m_itlb u) \<and> tlb_fits (m_dtlbnum u) (m_dtlb u))"

lemma mmu_wf_init: "mmu_init itlbnum dtlbnum tlb_type tlb_rep mmupgsz = Some u \<Longrightarrow> mmu_wf u"
  by (auto simp: mmu_init_def mmu_wf_def tlb_fits_def split: if_splits)

lemma length_omap_insert: "length (omap_insert k v m) \<le> Suc (length m)"
  by (induction k v m rule: omap_insert.induct) auto

lemma length_omap_assign: "length (omap_assign k v m) \<le> Suc (length m)"
  unfolding omap_assign_def by (rule order_trans[OF length_omap_insert]) simp

lemma set_omap_assign: "set (omap_assign k v m) \<subseteq> insert (k, v) (set m)"
  using set_omap_insert_subset[of k v "filter (\<lambda>e. fst e \<noteq> k) m"] by (auto simp: omap_assign_def)

lemma lru_selector_keeps: "\<exists>e. lru_selector t n (Some e0) = Some e \<and> e \<in> insert e0 (set t)"
  by (induction t n "Some e0" arbitrary: e0 rule: lru_selector.induct) auto

lemma lru_selector_total:
  assumes "(k, e) \<in> set t" and "pc_lru e < n"
  shows "\<exists>e'. lru_selector t n None = Some e' \<and> e' \<in> set t"
  using assms
proof (induction t)
  case (Cons e0 t)
  show ?case
  proof (cases "pc_lru (snd e0) < n")
    case True
    then show ?thesis using lru_selector_keeps[of t "pc_lru (snd e0)" e0] by auto
  next
    case False
    then have "(k, e) \<in> set t" using Cons.prems by auto
    then show ?thesis using Cons False by auto
  qed
qed simp

lemma tlb_remove_ok:
  assumes "tlb_fits n t" and "length t = unat n" and "n \<noteq> 0" and "mmu_pseudo_rand u = 0"
  obtains no t' where "tlb_remove u t n = Some (no, t')" "length t' < unat n" "set t' \<subseteq> set t"
proof (cases "m_tlb_rep u = 0")
  case True
  have "t \<noteq> []" using assms(2,3) by (auto simp: unat_eq_0)
  then obtain k e where e: "(k, e) \<in> set t" by (cases t) auto
  then have "pc_lru e \<noteq> NOT 0" using assms(1) by (auto simp: tlb_fits_def)
  then have "pc_lru e < NOT 0" using word_order.not_eq_extremum[of "pc_lru e"] by simp
  then obtain e' where sel: "lru_selector t (NOT 0) None = Some e'" "e' \<in> set t"
    using lru_selector_total[OF e] by blast
  then have "length (filter (\<lambda>x. fst x \<noteq> fst e') t) < length t"
    by (intro length_filter_less[of e']) auto
  moreover have "tlb_remove u t n = Some (pc_tlb_no (snd e'), filter (\<lambda>x. fst x \<noteq> fst e') t)"
    using True sel by (simp add: tlb_remove_def)
  ultimately show thesis using that assms(2) by auto
next
  case False
  have "0 < unat n" using assms(3) by (simp add: unat_gt_0)
  moreover have "set (drop 1 t) \<subseteq> set t" by (rule set_drop_subset)
  ultimately show thesis using that False assms(2,4) by (simp add: tlb_remove_def Let_def)
qed

lemma get_tlb_fits: "mmu_wf u \<Longrightarrow> tlb_fits (tlb_num data u) (get_tlb data u) \<and> tlb_num data u \<noteq> 0"
  by (auto simp: mmu_wf_def get_tlb_def tlb_num_def)

lemma tlb_enter_ok:
  assumes "mmu_wf u"
  obtains t where "tlb_enter data vpn wk u = Some (set_tlb data t u)" "tlb_fits (tlb_num data u) t"
proof -
  define n where "n = tlb_num data u"
  define t where "t = get_tlb data u"
  have fits: "tlb_fits n t" and n: "n \<noteq> 0" and r: "mmu_pseudo_rand u = 0"
    using get_tlb_fits[OF assms] assms by (auto simp: n_def t_def mmu_wf_def)
  obtain no t' where s: "(if length t = unat n then tlb_remove u t n else Some (of_nat (length t), t)) = Some (no, t')"
      and l: "length t' < unat n" and sub: "set t' \<subseteq> set t"
  proof (cases "length t = unat n")
    case True
    then show thesis using tlb_remove_ok[OF fits True n r] that by auto
  next
    case False
    then show thesis using that fits by (auto simp: tlb_fits_def)
  qed
  define e where "e = \<lparr>pc_tlb_no = no, pc_context = MMU_CONTEXT_REG u, pc_pte = wk_pde wk, pc_lru = NOT 0 - 1, pc_page_size = wk_page_size wk\<rparr>"
  have "tlb_enter data vpn wk u = Some (set_tlb data (omap_assign vpn e t') u)"
    unfolding tlb_enter_def Let_def n_def[symmetric] t_def[symmetric] s by (simp add: e_def)
  moreover have "tlb_fits n (omap_assign vpn e t')"
  proof -
    have "length (omap_assign vpn e t') \<le> unat n" using length_omap_assign[of vpn e t'] l by linarith
    moreover have "pc_lru e \<noteq> NOT 0" by (simp add: e_def)
    ultimately show ?thesis using set_omap_assign[of vpn e t'] sub fits by (fastforce simp: tlb_fits_def)
  qed
  ultimately show thesis using that by (simp add: n_def)
qed

text \<open>What a look-up leaves of the MMU: everything but its TLBs and fault registers.\<close>

definition same_setup :: "mmu \<Rightarrow> mmu \<Rightarrow> bool" where
  "same_setup u u' =
     (m_itlbnum u' = m_itlbnum u \<and> m_dtlbnum u' = m_dtlbnum u \<and> m_tlb_type u' = m_tlb_type u \<and> m_tlb_rep u' = m_tlb_rep u \<and>
      m_vtag_width u' = m_vtag_width u \<and> MMU_CONTROL_REG u' = MMU_CONTROL_REG u \<and>
      MMU_CONTEXT_TABLE_POINTER_REG u' = MMU_CONTEXT_TABLE_POINTER_REG u \<and> MMU_CONTEXT_REG u' = MMU_CONTEXT_REG u)"

lemma same_setup_record_fault: "same_setup u (record_fault a asi wr e u)"
  by (simp add: same_setup_def record_fault_def Let_def)

lemma mmu_wf_record_fault: "mmu_wf (record_fault a asi wr e u) = mmu_wf u"
  by (simp add: mmu_wf_def record_fault_def Let_def)

lemma same_setup_set_tlb: "same_setup u (set_tlb data t u)"
  by (simp add: same_setup_def set_tlb_def)

lemma mmu_wf_set_tlb: "mmu_wf u \<Longrightarrow> tlb_fits (tlb_num data u) t \<Longrightarrow> mmu_wf (set_tlb data t u)"
  by (auto simp: mmu_wf_def set_tlb_def tlb_num_def)

lemma tlb_lookup_wf:
  assumes "mmu_wf u" and "get_physical_address bus u addr asi is_dbg is_write w = Some (wk, w')"
  shows "\<exists>lk. tlb_lookup bus data addr asi is_dbg is_write u w = Some lk \<and> mmu_wf (lk_mmu lk) \<and> same_setup u (lk_mmu lk) \<and> lk_bus lk = w'"
proof -
  define u' where "u' = (if wk_error wk \<noteq> 0 then record_fault addr asi is_write (wk_error wk) u else u)"
  have u': "mmu_wf u'" "same_setup u u'"
    using assms(1) by (simp_all add: u'_def mmu_wf_record_fault same_setup_record_fault) (simp add: same_setup_def)
  obtain t where t: "tlb_enter data (drop_bit (32 - m_vtag_width u') addr) wk u' = Some (set_tlb data t u')" "tlb_fits (tlb_num data u') t"
    using tlb_enter_ok[OF u'(1)] .
  have "same_setup u (set_tlb data t u')" "mmu_wf (set_tlb data t u')"
    using u' mmu_wf_set_tlb[OF u'(1) t(2)] same_setup_set_tlb[of u' data t] by (auto simp: same_setup_def)
  then show ?thesis
    unfolding tlb_lookup_def assms(2) Let_def option.case prod.case u'_def[symmetric] using u' t(1) by auto
qed

section \<open>Translation\<close>

text \<open>A virtual address designates a physical one, or the access is denied with the bits the
  fault leaves in the fault status register.\<close>

datatype translation = Physical u32 | Denied u32

definition translate :: "(u32 \<Rightarrow> u8) \<Rightarrow> mmu \<Rightarrow> u32 \<Rightarrow> bool \<Rightarrow> u32 \<Rightarrow> translation" where
  "translate f u asi is_write va =
     (case table_walk f 0 (root_pointer u) (indices u va) of
        Fault level ft \<Rightarrow> Denied (push_bit 8 (of_nat level) OR push_bit 2 ft)
      | Mapped n d \<Rightarrow>
          let ft = protection_fault (unat (drop_bit 2 d AND 7)) (asi AND 1 \<noteq> 0) (asi AND 2 = 0) is_write
          in if ft \<noteq> 0 then Denied (push_bit 2 ft)
             else Physical (push_bit 4 (d AND NOT 0xFF) OR take_bit n va))"

definition walks_inside :: "(u32 \<Rightarrow> bool) \<Rightarrow> (u32 \<Rightarrow> u8) \<Rightarrow> mmu \<Rightarrow> u32 \<Rightarrow> bool" where
  "walks_inside inside f u va = list_all inside (walk_pointers f (root_pointer u) (indices u va))"

lemma mapped_bits: "table_walk f level p is = Mapped n d \<Longrightarrow> level + length is < 4 \<Longrightarrow> n \<in> {12, 18, 24}"
proof (induction "is" arbitrary: level p)
  case Nil
  then have "level = 1 \<or> level = 2 \<or> level = 3" by (auto simp: leaf_def split: if_splits)
  then show ?case using Nil by (auto simp: leaf_def page_bits_def split: if_splits)
next
  case (Cons i "is")
  show ?case
  proof (cases "entry_type (be_word f p) = 1")
    case True
    then show ?thesis using Cons by simp
  next
    case False
    then have "level = 1 \<or> level = 2" using Cons.prems by (auto simp: leaf_def split: if_splits)
    then show ?thesis using Cons.prems False by (auto simp: leaf_def page_bits_def split: if_splits)
  qed
qed

lemma physical_word:
  assumes "n \<in> {12, 18, 24}"
  shows "ucast (physical d (2 ^ n) va) = push_bit 4 (d AND NOT 0xFF) OR take_bit n va"
proof -
  have m: "(2 ^ n - 1 :: u64) = mask n" by (simp add: mask_eq_exp_minus_1)
  have "n \<le> 32" using assms by auto
  then show ?thesis
    unfolding physical_def m by (intro bit_word_eqI) (auto simp: bit_simps)
qed

text \<open>The fault status after a fault.\<close>

definition fault_status :: "u32 \<Rightarrow> bool \<Rightarrow> u32 \<Rightarrow> u32 \<Rightarrow> u32" where
  "fault_status asi is_write e fsr =
     (if fsr = 0 then 1 else fsr) OR push_bit 5 (access_index asi is_write) OR e OR (if asi AND 2 \<noteq> 0 then 2 else 0)"

definition trap_of :: "u32 \<Rightarrow> u32" where
  "trap_of asi = (if asi AND 2 = 0 then 5 else 19)"

lemma record_fault_status:
  "MMU_FAULT_STATUS_REG (record_fault a asi is_write e u) = fault_status asi is_write e (MMU_FAULT_STATUS_REG u)"
  "MMU_FAULT_ADDRESS_REG (record_fault a asi is_write e u) = a"
  by (simp_all add: record_fault_def Let_def fault_status_def is_instruction_access_def or.assoc)

lemma length_indices: "length (indices u va) = 3"
  by (simp add: indices_def Let_def)

lemma fault_code_nonzero:
  assumes "table_walk f 0 p is = Fault level ft" and "length is = 3"
  shows "push_bit 8 (of_nat level) OR push_bit 2 ft \<noteq> (0 :: u32)"
proof -
  have "ft = 1 \<or> ft = 4" if "table_walk f l p is = Fault level ft" for l
    using that by (induction "is" arbitrary: l p) (auto simp: leaf_def split: if_splits)
  then have ft: "ft = 1 \<or> ft = 4" using assms(1) by blast
  have "bit (push_bit 2 ft) (if ft = 1 then 2 else 4)" using ft by (auto simp: bit_simps)
  moreover have "bit (4 :: u32) 2" by simp
  ultimately show ?thesis by (metis bit_0_eq bit_or_iff bot_apply bot_bool_def)
qed

text \<open>A look-up gives the physical address, or raises the trap and fills the fault registers.\<close>

definition looks_up :: "u32 \<Rightarrow> bool \<Rightarrow> u32 \<Rightarrow> mmu \<Rightarrow> 'w lookup \<Rightarrow> translation \<Rightarrow> bool" where
  "looks_up asi is_write va u lk tr =
     (case tr of
        Physical pa \<Rightarrow> (\<exists>a cacheable. lk_result lk = Some (a, cacheable) \<and> ucast a = pa) \<and> lk_exception lk = None \<and>
          MMU_FAULT_STATUS_REG (lk_mmu lk) = MMU_FAULT_STATUS_REG u \<and> MMU_FAULT_ADDRESS_REG (lk_mmu lk) = MMU_FAULT_ADDRESS_REG u
      | Denied e \<Rightarrow> lk_result lk = None \<and> lk_exception lk = Some (trap_of asi) \<and>
          MMU_FAULT_STATUS_REG (lk_mmu lk) = fault_status asi is_write e (MMU_FAULT_STATUS_REG u) \<and>
          MMU_FAULT_ADDRESS_REG (lk_mmu lk) = va)"

context behind_mmu
begin

lemma lookup_ok:
  assumes "ok w" and "mmu_wf u" and "walks_inside inside (contents w) u va" and "MMU_CONTROL_REG u AND 2 = 0"
  obtains lk where "tlb_lookup bus data va asi False is_write u w = Some lk"
    "mmu_wf (lk_mmu lk)" "same_setup u (lk_mmu lk)" "ok (lk_bus lk)" "contents (lk_bus lk) = contents w"
    "looks_up asi is_write va u lk (translate (contents w) u asi is_write va)"
proof -
  define r where "r = table_walk (contents w) 0 (root_pointer u) (indices u va)"
  obtain wk w' where walk: "get_physical_address bus u va asi False is_write w = Some (wk, w')"
      "reported asi is_write r wk" "ok w'" "contents w' = contents w"
    using walk_ok[of w u va] assms(1,3) unfolding r_def walks_inside_def list_all_iff by metis
  obtain lk where lk: "tlb_lookup bus data va asi False is_write u w = Some lk" "mmu_wf (lk_mmu lk)" "same_setup u (lk_mmu lk)" "lk_bus lk = w'"
    using tlb_lookup_wf[OF assms(2) walk(1)] by blast
  have denied: "lk_result lk = None \<and> lk_exception lk = Some (trap_of asi) \<and>
      MMU_FAULT_STATUS_REG (lk_mmu lk) = fault_status asi is_write (wk_error wk) (MMU_FAULT_STATUS_REG u) \<and>
      MMU_FAULT_ADDRESS_REG (lk_mmu lk) = va" if "wk_error wk \<noteq> 0"
  proof -
    have "MMU_CONTROL_REG (record_fault va asi is_write (wk_error wk) u) AND 2 = 0"
      using assms(4) by (simp add: record_fault_def Let_def)
    then show ?thesis
      using lk(1) that unfolding tlb_lookup_def walk(1)
      by (auto simp: Let_def record_fault_status trap_of_def is_instruction_access_def)
  qed
  have "looks_up asi is_write va u lk (translate (contents w) u asi is_write va)"
  proof (cases r)
    case (Fault level ft)
    then have "wk_error wk = push_bit 8 (of_nat level) OR push_bit 2 ft" using walk(2) by (simp add: reported_def)
    moreover have "push_bit 8 (of_nat level) OR push_bit 2 ft \<noteq> (0 :: u32)"
      using fault_code_nonzero[OF Fault[unfolded r_def] length_indices] .
    ultimately show ?thesis using denied Fault unfolding translate_def r_def[symmetric] by (simp add: looks_up_def)
  next
    case (Mapped n d)
    then have wk: "wk = check_access asi is_write (2 ^ n) d" and et: "entry_type d = 2" using walk(2) by (auto simp: reported_def)
    have n: "n \<in> {12, 18, 24}" using mapped_bits[OF Mapped[unfolded r_def]] by (simp add: length_indices)
    let ?ft = "protection_fault (unat (drop_bit 2 d AND 7)) (asi AND 1 \<noteq> 0) (asi AND 2 = 0) is_write"
    have err: "wk_error wk = push_bit 2 ?ft" by (simp add: wk check_access_def access_row unat_and_7)
    have "?ft = 0 \<or> ?ft = 2 \<or> ?ft = 3" by (simp add: protection_fault_def)
    then have zero: "(push_bit 2 ?ft = 0) = (?ft = 0)" by auto
    show ?thesis
    proof (cases "?ft = 0")
      case True
      obtain t where t: "tlb_enter data (drop_bit (32 - m_vtag_width u) va) wk u = Some (set_tlb data t u)"
        using tlb_enter_ok[OF assms(2)] by metis
      have "wk_error wk = 0" "wk_pde wk = d" "wk_page_size wk = 2 ^ n" using True err by (simp_all add: wk check_access_def)
      then have "lk = \<lparr>lk_result = Some (physical d (2 ^ n) va, d AND 0x80 \<noteq> 0), lk_mmu = set_tlb data t u, lk_bus = w', lk_exception = None\<rparr>"
        using lk(1) et t unfolding tlb_lookup_def walk(1) by (simp add: Let_def)
      then show ?thesis using True Mapped physical_word[OF n] unfolding translate_def r_def[symmetric] by (simp add: looks_up_def set_tlb_def)
    next
      case False
      then have "wk_error wk \<noteq> 0" using err zero by simp
      then show ?thesis using denied False Mapped unfolding translate_def r_def[symmetric] by (simp add: looks_up_def err)
    qed
  qed
  then show thesis using that lk walk(3,4) by simp
qed

end

section \<open>Virtual memory\<close>

text \<open>Loads and stores by address space and virtual address; the result is the trap that the
  access raises or the bytes it returns.\<close>

datatype vm_op = Load u32 u32 u32 | Store u32 u32 "u8 list"

definition vm_step ::
    "(nat \<Rightarrow> u8) \<Rightarrow> (bool \<Rightarrow> 'w mem_if) \<Rightarrow> bool \<Rightarrow> bool \<Rightarrow> vm_op \<Rightarrow> 'w mmu_world \<Rightarrow> ((u32 + u8 list) \<times> 'w mmu_world) option" where
  "vm_step junk bus data locked op s =
     (let outcome = (\<lambda>d s. (case mw_exception s of None \<Rightarrow> Inr d | Some e \<Rightarrow> Inl e, s\<lparr>mw_exception := None\<rparr>))
      in case op of
           Load asi va len \<Rightarrow> map_option (\<lambda>(d, _, s). outcome d s) (if_read (tlb_adaptor junk bus data locked) va asi len False s)
         | Store asi va d \<Rightarrow> map_option (outcome []) (if_write (tlb_adaptor junk bus data locked) va asi d False s))"

text \<open>The memory, which holds the page tables too, and the fault registers.\<close>

record vm =
  vm_mem :: "u32 \<Rightarrow> u8"
  vm_fault_status :: u32
  vm_fault_address :: u32

text \<open>An access is within the model when the descriptors of its walk and the block of 32 bytes
  it touches are in the memory.\<close>

definition vm_access ::
    "(u32 \<Rightarrow> bool) \<Rightarrow> mmu \<Rightarrow> u32 \<Rightarrow> bool \<Rightarrow> u32 \<Rightarrow> nat \<Rightarrow> (u32 \<Rightarrow> u8 list \<times> (u32 \<Rightarrow> u8)) \<Rightarrow> vm \<Rightarrow> ((u32 + u8 list) \<times> vm) option" where
  "vm_access inside u asi is_write va n action v =
     (if walks_inside inside (vm_mem v) u va
      then (case translate (vm_mem v) u asi is_write va of
              Denied e \<Rightarrow> Some (Inl (trap_of asi),
                v\<lparr>vm_fault_status := fault_status asi is_write e (vm_fault_status v), vm_fault_address := va\<rparr>)
            | Physical pa \<Rightarrow>
                if inside pa \<and> unat pa mod 32 + n \<le> 32 then (let (d, f) = action pa in Some (Inr d, v\<lparr>vm_mem := f\<rparr>)) else None)
      else None)"

definition vm_spec :: "(u32 \<Rightarrow> bool) \<Rightarrow> mmu \<Rightarrow> vm_op \<Rightarrow> vm \<Rightarrow> ((u32 + u8 list) \<times> vm) option" where
  "vm_spec inside u op v =
     (case op of
        Load asi va len \<Rightarrow>
          vm_access inside u asi False va (unat len) (\<lambda>pa. (bytes_at (vm_mem v) pa (unat len), vm_mem v)) v
      | Store asi va d \<Rightarrow> vm_access inside u asi True va (length d) (\<lambda>pa. ([], write_at pa d (vm_mem v))) v)"

definition vm_of :: "('w \<Rightarrow> u32 \<Rightarrow> u8) \<Rightarrow> 'w mmu_world \<Rightarrow> vm" where
  "vm_of f s = \<lparr>vm_mem = f (mw_bus s), vm_fault_status = MMU_FAULT_STATUS_REG (mw_mmu s),
     vm_fault_address = MMU_FAULT_ADDRESS_REG (mw_mmu s)\<rparr>"

text \<open>The MMU is switched on and reports its faults.\<close>

definition vm_ready :: "('w \<Rightarrow> bool) \<Rightarrow> mmu \<Rightarrow> 'w mmu_world \<Rightarrow> bool" where
  "vm_ready ok u s =
     (ok (mw_bus s) \<and> mmu_wf (mw_mmu s) \<and> same_setup u (mw_mmu s) \<and> MMU_CONTROL_REG u AND 1 \<noteq> 0 \<and>
      MMU_CONTROL_REG u AND 2 = 0 \<and> mw_exception s = None)"

lemma same_setup_pointers: "same_setup u u' \<Longrightarrow> root_pointer u' = root_pointer u \<and> indices u' = indices u"
  by (simp add: same_setup_def root_pointer_def indices_def fun_eq_iff)

lemma same_setup_translate: "same_setup u u' \<Longrightarrow> translate f u' = translate f u \<and> walks_inside inside f u' = walks_inside inside f u"
  using same_setup_pointers[of u u'] by (simp add: translate_def walks_inside_def fun_eq_iff)

lemma same_setup_trans: "same_setup u u' \<Longrightarrow> same_setup u' u'' \<Longrightarrow> same_setup u u''"
  by (simp add: same_setup_def)

context behind_mmu
begin

lemma vm_step_load:
  assumes "vm_ready ok u s" and "vm_spec inside u (Load asi va len) (vm_of contents s) = Some (r, v')"
  shows "\<exists>s'. vm_step junk bus data locked (Load asi va len) s = Some (r, s') \<and> vm_ready ok u s' \<and> vm_of contents s' = v'"
proof -
  have s: "ok (mw_bus s)" "mmu_wf (mw_mmu s)" "same_setup u (mw_mmu s)" "MMU_CONTROL_REG (mw_mmu s) AND 1 \<noteq> 0"
      "MMU_CONTROL_REG (mw_mmu s) AND 2 = 0" "mw_exception s = None" and u: "MMU_CONTROL_REG u AND 1 \<noteq> 0" "MMU_CONTROL_REG u AND 2 = 0"
    using assms(1) by (auto simp: vm_ready_def same_setup_def)
  let ?f = "contents (mw_bus s)"
  have "walks_inside inside ?f u va" using assms(2) by (auto simp: vm_spec_def vm_access_def vm_of_def split: if_splits)
  then have "walks_inside inside ?f (mw_mmu s) va" by (simp add: same_setup_translate[OF s(3)])
  then obtain lk where lk: "tlb_lookup bus data va asi False False (mw_mmu s) (mw_bus s) = Some lk"
      "mmu_wf (lk_mmu lk)" "same_setup (mw_mmu s) (lk_mmu lk)" "ok (lk_bus lk)" "contents (lk_bus lk) = ?f"
      and "looks_up asi False va (mw_mmu s) lk (translate ?f (mw_mmu s) asi False va)"
    by (rule lookup_ok[OF s(1,2) _ s(5)])
  then have res: "looks_up asi False va (mw_mmu s) lk (translate ?f u asi False va)" by (simp add: same_setup_translate[OF s(3)])
  have same_u: "same_setup u (lk_mmu lk)" using same_setup_trans[OF s(3) lk(3)] .
  show ?thesis
  proof (cases "translate ?f u asi False va")
    case (Physical pa)
    then obtain a cacheable where a: "lk_result lk = Some (a, cacheable)" "ucast a = pa" using res by (auto simp: looks_up_def)
    have pa: "inside pa" "unat pa mod 32 + unat len \<le> 32" "r = Inr (bytes_at ?f pa (unat len))" "v' = vm_of contents s"
      using assms(2) Physical by (auto simp: vm_spec_def vm_access_def vm_of_def split: if_splits)
    obtain c w where rd: "if_read (bus locked) pa asi len False (lk_bus lk) = Some (bytes_at ?f pa (unat len), c, w)" "ok w" "contents w = ?f"
      using mem_level.read_ok[OF level lk(4) pa(1,2), of locked asi] lk(5) by auto
    show ?thesis
      using s(4,6) lk a pa(3,4) rd res Physical same_u u
      by (simp add: vm_step_def tlb_adaptor_def tlb_mem_read_def Let_def mw_update_def looks_up_def vm_ready_def vm_of_def)
  next
    case (Denied e)
    then have "r = Inl (trap_of asi)" "v' = (vm_of contents s)\<lparr>vm_fault_status := fault_status asi False e (MMU_FAULT_STATUS_REG (mw_mmu s)),
        vm_fault_address := va\<rparr>"
      using assms(2) by (auto simp: vm_spec_def vm_access_def vm_of_def split: if_splits)
    then show ?thesis
      using s(4,6) lk res Denied same_u u
      by (simp add: vm_step_def tlb_adaptor_def tlb_mem_read_def Let_def mw_update_def looks_up_def vm_ready_def vm_of_def)
  qed
qed

lemma vm_step_store:
  assumes "vm_ready ok u s" and "vm_spec inside u (Store asi va d) (vm_of contents s) = Some (r, v')"
  shows "\<exists>s'. vm_step junk bus data locked (Store asi va d) s = Some (r, s') \<and> vm_ready ok u s' \<and> vm_of contents s' = v'"
proof -
  have s: "ok (mw_bus s)" "mmu_wf (mw_mmu s)" "same_setup u (mw_mmu s)" "MMU_CONTROL_REG (mw_mmu s) AND 1 \<noteq> 0"
      "MMU_CONTROL_REG (mw_mmu s) AND 2 = 0" "mw_exception s = None" and u: "MMU_CONTROL_REG u AND 1 \<noteq> 0" "MMU_CONTROL_REG u AND 2 = 0"
    using assms(1) by (auto simp: vm_ready_def same_setup_def)
  let ?f = "contents (mw_bus s)"
  have "walks_inside inside ?f u va" using assms(2) by (auto simp: vm_spec_def vm_access_def vm_of_def split: if_splits)
  then have "walks_inside inside ?f (mw_mmu s) va" by (simp add: same_setup_translate[OF s(3)])
  then obtain lk where lk: "tlb_lookup bus data va asi False True (mw_mmu s) (mw_bus s) = Some lk"
      "mmu_wf (lk_mmu lk)" "same_setup (mw_mmu s) (lk_mmu lk)" "ok (lk_bus lk)" "contents (lk_bus lk) = ?f"
      and "looks_up asi True va (mw_mmu s) lk (translate ?f (mw_mmu s) asi True va)"
    by (rule lookup_ok[OF s(1,2) _ s(5)])
  then have res: "looks_up asi True va (mw_mmu s) lk (translate ?f u asi True va)" by (simp add: same_setup_translate[OF s(3)])
  have same_u: "same_setup u (lk_mmu lk)" using same_setup_trans[OF s(3) lk(3)] .
  show ?thesis
  proof (cases "translate ?f u asi True va")
    case (Physical pa)
    then obtain a cacheable where a: "lk_result lk = Some (a, cacheable)" "ucast a = pa" using res by (auto simp: looks_up_def)
    have pa: "inside pa" "unat pa mod 32 + length d \<le> 32" "r = Inr []" "v' = (vm_of contents s)\<lparr>vm_mem := write_at pa d ?f\<rparr>"
      using assms(2) Physical by (auto simp: vm_spec_def vm_access_def vm_of_def split: if_splits)
    obtain w where wr: "if_write (bus cacheable) pa asi d False (lk_bus lk) = Some w" "ok w" "contents w = write_at pa d ?f"
      using mem_level.write_ok[OF level lk(4) pa(1,2), of cacheable asi] lk(5) by auto
    show ?thesis
      using s(4,6) lk a pa(3,4) wr res Physical same_u u
      by (simp add: vm_step_def tlb_adaptor_def tlb_mem_write_def Let_def mw_update_def looks_up_def vm_ready_def vm_of_def)
  next
    case (Denied e)
    then have "r = Inl (trap_of asi)" "v' = (vm_of contents s)\<lparr>vm_fault_status := fault_status asi True e (MMU_FAULT_STATUS_REG (mw_mmu s)),
        vm_fault_address := va\<rparr>"
      using assms(2) by (auto simp: vm_spec_def vm_access_def vm_of_def split: if_splits)
    then show ?thesis
      using s(4,6) lk res Denied same_u u
      by (simp add: vm_step_def tlb_adaptor_def tlb_mem_write_def Let_def mw_update_def looks_up_def vm_ready_def vm_of_def)
  qed
qed

lemma vm_run:
  assumes "vm_ready ok u s" and "exec_ops (vm_spec inside u) ops (vm_of contents s) = Some (rs, v')"
  shows "\<exists>s'. exec_ops (vm_step junk bus data locked) ops s = Some (rs, s') \<and> vm_ready ok u s' \<and> vm_of contents s' = v'"
proof (rule exec_ops_simulation[where R = "\<lambda>s v. vm_ready ok u s \<and> vm_of contents s = v"])
  show "\<exists>s'. vm_step junk bus data locked op s = Some (r, s') \<and> vm_ready ok u s' \<and> vm_of contents s' = v'"
    if "vm_ready ok u s \<and> vm_of contents s = v" "vm_spec inside u op v = Some (r, v')" for op s v r v'
    using vm_step_load vm_step_store that by (cases op) blast+
  show "vm_ready ok u s \<and> vm_of contents s = vm_of contents s" using assms(1) by simp
  show "exec_ops (vm_spec inside u) ops (vm_of contents s) = Some (rs, v')" by fact
qed

end

end
