(* ===== verification/Mmu_Claims.thy ===== *)
theory Mmu_Claims
  imports Mmu_Translation
begin

text \<open>
  Virtual memory on the AHB: the MMU in front of the bus master, the controller and the AHB
  memories, with a small system on which the statements are applied.
\<close>

section \<open>A sample system\<close>

text \<open>Two memories of one megabyte; the first holds a context table whose first descriptor
  points to the level-1 table at the same address, whose second descriptor maps the 16
  megabytes from 0x01000000 to 0x40000000, readable and writable.\<close>

definition table_memory :: memory_slave where
  "table_memory = (sample_memory 0x400 0)\<lparr>ms_mem := (ms_mem (sample_memory 0x400 0))\<lparr>am_memory :=
     base_memory_init \<lparr>as_data = [4, 0, 0, 1, 4, 0, 0, 6] @ replicate (2 ^ 20 - 8) 0, as_size = 2 ^ 20\<rparr>\<rparr>\<rparr>"

definition sample_system :: ahb_system where
  "sample_system = (sample_bus\<lparr>g_fpnpen := False\<rparr>, [sample_memory 0x401 7, table_memory])"

definition sample_mmu :: mmu where
  "sample_mmu = \<lparr>m_itlbnum = 8, m_dtlbnum = 8, m_tlb_type = 0, m_tlb_rep = 0, m_vtag_width = 20, mmu_pseudo_rand = 0,
     MMU_CONTROL_REG = 1, MMU_CONTEXT_TABLE_POINTER_REG = 0x4000000, MMU_CONTEXT_REG = 0, MMU_FAULT_STATUS_REG = 0,
     MMU_FAULT_ADDRESS_REG = 0, m_itlb = [], m_dtlb = []\<rparr>"

lemma sample_bus_ok: "bus_ok sample_map (\<lambda>_. False) sample_system"
proof -
  have "map_check sample_map" by code_simp
  then have "decoder_wf (sample_bus\<lparr>g_fpnpen := False\<rparr>)"
    using map_check_wf by (simp add: decoder_wf_def sample_bus_def ahbctrl_init_def cache_wf_def)
  moreover have "slave_nr (0x400, \<lparr>si_index = 1, si_mask = 0xFFF, si_binding = 4\<rparr>) = 1"
    "slave_nr (0x401, \<lparr>si_index = 2, si_mask = 0xFFF, si_binding = 0\<rparr>) = 0"
    by code_simp+
  moreover have "slave_fits (0x400, \<lparr>si_index = 1, si_mask = 0xFFF, si_binding = 4\<rparr>) table_memory"
    "slave_fits (0x401, \<lparr>si_index = 2, si_mask = 0xFFF, si_binding = 0\<rparr>) (sample_memory 0x401 7)"
    by (simp_all add: slave_fits_def table_memory_def sample_memory_def get_ahb_bar_base_def get_ahb_bar_mask_def select_bar_def
        base_memory_init_def region_size_def)
  ultimately show ?thesis
    by (auto simp: bus_ok_def sample_system_def system_wf_def sample_bus_def sample_map_def inj_on_def is_pnp_def)
qed

lemma sample_inside:
  assumes "0x40000000 \<le> unat a" and "unat a < 0x40100000"
  shows "bus_inside sample_map (\<lambda>_. False) a"
proof -
  have "0x40000000 div 32 \<le> unat a div 32" using assms(1) by (rule div_le_mono)
  moreover have "unat a div 32 < 0x40100000 div 32" using assms(2) by (intro less_mult_imp_div_less) simp
  ultimately show ?thesis
    by (auto simp: bus_inside_def sample_map_def region_base_def region_size_def)
qed

lemma sample_contents:
  assumes "0x40000000 \<le> unat a" and "unat a < 0x40100000"
  shows "bus_contents sample_system a = ([4, 0, 0, 1, 4, 0, 0, 6] @ replicate (2 ^ 20 - 8) 0) ! (unat a - 0x40000000)"
proof -
  have "slave_map_wf (slave_map sample_bus)" using sample_system_wf by (simp add: system_wf_def decoder_wf_def)
  then have "matching (drop_bit 20 a) (slave_map sample_bus) = Some (0x400, \<lparr>si_index = 1, si_mask = 0xFFF, si_binding = 4\<rparr>)"
    using assms by (intro region_unique) (simp_all add: sample_bus_def sample_map_def region_base_def region_size_def)
  then show ?thesis
    by (simp add: bus_contents_def sample_system_def flat_memory_def slave_of_def table_memory_def base_memory_init_def region_base_def)
qed

lemma sample_words:
  "be_word (bus_contents sample_system) 0x40000000 = 0x4000001"
  "be_word (bus_contents sample_system) 0x40000004 = 0x4000006"
  "be_word (bus_contents sample_system) 0x40000008 = 0"
  by (simp_all add: be_word_def sample_contents nth_append)

section \<open>Virtual memory\<close>

text \<open>(C5) With the MMU switched on and its faults reported, any sequence of loads and stores
  that reaches the AHB memories through the MMU behaves like a virtual memory: every access is
  translated by walking the tables that the memory holds at that moment, is performed at the
  physical address if the page grants the right, and otherwise raises its trap, changes no byte
  and leaves its cause and its address in the fault registers.  No stale translation is used,
  and the TLBs keep to their sizes.\<close>

theorem virtual_memory:
  assumes "vm_ready (bus_ok m pnp) u s" and "exec_ops (vm_spec (bus_inside m pnp) u) ops (vm_of bus_contents s) = Some (rs, v)"
  shows "\<exists>s'. exec_ops (vm_step junk (bus_if junk (system_master mid) cached) data locked) ops s = Some (rs, s') \<and>
    vm_ready (bus_ok m pnp) u s' \<and> vm_of bus_contents s' = v"
  using assms by (rule ahb.vm_run)

lemma sample_ready: "vm_ready (bus_ok sample_map (\<lambda>_. False)) sample_mmu \<lparr>mw_mmu = sample_mmu, mw_bus = sample_system, mw_exception = None\<rparr>"
  using sample_bus_ok by (simp add: vm_ready_def mmu_wf_def sample_mmu_def tlb_fits_def same_setup_def)

lemma sample_translation:
  assumes "be_word f 0x40000000 = 0x4000001" and "be_word f 0x40000004 = 0x4000006" and "be_word f 0x40000008 = 0"
  shows "translate f sample_mmu 0xb is_write 0x1000010 = Physical 0x40000010"
    "translate f sample_mmu 9 False 0x1000010 = Denied 8"
    "translate f sample_mmu 0xb is_write 0x2000000 = Denied 0x104"
    "walks_inside (bus_inside sample_map (\<lambda>_. False)) f sample_mmu 0x1000010"
    "walks_inside (bus_inside sample_map (\<lambda>_. False)) f sample_mmu 0x2000000"
  using assms
  by (simp_all add: translate_def walks_inside_def root_pointer_def indices_def sample_mmu_def next_pointer_def leaf_def page_bits_def
      Let_def protection_fault_def needs_def rights_def sample_inside take_bit_eq_mask mask_eq_exp_minus_1)

theorem virtual_memory_witness:
  "\<exists>s'. exec_ops (vm_step (\<lambda>_. 0) (bus_if (\<lambda>_. 0) (system_master 0) 0) True False)
       [Store 0xb 0x1000010 [1, 2, 3, 4], Load 0xb 0x1000010 4, Load 9 0x1000010 4, Store 0xb 0x2000000 [5]]
       \<lparr>mw_mmu = sample_mmu, mw_bus = sample_system, mw_exception = None\<rparr>
     = Some ([Inr [], Inr [1, 2, 3, 4], Inl 5, Inl 19], s') \<and>
     bus_contents (mw_bus s') 0x40000011 = 2 \<and> MMU_FAULT_ADDRESS_REG (mw_mmu s') = 0x2000000"
proof -
  let ?s = "\<lparr>mw_mmu = sample_mmu, mw_bus = sample_system, mw_exception = None\<rparr>"
  define f where "f = bus_contents sample_system"
  define g where "g = write_at 0x40000010 [1, 2, 3, 4] f"
  have f: "be_word f 0x40000000 = 0x4000001" "be_word f 0x40000004 = 0x4000006" "be_word f 0x40000008 = 0"
    by (simp_all add: f_def sample_words)
  then have g: "be_word g 0x40000000 = 0x4000001" "be_word g 0x40000004 = 0x4000006" "be_word g 0x40000008 = 0"
    by (simp_all add: g_def be_word_def write_at_def)
  have b: "bytes_at g 0x40000010 4 = [1, 2, 3, 4]" by (simp add: g_def bytes_at_def write_at_def upt_rec)
  obtain v where v: "exec_ops (vm_spec (bus_inside sample_map (\<lambda>_. False)) sample_mmu)
       [Store 0xb 0x1000010 [1, 2, 3, 4], Load 0xb 0x1000010 4, Load 9 0x1000010 4, Store 0xb 0x2000000 [5]]
       (vm_of bus_contents ?s) = Some ([Inr [], Inr [1, 2, 3, 4], Inl 5, Inl 19], v)" "vm_mem v = g" "vm_fault_address v = 0x2000000"
    using sample_translation[OF f] sample_translation[OF g] b
    by (simp add: vm_spec_def vm_access_def vm_of_def sample_inside trap_of_def flip: f_def g_def)
  then show ?thesis
    using virtual_memory[OF sample_ready v(1), of "\<lambda>_. 0" 0 0 True False] by (auto simp: vm_of_def g_def write_at_def)
qed

end
