(* ===== verification/Leon3_Bus.thy ===== *)
theory Leon3_Bus
  imports Mmu_Cache Leon3_Memory
begin

text \<open>
  The class \<^verbatim>\<open>Leon3\<close> (src/gaisler/leon3/leon3.cpp): the memory interface of the processor
  core, implemented on the memory sub-system, with the conversions between the host's and
  the target's byte order, and its debug accesses; and the payload interface of the stand-alone
  memory sub-system \<^verbatim>\<open>mmu_cache\<close> (mmucache/mmu_cache.cpp).
\<close>

section \<open>State\<close>

record 'w leon3_bus =
  lb_cache :: "'w mmu_cache"
  lb_debugger :: bool
  lb_notified :: "(u32 \<times> nat) list"

definition lb_notify :: "u32 \<Rightarrow> nat \<Rightarrow> 'w leon3_bus \<Rightarrow> 'w leon3_bus" where
  "lb_notify address n s = (if lb_debugger s then s\<lparr>lb_notified := lb_notified s @ [(address, n)]\<rparr> else s)"

text \<open>An access by the data port: the bytes, the exception the MMU raised and the state.  The
  response is not looked at.\<close>

definition clear_exception :: "'w mmu_cache \<Rightarrow> 'w mmu_cache" where
  "clear_exception s = s\<lparr>mc_below := (mc_below s)\<lparr>bl_exception := None\<rparr>\<rparr>"

definition leon3_access ::
    "(nat \<Rightarrow> u8) \<Rightarrow> 'w master \<Rightarrow> tlm_command \<Rightarrow> u32 \<Rightarrow> u8 list \<Rightarrow> u32 \<Rightarrow> u32 \<Rightarrow> u32 \<Rightarrow> bool \<Rightarrow> 'w leon3_bus
      \<Rightarrow> (u8 list \<times> u32 option \<times> 'w leon3_bus) option" where
  "leon3_access junk ahb cmd address buf asi flush locked is_dbg s =
     map_option (\<lambda>(_, d, c). (d, bl_exception (mc_below c), s\<lparr>lb_cache := c\<rparr>))
       (exec_data junk ahb cmd address buf asi flush locked is_dbg Incomplete_response (clear_exception (lb_cache s)))"

definition host_block :: "nat \<Rightarrow> 'a::len word \<Rightarrow> u8 list" where
  "host_block n w = store_host n w (replicate n 0) 0"

section \<open>Reads\<close>

definition leon3_read_instr ::
    "(nat \<Rightarrow> u8) \<Rightarrow> 'w master \<Rightarrow> u32 \<Rightarrow> u32 \<Rightarrow> u32 \<Rightarrow> 'w leon3_bus \<Rightarrow> (u32 \<times> u32 option \<times> 'w leon3_bus) option" where
  "leon3_read_instr junk ahb address asi flush s =
     map_option (\<lambda>(d, c). (swapEndianess32 (load_host 4 d 0), bl_exception (mc_below c), s\<lparr>lb_cache := c\<rparr>))
       (exec_instr junk ahb address asi False (clear_exception (lb_cache s)))"

definition leon3_read_dword ::
    "(nat \<Rightarrow> u8) \<Rightarrow> 'w master \<Rightarrow> u32 \<Rightarrow> u32 \<Rightarrow> u32 \<Rightarrow> u32 \<Rightarrow> 'w leon3_bus \<Rightarrow> (u64 \<times> u32 option \<times> 'w leon3_bus) option" where
  "leon3_read_dword junk ahb address asi flush locked s =
     map_option (\<lambda>(d, e, s). (swapHalves (load_host 8 d 0), e, s))
       (leon3_access junk ahb Read_command address (replicate 8 0) asi flush locked False s)"

definition leon3_read_word ::
    "(nat \<Rightarrow> u8) \<Rightarrow> 'w master \<Rightarrow> u32 \<Rightarrow> u32 \<Rightarrow> u32 \<Rightarrow> u32 \<Rightarrow> 'w leon3_bus \<Rightarrow> (u32 \<times> u32 option \<times> 'w leon3_bus) option" where
  "leon3_read_word junk ahb address asi flush locked s =
     map_option (\<lambda>(d, e, s). (swapEndianess32 (load_host 4 d 0), e, s))
       (leon3_access junk ahb Read_command address (replicate 4 0) asi flush locked False s)"

definition leon3_read_half ::
    "(nat \<Rightarrow> u8) \<Rightarrow> 'w master \<Rightarrow> u32 \<Rightarrow> u32 \<Rightarrow> u32 \<Rightarrow> u32 \<Rightarrow> 'w leon3_bus \<Rightarrow> (u16 \<times> u32 option \<times> 'w leon3_bus) option" where
  "leon3_read_half junk ahb address asi flush locked s =
     map_option (\<lambda>(d, e, s). (swapEndianess16 (load_host 2 d 0), e, s))
       (leon3_access junk ahb Read_command address (replicate 2 0) asi flush locked False s)"

definition leon3_read_byte ::
    "(nat \<Rightarrow> u8) \<Rightarrow> 'w master \<Rightarrow> u32 \<Rightarrow> u32 \<Rightarrow> u32 \<Rightarrow> u32 \<Rightarrow> 'w leon3_bus \<Rightarrow> (u8 \<times> u32 option \<times> 'w leon3_bus) option" where
  "leon3_read_byte junk ahb address asi flush locked s =
     map_option (\<lambda>(d, e, s). (d ! 0, e, s))
       (leon3_access junk ahb Read_command address [0] asi flush locked False s)"

section \<open>Writes\<close>

definition leon3_write_block ::
    "(nat \<Rightarrow> u8) \<Rightarrow> 'w master \<Rightarrow> u32 \<Rightarrow> u8 list \<Rightarrow> u32 \<Rightarrow> u32 \<Rightarrow> u32 \<Rightarrow> 'w leon3_bus \<Rightarrow> (u32 option \<times> 'w leon3_bus) option" where
  "leon3_write_block junk ahb address d asi flush locked s =
     map_option (\<lambda>(_, e, s). (e, s))
       (leon3_access junk ahb Write_command address d asi flush locked False (lb_notify address (length d) s))"

definition leon3_write_dword ::
    "(nat \<Rightarrow> u8) \<Rightarrow> 'w master \<Rightarrow> u32 \<Rightarrow> u64 \<Rightarrow> u32 \<Rightarrow> u32 \<Rightarrow> u32 \<Rightarrow> 'w leon3_bus \<Rightarrow> (u32 option \<times> 'w leon3_bus) option" where
  "leon3_write_dword junk ahb address datum = leon3_write_block junk ahb address (host_block 8 (swapHalves datum))"

definition leon3_write_word ::
    "(nat \<Rightarrow> u8) \<Rightarrow> 'w master \<Rightarrow> u32 \<Rightarrow> u32 \<Rightarrow> u32 \<Rightarrow> u32 \<Rightarrow> u32 \<Rightarrow> 'w leon3_bus \<Rightarrow> (u32 option \<times> 'w leon3_bus) option" where
  "leon3_write_word junk ahb address datum = leon3_write_block junk ahb address (host_block 4 (swapEndianess32 datum))"

definition leon3_write_half ::
    "(nat \<Rightarrow> u8) \<Rightarrow> 'w master \<Rightarrow> u32 \<Rightarrow> u16 \<Rightarrow> u32 \<Rightarrow> u32 \<Rightarrow> u32 \<Rightarrow> 'w leon3_bus \<Rightarrow> (u32 option \<times> 'w leon3_bus) option" where
  "leon3_write_half junk ahb address datum = leon3_write_block junk ahb address (host_block 2 (swapEndianess16 datum))"

definition leon3_write_byte ::
    "(nat \<Rightarrow> u8) \<Rightarrow> 'w master \<Rightarrow> u32 \<Rightarrow> u8 \<Rightarrow> u32 \<Rightarrow> u32 \<Rightarrow> u32 \<Rightarrow> 'w leon3_bus \<Rightarrow> (u32 option \<times> 'w leon3_bus) option" where
  "leon3_write_byte junk ahb address datum = leon3_write_block junk ahb address [datum]"

definition leon3_if :: "(nat \<Rightarrow> u8) \<Rightarrow> 'w master \<Rightarrow> 'w leon3_bus cpu_if" where
  "leon3_if junk ahb = \<lparr>
     if_read_instr = leon3_read_instr junk ahb, if_read_dword = leon3_read_dword junk ahb,
     if_read_word = leon3_read_word junk ahb, if_read_half = leon3_read_half junk ahb,
     if_read_byte = leon3_read_byte junk ahb, if_write_dword = leon3_write_dword junk ahb,
     if_write_word = leon3_write_word junk ahb, if_write_half = leon3_write_half junk ahb,
     if_write_byte = leon3_write_byte junk ahb\<rparr>"

section \<open>Debug accesses\<close>

text \<open>The debugger's accesses use address space 8; the bytes before the conversion to the
  host's order, and the writes after it.\<close>

definition leon3_read_dbg ::
    "(nat \<Rightarrow> u8) \<Rightarrow> 'w master \<Rightarrow> u32 \<Rightarrow> nat \<Rightarrow> 'w leon3_bus \<Rightarrow> (u8 list \<times> u32 option \<times> 'w leon3_bus) option" where
  "leon3_read_dbg junk ahb address n s =
     leon3_access junk ahb Read_command address (replicate n 0) 8 0 0 True s"

definition leon3_write_dbg ::
    "(nat \<Rightarrow> u8) \<Rightarrow> 'w master \<Rightarrow> u32 \<Rightarrow> u8 list \<Rightarrow> 'w leon3_bus \<Rightarrow> (u8 list \<times> u32 option \<times> 'w leon3_bus) option" where
  "leon3_write_dbg junk ahb address d s = leon3_access junk ahb Write_command address d 8 0 0 True s"

section \<open>The stand-alone memory sub-system\<close>

text \<open>The payload extensions: address space, flush and lock; without one a data access is taken
  for an unprivileged one.\<close>

record dcio_extension =
  dx_asi :: u32
  dx_flush :: u32
  dx_lock :: u32

definition dcio_exec_data ::
    "(nat \<Rightarrow> u8) \<Rightarrow> 'w master \<Rightarrow> dcio_extension option \<Rightarrow> payload \<Rightarrow> bool \<Rightarrow> 'w mmu_cache \<Rightarrow> (payload \<times> 'w mmu_cache) option" where
  "dcio_exec_data junk ahb dext gp is_dbg s =
     (let x = (case dext of None \<Rightarrow> \<lparr>dx_asi = 0xA, dx_flush = 0, dx_lock = 0\<rparr> | Some x \<Rightarrow> x)
      in map_option (\<lambda>(response, d, s). (gp\<lparr>p_data := d, p_response := response\<rparr>, s))
           (exec_data junk ahb (p_command gp) (ucast (p_address gp)) (p_data gp) (dx_asi x) (dx_flush x) (dx_lock x)
              is_dbg Command_error_response s))"

text \<open>An instruction access reads four bytes whatever the length of the payload.\<close>

definition icio_exec_instr ::
    "(nat \<Rightarrow> u8) \<Rightarrow> 'w master \<Rightarrow> u32 option \<Rightarrow> payload \<Rightarrow> bool \<Rightarrow> 'w mmu_cache \<Rightarrow> (payload \<times> 'w mmu_cache) option" where
  "icio_exec_instr junk ahb iext gp is_dbg s =
     (if iext \<noteq> None \<and> iext \<noteq> Some 0 then Some (gp\<lparr>p_response := Ok_response\<rparr>, flush_both s)
      else if p_command gp = Read_command
      then (if 4 \<le> length (p_data gp)
            then map_option (\<lambda>(d, s). (gp\<lparr>p_data := d @ drop 4 (p_data gp), p_response := Ok_response\<rparr>, s))
                   (exec_instr junk ahb (ucast (p_address gp)) 8 is_dbg s)
            else None)
      else Some (gp\<lparr>p_response := Command_error_response\<rparr>, s))"

end
