(* ===== verification/Leon3_System.thy ===== *)
theory Leon3_System
  imports Mmu_Claims Leon3_Bus
begin

text \<open>
  The processor's view of the machine: data accesses through the caches, the MMU while it is
  off, the bus master, the controller and the AHB memories, mixed with cache maintenance and
  with the accesses of other masters, which the data cache snoops.
\<close>

section \<open>The memory sub-system over the AHB\<close>

abbreviation bus_mem :: "ahb_system mmu_cache \<Rightarrow> u32 \<Rightarrow> u8" where
  "bus_mem s \<equiv> bus_contents (bl_bus (mc_below s))"

text \<open>The data cache is coherent with the memories, enabled or frozen, and snoops.\<close>

definition dcache_ok :: "ahb_system mmu_cache \<Rightarrow> bool" where
  "dcache_ok s =
     (case mc_dcache s of
        None \<Rightarrow> True
      | Some c \<Rightarrow> fit c (bus_mem s) \<and> vc_kind c = Dcache \<and> drop_bit 2 (CACHE_CONTROL_REG s) AND 1 \<noteq> 0 \<and> m_dcen s \<and> m_dsnoop s)"

definition sys_ok :: "slave_info omap \<Rightarrow> (u32 \<Rightarrow> bool) \<Rightarrow> ahb_system mmu_cache \<Rightarrow> bool" where
  "sys_ok m pnp s = (below_ok (bus_ok m pnp) (mc_below s) \<and> dcache_ok s)"

text \<open>What no access changes.\<close>

definition setup_of :: "'w mmu_cache \<Rightarrow> bool \<times> bool \<times> bool \<times> u32 \<times> bool \<times> u32 \<times> u32 \<times> u32" where
  "setup_of s = (m_dcen s, m_dsnoop s, m_ilram s, m_ilramstart s, m_dlram s, m_dlramstart s, m_cached s, m_master_id s)"

definition in_scratchpad :: "'w mmu_cache \<Rightarrow> u32 \<Rightarrow> bool" where
  "in_scratchpad s a = (m_ilram s \<and> in_segment a (m_ilramstart s) \<or> m_dlram s \<and> in_segment a (m_dlramstart s))"

lemma setup_scratchpad: "setup_of s' = setup_of s \<Longrightarrow> in_scratchpad s' = in_scratchpad s"
  by (simp add: setup_of_def in_scratchpad_def fun_eq_iff)

abbreviation one_line :: "u32 \<Rightarrow> nat \<Rightarrow> bool" where
  "one_line a n \<equiv> unat a mod 16 + n \<le> 16"

lemma one_line_32: "one_line a n \<Longrightarrow> unat a mod 32 + n \<le> 32"
proof -
  assume "one_line a n"
  moreover have "unat a mod 32 = unat a mod 16 \<or> unat a mod 32 = unat a mod 16 + 16"
    using mod_mult2_eq[of "unat a" 16 2] by auto
  ultimately show ?thesis by auto
qed

lemma one_line_offset:
  assumes "geometry c" and "one_line a n"
  shows "unat (get_offset c a) + n \<le> line_bytes c"
proof -
  have "unat (get_offset c a) = unat a mod line_bytes c" using address_parts[OF assms(1)] by simp
  moreover have "line_bytes c = 16 \<or> line_bytes c = 32" using assms(1) by (auto simp: geometry_def)
  ultimately show ?thesis using assms(2) one_line_32[OF assms(2)] by auto
qed

lemma one_line_len: "one_line a n \<Longrightarrow> unat (of_nat n :: u32) = n"
  by (simp add: unat_of_nat)

lemma config_kind: "config c' = config c \<Longrightarrow> vc_kind c' = vc_kind c"
  by (simp add: config_def)

lemma dcache_mode: "vc_kind c = Dcache \<Longrightarrow> check_mode c ccr = drop_bit 2 ccr AND 3"
  by (simp add: check_mode_def)

lemma and_3_and_1: "((x :: u32) AND 3) AND 1 = x AND 1"
  by (simp add: and.assoc)

section \<open>Loads and stores\<close>

lemma not_in_scratchpad:
  assumes "\<not> in_scratchpad s a"
  shows "(m_ilram s \<and> in_segment a (m_ilramstart s)) = False" "(m_dlram s \<and> in_segment a (m_dlramstart s)) = False"
  using assms by (auto simp: in_scratchpad_def)

lemma sys_ok_access:
  assumes "sys_ok m pnp s" and "mc_dcache s = Some c" and "config c' = config c"
    and "fit c' (bus_contents (bl_bus b))" and "below_ok (bus_ok m pnp) b"
  shows "sys_ok m pnp (s\<lparr>mc_dcache := Some c', mc_below := b\<rparr>)"
  using assms config_kind[OF assms(3)] by (simp add: sys_ok_def dcache_ok_def)

lemma data_read_ok:
  assumes ok: "sys_ok m pnp s" and a: "bus_inside m pnp a" "one_line a n" "\<not> in_scratchpad s a"
  shows "\<exists>s'. data_read junk (system_master (m_master_id s)) a asi (of_nat n) locked False s = Some (bytes_at (bus_mem s) a n, s') \<and>
    sys_ok m pnp s' \<and> bus_mem s' = bus_mem s \<and> setup_of s' = setup_of s"
proof -
  have b: "below_ok (bus_ok m pnp) (mc_below s)" and d: "dcache_ok s" using ok by (simp_all add: sys_ok_def)
  have n: "unat (of_nat n :: u32) = n" using a(2) by (rule one_line_len)
  show ?thesis
  proof (cases "mc_dcache s")
    case None
    obtain cacheable b' where "if_read (next_level junk (bus_if junk (system_master (m_master_id s)) (m_cached s)) True locked) a asi (of_nat n) False (mc_below s) =
        Some (bytes_at (bus_mem s) a n, cacheable, b')" "below_ok (bus_ok m pnp) b'" "bus_contents (bl_bus b') = bus_mem s"
      using ahb.off.read_ok[OF b a(1), of "of_nat n"] one_line_32[OF a(2)] unfolding n by blast
    then show ?thesis
      by (intro exI[of _ "s\<lparr>mc_dcache := None, mc_below := b'\<rparr>"])
        (simp add: data_read_def not_in_scratchpad[OF a(3)] None cache_read_def sys_ok_def dcache_ok_def setup_of_def)
  next
    case (Some c)
    then have c: "fit c (bus_mem s)" using d by (simp add: dcache_ok_def)
    then have geo: "geometry c" by (simp add: fit_def)
    obtain c' b' where "vc_mem_read (next_level junk (bus_if junk (system_master (m_master_id s)) (m_cached s)) True locked)
          (CACHE_CONTROL_REG s) a asi (of_nat n) False c (mc_below s) = Some (bytes_at (bus_mem s) a n, c', b')"
        "fit c' (bus_contents (bl_bus b'))" "below_ok (bus_ok m pnp) b'" "bus_contents (bl_bus b') = bus_mem s" "config c' = config c"
      using ahb.off.read_transparent[OF c b a(1), of "of_nat n"] one_line_offset[OF geo a(2)] unfolding n by blast
    then show ?thesis using sys_ok_access[OF ok Some, of c' b']
      by (intro exI[of _ "s\<lparr>mc_dcache := Some c', mc_below := b'\<rparr>"])
        (simp add: data_read_def not_in_scratchpad[OF a(3)] Some cache_read_def setup_of_def)
  qed
qed

lemma data_write_ok:
  assumes ok: "sys_ok m pnp s" and a: "bus_inside m pnp a" "one_line a (length d)" "\<not> in_scratchpad s a" and asi: "asi \<noteq> 0x1c"
  shows "\<exists>s'. data_write junk (system_master (m_master_id s)) a asi d locked False s = Some s' \<and>
    sys_ok m pnp s' \<and> bus_mem s' = write_at a d (bus_mem s) \<and> setup_of s' = setup_of s"
proof -
  have b: "below_ok (bus_ok m pnp) (mc_below s)" and d: "dcache_ok s" using ok by (simp_all add: sys_ok_def)
  show ?thesis
  proof (cases "mc_dcache s")
    case None
    obtain b' where "if_write (next_level junk (bus_if junk (system_master (m_master_id s)) (m_cached s)) True locked) a asi d False (mc_below s) =
        Some b'" "below_ok (bus_ok m pnp) b'" "bus_contents (bl_bus b') = write_at a d (bus_mem s)"
      using ahb.off.write_ok[OF b a(1) one_line_32[OF a(2)]] by blast
    then show ?thesis
      by (intro exI[of _ "s\<lparr>mc_dcache := None, mc_below := b'\<rparr>"])
        (simp add: data_write_def not_in_scratchpad[OF a(3)] None cache_write_def sys_ok_def dcache_ok_def setup_of_def)
  next
    case (Some c)
    then have c: "fit c (bus_mem s)" "vc_kind c = Dcache" "drop_bit 2 (CACHE_CONTROL_REG s) AND 1 \<noteq> 0" using d by (simp_all add: dcache_ok_def)
    then have geo: "geometry c" by (simp add: fit_def)
    have on: "check_mode c (CACHE_CONTROL_REG s) AND 1 \<noteq> 0" using c(3) by (simp add: dcache_mode[OF c(2)] and_3_and_1)
    obtain c' b' where "vc_mem_write (next_level junk (bus_if junk (system_master (m_master_id s)) (m_cached s)) True locked)
          (CACHE_CONTROL_REG s) a asi d False c (mc_below s) = Some (c', b')"
        "fit c' (bus_contents (bl_bus b'))" "below_ok (bus_ok m pnp) b'" "bus_contents (bl_bus b') = write_at a d (bus_mem s)" "config c' = config c"
      using ahb.off.write_transparent[OF c(1) b a(1) one_line_offset[OF geo a(2)] asi on] by blast
    then show ?thesis using sys_ok_access[OF ok Some, of c' b']
      by (intro exI[of _ "s\<lparr>mc_dcache := Some c', mc_below := b'\<rparr>"])
        (simp add: data_write_def not_in_scratchpad[OF a(3)] Some cache_write_def setup_of_def)
  qed
qed

section \<open>Cache maintenance and other masters\<close>

definition flush_asi :: "u32 \<Rightarrow> bool" where
  "flush_asi asi = (asi \<in> {0x11, 0x15, 0x16})"

lemma flush_fit: "fit c f \<Longrightarrow> fit (vc_flush c) f \<and> config (vc_flush c) = config c"
  using fewer_fit[OF _ flush_fewer] by (auto simp: fit_def fewer_def dest: flush_fewer)

lemma flush_dcache_ok:
  assumes "sys_ok m pnp s" and "mc_below s' = mc_below s" and "setup_of s' = setup_of s"
    and "mc_dcache s' \<in> {mc_dcache s, cache_flush (mc_dcache s)}"
    and "mc_dcache s' = None \<or> drop_bit 2 (CACHE_CONTROL_REG s') AND 1 \<noteq> 0"
  shows "sys_ok m pnp s'"
proof (cases "mc_dcache s")
  case None
  then show ?thesis using assms by (simp add: sys_ok_def dcache_ok_def)
next
  case (Some c)
  then have c: "fit c (bus_mem s)" "vc_kind c = Dcache" "m_dcen s" "m_dsnoop s"
    using assms(1) by (simp_all add: sys_ok_def dcache_ok_def)
  then obtain c' where c': "mc_dcache s' = Some c'" "fit c' (bus_mem s)" "config c' = config c"
    using assms(4) Some flush_fit[OF c(1)] by auto
  moreover have "m_dcen s' = m_dcen s" "m_dsnoop s' = m_dsnoop s" using assms(3) by (simp_all add: setup_of_def)
  ultimately show ?thesis
    using assms(1,2,5) c config_kind[OF c'(3)] by (simp add: sys_ok_def dcache_ok_def)
qed

text \<open>A write of another master: the transfer, and the snooping of the data cache.\<close>

definition other_access :: "u32 \<Rightarrow> tlm_command \<Rightarrow> u32 \<Rightarrow> u8 list \<Rightarrow> ahb_system mmu_cache \<Rightarrow> (u8 list \<times> ahb_system mmu_cache) option" where
  "other_access mid cmd a d s =
     (case ahb_b_transport memory_socket mid (master_payload cmd a d False) 0 (fst (bl_bus (mc_below s))) (snd (bl_bus (mc_below s))) of
        None \<Rightarrow> None
      | Some (_, gp, sn, cw) \<Rightarrow>
          map_option (\<lambda>s. (p_data gp, s))
            ((case sn of None \<Rightarrow> Some | Some sn \<Rightarrow> snoopingCallBack sn) (s\<lparr>mc_below := (mc_below s)\<lparr>bl_bus := cw\<rparr>\<rparr>)))"

lemma below_ok_bus: "below_ok ok b \<Longrightarrow> ok w \<Longrightarrow> below_ok ok (b\<lparr>bl_bus := w\<rparr>)"
  by (simp add: below_ok_def translation_off_def)

lemma other_write_ok:
  assumes ok: "sys_ok m pnp s" and a: "bus_inside m pnp a" "one_line a (length d)" "4 dvd unat a" "unat a + length d + 3 < 2 ^ 32"
    and mid: "mid \<noteq> m_master_id s"
  shows "\<exists>s'. other_access mid Write_command a d s = Some (d, s') \<and> sys_ok m pnp s' \<and> bus_mem s' = write_at a d (bus_mem s) \<and>
    setup_of s' = setup_of s"
proof -
  have b: "below_ok (bus_ok m pnp) (mc_below s)" and dc: "dcache_ok s" using ok by (simp_all add: sys_ok_def)
  obtain c w where cw: "bl_bus (mc_below s) = (c, w)" by (cases "bl_bus (mc_below s)")
  have bus: "bus_ok m pnp (c, w)" using b cw by (simp add: below_ok_def)
  then have wf: "system_wf c w" by (simp add: bus_ok_def)
  have block: "block_ok c a (length d)" using bus_inside_block[OF bus a(1) one_line_32[OF a(2)]] .
  obtain t gp' c' w' where tr: "ahb_b_transport memory_socket mid (master_payload Write_command a d False) 0 c w =
        Some (t, gp', Some \<lparr>sn_master = mid, sn_address = a, sn_length = of_nat (length d)\<rparr>, c', w')" "p_data gp' = d"
      and s': "system_wf c' w'" "slave_map c' = slave_map c" "is_pnp c' = is_pnp c" "flat_memory c' w' = flat_write a d (flat_memory c w)"
    using bus_write[OF wf block, of "master_payload Write_command a d False" mid 0] by (auto simp: master_payload_def)
  have bus': "bus_ok m pnp (c', w')" using bus s' by (simp add: bus_ok_def)
  have mem: "bus_contents (c', w') = write_at a d (bus_mem s)" using flat_write_contents[OF s'(4)] cw by simp
  define s1 where "s1 = s\<lparr>mc_below := (mc_below s)\<lparr>bl_bus := (c', w')\<rparr>\<rparr>"
  have b1: "below_ok (bus_ok m pnp) (mc_below s1)" using below_ok_bus[where ok = "bus_ok m pnp", OF b bus'] by (simp add: s1_def)
  show ?thesis
  proof (cases "mc_dcache s")
    case None
    then have "snoopingCallBack \<lparr>sn_master = mid, sn_address = a, sn_length = of_nat (length d)\<rparr> s1 = Some s1"
      by (simp add: snoopingCallBack_def s1_def)
    then show ?thesis using tr b1 mem None
      by (simp add: other_access_def cw flip: s1_def) (simp add: s1_def sys_ok_def dcache_ok_def setup_of_def)
  next
    case (Some vc)
    then have v: "fit vc (bus_mem s)" "vc_kind vc = Dcache" "drop_bit 2 (CACHE_CONTROL_REG s) AND 1 \<noteq> 0" "m_dcen s" "m_dsnoop s"
      using dc by (simp_all add: dcache_ok_def)
    have "(drop_bit 2 (CACHE_CONTROL_REG s) AND 3) AND 1 \<noteq> 0" using v(3) by (simp add: and_3_and_1)
    then have on: "check_mode vc (CACHE_CONTROL_REG s) AND 3 \<noteq> 0" by (auto simp: dcache_mode[OF v(2)])
    obtain vc' where vc': "snoop_invalidate (CACHE_CONTROL_REG s) a (of_nat (length d)) vc = Some vc'"
        "fit vc' (write_at a d (bus_mem s))" "config vc' = config vc"
      using snoop_write_fit[OF v(1) on a(3,4)] by blast
    then have "snoopingCallBack \<lparr>sn_master = mid, sn_address = a, sn_length = of_nat (length d)\<rparr> s1 = Some (s1\<lparr>mc_dcache := Some vc'\<rparr>)"
      using mid v(4,5) Some by (simp add: snoopingCallBack_def s1_def)
    then show ?thesis using tr b1 mem vc'(2) v config_kind[OF vc'(3)]
      by (simp add: other_access_def cw flip: s1_def) (simp add: s1_def sys_ok_def dcache_ok_def setup_of_def)
  qed
qed

lemma other_read_ok:
  assumes ok: "sys_ok m pnp s" and a: "bus_inside m pnp a" "one_line a (length d)"
  shows "\<exists>s'. other_access mid Read_command a d s = Some (bytes_at (bus_mem s) a (length d), s') \<and> sys_ok m pnp s' \<and>
    bus_mem s' = bus_mem s \<and> setup_of s' = setup_of s"
proof -
  have b: "below_ok (bus_ok m pnp) (mc_below s)" and dc: "dcache_ok s" using ok by (simp_all add: sys_ok_def)
  obtain c w where cw: "bl_bus (mc_below s) = (c, w)" by (cases "bl_bus (mc_below s)")
  have bus: "bus_ok m pnp (c, w)" using b cw by (simp add: below_ok_def)
  then have wf: "system_wf c w" by (simp add: bus_ok_def)
  have block: "block_ok c a (length d)" using bus_inside_block[OF bus a(1) one_line_32[OF a(2)]] .
  obtain t gp' c' w' where tr: "ahb_b_transport memory_socket mid (master_payload Read_command a d False) 0 c w =
        Some (t, gp', None, c', w')" "p_data gp' = flat_read a (length d) (flat_memory c w)"
      and s': "system_wf c' w'" "slave_map c' = slave_map c" "is_pnp c' = is_pnp c" "flat_memory c' w' = flat_memory c w"
    using bus_read[OF wf block, of "master_payload Read_command a d False" mid 0] by (auto simp: master_payload_def)
  have bus': "bus_ok m pnp (c', w')" using bus s' by (simp add: bus_ok_def)
  have mem: "bus_contents (c', w') = bus_mem s" using flat_memory_contents[OF s'(4)] cw by simp
  have d: "p_data gp' = bytes_at (bus_mem s) a (length d)" using tr(2) cw by (simp add: flat_read_contents)
  define s1 where "s1 = s\<lparr>mc_below := (mc_below s)\<lparr>bl_bus := (c', w')\<rparr>\<rparr>"
  have "below_ok (bus_ok m pnp) (mc_below s1)" using below_ok_bus[where ok = "bus_ok m pnp", OF b bus'] by (simp add: s1_def)
  then have "sys_ok m pnp s1" using dc mem by (auto simp: s1_def sys_ok_def dcache_ok_def split: option.splits)
  then show ?thesis using tr(1) d mem by (simp add: other_access_def cw flip: s1_def) (simp add: s1_def setup_of_def)
qed

section \<open>Runs of the machine\<close>

text \<open>Data accesses of the processor by address space, lock and address, the flush instruction,
  writes that flush through an address space, writes of the cache control register, and the
  accesses of other masters.\<close>

datatype sys_op =
    Cpu_load u32 u32 u32 nat
  | Cpu_store u32 u32 u32 "u8 list"
  | Flush_instruction
  | Flush_store u32 u32 "u8 list"
  | Set_control u32
  | Other_load u32 u32 nat
  | Other_store u32 u32 "u8 list"

definition cpu_access ::
    "(nat \<Rightarrow> u8) \<Rightarrow> tlm_command \<Rightarrow> u32 \<Rightarrow> u8 list \<Rightarrow> u32 \<Rightarrow> u32 \<Rightarrow> u32 \<Rightarrow> ahb_system mmu_cache \<Rightarrow> (u8 list \<times> ahb_system mmu_cache) option" where
  "cpu_access junk cmd a d asi flush lock s =
     (case exec_data junk (system_master (m_master_id s)) cmd a d asi flush lock False Incomplete_response s of
        None \<Rightarrow> None
      | Some (response, d, s) \<Rightarrow> if response = Ok_response then Some (d, s) else None)"

definition sys_step :: "(nat \<Rightarrow> u8) \<Rightarrow> sys_op \<Rightarrow> ahb_system mmu_cache \<Rightarrow> (u8 list \<times> ahb_system mmu_cache) option" where
  "sys_step junk op s =
     (case op of
        Cpu_load asi lock a n \<Rightarrow> cpu_access junk Read_command a (replicate n 0) asi 0 lock s
      | Cpu_store asi lock a d \<Rightarrow> cpu_access junk Write_command a d asi 0 lock s
      | Flush_instruction \<Rightarrow> cpu_access junk Write_command 0 [] 8 1 0 s
      | Flush_store asi a d \<Rightarrow> cpu_access junk Write_command a d asi 0 0 s
      | Set_control v \<Rightarrow> cpu_access junk Write_command 0 (host_bytes (swap_Endianess v)) 2 0 0 s
      | Other_load mid a n \<Rightarrow> other_access mid Read_command a (replicate n 0) s
      | Other_store mid a d \<Rightarrow> other_access mid Write_command a d s)"

text \<open>The same operations on a flat memory.  Accesses stay within a line and one region outside
  the scratchpads; the data cache stays enabled or frozen, because a disabled cache keeps its
  lines and does not see the stores; a snooped store is word aligned.\<close>

definition sys_spec ::
    "(u32 \<Rightarrow> bool) \<Rightarrow> (u32 \<Rightarrow> bool) \<Rightarrow> u32 \<Rightarrow> sys_op \<Rightarrow> (u32 \<Rightarrow> u8) \<Rightarrow> (u8 list \<times> (u32 \<Rightarrow> u8)) option" where
  "sys_spec inside scratch own op f =
     (case op of
        Cpu_load asi lock a n \<Rightarrow>
          if memory_asi asi \<and> inside a \<and> one_line a n \<and> \<not> scratch a then Some (bytes_at f a n, f) else None
      | Cpu_store asi lock a d \<Rightarrow>
          if memory_asi asi \<and> inside a \<and> one_line a (length d) \<and> \<not> scratch a then Some (d, write_at a d f) else None
      | Flush_instruction \<Rightarrow> Some ([], f)
      | Flush_store asi a d \<Rightarrow> if flush_asi asi then Some (d, f) else None
      | Set_control v \<Rightarrow> if bit v 2 then Some (host_bytes (swap_Endianess v), f) else None
      | Other_load mid a n \<Rightarrow> if inside a \<and> one_line a n then Some (bytes_at f a n, f) else None
      | Other_store mid a d \<Rightarrow>
          if mid \<noteq> own \<and> inside a \<and> one_line a (length d) \<and> 4 dvd unat a \<and> unat a + length d + 3 < 2 ^ 32
          then Some (d, write_at a d f) else None)"

lemma memory_asi_others:
  assumes "memory_asi asi"
  shows "asi \<noteq> 2" "asi \<noteq> 5" "asi \<noteq> 6" "asi \<noteq> 0xc" "asi \<noteq> 0xd" "asi \<noteq> 0xe" "asi \<noteq> 0xf" "asi \<noteq> 0x11" "asi \<noteq> 0x15"
    "asi \<noteq> 0x16" "asi \<noteq> 0x18" "asi \<noteq> 0x19" "asi \<noteq> 0x1c"
  using assms by auto

lemma swap_host_bytes: "swap_Endianess (word_of_bytes (host_bytes (swap_Endianess v))) = v"
proof -
  have "host_bytes (swap_Endianess v) = [ucast (drop_bit 24 v), ucast (drop_bit 16 v), ucast (drop_bit 8 v), ucast v]"
    unfolding host_bytes_swap by (simp add: host_bytes_def)
  then have "swap_Endianess (word_of_bytes (host_bytes (swap_Endianess v))) =
      push_bit 24 (ucast (ucast (drop_bit 24 v) :: u8)) OR push_bit 16 (ucast (ucast (drop_bit 16 v) :: u8)) OR
      push_bit 8 (ucast (ucast (drop_bit 8 v) :: u8)) OR ucast (ucast v :: u8)"
    by (simp add: swap_word_of_bytes)
  also have "\<dots> = v"
  proof (rule bit_word_eqI)
    fix n assume "n < LENGTH(32)"
    then consider "n < 8" | "8 \<le> n" "n < 16" | "16 \<le> n" "n < 24" | "24 \<le> n" "n < 32" by fastforce
    then show "bit (push_bit 24 (ucast (ucast (drop_bit 24 v) :: u8)) OR push_bit 16 (ucast (ucast (drop_bit 16 v) :: u8)) OR
        push_bit 8 (ucast (ucast (drop_bit 8 v) :: u8)) OR ucast (ucast v :: u8) :: u32) n = bit v n"
      by cases (auto simp: bit_simps)
  qed
  finally show ?thesis .
qed

lemma drop_bit_and_1: "(drop_bit n (x :: u32) AND 1 \<noteq> 0) = bit x n"
  using and_1_bit[of "drop_bit n x"] and_1_cases[of "drop_bit n x"] by (auto simp: bit_simps)

lemma set_control_ok:
  assumes "sys_ok m pnp s" and "bit v 2"
  shows "\<exists>s'. mc_write_ccr (host_bytes (swap_Endianess v)) s = Some s' \<and> sys_ok m pnp s' \<and> bus_mem s' = bus_mem s \<and>
    setup_of s' = setup_of s"
proof -
  obtain s' where s': "mc_write_ccr (host_bytes (swap_Endianess v)) s = Some s'" "mc_below s' = mc_below s" "setup_of s' = setup_of s"
      "mc_dcache s' \<in> {mc_dcache s, cache_flush (mc_dcache s)}" "CACHE_CONTROL_REG s' = v AND 0xff9f3fff"
    by (simp add: mc_write_ccr_def swap_host_bytes Let_def setup_of_def)
  have "drop_bit 2 (CACHE_CONTROL_REG s') AND 1 \<noteq> 0" using assms(2) unfolding s'(5) drop_bit_and_1 by (simp add: bit_simps)
  then show ?thesis using flush_dcache_ok[OF assms(1) s'(2-4)] s' by auto
qed

lemma flush_stores_ok:
  assumes "sys_ok m pnp s"
  shows "sys_ok m pnp (flush_both s)" "sys_ok m pnp (s\<lparr>mc_icache := i\<rparr>)" "sys_ok m pnp (s\<lparr>mc_dcache := cache_flush (mc_dcache s)\<rparr>)"
proof -
  have on: "mc_dcache s = None \<or> drop_bit 2 (CACHE_CONTROL_REG s) AND 1 \<noteq> 0"
    using assms by (auto simp: sys_ok_def dcache_ok_def split: option.splits)
  show "sys_ok m pnp (flush_both s)" "sys_ok m pnp (s\<lparr>mc_icache := i\<rparr>)" "sys_ok m pnp (s\<lparr>mc_dcache := cache_flush (mc_dcache s)\<rparr>)"
    by (rule flush_dcache_ok[OF assms]; use on in \<open>auto simp: flush_both_def setup_of_def\<close>)+
qed

lemma sys_step_ok:
  assumes ok: "sys_ok m pnp s" and spec: "sys_spec (bus_inside m pnp) (in_scratchpad s) (m_master_id s) op (bus_mem s) = Some (r, f)"
  shows "\<exists>s'. sys_step junk op s = Some (r, s') \<and> sys_ok m pnp s' \<and> bus_mem s' = f \<and> setup_of s' = setup_of s"
proof (cases op)
  case (Cpu_load asi lock a n)
  then have a: "memory_asi asi" "bus_inside m pnp a" "one_line a n" "\<not> in_scratchpad s a" "r = bytes_at (bus_mem s) a n" "f = bus_mem s"
    using spec by (auto simp: sys_spec_def split: if_splits)
  show ?thesis
    using data_read_ok[OF ok a(2-4), of junk asi "lock \<noteq> 0"] a(1,5,6)
    by (auto simp: Cpu_load sys_step_def cpu_access_def exec_data_def exec_read_def Let_def memory_asi_others[OF a(1)])
next
  case (Cpu_store asi lock a d)
  then have a: "memory_asi asi" "bus_inside m pnp a" "one_line a (length d)" "\<not> in_scratchpad s a" "r = d" "f = write_at a d (bus_mem s)"
    using spec by (auto simp: sys_spec_def split: if_splits)
  show ?thesis
    using data_write_ok[OF ok a(2-4) memory_asi_others(13)[OF a(1)], of junk "lock \<noteq> 0"] a(1,5,6)
    by (auto simp: Cpu_store sys_step_def cpu_access_def exec_data_def exec_write_def Let_def memory_asi_others[OF a(1)])
next
  case Flush_instruction
  then show ?thesis
    using spec flush_stores_ok(1)[OF ok]
    by (auto simp: sys_spec_def sys_step_def cpu_access_def exec_data_def flush_both_def setup_of_def)
next
  case (Flush_store asi a d)
  then have "asi = 0x11 \<or> asi = 0x15 \<or> asi = 0x16" "r = d" "f = bus_mem s"
    using spec by (auto simp: sys_spec_def flush_asi_def split: if_splits)
  then show ?thesis
    using flush_stores_ok[OF ok]
    by (elim disjE) (simp_all add: Flush_store sys_step_def cpu_access_def exec_data_def exec_write_def Let_def, simp_all add: flush_both_def setup_of_def)
next
  case (Set_control v)
  then have "bit v 2" "r = host_bytes (swap_Endianess v)" "f = bus_mem s" using spec by (auto simp: sys_spec_def split: if_splits)
  then show ?thesis
    using set_control_ok[OF ok, of v] by (auto simp: Set_control sys_step_def cpu_access_def exec_data_def exec_write_def Let_def)
next
  case (Other_load mid a n)
  then have "bus_inside m pnp a" "one_line a (length (replicate n (0 :: u8)))" "r = bytes_at (bus_mem s) a n" "f = bus_mem s"
    using spec by (auto simp: sys_spec_def split: if_splits)
  then show ?thesis using other_read_ok[OF ok, of a "replicate n 0" mid] by (simp add: Other_load sys_step_def)
next
  case (Other_store mid a d)
  then have "bus_inside m pnp a" "one_line a (length d)" "4 dvd unat a" "unat a + length d + 3 < 2 ^ 32" "mid \<noteq> m_master_id s"
      "r = d" "f = write_at a d (bus_mem s)"
    using spec by (auto simp: sys_spec_def split: if_splits)
  then show ?thesis using other_write_ok[OF ok, of a d mid] by (simp add: Other_store sys_step_def)
qed

text \<open>(C2) Caches, MMU (switched off), bus master, AHB controller and AHB memories together are one
  flat memory: in any sequence of loads and stores of the processor in the memory address
  spaces, flushes, writes of the cache control register and accesses of other masters, every
  load returns the bytes last stored by anyone, and the memories end up with what the stores
  put there.  The data cache may be missing or have any configuration, and it stays coherent
  with the memories.\<close>

theorem machine_is_flat_memory:
  assumes "sys_ok m pnp s"
    and "exec_ops (sys_spec (bus_inside m pnp) (in_scratchpad s) (m_master_id s)) ops (bus_mem s) = Some (rs, f)"
  shows "\<exists>s'. exec_ops (sys_step junk) ops s = Some (rs, s') \<and> sys_ok m pnp s' \<and> bus_mem s' = f"
proof -
  have "\<exists>s'. exec_ops (sys_step junk) ops s = Some (rs, s') \<and> sys_ok m pnp s' \<and> bus_mem s' = f \<and> setup_of s' = setup_of s"
  proof (rule exec_ops_simulation[where R = "\<lambda>t g. sys_ok m pnp t \<and> bus_mem t = g \<and> setup_of t = setup_of s"])
    fix op t g r g'
    assume t: "sys_ok m pnp t \<and> bus_mem t = g \<and> setup_of t = setup_of s"
      and "sys_spec (bus_inside m pnp) (in_scratchpad s) (m_master_id s) op g = Some (r, g')"
    then have "sys_spec (bus_inside m pnp) (in_scratchpad t) (m_master_id t) op (bus_mem t) = Some (r, g')"
      using setup_scratchpad[of t s] by (simp add: setup_of_def)
    then show "\<exists>t'. sys_step junk op t = Some (r, t') \<and> sys_ok m pnp t' \<and> bus_mem t' = g' \<and> setup_of t' = setup_of s"
      using sys_step_ok[of m pnp t op r g' junk] t by auto
  next
    show "sys_ok m pnp s \<and> bus_mem s = bus_mem s \<and> setup_of s = setup_of s" using assms(1) by simp
  qed (rule assms(2))
  then show ?thesis by blast
qed

definition sample_machine :: "vectorcache \<Rightarrow> ahb_system mmu_cache" where
  "sample_machine c = \<lparr>mc_icache = None, mc_dcache = Some c, mc_ilocalram = None, mc_dlocalram = None, m_dcen = True, m_dsnoop = True,
     m_ilram = False, m_ilramstart = 0, m_dlram = False, m_dlramstart = 0, m_cached = 0, m_mmu_en = False, m_master_id = 0,
     CACHE_CONTROL_REG = 0xc, mc_below = \<lparr>bl_mmu = None, bl_bus = sample_system, bl_exception = None\<rparr>\<rparr>"

lemma sample_machine_ok:
  assumes "fit c (bus_contents sample_system)" and "vc_kind c = Dcache"
  shows "sys_ok sample_map (\<lambda>_. False) (sample_machine c)"
  using assms sample_bus_ok by (simp add: sys_ok_def below_ok_def translation_off_def dcache_ok_def sample_machine_def)

lemma sample_cache:
  obtains c where "fit c (bus_contents sample_system)" "vc_kind c = Dcache"
proof -
  obtain c where c: "vectorcache_init Dcache (\<lambda>_. replicate 16 0) 1 False True 2 (2 ^ 0) False 4 1 0 0 0 = Some c"
    by (simp add: vectorcache_init_def Let_def log2_floor.simps)
  show thesis using that[of c] new_cache[OF c] vectorcache_init_fields(5)[OF c] by simp
qed

theorem machine_is_flat_memory_witness:
  "\<exists>c s'. exec_ops (sys_step (\<lambda>_. 0))
      [Other_store 1 0x40000010 [9], Cpu_load 0xb 0 0x40000010 4, Cpu_store 0xb 0 0x40000012 [1],
       Other_store 1 0x40000010 [5, 6], Cpu_load 0xb 0 0x40000010 4] (sample_machine c)
    = Some ([[9], [9, 0, 0, 0], [1], [5, 6], [5, 6, 1, 0]], s')"
proof -
  obtain c where c: "fit c (bus_contents sample_system)" "vc_kind c = Dcache" by (rule sample_cache)
  let ?ops = "[Other_store 1 0x40000010 [9], Cpu_load 0xb 0 0x40000010 4, Cpu_store 0xb 0 0x40000012 [1],
       Other_store 1 0x40000010 [5, 6], Cpu_load 0xb 0 0x40000010 4]"
  have "\<exists>f. exec_ops (sys_spec (bus_inside sample_map (\<lambda>_. False)) (in_scratchpad (sample_machine c)) (m_master_id (sample_machine c)))
      ?ops (bus_mem (sample_machine c)) = Some ([[9], [9, 0, 0, 0], [1], [5, 6], [5, 6, 1, 0]], f)"
    by (simp add: sys_spec_def sample_inside in_scratchpad_def sample_machine_def bytes_at_def write_at_def sample_contents upt_rec nth_append)
  then show ?thesis using machine_is_flat_memory[OF sample_machine_ok[OF c]] by blast
qed

end
