(* ===== verification/Leon3_Bus_Props.thy ===== *)
theory Leon3_Bus_Props
  imports Leon3_System Leon3_Props
begin

text \<open>
  The LEON3 core on the whole machine: its memory interface over the caches, the bus and the
  AHB memories keeps the contract of \<^verbatim>\<open>cpu_memory\<close>, so what was proved of the core over any
  memory that keeps it holds on the machine.
\<close>

section \<open>Words\<close>

text \<open>The conversions between the byte order of the host and that of the target.\<close>

lemma swap_load_host: "swapEndianess32 (load_host 4 (bytes_at f a 4) 0) = be_word f a"
proof (rule bit_word_eqI)
  have m: "(0xff :: u32) = mask 8" "(0xff00 :: u32) = push_bit 8 (mask 8)" "(0xff0000 :: u32) = push_bit 16 (mask 8)"
    by (simp_all add: mask_eq_exp_minus_1)
  have b: "bytes_at f a 4 = [f a, f (a + 1), f (a + 2), f (a + 3)]" by (simp add: bytes_at_def upt_rec)
  fix n assume "n < LENGTH(32)"
  then consider "n < 8" | "8 \<le> n" "n < 16" | "16 \<le> n" "n < 24" | "24 \<le> n" "n < 32" by fastforce
  then show "bit (swapEndianess32 (load_host 4 (bytes_at f a 4) 0)) n = bit (be_word f a) n"
    unfolding load_host_4 b swapEndianess32_def m be_word_def
    by cases (auto simp: bit_simps bit_byte)
qed

lemma length_host_block [simp]: "length (host_block n w) = n"
  by (simp add: host_block_def)

lemma bytes_at_write_at:
  assumes "unat a + length d \<le> 2 ^ 32"
  shows "bytes_at (write_at a d f) a (length d) = d"
proof (rule nth_equalityI)
  fix i assume "i < length (bytes_at (write_at a d f) a (length d))"
  then have i: "i < length d" by simp
  then have "unat (a + of_nat i) = unat a + i" using unat_in_block[OF i, of a] assms by simp
  then show "bytes_at (write_at a d f) a (length d) ! i = d ! i" using i by (simp add: bytes_at_def write_at_def)
qed simp

lemma aligned_top: "4 dvd unat (a :: u32) \<Longrightarrow> unat a + 4 \<le> 2 ^ 32"
  using unat_less_2_32[of a] by (simp, presburger)

lemma be_word_write:
  assumes "4 dvd unat a"
  shows "be_word (write_at a (host_block 4 (swapEndianess32 v)) f) a = v"
proof -
  have "bytes_at (write_at a (host_block 4 (swapEndianess32 v)) f) a 4 = host_block 4 (swapEndianess32 v)"
    using bytes_at_write_at[of a "host_block 4 (swapEndianess32 v)" f] aligned_top[OF assms] by simp
  then have "be_word (write_at a (host_block 4 (swapEndianess32 v)) f) a = swapEndianess32 (load_host 4 (host_block 4 (swapEndianess32 v)) 0)"
    by (simp flip: swap_load_host)
  also have "\<dots> = v" by (simp add: host_block_def load_store_host)
  finally show ?thesis .
qed

lemma bytes_at_write_other:
  assumes "unat a + length d \<le> unat b \<or> unat b + n \<le> unat a" and "unat b + n \<le> 2 ^ 32"
  shows "bytes_at (write_at a d f) b n = bytes_at f b n"
proof (rule nth_equalityI)
  fix i assume "i < length (bytes_at (write_at a d f) b n)"
  then have i: "i < n" by simp
  then have "unat (b + of_nat i) = unat b + i" using unat_in_block[OF i, of b] assms(2) by simp
  then show "bytes_at (write_at a d f) b n ! i = bytes_at f b n ! i" using i assms(1) by (auto simp: bytes_at_def write_at_def)
qed simp

lemma be_word_write_other:
  assumes "4 dvd unat a" and "4 dvd unat b" and "b \<noteq> a" and "length d = 4"
  shows "be_word (write_at a d f) b = be_word f b"
proof -
  have "unat a \<noteq> unat b" using assms(3) by (metis word_unat_eq_iff)
  then have "unat a + 4 \<le> unat b \<or> unat b + 4 \<le> unat a" using assms(1,2) by presburger
  then show ?thesis
    using bytes_at_write_other[of a d b 4 f] aligned_top[OF assms(2)] assms(4) by (simp flip: swap_load_host)
qed

lemma aligned_one_line: "4 dvd unat a \<Longrightarrow> one_line a 4"
  by presburger

section \<open>The contract\<close>

definition machine_ok :: "slave_info omap \<Rightarrow> (u32 \<Rightarrow> bool) \<Rightarrow> u32 \<Rightarrow> ahb_system leon3_bus \<Rightarrow> bool" where
  "machine_ok m pnp mid s = (sys_ok m pnp (lb_cache s) \<and> m_master_id (lb_cache s) = mid)"

definition machine_serves :: "slave_info omap \<Rightarrow> (u32 \<Rightarrow> bool) \<Rightarrow> ahb_system leon3_bus \<Rightarrow> u32 \<Rightarrow> bool" where
  "machine_serves m pnp s a = (bus_inside m pnp a \<and> 4 dvd unat a \<and> \<not> in_scratchpad (lb_cache s) a)"

definition machine_word :: "ahb_system leon3_bus \<Rightarrow> u32 \<Rightarrow> u32" where
  "machine_word s a = be_word (bus_mem (lb_cache s)) a"

definition ordinary :: "u32 \<Rightarrow> u32 \<Rightarrow> u32 \<Rightarrow> bool" where
  "ordinary sp f l = (memory_asi sp \<and> f = 0)"

lemma sys_ok_exception: "sys_ok m pnp s \<Longrightarrow> bl_exception (mc_below s) = None"
  by (simp add: sys_ok_def below_ok_def)

lemma clear_exception_ok: "sys_ok m pnp s \<Longrightarrow> clear_exception s = s"
  by (cases s; cases "mc_below s") (simp add: clear_exception_def sys_ok_def below_ok_def)

lemma machine_read:
  assumes "ordinary sp f l" and "machine_ok m pnp mid s" and "machine_serves m pnp s a"
  shows "\<exists>s'. leon3_read_word junk (system_master mid) a sp f l s = Some (machine_word s a, None, s') \<and> machine_ok m pnp mid s' \<and>
    machine_serves m pnp s' = machine_serves m pnp s \<and> (\<forall>b. machine_serves m pnp s b \<longrightarrow> machine_word s' b = machine_word s b)"
proof -
  have sp: "memory_asi sp" "f = 0" using assms(1) by (simp_all add: ordinary_def)
  have s: "sys_ok m pnp (lb_cache s)" "m_master_id (lb_cache s) = mid" using assms(2) by (simp_all add: machine_ok_def)
  have a: "bus_inside m pnp a" "one_line a 4" "\<not> in_scratchpad (lb_cache s) a"
    using assms(3) aligned_one_line by (auto simp: machine_serves_def)
  obtain c where c: "data_read junk (system_master mid) a sp (of_nat 4) (l \<noteq> 0) False (lb_cache s) = Some (bytes_at (bus_mem (lb_cache s)) a 4, c)"
      "sys_ok m pnp c" "bus_mem c = bus_mem (lb_cache s)" "setup_of c = setup_of (lb_cache s)"
    using data_read_ok[OF s(1) a, of junk sp "l \<noteq> 0"] s(2) by auto
  have "exec_data junk (system_master mid) Read_command a (replicate 4 0) sp f l False Incomplete_response (clear_exception (lb_cache s)) =
      Some (Ok_response, bytes_at (bus_mem (lb_cache s)) a 4, c)"
    using sp c(1) by (simp add: clear_exception_ok[OF s(1)] exec_data_def exec_read_def Let_def memory_asi_others[OF sp(1)])
  then have "leon3_read_word junk (system_master mid) a sp f l s = Some (machine_word s a, None, s\<lparr>lb_cache := c\<rparr>)"
    by (simp add: leon3_read_word_def leon3_access_def sys_ok_exception[OF c(2)] machine_word_def swap_load_host)
  moreover have "m_master_id c = mid" using c(4) s(2) by (simp add: setup_of_def)
  moreover have "machine_serves m pnp (s\<lparr>lb_cache := c\<rparr>) = machine_serves m pnp s"
    by (intro ext) (simp add: machine_serves_def setup_scratchpad[OF c(4)])
  ultimately show ?thesis using c(2)
    by (intro exI[of _ "s\<lparr>lb_cache := c\<rparr>"]) (simp add: machine_ok_def machine_word_def c(3))
qed

lemma machine_write:
  assumes "ordinary sp f l" and "machine_ok m pnp mid s" and "machine_serves m pnp s a"
  shows "\<exists>s'. leon3_write_word junk (system_master mid) a v sp f l s = Some (None, s') \<and> machine_ok m pnp mid s' \<and>
    machine_serves m pnp s' = machine_serves m pnp s \<and> machine_word s' a = v \<and>
    (\<forall>b. machine_serves m pnp s b \<longrightarrow> b \<noteq> a \<longrightarrow> machine_word s' b = machine_word s b)"
proof -
  have sp: "memory_asi sp" "f = 0" using assms(1) by (simp_all add: ordinary_def)
  let ?d = "host_block 4 (swapEndianess32 v)"
  let ?s = "lb_notify a 4 s"
  have n: "lb_cache ?s = lb_cache s" by (simp add: lb_notify_def)
  have s: "sys_ok m pnp (lb_cache s)" "m_master_id (lb_cache s) = mid" using assms(2) by (simp_all add: machine_ok_def)
  have a: "bus_inside m pnp a" "one_line a (length ?d)" "\<not> in_scratchpad (lb_cache s) a" and al: "4 dvd unat a"
    using assms(3) aligned_one_line[of a] by (auto simp: machine_serves_def)
  obtain c where c: "data_write junk (system_master mid) a sp ?d (l \<noteq> 0) False (lb_cache s) = Some c"
      "sys_ok m pnp c" "bus_mem c = write_at a ?d (bus_mem (lb_cache s))" "setup_of c = setup_of (lb_cache s)"
    using data_write_ok[OF s(1) a memory_asi_others(13)[OF sp(1)], of junk "l \<noteq> 0"] s(2) by auto
  have "exec_data junk (system_master mid) Write_command a ?d sp f l False Incomplete_response (clear_exception (lb_cache ?s)) =
      Some (Ok_response, ?d, c)"
    using sp c(1) unfolding n
    by (simp add: clear_exception_ok[OF s(1)] exec_data_def exec_write_def Let_def memory_asi_others[OF sp(1)])
  then have "leon3_write_word junk (system_master mid) a v sp f l s = Some (None, ?s\<lparr>lb_cache := c\<rparr>)"
    by (simp add: leon3_write_word_def leon3_write_block_def leon3_access_def sys_ok_exception[OF c(2)])
  moreover have "m_master_id c = mid" using c(4) s(2) by (simp add: setup_of_def)
  moreover have "be_word (bus_mem c) a = v" unfolding c(3) by (rule be_word_write[OF al])
  moreover have "be_word (bus_mem c) b = be_word (bus_mem (lb_cache s)) b" if "4 dvd unat b" "b \<noteq> a" for b
    unfolding c(3) by (rule be_word_write_other[OF al that]) simp
  moreover have "machine_serves m pnp (?s\<lparr>lb_cache := c\<rparr>) = machine_serves m pnp s"
    by (intro ext) (simp add: machine_serves_def setup_scratchpad[OF c(4)])
  ultimately show ?thesis using c(2)
    by (intro exI[of _ "?s\<lparr>lb_cache := c\<rparr>"]) (simp add: machine_ok_def machine_word_def machine_serves_def)
qed

interpretation machine: cpu_memory "leon3_if junk (system_master mid)" ordinary "machine_ok m pnp mid" "machine_serves m pnp" machine_word
  for junk mid m pnp
  by unfold_locales (simp_all add: leon3_if_def machine_read machine_write)

section \<open>Stores and loads of the core\<close>

lemma ordinary_data_asi: "ordinary (data_asi s) 0 0"
  by (simp add: ordinary_def data_asi_def)

text \<open>(C34) On the whole machine - the core, its caches, the MMU switched off, the bus and the AHB
  memories - a word stored with \<^verbatim>\<open>ST\<close> is what a later \<^verbatim>\<open>LD\<close> from the same aligned address
  returns, and no other word of the memories changes.\<close>

theorem machine_store_load:
  assumes "window_ok s" and "machine_ok m pnp mid (MEM s)" and "machine_serves m pnp (MEM s) a" and "a AND 3 = 0"
    and "a = rs1 p s + SignExtend (simm13 p) 13"
    and "a = rs1 q s + SignExtend (simm13 q) 13" and "0 < rd_bit q" and "rd_bit q < 32"
  shows "\<exists>s1 s2. ST_imm (leon3_if junk (system_master mid)) p s = Ok 1 s1 \<and> LD_imm (leon3_if junk (system_master mid)) q s1 = Ok 0 s2 \<and>
    reg s2 (rd_bit q) = rd p s \<and>
    (\<forall>b. machine_serves m pnp (MEM s) b \<longrightarrow> b \<noteq> a \<longrightarrow> machine_word (MEM s2) b = machine_word (MEM s) b)"
  by (rule machine.store_load [OF assms(1) ordinary_data_asi assms(2-8)])

lemma sample_serves: "0x40000000 \<le> unat a \<Longrightarrow> unat a < 0x40100000 \<Longrightarrow> 4 dvd unat a \<Longrightarrow>
    machine_serves sample_map (\<lambda>_. False) \<lparr>lb_cache = sample_machine c, lb_debugger = False, lb_notified = []\<rparr> a"
  by (simp add: machine_serves_def sample_inside in_scratchpad_def sample_machine_def)

theorem machine_store_load_witness:
  "\<exists>c s1 s2. let s = set_reg 1 0x40000020 (sample \<lparr>lb_cache = sample_machine c, lb_debugger = False, lb_notified = []\<rparr>) in
    ST_imm (leon3_if (\<lambda>_. 0) (system_master 0)) (setParams 0xc2206004) s = Ok 1 s1 \<and>
    LD_imm (leon3_if (\<lambda>_. 0) (system_master 0)) (setParams 0xc4006004) s1 = Ok 0 s2 \<and> reg s2 2 = 0x40000020"
proof -
  obtain c where c: "fit c (bus_contents sample_system)" "vc_kind c = Dcache" by (rule sample_cache)
  define b where "b = \<lparr>lb_cache = sample_machine c, lb_debugger = False, lb_notified = []\<rparr>"
  define s where "s = set_reg 1 0x40000020 (sample b)"
  have w: "window_ok s" unfolding s_def by (intro window_ok_frame window_ok_sample)
  have mem: "MEM s = b" by (simp add: s_def sample_def power_on_def resetOp_def constructed_def)
  have m: "machine_ok sample_map (\<lambda>_. False) 0 (MEM s)"
    using sample_machine_ok[OF c] unfolding mem by (simp add: machine_ok_def b_def sample_machine_def)
  have a: "machine_serves sample_map (\<lambda>_. False) (MEM s) 0x40000024"
    unfolding mem b_def by (rule sample_serves) simp_all
  have reg: "reg s 1 = 0x40000020"
    unfolding s_def using reg_set_reg[OF window_ok_sample, of 1 1] by simp
  have p: "rs1 (setParams 0xc2206004) s = 0x40000020" "rs1 (setParams 0xc4006004) s = 0x40000020" "rd (setParams 0xc2206004) s = 0x40000020"
    by (simp_all add: setParams_def rs1_def rd_def reg[simplified])
  obtain s1 s2 where "ST_imm (leon3_if (\<lambda>_. 0) (system_master 0)) (setParams 0xc2206004) s = Ok 1 s1"
      "LD_imm (leon3_if (\<lambda>_. 0) (system_master 0)) (setParams 0xc4006004) s1 = Ok 0 s2" "reg s2 2 = 0x40000020"
    using machine_store_load[OF w m a, of "setParams 0xc2206004" "setParams 0xc4006004" "\<lambda>_. 0"] p
    by (auto simp: setParams_def SignExtend_def)
  then show ?thesis unfolding Let_def s_def b_def by blast
qed

end
