(* ===== verification/Mb_State.thy ===== *)
theory Mb_State
  imports Leon3_Memory
begin

text \<open>
  The architectural state of the MicroBlaze instruction-set simulator
  (src/microblaze/microblaze/intunit): the registers of
  \<^verbatim>\<open>CoreMICROBLAZELT\<close> (processor.hpp), the bit fields of \<^verbatim>\<open>MSR\<close>,
  \<^verbatim>\<open>ESR\<close> and \<^verbatim>\<open>FSR\<close> (registers.cpp, registers.hpp), the operand fields
  that \<^verbatim>\<open>setParams\<close> takes from an instruction word, and the helpers of the base
  class \<^verbatim>\<open>Instruction\<close> (instructions.cpp, instructions.hpp): the block that
  advances the program counter, the \<^verbatim>\<open>IMM\<close> prefix and the two exception
  entries.  The setters place \<^verbatim>\<open>MSR[C]\<close> at bit 29, \<^verbatim>\<open>MSR[UM]\<close> at
  bit 20 and so on, counted from the least significant bit.

  Memory is reached through the interface \<^verbatim>\<open>cpu_if\<close> of
  \<^verbatim>\<open>Leon3_Memory\<close>, from which the class \<^verbatim>\<open>MemoryInterface\<close> of
  memory.hpp derives.
\<close>

section \<open>State\<close>

record 'm microblaze =
  PC :: u32
  MSR :: u32
  EAR :: u32
  ESR :: u32
  BTR :: u32
  FSR :: u32
  EDR :: u32
  PID :: u32
  ZPR :: u32
  TLBLO :: u32
  TLBHI :: u32
  TLBX :: u32
  TLBSX :: u32
  IMMREG :: u32
  TARGET :: u32
  DSFLAG :: u32
  GPR :: "nat \<Rightarrow> u32"
  PVR :: "nat \<Rightarrow> u32"
  MEM :: 'm

text \<open>The ways a simulation ends: \<^verbatim>\<open>THROW_EXCEPTION\<close> of the invalid instruction, an
  access the memory cannot serve, behaviour that C++ leaves undefined.\<close>

datatype mb_error = Unknown_Instr u32 | Mem_Fault | Undefined_Op

type_synonym 'm mres = "(mb_error, u32, 'm microblaze) res"

section \<open>Bit fields\<close>

definition MSR_C :: "u32 \<Rightarrow> u32" where
  "MSR_C msr = drop_bit 29 (msr AND 0x20000000)"

definition MSR_UM :: "u32 \<Rightarrow> u32" where
  "MSR_UM msr = drop_bit 20 (msr AND 0x100000)"

definition MSR_UMS :: "u32 \<Rightarrow> u32" where
  "MSR_UMS msr = drop_bit 19 (msr AND 0x80000)"

definition MSR_VM :: "u32 \<Rightarrow> u32" where
  "MSR_VM msr = drop_bit 18 (msr AND 0x40000)"

definition MSR_VMS :: "u32 \<Rightarrow> u32" where
  "MSR_VMS msr = drop_bit 17 (msr AND 0x20000)"

definition set_MSR_C :: "u32 \<Rightarrow> u32 \<Rightarrow> u32" where
  "set_MSR_C other msr = (msr AND 0xdfffffff) OR push_bit 29 (other AND 1)"

definition set_MSR_UMS :: "u32 \<Rightarrow> u32 \<Rightarrow> u32" where
  "set_MSR_UMS other msr = (msr AND 0xfff7ffff) OR push_bit 19 (other AND 1)"

definition set_MSR_EIP :: "u32 \<Rightarrow> u32 \<Rightarrow> u32" where
  "set_MSR_EIP other msr = (msr AND 0xffbfffff) OR push_bit 22 (other AND 1)"

definition set_MSR_EE :: "u32 \<Rightarrow> u32 \<Rightarrow> u32" where
  "set_MSR_EE other msr = (msr AND 0xff7fffff) OR push_bit 23 (other AND 1)"

definition set_MSR_VM :: "u32 \<Rightarrow> u32 \<Rightarrow> u32" where
  "set_MSR_VM other msr = (msr AND 0xfffbffff) OR push_bit 18 (other AND 1)"

definition set_MSR_UM :: "u32 \<Rightarrow> u32 \<Rightarrow> u32" where
  "set_MSR_UM other msr = (msr AND 0xffefffff) OR push_bit 20 (other AND 1)"

definition set_MSR_DZ :: "u32 \<Rightarrow> u32 \<Rightarrow> u32" where
  "set_MSR_DZ other msr = (msr AND 0xfdffffff) OR push_bit 25 (other AND 1)"

definition set_MSR_IE :: "u32 \<Rightarrow> u32 \<Rightarrow> u32" where
  "set_MSR_IE other msr = (msr AND 0xbfffffff) OR push_bit 30 (other AND 1)"

definition set_MSR_VMS :: "u32 \<Rightarrow> u32 \<Rightarrow> u32" where
  "set_MSR_VMS other msr = (msr AND 0xfffdffff) OR push_bit 17 (other AND 1)"

definition set_MSR_BIP :: "u32 \<Rightarrow> u32 \<Rightarrow> u32" where
  "set_MSR_BIP other msr = (msr AND 0xefffffff) OR push_bit 28 (other AND 1)"

definition ESR_DS :: "u32 \<Rightarrow> u32" where
  "ESR_DS esr = drop_bit 19 (esr AND 0x80000)"

definition set_ESR_EC :: "u32 \<Rightarrow> u32 \<Rightarrow> u32" where
  "set_ESR_EC other esr = (esr AND 0x7ffffff) OR push_bit 27 (other AND 0x1f)"

definition set_ESR_S :: "u32 \<Rightarrow> u32 \<Rightarrow> u32" where
  "set_ESR_S other esr = (esr AND 0xffdfffff) OR push_bit 21 (other AND 1)"

definition set_ESR_Rx :: "u32 \<Rightarrow> u32 \<Rightarrow> u32" where
  "set_ESR_Rx other esr = (esr AND 0xf83fffff) OR push_bit 22 (other AND 0x1f)"

definition set_ESR_DS :: "u32 \<Rightarrow> u32 \<Rightarrow> u32" where
  "set_ESR_DS other esr = (esr AND 0xfff7ffff) OR push_bit 19 (other AND 1)"

definition set_ESR_W :: "u32 \<Rightarrow> u32 \<Rightarrow> u32" where
  "set_ESR_W other esr = (esr AND 0xffefffff) OR push_bit 20 (other AND 1)"

definition set_FSR_OF :: "u32 \<Rightarrow> u32 \<Rightarrow> u32" where
  "set_FSR_OF other fsr = (fsr AND 0xdfffffff) OR push_bit 29 (other AND 1)"

definition set_FSR_UF :: "u32 \<Rightarrow> u32 \<Rightarrow> u32" where
  "set_FSR_UF other fsr = (fsr AND 0xbfffffff) OR push_bit 30 (other AND 1)"

definition set_FSR_DZ :: "u32 \<Rightarrow> u32 \<Rightarrow> u32" where
  "set_FSR_DZ other fsr = (fsr AND 0xefffffff) OR push_bit 28 (other AND 1)"

definition set_FSR_IO :: "u32 \<Rightarrow> u32 \<Rightarrow> u32" where
  "set_FSR_IO other fsr = (fsr AND 0xf7ffffff) OR push_bit 27 (other AND 1)"

definition set_FSR_DO :: "u32 \<Rightarrow> u32 \<Rightarrow> u32" where
  "set_FSR_DO other fsr = (fsr AND 0x7fffffff) OR push_bit 31 (other AND 1)"

section \<open>Operands\<close>

text \<open>The fields an instruction object keeps between \<^verbatim>\<open>setParams\<close> and
  \<^verbatim>\<open>behavior\<close>.  Each class keeps only those it uses; the three barrel shifts by an
  immediate (identifiers 53 to 55) keep five bits of it.\<close>

record mb_params =
  rd_bit :: nat
  ra_bit :: nat
  rb_bit :: nat
  imm :: u32
  imm15 :: u32
  rs :: u32

definition mb_setParams :: "nat \<Rightarrow> u32 \<Rightarrow> mb_params" where
  "mb_setParams instrId bitString =
     \<lparr>rd_bit = unat (drop_bit 21 (bitString AND 0x3e00000)),
      ra_bit = unat (drop_bit 16 (bitString AND 0x1f0000)),
      rb_bit = unat (drop_bit 11 (bitString AND 0xf800)),
      imm = (if 53 \<le> instrId \<and> instrId \<le> 55 then bitString AND 0x1f else bitString AND 0xffff),
      imm15 = bitString AND 0x7fff,
      rs = bitString AND 0x3fff\<rparr>"

text \<open>The aliases \<^verbatim>\<open>ra\<close>, \<^verbatim>\<open>rb\<close> and \<^verbatim>\<open>rd\<close> point straight at the
  register file: \<^verbatim>\<open>GPR[0]\<close> is an ordinary \<^verbatim>\<open>Reg32_0\<close>.\<close>

definition ra :: "mb_params \<Rightarrow> 'm microblaze \<Rightarrow> u32" where
  "ra p s = GPR s (ra_bit p)"

definition rb :: "mb_params \<Rightarrow> 'm microblaze \<Rightarrow> u32" where
  "rb p s = GPR s (rb_bit p)"

definition rd :: "mb_params \<Rightarrow> 'm microblaze \<Rightarrow> u32" where
  "rd p s = GPR s (rd_bit p)"

definition set_rd :: "mb_params \<Rightarrow> u32 \<Rightarrow> 'm microblaze \<Rightarrow> 'm microblaze" where
  "set_rd p v s = s\<lparr>GPR := (GPR s)(rd_bit p := v)\<rparr>"

section \<open>Helpers of class Instruction\<close>

definition mb_SignExtend :: "u32 \<Rightarrow> nat \<Rightarrow> u32" where
  "mb_SignExtend bitSeq bitSeq_length =
     (if bitSeq AND push_bit (bitSeq_length - 1) 1 \<noteq> 0
      then bitSeq OR push_bit bitSeq_length 0xFFFFFFFF
      else bitSeq)"

definition IMM_reset :: "'m microblaze \<Rightarrow> 'm microblaze" where
  "IMM_reset s = s\<lparr>IMMREG := IMMREG s AND 0x7fffffff\<rparr>"

definition IMM_handler :: "u32 \<Rightarrow> 'm microblaze \<Rightarrow> u32 \<times> 'm microblaze" where
  "IMM_handler imm16 s =
     (if IMMREG s AND 0x80000000 \<noteq> 0
      then ((imm16 AND 0x0000ffff) + push_bit 16 (IMMREG s), s\<lparr>IMMREG := IMMREG s AND 0x7fffffff\<rparr>)
      else (mb_SignExtend imm16 16, s))"

text \<open>The block at the start of every instruction but the branches.\<close>

definition next_pc :: "'m microblaze \<Rightarrow> 'm microblaze" where
  "next_pc s =
     (if TARGET s = 0xffffffff then s\<lparr>PC := PC s + 4, DSFLAG := 0x0\<rparr>
      else s\<lparr>PC := TARGET s, TARGET := 0xffffffff, DSFLAG := 0x1\<rparr>)"

definition handleException :: "'m microblaze \<Rightarrow> 'm microblaze" where
  "handleException s =
     (let s = s\<lparr>ESR := set_ESR_DS (if DSFLAG s \<noteq> 0 then 1 else 0) (ESR s)\<rparr>;
          s = (if ESR_DS (ESR s) \<noteq> 0 then s\<lparr>BTR := PC s, GPR := (GPR s)(17 := 0xffffffff)\<rparr>
               else s\<lparr>GPR := (GPR s)(17 := PC s)\<rparr>);
          s = s\<lparr>PC := 0x00000020\<rparr>;
          s = s\<lparr>MSR := set_MSR_EIP 1 (set_MSR_EE 0 (MSR s))\<rparr>;
          s = s\<lparr>MSR := set_MSR_UMS (MSR_UM (MSR s)) (MSR s)\<rparr>;
          s = s\<lparr>MSR := set_MSR_UM 0 (MSR s)\<rparr>;
          s = s\<lparr>MSR := set_MSR_VMS (MSR_VMS (MSR s)) (MSR s)\<rparr>
      in s\<lparr>MSR := set_MSR_VM 0 (MSR s)\<rparr>)"

definition handleMemoryException ::
  "u32 \<Rightarrow> u32 \<Rightarrow> u32 \<Rightarrow> u32 \<Rightarrow> 'm microblaze \<Rightarrow> 'm microblaze" where
  "handleMemoryException W_value S_value rd_bit_value addr s =
     (let s = handleException s;
          s = s\<lparr>ESR := set_ESR_EC 0x1 (ESR s)\<rparr>;
          s = s\<lparr>ESR := set_ESR_W W_value (ESR s)\<rparr>;
          s = s\<lparr>ESR := set_ESR_S S_value (ESR s)\<rparr>;
          s = s\<lparr>ESR := set_ESR_Rx rd_bit_value (ESR s)\<rparr>
      in s\<lparr>EAR := addr\<rparr>)"

definition handleUserPermissionException :: "'m microblaze \<Rightarrow> 'm microblaze" where
  "handleUserPermissionException s =
     (let s = handleException s in s\<lparr>ESR := set_ESR_EC 0x1c (ESR s)\<rparr>)"

section \<open>Reading fields back\<close>

lemma mb_fields [simp]:
  "MSR_C (set_MSR_C v msr) = v AND 1" "MSR_UM (set_MSR_UM v msr) = v AND 1"
  "MSR_UMS (set_MSR_UMS v msr) = v AND 1" "MSR_VM (set_MSR_VM v msr) = v AND 1"
  "MSR_VMS (set_MSR_VMS v msr) = v AND 1" "ESR_DS (set_ESR_DS v esr) = v AND 1"
  unfolding MSR_C_def MSR_UM_def MSR_UMS_def MSR_VM_def MSR_VMS_def ESR_DS_def
    set_MSR_C_def set_MSR_UM_def set_MSR_UMS_def set_MSR_VM_def set_MSR_VMS_def set_ESR_DS_def
  by (intro bit_word_eqI; auto simp: bit_simps)+

lemma IMM_reset_simps [simp]:
  "PC (IMM_reset s) = PC s" "MSR (IMM_reset s) = MSR s" "TARGET (IMM_reset s) = TARGET s"
  "DSFLAG (IMM_reset s) = DSFLAG s" "GPR (IMM_reset s) = GPR s" "MEM (IMM_reset s) = MEM s"
  "ESR (IMM_reset s) = ESR s" "BTR (IMM_reset s) = BTR s" "EAR (IMM_reset s) = EAR s"
  by (simp_all add: IMM_reset_def)

lemma next_pc_simps [simp]:
  "MSR (next_pc s) = MSR s" "GPR (next_pc s) = GPR s" "MEM (next_pc s) = MEM s"
  "ESR (next_pc s) = ESR s" "BTR (next_pc s) = BTR s" "EAR (next_pc s) = EAR s" "IMMREG (next_pc s) = IMMREG s"
  "PC (next_pc s) = (if TARGET s = 0xffffffff then PC s + 4 else TARGET s)"
  "TARGET (next_pc s) = 0xffffffff"
  "DSFLAG (next_pc s) = (if TARGET s = 0xffffffff then 0 else 1)"
  by (simp_all add: next_pc_def)

lemma set_rd_simps [simp]:
  "PC (set_rd p v s) = PC s" "MSR (set_rd p v s) = MSR s" "TARGET (set_rd p v s) = TARGET s"
  "DSFLAG (set_rd p v s) = DSFLAG s" "MEM (set_rd p v s) = MEM s" "IMMREG (set_rd p v s) = IMMREG s"
  "ESR (set_rd p v s) = ESR s" "GPR (set_rd p v s) = (GPR s)(rd_bit p := v)"
  by (simp_all add: set_rd_def)

text \<open>The 16-bit immediate an instruction works with, and what the prefix register becomes.\<close>

definition operand_imm :: "u32 \<Rightarrow> 'm microblaze \<Rightarrow> u32" where
  "operand_imm imm16 s = fst (IMM_handler imm16 s)"

lemma IMM_handler_eq: "IMM_handler imm16 s = (operand_imm imm16 s, IMM_reset s)"
proof -
  have not_top: "(- 2147483649 :: u32) = 0x7fffffff" by simp
  have "IMMREG s AND 0x80000000 = 0 \<Longrightarrow> IMMREG s AND 0x7fffffff = IMMREG s"
    using split_mask[of "IMMREG s" "0x80000000"] not_top by simp
  then show ?thesis by (auto simp: operand_imm_def IMM_handler_def IMM_reset_def)
qed

end
