(* ===== verification/Mb_Alu.thy ===== *)
theory Mb_Alu
  imports Mb_State "HOL-Library.Signed_Division"
begin

text \<open>
  The arithmetic, logical, shift, multiply, divide and special-register instructions of
  the MicroBlaze simulator (src/microblaze/microblaze/intunit/instructions.cpp), one
  definition per \<^verbatim>\<open>behavior\<close>.  All of them return 0 cycles.
\<close>

section \<open>Addition and subtraction\<close>

text \<open>\<^verbatim>\<open>long long\<close> is a \<^verbatim>\<open>64 word\<close>.  The carry is computed from bit 32 of the
  sign-extended sum: \<^verbatim>\<open>((x ^ y ^ (unsigned int)(result >> 1)) & 0x80000000) != 0\<close>.  Signed
  additions and multiplications that overflow are taken to wrap around.\<close>

definition carry_bit :: "u32 \<Rightarrow> u32 \<Rightarrow> u64 \<Rightarrow> u32" where
  "carry_bit x y result =
     int_of_bool ((x XOR y XOR ucast (signed_drop_bit 1 result)) AND 0x80000000 \<noteq> 0)"

definition put_C :: "u32 \<Rightarrow> 'm microblaze \<Rightarrow> 'm microblaze" where
  "put_C v s = s\<lparr>MSR := set_MSR_C v (MSR s)\<rparr>"

definition C :: "'m microblaze \<Rightarrow> u32" where
  "C s = MSR_C (MSR s)"

definition mb_ADD :: "mb_params \<Rightarrow> 'm microblaze \<Rightarrow> 'm microblaze" where
  "mb_ADD p s =
    (let s = next_pc (IMM_reset s)
     in let result = (scast (rb p s) :: u64) + (scast (ra p s) :: u64);
            s = put_C (carry_bit (ra p s) (rb p s) result) s
        in set_rd p (ucast result) s)"

definition mb_ADDC :: "mb_params \<Rightarrow> 'm microblaze \<Rightarrow> 'm microblaze" where
  "mb_ADDC p s =
    (let s = next_pc (IMM_reset s)
     in let result = (scast (ra p s) :: u64) + (scast (rb p s) :: u64) + ucast (C s);
            s = put_C (carry_bit (ra p s) (rb p s) result) s
        in set_rd p (ucast result) s)"

definition mb_ADDI :: "mb_params \<Rightarrow> 'm microblaze \<Rightarrow> 'm microblaze" where
  "mb_ADDI p s =
    (let (imm_value, s) = IMM_handler (imm p) s; s = next_pc s
     in let result = (scast (ra p s) :: u64) + (scast imm_value :: u64);
            s = put_C (carry_bit (ra p s) imm_value result) s
        in set_rd p (ucast result) s)"

definition mb_ADDIC :: "mb_params \<Rightarrow> 'm microblaze \<Rightarrow> 'm microblaze" where
  "mb_ADDIC p s =
    (let (imm_value, s) = IMM_handler (imm p) s; s = next_pc s
     in let result = (scast (ra p s) :: u64) + (scast imm_value :: u64) + ucast (C s);
            s = put_C (carry_bit (ra p s) imm_value result) s
        in set_rd p (ucast result) s)"

definition mb_ADDK :: "mb_params \<Rightarrow> 'm microblaze \<Rightarrow> 'm microblaze" where
  "mb_ADDK p s =
    (let s = next_pc (IMM_reset s)
     in set_rd p (rb p s + ra p s) s)"

definition mb_ADDKC :: "mb_params \<Rightarrow> 'm microblaze \<Rightarrow> 'm microblaze" where
  "mb_ADDKC p s =
    (let s = next_pc (IMM_reset s)
     in set_rd p (rb p s + ra p s + C s) s)"

definition mb_ADDIK :: "mb_params \<Rightarrow> 'm microblaze \<Rightarrow> 'm microblaze" where
  "mb_ADDIK p s =
    (let (imm_value, s) = IMM_handler (imm p) s; s = next_pc s
     in set_rd p (ra p s + imm_value) s)"

definition mb_ADDIKC :: "mb_params \<Rightarrow> 'm microblaze \<Rightarrow> 'm microblaze" where
  "mb_ADDIKC p s =
    (let (imm_value, s) = IMM_handler (imm p) s; s = next_pc s
     in set_rd p (ra p s + imm_value + C s) s)"

definition mb_RSUB :: "mb_params \<Rightarrow> 'm microblaze \<Rightarrow> 'm microblaze" where
  "mb_RSUB p s =
    (let s = next_pc (IMM_reset s)
     in let a = ra p s; b = rb p s; result = (scast b :: u64) + NOT (scast a) + 1;
            s = put_C (carry_bit (NOT a + 1) b result) s
        in set_rd p (ucast result) s)"

definition mb_RSUBC :: "mb_params \<Rightarrow> 'm microblaze \<Rightarrow> 'm microblaze" where
  "mb_RSUBC p s =
    (let s = next_pc (IMM_reset s)
     in let a = ra p s; b = rb p s; result = (scast b :: u64) + NOT (scast a) + ucast (C s);
            s = put_C (carry_bit (NOT a + C s) b result) s
        in set_rd p (ucast result) s)"

definition mb_RSUBI :: "mb_params \<Rightarrow> 'm microblaze \<Rightarrow> 'm microblaze" where
  "mb_RSUBI p s =
    (let (imm_value, s) = IMM_handler (imm p) s; s = next_pc s
     in let a = ra p s; result = (scast imm_value :: u64) + NOT (scast a) + 1;
            s = put_C (carry_bit (NOT a + 1) imm_value result) s
        in set_rd p (ucast result) s)"

definition mb_RSUBIC :: "mb_params \<Rightarrow> 'm microblaze \<Rightarrow> 'm microblaze" where
  "mb_RSUBIC p s =
    (let (imm_value, s) = IMM_handler (imm p) s; s = next_pc s
     in let a = ra p s; result = (scast imm_value :: u64) + NOT (scast a) + ucast (C s);
            s = put_C (carry_bit (NOT a + C s) imm_value result) s
        in set_rd p (ucast result) s)"

definition mb_RSUBK :: "mb_params \<Rightarrow> 'm microblaze \<Rightarrow> 'm microblaze" where
  "mb_RSUBK p s =
    (let s = next_pc (IMM_reset s)
     in set_rd p (rb p s + NOT (ra p s) + 1) s)"

definition mb_RSUBKC :: "mb_params \<Rightarrow> 'm microblaze \<Rightarrow> 'm microblaze" where
  "mb_RSUBKC p s =
    (let s = next_pc (IMM_reset s)
     in set_rd p (rb p s + NOT (ra p s) + C s) s)"

definition mb_RSUBIK :: "mb_params \<Rightarrow> 'm microblaze \<Rightarrow> 'm microblaze" where
  "mb_RSUBIK p s =
    (let (imm_value, s) = IMM_handler (imm p) s; s = next_pc s
     in set_rd p (imm_value + NOT (ra p s) + 1) s)"

definition mb_RSUBIKC :: "mb_params \<Rightarrow> 'm microblaze \<Rightarrow> 'm microblaze" where
  "mb_RSUBIKC p s =
    (let (imm_value, s) = IMM_handler (imm p) s; s = next_pc s
     in set_rd p (imm_value + NOT (ra p s) + C s) s)"

section \<open>Comparison\<close>

definition mb_CMP :: "mb_params \<Rightarrow> 'm microblaze \<Rightarrow> 'm microblaze" where
  "mb_CMP p s =
    (let s = next_pc (IMM_reset s)
     in let result = rb p s + NOT (ra p s) + 1;
            result = (if rb p s <s ra p s then result OR 0x80000000 else result AND 0x7fffffff)
        in set_rd p result s)"

definition mb_CMPU :: "mb_params \<Rightarrow> 'm microblaze \<Rightarrow> 'm microblaze" where
  "mb_CMPU p s =
    (let s = next_pc (IMM_reset s)
     in let result = rb p s + NOT (ra p s) + 1;
            result = (if rb p s < ra p s then result OR 0x80000000 else result AND 0x7fffffff)
        in set_rd p result s)"

definition mb_PCMPEQ :: "mb_params \<Rightarrow> 'm microblaze \<Rightarrow> 'm microblaze" where
  "mb_PCMPEQ p s =
    (let s = next_pc (IMM_reset s)
     in set_rd p (int_of_bool (rb p s = ra p s)) s)"

definition mb_PCMPNE :: "mb_params \<Rightarrow> 'm microblaze \<Rightarrow> 'm microblaze" where
  "mb_PCMPNE p s =
    (let s = next_pc (IMM_reset s)
     in set_rd p (int_of_bool (rb p s \<noteq> ra p s)) s)"

definition mb_PCMPBF :: "mb_params \<Rightarrow> 'm microblaze \<Rightarrow> 'm microblaze" where
  "mb_PCMPBF p s =
    (let s = next_pc (IMM_reset s)
     in set_rd p
          (if (rb p s AND 0xff000000) = (ra p s AND 0xff000000) then 0x1
           else if (rb p s AND 0x00ff0000) = (ra p s AND 0x00ff0000) then 0x2
           else if (rb p s AND 0x0000ff00) = (ra p s AND 0x0000ff00) then 0x3
           else if (rb p s AND 0x000000ff) = (ra p s AND 0x000000ff) then 0x4
           else 0x0) s)"

section \<open>Logic and sign extension\<close>

definition mb_OR :: "mb_params \<Rightarrow> 'm microblaze \<Rightarrow> 'm microblaze" where
  "mb_OR p s =
    (let s = next_pc (IMM_reset s)
     in set_rd p (ra p s OR rb p s) s)"

definition mb_ORI :: "mb_params \<Rightarrow> 'm microblaze \<Rightarrow> 'm microblaze" where
  "mb_ORI p s =
    (let (imm_value, s) = IMM_handler (imm p) s; s = next_pc s
     in set_rd p (ra p s OR imm_value) s)"

definition mb_AND :: "mb_params \<Rightarrow> 'm microblaze \<Rightarrow> 'm microblaze" where
  "mb_AND p s =
    (let s = next_pc (IMM_reset s)
     in set_rd p (ra p s AND rb p s) s)"

definition mb_ANDI :: "mb_params \<Rightarrow> 'm microblaze \<Rightarrow> 'm microblaze" where
  "mb_ANDI p s =
    (let (imm_value, s) = IMM_handler (imm p) s; s = next_pc s
     in set_rd p (ra p s AND imm_value) s)"

definition mb_XOR :: "mb_params \<Rightarrow> 'm microblaze \<Rightarrow> 'm microblaze" where
  "mb_XOR p s =
    (let s = next_pc (IMM_reset s)
     in set_rd p (ra p s XOR rb p s) s)"

definition mb_XORI :: "mb_params \<Rightarrow> 'm microblaze \<Rightarrow> 'm microblaze" where
  "mb_XORI p s =
    (let (imm_value, s) = IMM_handler (imm p) s; s = next_pc s
     in set_rd p (ra p s XOR imm_value) s)"

definition mb_ANDN :: "mb_params \<Rightarrow> 'm microblaze \<Rightarrow> 'm microblaze" where
  "mb_ANDN p s =
    (let s = next_pc (IMM_reset s)
     in set_rd p (ra p s AND NOT (rb p s)) s)"

definition mb_ANDNI :: "mb_params \<Rightarrow> 'm microblaze \<Rightarrow> 'm microblaze" where
  "mb_ANDNI p s =
    (let (imm_value, s) = IMM_handler (imm p) s; s = next_pc s
     in set_rd p (ra p s AND NOT imm_value) s)"

definition mb_SEXT8 :: "mb_params \<Rightarrow> 'm microblaze \<Rightarrow> 'm microblaze" where
  "mb_SEXT8 p s =
    (let s = next_pc (IMM_reset s)
     in set_rd p
          (if ra p s AND 0x00000080 \<noteq> 0 then ra p s OR 0xffffff00 else ra p s AND 0x000000ff) s)"

definition mb_SEXT16 :: "mb_params \<Rightarrow> 'm microblaze \<Rightarrow> 'm microblaze" where
  "mb_SEXT16 p s =
    (let s = next_pc (IMM_reset s)
     in set_rd p
          (if ra p s AND 0x00008000 \<noteq> 0 then ra p s OR 0xffff0000 else ra p s AND 0x0000ffff) s)"

section \<open>Shifts\<close>

definition mb_BSLL :: "mb_params \<Rightarrow> 'm microblaze \<Rightarrow> 'm microblaze" where
  "mb_BSLL p s =
    (let s = next_pc (IMM_reset s)
     in set_rd p (push_bit (unat (rb p s AND 0x1f)) (ra p s)) s)"

definition mb_BSRL :: "mb_params \<Rightarrow> 'm microblaze \<Rightarrow> 'm microblaze" where
  "mb_BSRL p s =
    (let s = next_pc (IMM_reset s)
     in set_rd p (drop_bit (unat (rb p s AND 0x1f)) (ra p s)) s)"

definition mb_BSRA :: "mb_params \<Rightarrow> 'm microblaze \<Rightarrow> 'm microblaze" where
  "mb_BSRA p s =
    (let s = next_pc (IMM_reset s)
     in set_rd p (signed_drop_bit (unat (rb p s AND 0x1f)) (ra p s)) s)"

text \<open>A shift by an immediate of 32 or more, which an \<^verbatim>\<open>IMM\<close> prefix can give, is undefined in
  C++.\<close>

definition mb_BSLLI :: "mb_params \<Rightarrow> 'm microblaze \<Rightarrow> 'm mres" where
  "mb_BSLLI p s =
    (let (imm_value, s) = IMM_handler (imm p) s; s = next_pc s
     in if imm_value < 32 then Ok 0 (set_rd p (push_bit (unat imm_value) (ra p s)) s) else Throw Undefined_Op)"

definition mb_BSRLI :: "mb_params \<Rightarrow> 'm microblaze \<Rightarrow> 'm mres" where
  "mb_BSRLI p s =
    (let (imm_value, s) = IMM_handler (imm p) s; s = next_pc s
     in if imm_value < 32 then Ok 0 (set_rd p (drop_bit (unat imm_value) (ra p s)) s) else Throw Undefined_Op)"

definition mb_BSRAI :: "mb_params \<Rightarrow> 'm microblaze \<Rightarrow> 'm mres" where
  "mb_BSRAI p s =
    (let (imm_value, s) = IMM_handler (imm p) s; s = next_pc s
     in if imm_value < 32 then Ok 0 (set_rd p (signed_drop_bit (unat imm_value) (ra p s)) s) else Throw Undefined_Op)"

definition mb_SRC :: "mb_params \<Rightarrow> 'm microblaze \<Rightarrow> 'm microblaze" where
  "mb_SRC p s =
    (let s = next_pc (IMM_reset s)
     in let result = signed_drop_bit 1 (ra p s);
            result = (if C s \<noteq> 0 then result OR 0x80000000 else result AND 0x7fffffff)
        in set_rd p result (put_C (int_of_bool (ra p s AND 0x00000001 \<noteq> 0)) s))"

definition mb_SRA :: "mb_params \<Rightarrow> 'm microblaze \<Rightarrow> 'm microblaze" where
  "mb_SRA p s =
    (let s = next_pc (IMM_reset s)
     in let result = signed_drop_bit 1 (ra p s);
            result = (if ra p s AND 0x80000000 \<noteq> 0 then result OR 0x80000000 else result AND 0x7fffffff)
        in set_rd p result (put_C (int_of_bool (ra p s AND 0x00000001 \<noteq> 0)) s))"

definition mb_SRL :: "mb_params \<Rightarrow> 'm microblaze \<Rightarrow> 'm microblaze" where
  "mb_SRL p s =
    (let s = next_pc (IMM_reset s)
     in let result = signed_drop_bit 1 (ra p s);
            result = result AND 0x7fffffff
        in set_rd p result (put_C (int_of_bool (ra p s AND 0x00000001 \<noteq> 0)) s))"

section \<open>Multiplication and division\<close>

definition mb_MUL :: "mb_params \<Rightarrow> 'm microblaze \<Rightarrow> 'm microblaze" where
  "mb_MUL p s =
    (let s = next_pc (IMM_reset s)
     in let res = (scast (rb p s) :: u64) * scast (ra p s) in set_rd p (ucast res) s)"

definition mb_MULI :: "mb_params \<Rightarrow> 'm microblaze \<Rightarrow> 'm microblaze" where
  "mb_MULI p s =
    (let (imm_value, s) = IMM_handler (imm p) s; s = next_pc s
     in let res = (scast (ra p s * imm_value) :: u64) in set_rd p (ucast res) s)"

definition mb_MULH :: "mb_params \<Rightarrow> 'm microblaze \<Rightarrow> 'm microblaze" where
  "mb_MULH p s =
    (let s = next_pc (IMM_reset s)
     in let res = signed_drop_bit 32 ((scast (ra p s) :: u64) * scast (rb p s)) in set_rd p (ucast res) s)"

definition mb_MULHU :: "mb_params \<Rightarrow> 'm microblaze \<Rightarrow> 'm microblaze" where
  "mb_MULHU p s =
    (let s = next_pc (IMM_reset s)
     in let res = drop_bit 32 ((ucast (ra p s) :: u64) * ucast (rb p s)) in set_rd p (ucast res) s)"

definition mb_MULHSU :: "mb_params \<Rightarrow> 'm microblaze \<Rightarrow> 'm microblaze" where
  "mb_MULHSU p s =
    (let s = next_pc (IMM_reset s)
     in let res = signed_drop_bit 32 ((scast (ra p s) :: u64) * ucast (rb p s)) in set_rd p (ucast res) s)"

text \<open>The quotient of the least integer by \<^verbatim>\<open>-1\<close> overflows, which C++ leaves undefined
  (the host traps).\<close>

definition mb_IDIV :: "mb_params \<Rightarrow> 'm microblaze \<Rightarrow> 'm mres" where
  "mb_IDIV p s =
    (let s = next_pc (IMM_reset s)
     in if ra p s = 0 then
          Ok 0 ((set_rd p 0 s)\<lparr>MSR := set_MSR_DZ 1 (MSR s), ESR := set_ESR_EC 0x14 (ESR s)\<rparr>)
        else if rb p s = 0x80000000 \<and> ra p s = 0xffffffff then Throw Undefined_Op
        else Ok 0 (set_rd p (word_of_int (sint (rb p s) sdiv sint (ra p s))) s))"

definition mb_IDIVU :: "mb_params \<Rightarrow> 'm microblaze \<Rightarrow> 'm microblaze" where
  "mb_IDIVU p s =
    (let s = next_pc (IMM_reset s)
     in if ra p s = 0 then
          (set_rd p 0 s)\<lparr>MSR := set_MSR_DZ 1 (MSR s), ESR := set_ESR_EC 0x5 (ESR s)\<rparr>
        else set_rd p (rb p s div ra p s) s)"

section \<open>The prefix, special registers and cache instructions\<close>

definition mb_IMM :: "mb_params \<Rightarrow> 'm microblaze \<Rightarrow> 'm microblaze" where
  "mb_IMM p s =
    (let s = next_pc (IMM_reset s)
     in let s = s\<lparr>IMMREG := imm p AND 0x0000ffff\<rparr> in s\<lparr>IMMREG := IMMREG s OR 0x80000000\<rparr>)"

definition mb_WDC :: "mb_params \<Rightarrow> 'm microblaze \<Rightarrow> 'm microblaze" where
  "mb_WDC p s =
    (let s = next_pc (IMM_reset s)
     in s)"

definition mb_WIC :: "mb_params \<Rightarrow> 'm microblaze \<Rightarrow> 'm microblaze" where
  "mb_WIC p s =
    (let s = next_pc (IMM_reset s)
     in s)"

definition mb_MFS :: "mb_params \<Rightarrow> 'm microblaze \<Rightarrow> 'm microblaze" where
  "mb_MFS p s =
    (let s = next_pc (IMM_reset s)
     in let s =
       (if rs p = 0x0000 then set_rd p (PC s) s
        else if rs p = 0x0001 then set_rd p (MSR s) s
        else if rs p = 0x0003 then set_rd p (EAR s) s
        else if rs p = 0x0005 then set_rd p (ESR s) s
        else if rs p = 0x0007 then set_rd p (FSR s) s
        else if rs p = 0x000b then set_rd p (BTR s) s
        else if rs p = 0x000d then set_rd p (EDR s) s
        else if rs p = 0x1000 then set_rd p (PID s) s
        else if rs p = 0x1001 then set_rd p (ZPR s) s
        else if rs p = 0x1002 then set_rd p (TLBX s) s
        else if rs p = 0x1003 then set_rd p (TLBLO s) s
        else if rs p = 0x1004 then set_rd p (TLBHI s) s
        else s)
        in if rs p \<ge> 0x2000 \<and> rs p \<le> 0x200b then set_rd p (PVR s (unat (rs p - 0x2000))) s else s)"

definition mb_MTS :: "mb_params \<Rightarrow> 'm microblaze \<Rightarrow> 'm microblaze" where
  "mb_MTS p s =
    (let s = next_pc (IMM_reset s)
     in if MSR_UM (MSR s) = 1 then s\<lparr>ESR := set_ESR_EC 0x1c (ESR s)\<rparr>
        else if rs p = 0x0001 then s\<lparr>MSR := ra p s\<rparr>
        else if rs p = 0x0007 then s\<lparr>FSR := ra p s\<rparr>
        else if rs p = 0x1000 then s\<lparr>PID := ra p s\<rparr>
        else if rs p = 0x1001 then s\<lparr>ZPR := ra p s\<rparr>
        else if rs p = 0x1002 then s\<lparr>TLBX := ra p s\<rparr>
        else if rs p = 0x1003 then s\<lparr>TLBLO := ra p s\<rparr>
        else if rs p = 0x1004 then s\<lparr>TLBHI := ra p s\<rparr>
        else if rs p = 0x1005 then s\<lparr>TLBSX := ra p s\<rparr>
        else s)"

text \<open>The fifteen rounds of \<^verbatim>\<open>MSRSET\<close> and \<^verbatim>\<open>MSRCLR\<close> take the mask off
  \<^verbatim>\<open>imm15\<close> from its low end; the second component is what they leave in the field
  \<^verbatim>\<open>imm15\<close> of the instruction object.\<close>

primrec msrset_loop :: "nat \<Rightarrow> u32 \<times> u32 \<Rightarrow> u32 \<times> u32" where
  "msrset_loop 0 st = st"
| "msrset_loop (Suc n) st =
     (let (mask15, left) = st; mask15 = mask15 + left mod 2; left = drop_bit 1 left; mask15 = push_bit 1 mask15
      in msrset_loop n (mask15, left))"

primrec msrclr_loop :: "nat \<Rightarrow> u32 \<times> u32 \<Rightarrow> u32 \<times> u32" where
  "msrclr_loop 0 st = st"
| "msrclr_loop (Suc n) st =
     (let (mask15, left) = st; mask15 = mask15 + int_of_bool (left mod 2 = 0); left = drop_bit 1 left;
          mask15 = push_bit 1 mask15
      in msrclr_loop n (mask15, left))"

definition mb_MSRSET :: "mb_params \<Rightarrow> 'm microblaze \<Rightarrow> 'm microblaze" where
  "mb_MSRSET p s =
    (let s = next_pc (IMM_reset s)
     in if MSR_UM (MSR s) = 1 \<and> imm15 p \<noteq> 0x4 then s\<lparr>ESR := set_ESR_EC 0x1c (ESR s)\<rparr>
        else (let s = set_rd p (MSR s) s; mask15 = fst (msrset_loop 15 (0, imm15 p));
                  mask15 = push_bit 16 mask15; mask15 = mask15 AND 0xfffe0000
              in s\<lparr>MSR := MSR s OR mask15\<rparr>))"

definition mb_MSRCLR :: "mb_params \<Rightarrow> 'm microblaze \<Rightarrow> 'm microblaze" where
  "mb_MSRCLR p s =
    (let s = next_pc (IMM_reset s)
     in if MSR_UM (MSR s) = 1 \<and> imm15 p \<noteq> 0x4 then s\<lparr>ESR := set_ESR_EC 0x1c (ESR s)\<rparr>
        else (let s = set_rd p (MSR s) s; mask15 = fst (msrclr_loop 15 (0, imm15 p));
                  mask15 = push_bit 16 mask15; mask15 = mask15 OR 0x0001ffff
              in s\<lparr>MSR := MSR s AND mask15\<rparr>))"

text \<open>What an execution leaves in the fields of the instruction object (the others only read
  them).\<close>

definition left_params :: "nat \<Rightarrow> mb_params \<Rightarrow> 'm microblaze \<Rightarrow> mb_params" where
  "left_params instrId p s =
     (if instrId = 77 \<and> \<not> (MSR_UM (MSR s) = 1 \<and> imm15 p \<noteq> 0x4)
      then p\<lparr>imm15 := snd (msrset_loop 15 (0, imm15 p))\<rparr>
      else if instrId = 76 \<and> \<not> (MSR_UM (MSR s) = 1 \<and> imm15 p \<noteq> 0x4)
      then p\<lparr>imm15 := snd (msrclr_loop 15 (0, imm15 p))\<rparr>
      else p)"

text \<open>These three do nothing at all, not even advance the program counter; and the invalid
  instruction throws.\<close>

definition mb_FINT :: "mb_params \<Rightarrow> 'm microblaze \<Rightarrow> 'm microblaze" where
  "mb_FINT p s =
    (s)"

definition mb_FSQRT :: "mb_params \<Rightarrow> 'm microblaze \<Rightarrow> 'm microblaze" where
  "mb_FSQRT p s =
    (s)"

definition mb_FCMP :: "mb_params \<Rightarrow> 'm microblaze \<Rightarrow> 'm microblaze" where
  "mb_FCMP p s =
    (s)"

definition mb_InvalidInstr :: "mb_params \<Rightarrow> 'm microblaze \<Rightarrow> 'm mres" where
  "mb_InvalidInstr p s =
    (Throw (Unknown_Instr (PC s)))"

end
