(* ===== verification/Mb_Branch.thy ===== *)
theory Mb_Branch
  imports Mb_State
begin

text \<open>
  The branches, breaks and returns of the MicroBlaze simulator
  (src/microblaze/microblaze/intunit/instructions.cpp).  They do not run the block that
  advances the program counter, so a target left by an earlier branch stays pending.
\<close>

section \<open>Conditional branches\<close>

text \<open>Without a delay slot the branch writes \<^verbatim>\<open>PC\<close>; with one it writes \<^verbatim>\<open>TARGET\<close>,
  where the instruction of the slot finds it.\<close>

definition mb_BEQ :: "mb_params \<Rightarrow> 'm microblaze \<Rightarrow> 'm microblaze" where
  "mb_BEQ p s =
    (let s = IMM_reset s
     in if ra p s = 0 then s\<lparr>PC := PC s + rb p s\<rparr> else s\<lparr>PC := PC s + 4\<rparr>)"

definition mb_BEQI :: "mb_params \<Rightarrow> 'm microblaze \<Rightarrow> 'm microblaze" where
  "mb_BEQI p s =
    (let (imm_value, s) = IMM_handler (imm p) s
     in if ra p s = 0 then s\<lparr>PC := PC s + imm_value\<rparr> else s\<lparr>PC := PC s + 4\<rparr>)"

definition mb_BEQD :: "mb_params \<Rightarrow> 'm microblaze \<Rightarrow> 'm microblaze" where
  "mb_BEQD p s =
    (let s = IMM_reset s;
         s = (if ra p s = 0 then s\<lparr>TARGET := PC s + rb p s\<rparr> else s\<lparr>TARGET := PC s + 8\<rparr>)
     in s\<lparr>PC := PC s + 4\<rparr>)"

definition mb_BEQID :: "mb_params \<Rightarrow> 'm microblaze \<Rightarrow> 'm microblaze" where
  "mb_BEQID p s =
    (let (imm_value, s) = IMM_handler (imm p) s;
         s = (if ra p s = 0 then s\<lparr>TARGET := PC s + imm_value\<rparr> else s\<lparr>TARGET := PC s + 8\<rparr>)
     in s\<lparr>PC := PC s + 4\<rparr>)"

definition mb_BNE :: "mb_params \<Rightarrow> 'm microblaze \<Rightarrow> 'm microblaze" where
  "mb_BNE p s =
    (let s = IMM_reset s
     in if ra p s \<noteq> 0 then s\<lparr>PC := PC s + rb p s\<rparr> else s\<lparr>PC := PC s + 4\<rparr>)"

definition mb_BNEI :: "mb_params \<Rightarrow> 'm microblaze \<Rightarrow> 'm microblaze" where
  "mb_BNEI p s =
    (let (imm_value, s) = IMM_handler (imm p) s
     in if ra p s \<noteq> 0 then s\<lparr>PC := PC s + imm_value\<rparr> else s\<lparr>PC := PC s + 4\<rparr>)"

definition mb_BNED :: "mb_params \<Rightarrow> 'm microblaze \<Rightarrow> 'm microblaze" where
  "mb_BNED p s =
    (let s = IMM_reset s;
         s = (if ra p s \<noteq> 0 then s\<lparr>TARGET := PC s + rb p s\<rparr> else s\<lparr>TARGET := PC s + 8\<rparr>)
     in s\<lparr>PC := PC s + 4\<rparr>)"

definition mb_BNEID :: "mb_params \<Rightarrow> 'm microblaze \<Rightarrow> 'm microblaze" where
  "mb_BNEID p s =
    (let (imm_value, s) = IMM_handler (imm p) s;
         s = (if ra p s \<noteq> 0 then s\<lparr>TARGET := PC s + imm_value\<rparr> else s\<lparr>TARGET := PC s + 8\<rparr>)
     in s\<lparr>PC := PC s + 4\<rparr>)"

definition mb_BLT :: "mb_params \<Rightarrow> 'm microblaze \<Rightarrow> 'm microblaze" where
  "mb_BLT p s =
    (let s = IMM_reset s
     in if ra p s <s 0 then s\<lparr>PC := PC s + rb p s\<rparr> else s\<lparr>PC := PC s + 4\<rparr>)"

definition mb_BLTI :: "mb_params \<Rightarrow> 'm microblaze \<Rightarrow> 'm microblaze" where
  "mb_BLTI p s =
    (let (imm_value, s) = IMM_handler (imm p) s
     in if ra p s <s 0 then s\<lparr>PC := PC s + imm_value\<rparr> else s\<lparr>PC := PC s + 4\<rparr>)"

definition mb_BLTD :: "mb_params \<Rightarrow> 'm microblaze \<Rightarrow> 'm microblaze" where
  "mb_BLTD p s =
    (let s = IMM_reset s;
         s = (if ra p s <s 0 then s\<lparr>TARGET := PC s + rb p s\<rparr> else s\<lparr>TARGET := PC s + 8\<rparr>)
     in s\<lparr>PC := PC s + 4\<rparr>)"

definition mb_BLTID :: "mb_params \<Rightarrow> 'm microblaze \<Rightarrow> 'm microblaze" where
  "mb_BLTID p s =
    (let (imm_value, s) = IMM_handler (imm p) s;
         s = (if ra p s <s 0 then s\<lparr>TARGET := PC s + imm_value\<rparr> else s\<lparr>TARGET := PC s + 8\<rparr>)
     in s\<lparr>PC := PC s + 4\<rparr>)"

definition mb_BLE :: "mb_params \<Rightarrow> 'm microblaze \<Rightarrow> 'm microblaze" where
  "mb_BLE p s =
    (let s = IMM_reset s
     in if ra p s <=s 0 then s\<lparr>PC := PC s + rb p s\<rparr> else s\<lparr>PC := PC s + 4\<rparr>)"

definition mb_BLEI :: "mb_params \<Rightarrow> 'm microblaze \<Rightarrow> 'm microblaze" where
  "mb_BLEI p s =
    (let (imm_value, s) = IMM_handler (imm p) s
     in if ra p s <=s 0 then s\<lparr>PC := PC s + imm_value\<rparr> else s\<lparr>PC := PC s + 4\<rparr>)"

definition mb_BLED :: "mb_params \<Rightarrow> 'm microblaze \<Rightarrow> 'm microblaze" where
  "mb_BLED p s =
    (let s = IMM_reset s;
         s = (if ra p s <=s 0 then s\<lparr>TARGET := PC s + rb p s\<rparr> else s\<lparr>TARGET := PC s + 8\<rparr>)
     in s\<lparr>PC := PC s + 4\<rparr>)"

definition mb_BLEID :: "mb_params \<Rightarrow> 'm microblaze \<Rightarrow> 'm microblaze" where
  "mb_BLEID p s =
    (let (imm_value, s) = IMM_handler (imm p) s;
         s = (if ra p s <=s 0 then s\<lparr>TARGET := PC s + imm_value\<rparr> else s\<lparr>TARGET := PC s + 8\<rparr>)
     in s\<lparr>PC := PC s + 4\<rparr>)"

definition mb_BGT :: "mb_params \<Rightarrow> 'm microblaze \<Rightarrow> 'm microblaze" where
  "mb_BGT p s =
    (let s = IMM_reset s
     in if 0 <s ra p s then s\<lparr>PC := PC s + rb p s\<rparr> else s\<lparr>PC := PC s + 4\<rparr>)"

definition mb_BGTI :: "mb_params \<Rightarrow> 'm microblaze \<Rightarrow> 'm microblaze" where
  "mb_BGTI p s =
    (let (imm_value, s) = IMM_handler (imm p) s
     in if 0 <s ra p s then s\<lparr>PC := PC s + imm_value\<rparr> else s\<lparr>PC := PC s + 4\<rparr>)"

definition mb_BGTD :: "mb_params \<Rightarrow> 'm microblaze \<Rightarrow> 'm microblaze" where
  "mb_BGTD p s =
    (let s = IMM_reset s;
         s = (if 0 <s ra p s then s\<lparr>TARGET := PC s + rb p s\<rparr> else s\<lparr>TARGET := PC s + 8\<rparr>)
     in s\<lparr>PC := PC s + 4\<rparr>)"

definition mb_BGTID :: "mb_params \<Rightarrow> 'm microblaze \<Rightarrow> 'm microblaze" where
  "mb_BGTID p s =
    (let (imm_value, s) = IMM_handler (imm p) s;
         s = (if 0 <s ra p s then s\<lparr>TARGET := PC s + imm_value\<rparr> else s\<lparr>TARGET := PC s + 8\<rparr>)
     in s\<lparr>PC := PC s + 4\<rparr>)"

definition mb_BGE :: "mb_params \<Rightarrow> 'm microblaze \<Rightarrow> 'm microblaze" where
  "mb_BGE p s =
    (let s = IMM_reset s
     in if 0 <=s ra p s then s\<lparr>PC := PC s + rb p s\<rparr> else s\<lparr>PC := PC s + 4\<rparr>)"

definition mb_BGEI :: "mb_params \<Rightarrow> 'm microblaze \<Rightarrow> 'm microblaze" where
  "mb_BGEI p s =
    (let (imm_value, s) = IMM_handler (imm p) s
     in if 0 <=s ra p s then s\<lparr>PC := PC s + imm_value\<rparr> else s\<lparr>PC := PC s + 4\<rparr>)"

definition mb_BGED :: "mb_params \<Rightarrow> 'm microblaze \<Rightarrow> 'm microblaze" where
  "mb_BGED p s =
    (let s = IMM_reset s;
         s = (if 0 <=s ra p s then s\<lparr>TARGET := PC s + rb p s\<rparr> else s\<lparr>TARGET := PC s + 8\<rparr>)
     in s\<lparr>PC := PC s + 4\<rparr>)"

definition mb_BGEID :: "mb_params \<Rightarrow> 'm microblaze \<Rightarrow> 'm microblaze" where
  "mb_BGEID p s =
    (let (imm_value, s) = IMM_handler (imm p) s;
         s = (if 0 <=s ra p s then s\<lparr>TARGET := PC s + imm_value\<rparr> else s\<lparr>TARGET := PC s + 8\<rparr>)
     in s\<lparr>PC := PC s + 4\<rparr>)"

section \<open>Unconditional branches\<close>

definition mb_BR :: "mb_params \<Rightarrow> 'm microblaze \<Rightarrow> 'm microblaze" where
  "mb_BR p s =
    (let s = IMM_reset s
     in s\<lparr>PC := PC s + rb p s\<rparr>)"

definition mb_BRA :: "mb_params \<Rightarrow> 'm microblaze \<Rightarrow> 'm microblaze" where
  "mb_BRA p s =
    (let s = IMM_reset s
     in s\<lparr>PC := rb p s\<rparr>)"

definition mb_BRI :: "mb_params \<Rightarrow> 'm microblaze \<Rightarrow> 'm microblaze" where
  "mb_BRI p s =
    (let (imm_value, s) = IMM_handler (imm p) s
     in s\<lparr>PC := PC s + imm_value\<rparr>)"

definition mb_BRAI :: "mb_params \<Rightarrow> 'm microblaze \<Rightarrow> 'm microblaze" where
  "mb_BRAI p s =
    (let (imm_value, s) = IMM_handler (imm p) s
     in s\<lparr>PC := imm_value\<rparr>)"

definition mb_BRD :: "mb_params \<Rightarrow> 'm microblaze \<Rightarrow> 'm microblaze" where
  "mb_BRD p s =
    (let s = IMM_reset s; s = s\<lparr>TARGET := PC s + rb p s\<rparr>
     in s\<lparr>PC := PC s + 4\<rparr>)"

definition mb_BRAD :: "mb_params \<Rightarrow> 'm microblaze \<Rightarrow> 'm microblaze" where
  "mb_BRAD p s =
    (let s = IMM_reset s; s = s\<lparr>TARGET := rb p s\<rparr>
     in s\<lparr>PC := PC s + 4\<rparr>)"

definition mb_BRLD :: "mb_params \<Rightarrow> 'm microblaze \<Rightarrow> 'm microblaze" where
  "mb_BRLD p s =
    (let s = IMM_reset s; s = set_rd p (PC s) s; s = s\<lparr>TARGET := PC s + rb p s\<rparr>
     in s\<lparr>PC := PC s + 4\<rparr>)"

definition mb_BRALD :: "mb_params \<Rightarrow> 'm microblaze \<Rightarrow> 'm microblaze" where
  "mb_BRALD p s =
    (let s = IMM_reset s; s = set_rd p (PC s) s; s = s\<lparr>TARGET := rb p s\<rparr>
     in s\<lparr>PC := PC s + 4\<rparr>)"

definition mb_BRID :: "mb_params \<Rightarrow> 'm microblaze \<Rightarrow> 'm microblaze" where
  "mb_BRID p s =
    (let (imm_value, s) = IMM_handler (imm p) s; s = s\<lparr>TARGET := PC s + imm_value\<rparr>
     in s\<lparr>PC := PC s + 4\<rparr>)"

definition mb_BRAID :: "mb_params \<Rightarrow> 'm microblaze \<Rightarrow> 'm microblaze" where
  "mb_BRAID p s =
    (let (imm_value, s) = IMM_handler (imm p) s; s = s\<lparr>TARGET := imm_value\<rparr>
     in s\<lparr>PC := PC s + 4\<rparr>)"

definition mb_BRLID :: "mb_params \<Rightarrow> 'm microblaze \<Rightarrow> 'm microblaze" where
  "mb_BRLID p s =
    (let (imm_value, s) = IMM_handler (imm p) s; s = set_rd p (PC s) s; s = s\<lparr>TARGET := PC s + imm_value\<rparr>
     in s\<lparr>PC := PC s + 4\<rparr>)"

definition mb_BRALID :: "mb_params \<Rightarrow> 'm microblaze \<Rightarrow> 'm microblaze" where
  "mb_BRALID p s =
    (let (imm_value, s) = IMM_handler (imm p) s; s = set_rd p (PC s) s; s = s\<lparr>TARGET := imm_value\<rparr>
     in s\<lparr>PC := PC s + 4\<rparr>)"

section \<open>Breaks\<close>

definition mb_BRK :: "mb_params \<Rightarrow> 'm microblaze \<Rightarrow> 'm microblaze" where
  "mb_BRK p s =
    (let s = IMM_reset s
     in if MSR_UM (MSR s) = 1 then s\<lparr>ESR := set_ESR_EC 0x1c (ESR s)\<rparr>
        else (let s = set_rd p (PC s) s; s = s\<lparr>PC := rb p s\<rparr>
              in s\<lparr>MSR := set_MSR_BIP 1 (MSR s)\<rparr>))"

definition mb_BRKI :: "mb_params \<Rightarrow> 'm microblaze \<Rightarrow> 'm microblaze" where
  "mb_BRKI p s =
    (let (imm_value, s) = IMM_handler (imm p) s
     in if MSR_UM (MSR s) = 1 \<and> imm_value \<noteq> 0x8 \<and> imm_value \<noteq> 0x18
        then s\<lparr>ESR := set_ESR_EC 0x1c (ESR s)\<rparr>
        else (let s = set_rd p (PC s) s; s = s\<lparr>PC := imm_value\<rparr>; s = s\<lparr>MSR := set_MSR_BIP 1 (MSR s)\<rparr>
              in if imm_value = 0x8 \<or> imm_value = 0x18
                 then (let s = s\<lparr>MSR := set_MSR_UMS (MSR_UM (MSR s)) (MSR s)\<rparr>;
                           s = s\<lparr>MSR := set_MSR_VMS (MSR_VM (MSR s)) (MSR s)\<rparr>;
                           s = s\<lparr>MSR := set_MSR_UM 0 (MSR s)\<rparr>
                       in s\<lparr>MSR := set_MSR_VM 0 (MSR s)\<rparr>)
                 else s))"

section \<open>Returns\<close>

definition mb_RTSD :: "mb_params \<Rightarrow> 'm microblaze \<Rightarrow> 'm microblaze" where
  "mb_RTSD p s =
    (let (imm_value, s) = IMM_handler (imm p) s; s = s\<lparr>TARGET := ra p s + imm_value\<rparr>
     in s\<lparr>PC := PC s + 4\<rparr>)"

definition mb_RTBD :: "mb_params \<Rightarrow> 'm microblaze \<Rightarrow> 'm microblaze" where
  "mb_RTBD p s =
    (let (imm_value, s) = IMM_handler (imm p) s
     in if MSR_UM (MSR s) = 1 then handleUserPermissionException s
        else (let s = s\<lparr>TARGET := ra p s + imm_value\<rparr>;
                  s = s\<lparr>MSR := set_MSR_BIP 0 (MSR s)\<rparr>;
                  s = s\<lparr>MSR := set_MSR_UM (MSR_UMS (MSR s)) (MSR s)\<rparr>;
                  s = s\<lparr>MSR := set_MSR_VM (MSR_VMS (MSR s)) (MSR s)\<rparr>
              in s\<lparr>PC := PC s + 4\<rparr>))"

definition mb_RTID :: "mb_params \<Rightarrow> 'm microblaze \<Rightarrow> 'm microblaze" where
  "mb_RTID p s =
    (let (imm_value, s) = IMM_handler (imm p) s
     in if MSR_UM (MSR s) = 1 then handleUserPermissionException s
        else (let s = s\<lparr>TARGET := ra p s + imm_value\<rparr>;
                  s = s\<lparr>MSR := set_MSR_IE 1 (MSR s)\<rparr>;
                  s = s\<lparr>MSR := set_MSR_UM (MSR_UMS (MSR s)) (MSR s)\<rparr>;
                  s = s\<lparr>MSR := set_MSR_VM (MSR_VMS (MSR s)) (MSR s)\<rparr>
              in s\<lparr>PC := PC s + 4\<rparr>))"

definition mb_RTED :: "mb_params \<Rightarrow> 'm microblaze \<Rightarrow> 'm microblaze" where
  "mb_RTED p s =
    (let (imm_value, s) = IMM_handler (imm p) s
     in if MSR_UM (MSR s) = 1 then handleUserPermissionException s
        else (let s = (if ESR_DS (ESR s) \<noteq> 0 then s\<lparr>TARGET := BTR s\<rparr>
                       else s\<lparr>TARGET := ra p s + imm_value\<rparr>);
                  s = s\<lparr>MSR := set_MSR_EE 1 (MSR s)\<rparr>;
                  s = s\<lparr>MSR := set_MSR_EIP 0 (MSR s)\<rparr>;
                  s = s\<lparr>MSR := set_MSR_UM (MSR_UMS (MSR s)) (MSR s)\<rparr>;
                  s = s\<lparr>MSR := set_MSR_VM (MSR_VMS (MSR s)) (MSR s)\<rparr>;
                  s = s\<lparr>ESR := 0x0\<rparr>
              in s\<lparr>PC := PC s + 4\<rparr>))"

end
