(* ===== verification/Mb_LoadStore.thy ===== *)
theory Mb_LoadStore
  imports Mb_State
begin

text \<open>
  The loads and stores of the MicroBlaze simulator
  (src/microblaze/microblaze/intunit/instructions.cpp) over an arbitrary memory
  interface \<^verbatim>\<open>cif\<close>.
\<close>

section \<open>Memory accesses of an instruction\<close>

text \<open>The accesses use the default address space \<^verbatim>\<open>0xA\<close> of \<^verbatim>\<open>cpu_if\<close>.  An
  exception the memory reports is only logged (\<^verbatim>\<open>trigger_exception\<close>,
  src/microblaze/microblaze/microblaze.cpp).\<close>

definition on_read :: "('v \<times> u32 option \<times> 'm) option \<Rightarrow> 'm microblaze \<Rightarrow> ('v \<Rightarrow> 'm microblaze \<Rightarrow> 'm mres) \<Rightarrow> 'm mres" where
  "on_read r s k = (case r of None \<Rightarrow> Throw Mem_Fault | Some (v, e, m) \<Rightarrow> k v (s\<lparr>MEM := m\<rparr>))"

definition on_write :: "(u32 option \<times> 'm) option \<Rightarrow> 'm microblaze \<Rightarrow> 'm mres" where
  "on_write r s = (case r of None \<Rightarrow> Throw Mem_Fault | Some (e, m) \<Rightarrow> Ok 0 (s\<lparr>MEM := m\<rparr>))"

section \<open>Loads\<close>

definition mb_LBU :: "'m cpu_if \<Rightarrow> mb_params \<Rightarrow> 'm microblaze \<Rightarrow> 'm mres" where
  "mb_LBU cif p s =
    (let s = next_pc (IMM_reset s); addr = ra p s + rb p s
     in on_read (if_read_byte cif addr 0xA 0 0 (MEM s)) s (\<lambda>v s. let s = set_rd p (ucast v) s in Ok 0 (set_rd p (rd p s AND 0x000000ff) s)))"

definition mb_LBUI :: "'m cpu_if \<Rightarrow> mb_params \<Rightarrow> 'm microblaze \<Rightarrow> 'm mres" where
  "mb_LBUI cif p s =
    (let (imm_value, s) = IMM_handler (imm p) s; s = next_pc s; addr = ra p s + imm_value
     in on_read (if_read_byte cif addr 0xA 0 0 (MEM s)) s (\<lambda>v s. let s = set_rd p (ucast v) s in Ok 0 (set_rd p (rd p s AND 0x000000ff) s)))"

definition mb_LHU :: "'m cpu_if \<Rightarrow> mb_params \<Rightarrow> 'm microblaze \<Rightarrow> 'm mres" where
  "mb_LHU cif p s =
    (let s = next_pc (IMM_reset s); addr = ra p s + rb p s
     in if addr AND 0x00000001 \<noteq> 0 then Ok 0 (handleMemoryException 0x0 0x0 (of_nat (rd_bit p)) addr s)
        else on_read (if_read_half cif addr 0xA 0 0 (MEM s)) s (\<lambda>v s. let s = set_rd p (ucast v) s in Ok 0 (set_rd p (rd p s AND 0x0000ffff) s)))"

definition mb_LHUI :: "'m cpu_if \<Rightarrow> mb_params \<Rightarrow> 'm microblaze \<Rightarrow> 'm mres" where
  "mb_LHUI cif p s =
    (let (imm_value, s) = IMM_handler (imm p) s; s = next_pc s; addr = ra p s + imm_value
     in if addr AND 0x00000001 \<noteq> 0 then Ok 0 (handleMemoryException 0x0 0x0 (of_nat (rd_bit p)) addr s)
        else on_read (if_read_half cif addr 0xA 0 0 (MEM s)) s (\<lambda>v s. let s = set_rd p (ucast v) s in Ok 0 (set_rd p (rd p s AND 0x0000ffff) s)))"

definition mb_LW :: "'m cpu_if \<Rightarrow> mb_params \<Rightarrow> 'm microblaze \<Rightarrow> 'm mres" where
  "mb_LW cif p s =
    (let s = next_pc (IMM_reset s); addr = ra p s + rb p s
     in if addr AND 0x00000003 \<noteq> 0 then Ok 0 (handleMemoryException 0x1 0x0 (of_nat (rd_bit p)) addr s)
        else on_read (if_read_word cif addr 0xA 0 0 (MEM s)) s (\<lambda>v s. Ok 0 (set_rd p v s)))"

definition mb_LWI :: "'m cpu_if \<Rightarrow> mb_params \<Rightarrow> 'm microblaze \<Rightarrow> 'm mres" where
  "mb_LWI cif p s =
    (let (imm_value, s) = IMM_handler (imm p) s; s = next_pc s; addr = ra p s + imm_value
     in if addr AND 0x00000003 \<noteq> 0 then Ok 0 (handleMemoryException 0x1 0x0 (of_nat (rd_bit p)) addr s)
        else on_read (if_read_word cif addr 0xA 0 0 (MEM s)) s (\<lambda>v s. Ok 0 (set_rd p v s)))"

section \<open>Stores\<close>

definition mb_SB :: "'m cpu_if \<Rightarrow> mb_params \<Rightarrow> 'm microblaze \<Rightarrow> 'm mres" where
  "mb_SB cif p s =
    (let s = next_pc (IMM_reset s); addr = ra p s + rb p s
     in on_write (if_write_byte cif addr (ucast (rd p s AND 0x000000ff)) 0xA 0 0 (MEM s)) s)"

definition mb_SBI :: "'m cpu_if \<Rightarrow> mb_params \<Rightarrow> 'm microblaze \<Rightarrow> 'm mres" where
  "mb_SBI cif p s =
    (let (imm_value, s) = IMM_handler (imm p) s; s = next_pc s; addr = ra p s + imm_value
     in on_write (if_write_byte cif addr (ucast (rd p s AND 0x000000ff)) 0xA 0 0 (MEM s)) s)"

definition mb_SH :: "'m cpu_if \<Rightarrow> mb_params \<Rightarrow> 'm microblaze \<Rightarrow> 'm mres" where
  "mb_SH cif p s =
    (let s = next_pc (IMM_reset s); addr = ra p s + rb p s
     in if addr AND 0x00000001 \<noteq> 0 then Ok 0 (handleMemoryException 0x0 0x1 (of_nat (rd_bit p)) addr s)
        else on_write (if_write_half cif addr (ucast (rd p s AND 0x0000ffff)) 0xA 0 0 (MEM s)) s)"

definition mb_SHI :: "'m cpu_if \<Rightarrow> mb_params \<Rightarrow> 'm microblaze \<Rightarrow> 'm mres" where
  "mb_SHI cif p s =
    (let (imm_value, s) = IMM_handler (imm p) s; s = next_pc s; addr = ra p s + imm_value
     in if addr AND 0x00000001 \<noteq> 0 then Ok 0 (handleMemoryException 0x0 0x1 (of_nat (rd_bit p)) addr s)
        else on_write (if_write_half cif addr (ucast (rd p s AND 0x0000ffff)) 0xA 0 0 (MEM s)) s)"

definition mb_SW :: "'m cpu_if \<Rightarrow> mb_params \<Rightarrow> 'm microblaze \<Rightarrow> 'm mres" where
  "mb_SW cif p s =
    (let s = next_pc (IMM_reset s); addr = ra p s + rb p s
     in if addr AND 0x00000003 \<noteq> 0 then Ok 0 (handleMemoryException 0x1 0x1 (of_nat (rd_bit p)) addr s)
        else on_write (if_write_word cif addr (rd p s) 0xA 0 0 (MEM s)) s)"

definition mb_SWI :: "'m cpu_if \<Rightarrow> mb_params \<Rightarrow> 'm microblaze \<Rightarrow> 'm mres" where
  "mb_SWI cif p s =
    (let (imm_value, s) = IMM_handler (imm p) s; s = next_pc s; addr = ra p s + imm_value
     in if addr AND 0x00000003 \<noteq> 0 then Ok 0 (handleMemoryException 0x1 0x1 (of_nat (rd_bit p)) addr s)
        else on_write (if_write_word cif addr (rd p s) 0xA 0 0 (MEM s)) s)"

end
