(* ===== verification/Mb_Float.thy ===== *)
theory Mb_Float
  imports Mb_State
begin

text \<open>
  The floating-point instructions of the MicroBlaze simulator
  (src/microblaze/microblaze/intunit/instructions.cpp).  The results of the host's
  single-precision operations, whose rounding mode and NaN patterns C++ leaves to the
  implementation, come from a parameter \<^verbatim>\<open>hf\<close>; the case
  distinctions around them, made on the bit patterns, are modelled as C parses them.
\<close>

section \<open>The arithmetic of the host\<close>

text \<open>\<^verbatim>\<open>float\<close> operations on bit patterns.\<close>

record host_float =
  float_add :: "u32 \<Rightarrow> u32 \<Rightarrow> u32"
  float_sub :: "u32 \<Rightarrow> u32 \<Rightarrow> u32"
  float_mul :: "u32 \<Rightarrow> u32 \<Rightarrow> u32"
  float_div :: "u32 \<Rightarrow> u32 \<Rightarrow> u32"
  float_of_int :: "u32 \<Rightarrow> u32"

text \<open>C's \<^verbatim>\<open>==\<close> and \<^verbatim>\<open>!=\<close>, whose results the conditions below feed to
  \<^verbatim>\<open>&\<close>: in C they bind tighter, so \<^verbatim>\<open>ira & 0x7f800000 == 0\<close> is
  \<^verbatim>\<open>ira & (0x7f800000 == 0)\<close>.\<close>

definition ceq :: "u32 \<Rightarrow> u32 \<Rightarrow> u32" where
  "ceq x y = int_of_bool (x = y)"

definition cne :: "u32 \<Rightarrow> u32 \<Rightarrow> u32" where
  "cne x y = int_of_bool (x \<noteq> y)"

text \<open>The tests on bit patterns that the source names in its comments, with that parse.\<close>

definition isSigNaN :: "u32 \<Rightarrow> bool" where
  "isSigNaN x = (((x AND ceq 0x7f800000 0x7f800000) \<noteq> 0 \<and> (x AND cne 0x007fffff 0) \<noteq> 0) \<and> (x AND ceq 0x00400000 0) \<noteq> 0)"

definition isQuietNaN :: "u32 \<Rightarrow> bool" where
  "isQuietNaN x = (((x AND ceq 0x7f800000 0x7f800000) \<noteq> 0 \<and> (x AND cne 0x007fffff 0) \<noteq> 0) \<and> (x AND ceq 0x00400000 0x00400000) \<noteq> 0)"

definition isDnz :: "u32 \<Rightarrow> bool" where
  "isDnz x = ((x AND ceq 0x7f800000 0) \<noteq> 0 \<and> (x AND cne 0x007fffff 0) \<noteq> 0)"

definition isNaN :: "u32 \<Rightarrow> bool" where
  "isNaN x = ((x AND ceq 0x7f800000 0x7f800000) \<noteq> 0 \<and> (x AND cne 0x007fffff 0) \<noteq> 0)"

definition isZero :: "u32 \<Rightarrow> bool" where
  "isZero x = ((x AND ceq 0x7f800000 0) \<noteq> 0 \<and> (x AND ceq 0x007fffff 0) \<noteq> 0)"

definition isInfinite :: "u32 \<Rightarrow> bool" where
  "isInfinite x = ((x AND ceq 0x7f800000 0x7f800000) \<noteq> 0 \<and> (x AND ceq 0x007fffff 0) \<noteq> 0)"

definition isNegInfinite :: "u32 \<Rightarrow> bool" where
  "isNegInfinite x = ((x AND ceq 0x7f800000 0x7f800000) \<noteq> 0 \<and> (((x AND ceq 0x007fffff 0) AND x) AND ceq 0x80000000 0x80000000) \<noteq> 0)"

definition isPosInfinite :: "u32 \<Rightarrow> bool" where
  "isPosInfinite x = ((x AND ceq 0x7f800000 0x7f800000) \<noteq> 0 \<and> (((x AND ceq 0x007fffff 0) AND x) AND ceq 0x80000000 0) \<noteq> 0)"

section \<open>Addition, subtraction, multiplication and division\<close>

definition mb_FADD :: "host_float \<Rightarrow> mb_params \<Rightarrow> 'm microblaze \<Rightarrow> 'm microblaze" where
  "mb_FADD hf p s =
    (let s = next_pc (IMM_reset s); ira = ra p s; irb = rb p s;
         res = float_add hf ira irb
     in if isDnz ira \<or> isDnz irb
        then (let s = set_rd p 0xffc00000 s; s = s\<lparr>FSR := set_FSR_DO 1 (FSR s)\<rparr> in s\<lparr>ESR := set_ESR_EC 0x0c (ESR s)\<rparr>)
        else if isSigNaN ira \<or> isSigNaN irb \<or> (isNegInfinite ira \<and> isPosInfinite irb) \<or> (isPosInfinite ira \<and> isNegInfinite irb)
        then (let s = set_rd p 0xffc00000 s; s = s\<lparr>FSR := set_FSR_IO 1 (FSR s)\<rparr> in s\<lparr>ESR := set_ESR_EC 0x0c (ESR s)\<rparr>)
        else if isQuietNaN ira \<or> isQuietNaN irb
        then set_rd p 0xffc00000 s
        else if isDnz res
        then (let s = set_rd p (res AND ceq 0x80000000 0x80000000) s; s = s\<lparr>FSR := set_FSR_UF 1 (FSR s)\<rparr> in s\<lparr>ESR := set_ESR_EC 0x0c (ESR s)\<rparr>)
        else if isNaN res
        then (let s = set_rd p (res AND ceq 0x80000000 0x80000000) s; s = s\<lparr>FSR := set_FSR_OF 1 (FSR s)\<rparr> in s\<lparr>ESR := set_ESR_EC 0x0c (ESR s)\<rparr>)
        else set_rd p res s)"

definition mb_FRSUB :: "host_float \<Rightarrow> mb_params \<Rightarrow> 'm microblaze \<Rightarrow> 'm microblaze" where
  "mb_FRSUB hf p s =
    (let s = next_pc (IMM_reset s); ira = ra p s; irb = rb p s;
         res = float_sub hf irb ira
     in if isDnz ira \<or> isDnz irb
        then (let s = set_rd p 0xffc00000 s; s = s\<lparr>FSR := set_FSR_DO 1 (FSR s)\<rparr> in s\<lparr>ESR := set_ESR_EC 0x0c (ESR s)\<rparr>)
        else if isSigNaN ira \<or> isSigNaN irb \<or> (isNegInfinite ira \<and> isNegInfinite irb) \<or> (isPosInfinite ira \<and> isPosInfinite irb)
        then (let s = set_rd p 0xffc00000 s; s = s\<lparr>FSR := set_FSR_IO 1 (FSR s)\<rparr> in s\<lparr>ESR := set_ESR_EC 0x0c (ESR s)\<rparr>)
        else if isQuietNaN ira \<or> isQuietNaN irb
        then set_rd p 0xffc00000 s
        else if isDnz res
        then (let s = set_rd p (res AND ceq 0x80000000 0x80000000) s; s = s\<lparr>FSR := set_FSR_UF 1 (FSR s)\<rparr> in s\<lparr>ESR := set_ESR_EC 0x0c (ESR s)\<rparr>)
        else if isNaN res
        then (let s = set_rd p (res AND ceq 0x80000000 0x80000000) s; s = s\<lparr>FSR := set_FSR_OF 1 (FSR s)\<rparr> in s\<lparr>ESR := set_ESR_EC 0x0c (ESR s)\<rparr>)
        else set_rd p res s)"

definition mb_FMUL :: "host_float \<Rightarrow> mb_params \<Rightarrow> 'm microblaze \<Rightarrow> 'm microblaze" where
  "mb_FMUL hf p s =
    (let s = next_pc (IMM_reset s); ira = ra p s; irb = rb p s;
         res = float_mul hf irb ira
     in if isDnz ira \<or> isDnz irb
        then (let s = set_rd p 0xffc00000 s; s = s\<lparr>FSR := set_FSR_DO 1 (FSR s)\<rparr> in s\<lparr>ESR := set_ESR_EC 0x0c (ESR s)\<rparr>)
        else if isSigNaN ira \<or> isSigNaN irb \<or> (isZero ira \<and> isInfinite irb) \<or> (isInfinite ira \<and> isZero irb)
        then (let s = set_rd p 0xffc00000 s; s = s\<lparr>FSR := set_FSR_IO 1 (FSR s)\<rparr> in s\<lparr>ESR := set_ESR_EC 0x0c (ESR s)\<rparr>)
        else if isQuietNaN ira \<or> isQuietNaN irb
        then set_rd p 0xffc00000 s
        else if isDnz res
        then (let s = set_rd p (res AND ceq 0x80000000 0x80000000) s; s = s\<lparr>FSR := set_FSR_UF 1 (FSR s)\<rparr> in s\<lparr>ESR := set_ESR_EC 0x0c (ESR s)\<rparr>)
        else if isNaN res
        then (let s = set_rd p (res AND ceq 0x80000000 0x80000000) s; s = s\<lparr>FSR := set_FSR_OF 1 (FSR s)\<rparr> in s\<lparr>ESR := set_ESR_EC 0x0c (ESR s)\<rparr>)
        else set_rd p res s)"

definition mb_FDIV :: "host_float \<Rightarrow> mb_params \<Rightarrow> 'm microblaze \<Rightarrow> 'm microblaze" where
  "mb_FDIV hf p s =
    (let s = next_pc (IMM_reset s); ira = ra p s; irb = rb p s;
         res = float_div hf irb ira
     in if isDnz ira \<or> isDnz irb
        then (let s = set_rd p 0xffc00000 s; s = s\<lparr>FSR := set_FSR_DO 1 (FSR s)\<rparr> in s\<lparr>ESR := set_ESR_EC 0x0c (ESR s)\<rparr>)
        else if isSigNaN ira \<or> isSigNaN irb \<or> (isZero ira \<and> isZero irb) \<or> (isInfinite ira \<and> isInfinite irb)
        then (let s = set_rd p 0xffc00000 s; s = s\<lparr>FSR := set_FSR_IO 1 (FSR s)\<rparr> in s\<lparr>ESR := set_ESR_EC 0x0c (ESR s)\<rparr>)
        else if isZero ira \<and> (\<not> isInfinite irb)
        then (let s = set_rd p (res AND ceq 0x80000000 0x80000000) s; s = s\<lparr>FSR := set_FSR_DZ 1 (FSR s)\<rparr> in s\<lparr>ESR := set_ESR_EC 0x0c (ESR s)\<rparr>)
        else if isQuietNaN ira \<or> isQuietNaN irb
        then set_rd p 0xffc00000 s
        else if isDnz res
        then (let s = set_rd p (res AND ceq 0x80000000 0x80000000) s; s = s\<lparr>FSR := set_FSR_UF 1 (FSR s)\<rparr> in s\<lparr>ESR := set_ESR_EC 0x0c (ESR s)\<rparr>)
        else if isNaN res
        then (let s = set_rd p (res AND ceq 0x80000000 0x80000000) s; s = s\<lparr>FSR := set_FSR_OF 1 (FSR s)\<rparr> in s\<lparr>ESR := set_ESR_EC 0x0c (ESR s)\<rparr>)
        else set_rd p res s)"

section \<open>Conversion\<close>

definition mb_FLT :: "host_float \<Rightarrow> mb_params \<Rightarrow> 'm microblaze \<Rightarrow> 'm microblaze" where
  "mb_FLT hf p s =
    (let s = next_pc (IMM_reset s); ira = ra p s
     in set_rd p (float_of_int hf ira) s)"

end
