(* ===== verification/Mb_Decode.thy ===== *)
theory Mb_Decode
  imports Mb_Alu Mb_Branch Mb_LoadStore Mb_Float
begin

text \<open>
  The decoder of the MicroBlaze simulator (src/microblaze/microblaze/intunit/decoder.cpp),
  one definition per case of its outermost switch that has a choice to make, and the table
  \<^verbatim>\<open>INSTRUCTIONS\<close> that the constructor of processor.cpp fills.
\<close>

section \<open>The decoder\<close>

definition mb_decode_3c000000 :: "u32 \<Rightarrow> nat" where
  "mb_decode_3c000000 instrCode =
    (let k = instrCode AND 0xc0000000 in
     if k = 0x80000000 then
        (let k = instrCode AND 0x600000 in
         if k = 0x200000 then
            (if instrCode AND 0x800000 \<noteq> 0x0 then
              (if instrCode AND 0x2000000 \<noteq> 0x0 then 19 else 18)
             else
              (if instrCode AND 0x2000000 = 0x0 then 34 else 35))
         else if k = 0x0 then
            (if instrCode AND 0x800000 \<noteq> 0x0 then
              (if instrCode AND 0x2000000 = 0x0 then 22 else 23)
             else
              (if instrCode AND 0x2000000 \<noteq> 0x0 then 15 else 14))
         else if k = 0x600000 then (if instrCode AND 0x2000000 \<noteq> 0x0 then 27 else 26)
         else if k = 0x400000 then (if instrCode AND 0x2000000 \<noteq> 0x0 then 31 else 30)
         else 116)
     else if k = 0x0 then 96
     else 116)"

definition mb_decode_1c000000 :: "u32 \<Rightarrow> nat" where
  "mb_decode_1c000000 instrCode =
    (let k = instrCode AND 0xc0000000 in
     if k = 0x80000000 then
        (let k = instrCode AND 0x600000 in
         if k = 0x0 then
            (if instrCode AND 0x800000 \<noteq> 0x0 then
              (if instrCode AND 0x2000000 \<noteq> 0x0 then 21 else 20)
             else
              (if instrCode AND 0x2000000 = 0x0 then 12 else 13))
         else if k = 0x200000 then
            (if instrCode AND 0x800000 \<noteq> 0x0 then
              (if instrCode AND 0x2000000 = 0x0 then 16 else 17)
             else
              (if instrCode AND 0x2000000 \<noteq> 0x0 then 33 else 32))
         else if k = 0x600000 then (if instrCode AND 0x2000000 = 0x0 then 24 else 25)
         else if k = 0x400000 then (if instrCode AND 0x2000000 \<noteq> 0x0 then 29 else 28)
         else 116)
     else if k = 0x0 then 92
     else 116)"

definition mb_decode_58000000 :: "u32 \<Rightarrow> nat" where
  "mb_decode_58000000 instrCode =
    (let k = instrCode AND 0x380 in
     if k = 0x0 then (if instrCode AND 0x80000000 = 0x0 then 58 else 105)
     else if k = 0x100 then 60
     else if k = 0x180 then 61
     else if k = 0x300 then 64
     else if k = 0x380 then 65
     else if k = 0x80 then 59
     else if k = 0x280 then 63
     else if k = 0x200 then 62
     else 116)"

definition mb_decode_38000000 :: "u32 \<Rightarrow> nat" where
  "mb_decode_38000000 instrCode =
    (if instrCode AND 0x80000000 \<noteq> 0x0 then
      (let k = instrCode AND 0xc0000 in
       if k = 0x0 then (if instrCode AND 0x100000 \<noteq> 0x0 then 44 else 42)
       else if k = 0x80000 then (if instrCode AND 0x100000 = 0x0 then 43 else 45)
       else if k = 0xc0000 then (if instrCode AND 0x100000 = 0x0 then 49 else 47)
       else if k = 0x40000 then 46
       else 116)
     else
      7)"

definition mb_decode_18000000 :: "u32 \<Rightarrow> nat" where
  "mb_decode_18000000 instrCode =
    (if instrCode AND 0x80000000 \<noteq> 0x0 then
      (let k = instrCode AND 0xc0000 in
       if k = 0xc0000 then (if instrCode AND 0x100000 = 0x0 then 48 else 41)
       else if k = 0x80000 then (if instrCode AND 0x100000 \<noteq> 0x0 then 39 else 37)
       else if k = 0x0 then (if instrCode AND 0x100000 \<noteq> 0x0 then 38 else 36)
       else if k = 0x40000 then 40
       else 116)
     else
      3)"

definition mb_decode_10000000 :: "u32 \<Rightarrow> nat" where
  "mb_decode_10000000 instrCode =
    (let k = instrCode AND 0x60 in
     if k = 0x60 then
        (if instrCode AND 0x5 = 0x0 then
          (if instrCode AND 0x8 \<noteq> 0x0 then 113 else 108)
         else
          (if instrCode AND 0x1 \<noteq> 0x0 then 107 else 112))
     else if k = 0x0 then (if instrCode AND 0x1 \<noteq> 0x0 then 109 else 2)
     else if k = 0x20 then 110
     else if k = 0x40 then 111
     else 116)"

definition mb_decode_14000000 :: "u32 \<Rightarrow> nat" where
  "mb_decode_14000000 instrCode =
    (if instrCode AND 0x80000001 \<noteq> 0x0 then
      (if instrCode AND 0x80000000 \<noteq> 0x0 then
        (if instrCode AND 0x8000 \<noteq> 0x0 then
          (if instrCode AND 0x4000 = 0x0 then 75 else 78)
         else
          (if instrCode AND 0x10000 \<noteq> 0x0 then 76 else 77))
       else
        (if instrCode AND 0x2 \<noteq> 0x0 then 57 else 56))
     else
      91)"

definition mb_decode_40000000 :: "u32 \<Rightarrow> nat" where
  "mb_decode_40000000 instrCode =
    (if instrCode AND 0x80000000 = 0x0 then
      (if instrCode AND 0x1 = 0x0 then
        (if instrCode AND 0x2 \<noteq> 0x0 then 82 else 79)
       else
        (if instrCode AND 0x2 \<noteq> 0x0 then 81 else 80))
     else
      69)"

definition mb_decode_34000000 :: "u32 \<Rightarrow> nat" where
  "mb_decode_34000000 instrCode =
    (if instrCode AND 0x80000000 \<noteq> 0x0 then
      (if instrCode AND 0x600000 = 0x0 then
        (if instrCode AND 0x800000 \<noteq> 0x0 then 99 else 100)
       else
        (if instrCode AND 0x200000 = 0x0 then 97 else 98))
     else
      95)"

definition mb_decode_44000000 :: "u32 \<Rightarrow> nat" where
  "mb_decode_44000000 instrCode =
    (if instrCode AND 0x600 = 0x0 then
      (if instrCode AND 0x80000000 \<noteq> 0x0 then 71 else 50)
     else
      (if instrCode AND 0x200 \<noteq> 0x0 then 51 else 52))"

definition mb_decode_64000000 :: "u32 \<Rightarrow> nat" where
  "mb_decode_64000000 instrCode =
    (if instrCode AND 0x80000200 \<noteq> 0x0 then
      (if instrCode AND 0x80000000 \<noteq> 0x0 then 72 else 54)
     else
      (if instrCode AND 0x400 \<noteq> 0x0 then 55 else 53))"

definition mb_decode_0 :: "u32 \<Rightarrow> nat" where
  "mb_decode_0 instrCode =
    (if instrCode AND 0x400 = 0x0 then
      (if instrCode AND 0x80000000 \<noteq> 0x0 then 84 else 0)
     else
      86)"

definition mb_decode_48000000 :: "u32 \<Rightarrow> nat" where
  "mb_decode_48000000 instrCode =
    (if instrCode AND 0x2 = 0x0 then
      (if instrCode AND 0x80000000 \<noteq> 0x0 then 73 else 66)
     else
      67)"

definition mb_decode_c000000 :: "u32 \<Rightarrow> nat" where
  "mb_decode_c000000 instrCode =
    (if instrCode AND 0x400 = 0x0 then
      (if instrCode AND 0x80000000 = 0x0 then 90 else 10)
     else
      88)"

definition mb_decode_8000000 :: "u32 \<Rightarrow> nat" where
  "mb_decode_8000000 instrCode =
    (if instrCode AND 0x400 = 0x0 then
      (if instrCode AND 0x80000000 = 0x0 then 1 else 114)
     else
      87)"

definition mb_decode_30000000 :: "u32 \<Rightarrow> nat" where
  "mb_decode_30000000 instrCode =
    (if instrCode AND 0x80000000 = 0x0 then 6 else 68)"

definition mb_decode_28000000 :: "u32 \<Rightarrow> nat" where
  "mb_decode_28000000 instrCode =
    (if instrCode AND 0x80000000 \<noteq> 0x0 then 115 else 5)"

definition mb_decode_4000000 :: "u32 \<Rightarrow> nat" where
  "mb_decode_4000000 instrCode =
    (if instrCode AND 0x80000000 \<noteq> 0x0 then 8 else 89)"

definition mb_decode_24000000 :: "u32 \<Rightarrow> nat" where
  "mb_decode_24000000 instrCode =
    (if instrCode AND 0x80000000 = 0x0 then 93 else 9)"

definition mb_decode_20000000 :: "u32 \<Rightarrow> nat" where
  "mb_decode_20000000 instrCode =
    (if instrCode AND 0x80000000 = 0x0 then 4 else 85)"

definition mb_decode_2c000000 :: "u32 \<Rightarrow> nat" where
  "mb_decode_2c000000 instrCode =
    (if instrCode AND 0x80000000 \<noteq> 0x0 then 11 else 94)"

definition mb_decode_60000000 :: "u32 \<Rightarrow> nat" where
  "mb_decode_60000000 instrCode =
    (if instrCode AND 0x80000000 = 0x0 then 83 else 70)"

definition mb_decode :: "u32 \<Rightarrow> nat" where
  "mb_decode instrCode =
    (let k = instrCode AND 0x7c000000 in
     if k = 0x3c000000 then mb_decode_3c000000 instrCode
     else if k = 0x1c000000 then mb_decode_1c000000 instrCode
     else if k = 0x58000000 then mb_decode_58000000 instrCode
     else if k = 0x38000000 then mb_decode_38000000 instrCode
     else if k = 0x18000000 then mb_decode_18000000 instrCode
     else if k = 0x10000000 then mb_decode_10000000 instrCode
     else if k = 0x14000000 then mb_decode_14000000 instrCode
     else if k = 0x40000000 then mb_decode_40000000 instrCode
     else if k = 0x34000000 then mb_decode_34000000 instrCode
     else if k = 0x44000000 then mb_decode_44000000 instrCode
     else if k = 0x64000000 then mb_decode_64000000 instrCode
     else if k = 0x0 then mb_decode_0 instrCode
     else if k = 0x48000000 then mb_decode_48000000 instrCode
     else if k = 0xc000000 then mb_decode_c000000 instrCode
     else if k = 0x8000000 then mb_decode_8000000 instrCode
     else if k = 0x30000000 then mb_decode_30000000 instrCode
     else if k = 0x28000000 then mb_decode_28000000 instrCode
     else if k = 0x4000000 then mb_decode_4000000 instrCode
     else if k = 0x24000000 then mb_decode_24000000 instrCode
     else if k = 0x20000000 then mb_decode_20000000 instrCode
     else if k = 0x2c000000 then mb_decode_2c000000 instrCode
     else if k = 0x60000000 then mb_decode_60000000 instrCode
     else if k = 0x68000000 then 74
     else if k = 0x50000000 then 101
     else if k = 0x78000000 then 106
     else if k = 0x74000000 then 104
     else if k = 0x70000000 then 102
     else if k = 0x54000000 then 103
     else 116)"

section \<open>The instruction table\<close>

text \<open>An instruction that cannot fail; \<^verbatim>\<open>totalInstrCycles\<close> is 0.\<close>

definition always :: "(mb_params \<Rightarrow> 'm microblaze \<Rightarrow> 'm microblaze) \<Rightarrow> mb_params \<Rightarrow> 'm microblaze \<Rightarrow> 'm mres" where
  "always f p s = Ok 0 (f p s)"

definition mb_INSTRUCTIONS :: "'m cpu_if \<Rightarrow> host_float \<Rightarrow> (mb_params \<Rightarrow> 'm microblaze \<Rightarrow> 'm mres) list" where
  "mb_INSTRUCTIONS cif hf =
     [always mb_ADD, always mb_ADDC, always mb_ADDK, always mb_ADDKC, always mb_ADDI,
      always mb_ADDIC, always mb_ADDIK, always mb_ADDIKC, always mb_AND, always mb_ANDI,
      always mb_ANDN, always mb_ANDNI, always mb_BEQ, always mb_BEQD, always mb_BEQI,
      always mb_BEQID, always mb_BGE, always mb_BGED, always mb_BGEI, always mb_BGEID, always mb_BGT,
      always mb_BGTD, always mb_BGTI, always mb_BGTID, always mb_BLE, always mb_BLED, always mb_BLEI,
      always mb_BLEID, always mb_BLT, always mb_BLTD, always mb_BLTI, always mb_BLTID, always mb_BNE,
      always mb_BNED, always mb_BNEI, always mb_BNEID, always mb_BR, always mb_BRA, always mb_BRD,
      always mb_BRAD, always mb_BRLD, always mb_BRALD, always mb_BRI, always mb_BRAI, always mb_BRID,
      always mb_BRAID, always mb_BRLID, always mb_BRALID, always mb_BRK, always mb_BRKI,
      always mb_BSRL, always mb_BSRA, always mb_BSLL, mb_BSRLI, mb_BSRAI, mb_BSLLI, always mb_CMP,
      always mb_CMPU, always (mb_FADD hf), always (mb_FRSUB hf), always (mb_FMUL hf),
      always (mb_FDIV hf), always mb_FCMP, always (mb_FLT hf), always mb_FINT, always mb_FSQRT,
      mb_IDIV, always mb_IDIVU, always mb_IMM, mb_LBU cif, mb_LBUI cif, mb_LHU cif, mb_LHUI cif,
      mb_LW cif, mb_LWI cif, always mb_MFS, always mb_MSRCLR, always mb_MSRSET, always mb_MTS,
      always mb_MUL, always mb_MULH, always mb_MULHU, always mb_MULHSU, always mb_MULI, always mb_OR,
      always mb_ORI, always mb_PCMPBF, always mb_PCMPEQ, always mb_PCMPNE, always mb_RSUB,
      always mb_RSUBC, always mb_RSUBK, always mb_RSUBKC, always mb_RSUBI, always mb_RSUBIC,
      always mb_RSUBIK, always mb_RSUBIKC, always mb_RTBD, always mb_RTID, always mb_RTED,
      always mb_RTSD, mb_SB cif, mb_SBI cif, mb_SH cif, mb_SHI cif, mb_SW cif, mb_SWI cif,
      always mb_SEXT16, always mb_SEXT8, always mb_SRA, always mb_SRC, always mb_SRL, always mb_WDC,
      always mb_WIC, always mb_XOR, always mb_XORI, mb_InvalidInstr]"

lemma length_mb_INSTRUCTIONS [simp]: "length (mb_INSTRUCTIONS cif hf) = 117"
  by (simp add: mb_INSTRUCTIONS_def)

lemma mb_INSTRUCTIONS_nth:
  "mb_INSTRUCTIONS cif hf ! 0 = always mb_ADD"
  "mb_INSTRUCTIONS cif hf ! Suc 0 = always mb_ADDC"
  "mb_INSTRUCTIONS cif hf ! 2 = always mb_ADDK"
  "mb_INSTRUCTIONS cif hf ! 3 = always mb_ADDKC"
  "mb_INSTRUCTIONS cif hf ! 4 = always mb_ADDI"
  "mb_INSTRUCTIONS cif hf ! 5 = always mb_ADDIC"
  "mb_INSTRUCTIONS cif hf ! 6 = always mb_ADDIK"
  "mb_INSTRUCTIONS cif hf ! 7 = always mb_ADDIKC"
  "mb_INSTRUCTIONS cif hf ! 8 = always mb_AND"
  "mb_INSTRUCTIONS cif hf ! 9 = always mb_ANDI"
  "mb_INSTRUCTIONS cif hf ! 10 = always mb_ANDN"
  "mb_INSTRUCTIONS cif hf ! 11 = always mb_ANDNI"
  "mb_INSTRUCTIONS cif hf ! 12 = always mb_BEQ"
  "mb_INSTRUCTIONS cif hf ! 13 = always mb_BEQD"
  "mb_INSTRUCTIONS cif hf ! 14 = always mb_BEQI"
  "mb_INSTRUCTIONS cif hf ! 15 = always mb_BEQID"
  "mb_INSTRUCTIONS cif hf ! 16 = always mb_BGE"
  "mb_INSTRUCTIONS cif hf ! 17 = always mb_BGED"
  "mb_INSTRUCTIONS cif hf ! 18 = always mb_BGEI"
  "mb_INSTRUCTIONS cif hf ! 19 = always mb_BGEID"
  "mb_INSTRUCTIONS cif hf ! 20 = always mb_BGT"
  "mb_INSTRUCTIONS cif hf ! 21 = always mb_BGTD"
  "mb_INSTRUCTIONS cif hf ! 22 = always mb_BGTI"
  "mb_INSTRUCTIONS cif hf ! 23 = always mb_BGTID"
  "mb_INSTRUCTIONS cif hf ! 24 = always mb_BLE"
  "mb_INSTRUCTIONS cif hf ! 25 = always mb_BLED"
  "mb_INSTRUCTIONS cif hf ! 26 = always mb_BLEI"
  "mb_INSTRUCTIONS cif hf ! 27 = always mb_BLEID"
  "mb_INSTRUCTIONS cif hf ! 28 = always mb_BLT"
  "mb_INSTRUCTIONS cif hf ! 29 = always mb_BLTD"
  "mb_INSTRUCTIONS cif hf ! 30 = always mb_BLTI"
  "mb_INSTRUCTIONS cif hf ! 31 = always mb_BLTID"
  "mb_INSTRUCTIONS cif hf ! 32 = always mb_BNE"
  "mb_INSTRUCTIONS cif hf ! 33 = always mb_BNED"
  "mb_INSTRUCTIONS cif hf ! 34 = always mb_BNEI"
  "mb_INSTRUCTIONS cif hf ! 35 = always mb_BNEID"
  "mb_INSTRUCTIONS cif hf ! 36 = always mb_BR"
  "mb_INSTRUCTIONS cif hf ! 37 = always mb_BRA"
  "mb_INSTRUCTIONS cif hf ! 38 = always mb_BRD"
  "mb_INSTRUCTIONS cif hf ! 39 = always mb_BRAD"
  "mb_INSTRUCTIONS cif hf ! 40 = always mb_BRLD"
  "mb_INSTRUCTIONS cif hf ! 41 = always mb_BRALD"
  "mb_INSTRUCTIONS cif hf ! 42 = always mb_BRI"
  "mb_INSTRUCTIONS cif hf ! 43 = always mb_BRAI"
  "mb_INSTRUCTIONS cif hf ! 44 = always mb_BRID"
  "mb_INSTRUCTIONS cif hf ! 45 = always mb_BRAID"
  "mb_INSTRUCTIONS cif hf ! 46 = always mb_BRLID"
  "mb_INSTRUCTIONS cif hf ! 47 = always mb_BRALID"
  "mb_INSTRUCTIONS cif hf ! 48 = always mb_BRK"
  "mb_INSTRUCTIONS cif hf ! 49 = always mb_BRKI"
  "mb_INSTRUCTIONS cif hf ! 50 = always mb_BSRL"
  "mb_INSTRUCTIONS cif hf ! 51 = always mb_BSRA"
  "mb_INSTRUCTIONS cif hf ! 52 = always mb_BSLL"
  "mb_INSTRUCTIONS cif hf ! 53 = mb_BSRLI"
  "mb_INSTRUCTIONS cif hf ! 54 = mb_BSRAI"
  "mb_INSTRUCTIONS cif hf ! 55 = mb_BSLLI"
  "mb_INSTRUCTIONS cif hf ! 56 = always mb_CMP"
  "mb_INSTRUCTIONS cif hf ! 57 = always mb_CMPU"
  "mb_INSTRUCTIONS cif hf ! 58 = always (mb_FADD hf)"
  "mb_INSTRUCTIONS cif hf ! 59 = always (mb_FRSUB hf)"
  "mb_INSTRUCTIONS cif hf ! 60 = always (mb_FMUL hf)"
  "mb_INSTRUCTIONS cif hf ! 61 = always (mb_FDIV hf)"
  "mb_INSTRUCTIONS cif hf ! 62 = always mb_FCMP"
  "mb_INSTRUCTIONS cif hf ! 63 = always (mb_FLT hf)"
  "mb_INSTRUCTIONS cif hf ! 64 = always mb_FINT"
  "mb_INSTRUCTIONS cif hf ! 65 = always mb_FSQRT"
  "mb_INSTRUCTIONS cif hf ! 66 = mb_IDIV"
  "mb_INSTRUCTIONS cif hf ! 67 = always mb_IDIVU"
  "mb_INSTRUCTIONS cif hf ! 68 = always mb_IMM"
  "mb_INSTRUCTIONS cif hf ! 69 = mb_LBU cif"
  "mb_INSTRUCTIONS cif hf ! 70 = mb_LBUI cif"
  "mb_INSTRUCTIONS cif hf ! 71 = mb_LHU cif"
  "mb_INSTRUCTIONS cif hf ! 72 = mb_LHUI cif"
  "mb_INSTRUCTIONS cif hf ! 73 = mb_LW cif"
  "mb_INSTRUCTIONS cif hf ! 74 = mb_LWI cif"
  "mb_INSTRUCTIONS cif hf ! 75 = always mb_MFS"
  "mb_INSTRUCTIONS cif hf ! 76 = always mb_MSRCLR"
  "mb_INSTRUCTIONS cif hf ! 77 = always mb_MSRSET"
  "mb_INSTRUCTIONS cif hf ! 78 = always mb_MTS"
  "mb_INSTRUCTIONS cif hf ! 79 = always mb_MUL"
  "mb_INSTRUCTIONS cif hf ! 80 = always mb_MULH"
  "mb_INSTRUCTIONS cif hf ! 81 = always mb_MULHU"
  "mb_INSTRUCTIONS cif hf ! 82 = always mb_MULHSU"
  "mb_INSTRUCTIONS cif hf ! 83 = always mb_MULI"
  "mb_INSTRUCTIONS cif hf ! 84 = always mb_OR"
  "mb_INSTRUCTIONS cif hf ! 85 = always mb_ORI"
  "mb_INSTRUCTIONS cif hf ! 86 = always mb_PCMPBF"
  "mb_INSTRUCTIONS cif hf ! 87 = always mb_PCMPEQ"
  "mb_INSTRUCTIONS cif hf ! 88 = always mb_PCMPNE"
  "mb_INSTRUCTIONS cif hf ! 89 = always mb_RSUB"
  "mb_INSTRUCTIONS cif hf ! 90 = always mb_RSUBC"
  "mb_INSTRUCTIONS cif hf ! 91 = always mb_RSUBK"
  "mb_INSTRUCTIONS cif hf ! 92 = always mb_RSUBKC"
  "mb_INSTRUCTIONS cif hf ! 93 = always mb_RSUBI"
  "mb_INSTRUCTIONS cif hf ! 94 = always mb_RSUBIC"
  "mb_INSTRUCTIONS cif hf ! 95 = always mb_RSUBIK"
  "mb_INSTRUCTIONS cif hf ! 96 = always mb_RSUBIKC"
  "mb_INSTRUCTIONS cif hf ! 97 = always mb_RTBD"
  "mb_INSTRUCTIONS cif hf ! 98 = always mb_RTID"
  "mb_INSTRUCTIONS cif hf ! 99 = always mb_RTED"
  "mb_INSTRUCTIONS cif hf ! 100 = always mb_RTSD"
  "mb_INSTRUCTIONS cif hf ! 101 = mb_SB cif"
  "mb_INSTRUCTIONS cif hf ! 102 = mb_SBI cif"
  "mb_INSTRUCTIONS cif hf ! 103 = mb_SH cif"
  "mb_INSTRUCTIONS cif hf ! 104 = mb_SHI cif"
  "mb_INSTRUCTIONS cif hf ! 105 = mb_SW cif"
  "mb_INSTRUCTIONS cif hf ! 106 = mb_SWI cif"
  "mb_INSTRUCTIONS cif hf ! 107 = always mb_SEXT16"
  "mb_INSTRUCTIONS cif hf ! 108 = always mb_SEXT8"
  "mb_INSTRUCTIONS cif hf ! 109 = always mb_SRA"
  "mb_INSTRUCTIONS cif hf ! 110 = always mb_SRC"
  "mb_INSTRUCTIONS cif hf ! 111 = always mb_SRL"
  "mb_INSTRUCTIONS cif hf ! 112 = always mb_WDC"
  "mb_INSTRUCTIONS cif hf ! 113 = always mb_WIC"
  "mb_INSTRUCTIONS cif hf ! 114 = always mb_XOR"
  "mb_INSTRUCTIONS cif hf ! 115 = always mb_XORI"
  "mb_INSTRUCTIONS cif hf ! 116 = mb_InvalidInstr"
  by (simp_all add: mb_INSTRUCTIONS_def)

lemmas mb_decode_defs =
  mb_decode_def mb_decode_3c000000_def mb_decode_1c000000_def mb_decode_58000000_def mb_decode_38000000_def mb_decode_18000000_def mb_decode_10000000_def mb_decode_14000000_def mb_decode_40000000_def mb_decode_34000000_def mb_decode_44000000_def mb_decode_64000000_def mb_decode_0_def mb_decode_48000000_def mb_decode_c000000_def mb_decode_8000000_def mb_decode_30000000_def mb_decode_28000000_def mb_decode_4000000_def mb_decode_24000000_def mb_decode_20000000_def mb_decode_2c000000_def mb_decode_60000000_def Let_def

lemma mb_decode_range: "mb_decode bs < 117"
  unfolding mb_decode_defs by (intro if_lessI) simp_all


end
