(* ===== verification/Mb_Step.thy ===== *)
theory Mb_Step
  imports Mb_Decode
begin

text \<open>
  Reset and the main loop of the MicroBlaze core
  (src/microblaze/microblaze/intunit/processor.cpp).  One iteration looks the program
  counter up in the instruction cache of the loop, fetches and decodes on a miss, executes,
  and keeps the cache: \<^verbatim>\<open>instrCache\<close> maps a 32-bit key to a \<^verbatim>\<open>CacheElem\<close>
  (decoder.hpp), an instruction object or none and a counter.  The loop looks up by address
  but inserts under the instruction word; the model does the same.  No interrupt is taken.
  Tools, history and the debugger are left out.
\<close>

section \<open>The core\<close>

record cache_elem =
  ce_instr :: "(nat \<times> mb_params) option"
  ce_count :: u32

definition CacheElem :: cache_elem where
  "CacheElem = \<lparr>ce_instr = None, ce_count = 1\<rparr>"

record 'm mb_core =
  cpu :: "'m microblaze"
  instrCache :: "u32 \<rightharpoonup> cache_elem"
  totalCycles :: u32
  numInstructions :: u32

section \<open>Reset\<close>

definition mb_resetOp :: "u32 \<Rightarrow> 'm microblaze \<Rightarrow> 'm microblaze" where
  "mb_resetOp entry_point s =
     s\<lparr>GPR := (\<lambda>i. if i = 1 then 0x4ffff0 else if i < 32 then 0x0 else GPR s i),
       PVR := (\<lambda>i. if i < 12 then 0 else PVR s i),
       PC := entry_point, MSR := 0x0, EAR := 0x0, ESR := 0x0, BTR := 0x0, FSR := 0x0, EDR := 0x0,
       PID := 0x0, ZPR := 0x0, TLBLO := 0x0, TLBHI := 0x0, TLBX := 0x0, TLBSX := 0x0, IMMREG := 0x0,
       TARGET := 0xffffffff, DSFLAG := 0x0\<rparr>"

text \<open>Every register is constructed with value 0.\<close>

definition mb_constructed :: "'m \<Rightarrow> 'm microblaze" where
  "mb_constructed m = \<lparr>PC = 0, MSR = 0, EAR = 0, ESR = 0, BTR = 0, FSR = 0, EDR = 0, PID = 0, ZPR = 0,
     TLBLO = 0, TLBHI = 0, TLBX = 0, TLBSX = 0, IMMREG = 0, TARGET = 0, DSFLAG = 0,
     GPR = (\<lambda>_. 0), PVR = (\<lambda>_. 0), MEM = m\<rparr>"

definition mb_power_on :: "u32 \<Rightarrow> 'm \<Rightarrow> 'm mb_core" where
  "mb_power_on entry_point m = \<lparr>cpu = mb_resetOp entry_point (mb_constructed m), instrCache = Map.empty,
     totalCycles = 0, numInstructions = 0\<rparr>"

section \<open>Executing one instruction\<close>

definition mb_execute ::
  "'m cpu_if \<Rightarrow> host_float \<Rightarrow> nat \<Rightarrow> mb_params \<Rightarrow> 'm microblaze \<Rightarrow> 'm mres" where
  "mb_execute cif hf instrId p s = (mb_INSTRUCTIONS cif hf ! instrId) p s"

text \<open>Fetch by \<^verbatim>\<open>read_word\<close>, decode, \<^verbatim>\<open>setParams\<close>, execute.  Besides the outcome,
  the instruction object in the state the execution leaves it in.\<close>

definition mb_decoded :: "u32 \<Rightarrow> nat \<times> mb_params" where
  "mb_decoded bitString = (let instrId = mb_decode bitString in (instrId, mb_setParams instrId bitString))"

definition mb_fetch :: "'m cpu_if \<Rightarrow> 'm microblaze \<Rightarrow> (u32 \<times> 'm microblaze) option" where
  "mb_fetch cif s = (case if_read_word cif (PC s) 0xA 0 0 (MEM s) of
       None \<Rightarrow> None | Some (w, e, m) \<Rightarrow> Some (w, s\<lparr>MEM := m\<rparr>))"

definition mb_object :: "nat \<times> mb_params \<Rightarrow> 'm microblaze \<Rightarrow> nat \<times> mb_params" where
  "mb_object i s = (fst i, left_params (fst i) (snd i) s)"

definition mb_plain :: "'m cpu_if \<Rightarrow> host_float \<Rightarrow> 'm microblaze \<Rightarrow> 'm mres" where
  "mb_plain cif hf s = (case mb_fetch cif s of None \<Rightarrow> Throw Mem_Fault
     | Some (bitString, s) \<Rightarrow> (let (instrId, p) = mb_decoded bitString in mb_execute cif hf instrId p s))"

section \<open>The main loop\<close>

text \<open>The end of an iteration; \<^verbatim>\<open>annul_exception\<close> is caught and costs no cycles, anything
  else that is thrown ends the simulation.\<close>

definition mb_retire :: "'m mres \<Rightarrow> (u32 \<rightharpoonup> cache_elem) \<Rightarrow> 'm mb_core \<Rightarrow> 'm mb_core option" where
  "mb_retire r cache c = (case r of
       Ok numCycles s \<Rightarrow> Some \<lparr>cpu = s, instrCache = cache, totalCycles = totalCycles c + (numCycles + 1),
                            numInstructions = numInstructions c + 1\<rparr>
     | Annul s \<Rightarrow> Some \<lparr>cpu = s, instrCache = cache, totalCycles = totalCycles c + (0 + 1),
                            numInstructions = numInstructions c + 1\<rparr>
     | Throw e \<Rightarrow> None)"

definition mb_loop :: "'m cpu_if \<Rightarrow> host_float \<Rightarrow> 'm mb_core \<Rightarrow> 'm mb_core option" where
  "mb_loop cif hf c =
     (let s = cpu c; curPC = PC s; cache = instrCache c in
      case cache curPC of
        Some e \<Rightarrow>
          (case ce_instr e of
             Some i \<Rightarrow>
               mb_retire (mb_execute cif hf (fst i) (snd i) s)
                 (cache(curPC \<mapsto> e\<lparr>ce_instr := Some (mb_object i s)\<rparr>)) c
           | None \<Rightarrow>
               (case mb_fetch cif s of
                  None \<Rightarrow> None
                | Some (bitString, s) \<Rightarrow>
                    (let i = mb_decoded bitString;
                         e = (if ce_count e < 256 then e\<lparr>ce_count := ce_count e + 1\<rparr>
                              else e\<lparr>ce_instr := Some (mb_object i s)\<rparr>)
                     in mb_retire (mb_execute cif hf (fst i) (snd i) s) (cache(curPC \<mapsto> e)) c)))
      | None \<Rightarrow>
          (case mb_fetch cif s of
             None \<Rightarrow> None
           | Some (bitString, s) \<Rightarrow>
               (let i = mb_decoded bitString;
                    cache = (if cache bitString = None then cache(bitString \<mapsto> CacheElem) else cache)
                in mb_retire (mb_execute cif hf (fst i) (snd i) s) cache c)))"

primrec mb_run :: "'m cpu_if \<Rightarrow> host_float \<Rightarrow> nat \<Rightarrow> 'm mb_core \<Rightarrow> 'm mb_core option" where
  "mb_run cif hf 0 c = Some c"
| "mb_run cif hf (Suc n) c = (case mb_loop cif hf c of None \<Rightarrow> None | Some c' \<Rightarrow> mb_run cif hf n c')"

text \<open>The machine without the cache.\<close>

primrec mb_plain_run :: "'m cpu_if \<Rightarrow> host_float \<Rightarrow> nat \<Rightarrow> 'm microblaze \<Rightarrow> 'm microblaze option" where
  "mb_plain_run cif hf 0 s = Some s"
| "mb_plain_run cif hf (Suc n) s =
     (case final_state (mb_plain cif hf s) of None \<Rightarrow> None | Some s' \<Rightarrow> mb_plain_run cif hf n s')"

end
