(* ===== verification/Mb_Sample.thy ===== *)
theory Mb_Sample
  imports Mb_Step
begin

text \<open>
  A concrete MicroBlaze machine, on which the lemmas about all machines are tried out: its
  memory is a map from addresses to words, it starts after reset at 0x100.
\<close>

section \<open>A concrete machine\<close>

text \<open>Memory that holds one word everywhere, or a small program.\<close>

definition rom_if :: "(u32 \<Rightarrow> u32) cpu_if" where
  "rom_if = \<lparr>
     if_read_instr = (\<lambda>a _ _ m. Some (m a, None, m)),
     if_read_dword = (\<lambda>_ _ _ _ _. None),
     if_read_word = (\<lambda>a _ _ _ m. Some (m a, None, m)),
     if_read_half = (\<lambda>_ _ _ _ _. None),
     if_read_byte = (\<lambda>_ _ _ _ _. None),
     if_write_dword = (\<lambda>_ _ _ _ _ _. None),
     if_write_word = (\<lambda>a v _ _ _ m. Some (None, m(a := v))),
     if_write_half = (\<lambda>_ _ _ _ _ _. None),
     if_write_byte = (\<lambda>_ _ _ _ _ _. None) \<rparr>"

definition no_float :: host_float where
  "no_float = \<lparr>float_add = (+), float_sub = (-), float_mul = (*), float_div = (div), float_of_int = id\<rparr>"

definition mb_sample :: "(u32 \<Rightarrow> u32) \<Rightarrow> (u32 \<Rightarrow> u32) microblaze" where
  "mb_sample m = mb_resetOp 0x100 (mb_constructed m)"

lemma mb_fetch_rom: "mb_fetch rom_if s = Some (MEM s (PC s), s)"
  by (simp add: mb_fetch_def rom_if_def)

lemma mb_sample_simps [simp]:
  "PC (mb_sample m) = 0x100" "MSR (mb_sample m) = 0" "TARGET (mb_sample m) = 0xffffffff" "MEM (mb_sample m) = m"
  "IMMREG (mb_sample m) = 0" "GPR (mb_sample m) 0 = 0" "ESR (mb_sample m) = 0" "DSFLAG (mb_sample m) = 0"
  by (simp_all add: mb_sample_def mb_resetOp_def mb_constructed_def)

lemma mb_fetch_keeps:
  assumes "mb_fetch cif s = Some (w, s')"
  shows "PC s' = PC s" "MSR s' = MSR s" "TARGET s' = TARGET s" "IMMREG s' = IMMREG s" "GPR s' = GPR s"
    "ESR s' = ESR s" "BTR s' = BTR s" "DSFLAG s' = DSFLAG s"
  using assms by (auto simp: mb_fetch_def split: option.splits)

lemmas decode_word = mb_decoded_def mb_decode_defs mb_setParams_def

end
