(* ===== verification/Mb_Arith_Props.thy ===== *)
theory Mb_Arith_Props
  imports Mb_Sample
begin

text \<open>
  The sixteen add and subtract instructions of the MicroBlaze against one reference
  function, and what the simulator makes of the carry.
\<close>

section \<open>The carry\<close>

lemma carry_bit_eq:
  "carry_bit x y result = int_of_bool ((bit x 31 \<noteq> bit y 31) \<noteq> bit result 32)"
proof -
  have "bit (ucast (signed_drop_bit 1 result) :: u32) 31 = bit result 32"
    by (simp add: bit_simps)
  then show ?thesis unfolding carry_bit_def and_top_bit by (auto simp: bit_xor_iff)
qed

lemma bit_32_of_sum:
  assumes "c \<le> 1"
  shows "bit (scast (x :: u32) + scast (y :: u32) + of_nat c :: u64) 32
    = ((bit x 31 \<noteq> bit y 31) \<noteq> (2 ^ 32 \<le> unat x + unat y + c))"
proof -
  let ?s = "sint x + sint y + int c"
  have "(scast x + scast y + of_nat c :: u64) = word_of_int ?s"
    by (simp only: scast_eq of_int_add of_int_of_nat_eq)
  then have "bit (scast x + scast y + of_nat c :: u64) 32 = bit ?s 32"
    by (simp only: bit_word_of_int_iff) simp
  also have "\<dots> = odd (?s div 4294967296)" by (simp add: bit_iff_odd)
  also have "\<dots> = ((bit x 31 \<noteq> bit y 31) \<noteq> (4294967296 \<le> uint x + uint y + int c))"
  proof -
    have q: "?s div 4294967296 = q" if "0 \<le> ?s - 4294967296 * q" "?s - 4294967296 * q < 4294967296" for q
      using that by (intro int_div_pos_eq[of _ _ q "?s - 4294967296 * q"]) auto
    note r = uint_range_u32[of x] uint_range_u32[of y]
    show ?thesis
      using q[of 0] q[of 1] q[of "- 1"] q[of "- 2"] r assms
      by (cases "bit x 31"; cases "bit y 31"; cases "4294967296 \<le> uint x + uint y + int c")
         (simp_all add: sint_uint_u32)
  qed
  also have "(4294967296 \<le> uint x + uint y + int c) = (2 ^ 32 \<le> unat x + unat y + c)"
    by (simp only: of_nat_le_iff[symmetric, where 'a = int]) simp
  finally show ?thesis .
qed

text \<open>The carry of an addition is the carry out of the top bit; that of a subtraction is
  not, for the two numbers on which adding one to the complement changes the sign.\<close>

lemma sum_carry:
  assumes "c = 0 \<or> c = (1 :: u32)"
  shows "carry_bit x y (scast x + scast y + ucast c) = int_of_bool (2 ^ 32 \<le> unat x + unat y + unat c)"
  using assms bit_32_of_sum[of 0 x y] bit_32_of_sum[of 1 x y] by (auto simp: carry_bit_eq)

lemma complement_plus_one:
  "bit (NOT x + 1) 31 = (bit (NOT x) 31 \<noteq> (x = 0 \<or> x = 0x80000000))" for x :: u32
proof -
  have "NOT x + 1 = - x" by (simp add: not_eq_complement)
  then have "bit (NOT x + 1) 31 = (2147483648 \<le> (- uint x) mod 4294967296)"
    by (simp only: bit_31_uint uint_word_ariths) simp
  also have "(- uint x) mod 4294967296 = (if uint x = 0 then 0 else 4294967296 - uint x)"
    using uint_range_u32[of x] by (simp add: zmod_zminus1_eq_if)
  finally have "bit (NOT x + 1) 31 = (2147483648 \<le> (if uint x = 0 then 0 else 4294967296 - uint x))" .
  moreover have "bit (NOT x) 31 = (\<not> 2147483648 \<le> uint x)"
    unfolding bit_31_uint[of x, symmetric] by (simp add: bit_not_iff)
  moreover have "(x = 0 \<or> x = 0x80000000) = (uint x = 0 \<or> uint x = 2147483648)"
    by (simp add: word_uint_eq_iff)
  ultimately show ?thesis using uint_range_u32[of x] by auto
qed

lemma sub_carry:
  assumes "c = 0 \<or> c = (1 :: u32)"
  shows "carry_bit (NOT x + c) y (scast y + NOT (scast x) + ucast c) =
    int_of_bool ((2 ^ 32 \<le> unat y + unat (NOT x) + unat c) \<noteq> (c = 1 \<and> (x = 0 \<or> x = 0x80000000)))"
proof -
  have n: "(NOT (scast x) :: u64) = scast (NOT x)" by (intro bit_word_eqI) (auto simp: bit_simps)
  let ?k = "2 ^ 32 \<le> unat y + unat (NOT x) + unat c" and ?e = "c = 1 \<and> (x = 0 \<or> x = 0x80000000)"
  have sum: "bit (scast y + scast (NOT x) + ucast c :: u64) 32 = ((bit y 31 \<noteq> bit (NOT x) 31) \<noteq> ?k)"
    using assms
  proof
    assume "c = 0" then show ?thesis using bit_32_of_sum[of 0 y "NOT x"] by simp
  next
    assume "c = 1" then show ?thesis using bit_32_of_sum[of 1 y "NOT x"] by simp
  qed
  have top: "bit (NOT x + c) 31 = (bit (NOT x) 31 \<noteq> ?e)"
    using assms
  proof
    assume "c = 0" then show ?thesis by simp
  next
    assume "c = 1" then show ?thesis using complement_plus_one[of x] by (simp only:) blast
  qed
  have "((bit (NOT x + c) 31 \<noteq> bit y 31) \<noteq> bit (scast y + scast (NOT x) + ucast c :: u64) 32) = (?k \<noteq> ?e)"
    unfolding sum top by blast
  then show ?thesis unfolding n carry_bit_eq by (simp only:)
qed

section \<open>The reference\<close>

text \<open>
  Subtract (complement \<^verbatim>\<open>ra\<close> and add 1), take the carry in, keep the carry, immediate
  operand.  The sum is a natural number.
\<close>

definition arith_reference :: "bool \<Rightarrow> bool \<Rightarrow> bool \<Rightarrow> bool \<Rightarrow> mb_params \<Rightarrow> 'm microblaze \<Rightarrow> 'm microblaze" where
  "arith_reference subtract use_carry keep_carry immediate p s =
     (let b = (if immediate then operand_imm (imm p) s else rb p s);
          a = (if subtract then NOT (ra p s) else ra p s);
          carry_in = (if use_carry then MSR_C (MSR s) else if subtract then 1 else 0);
          sum = unat b + unat a + unat carry_in;
          flipped = (subtract \<and> carry_in = 1 \<and> (ra p s = 0 \<or> ra p s = 0x80000000));
          s = next_pc (IMM_reset s);
          s = (if keep_carry then s else put_C (int_of_bool ((2 ^ 32 \<le> sum) \<noteq> flipped)) s)
      in set_rd p (of_nat sum) s)"

lemma ucast_down_sum:
  "ucast (x + y :: u64) = (ucast x + ucast y :: u32)"
  by (transfer, subst (2) take_bit_add [symmetric]) (simp add: take_bit_add)

lemma ucast_down_not: "ucast (NOT x :: u64) = (NOT (ucast x) :: u32)"
  by (intro bit_word_eqI) (auto simp: bit_simps)

lemma ucast_up_down: "ucast (scast (x::u32) :: u64) = x" "ucast (ucast (x::u32) :: u64) = x"
  by (intro bit_word_eqI; auto simp: bit_simps)+

lemmas down_simps = ucast_down_sum ucast_down_not ucast_up_down

lemma of_nat_sum: "of_nat (unat b + unat a + unat c) = b + a + (c :: u32)"
  by simp

lemma MSR_C_range: "MSR_C msr = 0 \<or> MSR_C msr = 1"
  using and_1_cases[of "drop_bit 29 msr"] by (simp add: MSR_C_def drop_bit_and)

lemma operand_reads [simp]:
  "ra p (next_pc s) = ra p s" "rb p (next_pc s) = rb p s" "rd p (next_pc s) = rd p s"
  "ra p (IMM_reset s) = ra p s" "rb p (IMM_reset s) = rb p s" "rd p (IMM_reset s) = rd p s"
  "C (next_pc s) = MSR_C (MSR s)" "C (IMM_reset s) = MSR_C (MSR s)"
  by (simp_all add: ra_def rb_def rd_def C_def)

lemma put_C_simps [simp]: "ra p (put_C v s) = ra p s" "GPR (put_C v s) = GPR s" "MSR (put_C v s) = set_MSR_C v (MSR s)"
  by (simp_all add: ra_def put_C_def)

text \<open>The carries as the instructions write them.\<close>

lemma add_carry_plain: "carry_bit x y (scast x + scast y) = int_of_bool (2 ^ 32 \<le> unat x + unat y)"
  using sum_carry[of 0 x y] by simp

lemma sub_carry_plain:
  "carry_bit (NOT x + 1) y (scast y + NOT (scast x) + 1) =
    int_of_bool ((2 ^ 32 \<le> unat y + unat (NOT x) + 1) \<noteq> (x = 0 \<or> x = 0x80000000))"
  using sub_carry[of 1 x y] by simp

lemma carry_commute: "carry_bit x y r = carry_bit y x r"
  by (simp add: carry_bit_def ac_simps)

lemmas family_simps = arith_reference_def IMM_handler_eq Let_def down_simps

lemma ADD_family:
  "mb_ADD p s = arith_reference False False False False p s"
  "mb_ADDC p s = arith_reference False True False False p s"
  "mb_ADDK p s = arith_reference False False True False p s"
  "mb_ADDKC p s = arith_reference False True True False p s"
  using add_carry_plain[of "ra p s" "rb p s"] sum_carry[OF MSR_C_range[of "MSR s"], of "ra p s" "rb p s"]
  by (simp_all add: mb_ADD_def mb_ADDC_def mb_ADDK_def mb_ADDKC_def family_simps
       carry_commute[of "ra p s" "rb p s"] ac_simps)

lemma ADDI_family:
  "mb_ADDI p s = arith_reference False False False True p s"
  "mb_ADDIC p s = arith_reference False True False True p s"
  "mb_ADDIK p s = arith_reference False False True True p s"
  "mb_ADDIKC p s = arith_reference False True True True p s"
  using add_carry_plain[of "ra p s" "operand_imm (imm p) s"]
    sum_carry[OF MSR_C_range[of "MSR s"], of "ra p s" "operand_imm (imm p) s"]
  by (simp_all add: mb_ADDI_def mb_ADDIC_def mb_ADDIK_def mb_ADDIKC_def family_simps ac_simps)

lemma RSUB_family:
  "mb_RSUB p s = arith_reference True False False False p s"
  "mb_RSUBC p s = arith_reference True True False False p s"
  "mb_RSUBK p s = arith_reference True False True False p s"
  "mb_RSUBKC p s = arith_reference True True True False p s"
  using sub_carry_plain[of "ra p s" "rb p s"] sub_carry[OF MSR_C_range[of "MSR s"], of "ra p s" "rb p s"]
  by (simp_all add: mb_RSUB_def mb_RSUBC_def mb_RSUBK_def mb_RSUBKC_def family_simps)

lemma RSUBI_family:
  "mb_RSUBI p s = arith_reference True False False True p s"
  "mb_RSUBIC p s = arith_reference True True False True p s"
  "mb_RSUBIK p s = arith_reference True False True True p s"
  "mb_RSUBIKC p s = arith_reference True True True True p s"
  using sub_carry_plain[of "ra p s" "operand_imm (imm p) s"]
    sub_carry[OF MSR_C_range[of "MSR s"], of "ra p s" "operand_imm (imm p) s"]
  by (simp_all add: mb_RSUBI_def mb_RSUBIC_def mb_RSUBIK_def mb_RSUBIKC_def family_simps)

section \<open>The opcodes\<close>

lemma opcode_bits:
  "w AND 0x7c000000 = (if bit w 26 then 0x4000000 else 0) OR (if bit w 27 then 0x8000000 else 0)
     OR (if bit w 28 then 0x10000000 else 0) OR (if bit w 29 then 0x20000000 else 0)
     OR (if bit w 30 then 0x40000000 else 0)" for w :: u32
proof -
  have "(0x7c000000::u32) = push_bit 26 1 OR push_bit 27 1 OR push_bit 28 1 OR push_bit 29 1 OR push_bit 30 1"
    by simp
  then show ?thesis by (simp only: bit.conj_disj_distrib and_push_bit_1) simp
qed

lemma top_bits_clear:
  assumes "drop_bit 30 w = (0 :: u32)"
  shows "\<not> bit w 30" "w AND 0x80000000 = 0" "w AND 0xc0000000 = 0"
proof -
  have "bit (drop_bit 30 w) 0 = bit w 30" "bit (drop_bit 30 w) 1 = bit w 31" by (simp_all add: bit_drop_bit_eq)
  then have b: "\<not> bit w 30" "\<not> bit w 31" using assms by simp_all
  then show "\<not> bit w 30" "w AND 0x80000000 = 0" using and_top_bit[of w] by simp_all
  have "(0xc0000000::u32) = push_bit 30 1 OR push_bit 31 1" by simp
  then show "w AND 0xc0000000 = 0"
    using b by (simp only: bit.conj_disj_distrib and_push_bit_1) simp
qed

lemma low_masks:
  assumes "w AND 0x7ff = (0 :: u32)"
  shows "w AND 0x400 = 0" "w AND 0x1 = 0" "w AND 0x60 = 0"
  using and_submask[OF assms] by simp_all

lemma decode_arith:
  assumes "drop_bit 30 w = (0 :: u32)" "bit w 29 \<or> w AND 0x7ff = 0"
  shows "mb_decode w =
    (if bit w 29 then
       (if bit w 28 then (if bit w 27 then (if bit w 26 then 96 else 7) else (if bit w 26 then 95 else 6))
        else (if bit w 27 then (if bit w 26 then 94 else 5) else (if bit w 26 then 93 else 4)))
     else
       (if bit w 28 then (if bit w 27 then (if bit w 26 then 92 else 3) else (if bit w 26 then 91 else 2))
        else (if bit w 27 then (if bit w 26 then 90 else 1) else (if bit w 26 then 89 else 0))))"
proof -
  note top = top_bits_clear[OF assms(1)]
  have "w AND 0x80000001 = 0" if "\<not> bit w 29"
  proof -
    have "(0x80000001::u32) = 0x80000000 OR 0x1" by simp
    then show ?thesis using top low_masks(2) assms(2) that by (simp only: bit.conj_disj_distrib) simp
  qed
  then show ?thesis
    using top low_masks[of w] assms(2)
    by (cases "bit w 26"; cases "bit w 27"; cases "bit w 28"; cases "bit w 29")
       (simp_all add: mb_decode_defs opcode_bits)
qed

text \<open>(C14) The sixteen add and subtract instructions are the reference: the four opcode bits
  26 to 29 choose subtraction, carry in, carry kept and immediate operand.  The result is the
  sum of the operands as natural numbers, modulo 2^32; the carry is set when that sum does not
  fit in 32 bits, except that a subtraction of 0 or of 0x80000000 with carry in inverts it.\<close>

theorem arithmetic_family:
  assumes "mb_fetch cif s = Some (w, s')"
    and "drop_bit 30 w = 0" "bit w 29 \<or> w AND 0x7ff = 0"
  shows "mb_plain cif hf s =
    Ok 0 (arith_reference (bit w 26) (bit w 27) (bit w 28) (bit w 29) (snd (mb_decoded w)) s')"
proof -
  have "mb_execute cif hf (mb_decode w) p s' =
      Ok 0 (arith_reference (bit w 26) (bit w 27) (bit w 28) (bit w 29) p s')" for p
    unfolding decode_arith[OF assms(2,3)] mb_execute_def
    by (cases "bit w 26"; cases "bit w 27"; cases "bit w 28"; cases "bit w 29")
       (simp_all add: mb_INSTRUCTIONS_nth always_def ADD_family ADDI_family RSUB_family RSUBI_family)
  then show ?thesis by (simp add: mb_plain_def assms(1) mb_decoded_def Let_def)
qed

text \<open>\<^verbatim>\<open>rsubi r1, r0, 5\<close> leaves 5 in r1 and, because r0 is 0, no carry.\<close>

lemma rsubi_decoded:
  "mb_decoded 0x24200005 = (93, \<lparr>rd_bit = 1, ra_bit = 0, rb_bit = 0, imm = 5, imm15 = 5, rs = 5\<rparr>)"
  by (simp add: decode_word)

lemma arithmetic_family_witness:
  "\<exists>t. mb_plain rom_if no_float (mb_sample (\<lambda>_. 0x24200005)) = Ok 0 t \<and> GPR t 1 = 5 \<and> MSR_C (MSR t) = 0 \<and> PC t = 0x104"
proof -
  let ?s = "mb_sample (\<lambda>_. 0x24200005)"
  have f: "mb_fetch rom_if ?s = Some (0x24200005, ?s)" by (simp add: mb_fetch_rom)
  show ?thesis
    by (subst arithmetic_family[OF f])
       (simp_all add: rsubi_decoded arith_reference_def operand_imm_def IMM_handler_def mb_SignExtend_def ra_def put_C_def
         unsigned_minus_1_eq_mask mask_eq_exp_minus_1)
qed

end
