(* ===== verification/Mb_Control_Props.thy ===== *)
theory Mb_Control_Props
  imports Mb_Arith_Props
begin

text \<open>
  Control flow of the MicroBlaze: the twenty-four conditional branches against one
  reference function, the delay slot, the life of the \<^verbatim>\<open>IMM\<close> prefix, and the
  instructions on which the simulator stays for ever.
\<close>

section \<open>Conditional branches\<close>

definition condition_holds :: "nat \<Rightarrow> u32 \<Rightarrow> bool" where
  "condition_holds cond x =
     (if cond = 0 then x = 0 else if cond = 1 then x \<noteq> 0 else if cond = 2 then sint x < 0
      else if cond = 3 then sint x \<le> 0 else if cond = 4 then 0 < sint x else 0 \<le> sint x)"

definition branch_reference :: "nat \<Rightarrow> bool \<Rightarrow> bool \<Rightarrow> mb_params \<Rightarrow> 'm microblaze \<Rightarrow> 'm microblaze" where
  "branch_reference cond delay immediate p s =
     (let off = (if immediate then operand_imm (imm p) s else rb p s);
          taken = condition_holds cond (ra p s);
          s = IMM_reset s
      in if delay then s\<lparr>TARGET := (if taken then PC s + off else PC s + 8), PC := PC s + 4\<rparr>
         else s\<lparr>PC := (if taken then PC s + off else PC s + 4)\<rparr>)"

lemmas branch_simps = branch_reference_def condition_holds_def IMM_handler_eq Let_def
  word_sless_alt word_sle_eq

lemma branch_families:
  "mb_BEQ = branch_reference 0 False False" "mb_BNE = branch_reference (Suc 0) False False"
  "mb_BLT = branch_reference 2 False False" "mb_BLE = branch_reference 3 False False"
  "mb_BGT = branch_reference 4 False False" "mb_BGE = branch_reference 5 False False"
  "mb_BEQD = branch_reference 0 True False" "mb_BNED = branch_reference (Suc 0) True False"
  "mb_BLTD = branch_reference 2 True False" "mb_BLED = branch_reference 3 True False"
  "mb_BGTD = branch_reference 4 True False" "mb_BGED = branch_reference 5 True False"
  "mb_BEQI = branch_reference 0 False True" "mb_BNEI = branch_reference (Suc 0) False True"
  "mb_BLTI = branch_reference 2 False True" "mb_BLEI = branch_reference 3 False True"
  "mb_BGTI = branch_reference 4 False True" "mb_BGEI = branch_reference 5 False True"
  "mb_BEQID = branch_reference 0 True True" "mb_BNEID = branch_reference (Suc 0) True True"
  "mb_BLTID = branch_reference 2 True True" "mb_BLEID = branch_reference 3 True True"
  "mb_BGTID = branch_reference 4 True True" "mb_BGEID = branch_reference 5 True True"
  unfolding mb_BEQ_def mb_BNE_def mb_BLT_def mb_BLE_def mb_BGT_def mb_BGE_def mb_BEQD_def mb_BNED_def
    mb_BLTD_def mb_BLED_def mb_BGTD_def mb_BGED_def mb_BEQI_def mb_BNEI_def mb_BLTI_def mb_BLEI_def
    mb_BGTI_def mb_BGEI_def mb_BEQID_def mb_BNEID_def mb_BLTID_def mb_BLEID_def mb_BGTID_def mb_BGEID_def
  by (intro ext; simp add: branch_simps)+

section \<open>Their opcodes\<close>

lemma and_two_bits:
  "w AND 0x600000 = (if bit w 21 then 0x200000 else 0) OR (if bit w 22 then 0x400000 else 0)" for w :: u32
proof -
  have "(0x600000::u32) = push_bit 21 1 OR push_bit 22 1" by simp
  then show ?thesis by (simp only: bit.conj_disj_distrib and_push_bit_1) simp
qed

lemma and_one_bit:
  "w AND 0x800000 = (if bit w 23 then 0x800000 else 0)" "w AND 0x2000000 = (if bit w 25 then 0x2000000 else 0)"
  "w AND 0xc0000000 = (if bit w 30 then 0x40000000 else 0) OR (if bit w 31 then 0x80000000 else 0)" for w :: u32
proof -
  have e: "(0x800000::u32) = push_bit 23 1" "(0x2000000::u32) = push_bit 25 1"
    "(0xc0000000::u32) = push_bit 30 1 OR push_bit 31 1" by simp_all
  show "w AND 0x800000 = (if bit w 23 then 0x800000 else 0)" unfolding e and_push_bit_1 ..
  show "w AND 0x2000000 = (if bit w 25 then 0x2000000 else 0)" unfolding e and_push_bit_1 ..
  show "w AND 0xc0000000 = (if bit w 30 then 0x40000000 else 0) OR (if bit w 31 then 0x80000000 else 0)"
    unfolding e by (simp only: bit.conj_disj_distrib and_push_bit_1) simp
qed

text \<open>The condition of a branch word: bits 21 to 23.\<close>

definition branch_condition :: "u32 \<Rightarrow> nat" where
  "branch_condition w = of_bool (bit w 21) + 2 * of_bool (bit w 22) + 4 * of_bool (bit w 23)"

text \<open>(C15) The twenty-four conditional branches are the reference: bits 21 to 23 of the word
  choose the condition on the signed value of \<^verbatim>\<open>ra\<close>, bit 25 a delay slot, bit 29 an immediate
  offset.  Without a slot the machine goes to PC plus the offset or to PC + 4; with one it goes
  to PC + 4 and notes PC plus the offset, or PC + 8, as the target.\<close>

theorem branch_family:
  assumes "mb_fetch cif s = Some (w, s')"
    and "bit w 26" "bit w 27" "bit w 28" "\<not> bit w 30" "bit w 31" and "branch_condition w < 6"
  shows "mb_plain cif hf s =
    Ok 0 (branch_reference (branch_condition w) (bit w 25) (bit w 29) (snd (mb_decoded w)) s')"
proof -
  have "mb_execute cif hf (mb_decode w) p s' =
      Ok 0 (branch_reference (branch_condition w) (bit w 25) (bit w 29) p s')" for p
    using assms(2-7) unfolding mb_execute_def branch_condition_def
    by (cases "bit w 21"; cases "bit w 22"; cases "bit w 23"; cases "bit w 25"; cases "bit w 29")
       (simp_all add: mb_decode_defs opcode_bits and_two_bits and_one_bit mb_INSTRUCTIONS_nth always_def branch_families
         flip: numeral_2_eq_2 numeral_3_eq_3)
  then show ?thesis by (simp add: mb_plain_def assms(1) mb_decoded_def Let_def)
qed

text \<open>\<^verbatim>\<open>bgti r1, -16\<close> with a positive r1 is taken.\<close>

lemma bgti_decoded:
  "mb_decoded 0xBC81FFF0 = (22, \<lparr>rd_bit = 4, ra_bit = 1, rb_bit = 31, imm = 0xfff0, imm15 = 0x7ff0, rs = 0x3ff0\<rparr>)"
  by (simp add: decode_word)

lemma branch_family_witness:
  "\<exists>t. mb_plain rom_if no_float (mb_sample (\<lambda>_. 0xBC81FFF0)) = Ok 0 t \<and> PC t = 0xf0 \<and> TARGET t = 0xffffffff"
proof -
  let ?s = "mb_sample (\<lambda>_. 0xBC81FFF0)"
  have f: "mb_fetch rom_if ?s = Some (0xBC81FFF0, ?s)" by (simp add: mb_fetch_rom)
  have r1: "GPR ?s (Suc 0) = 0x4ffff0" by (simp add: mb_sample_def mb_resetOp_def)
  show ?thesis
    by (subst branch_family[OF f])
       (simp_all add: bgti_decoded branch_condition_def branch_reference_def Let_def condition_holds_def operand_imm_def
         IMM_handler_def mb_SignExtend_def ra_def r1)
qed

section \<open>Instructions that go on\<close>

text \<open>
  All but branches, breaks, returns and the three instructions that do nothing: they go to
  the next instruction or to a pending target, or, where they check an address, enter the
  memory exception at 0x20; and all but \<^verbatim>\<open>IMM\<close> use up the prefix.
\<close>

text \<open>The identifiers of the loads and stores that check alignment: half words and words,
  register and immediate form.\<close>

definition checked_accesses :: "nat set" where
  "checked_accesses = {71, 72, 73, 74, 103, 104, 105, 106}"

definition straight :: "nat \<Rightarrow> bool" where
  "straight i = (i < 12 \<or> 50 \<le> i \<and> i < 62 \<or> i = 63 \<or> 66 \<le> i \<and> i < 97 \<or> 101 \<le> i \<and> i < 116)"

definition gone_on :: "bool \<Rightarrow> 'm microblaze \<Rightarrow> 'm microblaze \<Rightarrow> bool" where
  "gone_on exc s s' = (TARGET s' = 0xffffffff \<and> DSFLAG s' = DSFLAG (next_pc s) \<and>
     (PC s' = PC (next_pc s) \<or> exc \<and> PC s' = 0x20))"

definition prefix_used :: "'m microblaze \<Rightarrow> 'm microblaze \<Rightarrow> bool" where
  "prefix_used s s' = (IMMREG s' = IMMREG s AND 0x7fffffff)"

definition advances :: "bool \<Rightarrow> 'm microblaze \<Rightarrow> 'm mres \<Rightarrow> bool" where
  "advances exc s r = res_all (\<lambda>s'. gone_on exc s s' \<and> prefix_used s s') r"

lemmas advances_defs = advances_def gone_on_def prefix_used_def

lemma handleException_control [simp]:
  "PC (handleException s) = 0x20" "TARGET (handleException s) = TARGET s"
  "DSFLAG (handleException s) = DSFLAG s" "IMMREG (handleException s) = IMMREG s"
  by (simp_all add: handleException_def Let_def)

lemma handleMemoryException_control [simp]:
  "PC (handleMemoryException w st r a s) = 0x20" "TARGET (handleMemoryException w st r a s) = TARGET s"
  "DSFLAG (handleMemoryException w st r a s) = DSFLAG s" "IMMREG (handleMemoryException w st r a s) = IMMREG s"
  by (simp_all add: handleMemoryException_def Let_def)

lemma put_C_control [simp]:
  "PC (put_C v s) = PC s" "TARGET (put_C v s) = TARGET s" "DSFLAG (put_C v s) = DSFLAG s" "IMMREG (put_C v s) = IMMREG s"
  by (simp_all add: put_C_def)

lemma IMMREG_reset [simp]: "IMMREG (IMM_reset s) = IMMREG s AND 0x7fffffff"
  by (simp add: IMM_reset_def)

lemma advances_next: "advances e s (Ok v t) = (gone_on e s t \<and> prefix_used s t)"
  by (simp add: advances_def)

text \<open>Being at the end of such an instruction does not depend on the other registers.\<close>

definition same_control :: "'m microblaze \<Rightarrow> 'm microblaze \<Rightarrow> bool" where
  "same_control s t = (PC s = PC t \<and> TARGET s = TARGET t \<and> DSFLAG s = DSFLAG t \<and> IMMREG s = IMMREG t)"

lemma advances_same_control:
  "same_control t (next_pc (IMM_reset s)) \<Longrightarrow> advances e s (Ok v t)"
  by (simp add: same_control_def advances_defs)

lemma advances_exception:
  "same_control t (next_pc (IMM_reset s)) \<Longrightarrow> advances True s (Ok v (handleMemoryException a b c d t))"
  by (simp add: same_control_def advances_defs)

lemma same_control_intros [intro]:
  "same_control s t \<Longrightarrow> same_control (set_rd p v s) t"
  "same_control s t \<Longrightarrow> same_control (put_C v s) t"
  "same_control s t \<Longrightarrow> same_control (s\<lparr>MEM := m\<rparr>) t"
  "same_control s s"
  by (simp_all add: same_control_def)

lemmas family_references = ADD_family ADDI_family RSUB_family RSUBI_family

lemma family_control: "same_control (arith_reference a b c d p s) (next_pc (IMM_reset s))"
  by (simp add: arith_reference_def Let_def same_control_def)

lemma advances_family:
  "advances False s (always mb_ADD p s)" "advances False s (always mb_ADDC p s)" "advances False s (always mb_ADDK p s)"
  "advances False s (always mb_ADDKC p s)" "advances False s (always mb_ADDI p s)" "advances False s (always mb_ADDIC p
  s)" "advances False s (always mb_ADDIK p s)" "advances False s (always mb_ADDIKC p s)" "advances False s (always
  mb_RSUB p s)" "advances False s (always mb_RSUBC p s)" "advances False s (always mb_RSUBK p s)" "advances False s (always mb_RSUBKC p s)" "advances False s (always mb_RSUBI p s)" "advances False s (always mb_RSUBIC p s)"
  "advances False s (always mb_RSUBIK p s)" "advances False s (always mb_RSUBIKC p s)"
  by (simp_all add: always_def family_references advances_same_control family_control)

lemmas alu_defs =
  mb_AND_def mb_ANDI_def mb_ANDN_def mb_ANDNI_def mb_BSRL_def mb_BSRA_def mb_BSLL_def mb_CMP_def
  mb_CMPU_def mb_IDIVU_def mb_MFS_def mb_MSRCLR_def mb_MSRSET_def mb_MTS_def mb_MUL_def mb_MULH_def
  mb_MULHU_def mb_MULHSU_def mb_MULI_def mb_OR_def mb_ORI_def mb_PCMPBF_def mb_PCMPEQ_def
  mb_PCMPNE_def mb_SEXT16_def mb_SEXT8_def mb_SRA_def mb_SRC_def mb_SRL_def mb_WDC_def mb_WIC_def
  mb_XOR_def mb_XORI_def

lemma advances_alu:
  "advances False s (always mb_AND p s)" "advances False s (always mb_ANDI p s)" "advances False s (always mb_ANDN p s)"
  "advances False s (always mb_ANDNI p s)" "advances False s (always mb_BSRL p s)" "advances False s (always mb_BSRA p
  s)" "advances False s (always mb_BSLL p s)" "advances False s (always mb_CMP p s)" "advances False s (always mb_CMPU p
  s)" "advances False s (always mb_IDIVU p s)" "advances False s (always mb_MFS p s)" "advances False s (always
  mb_MSRCLR p s)" "advances False s (always mb_MSRSET p s)" "advances False s (always mb_MTS p s)" "advances False s (always mb_MUL p s)" "advances False s (always mb_MULH p s)" "advances False s (always mb_MULHU p s)" "advances False s (always mb_MULHSU p s)" "advances False s (always mb_MULI p s)" "advances False s (always mb_OR p s)"
  "advances False s (always mb_ORI p s)" "advances False s (always mb_PCMPBF p s)" "advances False s (always mb_PCMPEQ p
  s)" "advances False s (always mb_PCMPNE p s)" "advances False s (always mb_SEXT16 p s)" "advances False s (always
  mb_SEXT8 p s)" "advances False s (always mb_SRA p s)" "advances False s (always mb_SRC p s)" "advances False s (always
  mb_SRL p s)" "advances False s (always mb_WDC p s)" "advances False s (always mb_WIC p s)" "advances False s (always
  mb_XOR p s)" "advances False s (always mb_XORI p s)"
  unfolding always_def
  by (rule advances_same_control; simp add: alu_defs same_control_def IMM_handler_eq Let_def)+

lemmas load_store_defs =
  mb_LBU_def mb_LBUI_def mb_LHU_def mb_LHUI_def mb_LW_def mb_LWI_def mb_SB_def mb_SBI_def mb_SH_def
  mb_SHI_def mb_SW_def mb_SWI_def

lemma advances_on_read:
  "(\<And>v m. advances e s (k v (t\<lparr>MEM := m\<rparr>))) \<Longrightarrow> advances e s (on_read r t k)"
  by (auto simp: on_read_def advances_def split: option.split)

lemma advances_on_write:
  "(\<And>m. advances e s (Ok 0 (t\<lparr>MEM := m\<rparr>))) \<Longrightarrow> advances e s (on_write r t)"
  by (auto simp: on_write_def advances_def split: option.split)

lemma advances_if: "\<lbrakk>advances e s r; advances e s r'\<rbrakk> \<Longrightarrow> advances e s (if c then r else r')"
  by simp

lemma advances_load_store:
  "advances False s (mb_LBU cif p s)" "advances False s (mb_LBUI cif p s)" "advances True s (mb_LHU cif p s)" "advances True s (mb_LHUI cif p s)" "advances True s (mb_LW cif p s)" "advances True s (mb_LWI cif p s)" "advances False s (mb_SB
  cif p s)" "advances False s (mb_SBI cif p s)" "advances True s (mb_SH cif p s)" "advances True s (mb_SHI cif p s)"
  "advances True s (mb_SW cif p s)" "advances True s (mb_SWI cif p s)"
  unfolding load_store_defs IMM_handler_eq Let_def prod.case
  by (intro advances_if advances_on_read advances_on_write advances_same_control advances_exception same_control_intros)+

lemma advances_partial:
  "advances False s (mb_BSRLI p s)" "advances False s (mb_BSRAI p s)" "advances False s (mb_BSLLI p s)" "advances False s (mb_IDIV p s)"
  unfolding mb_BSRLI_def mb_BSRAI_def mb_BSLLI_def mb_IDIV_def IMM_handler_eq Let_def prod.case
  by (auto simp: advances_defs)

lemma advances_float:
  "advances False s (always (mb_FADD hf) p s)" "advances False s (always (mb_FRSUB hf) p s)" "advances False s (always
  (mb_FMUL hf) p s)" "advances False s (always (mb_FDIV hf) p s)" "advances False s (always (mb_FLT hf) p s)"
  unfolding always_def
  by (rule advances_same_control; simp add: mb_FADD_def mb_FRSUB_def mb_FMUL_def mb_FDIV_def mb_FLT_def same_control_def Let_def)+

lemma below_cases: "\<lbrakk>i < n; 2 \<le> n\<rbrakk> \<Longrightarrow> i \<in> set (0 # Suc 0 # [2..<n])"
  by auto

lemma advances_straight:
  assumes "straight i" "i \<noteq> 68"
  shows "advances (i \<in> checked_accesses) s ((mb_INSTRUCTIONS cif hf ! i) p s)"
proof -
  have "i < 117" using assms by (auto simp: straight_def)
  have "\<forall>i \<in> set (0 # Suc 0 # [2..<117]). straight i \<and> i \<noteq> 68 \<longrightarrow> advances (i \<in> checked_accesses) s ((mb_INSTRUCTIONS cif hf ! i) p s)"
    by (simp add: straight_def checked_accesses_def mb_INSTRUCTIONS_nth advances_family advances_alu advances_load_store
        advances_partial advances_float)
  moreover have "i \<in> set (0 # Suc 0 # [2..<117])" using \<open>i < 117\<close> by (rule below_cases) simp
  ultimately show ?thesis using assms by blast
qed

lemma IMM_goes_on: "gone_on e s (mb_IMM p s)"
  by (simp add: gone_on_def mb_IMM_def Let_def)

lemmas branch_control_simps = branch_reference_def prefix_used_def IMM_handler_eq Let_def

lemmas unconditional_defs =
  mb_BR_def mb_BRA_def mb_BRD_def mb_BRAD_def mb_BRLD_def mb_BRALD_def mb_BRI_def mb_BRAI_def
  mb_BRID_def mb_BRAID_def mb_BRLID_def mb_BRALID_def mb_BRK_def mb_BRKI_def mb_RTBD_def mb_RTID_def
  mb_RTED_def mb_RTSD_def

lemma prefix_used_branch:
  "prefix_used s (branch_reference c d i p s)"
  "prefix_used s (mb_BR p s)" "prefix_used s (mb_BRA p s)" "prefix_used s (mb_BRD p s)" "prefix_used s
  (mb_BRAD p s)" "prefix_used s (mb_BRLD p s)" "prefix_used s (mb_BRALD p s)" "prefix_used s (mb_BRI p
  s)" "prefix_used s (mb_BRAI p s)" "prefix_used s (mb_BRID p s)" "prefix_used s (mb_BRAID p s)"
  "prefix_used s (mb_BRLID p s)" "prefix_used s (mb_BRALID p s)" "prefix_used s (mb_BRK p s)"
  "prefix_used s (mb_BRKI p s)" "prefix_used s (mb_RTBD p s)" "prefix_used s (mb_RTID p s)"
  "prefix_used s (mb_RTED p s)" "prefix_used s (mb_RTSD p s)"
  unfolding unconditional_defs
  by (simp_all add: branch_control_simps handleUserPermissionException_def)

end
