(* ===== verification/Mb_Interface.thy ===== *)
theory Mb_Interface
  imports Mb_Step
begin

text \<open>
  The ABI interface of the MicroBlaze core (src/microblaze/microblaze/intunit/interface.cpp)
  through which debugger, tools and the operating-system emulation see the machine: saving
  and restoring the architectural state in a byte buffer, the register numbering of GDB,
  the argument and return registers of a call, and the debug accesses to memory.

  The buffer of \<^verbatim>\<open>get_state\<close> has 236 bytes; the code advances its pointer by 0 after
  the boolean \<^verbatim>\<open>DSFLAG\<close>, so \<^verbatim>\<open>GPR[0]\<close> is stored over it.  The host is little
  endian.
\<close>

section \<open>Saving and restoring the state\<close>

primrec put_words :: "u32 list \<Rightarrow> nat \<Rightarrow> u8 list \<Rightarrow> u8 list" where
  "put_words [] off bs = bs"
| "put_words (w # ws) off bs = put_words ws (off + 4) (store_host 4 w bs off)"

definition special_registers :: "'m microblaze \<Rightarrow> u32 list" where
  "special_registers s = [PC s, MSR s, EAR s, ESR s, BTR s, FSR s, EDR s, PID s, ZPR s, TLBLO s, TLBHI s,
     TLBX s, TLBSX s, IMMREG s, TARGET s]"

definition register_banks :: "'m microblaze \<Rightarrow> u32 list" where
  "register_banks s = map (GPR s) [0..<32] @ map (PVR s) [0..<12]"

text \<open>\<^verbatim>\<open>curState\<close> is what \<^verbatim>\<open>new unsigned char[236]\<close> happens to contain.\<close>

definition get_state :: "u8 list \<Rightarrow> 'm microblaze \<Rightarrow> u8 list" where
  "get_state curState s =
     put_words (register_banks s) 60
       ((put_words (special_registers s) 0 curState)[60 := int_of_bool (DSFLAG s \<noteq> 0)])"

text \<open>Reading a byte other than 0 and 1 as a \<^verbatim>\<open>bool\<close> is undefined.\<close>

definition set_state :: "u8 list \<Rightarrow> 'm microblaze \<Rightarrow> 'm microblaze option" where
  "set_state state s =
     (let word = (\<lambda>off. load_host 4 state off)
      in if 1 < state ! 60 then None
         else Some (s\<lparr>PC := word 0, MSR := word 4, EAR := word 8, ESR := word 12, BTR := word 16,
                FSR := word 20, EDR := word 24, PID := word 28, ZPR := word 32, TLBLO := word 36,
                TLBHI := word 40, TLBX := word 44, TLBSX := word 48, IMMREG := word 52, TARGET := word 56,
                DSFLAG := ucast (state ! 60),
                GPR := (\<lambda>i. if i < 32 then word (60 + 4 * i) else GPR s i),
                PVR := (\<lambda>i. if i < 12 then word (188 + 4 * i) else PVR s i)\<rparr>))"

section \<open>Registers by GDB number\<close>

definition read_gdb_reg :: "nat \<Rightarrow> 'm microblaze \<Rightarrow> u32" where
  "read_gdb_reg gdbId s =
     (if gdbId < 32 then GPR s gdbId
      else if gdbId = 32 then PC s + 0 else if gdbId = 33 then MSR s else if gdbId = 34 then EAR s
      else if gdbId = 35 then ESR s else if gdbId = 36 then FSR s else 0)"

definition num_gdb_regs :: nat where
  "num_gdb_regs = 37"

text \<open>\<^const>\<open>None\<close>: \<^verbatim>\<open>THROW_EXCEPTION\<close>.\<close>

definition set_gdb_reg :: "u32 \<Rightarrow> nat \<Rightarrow> 'm microblaze \<Rightarrow> 'm microblaze option" where
  "set_gdb_reg newValue gdbId s =
     (if gdbId < 32 then Some (s\<lparr>GPR := (GPR s)(gdbId := newValue)\<rparr>)
      else if gdbId = 32 then Some (s\<lparr>PC := newValue\<rparr>) else if gdbId = 33 then Some (s\<lparr>MSR := newValue\<rparr>)
      else if gdbId = 34 then Some (s\<lparr>EAR := newValue\<rparr>) else if gdbId = 35 then Some (s\<lparr>ESR := newValue\<rparr>)
      else if gdbId = 36 then Some (s\<lparr>FSR := newValue\<rparr>) else None)"

section \<open>Calls\<close>

definition read_args :: "'m microblaze \<Rightarrow> u32 list" where
  "read_args s = [GPR s 5, GPR s 6, GPR s 7, GPR s 8, GPR s 9, GPR s 10]"

primrec put_args :: "u32 list \<Rightarrow> nat \<Rightarrow> 'm microblaze \<Rightarrow> 'm microblaze" where
  "put_args [] i s = s"
| "put_args (a # as) i s = put_args as (i + 1) (s\<lparr>GPR := (GPR s)(i := a)\<rparr>)"

definition set_args :: "u32 list \<Rightarrow> 'm microblaze \<Rightarrow> 'm microblaze option" where
  "set_args args s = (if length args > 6 then None else Some (put_args args 5 s))"

definition read_return_value :: "'m microblaze \<Rightarrow> u32" where
  "read_return_value s = GPR s 3"

definition set_return_value :: "u32 \<Rightarrow> 'm microblaze \<Rightarrow> 'm microblaze" where
  "set_return_value newValue s = s\<lparr>GPR := (GPR s)(3 := newValue)\<rparr>"

definition read_LR :: "'m microblaze \<Rightarrow> u32" where
  "read_LR s = GPR s 15"

definition read_SP :: "'m microblaze \<Rightarrow> u32" where
  "read_SP s = GPR s 1"

definition return_from_call :: "'m microblaze \<Rightarrow> 'm microblaze" where
  "return_from_call s = s\<lparr>PC := GPR s 15 + 8\<rparr>"

section \<open>Debug accesses to memory\<close>

definition read_mem :: "'m cpu_if \<Rightarrow> u32 \<Rightarrow> 'm microblaze \<Rightarrow> 'm mres" where
  "read_mem cif address s = on_read (if_read_word cif address 0x8 0 0 (MEM s)) s (\<lambda>v s. Ok v s)"

definition write_mem :: "'m cpu_if \<Rightarrow> u32 \<Rightarrow> u32 \<Rightarrow> 'm microblaze \<Rightarrow> 'm mres" where
  "write_mem cif address datum s = on_write (if_write_word cif address datum 0x8 0 0 (MEM s)) s"

section \<open>What a saved state restores\<close>

lemma length_put_words [simp]: "length (put_words ws off bs) = length bs"
  by (induction ws arbitrary: off bs) auto

lemma put_words_before: "k < off \<Longrightarrow> put_words ws off bs ! k = bs ! k"
  by (induction ws arbitrary: off bs) (auto simp: store_host_before)

lemma load_put_words_before: "k + 4 \<le> off \<Longrightarrow> load_host 4 (put_words ws off bs) k = load_host 4 bs k"
  by (rule load_host_cong) (simp add: put_words_before)

lemma load_put_words:
  "\<lbrakk>i < length ws; off + 4 * length ws \<le> length bs\<rbrakk> \<Longrightarrow>
   load_host 4 (put_words ws off bs) (off + 4 * i) = (ws ! i :: u32)"
proof (induction ws arbitrary: i off bs)
  case (Cons w ws)
  show ?case
  proof (cases i)
    case 0
    then show ?thesis using Cons.prems by (simp add: load_put_words_before load_store_host)
  next
    case (Suc j)
    then show ?thesis using Cons.prems Cons.IH[of j "off + 4" "store_host 4 w bs off"] by (simp add: algebra_simps)
  qed
qed simp

lemma load_host_low_byte: "bs ! a = ucast (load_host 4 bs a :: u32)"
  unfolding load_host_4 by (intro bit_word_eqI) (auto simp: bit_simps)

end
