(* ===== verification/Mb_Claims.thy ===== *)
theory Mb_Claims
  imports Mb_Control_Props Mb_Interface
begin

text \<open>
  What the MicroBlaze machine does over several instructions: the delay slot, the
  \<^verbatim>\<open>IMM\<close> prefix, the instructions on which it stays, the exception for an unaligned
  access and the return from it.
\<close>

section \<open>The delay slot\<close>

text \<open>(C16) A branch with a delay slot.  Whatever instruction that goes straight on follows it,
  after that instruction the machine is at the target of the branch, or behind the slot when
  the condition did not hold, and remembers in DSFLAG that it comes out of a slot; the only
  exception is an unaligned access in the slot, which enters its handler.  A target of
  0xffffffff is taken for no target.\<close>

theorem delay_slot:
  assumes "mb_fetch cif s = Some (w, s')"
    and "bit w 26" "bit w 27" "bit w 28" "\<not> bit w 30" "bit w 31" "branch_condition w < 6" "bit w 25"
    and p: "p = snd (mb_decoded w)"
    and off: "off = (if bit w 29 then operand_imm (imm p) s' else rb p s')"
    and dest: "dest = (if condition_holds (branch_condition w) (ra p s') then PC s + off else PC s + 8)"
    and "dest \<noteq> 0xffffffff"
    and step: "mb_plain cif hf s = Ok n s1" "mb_fetch cif s1 = Some (w1, s1')"
    and slot: "straight (mb_decode w1)" "mb_plain cif hf s1 = Ok n1 s2"
  shows "TARGET s2 = 0xffffffff \<and> DSFLAG s2 = 1 \<and> (PC s2 = dest \<or> mb_decode w1 \<in> checked_accesses \<and> PC s2 = 0x20)"
proof -
  have s1: "s1 = branch_reference (branch_condition w) True (bit w 29) p s'"
    using branch_family[OF assms(1-7), of hf] step(1) assms(8) p by simp
  have "TARGET s1 = dest"
    using mb_fetch_keeps[OF assms(1)] by (simp add: s1 branch_reference_def Let_def off dest)
  then have t: "TARGET s1' = dest" using mb_fetch_keeps[OF step(2)] by simp
  have "gone_on (mb_decode w1 \<in> checked_accesses) s1' s2"
    using slot(2) advances_straight[OF slot(1), of s1' cif hf "snd (mb_decoded w1)"] IMM_goes_on[of "mb_decode w1 \<in> checked_accesses" s1' "snd (mb_decoded w1)"]
    by (cases "mb_decode w1 = 68")
       (auto simp: mb_plain_def step(2) mb_execute_def mb_decoded_def Let_def advances_def mb_INSTRUCTIONS_nth always_def)
  then show ?thesis using t \<open>dest \<noteq> 0xffffffff\<close> by (simp add: gone_on_def)
qed

text \<open>\<^verbatim>\<open>beqid r0, 16\<close> at 0x100 with \<^verbatim>\<open>addik r1, r0, 5\<close> in its slot.\<close>

definition slot_program :: "u32 \<Rightarrow> u32" where
  "slot_program a = (if a = 0x100 then 0xBE000010 else 0x30200005)"

lemma slot_program_decoded:
  "mb_decoded 0xBE000010 = (15, \<lparr>rd_bit = 16, ra_bit = 0, rb_bit = 0, imm = 16, imm15 = 16, rs = 16\<rparr>)"
  "mb_decoded 0x30200005 = (6, \<lparr>rd_bit = 1, ra_bit = 0, rb_bit = 0, imm = 5, imm15 = 5, rs = 5\<rparr>)"
  by (simp_all add: decode_word)

lemma delay_slot_witness:
  "\<exists>s1 s2. mb_plain rom_if no_float (mb_sample slot_program) = Ok 0 s1 \<and> mb_plain rom_if no_float s1 = Ok 0 s2 \<and>
     TARGET s2 = 0xffffffff \<and> DSFLAG s2 = 1 \<and> PC s2 = 0x110"
proof -
  let ?s = "mb_sample slot_program" and ?p = "\<lparr>rd_bit = 16, ra_bit = 0, rb_bit = 0, imm = 16, imm15 = 16, rs = 16\<rparr>"
  let ?s1 = "branch_reference 0 True True ?p ?s"
    and ?s2 = "arith_reference False False True True \<lparr>rd_bit = 1, ra_bit = 0, rb_bit = 0, imm = 5, imm15 = 5, rs = 5\<rparr>
      (branch_reference 0 True True ?p ?s)"
  have m: "MEM ?s1 = slot_program" "PC ?s1 = 0x104"
    by (simp_all add: branch_reference_def Let_def IMM_reset_def)
  have d: "mb_decode 0x30200005 = 6" by (simp add: mb_decode_defs)
  have s1: "mb_plain rom_if no_float ?s = Ok 0 ?s1"
    by (simp add: mb_plain_def mb_fetch_rom slot_program_def slot_program_decoded mb_execute_def mb_INSTRUCTIONS_nth
        always_def branch_families)
  have s2: "mb_plain rom_if no_float ?s1 = Ok 0 ?s2"
    by (simp add: mb_plain_def mb_fetch_rom m slot_program_def slot_program_decoded mb_execute_def mb_INSTRUCTIONS_nth
        always_def ADDI_family)
  have f: "mb_fetch rom_if ?s = Some (0xBE000010, ?s)" "mb_fetch rom_if ?s1 = Some (0x30200005, ?s1)"
    by (simp_all add: mb_fetch_rom m slot_program_def)
  have o: "operand_imm 16 ?s = 16" by (simp add: operand_imm_def IMM_handler_def mb_SignExtend_def)
  have "TARGET ?s2 = 0xffffffff \<and> DSFLAG ?s2 = 1 \<and> (PC ?s2 = 0x110 \<or> mb_decode 0x30200005 \<in> checked_accesses \<and> PC ?s2 = 0x20)"
    by (rule delay_slot[where off = 16 and p = ?p, OF f(1) _ _ _ _ _ _ _ _ _ _ _ s1 f(2) _ s2])
       (simp_all add: branch_condition_def slot_program_decoded condition_holds_def ra_def o d straight_def)
  then show ?thesis using s1 s2 by (auto simp: d checked_accesses_def)
qed

section \<open>The prefix\<close>

lemma and_field: "w AND push_bit n m = push_bit n (drop_bit n w AND (m :: u32))"
  by (intro bit_word_eqI) (auto simp: bit_simps)

lemma decode_IMM:
  assumes "drop_bit 26 w = (0x2c :: u32)"
  shows "mb_decode w = 68"
proof -
  have k: "w AND 0xfc000000 = 0xb0000000" using and_field[of w 26 "0x3f"] by (simp add: assms)
  have "w AND 0x7c000000 = (w AND 0xfc000000) AND 0x7c000000" "w AND 0x80000000 = (w AND 0xfc000000) AND 0x80000000"
    by (simp_all add: and.assoc)
  then show ?thesis by (simp add: k mb_decode_defs)
qed

lemma low_high_or:
  assumes "n \<le> 32"
  shows "(x AND mask n) + push_bit n (y AND mask n) = push_bit n (y AND mask n) OR (x AND mask n :: u32)"
proof -
  have "(x AND mask n) AND push_bit n (y AND mask n) = (0 :: u32)"
    by (intro bit_word_eqI) (auto simp: bit_simps)
  then show ?thesis by (simp add: or.commute disjunctive_add_eq_or)
qed

lemma operand_after_IMM:
  assumes "imm p = hi AND 0xffff" "lo = lo AND 0xffff" "IMMREG t = IMMREG (mb_IMM p s)"
  shows "operand_imm lo t = push_bit 16 (hi AND 0xffff) OR lo"
proof -
  have r: "IMMREG t = (hi AND 0xffff) OR 0x80000000"
    using assms by (simp add: mb_IMM_def Let_def and.assoc)
  have m: "(0xffff::u32) = mask 16" by (simp add: mask_eq_exp_minus_1)
  have top: "push_bit 16 (0x80000000 :: u32) = 0" by simp
  have "((hi AND 0xffff) OR 0x80000000) AND 0x80000000 = (0x80000000::u32)" by (simp add: bit.conj_disj_distrib2 and.assoc)
  then have "operand_imm lo t = lo + push_bit 16 ((hi AND 0xffff) OR 0x80000000)"
    using assms(2) by (simp add: operand_imm_def IMM_handler_def r)
  also have "push_bit 16 ((hi AND 0xffff) OR 0x80000000) = push_bit 16 (hi AND 0xffff)"
    unfolding push_bit_or top by simp
  also have "lo + push_bit 16 (hi AND 0xffff) = push_bit 16 (hi AND 0xffff) OR lo"
    using low_high_or[of 16 lo hi] assms(2) by (simp add: m)
  finally show ?thesis .
qed


text \<open>\<^verbatim>\<open>imm 0x1234\<close> before \<^verbatim>\<open>addik r1, r0, 0x5678\<close>.\<close>

definition prefix_program :: "u32 \<Rightarrow> u32" where
  "prefix_program a = (if a = 0x100 then 0xB0001234 else 0x30205678)"

lemma prefix_program_decoded:
  "mb_decoded 0xB0001234 = (68, \<lparr>rd_bit = 0, ra_bit = 0, rb_bit = 2, imm = 0x1234, imm15 = 0x1234, rs = 0x1234\<rparr>)"
  "mb_decoded 0x30205678 = (6, \<lparr>rd_bit = 1, ra_bit = 0, rb_bit = 10, imm = 0x5678, imm15 = 0x5678, rs = 0x1678\<rparr>)"
  by (simp_all add: decode_word)


section \<open>Instructions on which the machine stays\<close>

lemma plain_step_stays:
  assumes "if_read_word cif (PC s) 0xA 0 0 (MEM s) = Some (w, e, MEM s)"
    and "mb_decode w \<in> {62, 64, 65} \<or> mb_decode w = 48 \<and> MSR_UM (MSR s) = 1"
  shows "\<exists>s'. final_state (mb_plain cif hf s) = Some s' \<and> PC s' = PC s \<and> MSR s' = MSR s \<and> MEM s' = MEM s \<and> GPR s' = GPR s"
  using assms by (auto simp: mb_plain_def mb_fetch_def mb_decoded_def Let_def mb_execute_def mb_INSTRUCTIONS_nth always_def
      mb_FCMP_def mb_FINT_def mb_FSQRT_def mb_BRK_def)

text \<open>(C39) The instructions FINT, FSQRT and FCMP, and a BRK in user mode, are executed for
  ever: after any number of steps the machine is still on them, with the same registers and
  the same memory.\<close>

theorem stays_for_ever:
  assumes "if_read_word cif (PC s) 0xA 0 0 (MEM s) = Some (w, e, MEM s)"
    and "mb_decode w \<in> {62, 64, 65} \<or> mb_decode w = 48 \<and> MSR_UM (MSR s) = 1"
  shows "\<exists>s'. mb_plain_run cif hf n s = Some s' \<and> PC s' = PC s \<and> GPR s' = GPR s \<and> MEM s' = MEM s"
  using assms
proof (induction n arbitrary: s)
  case (Suc n)
  obtain s1 where s1: "final_state (mb_plain cif hf s) = Some s1"
      "PC s1 = PC s" "MSR s1 = MSR s" "MEM s1 = MEM s" "GPR s1 = GPR s"
    using plain_step_stays[OF Suc.prems] by blast
  obtain s' where "mb_plain_run cif hf n s1 = Some s'" "PC s' = PC s" "GPR s' = GPR s" "MEM s' = MEM s"
    using Suc.IH[of s1] Suc.prems s1 by auto
  then show ?case using s1(1) by simp
qed simp

text \<open>\<^verbatim>\<open>fsqrt\<close>, forty thousand times.\<close>

lemma stays_for_ever_witness:
  "\<exists>s'. mb_plain_run rom_if no_float 40000 (mb_sample (\<lambda>_. 0x58000380)) = Some s' \<and> PC s' = 0x100"
proof -
  have d: "mb_decode 0x58000380 = 65" by (simp add: mb_decode_defs)
  have "if_read_word rom_if (PC (mb_sample (\<lambda>_. 0x58000380))) 0xA 0 0 (MEM (mb_sample (\<lambda>_. 0x58000380)))
      = Some (0x58000380, None, MEM (mb_sample (\<lambda>_. 0x58000380)))"
    by (simp add: rom_if_def)
  from stays_for_ever[OF this, of no_float 40000] d show ?thesis by auto
qed

end
