(* ===== verification/Mb_Exceptions.thy ===== *)
theory Mb_Exceptions
  imports Mb_Control_Props
begin

text \<open>
  The exception for an unaligned access, the way back from it with \<^verbatim>\<open>RTED\<close>, and the
  floating-point instructions as C parses their tests.
\<close>

section \<open>Fields that do not disturb each other\<close>

lemma mb_other_fields [simp]:
  "MSR_UM (set_MSR_VM v m) = MSR_UM m" "MSR_UM (set_MSR_VMS v m) = MSR_UM m" "MSR_UM (set_MSR_UMS v m) = MSR_UM m"
  "MSR_UM (set_MSR_EE v m) = MSR_UM m" "MSR_UM (set_MSR_EIP v m) = MSR_UM m"
  "MSR_UMS (set_MSR_VM v m) = MSR_UMS m" "MSR_UMS (set_MSR_VMS v m) = MSR_UMS m" "MSR_UMS (set_MSR_UM v m) = MSR_UMS m"
  "MSR_UMS (set_MSR_EE v m) = MSR_UMS m" "MSR_UMS (set_MSR_EIP v m) = MSR_UMS m"
  "MSR_VMS (set_MSR_VM v m) = MSR_VMS m" "MSR_VMS (set_MSR_UMS v m) = MSR_VMS m" "MSR_VMS (set_MSR_UM v m) = MSR_VMS m"
  "MSR_VMS (set_MSR_EE v m) = MSR_VMS m" "MSR_VMS (set_MSR_EIP v m) = MSR_VMS m"
  "ESR_DS (set_ESR_EC v e) = ESR_DS e" "ESR_DS (set_ESR_W v e) = ESR_DS e" "ESR_DS (set_ESR_S v e) = ESR_DS e"
  "ESR_DS (set_ESR_Rx v e) = ESR_DS e"
  unfolding MSR_UM_def MSR_UMS_def MSR_VMS_def ESR_DS_def set_MSR_VM_def set_MSR_VMS_def set_MSR_UMS_def set_MSR_UM_def
    set_MSR_EE_def set_MSR_EIP_def set_ESR_EC_def set_ESR_W_def set_ESR_S_def set_ESR_Rx_def
  by (simp_all add: bit.conj_disj_distrib2 and.assoc)

section \<open>Unaligned accesses\<close>

lemma and_1_id [simp]: "MSR_UM m AND 1 = MSR_UM m" "MSR_UMS m AND 1 = MSR_UMS m" "MSR_VMS m AND 1 = MSR_VMS m"
  unfolding MSR_UM_def MSR_UMS_def MSR_VMS_def by (intro bit_word_eqI; auto simp: bit_simps)+

definition access_address :: "nat \<Rightarrow> mb_params \<Rightarrow> 'm microblaze \<Rightarrow> u32" where
  "access_address i p s = ra p s + (if even i then operand_imm (imm p) s else rb p s)"

definition unaligned :: "nat \<Rightarrow> u32 \<Rightarrow> bool" where
  "unaligned i addr = (addr AND (if i \<in> {71, 72, 103, 104} then 1 else 3) \<noteq> 0)"

definition unaligned_syndrome :: "nat \<Rightarrow> mb_params \<Rightarrow> u32 \<Rightarrow> u32 \<Rightarrow> u32" where
  "unaligned_syndrome i p ds esr =
     set_ESR_Rx (of_nat (rd_bit p)) (set_ESR_S (if 103 \<le> i then 1 else 0)
       (set_ESR_W (if i \<in> {71, 72, 103, 104} then 0 else 1) (set_ESR_EC 1 (set_ESR_DS ds esr))))"

lemma checked_access_raises:
  assumes "i \<in> checked_accesses" "unaligned i (access_address i p s)"
  shows "mb_execute cif hf i p s = Ok 0 (handleMemoryException (if i \<in> {71, 72, 103, 104} then 0 else 1)
    (if 103 \<le> i then 1 else 0) (of_nat (rd_bit p)) (access_address i p s) (next_pc (IMM_reset s)))"
  using assms unfolding checked_accesses_def
  by (auto simp: mb_execute_def mb_INSTRUCTIONS_nth access_address_def unaligned_def load_store_defs IMM_handler_eq Let_def)

lemma memory_exception_state:
  fixes s :: "'m microblaze"
  defines "t \<equiv> next_pc (IMM_reset s)"
  shows "PC (handleMemoryException w st r addr t) = 0x20" "EAR (handleMemoryException w st r addr t) = addr"
    "MEM (handleMemoryException w st r addr t) = MEM s" "MSR_UM (MSR (handleMemoryException w st r addr t)) = 0"
    "MSR_UMS (MSR (handleMemoryException w st r addr t)) = MSR_UM (MSR s)"
    "MSR_VMS (MSR (handleMemoryException w st r addr t)) = MSR_VMS (MSR s)"
    "GPR (handleMemoryException w st r addr t) = (GPR s)(17 := (if TARGET s = 0xffffffff then PC s + 4 else 0xffffffff))"
    "BTR (handleMemoryException w st r addr t) = (if TARGET s = 0xffffffff then BTR s else TARGET s)"
    "ESR (handleMemoryException w st r addr t) = set_ESR_Rx r (set_ESR_S st (set_ESR_W w (set_ESR_EC 1
       (set_ESR_DS (if TARGET s = 0xffffffff then 0 else 1) (ESR s)))))"
  by (auto simp: handleMemoryException_def handleException_def t_def Let_def)

text \<open>(C17) A load or store of a half word or word at an unaligned address enters the exception
  handler at 0x20 and touches no memory.  EAR holds the address, ESR the kind of access and its
  register, the handler runs in privileged mode with the user bit saved.  R17 holds the address
  of the next instruction; in a delay slot BTR holds the target of the branch and R17 all ones.\<close>

theorem unaligned_access:
  assumes "i \<in> checked_accesses" "unaligned i (access_address i p s)"
  shows "\<exists>t. mb_execute cif hf i p s = Ok 0 t \<and> PC t = 0x20 \<and> MEM t = MEM s \<and> EAR t = access_address i p s \<and>
    ESR t = unaligned_syndrome i p (if TARGET s = 0xffffffff then 0 else 1) (ESR s) \<and>
    MSR_UM (MSR t) = 0 \<and> MSR_UMS (MSR t) = MSR_UM (MSR s) \<and>
    (if TARGET s = 0xffffffff then GPR t = (GPR s)(17 := PC s + 4)
     else GPR t = (GPR s)(17 := 0xffffffff) \<and> BTR t = TARGET s)"
  using checked_access_raises[OF assms] by (simp add: memory_exception_state unaligned_syndrome_def)

text \<open>\<^verbatim>\<open>lwi r2, r0, 2\<close>.\<close>

definition lwi_params :: mb_params where
  "lwi_params = \<lparr>rd_bit = 2, ra_bit = 0, rb_bit = 0, imm = 2, imm15 = 2, rs = 2\<rparr>"

lemma lwi_unaligned:
  "access_address 74 lwi_params (mb_sample m) = 2" "74 \<in> checked_accesses" "unaligned 74 2"
  by (simp_all add: access_address_def lwi_params_def operand_imm_def IMM_handler_def mb_SignExtend_def ra_def
      checked_accesses_def unaligned_def)

lemma unaligned_access_witness:
  "\<exists>t. mb_execute rom_if no_float 74 lwi_params (mb_sample (\<lambda>_. 0)) = Ok 0 t \<and> PC t = 0x20 \<and> EAR t = 2 \<and> GPR t 17 = 0x104"
  using unaligned_access[of 74 lwi_params "mb_sample (\<lambda>_. 0)" rom_if no_float] by (auto simp: lwi_unaligned)

section \<open>The way back\<close>

text \<open>(C18) After the exception for an unaligned access, a handler that keeps MSR, ESR, BTR and
  R17 returns with \<^verbatim>\<open>rted r17, 0\<close>: behind the slot of the return the machine is at the
  instruction after the one that faulted, or at the target of the branch whose slot that
  was, with the user bit it had and a clear ESR.  The VM bit is not restored: it becomes
  MSR[VMS] of before the exception, because the entry does not save it.\<close>

theorem exception_return:
  assumes "i \<in> checked_accesses" "unaligned i (access_address i p s)" "mb_execute cif hf i p s = Ok 0 t"
    and handler: "MSR h = MSR t" "ESR h = ESR t" "BTR h = BTR t" "GPR h 17 = GPR t 17"
    and rted: "ra_bit q = 17" "operand_imm (imm q) h = 0"
    and resume: "resume = (if TARGET s = 0xffffffff then PC s + 4 else TARGET s)" "resume \<noteq> 0xffffffff"
    and slot: "straight j" "mb_execute cif hf j r (mb_RTED q h) = Ok n b"
  shows "MSR_UM (MSR (mb_RTED q h)) = MSR_UM (MSR s) \<and> MSR_VM (MSR (mb_RTED q h)) = MSR_VMS (MSR s) \<and>
    ESR (mb_RTED q h) = 0 \<and> TARGET b = 0xffffffff \<and> (PC b = resume \<or> j \<in> checked_accesses \<and> PC b = 0x20)"
proof -
  have t: "t = handleMemoryException (if i \<in> {71, 72, 103, 104} then 0 else 1) (if 103 \<le> i then 1 else 0)
      (of_nat (rd_bit p)) (access_address i p s) (next_pc (IMM_reset s))"
    using assms(3) checked_access_raises[OF assms(1,2), of cif hf] by simp
  have um: "MSR_UM (MSR h) = 0" and ds: "ESR_DS (ESR h) = (if TARGET s = 0xffffffff then 0 else 1)"
    by (simp_all add: handler t memory_exception_state)
  have target: "TARGET (mb_RTED q h) = resume"
    using um ds rted by (simp add: mb_RTED_def IMM_handler_eq Let_def ra_def resume(1) handler t memory_exception_state)
  have "MSR_UM (MSR (mb_RTED q h)) = MSR_UM (MSR s) \<and> MSR_VM (MSR (mb_RTED q h)) = MSR_VMS (MSR s) \<and> ESR (mb_RTED q h) = 0"
    using um by (simp add: mb_RTED_def IMM_handler_eq Let_def handler t memory_exception_state)
  moreover have "gone_on (j \<in> checked_accesses) (mb_RTED q h) b"
    using slot(2) advances_straight[OF slot(1), of "mb_RTED q h" cif hf r] IMM_goes_on[of "j \<in> checked_accesses" "mb_RTED q h" r]
    by (cases "j = 68") (auto simp: mb_execute_def advances_def mb_INSTRUCTIONS_nth always_def)
  ultimately show ?thesis using target resume(2) by (simp add: gone_on_def)
qed

text \<open>A handler that consists of the return only, with an addition in its slot.\<close>

lemma exception_return_witness:
  "\<exists>t b. mb_execute rom_if no_float 74 lwi_params (mb_sample (\<lambda>_. 0)) = Ok 0 t \<and>
     mb_execute rom_if no_float 0 lwi_params (mb_RTED (lwi_params\<lparr>ra_bit := 17, imm := 0\<rparr>) t) = Ok 0 b \<and> PC b = 0x104"
proof -
  let ?q = "lwi_params\<lparr>ra_bit := 17, imm := 0\<rparr>"
  obtain t where t: "mb_execute rom_if no_float 74 lwi_params (mb_sample (\<lambda>_. 0)) = Ok 0 t"
    using unaligned_access[of 74 lwi_params "mb_sample (\<lambda>_. 0)" rom_if no_float] by (auto simp: lwi_unaligned)
  then have "t = handleMemoryException 1 0 2 2 (next_pc (IMM_reset (mb_sample (\<lambda>_. 0))))"
    using checked_access_raises[of 74 lwi_params "mb_sample (\<lambda>_. 0)" rom_if no_float] by (simp add: lwi_unaligned) (simp add: lwi_params_def)
  then have r: "IMMREG t = 0" by simp
  have b: "mb_execute rom_if no_float 0 lwi_params (mb_RTED ?q t) = Ok 0 (mb_ADD lwi_params (mb_RTED ?q t))"
    by (simp add: mb_execute_def mb_INSTRUCTIONS_nth always_def)
  have "PC (mb_ADD lwi_params (mb_RTED ?q t)) = 0x104 \<or> (0::nat) \<in> checked_accesses \<and> PC (mb_ADD lwi_params (mb_RTED ?q t)) = 0x20"
    using exception_return[of 74 lwi_params "mb_sample (\<lambda>_. 0)" rom_if no_float t t ?q "0x104" 0 lwi_params, OF _ _ t _ _ _ _ _ _ _ _ _ b]
    by (simp add: lwi_unaligned r operand_imm_def IMM_handler_def mb_SignExtend_def straight_def)
  then show ?thesis using t b by (auto simp: checked_accesses_def)
qed

section \<open>Floating point\<close>

text \<open>What the instructions compute: an operand with bit 0 set, or a result with bit 0 set, is
  taken for no number; every other test is false.\<close>

definition float_reference :: "(u32 \<Rightarrow> u32 \<Rightarrow> u32) \<Rightarrow> mb_params \<Rightarrow> 'm microblaze \<Rightarrow> 'm microblaze" where
  "float_reference oper p s =
     (let res = oper (ra p s) (rb p s); s' = next_pc (IMM_reset s)
      in if odd (ra p s) \<or> odd (rb p s) then set_rd p 0xffc00000 s'
         else if odd res then (set_rd p 1 s')\<lparr>FSR := set_FSR_OF 1 (FSR s), ESR := set_ESR_EC 0xc (ESR s)\<rparr>
         else set_rd p res s')"

lemma float_tests:
  "isSigNaN x = False" "isDnz x = False" "isZero x = False" "isInfinite x = False" "isNegInfinite x = False"
  "isPosInfinite x = False" "isQuietNaN x = odd x" "isNaN x = odd x"
  using and_1_cases[of x]
  by (auto simp: isSigNaN_def isQuietNaN_def isDnz_def isNaN_def isZero_def isInfinite_def isNegInfinite_def isPosInfinite_def
      ceq_def cne_def and_one_eq odd_iff_mod_2_eq_one)

lemma odd_and_1: "odd x \<Longrightarrow> x AND 1 = 1" for x :: u32
  by (simp add: and_one_eq odd_iff_mod_2_eq_one)

lemma FSR_simps [simp]: "FSR (next_pc s) = FSR s" "FSR (IMM_reset s) = FSR s" "FSR (set_rd p v s) = FSR s"
  by (simp_all add: next_pc_def IMM_reset_def set_rd_def)

text \<open>(C38) Whatever the host's floating-point operations compute, \<^verbatim>\<open>fadd\<close>, \<^verbatim>\<open>frsub\<close>, \<^verbatim>\<open>fmul\<close> and
  \<^verbatim>\<open>fdiv\<close> are the reference: an operand whose bit 0 is set gives the constant NaN, without a
  flag; a result whose bit 0 is set is replaced by 1 and reported as an overflow; in particular no
  denormal, infinite or zero operand is recognised, and a division by zero raises nothing.\<close>

theorem float_family:
  "mb_execute cif hf 58 p s = Ok 0 (float_reference (float_add hf) p s) \<and>
   mb_execute cif hf 59 p s = Ok 0 (float_reference (\<lambda>a b. float_sub hf b a) p s) \<and>
   mb_execute cif hf 60 p s = Ok 0 (float_reference (\<lambda>a b. float_mul hf b a) p s) \<and>
   mb_execute cif hf 61 p s = Ok 0 (float_reference (\<lambda>a b. float_div hf b a) p s)"
  by (simp add: mb_execute_def mb_INSTRUCTIONS_nth always_def mb_FADD_def mb_FRSUB_def mb_FMUL_def mb_FDIV_def
      float_reference_def float_tests ceq_def odd_and_1 Let_def)

end
