(* ===== verification/Mb_Interface_Props.thy ===== *)
theory Mb_Interface_Props
  imports Mb_Interface Mb_Sample
begin

text \<open>
  Saving and restoring the state of a MicroBlaze, and when its main loop, which keeps an
  instruction cache under the wrong keys, does what the machine without a cache does.
\<close>

section \<open>Saving and restoring\<close>

lemma length_banks [simp]: "length (register_banks s) = 44" "length (special_registers s) = 15"
  by (simp_all add: register_banks_def special_registers_def)

lemma saved_special:
  assumes "length buf = 236" "i < 15"
  shows "load_host 4 (get_state buf s) (4 * i) = special_registers s ! i"
proof -
  have "load_host 4 (get_state buf s) (4 * i) = (load_host 4 (put_words (special_registers s) 0 buf) (4 * i) :: u32)"
    unfolding get_state_def
    by (rule load_host_cong) (use assms in \<open>simp add: put_words_before\<close>)
  then show ?thesis using load_put_words[of i "special_registers s" 0 buf] assms by simp
qed

lemma saved_banks:
  assumes "length buf = 236" "i < 44"
  shows "load_host 4 (get_state buf s) (60 + 4 * i) = register_banks s ! i"
  using load_put_words[of i "register_banks s" 60] assms by (simp add: get_state_def)

lemma saved_flag:
  assumes "length buf = 236"
  shows "get_state buf s ! 60 = ucast (GPR s 0)"
  using saved_banks[OF assms, of 0 s] load_host_low_byte[of "get_state buf s" 60]
  by (simp add: register_banks_def nth_append)

text \<open>(C37) Saving the state in a buffer of 236 bytes and restoring it into any machine
  brings back every register but DSFLAG, which becomes the low byte of r0, because r0 is
  stored over it; when that byte is neither 0 nor 1 the restore reads a \<^verbatim>\<open>bool\<close> that is none.\<close>

theorem state_roundtrip:
  assumes "length buf = 236"
  shows "set_state (get_state buf s) t =
    (if 1 < (ucast (GPR s 0) :: u8) then None
     else Some (s\<lparr>DSFLAG := ucast (ucast (GPR s 0) :: u8), MEM := MEM t,
            GPR := (\<lambda>i. if i < 32 then GPR s i else GPR t i), PVR := (\<lambda>i. if i < 12 then PVR s i else PVR t i)\<rparr>))"
proof -
  let ?w = "\<lambda>off. load_host 4 (get_state buf s) off :: u32"
  have special: "?w (4 * i) = special_registers s ! i" if "i < 15" for i
    using saved_special[OF assms that] .
  have "?w 0 = PC s" "?w 4 = MSR s" "?w 8 = EAR s" "?w 12 = ESR s" "?w 16 = BTR s" "?w 20 = FSR s" "?w 24 = EDR s"
    "?w 28 = PID s" "?w 32 = ZPR s" "?w 36 = TLBLO s" "?w 40 = TLBHI s" "?w 44 = TLBX s" "?w 48 = TLBSX s"
    "?w 52 = IMMREG s" "?w 56 = TARGET s"
    using special[of 0] special[of 1] special[of 2] special[of 3] special[of 4] special[of 5] special[of 6] special[of 7]
      special[of 8] special[of 9] special[of 10] special[of 11] special[of 12] special[of 13] special[of 14]
    by (simp_all add: special_registers_def)
  moreover have "?w (60 + 4 * i) = GPR s i" if "i < 32" for i
    using saved_banks[OF assms, of i s] that by (simp add: register_banks_def nth_append)
  moreover have "?w (188 + 4 * i) = PVR s i" if "i < 12" for i
    using saved_banks[OF assms, of "32 + i" s] that by (simp add: register_banks_def nth_append algebra_simps)
  ultimately show ?thesis
    unfolding set_state_def Let_def saved_flag[OF assms] by (auto simp: fun_eq_iff)
qed

lemma state_roundtrip_witness:
  "set_state (get_state (replicate 236 0) (mb_sample (\<lambda>_. 7))) (mb_constructed (\<lambda>_. 7)) =
     Some (mb_sample (\<lambda>_. 7))"
  by (subst state_roundtrip) (simp_all add: mb_sample_def mb_resetOp_def mb_constructed_def fun_eq_iff)

section \<open>The instruction cache of the main loop\<close>

text \<open>What a run of the machine without the cache visits: program counters and the words
  fetched there.\<close>

primrec mb_visits :: "'m cpu_if \<Rightarrow> host_float \<Rightarrow> nat \<Rightarrow> 'm microblaze \<Rightarrow> (u32 \<times> u32 option) list" where
  "mb_visits cif hf 0 s = []"
| "mb_visits cif hf (Suc n) s = (case mb_fetch cif s of None \<Rightarrow> [(PC s, None)]
     | Some (w, _) \<Rightarrow> (PC s, Some w) # (case final_state (mb_plain cif hf s) of None \<Rightarrow> [] | Some s' \<Rightarrow> mb_visits cif hf n s'))"

text \<open>How often an address is visited, and how often after the word of the same value has
  been fetched.\<close>

primrec visited :: "u32 \<Rightarrow> (u32 \<times> u32 option) list \<Rightarrow> nat" where
  "visited p [] = 0"
| "visited p (v # vs) = of_bool (fst v = p) + visited p vs"

primrec mistaken :: "u32 \<Rightarrow> (u32 \<times> u32 option) list \<Rightarrow> nat" where
  "mistaken p [] = 0"
| "mistaken p (v # vs) = (if snd v = Some p then visited p vs else mistaken p vs)"

lemma visited_le: "visited p vs \<le> length vs"
  by (induction vs) auto

lemma mistaken_le_visited: "mistaken p vs \<le> visited p vs"
  by (induction vs) auto

lemma mistaken_le: "mistaken p vs \<le> length vs - 1"
  using visited_le[of p "tl vs"] mistaken_le_visited[of p "tl vs"] by (cases vs) auto

lemma length_mb_visits: "length (mb_visits cif hf n s) \<le> n"
  by (induction n arbitrary: s) (auto split: option.split)

text \<open>The cache is cold for a list of visits when none of them will find an instruction in it:
  an element takes one on its 256th use.\<close>

definition cold :: "(u32 \<rightharpoonup> cache_elem) \<Rightarrow> (u32 \<times> u32 option) list \<Rightarrow> bool" where
  "cold cache vs = (\<forall>p. case cache p of None \<Rightarrow> mistaken p vs \<le> 256
     | Some e \<Rightarrow> visited p vs = 0 \<or> ce_instr e = None \<and> unat (ce_count e) + visited p vs \<le> 257)"

lemma cold_miss:
  assumes "cold cache ((p, Some w) # vs)"
  shows "cold (if cache w = None then cache(w \<mapsto> CacheElem) else cache) vs"
proof -
  have "case (if cache w = None then cache(w \<mapsto> CacheElem) else cache) q of None \<Rightarrow> mistaken q vs \<le> 256
     | Some e \<Rightarrow> visited q vs = 0 \<or> ce_instr e = None \<and> unat (ce_count e) + visited q vs \<le> 257" for q
    using assms[unfolded cold_def, rule_format, of q]
    by (auto simp: CacheElem_def split: option.splits if_splits)
  then show ?thesis by (simp add: cold_def)
qed

lemma cold_hit:
  assumes "cold cache ((p, w) # vs)" "cache p = Some e"
  shows "ce_instr e = None"
    and "cold (cache(p \<mapsto> (if ce_count e < 256 then e\<lparr>ce_count := ce_count e + 1\<rparr> else e\<lparr>ce_instr := x\<rparr>))) vs"
proof -
  have e: "ce_instr e = None" "unat (ce_count e) + visited p vs \<le> 256"
    using assms(1)[unfolded cold_def, rule_format, of p] assms(2) by auto
  show "ce_instr e = None" by fact
  have step: "unat (ce_count e + 1) = unat (ce_count e) + 1" if "ce_count e < 256"
    using that by (simp add: word_less_nat_alt unat_word_ariths)
  have "case (cache(p \<mapsto> (if ce_count e < 256 then e\<lparr>ce_count := ce_count e + 1\<rparr> else e\<lparr>ce_instr := x\<rparr>))) q of
       None \<Rightarrow> mistaken q vs \<le> 256
     | Some e \<Rightarrow> visited q vs = 0 \<or> ce_instr e = None \<and> unat (ce_count e) + visited q vs \<le> 257" for q
  proof (cases "q = p")
    case True
    then show ?thesis using e step by (auto simp: word_less_nat_alt)
  next
    case False
    then show ?thesis
      using assms(1)[unfolded cold_def, rule_format, of q] mistaken_le_visited[of q vs]
      by (auto split: option.splits if_splits)
  qed
  then show "cold (cache(p \<mapsto> (if ce_count e < 256 then e\<lparr>ce_count := ce_count e + 1\<rparr> else e\<lparr>ce_instr := x\<rparr>))) vs"
    by (simp add: cold_def)
qed

lemma mb_retire_final:
  "mb_retire r cache c = map_option (\<lambda>s. \<lparr>cpu = s, instrCache = cache,
     totalCycles = totalCycles c + ((case r of Ok n s \<Rightarrow> n | _ \<Rightarrow> 0) + 1), numInstructions = numInstructions c + 1\<rparr>)
     (final_state r)"
  by (cases r) (simp_all add: mb_retire_def)

text \<open>One iteration with a cold cache.\<close>

lemma cold_loop:
  assumes "cold (instrCache c) (mb_visits cif hf (Suc n) (cpu c))"
  shows "case mb_loop cif hf c of None \<Rightarrow> final_state (mb_plain cif hf (cpu c)) = None
    | Some c' \<Rightarrow> final_state (mb_plain cif hf (cpu c)) = Some (cpu c') \<and> cold (instrCache c') (mb_visits cif hf n (cpu c'))"
proof -
  obtain w vs where visits: "mb_visits cif hf (Suc n) (cpu c) = (PC (cpu c), w) # vs"
    by (cases "mb_fetch cif (cpu c)") (auto simp: split_beta)
  note cold = assms[unfolded visits]
  have hit: "ce_instr e = None" if "instrCache c (PC (cpu c)) = Some e" for e
    using cold_hit(1)[OF cold that] .
  show ?thesis
  proof (cases "mb_fetch cif (cpu c)")
    case None
    then have "mb_loop cif hf c = None" using hit by (auto simp: mb_loop_def Let_def split: option.split)
    then show ?thesis using None by (simp add: mb_plain_def)
  next
    case (Some f)
    obtain w' s where f: "mb_fetch cif (cpu c) = Some (w', s)" using Some by (cases f) auto
    define r where "r = mb_execute cif hf (fst (mb_decoded w')) (snd (mb_decoded w')) s"
    have plain: "mb_plain cif hf (cpu c) = r" by (simp add: mb_plain_def f r_def split_beta)
    have w: "w = Some w'" and vs: "vs = (case final_state r of None \<Rightarrow> [] | Some s' \<Rightarrow> mb_visits cif hf n s')"
      using visits by (simp_all add: f plain)
    have "\<exists>cache. mb_loop cif hf c = mb_retire r cache c \<and> cold cache vs"
    proof (cases "instrCache c (PC (cpu c))")
      case None
      then show ?thesis using cold_miss[OF cold[unfolded w]] by (auto simp: mb_loop_def f r_def Let_def)
    next
      case (Some e)
      then show ?thesis using cold_hit[OF cold Some] by (auto simp: mb_loop_def f r_def Let_def)
    qed
    then show ?thesis by (cases "final_state r") (auto simp: mb_retire_final plain vs)
  qed
qed

lemma cold_run:
  "cold (instrCache c) (mb_visits cif hf n (cpu c)) \<Longrightarrow> map_option cpu (mb_run cif hf n c) = mb_plain_run cif hf n (cpu c)"
proof (induction n arbitrary: c)
  case (Suc n)
  then show ?case using cold_loop[OF Suc.prems] by (auto split: option.splits)
qed simp

text \<open>(C19) After power-on the main loop, whose cache is filled under instruction words and
  searched by addresses, does what the machine without a cache does, as long as no address
  is visited more than 256 times after its own value has been fetched as an instruction.\<close>

theorem cache_transparent:
  assumes "\<forall>p. mistaken p (mb_visits cif hf n (mb_resetOp entry (mb_constructed m))) \<le> 256"
  shows "map_option cpu (mb_run cif hf n (mb_power_on entry m)) = mb_plain_run cif hf n (mb_resetOp entry (mb_constructed m))"
  using cold_run[of "mb_power_on entry m" cif hf n] assms by (simp add: mb_power_on_def cold_def)

text \<open>In particular for the first 257 instructions of any program.\<close>

lemma cache_transparent_witness:
  "map_option cpu (mb_run rom_if no_float 257 (mb_power_on 0x100 (\<lambda>_. 0x24200005))) =
     mb_plain_run rom_if no_float 257 (mb_resetOp 0x100 (mb_constructed (\<lambda>_. 0x24200005)))"
proof (rule cache_transparent, intro allI)
  fix p
  let ?vs = "mb_visits rom_if no_float 257 (mb_resetOp 0x100 (mb_constructed (\<lambda>_. 0x24200005)))"
  have "mistaken p ?vs \<le> length ?vs - 1" by (rule mistaken_le)
  also have "\<dots> \<le> 256" using length_mb_visits[of rom_if no_float 257] by (simp add: le_diff_conv)
  finally show "mistaken p ?vs \<le> 256" .
qed

end
