(* ===== verification/Apbctrl.thy ===== *)
theory Apbctrl
  imports Ahbctrl_Props Memory Irqmp
begin

text \<open>
  The bridge from the AHB to the APB (src/gaisler/apbctrl/apbctrl.cpp): decoding, the
  plug-and-play area in the last 4 KB, the splitting of a transaction into word accesses, the
  start of the simulation with the check of the memory map; and the socket through which a
  peripheral's register bank is reached (src/amba/apbslave.h).

  A peripheral is reached through its socket, as on the AHB.  A transaction whose data
  are shorter than the four bytes the socket reads or writes is undefined (\<^verbatim>\<open>None\<close>).
\<close>

section \<open>The socket of a register bank\<close>

text \<open>\<^verbatim>\<open>sr_register_amba_socket::b_transport\<close>: the operations of the bank, the base address of the
  device.  The data of a write are left swapped in the buffer of the caller.  The one byte
  write reads four bytes; two and three bytes are fatal.\<close>

definition apb_socket_b_transport ::
    "(u32 \<Rightarrow> u32 \<Rightarrow> 'd \<Rightarrow> 'd) \<Rightarrow> (u32 \<Rightarrow> 'd \<Rightarrow> u32 \<times> 'd) \<Rightarrow> apb_device \<Rightarrow> payload \<Rightarrow> 'd \<Rightarrow> (payload \<times> 'd) option" where
  "apb_socket_b_transport bus_write bus_read dev gp d =
     (let address = ucast (p_address gp) - ucast (get_apb_base_addr dev);
          byteaddr = address AND 3;
          address = address AND NOT 3
      in if length (p_data gp) < 4 \<and> p_command gp \<noteq> Ignore_command then None
         else (case p_command gp of
             Write_command \<Rightarrow>
               (let data = swap_Endianess (host_word (p_data gp));
                    d = bus_write address data d
                in Some (gp\<lparr>p_data := host_bytes data @ drop 4 (p_data gp), p_response := Ok_response\<rparr>, d))
           | Read_command \<Rightarrow>
               (let (data, d) = bus_read address d;
                    data = swap_Endianess data;
                    data = drop_bit (unat (push_bit 3 byteaddr)) data
                in Some (gp\<lparr>p_data := host_bytes data @ drop 4 (p_data gp), p_response := Ok_response\<rparr>, d))
           | Ignore_command \<Rightarrow> Some (gp\<lparr>p_response := Ok_response\<rparr>, d)))"

section \<open>State\<close>

text \<open>\<^verbatim>\<open>mSlaves\<close> has sixteen pointers, which the constructor leaves uninitialised; \<^verbatim>\<open>ap_stats\<close>
  are the byte counters of the base class \<^verbatim>\<open>AHBSlave\<close>.\<close>

record apbctrl =
  ap_device :: ahb_device
  ap_mcheck :: bool
  ap_pow_mon :: bool
  ap_slave_map :: "slave_info omap"
  ap_slave_map_cache :: "u32 \<times> slave_info"
  ap_mSlaves :: "u32 list option list"
  ap_num_of_bindings :: u32
  ap_total_transactions :: u64
  ap_right_transactions :: u64
  ap_dyn_reads :: u64
  ap_dyn_writes :: u64
  ap_stats :: slave_statistics

definition apbctrl_init :: "u32 \<Rightarrow> u32 \<Rightarrow> bool \<Rightarrow> u32 \<Rightarrow> bool \<Rightarrow> apbctrl option" where
  "apbctrl_init haddr hmask mcheck hindex pow_mon =
     (if haddr > 0xfff \<or> hmask > 0xfff then None else Some
     \<lparr>ap_device = \<lparr>g_hindex = hindex, g_hvendorid = 0x01, g_hdeviceid = 0x006, g_hversion = 0, g_hirq = 0,
        g_bar0 = \<lparr>b_haddr = haddr, b_hmask = hmask, b_htype = 2, b_hcacheable = False, b_hprefetchable = False\<rparr>,
        g_bar1 = \<lparr>b_haddr = 0, b_hmask = 0, b_htype = 0, b_hcacheable = False, b_hprefetchable = False\<rparr>,
        g_bar2 = \<lparr>b_haddr = 0, b_hmask = 0, b_htype = 0, b_hcacheable = False, b_hprefetchable = False\<rparr>,
        g_bar3 = \<lparr>b_haddr = 0, b_hmask = 0, b_htype = 0, b_hcacheable = False, b_hprefetchable = False\<rparr>\<rparr>,
      ap_mcheck = mcheck, ap_pow_mon = pow_mon, ap_slave_map = [], ap_slave_map_cache = bogus_entry,
      ap_mSlaves = replicate 16 None, ap_num_of_bindings = 0,
      ap_total_transactions = 0, ap_right_transactions = 0, ap_dyn_reads = 0, ap_dyn_writes = 0,
      ap_stats = \<lparr>ss_reads = 0, ss_writes = 0\<rparr>\<rparr>)"

definition apb_setAddressMap :: "u32 \<Rightarrow> u32 \<Rightarrow> u32 \<Rightarrow> u32 \<Rightarrow> apbctrl \<Rightarrow> apbctrl" where
  "apb_setAddressMap binding pindex paddr pmask c =
     c\<lparr>ap_slave_map := omap_insert paddr \<lparr>si_index = pindex, si_mask = pmask, si_binding = binding\<rparr> (ap_slave_map c)\<rparr>"

definition apb_segment :: "u32 \<Rightarrow> u32" where
  "apb_segment address = drop_bit 8 address AND 0xfff"

definition apb_get_index :: "u32 \<Rightarrow> apbctrl \<Rightarrow> (int \<times> apbctrl) option" where
  "apb_get_index address c =
     (case cached_lookup (apb_segment address) (ap_slave_map_cache c) (ap_slave_map c) of
        None \<Rightarrow> None
      | Some (Some e, cache) \<Rightarrow>
          Some (sint (si_binding (snd e)),
            c\<lparr>ap_slave_map_cache := cache, ap_right_transactions := ap_right_transactions c + 1\<rparr>)
      | Some (None, cache) \<Rightarrow> Some (-1, c\<lparr>ap_slave_map_cache := cache\<rparr>))"

section \<open>The plug-and-play area\<close>

definition m_pnpbase :: u32 where
  "m_pnpbase = 0xFF000"

definition apb_getPNPReg :: "u32 \<Rightarrow> apbctrl \<Rightarrow> (u32 \<times> apbctrl) option" where
  "apb_getPNPReg address c =
     (let addr = address - (get_ahb_bar_addr (ap_device c) 0 + m_pnpbase);
          device = drop_bit 1 (drop_bit 2 addr);
          offset = drop_bit 2 addr AND 1
      in if device < 16
         then (case ap_mSlaves c ! unat device of
                 None \<Rightarrow> None
               | Some info \<Rightarrow> Some (swap_Endianess (info ! unat offset),
                   c\<lparr>ap_right_transactions := ap_right_transactions c + 1\<rparr>))
         else Some (0, c))"

fun apb_pnp_bytes :: "u32 \<Rightarrow> nat \<Rightarrow> apbctrl \<Rightarrow> (u8 list \<times> apbctrl) option" where
  "apb_pnp_bytes addr 0 c = Some ([], c)"
| "apb_pnp_bytes addr (Suc n) c =
     (case apb_getPNPReg addr c of
        None \<Rightarrow> None
      | Some (reg, c) \<Rightarrow>
          map_option (\<lambda>(ds, c). (host_bytes reg ! unat (addr AND 3) # ds, c)) (apb_pnp_bytes (addr + 1) n c))"

section \<open>Transport\<close>

type_synonym 'w apb_slaves = "nat \<Rightarrow> payload \<Rightarrow> 'w \<Rightarrow> (payload \<times> 'w) option"

definition apb_power :: "payload \<Rightarrow> apbctrl \<Rightarrow> apbctrl" where
  "apb_power gp c =
     (if ap_pow_mon c
      then if p_command gp = Read_command
           then c\<lparr>ap_dyn_reads := ap_dyn_reads c + ucast (drop_bit 2 (p_length gp) + 1)\<rparr>
           else c\<lparr>ap_dyn_writes := ap_dyn_writes c + ucast (drop_bit 2 (p_length gp) + 1)\<rparr>
      else c)"

text \<open>The loop over the words of a transaction \<^verbatim>\<open>gp\<close>, from the byte \<^verbatim>\<open>i\<close> on: \<^verbatim>\<open>data\<close> is the buffer
  from there on.  The last word of a transaction that is longer than a word and no multiple
  of it runs past the buffer.  The result has the cycles, the buffer and the response.\<close>

function apb_accesses ::
    "'w apb_slaves \<Rightarrow> bool \<Rightarrow> payload \<Rightarrow> u32 \<Rightarrow> u8 list \<Rightarrow> tlm_response \<Rightarrow> apbctrl \<Rightarrow> 'w
      \<Rightarrow> (u32 \<times> u8 list \<times> tlm_response \<times> apbctrl \<times> 'w) option" where
  "apb_accesses slaves debug gp i data response c w =
     (if data = [] then Some (0, [], response, c, w)
      else case apb_get_index (ucast (p_address gp) + i) c of
          None \<Rightarrow> None
        | Some (index, c) \<Rightarrow>
            (if index \<ge> 0 \<and> length data < 4 \<and> 4 < length (p_data gp) then None
             else if index \<ge> 0
             then (case slaves (nat index)
                       (gp\<lparr>p_address := ucast ((ucast (p_address gp) AND 0x000fffff) + i), p_data := take 4 data,
                           p_response := Incomplete_response\<rparr>) w of
                     None \<Rightarrow> None
                   | Some (apb_gp, w) \<Rightarrow>
                       map_option (\<lambda>(cycles, ds, resp, c, w). ((if debug then 0 else 1) + cycles, p_data apb_gp @ ds, resp, c, w))
                         (apb_accesses slaves debug gp (i + 4) (drop 4 data) (p_response apb_gp)
                            (if debug then c else apb_power gp c) w))
             else map_option (\<lambda>(cycles, ds, resp, c, w). (cycles, take 4 data @ ds, resp, c, w))
                    (apb_accesses slaves debug gp (i + 4) (drop 4 data) Address_error_response c w)))"
  by pat_completeness auto
termination by (relation "measure (\<lambda>(_, _, _, _, data, _). length data)") auto

declare apb_accesses.simps [simp del]

definition apbctrl_exec_func ::
    "'w apb_slaves \<Rightarrow> bool \<Rightarrow> payload \<Rightarrow> apbctrl \<times> 'w \<Rightarrow> (u32 \<times> payload \<times> (apbctrl \<times> 'w)) option" where
  "apbctrl_exec_func slaves debug gp s =
     (let (c, w) = s;
          c = c\<lparr>ap_total_transactions := ap_total_transactions c + 1, ap_stats := slave_transport_statistics gp (ap_stats c)\<rparr>;
          addr = ucast (p_address gp)
      in if (addr XOR m_pnpbase) AND m_pnpbase = 0
         then (if p_command gp = Read_command
               then map_option (\<lambda>(ds, c). (p_length gp, gp\<lparr>p_data := ds, p_response := Ok_response\<rparr>, (c, w)))
                      (apb_pnp_bytes addr (length (p_data gp)) c)
               else Some (0, gp\<lparr>p_response := Command_error_response\<rparr>, (c, w)))
         else map_option (\<lambda>(cycles, ds, resp, c, w). (cycles, gp\<lparr>p_data := ds, p_response := resp\<rparr>, (c, w)))
                (apb_accesses slaves debug gp 0 (p_data gp) (p_response gp) c w))"

text \<open>\<^verbatim>\<open>AHBSlave::b_transport\<close> around it, which counts the bytes once more; bar 0 is never
  cacheable.\<close>

definition apbctrl_b_transport ::
    "'w apb_slaves \<Rightarrow> payload \<Rightarrow> apbctrl \<times> 'w \<Rightarrow> (u32 \<times> payload \<times> (apbctrl \<times> 'w)) option" where
  "apbctrl_b_transport slaves gp s =
     (let (c, w) = s
      in apbctrl_exec_func slaves False gp (c\<lparr>ap_stats := slave_transport_statistics gp (ap_stats c)\<rparr>, w))"

section \<open>Start of the simulation\<close>

definition apb_bind :: "nat \<Rightarrow> apb_device \<Rightarrow> apbctrl \<Rightarrow> apbctrl" where
  "apb_bind i d c =
     (let c = c\<lparr>ap_mSlaves := (ap_mSlaves c)[unat (g_pindex d) := Some (get_apb_device_info d)]\<rparr>
      in if get_apb_type d \<noteq> 0 then apb_setAddressMap (of_nat i) (g_pindex d) (get_apb_base d) (get_apb_mask d) c
         else c)"

fun apb_bind_all :: "nat \<Rightarrow> apb_device list \<Rightarrow> apbctrl \<Rightarrow> apbctrl option" where
  "apb_bind_all i [] c = Some c"
| "apb_bind_all i (d # ds) c = (if g_pindex d < 16 then apb_bind_all (i + 1) ds (apb_bind i d c) else None)"

text \<open>The check reports the bus indices of overlapping slaves; it looks them up among the
  bindings, which is undefined for an index that is none.\<close>

definition apb_checkMemMap :: "apbctrl \<Rightarrow> (u32 \<times> u32) list option" where
  "apb_checkMemMap c =
     (let reports = check_map 12 si_index (ap_slave_map c)
      in if list_all (\<lambda>(i, j). i < ap_num_of_bindings c \<and> j < ap_num_of_bindings c) reports then Some reports else None)"

definition apb_start_of_simulation :: "apb_device list \<Rightarrow> apbctrl \<Rightarrow> ((u32 \<times> u32) list \<times> apbctrl) option" where
  "apb_start_of_simulation slaves c =
     (let c = c\<lparr>ap_num_of_bindings := of_nat (length slaves)\<rparr>
      in if length slaves \<le> 16
         then (case apb_bind_all 0 slaves c of
                 None \<Rightarrow> None
               | Some c \<Rightarrow> if ap_mcheck c then map_option (\<lambda>r. (r, c)) (apb_checkMemMap c) else Some ([], c))
         else None)"

end
