(* ===== verification/Apb_Props.thy ===== *)
theory Apb_Props
  imports Apbctrl
begin

text \<open>
  The two buses and the register banks behind them: for a bus master, every aligned word
  of a peripheral's area is a register of its bank.
\<close>

section \<open>Decoding\<close>

definition apb_wf :: "apbctrl \<Rightarrow> bool" where
  "apb_wf c = (slave_map_wf (ap_slave_map c) \<and> cache_wf (ap_slave_map_cache c) (ap_slave_map c))"

definition peripheral_of :: "u32 \<times> slave_info \<Rightarrow> int" where
  "peripheral_of e = sint (si_binding (snd e))"

lemma apb_segment_12_bits: "apb_segment a \<le> 0xFFF"
  by (simp add: apb_segment_def word_and_le1)

lemma apb_get_index_decodes:
  assumes "apb_wf c" and "decodable (apb_segment a) (ap_slave_map c)"
  shows "\<exists>c'. apb_get_index a c =
      Some (case matching (apb_segment a) (ap_slave_map c) of Some e \<Rightarrow> peripheral_of e | None \<Rightarrow> -1, c') \<and>
    apb_wf c' \<and> ap_slave_map c' = ap_slave_map c"
  using cached_lookup_correct[of "ap_slave_map c" "ap_slave_map_cache c" "apb_segment a"] assms apb_segment_12_bits[of a]
  by (auto simp: apb_get_index_def apb_wf_def peripheral_of_def Let_def split: option.splits)

interpretation apb_decoder: address_decoder apb_get_index apb_wf ap_slave_map apb_segment peripheral_of
  by unfold_locales (rule apb_get_index_decodes)

section \<open>Peripherals\<close>

text \<open>The sockets of the peripherals: each has its device record and its own state, the
  operations of the banks are given.\<close>

record 'd register_slave =
  rs_device :: apb_device
  rs_state :: 'd

definition register_sockets ::
    "(u32 \<Rightarrow> u32 \<Rightarrow> 'd \<Rightarrow> 'd) \<Rightarrow> (u32 \<Rightarrow> 'd \<Rightarrow> u32 \<times> 'd) \<Rightarrow> 'd register_slave list apb_slaves" where
  "register_sockets bus_write bus_read k gp w =
     (if k < length w
      then map_option (\<lambda>(gp, d). (gp, w[k := (w ! k)\<lparr>rs_state := d\<rparr>]))
             (apb_socket_b_transport bus_write bus_read (rs_device (w ! k)) gp (rs_state (w ! k)))
      else None)"

definition device_fits :: "u32 \<times> slave_info \<Rightarrow> 'd register_slave \<Rightarrow> bool" where
  "device_fits e sl = (get_apb_base (rs_device sl) = fst e \<and> get_apb_mask (rs_device sl) = si_mask (snd e))"

definition peripherals_wf :: "apbctrl \<Rightarrow> 'd register_slave list \<Rightarrow> bool" where
  "peripherals_wf c w =
     (apb_wf c \<and> (\<forall>e \<in> set (ap_slave_map c). 0 \<le> peripheral_of e \<and> nat (peripheral_of e) < length w \<and>
        device_fits e (w ! nat (peripheral_of e))))"

text \<open>An aligned word outside the plug-and-play area that belongs to a peripheral.\<close>

definition register_word :: "slave_info omap \<Rightarrow> u32 \<Rightarrow> bool" where
  "register_word m a = (a AND 3 = 0 \<and> (a XOR m_pnpbase) AND m_pnpbase \<noteq> 0 \<and> matching (apb_segment a) m \<noteq> None)"

text \<open>The peripheral and the offset in its bank.\<close>

definition register_at :: "slave_info omap \<Rightarrow> u32 \<Rightarrow> nat \<times> u32" where
  "register_at m a =
     (let e = the (matching (apb_segment a) m) in (nat (peripheral_of e), (a AND 0xfffff) - push_bit 8 (fst e)))"

section \<open>One access\<close>

lemma host_word_bytes: "host_word (host_bytes v) = v"
proof (rule bit_word_eqI)
  fix n assume "n < LENGTH(32)"
  then show "bit (host_word (host_bytes v)) n = bit v n"
    unfolding host_word_def host_bytes_def
    by (cases "n < 8"; cases "n < 16"; cases "n < 24") (auto simp: bit_simps not_less)
qed

lemma swap_swap: "swap_Endianess (swap_Endianess v) = v"
proof -
  have "host_bytes (swap_Endianess (swap_Endianess v)) = host_bytes v" by (simp add: host_bytes_swap)
  then show ?thesis using host_word_bytes by metis
qed

text \<open>The bytes of a word as the processor sends them: the most significant first.\<close>

definition big_endian :: "u32 \<Rightarrow> u8 list" where
  "big_endian v = rev (host_bytes v)"

lemma big_endian_bytes: "host_bytes (swap_Endianess v) = big_endian v"
  by (simp add: big_endian_def host_bytes_swap)

lemma host_word_big_endian: "swap_Endianess (host_word (big_endian v)) = v"
  by (simp add: host_word_bytes swap_swap flip: big_endian_bytes)

lemma length_big_endian [simp]: "length (big_endian v) = 4"
  by (simp add: big_endian_def)

definition word_transaction :: "tlm_command \<Rightarrow> u32 \<Rightarrow> u8 list \<Rightarrow> payload" where
  "word_transaction cmd a d = \<lparr>p_command = cmd, p_address = ucast a, p_data = d, p_response = Incomplete_response,
     p_dmi = False, p_cacheable = False, p_lock = False, p_erase = False\<rparr>"

lemma word_transaction_simps [simp]:
  "p_command (word_transaction cmd a d) = cmd" "p_address (word_transaction cmd a d) = ucast a"
  "p_data (word_transaction cmd a d) = d" "p_lock (word_transaction cmd a d) = False"
  by (simp_all add: word_transaction_def)

text \<open>The socket of the peripheral computes the offset from the address without the upper
  twelve bits.\<close>

lemma word_aligned:
  assumes "x AND 3 = (0 :: u32)"
  shows "x = 4 * drop_bit 2 x" and "push_bit 3 x AND 24 = 0"
proof -
  have "take_bit 2 x = 0" using assms by (simp add: take_bit_eq_mask mask_eq_exp_minus_1)
  then have "push_bit 2 (drop_bit 2 x) = x" using bits_ident[of 2 x] by simp
  then show "x = 4 * drop_bit 2 x" by (simp add: push_bit_eq_mult ac_simps)
  have "push_bit 3 x AND 24 = push_bit 3 (x AND 3)" unfolding push_bit_and by simp
  then show "push_bit 3 x AND 24 = 0" using assms by simp
qed

lemma aligned_multiple: "(4 * x) AND 3 = (0 :: u32)"
proof -
  have "(4 * x) AND 3 = take_bit 2 (push_bit 2 x)"
    by (simp add: take_bit_eq_mask mask_eq_exp_minus_1 push_bit_eq_mult ac_simps)
  also have "\<dots> = 0" by (intro bit_word_eqI) (auto simp: bit_simps)
  finally show ?thesis .
qed

lemma aligned_offset:
  assumes "a AND 3 = (0 :: u32)"
  shows "((a AND 0xfffff) - push_bit 8 b) AND 3 = 0"
    and "((a AND 0xfffff) - push_bit 8 b) AND NOT 3 = (a AND 0xfffff) - push_bit 8 b"
    and "push_bit 3 ((a AND 0xfffff) - push_bit 8 b) AND 24 = 0"
proof -
  have "(a AND 0xfffff) AND 3 = (a AND 3) AND 0xfffff" by (simp add: ac_simps)
  then have "a AND 0xfffff = 4 * drop_bit 2 (a AND 0xfffff)" using assms by (intro word_aligned(1)) simp
  moreover have "push_bit 8 b = 4 * (64 * b)" by (simp add: push_bit_eq_mult ac_simps)
  ultimately have "(a AND 0xfffff) - push_bit 8 b = 4 * (drop_bit 2 (a AND 0xfffff) - 64 * b)"
    by (metis right_diff_distrib)
  then show *: "((a AND 0xfffff) - push_bit 8 b) AND 3 = 0" by (simp only: aligned_multiple)
  show "((a AND 0xfffff) - push_bit 8 b) AND NOT 3 = (a AND 0xfffff) - push_bit 8 b"
    using split_mask[of "(a AND 0xfffff) - push_bit 8 b" 3] * by simp
  show "push_bit 3 ((a AND 0xfffff) - push_bit 8 b) AND 24 = 0" using * by (rule word_aligned(2))
qed

lemma socket_offset:
  assumes "device_fits e sl" and "entry_wf e"
  shows "ucast (ucast (x :: u32) :: u64) - ucast (get_apb_base_addr (rs_device sl)) = x - push_bit 8 (fst e)"
  using assms by (simp add: device_fits_def entry_wf_def get_apb_base_addr_def)

text \<open>What the socket does with a word.\<close>

lemma socket_word:
  assumes "device_fits e sl" and "entry_wf e" and "a AND 3 = 0"
    and "p_address gp = ucast ((a AND 0xfffff) + 0)" and "length (p_data gp) = 4"
  defines "off \<equiv> (a AND 0xfffff) - push_bit 8 (fst e)"
  shows "p_command gp = Write_command \<Longrightarrow> p_data gp = big_endian v \<Longrightarrow>
      apb_socket_b_transport bw br (rs_device sl) gp d = Some (gp\<lparr>p_data := host_bytes v, p_response := Ok_response\<rparr>, bw off v d)"
    and "p_command gp = Read_command \<Longrightarrow>
      apb_socket_b_transport bw br (rs_device sl) gp d =
        Some (gp\<lparr>p_data := big_endian (fst (br off d)), p_response := Ok_response\<rparr>, snd (br off d))"
  using assms socket_offset[OF assms(1,2), of "a AND 0xfffff"] aligned_offset[OF assms(3), of "fst e"]
  by (simp_all add: apb_socket_b_transport_def host_word_big_endian big_endian_bytes split_beta Let_def)

section \<open>Through the bridge\<close>

text \<open>An operation of a master on a register, and what it does to the peripherals: the value
  read, and their states.\<close>

datatype register_op = Reg_write u32 u32 | Reg_read u32

primrec op_address :: "register_op \<Rightarrow> u32" where
  "op_address (Reg_write a v) = a"
| "op_address (Reg_read a) = a"

primrec op_transaction :: "register_op \<Rightarrow> payload" where
  "op_transaction (Reg_write a v) = word_transaction Write_command a (big_endian v)"
| "op_transaction (Reg_read a) = word_transaction Read_command a [0, 0, 0, 0]"

definition register_do ::
    "(u32 \<Rightarrow> u32 \<Rightarrow> 'd \<Rightarrow> 'd) \<Rightarrow> (u32 \<Rightarrow> 'd \<Rightarrow> u32 \<times> 'd) \<Rightarrow> slave_info omap \<Rightarrow> register_op
      \<Rightarrow> 'd register_slave list \<Rightarrow> u32 \<times> 'd register_slave list" where
  "register_do bw br m oper w =
     (let (k, off) = register_at m (op_address oper); sl = w ! k
      in case oper of
          Reg_write a v \<Rightarrow> (v, w[k := sl\<lparr>rs_state := bw off v (rs_state sl)\<rparr>])
        | Reg_read a \<Rightarrow> (fst (br off (rs_state sl)), w[k := sl\<lparr>rs_state := snd (br off (rs_state sl))\<rparr>]))"

lemma op_transaction_simps [simp]:
  "p_address (op_transaction oper) = ucast (op_address oper)" "length (p_data (op_transaction oper)) = 4"
  by (cases oper; simp)+

definition op_data :: "register_op \<Rightarrow> u32 \<Rightarrow> u8 list" where
  "op_data oper v = (case oper of Reg_write _ _ \<Rightarrow> host_bytes v | Reg_read _ \<Rightarrow> big_endian v)"

lemma peripherals_wf_keeps:
  assumes "peripherals_wf c w" and "apb_wf c'" and "ap_slave_map c' = ap_slave_map c"
  shows "peripherals_wf c' (w[k := (w ! k)\<lparr>rs_state := d\<rparr>])"
proof -
  have "rs_device (w[k := (w ! k)\<lparr>rs_state := d\<rparr>] ! j) = rs_device (w ! j)" for j
    by (cases "k < length w"; cases "j = k") (simp_all add: not_less list_update_beyond)
  then show ?thesis using assms by (simp add: peripherals_wf_def device_fits_def)
qed

lemma bridge_word:
  assumes "peripherals_wf c w" and "register_word (ap_slave_map c) (op_address oper)"
  shows "\<exists>c'. apbctrl_b_transport (register_sockets bw br) (op_transaction oper) (c, w) =
      (let (v, w') = register_do bw br (ap_slave_map c) oper w
       in Some (1, (op_transaction oper)\<lparr>p_data := op_data oper v, p_response := Ok_response\<rparr>, (c', w'))) \<and>
      ap_slave_map c' = ap_slave_map c \<and> peripherals_wf c' (snd (register_do bw br (ap_slave_map c) oper w))"
proof -
  let ?a = "op_address oper" and ?gp = "op_transaction oper" and ?m = "ap_slave_map c"
  obtain e where e: "matching (apb_segment ?a) ?m = Some e" using assms(2) by (auto simp: register_word_def)
  have map_wf: "slave_map_wf ?m" using assms(1) by (simp add: peripherals_wf_def apb_wf_def)
  have em: "e \<in> set ?m" "region_hit (apb_segment ?a) e" "entry_wf e"
    using e matching_Some[OF map_wf] map_wf by (auto simp: slave_map_wf_def list_all_iff)
  let ?k = "nat (peripheral_of e)" and ?off = "(?a AND 0xfffff) - push_bit 8 (fst e)"
  have fits: "0 \<le> peripheral_of e" "?k < length w" "device_fits e (w ! ?k)"
    using assms(1) em(1) by (auto simp: peripherals_wf_def)
  have a: "?a AND 3 = 0" "(?a XOR m_pnpbase) AND m_pnpbase \<noteq> 0" using assms(2) by (simp_all add: register_word_def)
  have "fst e \<le> apb_segment ?a"
    using em(2) unfolding hit_aligned[OF em(3)] by (metis word_and_le2)
  then have dec: "decodable (apb_segment ?a) ?m" using em(1) by (auto simp: decodable_def)
  define c1 where "c1 = c\<lparr>ap_total_transactions := ap_total_transactions c + 1,
    ap_stats := slave_transport_statistics ?gp (slave_transport_statistics ?gp (ap_stats c))\<rparr>"
  have c1: "apb_wf c1" "ap_slave_map c1 = ?m" using assms(1) by (simp_all add: c1_def peripherals_wf_def apb_wf_def)
  obtain c2 where c2: "apb_get_index ?a c1 = Some (peripheral_of e, c2)" "apb_wf c2" "ap_slave_map c2 = ?m"
    using apb_get_index_decodes[OF c1(1), of ?a] dec e by (auto simp: c1(2))
  let ?sl = "w ! ?k" and ?agp = "?gp\<lparr>p_address := ucast ((?a AND 0xfffff) + 0), p_response := Incomplete_response\<rparr>"
  have reg: "register_at ?m ?a = (?k, ?off)" by (simp add: register_at_def e)
  have len: "length (p_data ?gp) = 4" "p_data ?gp \<noteq> []" using op_transaction_simps(2)[of oper] by force+
  have nil: "apb_accesses sl db gp i [] r x y = Some (0, [], r, x, y)" for sl db gp i r x y
    by (simp add: apb_accesses.simps)
  obtain v w' where dn: "register_do bw br ?m oper w = (v, w')" by (cases "register_do bw br ?m oper w")
  have socket: "register_sockets bw br ?k ?agp w = Some (?agp\<lparr>p_data := op_data oper v, p_response := Ok_response\<rparr>, w')"
    using socket_word(1)[OF fits(3) em(3) a(1), where gp = ?agp and v = v and bw = bw and br = br and d = "rs_state ?sl"]
      socket_word(2)[OF fits(3) em(3) a(1), where gp = ?agp and bw = bw and br = br and d = "rs_state ?sl"] fits(2) dn reg
    by (cases oper) (auto simp: register_sockets_def register_do_def op_data_def Let_def)
  obtain c3 where c3: "c3 = apb_power ?gp c2" "apb_wf c3" "ap_slave_map c3 = ?m"
    using c2(2,3) by (simp add: apb_power_def apb_wf_def)
  have "apb_accesses (register_sockets bw br) False ?gp 0 (p_data ?gp) r c1 w =
      Some (1, op_data oper v, Ok_response, c3, w')" for r
    using c2 fits(1) socket len by (subst apb_accesses.simps) (simp add: nil c3(1))
  then have "apbctrl_b_transport (register_sockets bw br) ?gp (c, w) =
      Some (1, ?gp\<lparr>p_data := op_data oper v, p_response := Ok_response\<rparr>, (c3, w'))"
    using a(2) by (simp add: apbctrl_b_transport_def apbctrl_exec_func_def Let_def c1_def)
  moreover have "peripherals_wf c3 w'"
    using peripherals_wf_keeps[OF assms(1) c3(2,3)] dn reg
    by (cases oper) (auto simp: register_do_def Let_def)
  ultimately show ?thesis using c3(3) dn by auto
qed

section \<open>Both buses\<close>

text \<open>The AHB with the bridge as its slave number \<^verbatim>\<open>b\<close>.\<close>

definition bridge_slave ::
    "(u32 \<Rightarrow> u32 \<Rightarrow> 'd \<Rightarrow> 'd) \<Rightarrow> (u32 \<Rightarrow> 'd \<Rightarrow> u32 \<times> 'd) \<Rightarrow> nat \<Rightarrow> (apbctrl \<times> 'd register_slave list) slaves" where
  "bridge_slave bw br b i gp s = (if i = b then apbctrl_b_transport (register_sockets bw br) gp s else None)"

text \<open>Register accesses by several masters, one after the other: the data and the response each
  of them gets.\<close>

primrec master_run ::
    "'w slaves \<Rightarrow> (u32 \<times> register_op) list \<Rightarrow> ahbctrl \<Rightarrow> 'w \<Rightarrow> ((u8 list \<times> tlm_response) list \<times> 'w) option" where
  "master_run slaves [] ca s = Some ([], s)"
| "master_run slaves (x # xs) ca s =
     (case ahb_b_transport slaves (fst x) (op_transaction (snd x)) 0 ca s of
        None \<Rightarrow> None
      | Some (_, gp, _, ca, s) \<Rightarrow>
          map_option (\<lambda>(rs, s). ((p_data gp, p_response gp) # rs, s)) (master_run slaves xs ca s))"

text \<open>The same accesses as operations of the banks.\<close>

primrec registers_run ::
    "(u32 \<Rightarrow> u32 \<Rightarrow> 'd \<Rightarrow> 'd) \<Rightarrow> (u32 \<Rightarrow> 'd \<Rightarrow> u32 \<times> 'd) \<Rightarrow> slave_info omap \<Rightarrow> (u32 \<times> register_op) list
      \<Rightarrow> 'd register_slave list \<Rightarrow> (u8 list \<times> tlm_response) list \<times> 'd register_slave list" where
  "registers_run bw br m [] w = ([], w)"
| "registers_run bw br m (x # xs) w =
     (let (v, w) = register_do bw br m (snd x) w; (rs, w) = registers_run bw br m xs w
      in ((op_data (snd x) v, Ok_response) # rs, w))"

definition bridge_access :: "nat \<Rightarrow> ahbctrl \<Rightarrow> slave_info omap \<Rightarrow> u32 \<Rightarrow> bool" where
  "bridge_access b ca m a =
     (\<not> is_pnp ca a \<and> map_option slave_of (matching (drop_bit 20 a) (slave_map ca)) = Some (int b) \<and> register_word m a)"

lemma bus_word:
  assumes "decoder_wf ca" and "peripherals_wf c w" and "bridge_access b ca (ap_slave_map c) (op_address oper)"
    and r: "register_do bw br (ap_slave_map c) oper w = (v, w')"
  shows "\<exists>t gp sn ca' c'. ahb_b_transport (bridge_slave bw br b) master (op_transaction oper) 0 ca (c, w) =
      Some (t, gp, sn, ca', (c', w')) \<and> p_data gp = op_data oper v \<and> p_response gp = Ok_response \<and>
      decoder_wf ca' \<and> slave_map ca' = slave_map ca \<and> is_pnp ca' = is_pnp ca \<and>
      peripherals_wf c' w' \<and> ap_slave_map c' = ap_slave_map c"
proof -
  let ?gp = "op_transaction oper" and ?a = "op_address oper"
  let ?ca = "transport_statistics ?gp (ca\<lparr>busy := True, is_lock := p_lock ?gp, lock_master := master\<rparr>)"
  have keep: "decoder_wf ?ca" "slave_map ?ca = slave_map ca" "is_pnp ?ca = is_pnp ca"
    using assms(1)
    by (auto simp: transport_statistics_def decoder_wf_def is_pnp_def pnp_base_def pnp_mask_def fun_eq_iff
        split: tlm_command.splits)
  obtain e where e: "matching (drop_bit 20 ?a) (slave_map ca) = Some e" "slave_of e = int b"
    using assms(3) by (auto simp: bridge_access_def)
  have map_wf: "slave_map_wf (slave_map ca)" using assms(1) by (simp add: decoder_wf_def)
  have em: "e \<in> set (slave_map ca)" "region_hit (drop_bit 20 ?a) e" "entry_wf e"
    using e(1) matching_Some[OF map_wf] map_wf by (auto simp: slave_map_wf_def list_all_iff)
  have "fst e \<le> drop_bit 20 ?a"
    using em(2) unfolding hit_aligned[OF em(3)] by (metis word_and_le2)
  then have dec: "decodable (drop_bit 20 ?a) (slave_map ?ca)" using em(1) keep(2) by (auto simp: decodable_def)
  obtain ca' where ca': "get_index ?a ?ca = Some (int b, ca')" "decoder_wf ca'" "slave_map ca' = slave_map ca"
    using get_index_decodes[OF keep(1) dec] e keep(2) by auto
  have "is_pnp ca' = is_pnp ?ca"
    using ca'(1) by (auto simp: get_index_def Let_def is_pnp_def pnp_base_def pnp_mask_def fun_eq_iff split: option.splits)
  then have pnp: "is_pnp ca' = is_pnp ca" using keep(3) by simp
  obtain c' where c': "apbctrl_b_transport (register_sockets bw br) ?gp (c, w) =
      Some (1, ?gp\<lparr>p_data := op_data oper v, p_response := Ok_response\<rparr>, (c', w'))"
      "ap_slave_map c' = ap_slave_map c" "peripherals_wf c' w'"
    using bridge_word[OF assms(2), of oper bw br] assms(3) r by (auto simp: bridge_access_def)
  let ?res = "ca'\<lparr>busy := False\<rparr>"
  have "decoder_wf ?res" "slave_map ?res = slave_map ca" "is_pnp ?res = is_pnp ca"
    using ca'(2,3) pnp by (auto simp: decoder_wf_def is_pnp_def pnp_base_def pnp_mask_def fun_eq_iff)
  moreover have "\<not> is_pnp ?ca ?a" using assms(3) keep(3) by (simp add: bridge_access_def)
  ultimately show ?thesis
    using c' ca'(1) by (simp add: ahb_b_transport_def Let_def bridge_slave_def)
qed

text \<open>(C6) For the masters of the AHB the peripherals behind the bridge are their register banks:
  any sequence of word accesses, by any masters, to registers of any peripherals gives each
  master the data the bank gives and leaves the banks in the states the operations leave them
  in, whatever both address decoders have cached.  A write leaves the buffer of the master byte
  swapped.\<close>

theorem peripherals_are_registers:
  assumes "decoder_wf ca" and "peripherals_wf c w"
    and "\<forall>x \<in> set xs. bridge_access b ca (ap_slave_map c) (op_address (snd x))"
  shows "\<exists>c'. master_run (bridge_slave bw br b) xs ca (c, w) =
    (let (rs, w') = registers_run bw br (ap_slave_map c) xs w in Some (rs, (c', w')))"
  using assms
proof (induction xs arbitrary: ca c w)
  case (Cons x xs)
  obtain v w' where r: "register_do bw br (ap_slave_map c) (snd x) w = (v, w')" by (cases "register_do bw br (ap_slave_map c) (snd x) w")
  obtain t gp sn ca' c' where step:
      "ahb_b_transport (bridge_slave bw br b) (fst x) (op_transaction (snd x)) 0 ca (c, w) = Some (t, gp, sn, ca', (c', w'))"
      "p_data gp = op_data (snd x) v" "p_response gp = Ok_response" "decoder_wf ca'" "slave_map ca' = slave_map ca"
      "is_pnp ca' = is_pnp ca" "peripherals_wf c' w'" "ap_slave_map c' = ap_slave_map c"
    using bus_word[OF Cons.prems(1,2) _ r, of b "fst x"] Cons.prems(3) by auto
  have "\<forall>y \<in> set xs. bridge_access b ca' (ap_slave_map c') (op_address (snd y))"
    using Cons.prems(3) step(5,6,8) by (simp add: bridge_access_def)
  then obtain c'' where "master_run (bridge_slave bw br b) xs ca' (c', w') =
      (let (rs, w'') = registers_run bw br (ap_slave_map c) xs w' in Some (rs, (c'', w'')))"
    using Cons.IH[OF step(4,7)] step(8) by auto
  then show ?case using step(1-3) r by (auto simp: split_beta Let_def)
qed simp

text \<open>An interrupt controller at 0x80000200: one processor writes all ones to the interrupt mask
  of the first, another one reads back the bits that exist.\<close>

definition bridge_ahb :: ahbctrl where
  "bridge_ahb = (ahbctrl_init 0xFFF 0xFFF 0xFF0 0xFF0 True True True False IDLE)
     \<lparr>slave_map := [(0x800, \<lparr>si_index = 0, si_mask = 0xFFF, si_binding = 0\<rparr>)]\<rparr>"

definition irqmp_map :: "slave_info omap" where
  "irqmp_map = [(0x002, \<lparr>si_index = 2, si_mask = 0xFFF, si_binding = 0\<rparr>)]"

definition irqmp_slave :: "irqmp register_slave" where
  "irqmp_slave = \<lparr>rs_device = \<lparr>g_pindex = 2, g_pvendorid = 1, g_pdeviceid = 0xD, g_pversion = 0, g_pirq = 0, g_paddr = 2,
       g_pmask = 0xFFF, g_ptype = 1, g_pcacheable = False, g_pprefetchable = False\<rparr>, rs_state = irqmp_init 1 0\<rparr>"

definition irqmp_bridge :: apbctrl where
  "irqmp_bridge = (the (apbctrl_init 0x800 0xFFF False 0 False))\<lparr>ap_slave_map := irqmp_map\<rparr>"

lemma irqmp_bridge_wf: "decoder_wf bridge_ahb" "peripherals_wf irqmp_bridge [irqmp_slave]"
proof -
  have "map_check [(0x800, \<lparr>si_index = 0, si_mask = 0xFFF, si_binding = 0\<rparr>)]" "map_check irqmp_map" by code_simp+
  then show "decoder_wf bridge_ahb" "peripherals_wf irqmp_bridge [irqmp_slave]"
    using map_check_wf
    by (auto simp: decoder_wf_def bridge_ahb_def ahbctrl_init_def cache_wf_def peripherals_wf_def apb_wf_def irqmp_bridge_def
        apbctrl_init_def irqmp_map_def irqmp_slave_def peripheral_of_def device_fits_def get_apb_base_def get_apb_mask_def)
qed

theorem peripherals_are_registers_witness:
  "\<exists>s. master_run (bridge_slave irqmp_bus_write irqmp_bus_read 0) [(0, Reg_write 0x80000240 0xFFFFFFFF), (1, Reg_read 0x80000240)]
     bridge_ahb (irqmp_bridge, [irqmp_slave]) =
     Some ([([0xFF, 0xFF, 0xFF, 0xFF], Ok_response), ([0xFF, 0xFF, 0xFF, 0xFE], Ok_response)], s)"
proof -
  let ?xs = "[(0, Reg_write 0x80000240 0xFFFFFFFF), (1, Reg_read 0x80000240)]"
  have acc: "\<forall>x \<in> set ?xs. bridge_access 0 bridge_ahb (ap_slave_map irqmp_bridge) (op_address (snd x))"
    by code_simp
  have "fst (registers_run irqmp_bus_write irqmp_bus_read (ap_slave_map irqmp_bridge) ?xs [irqmp_slave]) =
      [([0xFF, 0xFF, 0xFF, 0xFF], Ok_response), ([0xFF, 0xFF, 0xFF, 0xFE], Ok_response)]"
    by code_simp
  then show ?thesis
    using peripherals_are_registers[OF irqmp_bridge_wf acc, of irqmp_bus_write irqmp_bus_read]
    by (auto simp: split_beta Let_def)
qed

end
