(* ===== verification/Arm_State.thy ===== *)
theory Arm_State
  imports Leon3_Memory
begin

text \<open>
  The state of the ARM Cortex-A9 instruction-set simulator (src/arm/arm/intunit): the
  registers of the class \<^verbatim>\<open>Registers\<close> (registers.hpp, registers.cpp) with the bit fields of
  the status registers, the aliases through which an instruction reaches the banked registers
  (src/core/trapgen/modules/register), and the
  helpers of the base class \<^verbatim>\<open>Instruction\<close> (instructions.cpp): modes and banks, the masks of
  the status registers, writes of the program counter, flags, shifts and saturation.

  The model is the functional one (\<^verbatim>\<open>FUNC_MODEL\<close>): \<^verbatim>\<open>flush\<close> is empty and \<^verbatim>\<open>stall\<close>
  adds to the cycles of the instruction.  Reading register 15 gives the value of its bank
  plus the offset 8 of its alias; writing it does not subtract the offset.
\<close>

section \<open>State\<close>

text \<open>\<^verbatim>\<open>REGS i\<close> is the alias of register \<^verbatim>\<open>i\<close>: the number of a register of the bank
  \<^verbatim>\<open>RB\<close> and an offset.  The aliases \<^verbatim>\<open>SP\<close>, \<^verbatim>\<open>LR\<close>, \<^verbatim>\<open>PC\<close> and those of the
  instructions are set to aliases of \<^verbatim>\<open>REGS\<close> and follow them when they are updated.\<close>

record 'm arm =
  CPSR :: u32
  SCR :: u32
  SCTLR :: u32
  MP_ID :: u32
  SPSR :: "nat \<Rightarrow> u32"
  RB :: "nat \<Rightarrow> u32"
  CPREGS :: "nat \<Rightarrow> u32"
  REGS :: "nat \<Rightarrow> nat \<times> u32"
  Mem :: 'm

text \<open>The ways a simulation ends: \<^verbatim>\<open>THROW_EXCEPTION\<close>, an access the memory cannot serve,
  behaviour that C++ leaves undefined.\<close>

datatype arm_error = Arm_Exception | Arm_Mem_Error | Arm_Undefined

type_synonym 'm ares = "(arm_error, u32, 'm arm) res"

text \<open>The memory is \<^verbatim>\<open>cpu_if\<close> (src/arm/arm/mmucache/cpu_if.h), the interface the LEON3 core
  has as well, with its default address space \<^verbatim>\<open>0xA\<close>.\<close>

abbreviation read_instr :: "'m cpu_if \<Rightarrow> u32 \<Rightarrow> 'm \<Rightarrow> (u32 \<times> u32 option \<times> 'm) option" where
  "read_instr ai a \<equiv> if_read_instr ai a 0xA 0"
abbreviation read_word :: "'m cpu_if \<Rightarrow> u32 \<Rightarrow> 'm \<Rightarrow> (u32 \<times> u32 option \<times> 'm) option" where
  "read_word ai a \<equiv> if_read_word ai a 0xA 0 0"
abbreviation read_half :: "'m cpu_if \<Rightarrow> u32 \<Rightarrow> 'm \<Rightarrow> (u16 \<times> u32 option \<times> 'm) option" where
  "read_half ai a \<equiv> if_read_half ai a 0xA 0 0"
abbreviation read_byte :: "'m cpu_if \<Rightarrow> u32 \<Rightarrow> 'm \<Rightarrow> (u8 \<times> u32 option \<times> 'm) option" where
  "read_byte ai a \<equiv> if_read_byte ai a 0xA 0 0"
abbreviation write_word :: "'m cpu_if \<Rightarrow> u32 \<Rightarrow> u32 \<Rightarrow> 'm \<Rightarrow> (u32 option \<times> 'm) option" where
  "write_word ai a d \<equiv> if_write_word ai a d 0xA 0 0"
abbreviation write_half :: "'m cpu_if \<Rightarrow> u32 \<Rightarrow> u16 \<Rightarrow> 'm \<Rightarrow> (u32 option \<times> 'm) option" where
  "write_half ai a d \<equiv> if_write_half ai a d 0xA 0 0"
abbreviation write_byte :: "'m cpu_if \<Rightarrow> u32 \<Rightarrow> u8 \<Rightarrow> 'm \<Rightarrow> (u32 option \<times> 'm) option" where
  "write_byte ai a d \<equiv> if_write_byte ai a d 0xA 0 0"

section \<open>Bit fields\<close>

text \<open>A field is given by its highest and its lowest bit.  A register with fields reads and
  writes the bits of its fields only.\<close>

definition field_mask :: "nat \<times> nat \<Rightarrow> u32" where
  "field_mask f = push_bit (snd f) (push_bit (fst f - snd f + 1) 1 - 1)"

definition field_read :: "nat \<times> nat \<Rightarrow> u32 \<Rightarrow> u32" where
  "field_read f r = drop_bit (snd f) (r AND field_mask f)"

definition field_write :: "nat \<times> nat \<Rightarrow> u32 \<Rightarrow> u32 \<Rightarrow> u32" where
  "field_write f data r = (r AND NOT (field_mask f)) OR (push_bit (snd f) data AND field_mask f)"

definition PSR_mask :: u32 where
  "PSR_mask = 0xFF0FFFFF"

definition CPSR_N :: "nat \<times> nat" where "CPSR_N = (31, 31)"
definition CPSR_Z :: "nat \<times> nat" where "CPSR_Z = (30, 30)"
definition CPSR_C :: "nat \<times> nat" where "CPSR_C = (29, 29)"
definition CPSR_V :: "nat \<times> nat" where "CPSR_V = (28, 28)"
definition CPSR_Q :: "nat \<times> nat" where "CPSR_Q = (27, 27)"
definition CPSR_IT10 :: "nat \<times> nat" where "CPSR_IT10 = (26, 25)"
definition CPSR_J :: "nat \<times> nat" where "CPSR_J = (24, 24)"
definition CPSR_GE :: "nat \<times> nat" where "CPSR_GE = (19, 16)"
definition CPSR_IT72 :: "nat \<times> nat" where "CPSR_IT72 = (15, 10)"
definition CPSR_E :: "nat \<times> nat" where "CPSR_E = (9, 9)"
definition CPSR_I :: "nat \<times> nat" where "CPSR_I = (7, 7)"
definition CPSR_T :: "nat \<times> nat" where "CPSR_T = (5, 5)"
definition CPSR_M :: "nat \<times> nat" where "CPSR_M = (4, 0)"

lemmas cpsr_fields = CPSR_N_def CPSR_Z_def CPSR_C_def CPSR_V_def CPSR_Q_def CPSR_IT10_def CPSR_J_def
  CPSR_GE_def CPSR_IT72_def CPSR_E_def CPSR_I_def CPSR_T_def CPSR_M_def

definition read_CPSR :: "'m arm \<Rightarrow> u32" where
  "read_CPSR s = CPSR s AND PSR_mask"

definition write_CPSR :: "u32 \<Rightarrow> 'm arm \<Rightarrow> 'm arm" where
  "write_CPSR data s = s\<lparr>CPSR := data AND PSR_mask\<rparr>"

definition cpsr :: "nat \<times> nat \<Rightarrow> 'm arm \<Rightarrow> u32" where
  "cpsr f s = field_read f (read_CPSR s)"

definition put_cpsr :: "nat \<times> nat \<Rightarrow> u32 \<Rightarrow> 'm arm \<Rightarrow> 'm arm" where
  "put_cpsr f data s = write_CPSR (field_write f data (read_CPSR s)) s"

definition read_SPSR :: "nat \<Rightarrow> 'm arm \<Rightarrow> u32" where
  "read_SPSR i s = SPSR s i AND PSR_mask"

definition write_SPSR :: "nat \<Rightarrow> u32 \<Rightarrow> 'm arm \<Rightarrow> 'm arm" where
  "write_SPSR i data s = s\<lparr>SPSR := (SPSR s)(i := data AND PSR_mask)\<rparr>"

section \<open>Registers\<close>

definition areg :: "nat \<Rightarrow> 'm arm \<Rightarrow> u32" where
  "areg i s = RB s (fst (REGS s i)) + snd (REGS s i)"

definition set_RB :: "nat \<Rightarrow> u32 \<Rightarrow> 'm arm \<Rightarrow> 'm arm" where
  "set_RB i v s = s\<lparr>RB := (RB s)(i := v)\<rparr>"

definition set_areg :: "nat \<Rightarrow> u32 \<Rightarrow> 'm arm \<Rightarrow> 'm arm" where
  "set_areg i v s = set_RB (fst (REGS s i)) v s"

text \<open>\<^verbatim>\<open>operator +=\<close> of an alias changes the register itself, without the offset.\<close>

definition add_areg :: "nat \<Rightarrow> u32 \<Rightarrow> 'm arm \<Rightarrow> 'm arm" where
  "add_areg i v s = set_RB (fst (REGS s i)) (RB s (fst (REGS s i)) + v) s"

definition alias_to :: "nat \<Rightarrow> nat \<Rightarrow> u32 \<Rightarrow> 'm arm \<Rightarrow> 'm arm" where
  "alias_to i b off s = s\<lparr>REGS := (REGS s)(i := (b, off))\<rparr>"

abbreviation PC :: "'m arm \<Rightarrow> u32" where "PC s \<equiv> areg 15 s"
abbreviation set_PC :: "u32 \<Rightarrow> 'm arm \<Rightarrow> 'm arm" where "set_PC v s \<equiv> set_areg 15 v s"

definition arm_aliases :: "nat \<Rightarrow> nat \<times> u32" where
  "arm_aliases i = (i, if i = 15 then 8 else 0)"

definition arm_registers_reset :: "u32 \<Rightarrow> u32 \<Rightarrow> 'm arm \<Rightarrow> 'm arm" where
  "arm_registers_reset mproc_id entry_point s =
     s\<lparr>CPSR := 0xd3, SCR := 0x0, SCTLR := 0x0, MP_ID := mproc_id,
       SPSR := (\<lambda>i. if i < 7 then 0x0 else SPSR s i),
       RB := (\<lambda>i. if i = 15 then entry_point else if i < 35 then 0x0 else RB s i),
       CPREGS := (\<lambda>i. if i < 16 then 0x0 else CPREGS s i)\<rparr>"

section \<open>Modes and banks\<close>

definition USR :: u32 where "USR = 0x10"
definition FIQ :: u32 where "FIQ = 0x11"
definition IRQ :: u32 where "IRQ = 0x12"
definition SVC_mode :: u32 where "SVC_mode = 0x13"
definition MON :: u32 where "MON = 0x16"
definition ABT :: u32 where "ABT = 0x17"
definition HYP :: u32 where "HYP = 0x1A"
definition UND :: u32 where "UND = 0x1B"
definition SYS :: u32 where "SYS = 0x1F"

lemmas modes = USR_def FIQ_def IRQ_def SVC_mode_def MON_def ABT_def HYP_def UND_def SYS_def

definition valid_psr_mode :: "u32 \<Rightarrow> bool" where
  "valid_psr_mode mode = (mode \<in> {USR, FIQ, IRQ, SVC_mode, ABT, UND, SYS, MON, HYP})"

definition HaveSecurityExt :: bool where "HaveSecurityExt = False"
definition HaveVirtExt :: bool where "HaveVirtExt = False"

definition IsSecure :: "'m arm \<Rightarrow> bool" where
  "IsSecure s = (\<not> HaveSecurityExt \<or> cpsr CPSR_M s = MON)"

definition CurrentInstrSet :: "'m arm \<Rightarrow> u32" where
  "CurrentInstrSet s = push_bit 1 (cpsr CPSR_J s) AND cpsr CPSR_T s AND 0x3"

text \<open>\<^verbatim>\<open>None\<close>: an invalid mode, which throws.\<close>

definition Rmode_index :: "u32 \<Rightarrow> u32 \<Rightarrow> u32 option" where
  "Rmode_index reg_index mode =
     (if reg_index > 14 then None
      else if reg_index > 12 \<and> reg_index < 15
      then if mode = USR \<or> mode = SYS then Some reg_index
           else if mode = FIQ then Some (reg_index + 10)
           else if mode = IRQ then Some (reg_index + 3)
           else if mode = SVC_mode then Some (reg_index + 16)
           else if mode = MON then Some (reg_index + 20)
           else if mode = ABT then Some (reg_index + 14)
           else if mode = HYP then Some (if reg_index = 13 then reg_index + 18 else reg_index)
           else if mode = UND then Some (reg_index + 12)
           else None
      else if reg_index > 7 \<and> reg_index < 15 \<and> mode = FIQ then Some (reg_index + 10)
      else Some reg_index)"

definition Rmode_read :: "u32 \<Rightarrow> u32 \<Rightarrow> 'm arm \<Rightarrow> u32 option" where
  "Rmode_read reg_index mode s = map_option (\<lambda>i. RB s (unat i)) (Rmode_index reg_index mode)"

definition Rmode_write :: "u32 \<Rightarrow> u32 \<Rightarrow> u32 \<Rightarrow> 'm arm \<Rightarrow> 'm arm option" where
  "Rmode_write reg_index mode value s = map_option (\<lambda>i. set_RB (unat i) value s) (Rmode_index reg_index mode)"

definition valid_banked_reg_access :: "u32 \<Rightarrow> 'm arm \<Rightarrow> bool" where
  "valid_banked_reg_access sys_mode s =
     (let cur_mode = cpsr CPSR_M s; bank = drop_bit 3 sys_mode AND 0x3; number = sys_mode AND 0x7
      in if \<not> valid_psr_mode cur_mode then False
         else if bank = 0x0
         then if number = 0x5 then cur_mode \<noteq> SYS
              else if number = 0x6 then \<not> (cur_mode = HYP \<or> cur_mode = SYS)
              else if number = 0x7 then False
              else cur_mode = FIQ
         else if bank = 0x1 then \<not> (number = 0x7 \<or> cur_mode = FIQ)
         else if bank = 0x2
         then if number = 0x0 \<or> number = 0x1 then cur_mode \<noteq> IRQ
              else if number = 0x2 \<or> number = 0x3 then cur_mode \<noteq> SVC_mode
              else if number = 0x4 \<or> number = 0x5 then cur_mode \<noteq> ABT
              else if number = 0x16 then cur_mode \<noteq> UND
              else True
         else if number = 0x0 \<or> number = 0x1 \<or> number = 0x2 \<or> number = 0x3 then False
         else if number = 0x4 \<or> number = 0x5 then \<not> (\<not> IsSecure s \<or> cur_mode = MON)
         else if number = 0x6 then \<not> (cur_mode \<noteq> MON \<and> cur_mode \<noteq> HYP)
         else cur_mode = MON)"

definition arm_update_alias :: "u32 \<Rightarrow> u32 \<Rightarrow> 'm arm \<Rightarrow> 'm arm option" where
  "arm_update_alias cur_mode next_mode s =
     map_option
       (\<lambda>s. if cur_mode = FIQ \<and> next_mode \<noteq> FIQ
            then alias_to 12 12 0 (alias_to 11 11 0 (alias_to 10 10 0 (alias_to 9 9 0 (alias_to 8 8 0 s))))
            else s)
       (if next_mode = USR \<or> next_mode = SYS then Some (alias_to 14 14 0 (alias_to 13 13 0 s))
        else if next_mode = FIQ
        then Some (alias_to 14 24 0 (alias_to 13 23 0 (alias_to 12 22 0 (alias_to 11 21 0
                    (alias_to 10 20 0 (alias_to 9 19 0 (alias_to 8 18 0 s)))))))
        else if next_mode = IRQ then Some (alias_to 14 17 0 (alias_to 13 16 0 s))
        else if next_mode = SVC_mode then Some (alias_to 14 30 0 (alias_to 13 29 0 s))
        else if next_mode = MON then Some (alias_to 14 34 0 (alias_to 13 33 0 s))
        else if next_mode = ABT then Some (alias_to 14 28 0 (alias_to 13 27 0 s))
        else if next_mode = HYP then Some (alias_to 13 31 0 s)
        else if next_mode = UND then Some (alias_to 14 26 0 (alias_to 13 25 0 s))
        else None)"

definition get_spsr_idx :: "u32 \<Rightarrow> nat option" where
  "get_spsr_idx mode =
     (if mode = FIQ then Some 1
      else if mode = IRQ then Some 0
      else if mode = SVC_mode then Some 4
      else if mode = MON then Some 6
      else if mode = ABT then Some 3
      else if mode = HYP then Some 5
      else if mode = UND then Some 2
      else None)"

text \<open>\<^verbatim>\<open>restore_spsr\<close>, \<^verbatim>\<open>InITBlock\<close> and \<^verbatim>\<open>LastInITBlock\<close> are not called by any instruction.\<close>

definition restore_spsr :: "'m arm \<Rightarrow> 'm arm option" where
  "restore_spsr s =
     (let cur_mode = cpsr CPSR_M s
      in if cur_mode AND 0x10 = 0 then None
         else case get_spsr_idx cur_mode of
                None \<Rightarrow> None
              | Some i \<Rightarrow> (let s = write_CPSR (read_SPSR i s) s in arm_update_alias cur_mode (cpsr CPSR_M s) s))"

definition InITBlock :: "'m arm \<Rightarrow> bool" where
  "InITBlock s = (cpsr CPSR_IT10 s \<noteq> 0 \<or> cpsr CPSR_IT72 s AND 0x3 \<noteq> 0)"

definition LastInITBlock :: "'m arm \<Rightarrow> bool" where
  "LastInITBlock s = (cpsr CPSR_IT10 s = 0x0 \<and> cpsr CPSR_IT72 s AND 0x3 = 0x2)"

definition psr_mask :: "u32 \<Rightarrow> u32 \<Rightarrow> u32 \<Rightarrow> bool \<Rightarrow> bool \<Rightarrow> 'm arm \<Rightarrow> u32" where
  "psr_mask next_value byte_mask cur_mode is_spsr is_exception s =
     (let is_privileged = cur_mode AND 0xF \<noteq> 0;
          next_mode = next_value AND 0x1F
      in if is_spsr \<and> (\<not> is_privileged \<or> cur_mode = SYS) then 0
         else
           (if byte_mask AND 0x8 \<noteq> 0 then if is_spsr \<or> is_exception then 0xFF000000 else 0xF8000000 else 0) OR
           (if byte_mask AND 0x4 \<noteq> 0 then 0x000F0000 else 0) OR
           (if byte_mask AND 0x2 \<noteq> 0
            then 0x00000200 OR (if is_spsr \<or> is_exception then 0x0000FC00 else 0) OR
              (if is_privileged \<and> (is_spsr \<or> IsSecure s \<or> HaveVirtExt) then 0x00000100 else 0)
            else 0) OR
           (if byte_mask AND 0x1 \<noteq> 0
            then if is_spsr then 0x000000E0 OR (if valid_psr_mode next_mode then 0x0000001F else 0)
                 else (if is_exception then 0x00000020 else 0) OR
                   (if is_privileged
                    then 0x00000080 OR (if IsSecure s \<or> HaveVirtExt then 0x00000040 else 0) OR
                      (if valid_psr_mode next_mode then 0x0000001F else 0)
                    else 0)
            else 0))"

section \<open>Writes of the program counter\<close>

definition BranchWritePC :: "u32 \<Rightarrow> 'm arm \<Rightarrow> 'm arm" where
  "BranchWritePC addr s =
     (let m = CurrentInstrSet s
      in if m = 0 then set_PC (addr AND 0xFFFFFFFC) s
         else if m = 1 then set_PC (addr AND 0xFFFFFFFE) s
         else if m = 2 then set_PC (addr AND 0xFFFFFFFC) s
         else set_PC (addr AND 0xFFFFFFFE) s)"

definition BXWritePC :: "u32 \<Rightarrow> 'm arm \<Rightarrow> 'm arm" where
  "BXWritePC addr s =
     (let s = if CurrentInstrSet s \<noteq> 0x3
              then if addr AND 0x1 \<noteq> 0 then s
                   else if addr AND 0x2 = 0
                   then alias_to 15 15 8 (put_cpsr CPSR_J 0x0 (put_cpsr CPSR_T 0x0 s))
                   else s
              else s
      in BranchWritePC addr s)"

definition ITAdvance :: "'m arm \<Rightarrow> 'm arm" where
  "ITAdvance s =
     (if cpsr CPSR_IT10 s = 0 \<and> cpsr CPSR_IT72 s AND 0x1 = 0
      then put_cpsr CPSR_IT72 0 (put_cpsr CPSR_IT10 0x0 s)
      else
        (let s = put_cpsr CPSR_IT10 (push_bit 1 (cpsr CPSR_IT10 s) AND 0x2) s
         in put_cpsr CPSR_IT72
              ((cpsr CPSR_IT72 s AND 0x38) OR (push_bit 1 (cpsr CPSR_IT72 s) AND 0x6)
                 OR (drop_bit 1 (cpsr CPSR_IT10 s) AND 0x1)) s))"

section \<open>Flags\<close>

definition AddWithCarry :: "u32 \<Rightarrow> u32 \<Rightarrow> u32 \<Rightarrow> 'm arm \<Rightarrow> 'm arm" where
  "AddWithCarry operand1 operand2 carry s =
     (let result = (scast operand1 :: u64) + scast operand2 + ucast carry;
          half = ucast (signed_drop_bit 1 result) :: u32;
          s = put_cpsr CPSR_N (int_of_bool (result AND 0x80000000 \<noteq> 0)) s;
          s = put_cpsr CPSR_Z (int_of_bool (result = 0)) s;
          s = put_cpsr CPSR_C (int_of_bool ((operand1 XOR operand2 XOR half) AND 0x80000000 \<noteq> 0)) s
      in put_cpsr CPSR_V (int_of_bool (half AND 0x80000000 \<noteq> ucast result AND 0x80000000)) s)"

definition update_psr_bit :: "u32 \<Rightarrow> bool \<Rightarrow> 'm arm \<Rightarrow> 'm arm" where
  "update_psr_bit result carry s =
     (let s = put_cpsr CPSR_N (int_of_bool (result AND 0x80000000 \<noteq> 0)) s;
          s = put_cpsr CPSR_Z (int_of_bool (result = 0)) s
      in put_cpsr CPSR_C (int_of_bool carry) s)"

section \<open>Shifts\<close>

text \<open>\<^verbatim>\<open>sign_extend\<close> of the lower \<^verbatim>\<open>len_bits\<close> bits to a \<^verbatim>\<open>long long\<close>.\<close>

definition arm_sign_extend :: "u64 \<Rightarrow> nat \<Rightarrow> u64" where
  "arm_sign_extend bits len_bits =
     (if len_bits \<ge> 64 then bits
      else ((bits AND (push_bit len_bits 1 - 1)) XOR push_bit (len_bits - 1) 1) - push_bit (len_bits - 1) 1)"

text \<open>A shift by an amount of zero leaves the carry as it is; otherwise the amounts are those
  for which C++ defines the shift of an \<^verbatim>\<open>unsigned long\<close> of 64 bits.\<close>

definition shift_defined :: "u32 \<Rightarrow> nat \<Rightarrow> bool" where
  "shift_defined shift_op amm =
     (if shift_op = 3 then amm = 0 \<or> amm mod 32 \<noteq> 0 else amm < 64)"

definition arm_LSL :: "u32 \<Rightarrow> nat \<Rightarrow> bool \<Rightarrow> u32 \<times> bool" where
  "arm_LSL to_shift amm carry =
     (if amm = 0 then (to_shift, carry)
      else (ucast (push_bit amm (ucast to_shift :: u64)),
            if amm > 32 then False else to_shift AND push_bit (32 - amm) 1 \<noteq> 0))"

definition arm_LSR :: "u32 \<Rightarrow> nat \<Rightarrow> bool \<Rightarrow> u32 \<times> bool" where
  "arm_LSR to_shift amm carry =
     (if amm = 0 then (to_shift, carry)
      else (ucast (drop_bit amm (ucast to_shift :: u64)),
            if amm > 32 then False else (ucast to_shift :: u64) AND push_bit (amm - 1) 1 \<noteq> 0))"

definition arm_ASR :: "u32 \<Rightarrow> nat \<Rightarrow> bool \<Rightarrow> u32 \<times> bool" where
  "arm_ASR to_shift amm carry =
     (if amm = 0 then (to_shift, carry)
      else
        (let shifted = ucast (drop_bit amm (ucast to_shift :: u64)) :: u32;
             sign = to_shift AND 0x80000000 \<noteq> 0
         in if amm \<ge> 32 then (if sign then 0xFFFFFFFF else shifted, sign)
            else (if sign then (shifted XOR push_bit (32 - amm - 1) 1) - push_bit (32 - amm - 1) 1 else shifted,
                  (ucast to_shift :: u64) AND push_bit (amm - 1) 1 \<noteq> 0)))"

definition arm_ROR :: "u32 \<Rightarrow> nat \<Rightarrow> bool \<Rightarrow> u32 \<times> bool" where
  "arm_ROR to_rotate amm carry =
     (if amm = 0 then (to_rotate, carry)
      else
        (let amm = if amm > 31 then amm mod 32 else amm;
             rotated = drop_bit amm to_rotate OR push_bit (32 - amm) to_rotate
         in (rotated, rotated AND 0x80000000 \<noteq> 0)))"

definition arm_RRX :: "u32 \<Rightarrow> nat \<Rightarrow> bool \<Rightarrow> bool \<Rightarrow> u32 \<times> bool" where
  "arm_RRX to_rotate amm carry_in carry =
     (if amm = 0 then (to_rotate, carry)
      else ((if carry_in then 0x80000000 else 0) OR drop_bit 1 to_rotate, to_rotate AND 0x1 \<noteq> 0))"

section \<open>Saturation\<close>

text \<open>The operand is a \<^verbatim>\<open>long long\<close> of which the callers use no more than 34 bits.  A shift
  of the 32-bit mask by 32 is undefined (\<^verbatim>\<open>None\<close>).\<close>

definition sat_q :: "int \<Rightarrow> nat \<Rightarrow> bool \<Rightarrow> bool \<Rightarrow> 'm arm \<Rightarrow> (u32 \<times> 'm arm) option" where
  "sat_q operand saturate_to is_signed set_q_en s =
     (let amount = 32 - saturate_to + (if is_signed then 1 else 0);
          highest = drop_bit amount 0xFFFFFFFF :: u32;
          lowest = if is_signed then sint (- highest - 1) else 0
      in if amount \<ge> 32 then None
         else if operand > uint highest then Some (highest, if set_q_en then put_cpsr CPSR_Q 1 s else s)
         else if operand < lowest then Some (word_of_int lowest, if set_q_en then put_cpsr CPSR_Q 1 s else s)
         else Some (word_of_int operand, if set_q_en then put_cpsr CPSR_Q 0 s else s))"

end
