(* ===== verification/Arm_Params.thy ===== *)
theory Arm_Params
  imports Arm_State
begin

text \<open>
  The operand fields of the ARM instructions: \<^verbatim>\<open>set_params\<close> of every instruction class
  (src/arm/arm/intunit/instructions.cpp), which takes them from the instruction word.  The
  fields are kept in one record; a class uses only those it sets.  The aliases a class sets
  along with the number of a register are \<^verbatim>\<open>areg\<close> of that number.
\<close>

record arm_params =
  f_rd_bit :: u32
  f_rn_bit :: u32
  f_cond :: u32
  f_s :: u32
  f_rotate :: u32
  f_imm :: u32
  f_rm_bit :: u32
  f_shift_amm :: u32
  f_shift_op :: u32
  f_rs_bit :: u32
  f_u :: u32
  f_h :: u32
  f_nq :: u32
  f_b :: u32
  f_ra_bit :: u32
  f_w :: u32
  f_imm0 :: u32
  f_imm1 :: u32
  f_op1a :: u32
  f_d :: u32
  f_l :: u32
  f_ss :: u32
  f_a :: u32
  f_op1b :: u32
  f_op0 :: u32
  f_m :: u32
  f_n :: u32
  f_tb :: u32
  f_p :: u32
  f_reg_list :: u32
  f_imm0a :: u32
  f_imm0b :: u32
  f_imm1a :: u32
  f_imm1b :: u32
  f_op1 :: u32
  f_imm2 :: u32
  f_r :: u32
  f_offset :: u32
  f_op2 :: u32
  f_M :: u32
  f_b15to10 :: u32
  f_E :: u32
  f_A :: u32
  f_I :: u32
  f_F :: u32
  f_mode0 :: u32
  f_mode1 :: u32
  f_rm :: u32
  f_swi_number :: u32
  f_imm3 :: u32
  f_cprn_bit :: u32
  f_cprm_bit :: u32
  f_cprd_bit :: u32
  f_cpnum :: u32
  f_e :: u32

definition no_params :: arm_params where
  "no_params = \<lparr>f_rd_bit = 0, f_rn_bit = 0, f_cond = 0, f_s = 0, f_rotate = 0, f_imm = 0, f_rm_bit = 0, f_shift_amm = 0,
     f_shift_op = 0, f_rs_bit = 0, f_u = 0, f_h = 0, f_nq = 0, f_b = 0, f_ra_bit = 0, f_w = 0, f_imm0 = 0,
     f_imm1 = 0, f_op1a = 0, f_d = 0, f_l = 0, f_ss = 0, f_a = 0, f_op1b = 0, f_op0 = 0, f_m = 0, f_n = 0,
     f_tb = 0, f_p = 0, f_reg_list = 0, f_imm0a = 0, f_imm0b = 0, f_imm1a = 0, f_imm1b = 0, f_op1 = 0,
     f_imm2 = 0, f_r = 0, f_offset = 0, f_op2 = 0, f_M = 0, f_b15to10 = 0, f_E = 0, f_A = 0, f_I = 0, f_F = 0,
     f_mode0 = 0, f_mode1 = 0, f_rm = 0, f_swi_number = 0, f_imm3 = 0, f_cprn_bit = 0, f_cprm_bit = 0,
     f_cprd_bit = 0, f_cpnum = 0, f_e = 0\<rparr>"

definition ADD_i_params :: "u32 \<Rightarrow> arm_params" where
  "ADD_i_params bitstring = no_params
    \<lparr>f_rd_bit := drop_bit 12 (bitstring AND 0xf000), f_rn_bit := drop_bit 16 (bitstring AND 0xf0000),
      f_cond := drop_bit 28 (bitstring AND 0xf0000000), f_s := drop_bit 20 (bitstring AND 0x100000),
      f_rotate := drop_bit 8 (bitstring AND 0xf00), f_imm := bitstring AND 0xff\<rparr>"

definition ADD_r_params :: "u32 \<Rightarrow> arm_params" where
  "ADD_r_params bitstring = no_params
    \<lparr>f_rd_bit := drop_bit 12 (bitstring AND 0xf000), f_rm_bit := bitstring AND 0xf,
      f_rn_bit := drop_bit 16 (bitstring AND 0xf0000), f_cond := drop_bit 28 (bitstring AND 0xf0000000),
      f_s := drop_bit 20 (bitstring AND 0x100000), f_shift_amm := drop_bit 7 (bitstring AND 0xf80),
      f_shift_op := drop_bit 5 (bitstring AND 0x60)\<rparr>"

definition ADD_sr_params :: "u32 \<Rightarrow> arm_params" where
  "ADD_sr_params bitstring = no_params
    \<lparr>f_rd_bit := drop_bit 12 (bitstring AND 0xf000), f_rm_bit := bitstring AND 0xf,
      f_rn_bit := drop_bit 16 (bitstring AND 0xf0000), f_rs_bit := drop_bit 8 (bitstring AND 0xf00),
      f_cond := drop_bit 28 (bitstring AND 0xf0000000), f_s := drop_bit 20 (bitstring AND 0x100000),
      f_shift_op := drop_bit 5 (bitstring AND 0x60)\<rparr>"

definition ADC_i_params :: "u32 \<Rightarrow> arm_params" where
  "ADC_i_params bitstring = no_params
    \<lparr>f_rd_bit := drop_bit 12 (bitstring AND 0xf000), f_rn_bit := drop_bit 16 (bitstring AND 0xf0000),
      f_cond := drop_bit 28 (bitstring AND 0xf0000000), f_s := drop_bit 20 (bitstring AND 0x100000),
      f_rotate := drop_bit 8 (bitstring AND 0xf00), f_imm := bitstring AND 0xff\<rparr>"

definition ADC_r_params :: "u32 \<Rightarrow> arm_params" where
  "ADC_r_params bitstring = no_params
    \<lparr>f_rd_bit := drop_bit 12 (bitstring AND 0xf000), f_rm_bit := bitstring AND 0xf,
      f_rn_bit := drop_bit 16 (bitstring AND 0xf0000), f_cond := drop_bit 28 (bitstring AND 0xf0000000),
      f_s := drop_bit 20 (bitstring AND 0x100000), f_shift_amm := drop_bit 7 (bitstring AND 0xf80),
      f_shift_op := drop_bit 5 (bitstring AND 0x60)\<rparr>"

definition ADC_sr_params :: "u32 \<Rightarrow> arm_params" where
  "ADC_sr_params bitstring = no_params
    \<lparr>f_rd_bit := drop_bit 12 (bitstring AND 0xf000), f_rm_bit := bitstring AND 0xf,
      f_rn_bit := drop_bit 16 (bitstring AND 0xf0000), f_rs_bit := drop_bit 8 (bitstring AND 0xf00),
      f_cond := drop_bit 28 (bitstring AND 0xf0000000), f_s := drop_bit 20 (bitstring AND 0x100000),
      f_shift_op := drop_bit 5 (bitstring AND 0x60)\<rparr>"

definition SUB_i_params :: "u32 \<Rightarrow> arm_params" where
  "SUB_i_params bitstring = no_params
    \<lparr>f_rd_bit := drop_bit 12 (bitstring AND 0xf000), f_rn_bit := drop_bit 16 (bitstring AND 0xf0000),
      f_cond := drop_bit 28 (bitstring AND 0xf0000000), f_s := drop_bit 20 (bitstring AND 0x100000),
      f_rotate := drop_bit 8 (bitstring AND 0xf00), f_imm := bitstring AND 0xff\<rparr>"

definition SUB_r_params :: "u32 \<Rightarrow> arm_params" where
  "SUB_r_params bitstring = no_params
    \<lparr>f_rd_bit := drop_bit 12 (bitstring AND 0xf000), f_rm_bit := bitstring AND 0xf,
      f_rn_bit := drop_bit 16 (bitstring AND 0xf0000), f_cond := drop_bit 28 (bitstring AND 0xf0000000),
      f_s := drop_bit 20 (bitstring AND 0x100000), f_shift_amm := drop_bit 7 (bitstring AND 0xf80),
      f_shift_op := drop_bit 5 (bitstring AND 0x60)\<rparr>"

definition SUB_sr_params :: "u32 \<Rightarrow> arm_params" where
  "SUB_sr_params bitstring = no_params
    \<lparr>f_rd_bit := drop_bit 12 (bitstring AND 0xf000), f_rm_bit := bitstring AND 0xf,
      f_rn_bit := drop_bit 16 (bitstring AND 0xf0000), f_rs_bit := drop_bit 8 (bitstring AND 0xf00),
      f_cond := drop_bit 28 (bitstring AND 0xf0000000), f_s := drop_bit 20 (bitstring AND 0x100000),
      f_shift_op := drop_bit 5 (bitstring AND 0x60)\<rparr>"

definition SBC_i_params :: "u32 \<Rightarrow> arm_params" where
  "SBC_i_params bitstring = no_params
    \<lparr>f_rd_bit := drop_bit 12 (bitstring AND 0xf000), f_rn_bit := drop_bit 16 (bitstring AND 0xf0000),
      f_cond := drop_bit 28 (bitstring AND 0xf0000000), f_s := drop_bit 20 (bitstring AND 0x100000),
      f_rotate := drop_bit 8 (bitstring AND 0xf00), f_imm := bitstring AND 0xff\<rparr>"

definition SBC_r_params :: "u32 \<Rightarrow> arm_params" where
  "SBC_r_params bitstring = no_params
    \<lparr>f_rd_bit := drop_bit 12 (bitstring AND 0xf000), f_rm_bit := bitstring AND 0xf,
      f_rn_bit := drop_bit 16 (bitstring AND 0xf0000), f_cond := drop_bit 28 (bitstring AND 0xf0000000),
      f_s := drop_bit 20 (bitstring AND 0x100000), f_shift_amm := drop_bit 7 (bitstring AND 0xf80),
      f_shift_op := drop_bit 5 (bitstring AND 0x60)\<rparr>"

definition SBC_sr_params :: "u32 \<Rightarrow> arm_params" where
  "SBC_sr_params bitstring = no_params
    \<lparr>f_rd_bit := drop_bit 12 (bitstring AND 0xf000), f_rm_bit := bitstring AND 0xf,
      f_rn_bit := drop_bit 16 (bitstring AND 0xf0000), f_rs_bit := drop_bit 8 (bitstring AND 0xf00),
      f_cond := drop_bit 28 (bitstring AND 0xf0000000), f_s := drop_bit 20 (bitstring AND 0x100000),
      f_shift_op := drop_bit 5 (bitstring AND 0x60)\<rparr>"

definition RSB_i_params :: "u32 \<Rightarrow> arm_params" where
  "RSB_i_params bitstring = no_params
    \<lparr>f_rd_bit := drop_bit 12 (bitstring AND 0xf000), f_rn_bit := drop_bit 16 (bitstring AND 0xf0000),
      f_cond := drop_bit 28 (bitstring AND 0xf0000000), f_s := drop_bit 20 (bitstring AND 0x100000),
      f_rotate := drop_bit 8 (bitstring AND 0xf00), f_imm := bitstring AND 0xff\<rparr>"

definition RSB_r_params :: "u32 \<Rightarrow> arm_params" where
  "RSB_r_params bitstring = no_params
    \<lparr>f_rd_bit := drop_bit 12 (bitstring AND 0xf000), f_rm_bit := bitstring AND 0xf,
      f_rn_bit := drop_bit 16 (bitstring AND 0xf0000), f_cond := drop_bit 28 (bitstring AND 0xf0000000),
      f_s := drop_bit 20 (bitstring AND 0x100000), f_shift_amm := drop_bit 7 (bitstring AND 0xf80),
      f_shift_op := drop_bit 5 (bitstring AND 0x60)\<rparr>"

definition RSB_sr_params :: "u32 \<Rightarrow> arm_params" where
  "RSB_sr_params bitstring = no_params
    \<lparr>f_rd_bit := drop_bit 12 (bitstring AND 0xf000), f_rm_bit := bitstring AND 0xf,
      f_rn_bit := drop_bit 16 (bitstring AND 0xf0000), f_rs_bit := drop_bit 8 (bitstring AND 0xf00),
      f_cond := drop_bit 28 (bitstring AND 0xf0000000), f_s := drop_bit 20 (bitstring AND 0x100000),
      f_shift_op := drop_bit 5 (bitstring AND 0x60)\<rparr>"

definition RSC_i_params :: "u32 \<Rightarrow> arm_params" where
  "RSC_i_params bitstring = no_params
    \<lparr>f_rd_bit := drop_bit 12 (bitstring AND 0xf000), f_rn_bit := drop_bit 16 (bitstring AND 0xf0000),
      f_cond := drop_bit 28 (bitstring AND 0xf0000000), f_s := drop_bit 20 (bitstring AND 0x100000),
      f_rotate := drop_bit 8 (bitstring AND 0xf00), f_imm := bitstring AND 0xff\<rparr>"

definition RSC_r_params :: "u32 \<Rightarrow> arm_params" where
  "RSC_r_params bitstring = no_params
    \<lparr>f_rd_bit := drop_bit 12 (bitstring AND 0xf000), f_rm_bit := bitstring AND 0xf,
      f_rn_bit := drop_bit 16 (bitstring AND 0xf0000), f_cond := drop_bit 28 (bitstring AND 0xf0000000),
      f_s := drop_bit 20 (bitstring AND 0x100000), f_shift_amm := drop_bit 7 (bitstring AND 0xf80),
      f_shift_op := drop_bit 5 (bitstring AND 0x60)\<rparr>"

definition RSC_sr_params :: "u32 \<Rightarrow> arm_params" where
  "RSC_sr_params bitstring = no_params
    \<lparr>f_rd_bit := drop_bit 12 (bitstring AND 0xf000), f_rm_bit := bitstring AND 0xf,
      f_rn_bit := drop_bit 16 (bitstring AND 0xf0000), f_rs_bit := drop_bit 8 (bitstring AND 0xf00),
      f_cond := drop_bit 28 (bitstring AND 0xf0000000), f_s := drop_bit 20 (bitstring AND 0x100000),
      f_shift_op := drop_bit 5 (bitstring AND 0x60)\<rparr>"

definition USHQADD_params :: "u32 \<Rightarrow> arm_params" where
  "USHQADD_params bitstring = no_params
    \<lparr>f_rd_bit := drop_bit 12 (bitstring AND 0xf000), f_rm_bit := bitstring AND 0xf,
      f_rn_bit := drop_bit 16 (bitstring AND 0xf0000), f_rs_bit := drop_bit 8 (bitstring AND 0xf00),
      f_cond := drop_bit 28 (bitstring AND 0xf0000000), f_u := drop_bit 22 (bitstring AND 0x400000),
      f_h := drop_bit 21 (bitstring AND 0x200000), f_nq := drop_bit 20 (bitstring AND 0x100000),
      f_b := drop_bit 7 (bitstring AND 0x80)\<rparr>"

definition USHQSUB_params :: "u32 \<Rightarrow> arm_params" where
  "USHQSUB_params bitstring = no_params
    \<lparr>f_rd_bit := drop_bit 12 (bitstring AND 0xf000), f_rm_bit := bitstring AND 0xf,
      f_rn_bit := drop_bit 16 (bitstring AND 0xf0000), f_rs_bit := drop_bit 8 (bitstring AND 0xf00),
      f_cond := drop_bit 28 (bitstring AND 0xf0000000), f_u := drop_bit 22 (bitstring AND 0x400000),
      f_h := drop_bit 21 (bitstring AND 0x200000), f_nq := drop_bit 20 (bitstring AND 0x100000),
      f_b := drop_bit 7 (bitstring AND 0x80)\<rparr>"

definition USADA8_params :: "u32 \<Rightarrow> arm_params" where
  "USADA8_params bitstring = no_params
    \<lparr>f_rd_bit := drop_bit 16 (bitstring AND 0xf0000), f_rm_bit := drop_bit 8 (bitstring AND 0xf00),
      f_rn_bit := bitstring AND 0xf, f_ra_bit := drop_bit 12 (bitstring AND 0xf000),
      f_cond := drop_bit 28 (bitstring AND 0xf0000000)\<rparr>"

definition USXTAHB_params :: "u32 \<Rightarrow> arm_params" where
  "USXTAHB_params bitstring = no_params
    \<lparr>f_rd_bit := drop_bit 12 (bitstring AND 0xf000), f_rm_bit := bitstring AND 0xf,
      f_rn_bit := drop_bit 16 (bitstring AND 0xf0000), f_cond := drop_bit 28 (bitstring AND 0xf0000000),
      f_u := drop_bit 22 (bitstring AND 0x400000), f_w := drop_bit 21 (bitstring AND 0x200000),
      f_h := drop_bit 20 (bitstring AND 0x100000), f_imm := drop_bit 8 (bitstring AND 0xf00)\<rparr>"

definition USHQASX_params :: "u32 \<Rightarrow> arm_params" where
  "USHQASX_params bitstring = no_params
    \<lparr>f_rd_bit := drop_bit 12 (bitstring AND 0xf000), f_rm_bit := bitstring AND 0xf,
      f_rn_bit := drop_bit 16 (bitstring AND 0xf0000), f_rs_bit := drop_bit 8 (bitstring AND 0xf00),
      f_cond := drop_bit 28 (bitstring AND 0xf0000000), f_u := drop_bit 22 (bitstring AND 0x400000),
      f_h := drop_bit 21 (bitstring AND 0x200000), f_nq := drop_bit 20 (bitstring AND 0x100000)\<rparr>"

definition USHQSAX_params :: "u32 \<Rightarrow> arm_params" where
  "USHQSAX_params bitstring = no_params
    \<lparr>f_rd_bit := drop_bit 12 (bitstring AND 0xf000), f_rm_bit := bitstring AND 0xf,
      f_rn_bit := drop_bit 16 (bitstring AND 0xf0000), f_rs_bit := drop_bit 8 (bitstring AND 0xf00),
      f_cond := drop_bit 28 (bitstring AND 0xf0000000), f_u := drop_bit 22 (bitstring AND 0x400000),
      f_h := drop_bit 21 (bitstring AND 0x200000), f_nq := drop_bit 20 (bitstring AND 0x100000)\<rparr>"

definition USSAT_params :: "u32 \<Rightarrow> arm_params" where
  "USSAT_params bitstring = no_params
    \<lparr>f_rd_bit := drop_bit 12 (bitstring AND 0xf000), f_rm_bit := bitstring AND 0xf,
      f_cond := drop_bit 28 (bitstring AND 0xf0000000), f_u := drop_bit 22 (bitstring AND 0x400000),
      f_imm0 := drop_bit 16 (bitstring AND 0x1f0000), f_imm1 := drop_bit 7 (bitstring AND 0xf80),
      f_op1a := drop_bit 6 (bitstring AND 0x40)\<rparr>"

definition USSAT16_params :: "u32 \<Rightarrow> arm_params" where
  "USSAT16_params bitstring = no_params
    \<lparr>f_rd_bit := drop_bit 12 (bitstring AND 0xf000), f_rm_bit := bitstring AND 0xf,
      f_rn_bit := drop_bit 16 (bitstring AND 0xf0000), f_cond := drop_bit 28 (bitstring AND 0xf0000000),
      f_u := drop_bit 22 (bitstring AND 0x400000), f_imm := drop_bit 8 (bitstring AND 0xf00)\<rparr>"

definition QDADDSUB_params :: "u32 \<Rightarrow> arm_params" where
  "QDADDSUB_params bitstring = no_params
    \<lparr>f_rd_bit := drop_bit 12 (bitstring AND 0xf000), f_rm_bit := bitstring AND 0xf,
      f_rn_bit := drop_bit 16 (bitstring AND 0xf0000), f_cond := drop_bit 28 (bitstring AND 0xf0000000),
      f_d := drop_bit 22 (bitstring AND 0x400000), f_s := drop_bit 21 (bitstring AND 0x200000),
      f_imm := drop_bit 8 (bitstring AND 0xf00)\<rparr>"

definition MUL_params :: "u32 \<Rightarrow> arm_params" where
  "MUL_params bitstring = no_params
    \<lparr>f_rd_bit := drop_bit 16 (bitstring AND 0xf0000), f_rm_bit := drop_bit 8 (bitstring AND 0xf00),
      f_rn_bit := bitstring AND 0xf, f_ra_bit := drop_bit 12 (bitstring AND 0xf000),
      f_cond := drop_bit 28 (bitstring AND 0xf0000000), f_l := drop_bit 23 (bitstring AND 0x800000),
      f_ss := drop_bit 22 (bitstring AND 0x400000), f_a := drop_bit 21 (bitstring AND 0x200000),
      f_s := drop_bit 20 (bitstring AND 0x100000)\<rparr>"

definition SMMUL_params :: "u32 \<Rightarrow> arm_params" where
  "SMMUL_params bitstring = no_params
    \<lparr>f_rd_bit := drop_bit 16 (bitstring AND 0xf0000), f_rm_bit := drop_bit 8 (bitstring AND 0xf00),
      f_rn_bit := bitstring AND 0xf, f_ra_bit := drop_bit 12 (bitstring AND 0xf000),
      f_cond := drop_bit 28 (bitstring AND 0xf0000000), f_op1a := drop_bit 6 (bitstring AND 0xc0),
      f_op1b := drop_bit 5 (bitstring AND 0x20)\<rparr>"

definition MULL_params :: "u32 \<Rightarrow> arm_params" where
  "MULL_params bitstring = no_params
    \<lparr>f_rd_bit := drop_bit 16 (bitstring AND 0xf0000), f_rm_bit := drop_bit 8 (bitstring AND 0xf00),
      f_rn_bit := bitstring AND 0xf, f_ra_bit := drop_bit 12 (bitstring AND 0xf000),
      f_cond := drop_bit 28 (bitstring AND 0xf0000000), f_l := drop_bit 23 (bitstring AND 0x800000),
      f_ss := drop_bit 22 (bitstring AND 0x400000), f_a := drop_bit 21 (bitstring AND 0x200000),
      f_s := drop_bit 20 (bitstring AND 0x100000)\<rparr>"

definition UMAAL_params :: "u32 \<Rightarrow> arm_params" where
  "UMAAL_params bitstring = no_params
    \<lparr>f_rd_bit := drop_bit 16 (bitstring AND 0xf0000), f_rm_bit := drop_bit 8 (bitstring AND 0xf00),
      f_rn_bit := bitstring AND 0xf, f_ra_bit := drop_bit 12 (bitstring AND 0xf000),
      f_cond := drop_bit 28 (bitstring AND 0xf0000000)\<rparr>"

definition SMULBW_params :: "u32 \<Rightarrow> arm_params" where
  "SMULBW_params bitstring = no_params
    \<lparr>f_rd_bit := drop_bit 16 (bitstring AND 0xf0000), f_rm_bit := drop_bit 8 (bitstring AND 0xf00),
      f_rn_bit := bitstring AND 0xf, f_ra_bit := drop_bit 12 (bitstring AND 0xf000),
      f_cond := drop_bit 28 (bitstring AND 0xf0000000), f_op0 := drop_bit 21 (bitstring AND 0x600000),
      f_m := drop_bit 6 (bitstring AND 0x40), f_n := drop_bit 5 (bitstring AND 0x20)\<rparr>"

definition SMMULD_params :: "u32 \<Rightarrow> arm_params" where
  "SMMULD_params bitstring = no_params
    \<lparr>f_rd_bit := drop_bit 16 (bitstring AND 0xf0000), f_rm_bit := drop_bit 8 (bitstring AND 0xf00),
      f_rn_bit := bitstring AND 0xf, f_ra_bit := drop_bit 12 (bitstring AND 0xf000),
      f_cond := drop_bit 28 (bitstring AND 0xf0000000), f_l := drop_bit 22 (bitstring AND 0x400000),
      f_op1a := drop_bit 6 (bitstring AND 0xc0), f_op1b := drop_bit 5 (bitstring AND 0x20)\<rparr>"

definition DIV_params :: "u32 \<Rightarrow> arm_params" where
  "DIV_params bitstring = no_params
    \<lparr>f_rd_bit := drop_bit 16 (bitstring AND 0xf0000), f_rm_bit := drop_bit 8 (bitstring AND 0xf00),
      f_rn_bit := bitstring AND 0xf, f_ra_bit := drop_bit 12 (bitstring AND 0xf000),
      f_cond := drop_bit 28 (bitstring AND 0xf0000000), f_s := drop_bit 21 (bitstring AND 0x200000)\<rparr>"

definition AND_i_params :: "u32 \<Rightarrow> arm_params" where
  "AND_i_params bitstring = no_params
    \<lparr>f_rd_bit := drop_bit 12 (bitstring AND 0xf000), f_rn_bit := drop_bit 16 (bitstring AND 0xf0000),
      f_cond := drop_bit 28 (bitstring AND 0xf0000000), f_s := drop_bit 20 (bitstring AND 0x100000),
      f_rotate := drop_bit 8 (bitstring AND 0xf00), f_imm := bitstring AND 0xff\<rparr>"

definition AND_r_params :: "u32 \<Rightarrow> arm_params" where
  "AND_r_params bitstring = no_params
    \<lparr>f_rd_bit := drop_bit 12 (bitstring AND 0xf000), f_rm_bit := bitstring AND 0xf,
      f_rn_bit := drop_bit 16 (bitstring AND 0xf0000), f_cond := drop_bit 28 (bitstring AND 0xf0000000),
      f_s := drop_bit 20 (bitstring AND 0x100000), f_shift_amm := drop_bit 7 (bitstring AND 0xf80),
      f_shift_op := drop_bit 5 (bitstring AND 0x60)\<rparr>"

definition AND_sr_params :: "u32 \<Rightarrow> arm_params" where
  "AND_sr_params bitstring = no_params
    \<lparr>f_rd_bit := drop_bit 12 (bitstring AND 0xf000), f_rm_bit := bitstring AND 0xf,
      f_rn_bit := drop_bit 16 (bitstring AND 0xf0000), f_rs_bit := drop_bit 8 (bitstring AND 0xf00),
      f_cond := drop_bit 28 (bitstring AND 0xf0000000), f_s := drop_bit 20 (bitstring AND 0x100000),
      f_shift_op := drop_bit 5 (bitstring AND 0x60)\<rparr>"

definition EOR_i_params :: "u32 \<Rightarrow> arm_params" where
  "EOR_i_params bitstring = no_params
    \<lparr>f_rd_bit := drop_bit 12 (bitstring AND 0xf000), f_rn_bit := drop_bit 16 (bitstring AND 0xf0000),
      f_cond := drop_bit 28 (bitstring AND 0xf0000000), f_s := drop_bit 20 (bitstring AND 0x100000),
      f_rotate := drop_bit 8 (bitstring AND 0xf00), f_imm := bitstring AND 0xff\<rparr>"

definition EOR_r_params :: "u32 \<Rightarrow> arm_params" where
  "EOR_r_params bitstring = no_params
    \<lparr>f_rd_bit := drop_bit 12 (bitstring AND 0xf000), f_rm_bit := bitstring AND 0xf,
      f_rn_bit := drop_bit 16 (bitstring AND 0xf0000), f_cond := drop_bit 28 (bitstring AND 0xf0000000),
      f_s := drop_bit 20 (bitstring AND 0x100000), f_shift_amm := drop_bit 7 (bitstring AND 0xf80),
      f_shift_op := drop_bit 5 (bitstring AND 0x60)\<rparr>"

definition EOR_sr_params :: "u32 \<Rightarrow> arm_params" where
  "EOR_sr_params bitstring = no_params
    \<lparr>f_rd_bit := drop_bit 12 (bitstring AND 0xf000), f_rm_bit := bitstring AND 0xf,
      f_rn_bit := drop_bit 16 (bitstring AND 0xf0000), f_rs_bit := drop_bit 8 (bitstring AND 0xf00),
      f_cond := drop_bit 28 (bitstring AND 0xf0000000), f_s := drop_bit 20 (bitstring AND 0x100000),
      f_shift_op := drop_bit 5 (bitstring AND 0x60)\<rparr>"

definition MVN_i_params :: "u32 \<Rightarrow> arm_params" where
  "MVN_i_params bitstring = no_params
    \<lparr>f_rd_bit := drop_bit 12 (bitstring AND 0xf000), f_rn_bit := drop_bit 16 (bitstring AND 0xf0000),
      f_cond := drop_bit 28 (bitstring AND 0xf0000000), f_s := drop_bit 20 (bitstring AND 0x100000),
      f_rotate := drop_bit 8 (bitstring AND 0xf00), f_imm := bitstring AND 0xff\<rparr>"

definition MVN_r_params :: "u32 \<Rightarrow> arm_params" where
  "MVN_r_params bitstring = no_params
    \<lparr>f_rd_bit := drop_bit 12 (bitstring AND 0xf000), f_rm_bit := bitstring AND 0xf,
      f_rn_bit := drop_bit 16 (bitstring AND 0xf0000), f_cond := drop_bit 28 (bitstring AND 0xf0000000),
      f_s := drop_bit 20 (bitstring AND 0x100000), f_shift_amm := drop_bit 7 (bitstring AND 0xf80),
      f_shift_op := drop_bit 5 (bitstring AND 0x60)\<rparr>"

definition MVN_sr_params :: "u32 \<Rightarrow> arm_params" where
  "MVN_sr_params bitstring = no_params
    \<lparr>f_rd_bit := drop_bit 12 (bitstring AND 0xf000), f_rm_bit := bitstring AND 0xf,
      f_rn_bit := drop_bit 16 (bitstring AND 0xf0000), f_rs_bit := drop_bit 8 (bitstring AND 0xf00),
      f_cond := drop_bit 28 (bitstring AND 0xf0000000), f_s := drop_bit 20 (bitstring AND 0x100000),
      f_shift_op := drop_bit 5 (bitstring AND 0x60)\<rparr>"

definition ORR_i_params :: "u32 \<Rightarrow> arm_params" where
  "ORR_i_params bitstring = no_params
    \<lparr>f_rd_bit := drop_bit 12 (bitstring AND 0xf000), f_rn_bit := drop_bit 16 (bitstring AND 0xf0000),
      f_cond := drop_bit 28 (bitstring AND 0xf0000000), f_s := drop_bit 20 (bitstring AND 0x100000),
      f_rotate := drop_bit 8 (bitstring AND 0xf00), f_imm := bitstring AND 0xff\<rparr>"

definition ORR_r_params :: "u32 \<Rightarrow> arm_params" where
  "ORR_r_params bitstring = no_params
    \<lparr>f_rd_bit := drop_bit 12 (bitstring AND 0xf000), f_rm_bit := bitstring AND 0xf,
      f_rn_bit := drop_bit 16 (bitstring AND 0xf0000), f_cond := drop_bit 28 (bitstring AND 0xf0000000),
      f_s := drop_bit 20 (bitstring AND 0x100000), f_shift_amm := drop_bit 7 (bitstring AND 0xf80),
      f_shift_op := drop_bit 5 (bitstring AND 0x60)\<rparr>"

definition ORR_sr_params :: "u32 \<Rightarrow> arm_params" where
  "ORR_sr_params bitstring = no_params
    \<lparr>f_rd_bit := drop_bit 12 (bitstring AND 0xf000), f_rm_bit := bitstring AND 0xf,
      f_rn_bit := drop_bit 16 (bitstring AND 0xf0000), f_rs_bit := drop_bit 8 (bitstring AND 0xf00),
      f_cond := drop_bit 28 (bitstring AND 0xf0000000), f_s := drop_bit 20 (bitstring AND 0x100000),
      f_shift_op := drop_bit 5 (bitstring AND 0x60)\<rparr>"

definition TEQ_i_params :: "u32 \<Rightarrow> arm_params" where
  "TEQ_i_params bitstring = no_params
    \<lparr>f_rd_bit := drop_bit 12 (bitstring AND 0xf000), f_rn_bit := drop_bit 16 (bitstring AND 0xf0000),
      f_cond := drop_bit 28 (bitstring AND 0xf0000000), f_rotate := drop_bit 8 (bitstring AND 0xf00),
      f_imm := bitstring AND 0xff\<rparr>"

definition TEQ_r_params :: "u32 \<Rightarrow> arm_params" where
  "TEQ_r_params bitstring = no_params
    \<lparr>f_rd_bit := drop_bit 12 (bitstring AND 0xf000), f_rm_bit := bitstring AND 0xf,
      f_rn_bit := drop_bit 16 (bitstring AND 0xf0000), f_cond := drop_bit 28 (bitstring AND 0xf0000000),
      f_shift_amm := drop_bit 7 (bitstring AND 0xf80), f_shift_op := drop_bit 5 (bitstring AND 0x60)\<rparr>"

definition TEQ_sr_params :: "u32 \<Rightarrow> arm_params" where
  "TEQ_sr_params bitstring = no_params
    \<lparr>f_rd_bit := drop_bit 12 (bitstring AND 0xf000), f_rm_bit := bitstring AND 0xf,
      f_rn_bit := drop_bit 16 (bitstring AND 0xf0000), f_rs_bit := drop_bit 8 (bitstring AND 0xf00),
      f_cond := drop_bit 28 (bitstring AND 0xf0000000), f_shift_op := drop_bit 5 (bitstring AND 0x60)\<rparr>"

definition TST_i_params :: "u32 \<Rightarrow> arm_params" where
  "TST_i_params bitstring = no_params
    \<lparr>f_rd_bit := drop_bit 12 (bitstring AND 0xf000), f_rn_bit := drop_bit 16 (bitstring AND 0xf0000),
      f_cond := drop_bit 28 (bitstring AND 0xf0000000), f_rotate := drop_bit 8 (bitstring AND 0xf00),
      f_imm := bitstring AND 0xff\<rparr>"

definition TST_r_params :: "u32 \<Rightarrow> arm_params" where
  "TST_r_params bitstring = no_params
    \<lparr>f_rd_bit := drop_bit 12 (bitstring AND 0xf000), f_rm_bit := bitstring AND 0xf,
      f_rn_bit := drop_bit 16 (bitstring AND 0xf0000), f_cond := drop_bit 28 (bitstring AND 0xf0000000),
      f_shift_amm := drop_bit 7 (bitstring AND 0xf80), f_shift_op := drop_bit 5 (bitstring AND 0x60)\<rparr>"

definition TST_sr_params :: "u32 \<Rightarrow> arm_params" where
  "TST_sr_params bitstring = no_params
    \<lparr>f_rd_bit := drop_bit 12 (bitstring AND 0xf000), f_rm_bit := bitstring AND 0xf,
      f_rn_bit := drop_bit 16 (bitstring AND 0xf0000), f_rs_bit := drop_bit 8 (bitstring AND 0xf00),
      f_cond := drop_bit 28 (bitstring AND 0xf0000000), f_shift_op := drop_bit 5 (bitstring AND 0x60)\<rparr>"

definition ASR_r_params :: "u32 \<Rightarrow> arm_params" where
  "ASR_r_params bitstring = no_params
    \<lparr>f_rd_bit := drop_bit 12 (bitstring AND 0xf000), f_rm_bit := bitstring AND 0xf,
      f_rn_bit := drop_bit 16 (bitstring AND 0xf0000), f_cond := drop_bit 28 (bitstring AND 0xf0000000),
      f_s := drop_bit 20 (bitstring AND 0x100000), f_shift_amm := drop_bit 7 (bitstring AND 0xf80),
      f_shift_op := drop_bit 5 (bitstring AND 0x60)\<rparr>"

definition ASR_sr_params :: "u32 \<Rightarrow> arm_params" where
  "ASR_sr_params bitstring = no_params
    \<lparr>f_rd_bit := drop_bit 12 (bitstring AND 0xf000), f_rm_bit := bitstring AND 0xf,
      f_rn_bit := drop_bit 16 (bitstring AND 0xf0000), f_rs_bit := drop_bit 8 (bitstring AND 0xf00),
      f_cond := drop_bit 28 (bitstring AND 0xf0000000), f_s := drop_bit 20 (bitstring AND 0x100000),
      f_shift_op := drop_bit 5 (bitstring AND 0x60)\<rparr>"

definition LSR_r_params :: "u32 \<Rightarrow> arm_params" where
  "LSR_r_params bitstring = no_params
    \<lparr>f_rd_bit := drop_bit 12 (bitstring AND 0xf000), f_rm_bit := bitstring AND 0xf,
      f_rn_bit := drop_bit 16 (bitstring AND 0xf0000), f_cond := drop_bit 28 (bitstring AND 0xf0000000),
      f_s := drop_bit 20 (bitstring AND 0x100000), f_shift_amm := drop_bit 7 (bitstring AND 0xf80),
      f_shift_op := drop_bit 5 (bitstring AND 0x60)\<rparr>"

definition LSR_sr_params :: "u32 \<Rightarrow> arm_params" where
  "LSR_sr_params bitstring = no_params
    \<lparr>f_rd_bit := drop_bit 12 (bitstring AND 0xf000), f_rm_bit := bitstring AND 0xf,
      f_rn_bit := drop_bit 16 (bitstring AND 0xf0000), f_rs_bit := drop_bit 8 (bitstring AND 0xf00),
      f_cond := drop_bit 28 (bitstring AND 0xf0000000), f_s := drop_bit 20 (bitstring AND 0x100000),
      f_shift_op := drop_bit 5 (bitstring AND 0x60)\<rparr>"

definition LSL_r_params :: "u32 \<Rightarrow> arm_params" where
  "LSL_r_params bitstring = no_params
    \<lparr>f_rd_bit := drop_bit 12 (bitstring AND 0xf000), f_rm_bit := bitstring AND 0xf,
      f_rn_bit := drop_bit 16 (bitstring AND 0xf0000), f_cond := drop_bit 28 (bitstring AND 0xf0000000),
      f_s := drop_bit 20 (bitstring AND 0x100000), f_shift_amm := drop_bit 7 (bitstring AND 0xf80),
      f_shift_op := drop_bit 5 (bitstring AND 0x60)\<rparr>"

definition LSL_sr_params :: "u32 \<Rightarrow> arm_params" where
  "LSL_sr_params bitstring = no_params
    \<lparr>f_rd_bit := drop_bit 12 (bitstring AND 0xf000), f_rm_bit := bitstring AND 0xf,
      f_rn_bit := drop_bit 16 (bitstring AND 0xf0000), f_rs_bit := drop_bit 8 (bitstring AND 0xf00),
      f_cond := drop_bit 28 (bitstring AND 0xf0000000), f_s := drop_bit 20 (bitstring AND 0x100000),
      f_shift_op := drop_bit 5 (bitstring AND 0x60)\<rparr>"

definition ROR_r_params :: "u32 \<Rightarrow> arm_params" where
  "ROR_r_params bitstring = no_params
    \<lparr>f_rd_bit := drop_bit 12 (bitstring AND 0xf000), f_rm_bit := bitstring AND 0xf,
      f_rn_bit := drop_bit 16 (bitstring AND 0xf0000), f_cond := drop_bit 28 (bitstring AND 0xf0000000),
      f_s := drop_bit 20 (bitstring AND 0x100000), f_shift_amm := drop_bit 7 (bitstring AND 0xf80),
      f_shift_op := drop_bit 5 (bitstring AND 0x60)\<rparr>"

definition ROR_sr_params :: "u32 \<Rightarrow> arm_params" where
  "ROR_sr_params bitstring = no_params
    \<lparr>f_rd_bit := drop_bit 12 (bitstring AND 0xf000), f_rm_bit := bitstring AND 0xf,
      f_rn_bit := drop_bit 16 (bitstring AND 0xf0000), f_rs_bit := drop_bit 8 (bitstring AND 0xf00),
      f_cond := drop_bit 28 (bitstring AND 0xf0000000), f_s := drop_bit 20 (bitstring AND 0x100000),
      f_shift_op := drop_bit 5 (bitstring AND 0x60)\<rparr>"

definition BFCI_params :: "u32 \<Rightarrow> arm_params" where
  "BFCI_params bitstring = no_params
    \<lparr>f_rd_bit := drop_bit 12 (bitstring AND 0xf000), f_rm_bit := bitstring AND 0xf,
      f_cond := drop_bit 28 (bitstring AND 0xf0000000), f_imm0 := drop_bit 16 (bitstring AND 0x1f0000),
      f_imm1 := drop_bit 7 (bitstring AND 0xf80)\<rparr>"

definition BIC_i_params :: "u32 \<Rightarrow> arm_params" where
  "BIC_i_params bitstring = no_params
    \<lparr>f_rd_bit := drop_bit 12 (bitstring AND 0xf000), f_rn_bit := drop_bit 16 (bitstring AND 0xf0000),
      f_cond := drop_bit 28 (bitstring AND 0xf0000000), f_s := drop_bit 20 (bitstring AND 0x100000),
      f_rotate := drop_bit 8 (bitstring AND 0xf00), f_imm := bitstring AND 0xff\<rparr>"

definition BIC_r_params :: "u32 \<Rightarrow> arm_params" where
  "BIC_r_params bitstring = no_params
    \<lparr>f_rd_bit := drop_bit 12 (bitstring AND 0xf000), f_rm_bit := bitstring AND 0xf,
      f_rn_bit := drop_bit 16 (bitstring AND 0xf0000), f_cond := drop_bit 28 (bitstring AND 0xf0000000),
      f_s := drop_bit 20 (bitstring AND 0x100000), f_shift_amm := drop_bit 7 (bitstring AND 0xf80),
      f_shift_op := drop_bit 5 (bitstring AND 0x60)\<rparr>"

definition BIC_sr_params :: "u32 \<Rightarrow> arm_params" where
  "BIC_sr_params bitstring = no_params
    \<lparr>f_rd_bit := drop_bit 12 (bitstring AND 0xf000), f_rm_bit := bitstring AND 0xf,
      f_rn_bit := drop_bit 16 (bitstring AND 0xf0000), f_rs_bit := drop_bit 8 (bitstring AND 0xf00),
      f_cond := drop_bit 28 (bitstring AND 0xf0000000), f_s := drop_bit 20 (bitstring AND 0x100000),
      f_shift_op := drop_bit 5 (bitstring AND 0x60)\<rparr>"

definition CLZ_params :: "u32 \<Rightarrow> arm_params" where
  "CLZ_params bitstring = no_params
    \<lparr>f_rd_bit := drop_bit 12 (bitstring AND 0xf000), f_rm_bit := bitstring AND 0xf,
      f_rn_bit := drop_bit 16 (bitstring AND 0xf0000), f_rs_bit := drop_bit 8 (bitstring AND 0xf00),
      f_cond := drop_bit 28 (bitstring AND 0xf0000000)\<rparr>"

definition PKH_params :: "u32 \<Rightarrow> arm_params" where
  "PKH_params bitstring = no_params
    \<lparr>f_rd_bit := drop_bit 12 (bitstring AND 0xf000), f_rm_bit := bitstring AND 0xf,
      f_rn_bit := drop_bit 16 (bitstring AND 0xf0000), f_cond := drop_bit 28 (bitstring AND 0xf0000000),
      f_imm := drop_bit 7 (bitstring AND 0xf80), f_tb := drop_bit 6 (bitstring AND 0x40)\<rparr>"

definition RBIT_params :: "u32 \<Rightarrow> arm_params" where
  "RBIT_params bitstring = no_params
    \<lparr>f_rd_bit := drop_bit 12 (bitstring AND 0xf000), f_rm_bit := bitstring AND 0xf,
      f_rn_bit := drop_bit 16 (bitstring AND 0xf0000), f_rs_bit := drop_bit 8 (bitstring AND 0xf00),
      f_cond := drop_bit 28 (bitstring AND 0xf0000000)\<rparr>"

definition REV_params :: "u32 \<Rightarrow> arm_params" where
  "REV_params bitstring = no_params
    \<lparr>f_rd_bit := drop_bit 12 (bitstring AND 0xf000), f_rm_bit := bitstring AND 0xf,
      f_rn_bit := drop_bit 16 (bitstring AND 0xf0000), f_rs_bit := drop_bit 8 (bitstring AND 0xf00),
      f_cond := drop_bit 28 (bitstring AND 0xf0000000)\<rparr>"

definition REV16_params :: "u32 \<Rightarrow> arm_params" where
  "REV16_params bitstring = no_params
    \<lparr>f_rd_bit := drop_bit 12 (bitstring AND 0xf000), f_rm_bit := bitstring AND 0xf,
      f_rn_bit := drop_bit 16 (bitstring AND 0xf0000), f_rs_bit := drop_bit 8 (bitstring AND 0xf00),
      f_cond := drop_bit 28 (bitstring AND 0xf0000000)\<rparr>"

definition REVSH_params :: "u32 \<Rightarrow> arm_params" where
  "REVSH_params bitstring = no_params
    \<lparr>f_rd_bit := drop_bit 12 (bitstring AND 0xf000), f_rm_bit := bitstring AND 0xf,
      f_rn_bit := drop_bit 16 (bitstring AND 0xf0000), f_rs_bit := drop_bit 8 (bitstring AND 0xf00),
      f_cond := drop_bit 28 (bitstring AND 0xf0000000)\<rparr>"

definition USBFX_params :: "u32 \<Rightarrow> arm_params" where
  "USBFX_params bitstring = no_params
    \<lparr>f_rd_bit := drop_bit 12 (bitstring AND 0xf000), f_rm_bit := bitstring AND 0xf,
      f_cond := drop_bit 28 (bitstring AND 0xf0000000), f_u := drop_bit 22 (bitstring AND 0x400000),
      f_imm0 := drop_bit 16 (bitstring AND 0x1f0000), f_imm1 := drop_bit 7 (bitstring AND 0xf80)\<rparr>"

definition SEL_params :: "u32 \<Rightarrow> arm_params" where
  "SEL_params bitstring = no_params
    \<lparr>f_rd_bit := drop_bit 12 (bitstring AND 0xf000), f_rm_bit := bitstring AND 0xf,
      f_rn_bit := drop_bit 16 (bitstring AND 0xf0000), f_rs_bit := drop_bit 8 (bitstring AND 0xf00),
      f_cond := drop_bit 28 (bitstring AND 0xf0000000)\<rparr>"

definition CMN_i_params :: "u32 \<Rightarrow> arm_params" where
  "CMN_i_params bitstring = no_params
    \<lparr>f_rd_bit := drop_bit 12 (bitstring AND 0xf000), f_rn_bit := drop_bit 16 (bitstring AND 0xf0000),
      f_cond := drop_bit 28 (bitstring AND 0xf0000000), f_rotate := drop_bit 8 (bitstring AND 0xf00),
      f_imm := bitstring AND 0xff\<rparr>"

definition CMN_r_params :: "u32 \<Rightarrow> arm_params" where
  "CMN_r_params bitstring = no_params
    \<lparr>f_rd_bit := drop_bit 12 (bitstring AND 0xf000), f_rm_bit := bitstring AND 0xf,
      f_rn_bit := drop_bit 16 (bitstring AND 0xf0000), f_cond := drop_bit 28 (bitstring AND 0xf0000000),
      f_shift_amm := drop_bit 7 (bitstring AND 0xf80), f_shift_op := drop_bit 5 (bitstring AND 0x60)\<rparr>"

definition CMN_sr_params :: "u32 \<Rightarrow> arm_params" where
  "CMN_sr_params bitstring = no_params
    \<lparr>f_rd_bit := drop_bit 12 (bitstring AND 0xf000), f_rm_bit := bitstring AND 0xf,
      f_rn_bit := drop_bit 16 (bitstring AND 0xf0000), f_rs_bit := drop_bit 8 (bitstring AND 0xf00),
      f_cond := drop_bit 28 (bitstring AND 0xf0000000), f_shift_op := drop_bit 5 (bitstring AND 0x60)\<rparr>"

definition CMP_i_params :: "u32 \<Rightarrow> arm_params" where
  "CMP_i_params bitstring = no_params
    \<lparr>f_rd_bit := drop_bit 12 (bitstring AND 0xf000), f_rn_bit := drop_bit 16 (bitstring AND 0xf0000),
      f_cond := drop_bit 28 (bitstring AND 0xf0000000), f_rotate := drop_bit 8 (bitstring AND 0xf00),
      f_imm := bitstring AND 0xff\<rparr>"

definition CMP_r_params :: "u32 \<Rightarrow> arm_params" where
  "CMP_r_params bitstring = no_params
    \<lparr>f_rd_bit := drop_bit 12 (bitstring AND 0xf000), f_rm_bit := bitstring AND 0xf,
      f_rn_bit := drop_bit 16 (bitstring AND 0xf0000), f_cond := drop_bit 28 (bitstring AND 0xf0000000),
      f_shift_amm := drop_bit 7 (bitstring AND 0xf80), f_shift_op := drop_bit 5 (bitstring AND 0x60)\<rparr>"

definition CMP_sr_params :: "u32 \<Rightarrow> arm_params" where
  "CMP_sr_params bitstring = no_params
    \<lparr>f_rd_bit := drop_bit 12 (bitstring AND 0xf000), f_rm_bit := bitstring AND 0xf,
      f_rn_bit := drop_bit 16 (bitstring AND 0xf0000), f_rs_bit := drop_bit 8 (bitstring AND 0xf00),
      f_cond := drop_bit 28 (bitstring AND 0xf0000000), f_shift_op := drop_bit 5 (bitstring AND 0x60)\<rparr>"

definition LDR_i_params :: "u32 \<Rightarrow> arm_params" where
  "LDR_i_params bitstring = no_params
    \<lparr>f_rd_bit := drop_bit 12 (bitstring AND 0xf000), f_rn_bit := drop_bit 16 (bitstring AND 0xf0000),
      f_cond := drop_bit 28 (bitstring AND 0xf0000000), f_p := drop_bit 24 (bitstring AND 0x1000000),
      f_u := drop_bit 23 (bitstring AND 0x800000), f_w := drop_bit 21 (bitstring AND 0x200000),
      f_imm := bitstring AND 0xfff\<rparr>"

definition LDR_r_params :: "u32 \<Rightarrow> arm_params" where
  "LDR_r_params bitstring = no_params
    \<lparr>f_rd_bit := drop_bit 12 (bitstring AND 0xf000), f_rm_bit := bitstring AND 0xf,
      f_rn_bit := drop_bit 16 (bitstring AND 0xf0000), f_cond := drop_bit 28 (bitstring AND 0xf0000000),
      f_p := drop_bit 24 (bitstring AND 0x1000000), f_u := drop_bit 23 (bitstring AND 0x800000),
      f_w := drop_bit 21 (bitstring AND 0x200000), f_shift_amm := drop_bit 7 (bitstring AND 0xf80),
      f_shift_op := drop_bit 5 (bitstring AND 0x60)\<rparr>"

definition LDREX_params :: "u32 \<Rightarrow> arm_params" where
  "LDREX_params bitstring = no_params
    \<lparr>f_rd_bit := drop_bit 12 (bitstring AND 0xf000), f_rm_bit := bitstring AND 0xf,
      f_rn_bit := drop_bit 16 (bitstring AND 0xf0000), f_rs_bit := drop_bit 8 (bitstring AND 0xf00),
      f_cond := drop_bit 28 (bitstring AND 0xf0000000)\<rparr>"

definition LDRB_i_params :: "u32 \<Rightarrow> arm_params" where
  "LDRB_i_params bitstring = no_params
    \<lparr>f_rd_bit := drop_bit 12 (bitstring AND 0xf000), f_rn_bit := drop_bit 16 (bitstring AND 0xf0000),
      f_cond := drop_bit 28 (bitstring AND 0xf0000000), f_p := drop_bit 24 (bitstring AND 0x1000000),
      f_u := drop_bit 23 (bitstring AND 0x800000), f_w := drop_bit 21 (bitstring AND 0x200000),
      f_imm := bitstring AND 0xfff\<rparr>"

definition LDRB_r_params :: "u32 \<Rightarrow> arm_params" where
  "LDRB_r_params bitstring = no_params
    \<lparr>f_rd_bit := drop_bit 12 (bitstring AND 0xf000), f_rm_bit := bitstring AND 0xf,
      f_rn_bit := drop_bit 16 (bitstring AND 0xf0000), f_cond := drop_bit 28 (bitstring AND 0xf0000000),
      f_p := drop_bit 24 (bitstring AND 0x1000000), f_u := drop_bit 23 (bitstring AND 0x800000),
      f_w := drop_bit 21 (bitstring AND 0x200000), f_shift_amm := drop_bit 7 (bitstring AND 0xf80),
      f_shift_op := drop_bit 5 (bitstring AND 0x60)\<rparr>"

definition LDREXB_params :: "u32 \<Rightarrow> arm_params" where
  "LDREXB_params bitstring = no_params
    \<lparr>f_rd_bit := drop_bit 12 (bitstring AND 0xf000), f_rm_bit := bitstring AND 0xf,
      f_rn_bit := drop_bit 16 (bitstring AND 0xf0000), f_rs_bit := drop_bit 8 (bitstring AND 0xf00),
      f_cond := drop_bit 28 (bitstring AND 0xf0000000)\<rparr>"

definition LDRSB_i_params :: "u32 \<Rightarrow> arm_params" where
  "LDRSB_i_params bitstring = no_params
    \<lparr>f_rd_bit := drop_bit 12 (bitstring AND 0xf000), f_rm_bit := bitstring AND 0xf,
      f_rn_bit := drop_bit 16 (bitstring AND 0xf0000), f_cond := drop_bit 28 (bitstring AND 0xf0000000),
      f_p := drop_bit 24 (bitstring AND 0x1000000), f_u := drop_bit 23 (bitstring AND 0x800000),
      f_w := drop_bit 21 (bitstring AND 0x200000), f_imm := drop_bit 8 (bitstring AND 0xf00)\<rparr>"

definition LDRSB_r_params :: "u32 \<Rightarrow> arm_params" where
  "LDRSB_r_params bitstring = no_params
    \<lparr>f_rd_bit := drop_bit 12 (bitstring AND 0xf000), f_rm_bit := bitstring AND 0xf,
      f_rn_bit := drop_bit 16 (bitstring AND 0xf0000), f_cond := drop_bit 28 (bitstring AND 0xf0000000),
      f_p := drop_bit 24 (bitstring AND 0x1000000), f_u := drop_bit 23 (bitstring AND 0x800000),
      f_w := drop_bit 21 (bitstring AND 0x200000), f_imm := drop_bit 8 (bitstring AND 0xf00)\<rparr>"

definition LDRH_i_params :: "u32 \<Rightarrow> arm_params" where
  "LDRH_i_params bitstring = no_params
    \<lparr>f_rd_bit := drop_bit 12 (bitstring AND 0xf000), f_rm_bit := bitstring AND 0xf,
      f_rn_bit := drop_bit 16 (bitstring AND 0xf0000), f_cond := drop_bit 28 (bitstring AND 0xf0000000),
      f_p := drop_bit 24 (bitstring AND 0x1000000), f_u := drop_bit 23 (bitstring AND 0x800000),
      f_w := drop_bit 21 (bitstring AND 0x200000), f_imm := drop_bit 8 (bitstring AND 0xf00)\<rparr>"

definition LDRH_r_params :: "u32 \<Rightarrow> arm_params" where
  "LDRH_r_params bitstring = no_params
    \<lparr>f_rd_bit := drop_bit 12 (bitstring AND 0xf000), f_rm_bit := bitstring AND 0xf,
      f_rn_bit := drop_bit 16 (bitstring AND 0xf0000), f_cond := drop_bit 28 (bitstring AND 0xf0000000),
      f_p := drop_bit 24 (bitstring AND 0x1000000), f_u := drop_bit 23 (bitstring AND 0x800000),
      f_w := drop_bit 21 (bitstring AND 0x200000), f_imm := drop_bit 8 (bitstring AND 0xf00)\<rparr>"

definition LDREXH_params :: "u32 \<Rightarrow> arm_params" where
  "LDREXH_params bitstring = no_params
    \<lparr>f_rd_bit := drop_bit 12 (bitstring AND 0xf000), f_rm_bit := bitstring AND 0xf,
      f_rn_bit := drop_bit 16 (bitstring AND 0xf0000), f_rs_bit := drop_bit 8 (bitstring AND 0xf00),
      f_cond := drop_bit 28 (bitstring AND 0xf0000000)\<rparr>"

definition LDRSH_i_params :: "u32 \<Rightarrow> arm_params" where
  "LDRSH_i_params bitstring = no_params
    \<lparr>f_rd_bit := drop_bit 12 (bitstring AND 0xf000), f_rm_bit := bitstring AND 0xf,
      f_rn_bit := drop_bit 16 (bitstring AND 0xf0000), f_cond := drop_bit 28 (bitstring AND 0xf0000000),
      f_p := drop_bit 24 (bitstring AND 0x1000000), f_u := drop_bit 23 (bitstring AND 0x800000),
      f_w := drop_bit 21 (bitstring AND 0x200000), f_imm := drop_bit 8 (bitstring AND 0xf00)\<rparr>"

definition LDRSH_r_params :: "u32 \<Rightarrow> arm_params" where
  "LDRSH_r_params bitstring = no_params
    \<lparr>f_rd_bit := drop_bit 12 (bitstring AND 0xf000), f_rm_bit := bitstring AND 0xf,
      f_rn_bit := drop_bit 16 (bitstring AND 0xf0000), f_cond := drop_bit 28 (bitstring AND 0xf0000000),
      f_p := drop_bit 24 (bitstring AND 0x1000000), f_u := drop_bit 23 (bitstring AND 0x800000),
      f_w := drop_bit 21 (bitstring AND 0x200000), f_imm := drop_bit 8 (bitstring AND 0xf00)\<rparr>"

definition LDRD_i_params :: "u32 \<Rightarrow> arm_params" where
  "LDRD_i_params bitstring = no_params
    \<lparr>f_rd_bit := drop_bit 12 (bitstring AND 0xf000), f_rm_bit := bitstring AND 0xf,
      f_rn_bit := drop_bit 16 (bitstring AND 0xf0000), f_cond := drop_bit 28 (bitstring AND 0xf0000000),
      f_p := drop_bit 24 (bitstring AND 0x1000000), f_u := drop_bit 23 (bitstring AND 0x800000),
      f_w := drop_bit 21 (bitstring AND 0x200000), f_imm := drop_bit 8 (bitstring AND 0xf00)\<rparr>"

definition LDRD_r_params :: "u32 \<Rightarrow> arm_params" where
  "LDRD_r_params bitstring = no_params
    \<lparr>f_rd_bit := drop_bit 12 (bitstring AND 0xf000), f_rm_bit := bitstring AND 0xf,
      f_rn_bit := drop_bit 16 (bitstring AND 0xf0000), f_cond := drop_bit 28 (bitstring AND 0xf0000000),
      f_p := drop_bit 24 (bitstring AND 0x1000000), f_u := drop_bit 23 (bitstring AND 0x800000),
      f_w := drop_bit 21 (bitstring AND 0x200000), f_imm := drop_bit 8 (bitstring AND 0xf00)\<rparr>"

definition LDREXD_params :: "u32 \<Rightarrow> arm_params" where
  "LDREXD_params bitstring = no_params
    \<lparr>f_rd_bit := drop_bit 12 (bitstring AND 0xf000), f_rm_bit := bitstring AND 0xf,
      f_rn_bit := drop_bit 16 (bitstring AND 0xf0000), f_rs_bit := drop_bit 8 (bitstring AND 0xf00),
      f_cond := drop_bit 28 (bitstring AND 0xf0000000)\<rparr>"

definition STR_i_params :: "u32 \<Rightarrow> arm_params" where
  "STR_i_params bitstring = no_params
    \<lparr>f_rd_bit := drop_bit 12 (bitstring AND 0xf000), f_rn_bit := drop_bit 16 (bitstring AND 0xf0000),
      f_cond := drop_bit 28 (bitstring AND 0xf0000000), f_p := drop_bit 24 (bitstring AND 0x1000000),
      f_u := drop_bit 23 (bitstring AND 0x800000), f_w := drop_bit 21 (bitstring AND 0x200000),
      f_imm := bitstring AND 0xfff\<rparr>"

definition STR_r_params :: "u32 \<Rightarrow> arm_params" where
  "STR_r_params bitstring = no_params
    \<lparr>f_rd_bit := drop_bit 12 (bitstring AND 0xf000), f_rm_bit := bitstring AND 0xf,
      f_rn_bit := drop_bit 16 (bitstring AND 0xf0000), f_cond := drop_bit 28 (bitstring AND 0xf0000000),
      f_p := drop_bit 24 (bitstring AND 0x1000000), f_u := drop_bit 23 (bitstring AND 0x800000),
      f_w := drop_bit 21 (bitstring AND 0x200000), f_shift_amm := drop_bit 7 (bitstring AND 0xf80),
      f_shift_op := drop_bit 5 (bitstring AND 0x60)\<rparr>"

definition STREX_params :: "u32 \<Rightarrow> arm_params" where
  "STREX_params bitstring = no_params
    \<lparr>f_rd_bit := drop_bit 12 (bitstring AND 0xf000), f_rm_bit := bitstring AND 0xf,
      f_rn_bit := drop_bit 16 (bitstring AND 0xf0000), f_rs_bit := drop_bit 8 (bitstring AND 0xf00),
      f_cond := drop_bit 28 (bitstring AND 0xf0000000)\<rparr>"

definition STRB_i_params :: "u32 \<Rightarrow> arm_params" where
  "STRB_i_params bitstring = no_params
    \<lparr>f_rd_bit := drop_bit 12 (bitstring AND 0xf000), f_rn_bit := drop_bit 16 (bitstring AND 0xf0000),
      f_cond := drop_bit 28 (bitstring AND 0xf0000000), f_p := drop_bit 24 (bitstring AND 0x1000000),
      f_u := drop_bit 23 (bitstring AND 0x800000), f_w := drop_bit 21 (bitstring AND 0x200000),
      f_imm := bitstring AND 0xfff\<rparr>"

definition STRB_r_params :: "u32 \<Rightarrow> arm_params" where
  "STRB_r_params bitstring = no_params
    \<lparr>f_rd_bit := drop_bit 12 (bitstring AND 0xf000), f_rm_bit := bitstring AND 0xf,
      f_rn_bit := drop_bit 16 (bitstring AND 0xf0000), f_cond := drop_bit 28 (bitstring AND 0xf0000000),
      f_p := drop_bit 24 (bitstring AND 0x1000000), f_u := drop_bit 23 (bitstring AND 0x800000),
      f_w := drop_bit 21 (bitstring AND 0x200000), f_shift_amm := drop_bit 7 (bitstring AND 0xf80),
      f_shift_op := drop_bit 5 (bitstring AND 0x60)\<rparr>"

definition STREXB_params :: "u32 \<Rightarrow> arm_params" where
  "STREXB_params bitstring = no_params
    \<lparr>f_rd_bit := drop_bit 12 (bitstring AND 0xf000), f_rm_bit := bitstring AND 0xf,
      f_rn_bit := drop_bit 16 (bitstring AND 0xf0000), f_rs_bit := drop_bit 8 (bitstring AND 0xf00),
      f_cond := drop_bit 28 (bitstring AND 0xf0000000)\<rparr>"

definition STRH_i_params :: "u32 \<Rightarrow> arm_params" where
  "STRH_i_params bitstring = no_params
    \<lparr>f_rd_bit := drop_bit 12 (bitstring AND 0xf000), f_rm_bit := bitstring AND 0xf,
      f_rn_bit := drop_bit 16 (bitstring AND 0xf0000), f_cond := drop_bit 28 (bitstring AND 0xf0000000),
      f_p := drop_bit 24 (bitstring AND 0x1000000), f_u := drop_bit 23 (bitstring AND 0x800000),
      f_w := drop_bit 21 (bitstring AND 0x200000), f_imm := drop_bit 8 (bitstring AND 0xf00)\<rparr>"

definition STRH_r_params :: "u32 \<Rightarrow> arm_params" where
  "STRH_r_params bitstring = no_params
    \<lparr>f_rd_bit := drop_bit 12 (bitstring AND 0xf000), f_rm_bit := bitstring AND 0xf,
      f_rn_bit := drop_bit 16 (bitstring AND 0xf0000), f_cond := drop_bit 28 (bitstring AND 0xf0000000),
      f_p := drop_bit 24 (bitstring AND 0x1000000), f_u := drop_bit 23 (bitstring AND 0x800000),
      f_w := drop_bit 21 (bitstring AND 0x200000), f_imm := drop_bit 8 (bitstring AND 0xf00)\<rparr>"

definition STREXH_params :: "u32 \<Rightarrow> arm_params" where
  "STREXH_params bitstring = no_params
    \<lparr>f_rd_bit := drop_bit 12 (bitstring AND 0xf000), f_rm_bit := bitstring AND 0xf,
      f_rn_bit := drop_bit 16 (bitstring AND 0xf0000), f_rs_bit := drop_bit 8 (bitstring AND 0xf00),
      f_cond := drop_bit 28 (bitstring AND 0xf0000000)\<rparr>"

definition STRD_i_params :: "u32 \<Rightarrow> arm_params" where
  "STRD_i_params bitstring = no_params
    \<lparr>f_rd_bit := drop_bit 12 (bitstring AND 0xf000), f_rm_bit := bitstring AND 0xf,
      f_rn_bit := drop_bit 16 (bitstring AND 0xf0000), f_cond := drop_bit 28 (bitstring AND 0xf0000000),
      f_p := drop_bit 24 (bitstring AND 0x1000000), f_u := drop_bit 23 (bitstring AND 0x800000),
      f_w := drop_bit 21 (bitstring AND 0x200000), f_imm := drop_bit 8 (bitstring AND 0xf00)\<rparr>"

definition STRD_r_params :: "u32 \<Rightarrow> arm_params" where
  "STRD_r_params bitstring = no_params
    \<lparr>f_rd_bit := drop_bit 12 (bitstring AND 0xf000), f_rm_bit := bitstring AND 0xf,
      f_rn_bit := drop_bit 16 (bitstring AND 0xf0000), f_cond := drop_bit 28 (bitstring AND 0xf0000000),
      f_p := drop_bit 24 (bitstring AND 0x1000000), f_u := drop_bit 23 (bitstring AND 0x800000),
      f_w := drop_bit 21 (bitstring AND 0x200000), f_imm := drop_bit 8 (bitstring AND 0xf00)\<rparr>"

definition STREXD_params :: "u32 \<Rightarrow> arm_params" where
  "STREXD_params bitstring = no_params
    \<lparr>f_rd_bit := drop_bit 12 (bitstring AND 0xf000), f_rm_bit := bitstring AND 0xf,
      f_rn_bit := drop_bit 16 (bitstring AND 0xf0000), f_rs_bit := drop_bit 8 (bitstring AND 0xf00),
      f_cond := drop_bit 28 (bitstring AND 0xf0000000)\<rparr>"

definition LDM_params :: "u32 \<Rightarrow> arm_params" where
  "LDM_params bitstring = no_params
    \<lparr>f_rn_bit := drop_bit 16 (bitstring AND 0xf0000), f_cond := drop_bit 28 (bitstring AND 0xf0000000),
      f_p := drop_bit 24 (bitstring AND 0x1000000), f_u := drop_bit 23 (bitstring AND 0x800000),
      f_s := drop_bit 22 (bitstring AND 0x400000), f_w := drop_bit 21 (bitstring AND 0x200000),
      f_reg_list := bitstring AND 0xffff\<rparr>"

definition LDMIB_params :: "u32 \<Rightarrow> arm_params" where
  "LDMIB_params bitstring = no_params
    \<lparr>f_rn_bit := drop_bit 16 (bitstring AND 0xf0000), f_cond := drop_bit 28 (bitstring AND 0xf0000000),
      f_p := drop_bit 24 (bitstring AND 0x1000000), f_u := drop_bit 23 (bitstring AND 0x800000),
      f_s := drop_bit 22 (bitstring AND 0x400000), f_w := drop_bit 21 (bitstring AND 0x200000),
      f_reg_list := bitstring AND 0xffff\<rparr>"

definition LDMDA_params :: "u32 \<Rightarrow> arm_params" where
  "LDMDA_params bitstring = no_params
    \<lparr>f_rn_bit := drop_bit 16 (bitstring AND 0xf0000), f_cond := drop_bit 28 (bitstring AND 0xf0000000),
      f_p := drop_bit 24 (bitstring AND 0x1000000), f_u := drop_bit 23 (bitstring AND 0x800000),
      f_s := drop_bit 22 (bitstring AND 0x400000), f_w := drop_bit 21 (bitstring AND 0x200000),
      f_reg_list := bitstring AND 0xffff\<rparr>"

definition LDMDB_params :: "u32 \<Rightarrow> arm_params" where
  "LDMDB_params bitstring = no_params
    \<lparr>f_rn_bit := drop_bit 16 (bitstring AND 0xf0000), f_cond := drop_bit 28 (bitstring AND 0xf0000000),
      f_p := drop_bit 24 (bitstring AND 0x1000000), f_u := drop_bit 23 (bitstring AND 0x800000),
      f_s := drop_bit 22 (bitstring AND 0x400000), f_w := drop_bit 21 (bitstring AND 0x200000),
      f_reg_list := bitstring AND 0xffff\<rparr>"

definition POP_single_params :: "u32 \<Rightarrow> arm_params" where
  "POP_single_params bitstring = no_params
    \<lparr>f_cond := drop_bit 28 (bitstring AND 0xf0000000), f_imm0 := drop_bit 12 (bitstring AND 0xf000)\<rparr>"

definition POP_block_params :: "u32 \<Rightarrow> arm_params" where
  "POP_block_params bitstring = no_params
    \<lparr>f_cond := drop_bit 28 (bitstring AND 0xf0000000), f_imm0 := drop_bit 12 (bitstring AND 0xf000),
      f_imm1 := bitstring AND 0xfff\<rparr>"

definition STM_params :: "u32 \<Rightarrow> arm_params" where
  "STM_params bitstring = no_params
    \<lparr>f_rn_bit := drop_bit 16 (bitstring AND 0xf0000), f_cond := drop_bit 28 (bitstring AND 0xf0000000),
      f_p := drop_bit 24 (bitstring AND 0x1000000), f_u := drop_bit 23 (bitstring AND 0x800000),
      f_s := drop_bit 22 (bitstring AND 0x400000), f_w := drop_bit 21 (bitstring AND 0x200000),
      f_reg_list := bitstring AND 0xffff\<rparr>"

definition STMIB_params :: "u32 \<Rightarrow> arm_params" where
  "STMIB_params bitstring = no_params
    \<lparr>f_rn_bit := drop_bit 16 (bitstring AND 0xf0000), f_cond := drop_bit 28 (bitstring AND 0xf0000000),
      f_p := drop_bit 24 (bitstring AND 0x1000000), f_u := drop_bit 23 (bitstring AND 0x800000),
      f_s := drop_bit 22 (bitstring AND 0x400000), f_w := drop_bit 21 (bitstring AND 0x200000),
      f_reg_list := bitstring AND 0xffff\<rparr>"

definition STMDA_params :: "u32 \<Rightarrow> arm_params" where
  "STMDA_params bitstring = no_params
    \<lparr>f_rn_bit := drop_bit 16 (bitstring AND 0xf0000), f_cond := drop_bit 28 (bitstring AND 0xf0000000),
      f_p := drop_bit 24 (bitstring AND 0x1000000), f_u := drop_bit 23 (bitstring AND 0x800000),
      f_s := drop_bit 22 (bitstring AND 0x400000), f_w := drop_bit 21 (bitstring AND 0x200000),
      f_reg_list := bitstring AND 0xffff\<rparr>"

definition STMDB_params :: "u32 \<Rightarrow> arm_params" where
  "STMDB_params bitstring = no_params
    \<lparr>f_rn_bit := drop_bit 16 (bitstring AND 0xf0000), f_cond := drop_bit 28 (bitstring AND 0xf0000000),
      f_p := drop_bit 24 (bitstring AND 0x1000000), f_u := drop_bit 23 (bitstring AND 0x800000),
      f_s := drop_bit 22 (bitstring AND 0x400000), f_w := drop_bit 21 (bitstring AND 0x200000),
      f_reg_list := bitstring AND 0xffff\<rparr>"

definition PUSH_single_params :: "u32 \<Rightarrow> arm_params" where
  "PUSH_single_params bitstring = no_params
    \<lparr>f_cond := drop_bit 28 (bitstring AND 0xf0000000), f_imm0 := drop_bit 12 (bitstring AND 0xf000)\<rparr>"

definition PUSH_block_params :: "u32 \<Rightarrow> arm_params" where
  "PUSH_block_params bitstring = no_params
    \<lparr>f_cond := drop_bit 28 (bitstring AND 0xf0000000), f_imm0 := drop_bit 12 (bitstring AND 0xf000),
      f_imm1 := bitstring AND 0xfff\<rparr>"

definition MOV_i_params :: "u32 \<Rightarrow> arm_params" where
  "MOV_i_params bitstring = no_params
    \<lparr>f_rd_bit := drop_bit 12 (bitstring AND 0xf000), f_rn_bit := drop_bit 16 (bitstring AND 0xf0000),
      f_cond := drop_bit 28 (bitstring AND 0xf0000000), f_s := drop_bit 20 (bitstring AND 0x100000),
      f_rotate := drop_bit 8 (bitstring AND 0xf00), f_imm := bitstring AND 0xff\<rparr>"

definition MOV_r_params :: "u32 \<Rightarrow> arm_params" where
  "MOV_r_params bitstring = no_params
    \<lparr>f_rd_bit := drop_bit 12 (bitstring AND 0xf000), f_rm_bit := bitstring AND 0xf,
      f_rn_bit := drop_bit 16 (bitstring AND 0xf0000), f_cond := drop_bit 28 (bitstring AND 0xf0000000),
      f_s := drop_bit 20 (bitstring AND 0x100000)\<rparr>"

definition MOVW_params :: "u32 \<Rightarrow> arm_params" where
  "MOVW_params bitstring = no_params
    \<lparr>f_rd_bit := drop_bit 12 (bitstring AND 0xf000), f_cond := drop_bit 28 (bitstring AND 0xf0000000),
      f_imm0a := drop_bit 18 (bitstring AND 0xc0000), f_imm0b := drop_bit 16 (bitstring AND 0x30000),
      f_imm1a := drop_bit 10 (bitstring AND 0xc00), f_b := drop_bit 9 (bitstring AND 0x200),
      f_imm1b := drop_bit 8 (bitstring AND 0x100), f_op1 := drop_bit 4 (bitstring AND 0xf0),
      f_imm2 := bitstring AND 0xf\<rparr>"

definition MOVT_params :: "u32 \<Rightarrow> arm_params" where
  "MOVT_params bitstring = no_params
    \<lparr>f_rd_bit := drop_bit 12 (bitstring AND 0xf000), f_cond := drop_bit 28 (bitstring AND 0xf0000000),
      f_imm0a := drop_bit 18 (bitstring AND 0xc0000), f_imm0b := drop_bit 16 (bitstring AND 0x30000),
      f_imm1a := drop_bit 10 (bitstring AND 0xc00), f_b := drop_bit 9 (bitstring AND 0x200),
      f_imm1b := drop_bit 8 (bitstring AND 0x100), f_op1 := drop_bit 4 (bitstring AND 0xf0),
      f_imm2 := bitstring AND 0xf\<rparr>"

definition SWP_params :: "u32 \<Rightarrow> arm_params" where
  "SWP_params bitstring = no_params
    \<lparr>f_rd_bit := drop_bit 12 (bitstring AND 0xf000), f_rm_bit := bitstring AND 0xf,
      f_rn_bit := drop_bit 16 (bitstring AND 0xf0000), f_rs_bit := drop_bit 8 (bitstring AND 0xf00),
      f_cond := drop_bit 28 (bitstring AND 0xf0000000), f_b := drop_bit 22 (bitstring AND 0x400000)\<rparr>"

definition MRS_params :: "u32 \<Rightarrow> arm_params" where
  "MRS_params bitstring = no_params
    \<lparr>f_rd_bit := drop_bit 12 (bitstring AND 0xf000), f_cond := drop_bit 28 (bitstring AND 0xf0000000),
      f_r := drop_bit 22 (bitstring AND 0x400000), f_imm0a := drop_bit 18 (bitstring AND 0xc0000),
      f_imm0b := drop_bit 16 (bitstring AND 0x30000), f_imm1a := drop_bit 10 (bitstring AND 0xc00),
      f_b := drop_bit 9 (bitstring AND 0x200), f_imm1b := drop_bit 8 (bitstring AND 0x100),
      f_imm2 := bitstring AND 0xf\<rparr>"

definition MSR_i_params :: "u32 \<Rightarrow> arm_params" where
  "MSR_i_params bitstring = no_params
    \<lparr>f_rd_bit := drop_bit 12 (bitstring AND 0xf000), f_cond := drop_bit 28 (bitstring AND 0xf0000000),
      f_r := drop_bit 22 (bitstring AND 0x400000), f_imm0a := drop_bit 18 (bitstring AND 0xc0000),
      f_imm0b := drop_bit 16 (bitstring AND 0x30000), f_imm1a := drop_bit 10 (bitstring AND 0xc00),
      f_b := drop_bit 9 (bitstring AND 0x200), f_imm1b := drop_bit 8 (bitstring AND 0x100),
      f_op1 := drop_bit 4 (bitstring AND 0xf0), f_imm2 := bitstring AND 0xf\<rparr>"

definition MSR_r_params :: "u32 \<Rightarrow> arm_params" where
  "MSR_r_params bitstring = no_params
    \<lparr>f_rd_bit := drop_bit 12 (bitstring AND 0xf000), f_cond := drop_bit 28 (bitstring AND 0xf0000000),
      f_r := drop_bit 22 (bitstring AND 0x400000), f_imm0a := drop_bit 18 (bitstring AND 0xc0000),
      f_imm0b := drop_bit 16 (bitstring AND 0x30000), f_imm1a := drop_bit 10 (bitstring AND 0xc00),
      f_b := drop_bit 9 (bitstring AND 0x200), f_imm1b := drop_bit 8 (bitstring AND 0x100),
      f_imm2 := bitstring AND 0xf\<rparr>"

definition B_params :: "u32 \<Rightarrow> arm_params" where
  "B_params bitstring = no_params
    \<lparr>f_cond := drop_bit 28 (bitstring AND 0xf0000000), f_offset := bitstring AND 0xffffff\<rparr>"

definition BL_params :: "u32 \<Rightarrow> arm_params" where
  "BL_params bitstring = no_params
    \<lparr>f_cond := drop_bit 28 (bitstring AND 0xf0000000), f_offset := bitstring AND 0xffffff\<rparr>"

definition BX_params :: "u32 \<Rightarrow> arm_params" where
  "BX_params bitstring = no_params
    \<lparr>f_rd_bit := drop_bit 12 (bitstring AND 0xf000), f_rm_bit := bitstring AND 0xf,
      f_rn_bit := drop_bit 16 (bitstring AND 0xf0000), f_rs_bit := drop_bit 8 (bitstring AND 0xf00),
      f_cond := drop_bit 28 (bitstring AND 0xf0000000)\<rparr>"

definition BLX_i_params :: "u32 \<Rightarrow> arm_params" where
  "BLX_i_params bitstring = no_params
    \<lparr>f_cond := drop_bit 28 (bitstring AND 0xf0000000), f_l := drop_bit 24 (bitstring AND 0x1000000),
      f_offset := bitstring AND 0xffffff\<rparr>"

definition BLX_r_params :: "u32 \<Rightarrow> arm_params" where
  "BLX_r_params bitstring = no_params
    \<lparr>f_rd_bit := drop_bit 12 (bitstring AND 0xf000), f_rm_bit := bitstring AND 0xf,
      f_rn_bit := drop_bit 16 (bitstring AND 0xf0000), f_rs_bit := drop_bit 8 (bitstring AND 0xf00),
      f_cond := drop_bit 28 (bitstring AND 0xf0000000)\<rparr>"

definition BXJ_params :: "u32 \<Rightarrow> arm_params" where
  "BXJ_params bitstring = no_params
    \<lparr>f_rd_bit := drop_bit 12 (bitstring AND 0xf000), f_rm_bit := bitstring AND 0xf,
      f_rn_bit := drop_bit 16 (bitstring AND 0xf0000), f_rs_bit := drop_bit 8 (bitstring AND 0xf00),
      f_cond := drop_bit 28 (bitstring AND 0xf0000000)\<rparr>"

definition BKPT_params :: "u32 \<Rightarrow> arm_params" where
  "BKPT_params bitstring = no_params
    \<lparr>f_rd_bit := drop_bit 12 (bitstring AND 0xf000), f_rm_bit := bitstring AND 0xf,
      f_rn_bit := drop_bit 16 (bitstring AND 0xf0000), f_rs_bit := drop_bit 8 (bitstring AND 0xf00),
      f_cond := drop_bit 28 (bitstring AND 0xf0000000)\<rparr>"

definition CLREX_params :: "u32 \<Rightarrow> arm_params" where
  "CLREX_params bitstring = no_params
    \<lparr>f_rd_bit := drop_bit 12 (bitstring AND 0xf000), f_rm_bit := bitstring AND 0xf,
      f_rn_bit := drop_bit 16 (bitstring AND 0xf0000), f_rs_bit := drop_bit 8 (bitstring AND 0xf00)\<rparr>"

definition CPS_params :: "u32 \<Rightarrow> arm_params" where
  "CPS_params bitstring = no_params
    \<lparr>f_op2 := drop_bit 18 (bitstring AND 0xc0000), f_M := drop_bit 17 (bitstring AND 0x20000),
      f_b15to10 := drop_bit 10 (bitstring AND 0xfc00), f_E := drop_bit 9 (bitstring AND 0x200),
      f_A := drop_bit 8 (bitstring AND 0x100), f_I := drop_bit 7 (bitstring AND 0x80),
      f_F := drop_bit 6 (bitstring AND 0x40), f_mode0 := drop_bit 4 (bitstring AND 0x10),
      f_mode1 := bitstring AND 0xf\<rparr>"

definition DBG_params :: "u32 \<Rightarrow> arm_params" where
  "DBG_params bitstring = no_params
    \<lparr>f_rd_bit := drop_bit 12 (bitstring AND 0xf000), f_rs_bit := drop_bit 8 (bitstring AND 0xf00),
      f_cond := drop_bit 28 (bitstring AND 0xf0000000), f_rm := bitstring AND 0xf\<rparr>"

definition DMB_params :: "u32 \<Rightarrow> arm_params" where
  "DMB_params bitstring = no_params
    \<lparr>f_rd_bit := drop_bit 12 (bitstring AND 0xf000), f_rm_bit := bitstring AND 0xf,
      f_rn_bit := drop_bit 16 (bitstring AND 0xf0000), f_rs_bit := drop_bit 8 (bitstring AND 0xf00)\<rparr>"

definition DSB_params :: "u32 \<Rightarrow> arm_params" where
  "DSB_params bitstring = no_params
    \<lparr>f_rd_bit := drop_bit 12 (bitstring AND 0xf000), f_rm_bit := bitstring AND 0xf,
      f_rn_bit := drop_bit 16 (bitstring AND 0xf0000), f_rs_bit := drop_bit 8 (bitstring AND 0xf00)\<rparr>"

definition ISB_params :: "u32 \<Rightarrow> arm_params" where
  "ISB_params bitstring = no_params
    \<lparr>f_rd_bit := drop_bit 12 (bitstring AND 0xf000), f_rm_bit := bitstring AND 0xf,
      f_rn_bit := drop_bit 16 (bitstring AND 0xf0000), f_rs_bit := drop_bit 8 (bitstring AND 0xf00)\<rparr>"

definition NOP_params :: "u32 \<Rightarrow> arm_params" where
  "NOP_params bitstring = no_params
    \<lparr>f_rd_bit := drop_bit 12 (bitstring AND 0xf000), f_rs_bit := drop_bit 8 (bitstring AND 0xf00),
      f_cond := drop_bit 28 (bitstring AND 0xf0000000)\<rparr>"

definition PLI_i_params :: "u32 \<Rightarrow> arm_params" where
  "PLI_i_params bitstring = no_params
    \<lparr>f_rd_bit := drop_bit 12 (bitstring AND 0xf000), f_rm_bit := bitstring AND 0xf,
      f_rn_bit := drop_bit 16 (bitstring AND 0xf0000), f_rs_bit := drop_bit 8 (bitstring AND 0xf00),
      f_u := drop_bit 23 (bitstring AND 0x800000), f_op1a := drop_bit 5 (bitstring AND 0xe0),
      f_op1b := drop_bit 4 (bitstring AND 0x10)\<rparr>"

definition PLI_r_params :: "u32 \<Rightarrow> arm_params" where
  "PLI_r_params bitstring = no_params
    \<lparr>f_rd_bit := drop_bit 12 (bitstring AND 0xf000), f_rm_bit := bitstring AND 0xf,
      f_rn_bit := drop_bit 16 (bitstring AND 0xf0000), f_rs_bit := drop_bit 8 (bitstring AND 0xf00),
      f_u := drop_bit 23 (bitstring AND 0x800000), f_op1a := drop_bit 5 (bitstring AND 0xe0)\<rparr>"

definition PLD_i_params :: "u32 \<Rightarrow> arm_params" where
  "PLD_i_params bitstring = no_params
    \<lparr>f_rd_bit := drop_bit 12 (bitstring AND 0xf000), f_rm_bit := bitstring AND 0xf,
      f_rn_bit := drop_bit 16 (bitstring AND 0xf0000), f_rs_bit := drop_bit 8 (bitstring AND 0xf00),
      f_u := drop_bit 23 (bitstring AND 0x800000), f_r := drop_bit 22 (bitstring AND 0x400000),
      f_op1a := drop_bit 5 (bitstring AND 0xe0), f_op1b := drop_bit 4 (bitstring AND 0x10)\<rparr>"

definition PLD_r_params :: "u32 \<Rightarrow> arm_params" where
  "PLD_r_params bitstring = no_params
    \<lparr>f_rd_bit := drop_bit 12 (bitstring AND 0xf000), f_rm_bit := bitstring AND 0xf,
      f_rn_bit := drop_bit 16 (bitstring AND 0xf0000), f_rs_bit := drop_bit 8 (bitstring AND 0xf00),
      f_u := drop_bit 23 (bitstring AND 0x800000), f_r := drop_bit 22 (bitstring AND 0x400000),
      f_op1a := drop_bit 5 (bitstring AND 0xe0)\<rparr>"

definition RFE_params :: "u32 \<Rightarrow> arm_params" where
  "RFE_params bitstring = no_params
    \<lparr>f_rn_bit := drop_bit 16 (bitstring AND 0xf0000), f_p := drop_bit 24 (bitstring AND 0x1000000),
      f_u := drop_bit 23 (bitstring AND 0x800000), f_w := drop_bit 21 (bitstring AND 0x200000),
      f_imm0 := drop_bit 12 (bitstring AND 0xf000), f_imm1 := drop_bit 8 (bitstring AND 0xf00),
      f_op1 := drop_bit 4 (bitstring AND 0xf0), f_imm2 := bitstring AND 0xf\<rparr>"

definition SETEND_params :: "u32 \<Rightarrow> arm_params" where
  "SETEND_params bitstring = no_params
    \<lparr>f_op2 := drop_bit 18 (bitstring AND 0xc0000), f_M := drop_bit 17 (bitstring AND 0x20000),
      f_b15to10 := drop_bit 10 (bitstring AND 0xfc00), f_E := drop_bit 9 (bitstring AND 0x200),
      f_A := drop_bit 8 (bitstring AND 0x100), f_mode1 := bitstring AND 0xf\<rparr>"

definition SEV_params :: "u32 \<Rightarrow> arm_params" where
  "SEV_params bitstring = no_params
    \<lparr>f_rd_bit := drop_bit 12 (bitstring AND 0xf000), f_rs_bit := drop_bit 8 (bitstring AND 0xf00),
      f_cond := drop_bit 28 (bitstring AND 0xf0000000)\<rparr>"

definition SRS_params :: "u32 \<Rightarrow> arm_params" where
  "SRS_params bitstring = no_params
    \<lparr>f_rn_bit := drop_bit 16 (bitstring AND 0xf0000), f_p := drop_bit 24 (bitstring AND 0x1000000),
      f_u := drop_bit 23 (bitstring AND 0x800000), f_w := drop_bit 21 (bitstring AND 0x200000),
      f_imm0 := drop_bit 12 (bitstring AND 0xf000), f_imm1 := drop_bit 8 (bitstring AND 0xf00),
      f_op1 := drop_bit 4 (bitstring AND 0xf0), f_imm2 := bitstring AND 0xf\<rparr>"

definition SVC_params :: "u32 \<Rightarrow> arm_params" where
  "SVC_params bitstring = no_params
    \<lparr>f_cond := drop_bit 28 (bitstring AND 0xf0000000), f_swi_number := bitstring AND 0xffffff\<rparr>"

definition UDF_params :: "u32 \<Rightarrow> arm_params" where
  "UDF_params bitstring = no_params
    \<lparr>f_cond := drop_bit 28 (bitstring AND 0xf0000000), f_imm0 := drop_bit 16 (bitstring AND 0xf0000),
      f_imm1 := drop_bit 12 (bitstring AND 0xf000), f_imm2 := drop_bit 8 (bitstring AND 0xf00),
      f_imm3 := bitstring AND 0xf\<rparr>"

definition WFE_params :: "u32 \<Rightarrow> arm_params" where
  "WFE_params bitstring = no_params
    \<lparr>f_rd_bit := drop_bit 12 (bitstring AND 0xf000), f_rs_bit := drop_bit 8 (bitstring AND 0xf00),
      f_cond := drop_bit 28 (bitstring AND 0xf0000000)\<rparr>"

definition WFI_params :: "u32 \<Rightarrow> arm_params" where
  "WFI_params bitstring = no_params
    \<lparr>f_rd_bit := drop_bit 12 (bitstring AND 0xf000), f_rs_bit := drop_bit 8 (bitstring AND 0xf00),
      f_cond := drop_bit 28 (bitstring AND 0xf0000000)\<rparr>"

definition YIELD_params :: "u32 \<Rightarrow> arm_params" where
  "YIELD_params bitstring = no_params
    \<lparr>f_rd_bit := drop_bit 12 (bitstring AND 0xf000), f_rs_bit := drop_bit 8 (bitstring AND 0xf00),
      f_cond := drop_bit 28 (bitstring AND 0xf0000000)\<rparr>"

definition SMC_params :: "u32 \<Rightarrow> arm_params" where
  "SMC_params bitstring = no_params
    \<lparr>f_rd_bit := drop_bit 12 (bitstring AND 0xf000), f_rm_bit := bitstring AND 0xf,
      f_rn_bit := drop_bit 16 (bitstring AND 0xf0000), f_rs_bit := drop_bit 8 (bitstring AND 0xf00),
      f_cond := drop_bit 28 (bitstring AND 0xf0000000)\<rparr>"

definition CDP_params :: "u32 \<Rightarrow> arm_params" where
  "CDP_params bitstring = no_params
    \<lparr>f_cprn_bit := drop_bit 16 (bitstring AND 0xf0000), f_cprm_bit := bitstring AND 0xf,
      f_cprd_bit := drop_bit 12 (bitstring AND 0xf000), f_cond := drop_bit 28 (bitstring AND 0xf0000000),
      f_op0 := drop_bit 20 (bitstring AND 0xf00000), f_cpnum := drop_bit 8 (bitstring AND 0xf00),
      f_op1 := drop_bit 5 (bitstring AND 0xe0)\<rparr>"

definition LDC_params :: "u32 \<Rightarrow> arm_params" where
  "LDC_params bitstring = no_params
    \<lparr>f_rn_bit := drop_bit 16 (bitstring AND 0xf0000), f_cprd_bit := drop_bit 12 (bitstring AND 0xf000),
      f_cond := drop_bit 28 (bitstring AND 0xf0000000), f_p := drop_bit 24 (bitstring AND 0x1000000),
      f_u := drop_bit 23 (bitstring AND 0x800000), f_d := drop_bit 22 (bitstring AND 0x400000),
      f_w := drop_bit 21 (bitstring AND 0x200000), f_cpnum := drop_bit 8 (bitstring AND 0xf00),
      f_imm := bitstring AND 0xff\<rparr>"

definition STC_params :: "u32 \<Rightarrow> arm_params" where
  "STC_params bitstring = no_params
    \<lparr>f_rn_bit := drop_bit 16 (bitstring AND 0xf0000), f_cprd_bit := drop_bit 12 (bitstring AND 0xf000),
      f_cond := drop_bit 28 (bitstring AND 0xf0000000), f_p := drop_bit 24 (bitstring AND 0x1000000),
      f_u := drop_bit 23 (bitstring AND 0x800000), f_d := drop_bit 22 (bitstring AND 0x400000),
      f_w := drop_bit 21 (bitstring AND 0x200000), f_cpnum := drop_bit 8 (bitstring AND 0xf00),
      f_imm := bitstring AND 0xff\<rparr>"

definition MCR_params :: "u32 \<Rightarrow> arm_params" where
  "MCR_params bitstring = no_params
    \<lparr>f_rd_bit := drop_bit 12 (bitstring AND 0xf000), f_rn_bit := drop_bit 16 (bitstring AND 0xf0000),
      f_cprm_bit := bitstring AND 0xf, f_cond := drop_bit 28 (bitstring AND 0xf0000000),
      f_op0 := drop_bit 21 (bitstring AND 0xe00000), f_cpnum := drop_bit 8 (bitstring AND 0xf00),
      f_op1 := drop_bit 5 (bitstring AND 0xe0)\<rparr>"

definition MCRR_params :: "u32 \<Rightarrow> arm_params" where
  "MCRR_params bitstring = no_params
    \<lparr>f_rd_bit := drop_bit 12 (bitstring AND 0xf000), f_rn_bit := drop_bit 16 (bitstring AND 0xf0000),
      f_cprm_bit := bitstring AND 0xf, f_cond := drop_bit 28 (bitstring AND 0xf0000000),
      f_cpnum := drop_bit 8 (bitstring AND 0xf00), f_op1 := drop_bit 5 (bitstring AND 0xe0),
      f_e := drop_bit 4 (bitstring AND 0x10)\<rparr>"

definition MRC_params :: "u32 \<Rightarrow> arm_params" where
  "MRC_params bitstring = no_params
    \<lparr>f_rd_bit := drop_bit 12 (bitstring AND 0xf000), f_rn_bit := drop_bit 16 (bitstring AND 0xf0000),
      f_cprm_bit := bitstring AND 0xf, f_cond := drop_bit 28 (bitstring AND 0xf0000000),
      f_op0 := drop_bit 21 (bitstring AND 0xe00000), f_cpnum := drop_bit 8 (bitstring AND 0xf00),
      f_op1 := drop_bit 5 (bitstring AND 0xe0)\<rparr>"

definition MRRC_params :: "u32 \<Rightarrow> arm_params" where
  "MRRC_params bitstring = no_params
    \<lparr>f_rd_bit := drop_bit 12 (bitstring AND 0xf000), f_rn_bit := drop_bit 16 (bitstring AND 0xf0000),
      f_cprm_bit := bitstring AND 0xf, f_cond := drop_bit 28 (bitstring AND 0xf0000000),
      f_cpnum := drop_bit 8 (bitstring AND 0xf00), f_op1 := drop_bit 5 (bitstring AND 0xe0),
      f_e := drop_bit 4 (bitstring AND 0x10)\<rparr>"

text \<open>The invalid instruction has no fields.\<close>

definition arm_set_params :: "(u32 \<Rightarrow> arm_params) list" where
  "arm_set_params = [ADD_i_params, ADD_r_params, ADD_sr_params, ADC_i_params, ADC_r_params, ADC_sr_params, SUB_i_params,
     SUB_r_params, SUB_sr_params, SBC_i_params, SBC_r_params, SBC_sr_params, RSB_i_params, RSB_r_params,
     RSB_sr_params, RSC_i_params, RSC_r_params, RSC_sr_params, USHQADD_params, USHQSUB_params, USADA8_params,
     USXTAHB_params, USHQASX_params, USHQSAX_params, USSAT_params, USSAT16_params, QDADDSUB_params, MUL_params,
     SMMUL_params, MULL_params, UMAAL_params, SMULBW_params, SMMULD_params, DIV_params, AND_i_params,
     AND_r_params, AND_sr_params, EOR_i_params, EOR_r_params, EOR_sr_params, MVN_i_params, MVN_r_params,
     MVN_sr_params, ORR_i_params, ORR_r_params, ORR_sr_params, TEQ_i_params, TEQ_r_params, TEQ_sr_params,
     TST_i_params, TST_r_params, TST_sr_params, ASR_r_params, ASR_sr_params, LSR_r_params, LSR_sr_params,
     LSL_r_params, LSL_sr_params, ROR_r_params, ROR_sr_params, BFCI_params, BIC_i_params, BIC_r_params,
     BIC_sr_params, CLZ_params, PKH_params, RBIT_params, REV_params, REV16_params, REVSH_params, USBFX_params,
     SEL_params, CMN_i_params, CMN_r_params, CMN_sr_params, CMP_i_params, CMP_r_params, CMP_sr_params,
     LDR_i_params, LDR_r_params, LDREX_params, LDRB_i_params, LDRB_r_params, LDREXB_params, LDRSB_i_params,
     LDRSB_r_params, LDRH_i_params, LDRH_r_params, LDREXH_params, LDRSH_i_params, LDRSH_r_params, LDRD_i_params,
     LDRD_r_params, LDREXD_params, STR_i_params, STR_r_params, STREX_params, STRB_i_params, STRB_r_params,
     STREXB_params, STRH_i_params, STRH_r_params, STREXH_params, STRD_i_params, STRD_r_params, STREXD_params,
     LDM_params, LDMIB_params, LDMDA_params, LDMDB_params, POP_single_params, POP_block_params, STM_params,
     STMIB_params, STMDA_params, STMDB_params, PUSH_single_params, PUSH_block_params, MOV_i_params,
     MOV_r_params, MOVW_params, MOVT_params, SWP_params, MRS_params, MSR_i_params, MSR_r_params, B_params,
     BL_params, BX_params, BLX_i_params, BLX_r_params, BXJ_params, BKPT_params, CLREX_params, CPS_params,
     DBG_params, DMB_params, DSB_params, ISB_params, NOP_params, PLI_i_params, PLI_r_params, PLD_i_params,
     PLD_r_params, RFE_params, SETEND_params, SEV_params, SRS_params, SVC_params, UDF_params, WFE_params,
     WFI_params, YIELD_params, SMC_params, CDP_params, LDC_params, STC_params, MCR_params, MCRR_params,
     MRC_params, MRRC_params, (\<lambda>_. no_params)]"

lemma length_arm_set_params [simp]: "length arm_set_params = 162"
  by (simp add: arm_set_params_def)

end
