(* ===== verification/Arm_Alu.thy ===== *)
theory Arm_Alu
  imports Arm_Params
begin

text \<open>
  The operations that the ARM instruction classes inherit (\<^verbatim>\<open>ConditionPassed\<close>,
  \<^verbatim>\<open>ARMExpandImm\<close>, \<^verbatim>\<open>DecodeImmShift\<close>, \<^verbatim>\<open>DecodeRegShift\<close> and the
  \<^verbatim>\<open>UpdatePSR\<close> family) and the data-processing instructions
  (src/arm/arm/intunit/instructions.cpp), one definition per \<^verbatim>\<open>behavior\<close>.  An instruction
  returns its cycles; \<^verbatim>\<open>THROW_WARNING\<close> only writes to the log and is left out.
\<close>

section \<open>Operations\<close>

definition ConditionPassed :: "u32 \<Rightarrow> 'm arm \<Rightarrow> bool" where
  "ConditionPassed c s =
     (if c = 0x0 then cpsr CPSR_Z s \<noteq> 0x0
      else if c = 0x1 then cpsr CPSR_Z s = 0x0
      else if c = 0x2 then cpsr CPSR_C s \<noteq> 0x0
      else if c = 0x3 then cpsr CPSR_C s = 0x0
      else if c = 0x4 then cpsr CPSR_N s \<noteq> 0x0
      else if c = 0x5 then cpsr CPSR_N s = 0x0
      else if c = 0x6 then cpsr CPSR_V s \<noteq> 0x0
      else if c = 0x7 then cpsr CPSR_V s = 0x0
      else if c = 0x8 then read_CPSR s AND 0x60000000 = 0x20000000
      else if c = 0x9 then read_CPSR s AND 0x60000000 \<noteq> 0x20000000
      else if c = 0xA then cpsr CPSR_N s = cpsr CPSR_V s
      else if c = 0xB then cpsr CPSR_N s \<noteq> cpsr CPSR_V s
      else if c = 0xC then \<not> (cpsr CPSR_Z s \<noteq> 0x0 \<or> cpsr CPSR_V s \<noteq> cpsr CPSR_N s)
      else if c = 0xD then \<not> (cpsr CPSR_Z s = 0x0 \<and> cpsr CPSR_V s = cpsr CPSR_N s)
      else True)"

text \<open>\<^verbatim>\<open>annul\<close> leaves the instruction; a condition of more than four bits throws.\<close>

definition conditional :: "arm_params \<Rightarrow> 'm arm \<Rightarrow> 'm ares \<Rightarrow> 'm ares" where
  "conditional p s r =
     (if f_cond p > 0xF then Throw Arm_Exception
      else if ConditionPassed (f_cond p) s then r else Annul s)"

definition check :: "bool \<Rightarrow> 'm ares \<Rightarrow> 'm ares" where
  "check illegal r = (if illegal then Throw Arm_Exception else r)"

definition carry_in :: "'m arm \<Rightarrow> bool" where
  "carry_in s = (cpsr CPSR_C s \<noteq> 0)"

definition ARMExpandImm :: "u32 \<Rightarrow> u32 \<Rightarrow> 'm arm \<Rightarrow> u32 \<times> bool" where
  "ARMExpandImm rot imm s = arm_ROR imm (unat (push_bit 1 rot)) (carry_in s)"

definition DecodeImmShift :: "u32 \<Rightarrow> u32 \<Rightarrow> u32 \<Rightarrow> 'm arm \<Rightarrow> u32 \<times> bool" where
  "DecodeImmShift rm shift_amm shift_op s =
     (let carry = carry_in s; amm = unat shift_amm; op = shift_op AND 0x3
      in if op = 0x0 then arm_LSL rm amm carry
         else if op = 0x1 then arm_LSR rm (if amm \<noteq> 0 then amm else 32) carry
         else if op = 0x2 then arm_ASR rm (if amm \<noteq> 0 then amm else 32) carry
         else if amm \<noteq> 0 then arm_ROR rm amm carry
         else arm_RRX rm 1 carry carry)"

text \<open>\<^verbatim>\<open>None\<close>: C++ leaves the shift undefined.\<close>

definition DecodeRegShift :: "u32 \<Rightarrow> u32 \<Rightarrow> u32 \<Rightarrow> 'm arm \<Rightarrow> (u32 \<times> bool) option" where
  "DecodeRegShift rm rs shift_op s =
     (let amm = unat (rs AND 0xFF); carry = carry_in s; op = shift_op AND 0x3
      in if \<not> shift_defined op amm then None
         else if op = 0x0 then Some (arm_LSL rm amm carry)
         else if op = 0x1 then Some (arm_LSR rm amm carry)
         else if op = 0x2 then Some (arm_ASR rm amm carry)
         else Some (arm_ROR rm amm carry))"

text \<open>The return from an exception.  \<^verbatim>\<open>CPSR & !mask\<close> is a logical negation in the source.\<close>

definition subs_psr :: "'m arm \<Rightarrow> 'm arm" where
  "subs_psr s =
     (case get_spsr_idx (cpsr CPSR_M s) of
        None \<Rightarrow> s
      | Some spsr_idx \<Rightarrow>
          (let value = read_SPSR spsr_idx s;
               mask = psr_mask value 0xF (cpsr CPSR_M s) False True s
           in if mask \<noteq> 0
              then write_CPSR ((read_CPSR s AND (if mask = 0 then 1 else 0)) OR (value AND mask)) s
              else s))"

definition hyp_thumbee :: "'m arm \<Rightarrow> bool" where
  "hyp_thumbee s = (cpsr CPSR_J s \<noteq> 0 \<and> cpsr CPSR_T s \<noteq> 0 \<and> cpsr CPSR_M s = HYP)"

definition subs_pc :: "arm_params \<Rightarrow> u32 \<Rightarrow> 'm arm \<Rightarrow> 'm ares" where
  "subs_pc p result s =
     (let s = if f_s p \<noteq> 0 then subs_psr s else s
      in if f_s p \<noteq> 0 \<and> hyp_thumbee s then Throw Arm_Exception
         else Ok 0 (BranchWritePC result s))"

abbreviation rd :: "arm_params \<Rightarrow> 'm arm \<Rightarrow> u32" where "rd p \<equiv> areg (unat (f_rd_bit p))"
abbreviation rn :: "arm_params \<Rightarrow> 'm arm \<Rightarrow> u32" where "rn p \<equiv> areg (unat (f_rn_bit p))"
abbreviation rm :: "arm_params \<Rightarrow> 'm arm \<Rightarrow> u32" where "rm p \<equiv> areg (unat (f_rm_bit p))"
abbreviation rs :: "arm_params \<Rightarrow> 'm arm \<Rightarrow> u32" where "rs p \<equiv> areg (unat (f_rs_bit p))"
abbreviation ra :: "arm_params \<Rightarrow> 'm arm \<Rightarrow> u32" where "ra p \<equiv> areg (unat (f_ra_bit p))"
abbreviation set_rd :: "arm_params \<Rightarrow> u32 \<Rightarrow> 'm arm \<Rightarrow> 'm arm" where "set_rd p \<equiv> set_areg (unat (f_rd_bit p))"
abbreviation set_ra :: "arm_params \<Rightarrow> u32 \<Rightarrow> 'm arm \<Rightarrow> 'm arm" where "set_ra p \<equiv> set_areg (unat (f_ra_bit p))"
abbreviation set_rn :: "arm_params \<Rightarrow> u32 \<Rightarrow> 'm arm \<Rightarrow> 'm arm" where "set_rn p \<equiv> set_areg (unat (f_rn_bit p))"

definition UpdatePSRAdd :: "arm_params \<Rightarrow> u32 \<Rightarrow> u32 \<Rightarrow> u32 \<Rightarrow> 'm arm \<Rightarrow> 'm ares" where
  "UpdatePSRAdd p operand1 operand2 result s =
     (if f_rd_bit p = 15 then subs_pc p result s
      else (let s = set_rd p result s
            in Ok 0 (if f_s p \<noteq> 0 then AddWithCarry operand1 operand2 0 s else s)))"

definition UpdatePSRAddWithCarry :: "arm_params \<Rightarrow> u32 \<Rightarrow> u32 \<Rightarrow> u32 \<Rightarrow> 'm arm \<Rightarrow> 'm ares" where
  "UpdatePSRAddWithCarry p operand1 operand2 result s =
     (if f_rd_bit p = 15 then subs_pc p result s
      else (let s = set_rd p result s
            in Ok 0 (if f_s p \<noteq> 0 then AddWithCarry operand1 operand2 (cpsr CPSR_C s) s else s)))"

definition UpdatePSRSub :: "arm_params \<Rightarrow> u32 \<Rightarrow> u32 \<Rightarrow> u32 \<Rightarrow> 'm arm \<Rightarrow> 'm ares" where
  "UpdatePSRSub p operand1 operand2 result s =
     (if f_rd_bit p = 15 then subs_pc p result s
      else (let s = set_rd p result s
            in Ok 0 (if f_s p \<noteq> 0 then AddWithCarry operand1 (NOT operand2) 1 s else s)))"

definition UpdatePSRSubWithCarry :: "arm_params \<Rightarrow> u32 \<Rightarrow> u32 \<Rightarrow> u32 \<Rightarrow> 'm arm \<Rightarrow> 'm ares" where
  "UpdatePSRSubWithCarry p operand1 operand2 result s =
     (if f_rd_bit p = 15 then subs_pc p result s
      else (let s = set_rd p result s
            in Ok 0 (if f_s p \<noteq> 0 then AddWithCarry operand1 (NOT operand2) (cpsr CPSR_C s) s else s)))"

definition UpdatePSRBit :: "arm_params \<Rightarrow> u32 \<Rightarrow> bool \<Rightarrow> 'm arm \<Rightarrow> 'm ares" where
  "UpdatePSRBit p result carry s =
     (if f_rd_bit p = 15 then subs_pc p result s
      else (let s = set_rd p result s
            in Ok 0 (if f_s p \<noteq> 0 then update_psr_bit result carry s else s)))"

text \<open>Two more cycles when the program counter is written.\<close>

definition pc_latency :: "arm_params \<Rightarrow> u32 \<Rightarrow> 'm ares \<Rightarrow> 'm ares" where
  "pc_latency p n r = and_then r (\<lambda>m s. Ok (n + m + (if f_rd_bit p = 15 then 2 else 0)) s)"

definition subs_illegal :: "arm_params \<Rightarrow> 'm arm \<Rightarrow> bool" where
  "subs_illegal p s =
     (f_s p \<noteq> 0 \<and> f_rd_bit p = 15 \<and> (cpsr CPSR_M s = USR \<or> cpsr CPSR_M s = SYS \<or> cpsr CPSR_M s = HYP))"

text \<open>The operand modes: an immediate (\<^verbatim>\<open>_i\<close>), a register shifted by an immediate (\<^verbatim>\<open>_r\<close>)
  and a register shifted by a register (\<^verbatim>\<open>_sr\<close>, one cycle).\<close>

definition with_imm :: "arm_params \<Rightarrow> (u32 \<Rightarrow> bool \<Rightarrow> 'm arm \<Rightarrow> 'm ares) \<Rightarrow> 'm arm \<Rightarrow> 'm ares" where
  "with_imm p f s = (let (operand, carry) = ARMExpandImm (f_rotate p) (f_imm p) s in f operand carry s)"

definition with_shift :: "arm_params \<Rightarrow> (u32 \<Rightarrow> bool \<Rightarrow> 'm arm \<Rightarrow> 'm ares) \<Rightarrow> 'm arm \<Rightarrow> 'm ares" where
  "with_shift p f s =
     (let (operand, carry) = DecodeImmShift (rm p s) (f_shift_amm p) (f_shift_op p) s in f operand carry s)"

definition with_reg_shift :: "arm_params \<Rightarrow> (u32 \<Rightarrow> bool \<Rightarrow> 'm arm \<Rightarrow> 'm ares) \<Rightarrow> 'm arm \<Rightarrow> 'm ares" where
  "with_reg_shift p f s =
     (case DecodeRegShift (rm p s) (rs p s) (f_shift_op p) s of
        None \<Rightarrow> Throw Arm_Undefined
      | Some (operand, carry) \<Rightarrow> and_then (f operand carry s) (\<lambda>n s. Ok (1 + n) s))"

text \<open>\<^verbatim>\<open>ADR\<close>: without the flags, register 15 as the first operand is word aligned.\<close>

definition adr_operand :: "arm_params \<Rightarrow> 'm arm \<Rightarrow> u32" where
  "adr_operand p s = (if f_s p = 0 \<and> f_rn_bit p = 15 then PC s AND 0xFFFFFFFC else rn p s)"

definition borrow :: "u32 \<Rightarrow> 'm arm \<Rightarrow> u32" where
  "borrow result s = (if cpsr CPSR_C s = 0x0 then result - 1 else result)"

section \<open>Arithmetic\<close>

definition arm_ADD_i :: "arm_params \<Rightarrow> 'm arm \<Rightarrow> 'm ares" where
  "arm_ADD_i p s = conditional p s
     (check (subs_illegal p s) (pc_latency p 0 (with_imm p
       (\<lambda>operand carry s. let operand1 = adr_operand p s in UpdatePSRAdd p operand1 operand (operand1 + operand) s) s)))"

definition arm_ADD_r :: "arm_params \<Rightarrow> 'm arm \<Rightarrow> 'm ares" where
  "arm_ADD_r p s = conditional p s
     (check (subs_illegal p s) (pc_latency p 0 (with_shift p
       (\<lambda>operand carry s. let operand1 = adr_operand p s in UpdatePSRAdd p operand1 operand (operand1 + operand) s) s)))"

definition arm_ADD_sr :: "arm_params \<Rightarrow> 'm arm \<Rightarrow> 'm ares" where
  "arm_ADD_sr p s = conditional p s
     (check (f_rn_bit p = 15 \<or> f_rd_bit p = 15 \<or> f_rs_bit p = 15 \<or> f_rm_bit p = 15) (pc_latency p 0 (with_reg_shift p
       (\<lambda>operand carry s. let operand1 = adr_operand p s in UpdatePSRAdd p operand1 operand (operand1 + operand) s) s)))"

definition arm_ADC_i :: "arm_params \<Rightarrow> 'm arm \<Rightarrow> 'm ares" where
  "arm_ADC_i p s = conditional p s
     (check (subs_illegal p s) (pc_latency p 0 (with_imm p
       (\<lambda>operand carry s. UpdatePSRAddWithCarry p (rn p s) operand (rn p s + operand + cpsr CPSR_C s) s) s)))"

definition arm_ADC_r :: "arm_params \<Rightarrow> 'm arm \<Rightarrow> 'm ares" where
  "arm_ADC_r p s = conditional p s
     (check (subs_illegal p s) (pc_latency p 0 (with_shift p
       (\<lambda>operand carry s. UpdatePSRAddWithCarry p (rn p s) operand (rn p s + operand + cpsr CPSR_C s) s) s)))"

definition arm_ADC_sr :: "arm_params \<Rightarrow> 'm arm \<Rightarrow> 'm ares" where
  "arm_ADC_sr p s = conditional p s
     (check (f_rn_bit p = 15 \<or> f_rd_bit p = 15 \<or> f_rs_bit p = 15 \<or> f_rm_bit p = 15) (pc_latency p 0 (with_reg_shift p
       (\<lambda>operand carry s. UpdatePSRAddWithCarry p (rn p s) operand (rn p s + operand + cpsr CPSR_C s) s) s)))"

definition arm_SUB_i :: "arm_params \<Rightarrow> 'm arm \<Rightarrow> 'm ares" where
  "arm_SUB_i p s = conditional p s
     (check (subs_illegal p s) (pc_latency p 0 (with_imm p
       (\<lambda>operand carry s. let operand1 = adr_operand p s in UpdatePSRSub p operand1 operand (operand1 - operand) s) s)))"

definition arm_SUB_r :: "arm_params \<Rightarrow> 'm arm \<Rightarrow> 'm ares" where
  "arm_SUB_r p s = conditional p s
     (check (subs_illegal p s) (pc_latency p 0 (with_shift p
       (\<lambda>operand carry s. let operand1 = adr_operand p s in UpdatePSRSub p operand1 operand (operand1 - operand) s) s)))"

definition arm_SUB_sr :: "arm_params \<Rightarrow> 'm arm \<Rightarrow> 'm ares" where
  "arm_SUB_sr p s = conditional p s
     (check (f_rn_bit p = 15 \<or> f_rd_bit p = 15 \<or> f_rs_bit p = 15 \<or> f_rm_bit p = 15) (pc_latency p 0 (with_reg_shift p
       (\<lambda>operand carry s. let operand1 = adr_operand p s in UpdatePSRSub p operand1 operand (operand1 - operand) s) s)))"

definition arm_SBC_i :: "arm_params \<Rightarrow> 'm arm \<Rightarrow> 'm ares" where
  "arm_SBC_i p s = conditional p s
     (check (subs_illegal p s) (pc_latency p 0 (with_imm p
       (\<lambda>operand carry s. UpdatePSRSubWithCarry p (rn p s) operand (borrow (rn p s - operand) s) s) s)))"

definition arm_SBC_r :: "arm_params \<Rightarrow> 'm arm \<Rightarrow> 'm ares" where
  "arm_SBC_r p s = conditional p s
     (check (subs_illegal p s) (pc_latency p 0 (with_shift p
       (\<lambda>operand carry s. UpdatePSRSubWithCarry p (rn p s) operand (borrow (rn p s - operand) s) s) s)))"

definition arm_SBC_sr :: "arm_params \<Rightarrow> 'm arm \<Rightarrow> 'm ares" where
  "arm_SBC_sr p s = conditional p s
     (check (f_rn_bit p = 15 \<or> f_rd_bit p = 15 \<or> f_rs_bit p = 15 \<or> f_rm_bit p = 15) (pc_latency p 0 (with_reg_shift p
       (\<lambda>operand carry s. UpdatePSRSubWithCarry p (rn p s) operand (borrow (rn p s - operand) s) s) s)))"

definition arm_RSB_i :: "arm_params \<Rightarrow> 'm arm \<Rightarrow> 'm ares" where
  "arm_RSB_i p s = conditional p s
     (check (subs_illegal p s) (pc_latency p 0 (with_imm p
       (\<lambda>operand carry s. UpdatePSRSub p operand (rn p s) (operand - rn p s) s) s)))"

definition arm_RSB_r :: "arm_params \<Rightarrow> 'm arm \<Rightarrow> 'm ares" where
  "arm_RSB_r p s = conditional p s
     (check (subs_illegal p s) (pc_latency p 0 (with_shift p
       (\<lambda>operand carry s. UpdatePSRSub p operand (rn p s) (operand - rn p s) s) s)))"

definition arm_RSB_sr :: "arm_params \<Rightarrow> 'm arm \<Rightarrow> 'm ares" where
  "arm_RSB_sr p s = conditional p s
     (check (f_rn_bit p = 15 \<or> f_rd_bit p = 15 \<or> f_rs_bit p = 15 \<or> f_rm_bit p = 15) (pc_latency p 0 (with_reg_shift p
       (\<lambda>operand carry s. UpdatePSRSub p operand (rn p s) (operand - rn p s) s) s)))"

definition arm_RSC_i :: "arm_params \<Rightarrow> 'm arm \<Rightarrow> 'm ares" where
  "arm_RSC_i p s = conditional p s
     (check (subs_illegal p s) (pc_latency p 0 (with_imm p
       (\<lambda>operand carry s. UpdatePSRSubWithCarry p operand (rn p s) (borrow (operand - rn p s) s) s) s)))"

definition arm_RSC_r :: "arm_params \<Rightarrow> 'm arm \<Rightarrow> 'm ares" where
  "arm_RSC_r p s = conditional p s
     (check (subs_illegal p s) (pc_latency p 0 (with_shift p
       (\<lambda>operand carry s. UpdatePSRSubWithCarry p operand (rn p s) (borrow (operand - rn p s) s) s) s)))"

definition arm_RSC_sr :: "arm_params \<Rightarrow> 'm arm \<Rightarrow> 'm ares" where
  "arm_RSC_sr p s = conditional p s
     (check (f_rn_bit p = 15 \<or> f_rd_bit p = 15 \<or> f_rs_bit p = 15 \<or> f_rm_bit p = 15) (pc_latency p 0 (with_reg_shift p
       (\<lambda>operand carry s. UpdatePSRSubWithCarry p operand (rn p s) (borrow (operand - rn p s) s) s) s)))"

section \<open>Logic\<close>

definition arm_AND_i :: "arm_params \<Rightarrow> 'm arm \<Rightarrow> 'm ares" where
  "arm_AND_i p s = conditional p s
     (check (subs_illegal p s) (pc_latency p 0 (with_imm p
       (\<lambda>operand carry s. UpdatePSRBit p (rn p s AND operand) carry s) s)))"

definition arm_AND_r :: "arm_params \<Rightarrow> 'm arm \<Rightarrow> 'm ares" where
  "arm_AND_r p s = conditional p s
     (check (subs_illegal p s) (pc_latency p 0 (with_shift p
       (\<lambda>operand carry s. UpdatePSRBit p (rn p s AND operand) carry s) s)))"

definition arm_AND_sr :: "arm_params \<Rightarrow> 'm arm \<Rightarrow> 'm ares" where
  "arm_AND_sr p s = conditional p s
     (check (f_rn_bit p = 15 \<or> f_rd_bit p = 15 \<or> f_rs_bit p = 15 \<or> f_rm_bit p = 15) (pc_latency p 0 (with_reg_shift p
       (\<lambda>operand carry s. UpdatePSRBit p (rn p s AND operand) carry s) s)))"

definition arm_EOR_i :: "arm_params \<Rightarrow> 'm arm \<Rightarrow> 'm ares" where
  "arm_EOR_i p s = conditional p s
     (check (subs_illegal p s) (pc_latency p 0 (with_imm p
       (\<lambda>operand carry s. UpdatePSRBit p (rn p s XOR operand) carry s) s)))"

definition arm_EOR_r :: "arm_params \<Rightarrow> 'm arm \<Rightarrow> 'm ares" where
  "arm_EOR_r p s = conditional p s
     (check (subs_illegal p s) (pc_latency p 0 (with_shift p
       (\<lambda>operand carry s. UpdatePSRBit p (rn p s XOR operand) carry s) s)))"

definition arm_EOR_sr :: "arm_params \<Rightarrow> 'm arm \<Rightarrow> 'm ares" where
  "arm_EOR_sr p s = conditional p s
     (check (f_rn_bit p = 15 \<or> f_rd_bit p = 15 \<or> f_rs_bit p = 15 \<or> f_rm_bit p = 15) (pc_latency p 0 (with_reg_shift p
       (\<lambda>operand carry s. UpdatePSRBit p (rn p s XOR operand) carry s) s)))"

definition arm_MVN_i :: "arm_params \<Rightarrow> 'm arm \<Rightarrow> 'm ares" where
  "arm_MVN_i p s = conditional p s
     (check (subs_illegal p s) (pc_latency p 0 (with_imm p
       (\<lambda>operand carry s. UpdatePSRBit p (NOT operand) carry s) s)))"

definition arm_MVN_r :: "arm_params \<Rightarrow> 'm arm \<Rightarrow> 'm ares" where
  "arm_MVN_r p s = conditional p s
     (check (subs_illegal p s) (pc_latency p 0 (with_shift p
       (\<lambda>operand carry s. UpdatePSRBit p (NOT operand) carry s) s)))"

definition arm_MVN_sr :: "arm_params \<Rightarrow> 'm arm \<Rightarrow> 'm ares" where
  "arm_MVN_sr p s = conditional p s
     (check (f_rd_bit p = 15 \<or> f_rs_bit p = 15 \<or> f_rm_bit p = 15) (pc_latency p 0 (with_reg_shift p
       (\<lambda>operand carry s. UpdatePSRBit p (NOT operand) carry s) s)))"

definition arm_ORR_i :: "arm_params \<Rightarrow> 'm arm \<Rightarrow> 'm ares" where
  "arm_ORR_i p s = conditional p s
     (check (subs_illegal p s) (pc_latency p 0 (with_imm p
       (\<lambda>operand carry s. UpdatePSRBit p (rn p s OR operand) carry s) s)))"

definition arm_ORR_r :: "arm_params \<Rightarrow> 'm arm \<Rightarrow> 'm ares" where
  "arm_ORR_r p s = conditional p s
     (check (subs_illegal p s) (pc_latency p 0 (with_shift p
       (\<lambda>operand carry s. UpdatePSRBit p (rn p s OR operand) carry s) s)))"

definition arm_ORR_sr :: "arm_params \<Rightarrow> 'm arm \<Rightarrow> 'm ares" where
  "arm_ORR_sr p s = conditional p s
     (check (f_rn_bit p = 15 \<or> f_rd_bit p = 15 \<or> f_rs_bit p = 15 \<or> f_rm_bit p = 15) (pc_latency p 0 (with_reg_shift p
       (\<lambda>operand carry s. UpdatePSRBit p (rn p s OR operand) carry s) s)))"

definition arm_BIC_i :: "arm_params \<Rightarrow> 'm arm \<Rightarrow> 'm ares" where
  "arm_BIC_i p s = conditional p s
     (check (subs_illegal p s) (pc_latency p 0 (with_imm p
       (\<lambda>operand carry s. UpdatePSRBit p (rn p s AND NOT operand) carry s) s)))"

definition arm_BIC_r :: "arm_params \<Rightarrow> 'm arm \<Rightarrow> 'm ares" where
  "arm_BIC_r p s = conditional p s
     (check (subs_illegal p s) (pc_latency p 0 (with_shift p
       (\<lambda>operand carry s. UpdatePSRBit p (rn p s AND NOT operand) carry s) s)))"

definition arm_BIC_sr :: "arm_params \<Rightarrow> 'm arm \<Rightarrow> 'm ares" where
  "arm_BIC_sr p s = conditional p s
     (check (f_rn_bit p = 15 \<or> f_rd_bit p = 15 \<or> f_rs_bit p = 15 \<or> f_rm_bit p = 15) (pc_latency p 0 (with_reg_shift p
       (\<lambda>operand carry s. UpdatePSRBit p (rn p s AND NOT operand) carry s) s)))"

section \<open>Tests and comparisons\<close>

definition arm_TEQ_i :: "arm_params \<Rightarrow> 'm arm \<Rightarrow> 'm ares" where
  "arm_TEQ_i p s = conditional p s
     (pc_latency p 0 (with_imm p
       (\<lambda>operand carry s. Ok 0 (update_psr_bit (rn p s XOR operand) carry s)) s))"

definition arm_TEQ_r :: "arm_params \<Rightarrow> 'm arm \<Rightarrow> 'm ares" where
  "arm_TEQ_r p s = conditional p s
     (pc_latency p 0 (with_shift p
       (\<lambda>operand carry s. Ok 0 (update_psr_bit (rn p s XOR operand) carry s)) s))"

definition arm_TEQ_sr :: "arm_params \<Rightarrow> 'm arm \<Rightarrow> 'm ares" where
  "arm_TEQ_sr p s = conditional p s
     (check (f_rn_bit p = 15 \<or> f_rs_bit p = 15 \<or> f_rm_bit p = 15) (pc_latency p 0 (with_reg_shift p
       (\<lambda>operand carry s. Ok 0 (update_psr_bit (rn p s XOR operand) carry s)) s)))"

definition arm_TST_i :: "arm_params \<Rightarrow> 'm arm \<Rightarrow> 'm ares" where
  "arm_TST_i p s = conditional p s
     (pc_latency p 0 (with_imm p
       (\<lambda>operand carry s. Ok 0 (update_psr_bit (rn p s AND operand) carry s)) s))"

definition arm_TST_r :: "arm_params \<Rightarrow> 'm arm \<Rightarrow> 'm ares" where
  "arm_TST_r p s = conditional p s
     (pc_latency p 0 (with_shift p
       (\<lambda>operand carry s. Ok 0 (update_psr_bit (rn p s AND operand) carry s)) s))"

definition arm_TST_sr :: "arm_params \<Rightarrow> 'm arm \<Rightarrow> 'm ares" where
  "arm_TST_sr p s = conditional p s
     (check (f_rn_bit p = 15 \<or> f_rs_bit p = 15 \<or> f_rm_bit p = 15) (pc_latency p 0 (with_reg_shift p
       (\<lambda>operand carry s. Ok 0 (update_psr_bit (rn p s AND operand) carry s)) s)))"

definition arm_CMN_i :: "arm_params \<Rightarrow> 'm arm \<Rightarrow> 'm ares" where
  "arm_CMN_i p s = conditional p s
     (with_imm p (\<lambda>operand carry s. Ok 0 (AddWithCarry (rn p s) operand 0 s)) s)"

definition arm_CMN_r :: "arm_params \<Rightarrow> 'm arm \<Rightarrow> 'm ares" where
  "arm_CMN_r p s = conditional p s
     (with_shift p (\<lambda>operand carry s. Ok 0 (AddWithCarry (rn p s) operand 0 s)) s)"

definition arm_CMN_sr :: "arm_params \<Rightarrow> 'm arm \<Rightarrow> 'm ares" where
  "arm_CMN_sr p s = conditional p s
     (check (f_rn_bit p = 15 \<or> f_rs_bit p = 15 \<or> f_rm_bit p = 15) (with_reg_shift p (\<lambda>operand carry s. Ok 0 (AddWithCarry (rn p s) operand 0 s)) s))"

definition arm_CMP_i :: "arm_params \<Rightarrow> 'm arm \<Rightarrow> 'm ares" where
  "arm_CMP_i p s = conditional p s
     (with_imm p (\<lambda>operand carry s. Ok 0 (AddWithCarry (rn p s) (NOT operand) 1 s)) s)"

definition arm_CMP_r :: "arm_params \<Rightarrow> 'm arm \<Rightarrow> 'm ares" where
  "arm_CMP_r p s = conditional p s
     (with_shift p (\<lambda>operand carry s. Ok 0 (AddWithCarry (rn p s) (NOT operand) 1 s)) s)"

definition arm_CMP_sr :: "arm_params \<Rightarrow> 'm arm \<Rightarrow> 'm ares" where
  "arm_CMP_sr p s = conditional p s
     (check (f_rn_bit p = 15 \<or> f_rs_bit p = 15 \<or> f_rm_bit p = 15) (with_reg_shift p (\<lambda>operand carry s. Ok 0 (AddWithCarry (rn p s) (NOT operand) 1 s)) s))"

section \<open>Shifts\<close>

definition arm_ASR_r :: "arm_params \<Rightarrow> 'm arm \<Rightarrow> 'm ares" where
  "arm_ASR_r p s = conditional p s
     (check (subs_illegal p s) (pc_latency p 0 (with_shift p
       (\<lambda>operand carry s. UpdatePSRBit p operand carry s) s)))"

definition arm_ASR_sr :: "arm_params \<Rightarrow> 'm arm \<Rightarrow> 'm ares" where
  "arm_ASR_sr p s = conditional p s
     (check (f_rn_bit p = 15 \<or> f_rd_bit p = 15 \<or> f_rm_bit p = 15) (pc_latency p 0 (with_reg_shift p
       (\<lambda>operand carry s. UpdatePSRBit p operand carry s) s)))"

definition arm_LSR_r :: "arm_params \<Rightarrow> 'm arm \<Rightarrow> 'm ares" where
  "arm_LSR_r p s = conditional p s
     (check (subs_illegal p s) (pc_latency p 0 (with_shift p
       (\<lambda>operand carry s. UpdatePSRBit p operand carry s) s)))"

definition arm_LSR_sr :: "arm_params \<Rightarrow> 'm arm \<Rightarrow> 'm ares" where
  "arm_LSR_sr p s = conditional p s
     (check (f_rn_bit p = 15 \<or> f_rd_bit p = 15 \<or> f_rm_bit p = 15) (pc_latency p 0 (with_reg_shift p
       (\<lambda>operand carry s. UpdatePSRBit p operand carry s) s)))"

definition arm_LSL_r :: "arm_params \<Rightarrow> 'm arm \<Rightarrow> 'm ares" where
  "arm_LSL_r p s = conditional p s
     (check (subs_illegal p s) (pc_latency p 0 (with_shift p
       (\<lambda>operand carry s. UpdatePSRBit p operand carry s) s)))"

definition arm_LSL_sr :: "arm_params \<Rightarrow> 'm arm \<Rightarrow> 'm ares" where
  "arm_LSL_sr p s = conditional p s
     (check (f_rn_bit p = 15 \<or> f_rd_bit p = 15 \<or> f_rm_bit p = 15) (pc_latency p 0 (with_reg_shift p
       (\<lambda>operand carry s. UpdatePSRBit p operand carry s) s)))"

definition arm_ROR_r :: "arm_params \<Rightarrow> 'm arm \<Rightarrow> 'm ares" where
  "arm_ROR_r p s = conditional p s
     (check (subs_illegal p s) (pc_latency p 0 (with_shift p
       (\<lambda>operand carry s. UpdatePSRBit p operand carry s) s)))"

definition arm_ROR_sr :: "arm_params \<Rightarrow> 'm arm \<Rightarrow> 'm ares" where
  "arm_ROR_sr p s = conditional p s
     (check (f_rn_bit p = 15 \<or> f_rd_bit p = 15 \<or> f_rm_bit p = 15) (pc_latency p 0 (with_reg_shift p
       (\<lambda>operand carry s. UpdatePSRBit p operand carry s) s)))"

section \<open>Moves\<close>

definition arm_MOV_i :: "arm_params \<Rightarrow> 'm arm \<Rightarrow> 'm ares" where
  "arm_MOV_i p s = conditional p s
     (check (subs_illegal p s) (pc_latency p 0 (with_imm p
       (\<lambda>operand carry s. UpdatePSRBit p operand carry s) s)))"

definition arm_MOV_r :: "arm_params \<Rightarrow> 'm arm \<Rightarrow> 'm ares" where
  "arm_MOV_r p s = conditional p s (pc_latency p 0 (UpdatePSRBit p (rm p s) (carry_in s) s))"

definition arm_MOVW :: "arm_params \<Rightarrow> 'm arm \<Rightarrow> 'm ares" where
  "arm_MOVW p s = conditional p s
     (check (f_rd_bit p = 15)
       (let imm0 = push_bit 2 (f_imm0a p) OR f_imm0b p;
            imm1 = push_bit 2 (f_imm1a p) OR push_bit 1 (f_b p) OR f_imm1b p
        in Ok 0 (set_rd p (push_bit 12 imm0 OR push_bit 8 imm1 OR push_bit 4 (f_op1 p) OR f_imm2 p) s)))"

definition arm_MOVT :: "arm_params \<Rightarrow> 'm arm \<Rightarrow> 'm ares" where
  "arm_MOVT p s = conditional p s
     (check (f_rd_bit p = 15)
       (let imm0 = push_bit 2 (f_imm0a p) OR f_imm0b p;
            imm1 = push_bit 2 (f_imm1a p) OR push_bit 1 (f_b p) OR f_imm1b p
        in Ok 0 (set_rd p ((rd p s AND 0x0000FFFF) OR push_bit 28 imm0 OR push_bit 24 imm1
             OR push_bit 20 (f_op1 p) OR push_bit 16 (f_imm2 p)) s)))"

end
