(* ===== verification/Arm_Media.thy ===== *)
theory Arm_Media
  imports Arm_Alu "HOL-Library.Signed_Division"
begin

text \<open>
  The media, saturating, multiply, divide, bit-field and byte-order instructions of the ARM
  simulator (src/arm/arm/intunit/instructions.cpp), one definition per \<^verbatim>\<open>behavior\<close>.
  Signed arithmetic of 64 bits that overflows is taken to wrap around.
\<close>

section \<open>Parallel addition and subtraction\<close>

text \<open>One lane of an operand: its bits, sign-extended when the operation is signed.\<close>

definition lane :: "bool \<Rightarrow> u32 \<Rightarrow> nat \<Rightarrow> u32 \<Rightarrow> u32 \<Rightarrow> u32" where
  "lane u m shift sign x =
     (if u then drop_bit shift x AND m
      else (drop_bit shift x AND m) OR (if x AND sign \<noteq> 0 then NOT m else 0))"

definition lane_op :: "(u32 \<Rightarrow> u32 \<Rightarrow> u32) \<Rightarrow> bool \<Rightarrow> u32 \<Rightarrow> nat \<Rightarrow> u32 \<Rightarrow> u32 \<Rightarrow> u32 \<Rightarrow> u32" where
  "lane_op f u m shift sign x y = f (lane u m shift sign x) (lane u m shift sign y)"

text \<open>Halving, saturation, or the GE bits, for the four sums; \<^verbatim>\<open>ge\<close> decides a GE bit.\<close>

definition parallel_result ::
    "arm_params \<Rightarrow> (u32 \<Rightarrow> bool) \<Rightarrow> bool \<Rightarrow> bool \<Rightarrow> u32 \<times> u32 \<times> u32 \<times> u32 \<Rightarrow> 'm arm
      \<Rightarrow> ((u32 \<times> u32 \<times> u32 \<times> u32) \<times> 'm arm) option" where
  "parallel_result p ge shift2 shift4 sums s =
     (let (sum1, sum2, sum3, sum4) = sums;
          sat = (\<lambda>x. map_option fst (sat_q (sint x) (if f_b p \<noteq> 0 then 8 else 16) (f_u p = 0) False s))
      in if f_h p \<noteq> 0 \<and> f_nq p \<noteq> 0
         then Some ((signed_drop_bit 1 sum1, signed_drop_bit 1 sum2, signed_drop_bit 1 sum3, signed_drop_bit 1 sum4), s)
         else if f_nq p = 0
         then (case (sat sum1, sat sum2, sat sum3, sat sum4) of
                 (Some r1, Some r2, Some r3, Some r4) \<Rightarrow> Some ((r1, r2, r3, r4), s)
               | _ \<Rightarrow> None)
         else Some (sums, put_cpsr CPSR_GE
           ((if ge sum1 then 0x1 OR (if shift2 then 0 else 0x2) else 0) OR
            (if ge sum2 \<and> shift2 then 0x2 else 0) OR
            (if ge sum3 then 0x4 OR (if shift4 then 0 else 0x8) else 0) OR
            (if ge sum4 \<and> shift4 then 0x8 else 0)) s))"

definition parallel ::
    "(u32 \<Rightarrow> u32 \<Rightarrow> u32) \<Rightarrow> (u32 \<Rightarrow> bool) \<Rightarrow> arm_params \<Rightarrow> 'm arm \<Rightarrow> 'm ares" where
  "parallel f ge p s =
     (let u = (f_u p \<noteq> 0); by8 = (f_b p \<noteq> 0);
          m = (if by8 then 0x000000FF else 0x0000FFFF);
          sum1 = lane_op f u m 0 (if by8 then 0x80 else 0x8000) (rn p s) (rm p s);
          sum2 = (if by8 then lane_op f u m 8 0x8000 (rn p s) (rm p s) else 0);
          sum3 = lane_op f u m 16 (if by8 then 0x800000 else 0x80000000) (rn p s) (rm p s);
          sum4 = (if by8 then lane_op f u m 24 0x80000000 (rn p s) (rm p s) else 0)
      in case parallel_result p ge by8 by8 (sum1, sum2, sum3, sum4) s of
           None \<Rightarrow> Throw Arm_Undefined
         | Some ((sum1, sum2, sum3, sum4), s) \<Rightarrow>
             Ok 0 (set_rd p ((if by8 then push_bit 24 (sum4 AND m) else 0) OR push_bit 16 (sum3 AND m)
               OR (if by8 then push_bit 8 (sum2 AND m) else 0) OR (sum1 AND m)) s))"

definition arm_USHQADD :: "arm_params \<Rightarrow> 'm arm \<Rightarrow> 'm ares" where
  "arm_USHQADD p s = conditional p s
     (check (f_rn_bit p = 15 \<or> f_rd_bit p = 15 \<or> f_rm_bit p = 15)
       (parallel (+) (\<lambda>sum. sint sum > (if f_u p \<noteq> 0 then if f_b p \<noteq> 0 then 0xFF else 0xFFFF else -1)) p s))"

definition arm_USHQSUB :: "arm_params \<Rightarrow> 'm arm \<Rightarrow> 'm ares" where
  "arm_USHQSUB p s = conditional p s
     (check (f_rn_bit p = 15 \<or> f_rd_bit p = 15 \<or> f_rm_bit p = 15)
       (parallel (-) (\<lambda>sum. sint sum \<ge> 0) p s))"

text \<open>\<^verbatim>\<open>ASX\<close> and \<^verbatim>\<open>SAX\<close>: the sum of one pair of halves and the difference of the other.\<close>

definition half :: "bool \<Rightarrow> u32 \<Rightarrow> u32" where
  "half u x = (if u then x AND 0xFFFF else ucast (arm_sign_extend (ucast (x AND 0xFFFF)) 16))"

definition exchange_result ::
    "arm_params \<Rightarrow> u32 \<Rightarrow> u32 \<Rightarrow> u32 \<Rightarrow> u32 \<Rightarrow> 'm arm \<Rightarrow> ((u32 \<times> u32) \<times> 'm arm) option" where
  "exchange_result p ge_diff ge_sum add diff s =
     (let sat = (\<lambda>x. map_option fst (sat_q (sint x) 16 (f_u p = 0) False s))
      in if f_h p \<noteq> 0 \<and> f_nq p \<noteq> 0 then Some ((signed_drop_bit 1 add, signed_drop_bit 1 diff), s)
         else if f_nq p = 0
         then (case (sat add, sat diff) of (Some r, Some r') \<Rightarrow> Some ((r, r'), s) | _ \<Rightarrow> None)
         else Some ((add, diff), put_cpsr CPSR_GE
           ((if sint diff \<ge> 0 then ge_diff else 0) OR
            (if f_u p \<noteq> 0 \<and> sint add > 0xFFFF then ge_sum
             else if f_u p = 0 \<and> sint add \<ge> 0 then ge_sum else 0)) s))"

definition arm_USHQASX :: "arm_params \<Rightarrow> 'm arm \<Rightarrow> 'm ares" where
  "arm_USHQASX p s = conditional p s
     (check (f_rn_bit p = 15 \<or> f_rd_bit p = 15 \<or> f_rm_bit p = 15)
       (let u = (f_u p \<noteq> 0);
            sum = half u (drop_bit 16 (rn p s)) + half u (rm p s);
            diff = half u (rn p s) - half u (drop_bit 16 (rm p s))
        in case exchange_result p 0x3 0xC sum diff s of
             None \<Rightarrow> Throw Arm_Undefined
           | Some ((sum, diff), s) \<Rightarrow> Ok 0 (set_rd p (push_bit 16 (sum AND 0xFFFF) OR (diff AND 0xFFFF)) s)))"

definition arm_USHQSAX :: "arm_params \<Rightarrow> 'm arm \<Rightarrow> 'm ares" where
  "arm_USHQSAX p s = conditional p s
     (check (f_rn_bit p = 15 \<or> f_rd_bit p = 15 \<or> f_rm_bit p = 15)
       (let u = (f_u p \<noteq> 0);
            sum = half u (rn p s) + half u (drop_bit 16 (rm p s));
            diff = half u (drop_bit 16 (rn p s)) - half u (rm p s)
        in case exchange_result p 0xC 0x3 sum diff s of
             None \<Rightarrow> Throw Arm_Undefined
           | Some ((sum, diff), s) \<Rightarrow> Ok 0 (set_rd p (push_bit 16 (diff AND 0xFFFF) OR (sum AND 0xFFFF)) s)))"

text \<open>The accumulator is left out when its value, not its number, is 15.\<close>

definition abs_diff :: "u32 \<Rightarrow> u32 \<Rightarrow> u32" where
  "abs_diff x y = (let diff = x - y in if sint diff < 0 then - diff else diff)"

definition arm_USADA8 :: "arm_params \<Rightarrow> 'm arm \<Rightarrow> 'm ares" where
  "arm_USADA8 p s = conditional p s
     (check (f_rn_bit p = 15 \<or> f_rd_bit p = 15 \<or> f_rm_bit p = 15)
       (let diff1 = abs_diff (rn p s AND 0x000000FF) (rm p s AND 0x000000FF);
            diff2 = abs_diff (drop_bit 8 (rn p s AND 0x0000FF00)) (drop_bit 8 (rm p s AND 0x0000FF00));
            diff3 = abs_diff (drop_bit 16 (rn p s AND 0x00FF0000)) (drop_bit 16 (rm p s AND 0x00FF0000));
            diff4 = abs_diff (drop_bit 24 (rn p s AND 0xFF000000)) (drop_bit 24 (rm p s AND 0xFF000000))
        in Ok 0 (set_rd p ((if ra p s \<noteq> 0xF then ra p s else 0) + diff1 + diff2 + diff3 + diff4) s)))"

section \<open>Extension and saturation\<close>

definition arm_USXTAHB :: "arm_params \<Rightarrow> 'm arm \<Rightarrow> 'm ares" where
  "arm_USXTAHB p s = conditional p s
     (check (f_rd_bit p = 15 \<or> f_rm_bit p = 15)
       (let m = (if f_h p \<noteq> 0 then 0xFFFF else 0xFF);
            result = fst (arm_ROR (rm p s) (unat (push_bit 1 (f_imm p) AND 0x18)) False)
        in if f_w p \<noteq> 0
           then (let result = result AND m;
                     result = (if f_u p = 0 then ucast (arm_sign_extend (ucast result) (if f_h p \<noteq> 0 then 16 else 8)) else result);
                     result = (if f_rn_bit p \<noteq> 0xF then result + rn p s else result)
                 in Ok 0 (set_rd p result s))
           else (let result2 = drop_bit 16 (result AND 0x00FF0000);
                     result = result AND m;
                     ext = (\<lambda>x. ucast (arm_sign_extend (ucast (x :: u32)) 8) AND 0xFFFF :: u32);
                     (result, result2) = (if f_u p = 0 then (ext result, ext result2) else (result, result2));
                     result = (if f_rn_bit p \<noteq> 0xF
                               then (((rn p s AND 0xFFFF) + result) AND 0xFFFF) OR
                                 push_bit 16 (((drop_bit 16 (rn p s) AND 0xFFFF) + result2) AND 0xFFFF)
                               else result)
                 in Ok 0 (set_rd p result s))))"

definition arm_USSAT :: "arm_params \<Rightarrow> 'm arm \<Rightarrow> 'm ares" where
  "arm_USSAT p s = conditional p s
     (check (f_rd_bit p = 15 \<or> f_rm_bit p = 15)
       (let operand = fst (DecodeImmShift (rm p s) (f_imm1 p) (push_bit 1 (f_op1a p)) s)
        in case sat_q (sint operand) (unat (f_imm0 p) + (if f_u p = 0 then 1 else 0)) (f_u p = 0) True s of
             None \<Rightarrow> Throw Arm_Undefined
           | Some (r, s) \<Rightarrow> Ok 0 (set_rd p r s)))"

definition arm_USSAT16 :: "arm_params \<Rightarrow> 'm arm \<Rightarrow> 'm ares" where
  "arm_USSAT16 p s = conditional p s
     (check (f_rd_bit p = 15 \<or> f_rm_bit p = 15)
       (let to = unat (f_imm p) + (if f_u p = 0 then 1 else 0);
            operand = arm_sign_extend (ucast (rm p s AND 0x0000FFFF)) 16;
            operand' = arm_sign_extend (ucast (drop_bit 16 (rm p s AND 0xFFFF0000))) 16
        in case sat_q (sint operand) to (f_u p = 0) True s of
             None \<Rightarrow> Throw Arm_Undefined
           | Some (r, s) \<Rightarrow>
               (case sat_q (sint operand') to (f_u p = 0) True s of
                  None \<Rightarrow> Throw Arm_Undefined
                | Some (r', s') \<Rightarrow>
                    (let s' = (if cpsr CPSR_Q s \<noteq> 0 then put_cpsr CPSR_Q 1 s' else s')
                     in Ok 0 (set_rd p ((r AND 0xFFFF) OR push_bit 16 (r' AND 0xFFFF)) s')))))"

definition sext32 :: "u32 \<Rightarrow> u64" where
  "sext32 x = arm_sign_extend (ucast x) 32"

definition arm_QDADDSUB :: "arm_params \<Rightarrow> 'm arm \<Rightarrow> 'm ares" where
  "arm_QDADDSUB p s = conditional p s
     (check (f_rn_bit p = 15 \<or> f_rd_bit p = 15 \<or> f_rm_bit p = 15)
       (let operand = sext32 (rn p s)
        in case (if f_d p \<noteq> 0
                 then map_option (\<lambda>(r, s). (sext32 r, s)) (sat_q (sint (push_bit 1 operand)) 32 True True s)
                 else Some (operand, s)) of
             None \<Rightarrow> Throw Arm_Undefined
           | Some (operand, s) \<Rightarrow>
               (let operand = (if f_s p \<noteq> 0 then sext32 (rm p s) - operand else sext32 (rm p s) + operand)
                in case sat_q (sint operand) 32 True (\<not> (f_d p \<noteq> 0 \<and> cpsr CPSR_Q s \<noteq> 0)) s of
                     None \<Rightarrow> Throw Arm_Undefined
                   | Some (r, s) \<Rightarrow> Ok 0 (set_rd p r s))))"

section \<open>Multiplication and division\<close>

text \<open>The cycles of a multiplication, from the size of \<^verbatim>\<open>rm\<close> after the results are written.\<close>

definition mul_latency :: "u32 \<Rightarrow> u32 \<Rightarrow> u32" where
  "mul_latency factor latency =
     (if factor AND 0xFFFFFF00 = 0x0 \<or> factor AND 0xFFFFFF00 = 0xFFFFFF00 then 1 + latency
      else if factor AND 0xFFFF0000 = 0x0 \<or> factor AND 0xFFFF0000 = 0xFFFF0000 then 2 + latency
      else if factor AND 0xFF000000 = 0x0 \<or> factor AND 0xFF000000 = 0xFF000000 then 3 + latency
      else 4 + latency)"

definition UpdatePSRMul :: "arm_params \<Rightarrow> u64 \<Rightarrow> 'm arm \<Rightarrow> 'm arm" where
  "UpdatePSRMul p result s =
     (if f_s p \<noteq> 0 \<and> (f_ss p = 0 \<or> f_l p \<noteq> 0)
      then put_cpsr CPSR_Z (int_of_bool (result = 0))
             (put_cpsr CPSR_N
               (if f_l p \<noteq> 0 then int_of_bool (result AND 0x8000000000000000 \<noteq> 0)
                else int_of_bool (result AND 0x80000000 \<noteq> 0)) s)
      else s)"

definition arm_MUL :: "arm_params \<Rightarrow> 'm arm \<Rightarrow> 'm ares" where
  "arm_MUL p s = conditional p s
     (check (f_rd_bit p = 15 \<or> f_rm_bit p = 15 \<or> f_rn_bit p = 15)
       (check (f_a p \<noteq> 0 \<and> f_ra_bit p = 15)
         (let result = sext32 (rm p s) * sext32 (rn p s);
              result = (if f_a p \<noteq> 0
                        then if f_ss p \<noteq> 0 then (sext32 (ra p s) - result) AND 0x00000000FFFFFFFF
                             else (sext32 (ra p s) + result) AND 0x00000000FFFFFFFF
                        else result);
              s = set_rd p (ucast result) s
          in Ok (mul_latency (rm p s) (if f_a p \<noteq> 0 then 1 else 0)) (UpdatePSRMul p result s))))"

definition arm_SMMUL :: "arm_params \<Rightarrow> 'm arm \<Rightarrow> 'm ares" where
  "arm_SMMUL p s = conditional p s
     (check (f_rd_bit p = 15 \<or> f_rm_bit p = 15 \<or> f_rn_bit p = 15)
       (check (f_op1a p = 3 \<and> f_ra_bit p = 15)
         (let result = sext32 (rm p s) * sext32 (rn p s);
              result = (if f_ra_bit p \<noteq> 15
                        then if f_op1a p = 3 then push_bit 32 (sext32 (ra p s)) - result
                             else if f_op1a p = 0 then push_bit 32 (sext32 (ra p s)) + result
                             else result
                        else result);
              result = (if f_op1b p \<noteq> 0 then result + 0x0000000080000000 else result);
              s = set_rd p (ucast (signed_drop_bit 32 result)) s
          in Ok (mul_latency (rm p s) (if f_ra_bit p \<noteq> 15 then 1 else 0)) s)))"

text \<open>Both branches of the source read the operands as \<^verbatim>\<open>unsigned\<close> before they are widened.\<close>

definition arm_MULL :: "arm_params \<Rightarrow> 'm arm \<Rightarrow> 'm ares" where
  "arm_MULL p s = conditional p s
     (check (f_rd_bit p = 15 \<or> f_ra_bit p = 15 \<or> f_rm_bit p = 15 \<or> f_rn_bit p = 15)
       (check (f_rd_bit p = f_ra_bit p)
         (let result = (if f_ss p \<noteq> 0 then ucast (rm p s) * ucast (rn p s) else ucast (rm p s) * ucast (rn p s)) :: u64;
              result = (if f_a p \<noteq> 0
                        then result + ((push_bit 32 (ucast (rd p s)) AND 0xFFFFFFFF00000000) + (ucast (ra p s) AND 0x00000000FFFFFFFF))
                        else result);
              s = set_rd p (ucast (drop_bit 32 result)) s;
              s = set_ra p (ucast result) s
          in Ok (mul_latency (rm p s) 2) (UpdatePSRMul p result s))))"

definition arm_UMAAL :: "arm_params \<Rightarrow> 'm arm \<Rightarrow> 'm ares" where
  "arm_UMAAL p s = conditional p s
     (check (f_rd_bit p = 15 \<or> f_ra_bit p = 15 \<or> f_rm_bit p = 15 \<or> f_rn_bit p = 15)
       (check (f_rd_bit p = f_ra_bit p)
         (let result = (ucast (rm p s) :: u64) * ucast (rn p s) + (push_bit 32 (ucast (rd p s)) AND 0xFFFFFFFF00000000)
                + (ucast (ra p s) AND 0x00000000FFFFFFFF);
              s = set_rd p (ucast (drop_bit 32 result)) s;
              s = set_ra p (ucast result) s
          in Ok (mul_latency (rm p s) 2) s)))"

definition arm_SMULBW :: "arm_params \<Rightarrow> 'm arm \<Rightarrow> 'm ares" where
  "arm_SMULBW p s = conditional p s
     (check (f_rd_bit p = 15 \<or> f_rm_bit p = 15 \<or> f_rn_bit p = 15)
       (check (f_op0 p \<noteq> 3 \<and> \<not> (f_op0 p = 1 \<and> f_n p \<noteq> 0) \<and> f_ra_bit p = 15)
         (check (f_op0 p = 2 \<and> f_rd_bit p = f_ra_bit p)
           (let x = ucast (drop_bit (unat (16 * f_n p)) (rn p s) AND 0xFFFF) :: u64;
                y = ucast (drop_bit (unat (16 * f_m p)) (rm p s) AND 0xFFFF) :: u64;
                s = (if f_op0 p = 3 \<or> f_op0 p = 0
                     then (let result = x * y + ucast (ra p s); s = set_rd p (ucast result) s
                           in put_cpsr CPSR_Q (int_of_bool (result \<noteq> ucast (rd p s))) s)
                     else if f_op0 p = 2
                     then (let result = x * y + ((push_bit 32 (ucast (rd p s)) AND 0xFFFFFFFF00000000)
                                 + (ucast (ra p s) AND 0x00000000FFFFFFFF));
                               s = set_rd p (ucast (drop_bit 32 result)) s
                           in set_ra p (ucast result) s)
                     else
                       (let result = ucast (rn p s) * y + push_bit 16 (ucast (ra p s));
                            s = set_rd p (ucast (drop_bit 16 result)) s
                        in if f_n p = 0 then put_cpsr CPSR_Q (int_of_bool (drop_bit 16 result \<noteq> ucast (rd p s))) s else s))
            in Ok (mul_latency (rm p s) 1) s))))"

definition arm_SMMULD :: "arm_params \<Rightarrow> 'm arm \<Rightarrow> 'm ares" where
  "arm_SMMULD p s = conditional p s
     (check (f_rd_bit p = 15 \<or> f_rm_bit p = 15 \<or> f_rn_bit p = 15)
       (check (f_l p \<noteq> 0 \<and> f_ra_bit p = 15)
         (check (f_l p \<noteq> 0 \<and> f_rd_bit p = f_ra_bit p)
           (let low = (\<lambda>x. arm_sign_extend (ucast (x AND 0xFFFF :: u32)) 16);
                high = (\<lambda>x. arm_sign_extend (ucast (drop_bit 16 x AND 0xFFFF :: u32)) 16);
                result = low (rn p s) * (if f_op1b p \<noteq> 0 then high (rm p s) else low (rm p s));
                product = high (rn p s) * (if f_op1b p \<noteq> 0 then low (rm p s) else high (rm p s));
                result = (if f_op1a p \<noteq> 0 then result - product else result + product);
                (result, s) =
                  (if f_ra_bit p \<noteq> 15
                   then if f_l p \<noteq> 0
                        then (let result = result + (push_bit 32 (ucast (rd p s)) OR ucast (ra p s));
                                  s = set_rd p (ucast (signed_drop_bit 32 result)) s
                              in (result, set_ra p (ucast result) s))
                        else (let result = result + sext32 (ra p s) in (result, set_rd p (ucast result) s))
                   else (result, set_rd p (ucast result) s));
                s = (if f_l p = 0 \<and> f_ra_bit p \<noteq> 15 \<or> f_op1a p = 0 \<and> f_ra_bit p = 15
                     then put_cpsr CPSR_Q (int_of_bool (result \<noteq> sext32 (rd p s))) s else s)
            in Ok (mul_latency (rm p s) 1) s))))"

text \<open>A division by zero leaves the destination alone.\<close>

definition arm_DIV :: "arm_params \<Rightarrow> 'm arm \<Rightarrow> 'm ares" where
  "arm_DIV p s = conditional p s
     (check (f_rd_bit p = 15 \<or> f_rm_bit p = 15 \<or> f_rn_bit p = 15)
       (let s = (if rm p s \<noteq> 0
                 then if f_s p \<noteq> 0
                      then if rn p s = 0x80000000 \<and> rm p s = 0xFFFFFFFF then set_rd p 0x80000000 s
                           else set_rd p (word_of_int (sint (rn p s) sdiv sint (rm p s))) s
                      else set_rd p (rn p s div rm p s) s
                 else s)
        in Ok (mul_latency (rm p s) 0) s))"

section \<open>Bit fields and byte order\<close>

text \<open>\<^verbatim>\<open>BFC\<close> is recognised by the value of \<^verbatim>\<open>rm\<close>, and the inserted bits are not moved.\<close>

definition arm_BFCI :: "arm_params \<Rightarrow> 'm arm \<Rightarrow> 'm ares" where
  "arm_BFCI p s = conditional p s
     (check (f_rd_bit p = 15)
       (let imm0 = unat (f_imm0 p); imm1 = unat (f_imm1 p)
        in if imm0 \<le> 31 \<and> imm0 \<ge> imm1
           then (let m = push_bit imm1 (drop_bit (31 - imm0 + imm1) (push_bit (31 - imm0) (0xFFFFFFFF :: u64) AND 0xFFFFFFFF));
                     result = rd p s;
                     result = (if rm p s = 0xF then result AND NOT (ucast m)
                               else (result AND NOT (ucast m)) OR (rm p s AND ucast m))
                 in Ok 0 (set_rd p result s))
           else Ok 0 s))"

definition arm_CLZ :: "arm_params \<Rightarrow> 'm arm \<Rightarrow> 'm ares" where
  "arm_CLZ p s = conditional p s
     (check (f_rd_bit p = 15 \<or> f_rm_bit p = 15)
       (let step = (\<lambda>m n (result, input). if (input :: u32) AND m = 0 then (result + of_nat n, push_bit n input) else (result, input));
            input = rm p s;
            result = (if input \<noteq> 0
                      then fst (step 0x80000000 1 (step 0xC0000000 2 (step 0xF0000000 4 (step 0xFF000000 8
                             (step 0xFFFF0000 16 (0, input))))))
                      else 32)
        in Ok 0 (set_rd p result s)))"

definition arm_PKH :: "arm_params \<Rightarrow> 'm arm \<Rightarrow> 'm ares" where
  "arm_PKH p s = conditional p s
     (check (f_rn_bit p = 15 \<or> f_rd_bit p = 15 \<or> f_rm_bit p = 15)
       (let shift_op = push_bit 1 (f_tb p);
            operand = fst (DecodeImmShift (rm p s) (f_imm p) shift_op s)
        in Ok 0 (set_rd p
             (if shift_op \<noteq> 0 then (rn p s AND 0xFFFF0000) OR (operand AND 0x0000FFFF)
              else (operand AND 0xFFFF0000) OR (rn p s AND 0x0000FFFF)) s)))"

definition swap16 :: "u32 \<Rightarrow> u32" where
  "swap16 x = push_bit 16 x OR drop_bit 16 x"

definition swap8 :: "u32 \<Rightarrow> u32" where
  "swap8 x = push_bit 8 (x AND 0x00FF00FF) OR drop_bit 8 (x AND 0xFF00FF00)"

definition arm_RBIT :: "arm_params \<Rightarrow> 'm arm \<Rightarrow> 'm ares" where
  "arm_RBIT p s = conditional p s
     (check (f_rd_bit p = 15 \<or> f_rm_bit p = 15)
       (let result = swap16 (rm p s);
            result = swap8 result;
            result = push_bit 4 (result AND 0x0F0F0F0F) OR drop_bit 4 (result AND 0xF0F0F0F0);
            result = push_bit 2 (result AND 0x33333333) OR drop_bit 2 (result AND 0xCCCCCCCC);
            result = push_bit 1 (result AND 0x55555555) OR drop_bit 1 (result AND 0xAAAAAAAA)
        in Ok 0 (set_rd p result s)))"

definition arm_REV :: "arm_params \<Rightarrow> 'm arm \<Rightarrow> 'm ares" where
  "arm_REV p s = conditional p s
     (check (f_rd_bit p = 15 \<or> f_rm_bit p = 15) (Ok 0 (set_rd p (swap8 (swap16 (rm p s))) s)))"

definition arm_REV16 :: "arm_params \<Rightarrow> 'm arm \<Rightarrow> 'm ares" where
  "arm_REV16 p s = conditional p s
     (check (f_rd_bit p = 15 \<or> f_rm_bit p = 15) (Ok 0 (set_rd p (swap8 (rm p s)) s)))"

definition arm_REVSH :: "arm_params \<Rightarrow> 'm arm \<Rightarrow> 'm ares" where
  "arm_REVSH p s = conditional p s
     (check (f_rd_bit p = 15 \<or> f_rm_bit p = 15)
       (let result = rm p s;
            result = push_bit 8 (result AND 0x000000FF) OR drop_bit 8 (result AND 0x0000FF00);
            result = (if result AND 0x00008000 \<noteq> 0 then result OR 0xFFFF0000 else result)
        in Ok 0 (set_rd p result s)))"

definition arm_USBFX :: "arm_params \<Rightarrow> 'm arm \<Rightarrow> 'm ares" where
  "arm_USBFX p s = conditional p s
     (check (f_rd_bit p = 15 \<or> f_rm_bit p = 15)
       (let imm0 = unat (f_imm0 p); imm1 = unat (f_imm1 p); msb = imm0 + imm1
        in if msb \<le> 31
           then (let m = push_bit imm1 (drop_bit (31 - imm0) (push_bit (31 - msb) (0xFFFFFFFF :: u64) AND 0xFFFFFFFF));
                     result = drop_bit imm1 (ucast (ucast (rm p s) AND m)) :: u32
                 in Ok 0 (set_rd p (if f_u p \<noteq> 0 then result else ucast (arm_sign_extend (ucast result) (imm0 + 1))) s))
           else Ok 0 s))"

definition arm_SEL :: "arm_params \<Rightarrow> 'm arm \<Rightarrow> 'm ares" where
  "arm_SEL p s = conditional p s
     (check (f_rn_bit p = 15 \<or> f_rd_bit p = 15 \<or> f_rm_bit p = 15)
       (let byte = (\<lambda>i. (if cpsr CPSR_GE s AND push_bit i 0x1 \<noteq> 0 then rn p s else rm p s) AND push_bit (8 * i) 0x000000FF)
        in Ok 0 (set_rd p (foldl (\<lambda>result i. result OR byte i) 0 [0..<4]) s)))"

end
