(* ===== verification/Arm_LoadStore.thy ===== *)
theory Arm_LoadStore
  imports Arm_Alu
begin

text \<open>
  The load and store instructions of the ARM simulator
  (src/arm/arm/intunit/instructions.cpp) and the operations \<^verbatim>\<open>LSOffset\<close> and
  \<^verbatim>\<open>LSMReglist\<close> they inherit.  The four \<^verbatim>\<open>LDM\<close> and the four \<^verbatim>\<open>STM\<close> classes have
  the same \<^verbatim>\<open>behavior\<close>; the bits \<^verbatim>\<open>p\<close> and \<^verbatim>\<open>u\<close> tell them apart.  The exclusive monitor
  is not implemented in the source: an exclusive store always succeeds.
\<close>

section \<open>Memory accesses\<close>

text \<open>An exception the memory reports is only logged (\<^verbatim>\<open>trigger_exception\<close>,
  src/arm/arm/cortexa9.cpp).\<close>

definition load :: "('m \<Rightarrow> ('v \<times> u32 option \<times> 'm) option) \<Rightarrow> ('v \<Rightarrow> 'm arm \<Rightarrow> (arm_error, 'a, 'm arm) res) \<Rightarrow> 'm arm \<Rightarrow> (arm_error, 'a, 'm arm) res" where
  "load acc f s = (case acc (Mem s) of None \<Rightarrow> Throw Arm_Mem_Error | Some (v, e, m) \<Rightarrow> f v (s\<lparr>Mem := m\<rparr>))"

definition store :: "('m \<Rightarrow> (u32 option \<times> 'm) option) \<Rightarrow> ('m arm \<Rightarrow> (arm_error, 'a, 'm arm) res) \<Rightarrow> 'm arm \<Rightarrow> (arm_error, 'a, 'm arm) res" where
  "store acc f s = (case acc (Mem s) of None \<Rightarrow> Throw Arm_Mem_Error | Some (e, m) \<Rightarrow> f (s\<lparr>Mem := m\<rparr>))"

section \<open>Addressing\<close>

definition LSOffset :: "arm_params \<Rightarrow> u32 \<Rightarrow> 'm arm \<Rightarrow> u32 \<times> 'm arm" where
  "LSOffset p operand s =
     (let disp = (if f_u p \<noteq> 0 then rn p s + operand else rn p s - operand)
      in if f_p p = 1 then (disp, if f_w p = 1 then set_rn p disp s else s)
         else (rn p s, set_rn p disp s))"

definition pc_relative :: "arm_params \<Rightarrow> u32 \<Rightarrow> 'm arm \<Rightarrow> u32" where
  "pc_relative p operand s =
     (if f_u p \<noteq> 0 then (PC s AND 0xFFFFFFFC) + operand else (PC s AND 0xFFFFFFFC) - operand)"

text \<open>The address of a load: the base register 15 stands for the program counter itself.\<close>

definition load_address :: "arm_params \<Rightarrow> u32 \<Rightarrow> u32 \<Rightarrow> 'm arm \<Rightarrow> u32 \<times> 'm arm" where
  "load_address p operand literal s =
     (let (address, s) = LSOffset p operand s
      in (if f_rn_bit p = 15 then pc_relative p literal s else address, s))"

definition split_imm :: "arm_params \<Rightarrow> u32" where
  "split_imm p = push_bit 4 (f_imm p) OR f_rm_bit p"

definition writeback :: "arm_params \<Rightarrow> bool" where
  "writeback p = (f_p p = 0 \<or> f_w p \<noteq> 0)"

definition unprivileged :: "arm_params \<Rightarrow> bool" where
  "unprivileged p = (f_p p = 0 \<and> f_w p \<noteq> 0)"

function bit_count :: "u32 \<Rightarrow> nat" where
  "bit_count input = (if input = 0 then 0 else bit_count (input AND (input - 1)) + 1)"
  by auto
termination
proof (relation "measure unat")
  fix input :: u32
  assume "input \<noteq> 0"
  then have "unat (input - 1) < unat input" by (simp add: unat_minus_one unat_gt_0)
  moreover have "input AND (input - 1) \<le> input - 1" by (rule word_and_le1)
  ultimately have "unat (input AND (input - 1)) < unat input" by (simp add: word_le_nat_alt)
  then show "(input AND (input - 1), input) \<in> measure unat" by simp
qed simp

declare bit_count.simps [simp del]

definition LSMReglist :: "arm_params \<Rightarrow> 'm arm \<Rightarrow> u32 \<times> u32" where
  "LSMReglist p s =
     (let size = of_nat (bit_count (f_reg_list p)) * 4;
          (start_address, wb_address) =
            (if f_u p = 1
             then if f_p p = 0 then (rn p s, rn p s + size)
                  else (rn p s + 4, rn p s + 4 - 4 + size)
             else if f_p p = 0 then (rn p s - size + 4, rn p s - size + 4 - 4)
             else (rn p s - size, rn p s - size))
      in (start_address AND 0xFFFFFFFC, wb_address AND 0xFFFFFFFC))"

section \<open>Loads\<close>

definition arm_LDR :: "'m cpu_if \<Rightarrow> arm_params \<Rightarrow> u32 \<Rightarrow> 'm arm \<Rightarrow> 'm ares" where
  "arm_LDR ai p operand s =
     (let (address, s) = load_address p operand operand s
      in load (read_word ai address)
           (\<lambda>v s. Ok 2 (if f_rd_bit p = 15 then set_PC (v AND 0xFFFFFFFC) s else set_rd p v s)) s)"

definition arm_LDR_i :: "'m cpu_if \<Rightarrow> arm_params \<Rightarrow> 'm arm \<Rightarrow> 'm ares" where
  "arm_LDR_i ai p s = conditional p s
     (check (f_rn_bit p \<noteq> 15 \<and> writeback p \<and> f_rn_bit p = f_rd_bit p)
       (check (f_rn_bit p \<noteq> 15 \<and> unprivileged p \<and> (f_rn_bit p = 15 \<or> f_rd_bit p = 15))
         (arm_LDR ai p (f_imm p) s)))"

definition arm_LDR_r :: "'m cpu_if \<Rightarrow> arm_params \<Rightarrow> 'm arm \<Rightarrow> 'm ares" where
  "arm_LDR_r ai p s = conditional p s
     (check (writeback p \<and> (f_rn_bit p = 15 \<or> f_rn_bit p = f_rd_bit p))
       (check (unprivileged p \<and> f_rd_bit p = 15)
         (check (f_rm_bit p = 15)
           (with_shift p (\<lambda>operand carry s. arm_LDR ai p operand s) s))))"

definition arm_LDRB_i :: "'m cpu_if \<Rightarrow> arm_params \<Rightarrow> 'm arm \<Rightarrow> 'm ares" where
  "arm_LDRB_i ai p s = conditional p s
     (check (f_rn_bit p \<noteq> 15 \<and> writeback p \<and> f_rn_bit p = f_rd_bit p)
       (check (f_rn_bit p \<noteq> 15 \<and> unprivileged p \<and> f_rn_bit p = 15)
         (check (f_rd_bit p = 15)
           (let (address, s) = load_address p (f_imm p) (f_imm p) s
            in load (read_byte ai address) (\<lambda>v s. Ok 2 (set_rd p (ucast v) s)) s))))"

definition arm_LDRB_r :: "'m cpu_if \<Rightarrow> arm_params \<Rightarrow> 'm arm \<Rightarrow> 'm ares" where
  "arm_LDRB_r ai p s = conditional p s
     (check (writeback p \<and> (f_rn_bit p = 15 \<or> f_rn_bit p = f_rd_bit p))
       (check (f_rd_bit p = 15 \<or> f_rm_bit p = 15)
         (with_shift p (\<lambda>operand carry s.
           let (address, s) = load_address p operand operand s
           in load (read_byte ai address) (\<lambda>v s. Ok 2 (set_rd p (ucast v) s)) s) s)))"

text \<open>The register forms of the halfword, signed and double loads take the immediate fields
  where the base is register 15.\<close>

definition arm_LDRSB_i :: "'m cpu_if \<Rightarrow> arm_params \<Rightarrow> 'm arm \<Rightarrow> 'm ares" where
  "arm_LDRSB_i ai p s = conditional p s
     (check (f_rn_bit p \<noteq> 15 \<and> writeback p \<and> f_rn_bit p = f_rd_bit p)
       (check (f_rn_bit p \<noteq> 15 \<and> unprivileged p \<and> f_rn_bit p = 15)
         (check (f_rd_bit p = 15)
           (let (address, s) = load_address p (split_imm p) (split_imm p) s
            in load (read_byte ai address) (\<lambda>v s. Ok 2 (set_rd p (ucast (arm_sign_extend (ucast v) 8)) s)) s))))"

definition arm_LDRSB_r :: "'m cpu_if \<Rightarrow> arm_params \<Rightarrow> 'm arm \<Rightarrow> 'm ares" where
  "arm_LDRSB_r ai p s = conditional p s
     (check (writeback p \<and> (f_rn_bit p = 15 \<or> f_rn_bit p = f_rd_bit p))
       (check (f_rd_bit p = 15 \<or> f_rm_bit p = 15)
         (let (address, s) = load_address p (rm p s) (split_imm p) s
          in load (read_byte ai address) (\<lambda>v s. Ok 2 (set_rd p (ucast (arm_sign_extend (ucast v) 8)) s)) s)))"

definition arm_LDRH_i :: "'m cpu_if \<Rightarrow> arm_params \<Rightarrow> 'm arm \<Rightarrow> 'm ares" where
  "arm_LDRH_i ai p s = conditional p s
     (check (f_rn_bit p \<noteq> 15 \<and> writeback p \<and> f_rn_bit p = f_rd_bit p)
       (check (f_rn_bit p \<noteq> 15 \<and> unprivileged p \<and> f_rn_bit p = 15)
         (check (f_rd_bit p = 15)
           (check (f_rn_bit p = 15 \<and> f_p p = f_w p)
             (let (address, s) = load_address p (split_imm p) (split_imm p) s
              in load (read_half ai address) (\<lambda>v s. Ok 2 (set_rd p (ucast v) s)) s)))))"

definition arm_LDRH_r :: "'m cpu_if \<Rightarrow> arm_params \<Rightarrow> 'm arm \<Rightarrow> 'm ares" where
  "arm_LDRH_r ai p s = conditional p s
     (check (writeback p \<and> (f_rn_bit p = 15 \<or> f_rn_bit p = f_rd_bit p))
       (check (f_rd_bit p = 15 \<or> f_rm_bit p = 15)
         (let (address, s) = load_address p (rm p s) (split_imm p) s
          in load (read_half ai address) (\<lambda>v s. Ok 2 (set_rd p (ucast v) s)) s)))"

definition arm_LDRSH_i :: "'m cpu_if \<Rightarrow> arm_params \<Rightarrow> 'm arm \<Rightarrow> 'm ares" where
  "arm_LDRSH_i ai p s = conditional p s
     (check (f_rn_bit p \<noteq> 15 \<and> writeback p \<and> f_rn_bit p = f_rd_bit p)
       (check (f_rn_bit p \<noteq> 15 \<and> unprivileged p \<and> f_rn_bit p = 15)
         (check (f_rd_bit p = 15)
           (let (address, s) = load_address p (split_imm p) (split_imm p) s
            in load (read_half ai address) (\<lambda>v s. Ok 2 (set_rd p (ucast (arm_sign_extend (ucast v) 16)) s)) s))))"

definition arm_LDRSH_r :: "'m cpu_if \<Rightarrow> arm_params \<Rightarrow> 'm arm \<Rightarrow> 'm ares" where
  "arm_LDRSH_r ai p s = conditional p s
     (check (writeback p \<and> (f_rn_bit p = 15 \<or> f_rn_bit p = f_rd_bit p))
       (check (f_rd_bit p = 15 \<or> f_rm_bit p = 15)
         (let (address, s) = load_address p (rm p s) (split_imm p) s
          in load (read_half ai address) (\<lambda>v s. Ok 2 (set_rd p (ucast (arm_sign_extend (ucast v) 16)) s)) s)))"

definition next_rd :: "arm_params \<Rightarrow> nat" where
  "next_rd p = unat (f_rd_bit p) + 1"

definition arm_LDRD :: "'m cpu_if \<Rightarrow> arm_params \<Rightarrow> u32 \<Rightarrow> u32 \<Rightarrow> 'm arm \<Rightarrow> 'm ares" where
  "arm_LDRD ai p operand literal s =
     (let (address, s) = load_address p operand literal s
      in load (read_word ai address) (\<lambda>v s.
           load (read_word ai (address + 4)) (\<lambda>v' s. Ok 2 (set_areg (next_rd p) v' s)) (set_rd p v s)) s)"

definition arm_LDRD_i :: "'m cpu_if \<Rightarrow> arm_params \<Rightarrow> 'm arm \<Rightarrow> 'm ares" where
  "arm_LDRD_i ai p s = conditional p s
     (check (f_rn_bit p \<noteq> 15 \<and> writeback p \<and> (f_rn_bit p = f_rd_bit p \<or> f_rn_bit p = f_rd_bit p + 1))
       (check (f_rn_bit p \<noteq> 15 \<and> unprivileged p)
         (check (f_rd_bit p = 14)
           (check (f_rd_bit p AND 0x1 \<noteq> 0) (arm_LDRD ai p (split_imm p) (split_imm p) s)))))"

definition arm_LDRD_r :: "'m cpu_if \<Rightarrow> arm_params \<Rightarrow> 'm arm \<Rightarrow> 'm ares" where
  "arm_LDRD_r ai p s = conditional p s
     (check (writeback p \<and> (f_rn_bit p = 15 \<or> f_rn_bit p = f_rd_bit p \<or> f_rn_bit p = f_rd_bit p + 1))
       (check (unprivileged p)
         (check (f_rd_bit p = 14 \<or> f_rm_bit p = 15 \<or> f_rm_bit p = f_rd_bit p \<or> f_rm_bit p = f_rd_bit p + 1)
           (check (f_rd_bit p AND 0x1 \<noteq> 0) (arm_LDRD ai p (rm p s) (split_imm p) s)))))"

section \<open>Stores\<close>

definition arm_STR_i :: "'m cpu_if \<Rightarrow> arm_params \<Rightarrow> 'm arm \<Rightarrow> 'm ares" where
  "arm_STR_i ai p s = conditional p s
     (check (writeback p \<and> (f_rn_bit p = 15 \<or> f_rn_bit p = f_rd_bit p))
       (let (address, s) = LSOffset p (f_imm p) s
        in store (write_word ai address (rd p s)) (Ok 1) s))"

definition arm_STR_r :: "'m cpu_if \<Rightarrow> arm_params \<Rightarrow> 'm arm \<Rightarrow> 'm ares" where
  "arm_STR_r ai p s = conditional p s
     (check (writeback p \<and> (f_rn_bit p = 15 \<or> f_rn_bit p = f_rd_bit p))
       (check (f_rm_bit p = 15)
         (with_shift p (\<lambda>operand carry s.
           let (address, s) = LSOffset p operand s
           in store (write_word ai address (rd p s)) (Ok 1) s) s)))"

definition arm_STRB_i :: "'m cpu_if \<Rightarrow> arm_params \<Rightarrow> 'm arm \<Rightarrow> 'm ares" where
  "arm_STRB_i ai p s = conditional p s
     (check (writeback p \<and> (f_rn_bit p = 15 \<or> f_rn_bit p = f_rd_bit p))
       (check (f_rd_bit p = 15)
         (let (address, s) = LSOffset p (f_imm p) s
          in store (write_byte ai address (ucast (rd p s))) (Ok 1) s)))"

definition arm_STRB_r :: "'m cpu_if \<Rightarrow> arm_params \<Rightarrow> 'm arm \<Rightarrow> 'm ares" where
  "arm_STRB_r ai p s = conditional p s
     (check (writeback p \<and> (f_rn_bit p = 15 \<or> f_rn_bit p = f_rd_bit p))
       (check (f_rd_bit p = 15 \<or> f_rm_bit p = 15)
         (with_shift p (\<lambda>operand carry s.
           let (address, s) = LSOffset p operand s
           in store (write_byte ai address (ucast (rd p s))) (Ok 1) s) s)))"

definition arm_STRH_i :: "'m cpu_if \<Rightarrow> arm_params \<Rightarrow> 'm arm \<Rightarrow> 'm ares" where
  "arm_STRH_i ai p s = conditional p s
     (check (writeback p \<and> (f_rn_bit p = 15 \<or> f_rn_bit p = f_rd_bit p))
       (check (f_rd_bit p = 15)
         (let (address, s) = LSOffset p (split_imm p) s
          in store (write_half ai address (ucast (rd p s))) (Ok 1) s)))"

definition arm_STRH_r :: "'m cpu_if \<Rightarrow> arm_params \<Rightarrow> 'm arm \<Rightarrow> 'm ares" where
  "arm_STRH_r ai p s = conditional p s
     (check (writeback p \<and> (f_rn_bit p = 15 \<or> f_rn_bit p = f_rd_bit p))
       (check (f_rd_bit p = 15 \<or> f_rm_bit p = 15)
         (let (address, s) = LSOffset p (rm p s) s
          in store (write_half ai address (ucast (rd p s))) (Ok 1) s)))"

definition arm_STRD :: "'m cpu_if \<Rightarrow> arm_params \<Rightarrow> u32 \<Rightarrow> 'm arm \<Rightarrow> 'm ares" where
  "arm_STRD ai p operand s =
     (let (address, s) = LSOffset p operand s
      in store (write_word ai address (rd p s)) (\<lambda>s. store (write_word ai (address + 4) (areg (next_rd p) s)) (Ok 1) s) s)"

definition arm_STRD_i :: "'m cpu_if \<Rightarrow> arm_params \<Rightarrow> 'm arm \<Rightarrow> 'm ares" where
  "arm_STRD_i ai p s = conditional p s
     (check (writeback p \<and> (f_rn_bit p = 15 \<or> f_rn_bit p = f_rd_bit p \<or> f_rn_bit p = f_rd_bit p + 1))
       (check (unprivileged p)
         (check (f_rd_bit p = 14) (check (f_rd_bit p AND 0x1 \<noteq> 0) (arm_STRD ai p (split_imm p) s)))))"

definition arm_STRD_r :: "'m cpu_if \<Rightarrow> arm_params \<Rightarrow> 'm arm \<Rightarrow> 'm ares" where
  "arm_STRD_r ai p s = conditional p s
     (check (writeback p \<and> (f_rn_bit p = 15 \<or> f_rn_bit p = f_rd_bit p \<or> f_rn_bit p = f_rd_bit p + 1))
       (check (unprivileged p)
         (check (f_rd_bit p = 14 \<or> f_rm_bit p = 15)
           (check (f_rd_bit p AND 0x1 \<noteq> 0) (arm_STRD ai p (rm p s) s)))))"

section \<open>Exclusive accesses and swaps\<close>

definition arm_LDREX :: "'m cpu_if \<Rightarrow> arm_params \<Rightarrow> 'm arm \<Rightarrow> 'm ares" where
  "arm_LDREX ai p s = conditional p s
     (check (f_rn_bit p = 15 \<or> f_rd_bit p = 15) (load (read_word ai (rn p s)) (\<lambda>v s. Ok 2 (set_rd p v s)) s))"

definition arm_LDREXB :: "'m cpu_if \<Rightarrow> arm_params \<Rightarrow> 'm arm \<Rightarrow> 'm ares" where
  "arm_LDREXB ai p s = conditional p s
     (check (f_rn_bit p = 15 \<or> f_rd_bit p = 15) (load (read_byte ai (rn p s)) (\<lambda>v s. Ok 2 (set_rd p (ucast v) s)) s))"

definition arm_LDREXH :: "'m cpu_if \<Rightarrow> arm_params \<Rightarrow> 'm arm \<Rightarrow> 'm ares" where
  "arm_LDREXH ai p s = conditional p s
     (check (f_rn_bit p = 15 \<or> f_rd_bit p = 15) (load (read_half ai (rn p s)) (\<lambda>v s. Ok 2 (set_rd p (ucast v) s)) s))"

definition arm_LDREXD :: "'m cpu_if \<Rightarrow> arm_params \<Rightarrow> 'm arm \<Rightarrow> 'm ares" where
  "arm_LDREXD ai p s = conditional p s
     (check (f_rn_bit p = 15 \<or> f_rd_bit p = 14 \<or> f_rd_bit p AND 0x1 \<noteq> 0)
       (if cpsr CPSR_E s \<noteq> 0
        then load (read_word ai (rn p s)) (\<lambda>v s.
               let s = set_areg (next_rd p) v s
               in load (read_word ai (rn p s + 4)) (\<lambda>v s. Ok 2 (set_rd p v s)) s) s
        else load (read_word ai (rn p s)) (\<lambda>v s.
               let s = set_rd p v s
               in load (read_word ai (rn p s + 4)) (\<lambda>v s. Ok 2 (set_areg (next_rd p) v s)) s) s))"

definition exclusive_ok :: "arm_params \<Rightarrow> bool" where
  "exclusive_ok p = (\<not> (f_rn_bit p = 15 \<or> f_rd_bit p = 15 \<or> f_rm_bit p = 15) \<and>
     \<not> (f_rn_bit p = f_rd_bit p \<or> f_rd_bit p = f_rm_bit p))"

definition arm_STREX :: "'m cpu_if \<Rightarrow> arm_params \<Rightarrow> 'm arm \<Rightarrow> 'm ares" where
  "arm_STREX ai p s = conditional p s
     (check (\<not> exclusive_ok p) (store (write_word ai (rn p s) (rm p s)) (\<lambda>s. Ok 1 (set_rd p 0 s)) s))"

text \<open>The byte and halfword forms store the status register \<^verbatim>\<open>rd\<close> instead of \<^verbatim>\<open>rm\<close>, the
  latter only its lower byte.\<close>

definition arm_STREXB :: "'m cpu_if \<Rightarrow> arm_params \<Rightarrow> 'm arm \<Rightarrow> 'm ares" where
  "arm_STREXB ai p s = conditional p s
     (check (\<not> exclusive_ok p) (store (write_byte ai (rn p s) (ucast (rd p s))) (\<lambda>s. Ok 1 (set_rd p 0 s)) s))"

definition arm_STREXH :: "'m cpu_if \<Rightarrow> arm_params \<Rightarrow> 'm arm \<Rightarrow> 'm ares" where
  "arm_STREXH ai p s = conditional p s
     (check (\<not> exclusive_ok p)
       (store (write_half ai (rn p s) (ucast (ucast (rd p s) :: u8))) (\<lambda>s. Ok 1 (set_rd p 0 s)) s))"

definition arm_STREXD :: "'m cpu_if \<Rightarrow> arm_params \<Rightarrow> 'm arm \<Rightarrow> 'm ares" where
  "arm_STREXD ai p s = conditional p s
     (check (f_rn_bit p = 15 \<or> f_rd_bit p = 15 \<or> f_rm_bit p = 14)
       (check (f_rm_bit p AND 0x1 \<noteq> 0)
         (check (f_rn_bit p = f_rd_bit p \<or> f_rd_bit p = f_rm_bit p \<or> f_rd_bit p = f_rm_bit p + 1)
           (if cpsr CPSR_E s \<noteq> 0
            then store (write_word ai (rn p s) (areg (next_rd p) s)) (\<lambda>s. store (write_word ai (rn p s + 4) (rd p s)) (Ok 1) s) s
            else store (write_word ai (rn p s) (rd p s)) (\<lambda>s. store (write_word ai (rn p s + 4) (areg (next_rd p) s)) (Ok 1) s) s))))"

definition arm_SWP :: "'m cpu_if \<Rightarrow> arm_params \<Rightarrow> 'm arm \<Rightarrow> 'm ares" where
  "arm_SWP ai p s = conditional p s
     (check (f_rn_bit p = 15 \<or> f_rd_bit p = 15 \<or> f_rm_bit p = 15)
       (check (f_rn_bit p = f_rd_bit p \<or> f_rn_bit p = f_rm_bit p)
         (if f_b p \<noteq> 0
          then load (read_byte ai (rn p s)) (\<lambda>temp s.
                 store (write_byte ai (rn p s) (ucast (rm p s))) (\<lambda>s. Ok 3 (set_rd p (ucast temp) s)) s) s
          else load (read_word ai (rn p s)) (\<lambda>temp s.
                 let temp = (if rn p s AND 0x00000003 \<noteq> 0x0
                             then fst (arm_ROR temp (unat (push_bit 3 (rn p s AND 0x00000003))) False) else temp)
                 in store (write_word ai (rn p s) (rm p s)) (\<lambda>s. Ok 3 (set_rd p temp s)) s) s)))"

section \<open>Block transfers\<close>

text \<open>The loops over the register list: the address and the number of registers after it.\<close>

fun load_regs :: "'m cpu_if \<Rightarrow> u32 \<Rightarrow> nat list \<Rightarrow> u32 \<Rightarrow> u32 \<Rightarrow> 'm arm \<Rightarrow> (arm_error, u32 \<times> u32, 'm arm) res" where
  "load_regs ai reg_list [] address n s = Ok (address, n) s"
| "load_regs ai reg_list (i # is) address n s =
     (if reg_list AND push_bit i 0x00000001 \<noteq> 0
      then load (read_word ai address) (\<lambda>v s. load_regs ai reg_list is (address + 4) (n + 1) (set_areg i v s)) s
      else load_regs ai reg_list is address n s)"

fun store_regs :: "'m cpu_if \<Rightarrow> u32 \<Rightarrow> nat list \<Rightarrow> u32 \<Rightarrow> u32 \<Rightarrow> 'm arm \<Rightarrow> (arm_error, u32 \<times> u32, 'm arm) res" where
  "store_regs ai reg_list [] address n s = Ok (address, n) s"
| "store_regs ai reg_list (i # is) address n s =
     (if reg_list AND push_bit i 0x00000001 \<noteq> 0
      then store (write_word ai address (areg i s)) (store_regs ai reg_list is (address + 4) (n + 1)) s
      else store_regs ai reg_list is address n s)"

text \<open>The status register that \<^verbatim>\<open>LDM\<close> restores with the program counter.\<close>

definition ldm_psr :: "'m arm \<Rightarrow> 'm arm option" where
  "ldm_psr s =
     (let mode = cpsr CPSR_M s
      in case get_spsr_idx mode of
           None \<Rightarrow> Some s
         | Some spsr_idx \<Rightarrow>
             (let value = read_SPSR spsr_idx s;
                  mask = psr_mask value 0xF mode False True s
              in map_option
                   (\<lambda>s. if mask \<noteq> 0 then write_CPSR ((read_CPSR s AND NOT mask) OR (value AND mask)) s else s)
                   (if mask AND 0x1F \<noteq> 0 \<and> mode \<noteq> value AND 0x1F
                    then arm_update_alias mode (value AND 0x1F) s else Some s)))"

definition arm_LDM :: "'m cpu_if \<Rightarrow> arm_params \<Rightarrow> 'm arm \<Rightarrow> 'm ares" where
  "arm_LDM ai p s = conditional p s
     (let reg_list = f_reg_list p; with_pc = (reg_list AND 0x8000 \<noteq> 0);
          user = (f_s p \<noteq> 0 \<and> \<not> with_pc); base = (reg_list AND push_bit (unat (f_rn_bit p)) 0x1 \<noteq> 0)
      in check (f_rn_bit p = 15)
          (check ((f_s p = 0 \<or> user) \<and> reg_list = 0)
            (check (f_w p \<noteq> 0 \<and> base)
              (let (start_address, wb_address) = LSMReglist p s
               in and_then (load_regs ai reg_list [0..<15] start_address 0 s) (\<lambda>(address, n) s.
                    if user then Ok (n + 1) s
                    else and_then
                      (if with_pc
                       then (case (if f_s p \<noteq> 0 then ldm_psr s else Some s) of
                               None \<Rightarrow> Throw Arm_Exception
                             | Some s \<Rightarrow>
                                 if \<not> (f_s p \<noteq> 0 \<and> hyp_thumbee s)
                                 then load (read_word ai address) (\<lambda>v s. Ok (n + 1 + 2) (BranchWritePC v s)) s
                                 else Ok (n + 1 + 2) s)
                       else Ok (n + 1) s)
                      (\<lambda>n s. Ok n (if f_w p \<noteq> 0 \<and> \<not> base then set_rn p wb_address s else s)))))))"

definition arm_LDMIB :: "'m cpu_if \<Rightarrow> arm_params \<Rightarrow> 'm arm \<Rightarrow> 'm ares" where
  "arm_LDMIB ai p s = arm_LDM ai p s"

definition arm_LDMDA :: "'m cpu_if \<Rightarrow> arm_params \<Rightarrow> 'm arm \<Rightarrow> 'm ares" where
  "arm_LDMDA ai p s = arm_LDM ai p s"

definition arm_LDMDB :: "'m cpu_if \<Rightarrow> arm_params \<Rightarrow> 'm arm \<Rightarrow> 'm ares" where
  "arm_LDMDB ai p s = arm_LDM ai p s"

definition arm_STM :: "'m cpu_if \<Rightarrow> arm_params \<Rightarrow> 'm arm \<Rightarrow> 'm ares" where
  "arm_STM ai p s = conditional p s
     (check (f_rn_bit p = 15)
       (check (f_reg_list p = 0)
         (let (start_address, wb_address) = LSMReglist p s
          in and_then (store_regs ai (f_reg_list p) [0..<16] (start_address AND 0xFFFFFFFC) 0 s) (\<lambda>(address, n) s.
               Ok n (if f_s p = 0 \<and> f_w p \<noteq> 0 then set_rn p wb_address s else s)))))"

definition arm_STMIB :: "'m cpu_if \<Rightarrow> arm_params \<Rightarrow> 'm arm \<Rightarrow> 'm ares" where
  "arm_STMIB ai p s = arm_STM ai p s"

definition arm_STMDA :: "'m cpu_if \<Rightarrow> arm_params \<Rightarrow> 'm arm \<Rightarrow> 'm ares" where
  "arm_STMDA ai p s = arm_STM ai p s"

definition arm_STMDB :: "'m cpu_if \<Rightarrow> arm_params \<Rightarrow> 'm arm \<Rightarrow> 'm ares" where
  "arm_STMDB ai p s = arm_STM ai p s"

definition pop_list :: "'m cpu_if \<Rightarrow> u32 \<Rightarrow> 'm arm \<Rightarrow> 'm ares" where
  "pop_list ai reg_list s =
     and_then (load_regs ai reg_list [0..<15] (areg 13 s) 0 s) (\<lambda>(address, n) s.
       and_then
         (if reg_list AND 0x00008000 \<noteq> 0
          then load (read_word ai address) (\<lambda>v s. Ok (n + 1) (BranchWritePC v s)) s
          else Ok n s)
         (\<lambda>n s. Ok (n + 1) (add_areg 13 (4 * n) s)))"

definition arm_POP_single :: "'m cpu_if \<Rightarrow> arm_params \<Rightarrow> 'm arm \<Rightarrow> 'm ares" where
  "arm_POP_single ai p s = conditional p s
     (check (f_imm0 p = 13) (pop_list ai (push_bit (unat (f_imm0 p)) 0x1) s))"

definition arm_POP_block :: "'m cpu_if \<Rightarrow> arm_params \<Rightarrow> 'm arm \<Rightarrow> 'm ares" where
  "arm_POP_block ai p s = conditional p s
     (let reg_list = push_bit 12 (f_imm0 p) OR f_imm1 p
      in check (reg_list AND push_bit 13 0x1 \<noteq> 0) (pop_list ai reg_list s))"

definition push_list :: "'m cpu_if \<Rightarrow> u32 \<Rightarrow> 'm arm \<Rightarrow> 'm ares" where
  "push_list ai reg_list s =
     (let n = of_nat (bit_count reg_list)
      in and_then (store_regs ai reg_list [0..<16] (areg 13 s - 4 * n) 0 s) (\<lambda>_ s. Ok n (add_areg 13 (- (4 * n)) s)))"

definition arm_PUSH_single :: "'m cpu_if \<Rightarrow> arm_params \<Rightarrow> 'm arm \<Rightarrow> 'm ares" where
  "arm_PUSH_single ai p s = conditional p s
     (check (f_imm0 p = 13) (push_list ai (push_bit (unat (f_imm0 p)) 0x1) s))"

definition arm_PUSH_block :: "'m cpu_if \<Rightarrow> arm_params \<Rightarrow> 'm arm \<Rightarrow> 'm ares" where
  "arm_PUSH_block ai p s = conditional p s (push_list ai (push_bit 12 (f_imm0 p) OR f_imm1 p) s)"

end
