(* ===== verification/Arm_Branch.thy ===== *)
theory Arm_Branch
  imports Arm_Alu
begin

text \<open>
  The branches, the supervisor call, the accesses to the status registers and the hints of the
  ARM simulator (src/arm/arm/intunit/instructions.cpp), one definition per
  \<^verbatim>\<open>behavior\<close>.  The classes whose \<^verbatim>\<open>behavior\<close> only warns that the instruction is
  not implemented do nothing.
\<close>

section \<open>Branches\<close>

definition branch_offset :: "arm_params \<Rightarrow> u64" where
  "branch_offset p = push_bit 2 (arm_sign_extend (ucast (f_offset p)) 24)"

definition instruction_size :: "'m arm \<Rightarrow> u32" where
  "instruction_size s = (if cpsr CPSR_T s \<noteq> 0 then 2 else if cpsr CPSR_J s \<noteq> 0 then 1 else 4)"

definition arm_B :: "arm_params \<Rightarrow> 'm arm \<Rightarrow> 'm ares" where
  "arm_B p s = conditional p s
     (Ok 2 (set_RB 15 (ucast (arm_sign_extend (ucast (PC s)) 32 + branch_offset p)) s))"

definition arm_BL :: "arm_params \<Rightarrow> 'm arm \<Rightarrow> 'm ares" where
  "arm_BL p s = conditional p s
     (let s = set_areg 14 (ucast (arm_sign_extend (ucast (RB s 15)) 32) + instruction_size s) s
      in Ok 2 (set_RB 15 (ucast (arm_sign_extend (ucast (PC s)) 32 + branch_offset p)) s))"

definition arm_BX :: "arm_params \<Rightarrow> 'm arm \<Rightarrow> 'm ares" where
  "arm_BX p s = conditional p s (Ok 2 (BXWritePC (rm p s) s))"

definition arm_BLX_i :: "arm_params \<Rightarrow> 'm arm \<Rightarrow> 'm ares" where
  "arm_BLX_i p s = conditional p s
     (let s = set_areg 14 (ucast (arm_sign_extend (ucast (RB s 15)) 32) + instruction_size s) s
      in Ok 1 (set_RB 15 (ucast (arm_sign_extend (ucast (PC s)) 32 + (branch_offset p OR push_bit 1 (ucast (f_l p))))) s))"

definition arm_BLX_r :: "arm_params \<Rightarrow> 'm arm \<Rightarrow> 'm ares" where
  "arm_BLX_r p s = conditional p s
     (check (f_rm_bit p = 15)
       (let s = set_areg 14 (RB s 15) s in Ok 1 (BXWritePC (rm p s) s)))"

definition arm_BXJ :: "arm_params \<Rightarrow> 'm arm \<Rightarrow> 'm ares" where
  "arm_BXJ p s = conditional p s (check (f_rm_bit p = 15) (Ok 2 (BXWritePC (rm p s) s)))"

section \<open>Supervisor call\<close>

definition ExcVectorBase :: u32 where
  "ExcVectorBase = 0x0"

definition arm_SVC :: "arm_params \<Rightarrow> 'm arm \<Rightarrow> 'm ares" where
  "arm_SVC p s = conditional p s
     (let s = ITAdvance s;
          LR_value = (if cpsr CPSR_T s = 1 then PC s - 2 else PC s - 4);
          SPSR_value = read_CPSR s;
          vect_offset = 8;
          s = put_cpsr CPSR_IT72 0 (put_cpsr CPSR_IT10 0 s);
          s = put_cpsr CPSR_J 0 s;
          s = put_cpsr CPSR_I 1 s;
          s = put_cpsr CPSR_T 0 s;
          s = put_cpsr CPSR_M SVC_mode s
      in case get_spsr_idx (cpsr CPSR_M s) of
           None \<Rightarrow> Throw Arm_Undefined
         | Some i \<Rightarrow>
             (case Rmode_write 14 (cpsr CPSR_M s) LR_value (write_SPSR i SPSR_value s) of
                None \<Rightarrow> Throw Arm_Exception
              | Some s \<Rightarrow> Ok 0 (set_PC (ExcVectorBase + vect_offset) s)))"

section \<open>Status registers\<close>

text \<open>The register of the bank that the banked forms of \<^verbatim>\<open>MRS\<close> and \<^verbatim>\<open>MSR\<close> name.\<close>

definition banked_index :: "u32 \<Rightarrow> u32 option" where
  "banked_index sys_mode =
     (let bank = drop_bit 3 sys_mode AND 0x3; number = sys_mode AND 0x7
      in if bank = 0x0 then Rmode_index (8 + number) USR
         else if bank = 0x1 then Rmode_index (8 + number) FIQ
         else if bank = 0x2
         then Rmode_index (14 - (sys_mode AND 0x1))
                (if number = 0x0 \<or> number = 0x1 then IRQ
                 else if number = 0x2 \<or> number = 0x3 then SVC_mode
                 else if number = 0x4 \<or> number = 0x5 then ABT else UND)
         else if sys_mode AND 0x2 \<noteq> 0
         then if sys_mode AND 0x1 \<noteq> 0 then Rmode_index 13 HYP else Some 32
         else Rmode_index (14 - (sys_mode AND 0x1)) MON)"

text \<open>The saved status register they name, if the current mode may access it.\<close>

definition banked_spsr :: "u32 \<Rightarrow> u32 \<Rightarrow> nat option" where
  "banked_spsr sys_mode cur_mode =
     (if sys_mode = 0x0E \<and> cur_mode \<noteq> FIQ then Some 1
      else if sys_mode = 0x10 \<and> cur_mode \<noteq> IRQ then Some 0
      else if sys_mode = 0x12 \<and> cur_mode \<noteq> SVC_mode then Some 4
      else if sys_mode = 0x14 \<and> cur_mode \<noteq> ABT then Some 3
      else if sys_mode = 0x16 \<and> cur_mode \<noteq> UND then Some 2
      else if sys_mode = 0x1C \<and> cur_mode \<noteq> MON then Some 6
      else if sys_mode = 0x1E \<and> cur_mode = MON then Some 5
      else None)"

definition privileged :: "'m arm \<Rightarrow> bool" where
  "privileged s = (cpsr CPSR_M s AND 0xF \<noteq> 0)"

definition arm_MRS :: "arm_params \<Rightarrow> 'm arm \<Rightarrow> 'm ares" where
  "arm_MRS p s = conditional p s
     (let imm0 = push_bit 2 (f_imm0a p) OR f_imm0b p; sys_mode = push_bit 4 (f_imm1b p) OR imm0
      in check (f_rd_bit p = 15)
           (if f_b p = 0
            then if f_r p = 0
                 then Ok 0 (set_rd p (if privileged s then read_CPSR s AND 0xF8FF03DF else read_CPSR s AND 0xF8FF0000) s)
                 else (case get_spsr_idx (cpsr CPSR_M s) of
                         None \<Rightarrow> Throw Arm_Exception
                       | Some i \<Rightarrow> Ok 0 (set_rd p (read_SPSR i s) s))
            else if f_r p = 0
            then if privileged s \<and> valid_banked_reg_access sys_mode s
                 then (case banked_index sys_mode of
                         None \<Rightarrow> Throw Arm_Exception
                       | Some i \<Rightarrow> Ok 0 (set_rd p (RB s (unat i)) s))
                 else Throw Arm_Exception
            else if privileged s
            then (case banked_spsr sys_mode (cpsr CPSR_M s) of
                    None \<Rightarrow> Ok 0 s
                  | Some i \<Rightarrow> Ok 0 (set_rd p (read_SPSR i s) s))
            else Throw Arm_Exception))"

text \<open>The part that \<^verbatim>\<open>MSR_i\<close> and \<^verbatim>\<open>MSR_r\<close> share; \<^verbatim>\<open>banked\<close> is
  \<^verbatim>\<open>!(id || (!id && !b))\<close>.\<close>

definition msr :: "arm_params \<Rightarrow> bool \<Rightarrow> u32 \<Rightarrow> u32 \<Rightarrow> 'm arm \<Rightarrow> 'm ares" where
  "msr p banked imm0 operand s =
     (let mode = cpsr CPSR_M s; sys_mode = push_bit 4 (f_imm1b p) OR imm0
      in if \<not> banked
         then if f_r p = 0
              then (let m = psr_mask operand imm0 mode False False s
                    in case (if m AND 0x1F \<noteq> 0 \<and> mode \<noteq> operand AND 0x1F
                             then arm_update_alias mode (operand AND 0x1F) s else Some s) of
                         None \<Rightarrow> Throw Arm_Exception
                       | Some s \<Rightarrow>
                           (let s = (if m \<noteq> 0 then write_CPSR ((read_CPSR s AND NOT m) OR (operand AND m)) s else s)
                            in if hyp_thumbee s then Throw Arm_Exception else Ok 0 s))
              else (case get_spsr_idx mode of
                      None \<Rightarrow> Throw Arm_Exception
                    | Some i \<Rightarrow>
                        (let m = psr_mask operand imm0 mode True False s
                         in Ok 0 (if m \<noteq> 0
                                  then write_SPSR i ((read_SPSR i s AND NOT m) OR (operand AND m)) s else s)))
         else if f_r p = 0
         then if privileged s \<and> valid_banked_reg_access sys_mode s
              then (case banked_index sys_mode of
                      None \<Rightarrow> Throw Arm_Exception
                    | Some i \<Rightarrow> Ok 0 (set_RB (unat i) operand s))
              else Throw Arm_Exception
         else if privileged s
         then (case banked_spsr sys_mode mode of
                 None \<Rightarrow> Ok 0 s
               | Some i \<Rightarrow> Ok 0 (write_SPSR i operand s))
         else Throw Arm_Exception)"

definition arm_MSR_i :: "arm_params \<Rightarrow> 'm arm \<Rightarrow> 'm ares" where
  "arm_MSR_i p s = conditional p s
     (let imm0 = push_bit 2 (f_imm0a p) OR f_imm0b p;
          rot = push_bit 2 (f_imm1a p) OR push_bit 1 (f_b p) OR f_imm1b p;
          imm = push_bit 4 (f_op1 p) OR f_imm2 p
      in check (f_r p \<noteq> 0 \<and> imm0 = 0) (msr p False imm0 (fst (ARMExpandImm rot imm s)) s))"

definition arm_MSR_r :: "arm_params \<Rightarrow> 'm arm \<Rightarrow> 'm ares" where
  "arm_MSR_r p s = conditional p s
     (let imm0 = push_bit 2 (f_imm0a p) OR f_imm0b p
      in check (f_b p = 0 \<and> imm0 = 0)
           (check (f_imm2 p = 15) (msr p (f_b p \<noteq> 0) imm0 (areg (unat (f_imm2 p)) s) s)))"

section \<open>Hints and instructions that are not implemented\<close>

text \<open>\<^verbatim>\<open>CLREX\<close>, \<^verbatim>\<open>DMB\<close>, \<^verbatim>\<open>DSB\<close>, \<^verbatim>\<open>ISB\<close>, the preloads, \<^verbatim>\<open>CPS\<close>, \<^verbatim>\<open>RFE\<close>,
  \<^verbatim>\<open>SETEND\<close> and \<^verbatim>\<open>SRS\<close> have no condition.\<close>

definition arm_BKPT :: "arm_params \<Rightarrow> 'm arm \<Rightarrow> 'm ares" where
  "arm_BKPT p s = conditional p s (check (f_cond p \<noteq> 0xE) (Ok 0 s))"

definition arm_CPS :: "arm_params \<Rightarrow> 'm arm \<Rightarrow> 'm ares" where
  "arm_CPS p s =
     (let mode = push_bit 4 (f_mode0 p) OR f_mode1 p; aif = (f_A p \<noteq> 0 \<or> f_I p \<noteq> 0 \<or> f_F p \<noteq> 0)
      in check (mode \<noteq> 0 \<and> f_M p = 0)
          (check (f_op2 p AND 0x2 \<noteq> 0 \<and> \<not> aif)
            (check (f_op2 p AND 0x2 = 0 \<and> aif)
              (check (f_op2 p = 0 \<and> f_M p = 0)
                (check (f_op2 p = 1) (Ok 0 s))))))"

definition arm_CLREX :: "arm_params \<Rightarrow> 'm arm \<Rightarrow> 'm ares" where
  "arm_CLREX p s = Ok 0 s"

definition arm_DMB :: "arm_params \<Rightarrow> 'm arm \<Rightarrow> 'm ares" where
  "arm_DMB p s = Ok 0 s"

definition arm_DSB :: "arm_params \<Rightarrow> 'm arm \<Rightarrow> 'm ares" where
  "arm_DSB p s = Ok 0 s"

definition arm_ISB :: "arm_params \<Rightarrow> 'm arm \<Rightarrow> 'm ares" where
  "arm_ISB p s = Ok 0 s"

definition arm_PLI_i :: "arm_params \<Rightarrow> 'm arm \<Rightarrow> 'm ares" where
  "arm_PLI_i p s = Ok 0 s"

definition arm_PLD_i :: "arm_params \<Rightarrow> 'm arm \<Rightarrow> 'm ares" where
  "arm_PLD_i p s = Ok 0 s"

definition arm_SETEND :: "arm_params \<Rightarrow> 'm arm \<Rightarrow> 'm ares" where
  "arm_SETEND p s = Ok 0 s"

definition arm_SRS :: "arm_params \<Rightarrow> 'm arm \<Rightarrow> 'm ares" where
  "arm_SRS p s = Ok 0 s"

definition arm_PLI_r :: "arm_params \<Rightarrow> 'm arm \<Rightarrow> 'm ares" where
  "arm_PLI_r p s = check (f_rm_bit p = 15) (Ok 0 s)"

definition arm_PLD_r :: "arm_params \<Rightarrow> 'm arm \<Rightarrow> 'm ares" where
  "arm_PLD_r p s = check (f_r p = 0 \<and> f_rn_bit p = 15) (check (f_rm_bit p = 15) (Ok 0 s))"

definition arm_RFE :: "arm_params \<Rightarrow> 'm arm \<Rightarrow> 'm ares" where
  "arm_RFE p s = check (f_rn_bit p = 15) (Ok 0 s)"

definition arm_DBG :: "arm_params \<Rightarrow> 'm arm \<Rightarrow> 'm ares" where
  "arm_DBG p s = conditional p s (Ok 0 s)"

definition arm_NOP :: "arm_params \<Rightarrow> 'm arm \<Rightarrow> 'm ares" where
  "arm_NOP p s = conditional p s (Ok 0 s)"

definition arm_SEV :: "arm_params \<Rightarrow> 'm arm \<Rightarrow> 'm ares" where
  "arm_SEV p s = conditional p s (Ok 0 s)"

definition arm_UDF :: "arm_params \<Rightarrow> 'm arm \<Rightarrow> 'm ares" where
  "arm_UDF p s = conditional p s (Ok 0 s)"

definition arm_WFE :: "arm_params \<Rightarrow> 'm arm \<Rightarrow> 'm ares" where
  "arm_WFE p s = conditional p s (Ok 0 s)"

definition arm_WFI :: "arm_params \<Rightarrow> 'm arm \<Rightarrow> 'm ares" where
  "arm_WFI p s = conditional p s (Ok 0 s)"

definition arm_YIELD :: "arm_params \<Rightarrow> 'm arm \<Rightarrow> 'm ares" where
  "arm_YIELD p s = conditional p s (Ok 0 s)"

definition arm_SMC :: "arm_params \<Rightarrow> 'm arm \<Rightarrow> 'm ares" where
  "arm_SMC p s = conditional p s (Ok 0 s)"

definition arm_CDP :: "arm_params \<Rightarrow> 'm arm \<Rightarrow> 'm ares" where
  "arm_CDP p s = conditional p s (Ok 0 s)"

definition arm_LDC :: "arm_params \<Rightarrow> 'm arm \<Rightarrow> 'm ares" where
  "arm_LDC p s = conditional p s (check (f_rn_bit p = 15 \<and> (f_w p \<noteq> 0 \<or> f_p p = 0 \<and> CurrentInstrSet s \<noteq> 0)) (Ok 0 s))"

definition arm_STC :: "arm_params \<Rightarrow> 'm arm \<Rightarrow> 'm ares" where
  "arm_STC p s = conditional p s (check (f_rn_bit p = 15 \<and> (f_w p \<noteq> 0 \<or> CurrentInstrSet s \<noteq> 0)) (Ok 0 s))"

definition arm_MCR :: "arm_params \<Rightarrow> 'm arm \<Rightarrow> 'm ares" where
  "arm_MCR p s = conditional p s
     (check (f_rd_bit p = 15) (check (f_rd_bit p = 13 \<and> CurrentInstrSet s \<noteq> 0) (Ok 0 s)))"

definition arm_MCRR :: "arm_params \<Rightarrow> 'm arm \<Rightarrow> 'm ares" where
  "arm_MCRR p s = conditional p s
     (check (f_rn_bit p = 15 \<or> f_rd_bit p = 15) (check ((f_rn_bit p = 13 \<or> f_rd_bit p = 13) \<and> CurrentInstrSet s \<noteq> 0) (Ok 0 s)))"

definition arm_MRC :: "arm_params \<Rightarrow> 'm arm \<Rightarrow> 'm ares" where
  "arm_MRC p s = conditional p s (check (f_rd_bit p = 13 \<and> CurrentInstrSet s \<noteq> 0) (Ok 0 s))"

definition arm_MRRC :: "arm_params \<Rightarrow> 'm arm \<Rightarrow> 'm ares" where
  "arm_MRRC p s = conditional p s
     (check (f_rn_bit p = 15 \<or> f_rd_bit p = 15)
       (check (f_rn_bit p = f_rd_bit p) (check ((f_rn_bit p = 13 \<or> f_rd_bit p = 13) \<and> CurrentInstrSet s \<noteq> 0) (Ok 0 s))))"

definition arm_Invalid :: "arm_params \<Rightarrow> 'm arm \<Rightarrow> 'm ares" where
  "arm_Invalid p s = Throw Arm_Exception"

end
