(* ===== verification/Arm_Decode.thy ===== *)
theory Arm_Decode
  imports Arm_Media Arm_LoadStore Arm_Branch
begin

text \<open>
  The decoder of the ARM simulator (src/arm/arm/intunit/decoder.cpp) and the table
  \<^verbatim>\<open>INSTRUCTIONS\<close> that the constructor of processor.cpp fills.  The large cases of the
  decoder are definitions of their own, named by the path to them: the values of the switches,
  \<^verbatim>\<open>y\<close> and \<^verbatim>\<open>n\<close> for the branches of an \<^verbatim>\<open>if\<close>.  A path that runs to the
  end of the function gives 161, the invalid instruction.
\<close>

section \<open>The decoder\<close>

definition arm_decode_0_1000000_800000_10 :: "u32 \<Rightarrow> nat" where
  "arm_decode_0_1000000_800000_10 bs =
     (let k = bs AND 0xc0 in
      if k = 0x40 then (if bs AND 0x200000 = 0x0
         then (if bs AND 0xf0000000 \<noteq> 0xf0000000 then 45 else 161)
         else (if bs AND 0xf0000000 \<noteq> 0xf0000000 then 53 else 161))
      else if k = 0x0 then (if bs AND 0x200000 \<noteq> 0x0
         then (if bs AND 0xf0000000 \<noteq> 0xf0000000 then 57 else 161)
         else (if bs AND 0xf0000000 \<noteq> 0xf0000000 then 45 else 161))
      else if k = 0x80 then (if bs AND 0x100000 \<noteq> 0x0
         then (if bs AND 0x200000 = 0x0
            then (if bs AND 0xf0000000 \<noteq> 0xf0000000 then 80 else 161)
            else (if bs AND 0xf0000000 \<noteq> 0xf0000000 then 93 else 161))
         else (if bs AND 0x200000 \<noteq> 0x0
            then (if bs AND 0xf0000000 \<noteq> 0xf0000000 then 105 else 161)
            else (if bs AND 0xf0000000 \<noteq> 0xf0000000 then 96 else 161)))
      else if k = 0xc0 then (if bs AND 0x100000 = 0x0
         then (if bs AND 0xf0000000 \<noteq> 0xf0000000 then 92 else 161)
         else (if bs AND 0xf0000000 \<noteq> 0xf0000000 then 85 else 161))
      else 161)"

definition arm_decode_0_1000000_800000_30 :: "u32 \<Rightarrow> nat" where
  "arm_decode_0_1000000_800000_30 bs =
     (if bs AND 0x200080 \<noteq> 0x0
      then (if bs AND 0x80 = 0x0
         then (if bs AND 0x40 = 0x0
            then (if bs AND 0x200000 = 0x200000 \<and> bs AND 0xf0000000 \<noteq> 0xf0000000 then 55 else 161)
            else (if bs AND 0x200000 = 0x200000 \<and> bs AND 0xf0000000 \<noteq> 0xf0000000 then 59 else 161))
         else (if bs AND 0x40 \<noteq> 0x40
            then (if bs AND 0x100000 \<noteq> 0x0
               then (if bs AND 0xf0000000 \<noteq> 0xf0000000 then 87 else 161)
               else (if bs AND 0xf0000000 \<noteq> 0xf0000000 then 101 else 161))
            else (if bs AND 0x100000 \<noteq> 0x0
               then (if bs AND 0xf0000000 \<noteq> 0xf0000000 then 90 else 161)
               else (if bs AND 0xf0000000 \<noteq> 0xf0000000 then 104 else 161))))
      else (if bs AND 0xf0000000 \<noteq> 0xf0000000 then 45 else 161))"

definition arm_decode_0_1000000_800000 :: "u32 \<Rightarrow> nat" where
  "arm_decode_0_1000000_800000 bs =
     (let k = bs AND 0x30 in
      if k = 0x10 then arm_decode_0_1000000_800000_10 bs
      else if k = 0x30 then arm_decode_0_1000000_800000_30 bs
      else if k = 0x0 then (if bs AND 0x200040 = 0x200000
         then (if bs AND 0xf80 = 0x0
            then (if bs AND 0xf0000000 \<noteq> 0xf0000000 \<and> bs AND 0x10f000 \<noteq> 0x10f000 then 119 else 161)
            else (if bs AND 0xf0000000 \<noteq> 0xf0000000 \<and> bs AND 0xf80 \<noteq> 0x0 then 56 else 161))
         else (if bs AND 0x200000 \<noteq> 0x0
            then (if bs AND 0x40 = 0x40 \<and> bs AND 0xf0000000 \<noteq> 0xf0000000 then 52 else 161)
            else (if bs AND 0xf0000000 \<noteq> 0xf0000000 then 44 else 161)))
      else if k = 0x20 then (if bs AND 0x200000 \<noteq> 0x0
         then (if bs AND 0x40 \<noteq> 0x0
            then (if bs AND 0xf0000000 \<noteq> 0xf0000000 then 58 else 161)
            else (if bs AND 0xf0000000 \<noteq> 0xf0000000 then 54 else 161))
         else (if bs AND 0xf0000000 \<noteq> 0xf0000000 then 44 else 161))
      else 161)"

definition arm_decode_0_1000000_400000_30 :: "u32 \<Rightarrow> nat" where
  "arm_decode_0_1000000_400000_30 bs =
     (if bs AND 0x100080 \<noteq> 0x0
      then (if bs AND 0x80 \<noteq> 0x0
         then (if bs AND 0x40 = 0x0
            then (if bs AND 0x100000 = 0x0
               then (if bs AND 0xf0000000 \<noteq> 0xf0000000 then 100 else 161)
               else (if bs AND 0xf0000000 \<noteq> 0xf0000000 then 86 else 161))
            else (if bs AND 0x100000 = 0x0
               then (if bs AND 0xf0000000 \<noteq> 0xf0000000 then 103 else 161)
               else (if bs AND 0xf0000000 \<noteq> 0xf0000000 then 89 else 161)))
         else (if bs AND 0x200000 = 0x0
            then (if bs AND 0x100000 = 0x100000 \<and> bs AND 0xf0000000 \<noteq> 0xf0000000 then 77 else 161)
            else (if bs AND 0x100000 = 0x100000 \<and> bs AND 0xf0000000 \<noteq> 0xf0000000 then 74 else 161)))
      else (if bs AND 0x200040 = 0x200040 \<and> bs AND 0xf0000000 \<noteq> 0xf0000000 then 153 else 161))"

definition arm_decode_0_1000000_400000_10 :: "u32 \<Rightarrow> nat" where
  "arm_decode_0_1000000_400000_10 bs =
     (if bs AND 0x100000 \<noteq> 0x0
      then (if bs AND 0x200080 = 0x0
         then (if bs AND 0xf0000000 \<noteq> 0xf0000000 then 77 else 161)
         else (if bs AND 0x80 = 0x0
            then (if bs AND 0x200000 = 0x200000 \<and> bs AND 0xf0000000 \<noteq> 0xf0000000 then 74 else 161)
            else (if bs AND 0x40 = 0x40 \<and> bs AND 0xf0000000 \<noteq> 0xf0000000 then 84 else 161)))
      else (if bs AND 0x40 \<noteq> 0x0
         then (if bs AND 0x80 \<noteq> 0x0
            then (if bs AND 0xf0000000 \<noteq> 0xf0000000 then 91 else 161)
            else (if bs AND 0xf0000000 \<noteq> 0xf0000000 then 26 else 161))
         else (if bs AND 0x80 = 0x0
            then (if bs AND 0x200000 = 0x200000 \<and> bs AND 0xf0000000 \<noteq> 0xf0000000 then 64 else 161)
            else (if bs AND 0x200000 = 0x0 \<and> bs AND 0xf0000000 \<noteq> 0xf0000000 then 122 else 161))))"

definition arm_decode_0_1000000_400000 :: "u32 \<Rightarrow> nat" where
  "arm_decode_0_1000000_400000 bs =
     (let k = bs AND 0x30 in
      if k = 0x30 then arm_decode_0_1000000_400000_30 bs
      else if k = 0x10 then arm_decode_0_1000000_400000_10 bs
      else if k = 0x0 then (if bs AND 0x100000 \<noteq> 0x0
         then (if bs AND 0x200000 = 0x0
            then (if bs AND 0xf0000000 \<noteq> 0xf0000000 then 76 else 161)
            else (if bs AND 0xf0000000 \<noteq> 0xf0000000 then 73 else 161))
         else (if bs AND 0x80 \<noteq> 0x80
            then (if bs AND 0x200000 = 0x0
               then (if bs AND 0x40 = 0x0 \<and> bs AND 0xf0000000 \<noteq> 0xf0000000 then 123 else 161)
               else (if bs AND 0x40 = 0x0 \<and> bs AND 0xf0000000 \<noteq> 0xf0000000 then 125 else 161))
            else (if bs AND 0xf0000000 \<noteq> 0xf0000000 then 31 else 161)))
      else if k = 0x20 then (if bs AND 0x100000 \<noteq> 0x0
         then (if bs AND 0x200000 = 0x0
            then (if bs AND 0xf0000000 \<noteq> 0xf0000000 then 76 else 161)
            else (if bs AND 0xf0000000 \<noteq> 0xf0000000 then 73 else 161))
         else (if bs AND 0x80 = 0x80 \<and> bs AND 0xf0000000 \<noteq> 0xf0000000 then 31 else 161))
      else 161)"

definition arm_decode_0_1000000_0_10 :: "u32 \<Rightarrow> nat" where
  "arm_decode_0_1000000_0_10 bs =
     (if bs AND 0xf0000000 \<noteq> 0xf0000000
      then (if bs AND 0x80 = 0x0
         then (if bs AND 0x100000 \<noteq> 0x0
            then (if bs AND 0x200000 \<noteq> 0x0
               then (if bs AND 0xf0000000 \<noteq> 0xf0000000 then 48 else 161)
               else (if bs AND 0xf0000000 \<noteq> 0xf0000000 then 51 else 161))
            else (if bs AND 0x40 = 0x0
               then (if bs AND 0x200000 = 0x200000 \<and> bs AND 0xf0000000 \<noteq> 0xf0000000 then 128 else 161)
               else (if bs AND 0xf0000000 \<noteq> 0xf0000000 then 26 else 161)))
         else (if bs AND 0x40 \<noteq> 0x0
            then (if bs AND 0x100000 = 0x0
               then (if bs AND 0xf0000000 \<noteq> 0xf0000000 then 92 else 161)
               else (if bs AND 0xf0000000 \<noteq> 0xf0000000 then 85 else 161))
            else (if bs AND 0x300000 = 0x0 \<and> bs AND 0xf0000000 \<noteq> 0xf0000000 then 122 else 161)))
      else (if bs AND 0x310000 = 0x0 then 134 else 161))"

definition arm_decode_0_1000000_0_30 :: "u32 \<Rightarrow> nat" where
  "arm_decode_0_1000000_0_30 bs =
     (if bs AND 0x100000 = 0x100000
      then (if bs AND 0x80 = 0x0
         then (if bs AND 0x200000 \<noteq> 0x0
            then (if bs AND 0xf0000000 \<noteq> 0xf0000000 then 48 else 161)
            else (if bs AND 0xf0000000 \<noteq> 0xf0000000 then 51 else 161))
         else (if bs AND 0x40 = 0x0
            then (if bs AND 0xf0000000 \<noteq> 0xf0000000 then 87 else 161)
            else (if bs AND 0xf0000000 \<noteq> 0xf0000000 then 90 else 161)))
      else (if bs AND 0x40 = 0x0
         then (if bs AND 0x80 = 0x0
            then (if bs AND 0x200000 = 0x200000 \<and> bs AND 0xf0000000 \<noteq> 0xf0000000 then 130 else 161)
            else (if bs AND 0xf0000000 \<noteq> 0xf0000000 then 101 else 161))
         else (if bs AND 0x80 \<noteq> 0x0
            then (if bs AND 0xf0000000 \<noteq> 0xf0000000 then 104 else 161)
            else (if bs AND 0x200000 = 0x200000 \<and> bs AND 0xf0000000 \<noteq> 0xf0000000 then 132 else 161))))"

definition arm_decode_0_1000000_0_0 :: "u32 \<Rightarrow> nat" where
  "arm_decode_0_1000000_0_0 bs =
     (if bs AND 0x100000 = 0x0
      then (if bs AND 0xf0000000 \<noteq> 0xf0000000
         then (if bs AND 0x80 \<noteq> 0x80
            then (if bs AND 0x200000 = 0x0
               then (if bs AND 0x40 = 0x0 \<and> bs AND 0xf0000000 \<noteq> 0xf0000000 then 123 else 161)
               else (if bs AND 0x40 = 0x0 \<and> bs AND 0xf0000000 \<noteq> 0xf0000000 then 125 else 161))
            else (if bs AND 0xf0000000 \<noteq> 0xf0000000 then 31 else 161))
         else (if bs AND 0x10000 = 0x0
            then (if bs AND 0x200000 = 0x0 then 134 else 161)
            else (if bs AND 0x2000c0 = 0x0 then 145 else 161)))
      else (if bs AND 0x200000 \<noteq> 0x0
         then (if bs AND 0xf0000000 \<noteq> 0xf0000000 then 47 else 161)
         else (if bs AND 0xf0000000 \<noteq> 0xf0000000 then 50 else 161)))"

definition arm_decode_0_1000000_0 :: "u32 \<Rightarrow> nat" where
  "arm_decode_0_1000000_0 bs =
     (let k = bs AND 0x30 in
      if k = 0x10 then arm_decode_0_1000000_0_10 bs
      else if k = 0x30 then arm_decode_0_1000000_0_30 bs
      else if k = 0x0 then arm_decode_0_1000000_0_0 bs
      else if k = 0x20 then (if bs AND 0x100000 \<noteq> 0x0
         then (if bs AND 0x200000 \<noteq> 0x0
            then (if bs AND 0xf0000000 \<noteq> 0xf0000000 then 47 else 161)
            else (if bs AND 0xf0000000 \<noteq> 0xf0000000 then 50 else 161))
         else (if bs AND 0x80 \<noteq> 0x0
            then (if bs AND 0xf0000000 \<noteq> 0xf0000000 then 31 else 161)
            else (if bs AND 0x200040 = 0x200000 \<and> bs AND 0xf0000000 \<noteq> 0xf0000000 then 131 else 161)))
      else 161)"

definition arm_decode_0_1000000_c00000 :: "u32 \<Rightarrow> nat" where
  "arm_decode_0_1000000_c00000 bs =
     (let k = bs AND 0x30 in
      if k = 0x30 then (if bs AND 0x80 \<noteq> 0x0
         then (if bs AND 0x40 = 0x0
            then (if bs AND 0x100000 = 0x0
               then (if bs AND 0xf0000000 \<noteq> 0xf0000000 then 100 else 161)
               else (if bs AND 0xf0000000 \<noteq> 0xf0000000 then 86 else 161))
            else (if bs AND 0x100000 = 0x0
               then (if bs AND 0xf0000000 \<noteq> 0xf0000000 then 103 else 161)
               else (if bs AND 0xf0000000 \<noteq> 0xf0000000 then 89 else 161)))
         else (if bs AND 0x200000 \<noteq> 0x0
            then (if bs AND 0xf0000000 \<noteq> 0xf0000000 then 42 else 161)
            else (if bs AND 0xf0000000 \<noteq> 0xf0000000 then 63 else 161)))
      else if k = 0x10 then (if bs AND 0x200080 \<noteq> 0x200000
         then (if bs AND 0x80 \<noteq> 0x0
            then (if bs AND 0x40 = 0x0
               then (if bs AND 0x100000 \<noteq> 0x0
                  then (if bs AND 0x200000 = 0x0
                     then (if bs AND 0xf0000000 \<noteq> 0xf0000000 then 83 else 161)
                     else (if bs AND 0xf0000000 \<noteq> 0xf0000000 then 88 else 161))
                  else (if bs AND 0x200000 = 0x0
                     then (if bs AND 0xf0000000 \<noteq> 0xf0000000 then 99 else 161)
                     else (if bs AND 0xf0000000 \<noteq> 0xf0000000 then 102 else 161)))
               else (if bs AND 0x100000 = 0x0
                  then (if bs AND 0xf0000000 \<noteq> 0xf0000000 then 91 else 161)
                  else (if bs AND 0xf0000000 \<noteq> 0xf0000000 then 84 else 161)))
            else (if bs AND 0x200000 = 0x0 \<and> bs AND 0xf0000000 \<noteq> 0xf0000000 then 63 else 161))
         else (if bs AND 0xf0000000 \<noteq> 0xf0000000 then 42 else 161))
      else if k = 0x0 then (if bs AND 0x200000 \<noteq> 0x0
         then (if bs AND 0xf0000000 \<noteq> 0xf0000000 then 41 else 161)
         else (if bs AND 0xf0000000 \<noteq> 0xf0000000 then 62 else 161))
      else if k = 0x20 then (if bs AND 0x200000 \<noteq> 0x0
         then (if bs AND 0xf0000000 \<noteq> 0xf0000000 then 41 else 161)
         else (if bs AND 0xf0000000 \<noteq> 0xf0000000 then 62 else 161))
      else 161)"

definition arm_decode_0_1000000 :: "u32 \<Rightarrow> nat" where
  "arm_decode_0_1000000 bs =
     (let k = bs AND 0xc00000 in
      if k = 0x800000 then arm_decode_0_1000000_800000 bs
      else if k = 0x400000 then arm_decode_0_1000000_400000 bs
      else if k = 0x0 then arm_decode_0_1000000_0 bs
      else if k = 0xc00000 then arm_decode_0_1000000_c00000 bs
      else 161)"

definition arm_decode_0_0_400000 :: "u32 \<Rightarrow> nat" where
  "arm_decode_0_0_400000 bs =
     (if bs AND 0x200010 \<noteq> 0x0
      then (if bs AND 0x10 \<noteq> 0x0
         then (if bs AND 0x200080 \<noteq> 0x0
            then (if bs AND 0x80 \<noteq> 0x0
               then (let k = bs AND 0x60 in
                  if k = 0x20 then (if bs AND 0x100000 = 0x0
                     then (if bs AND 0xf0000000 \<noteq> 0xf0000000 then 100 else 161)
                     else (if bs AND 0xf0000000 \<noteq> 0xf0000000 then 86 else 161))
                  else if k = 0x60 then (if bs AND 0x100000 = 0x0
                     then (if bs AND 0xf0000000 \<noteq> 0xf0000000 then 103 else 161)
                     else (if bs AND 0xf0000000 \<noteq> 0xf0000000 then 89 else 161))
                  else if k = 0x40 then (if bs AND 0x100000 = 0x0
                     then (if bs AND 0xf0000000 \<noteq> 0xf0000000 then 91 else 161)
                     else (if bs AND 0xf0000000 \<noteq> 0xf0000000 then 84 else 161))
                  else if k = 0x0 then (if bs AND 0xf0000000 \<noteq> 0xf0000000
                     then (if bs AND 0xff000f0 = 0x400090 \<and> bs AND 0xf0000000 \<noteq> 0xf0000000
                        then 30
                        else (if bs AND 0xf8000f0 = 0x90 then 27 else 161))
                     else 161)
                  else 161)
               else (if bs AND 0x200000 = 0x200000 \<and> bs AND 0xf0000000 \<noteq> 0xf0000000 then 14 else 161))
            else (if bs AND 0xf0000000 \<noteq> 0xf0000000 then 8 else 161))
         else (if bs AND 0x200000 = 0x200000 \<and> bs AND 0xf0000000 \<noteq> 0xf0000000 \<and> bs AND 0x10f000 \<noteq> 0x10f000 then 13 else 161))
      else (if bs AND 0xf0000000 \<noteq> 0xf0000000 then 7 else 161))"

definition arm_decode_0_0_800000 :: "u32 \<Rightarrow> nat" where
  "arm_decode_0_0_800000 bs =
     (if bs AND 0x200010 \<noteq> 0x0
      then (if bs AND 0x10 \<noteq> 0x0
         then (let k = bs AND 0xc0 in
            if k = 0x40 then (if bs AND 0x200000 = 0x0
               then (if bs AND 0xf0000000 \<noteq> 0xf0000000 then 2 else 161)
               else (if bs AND 0xf0000000 \<noteq> 0xf0000000 then 5 else 161))
            else if k = 0x0 then (if bs AND 0x200000 = 0x0
               then (if bs AND 0xf0000000 \<noteq> 0xf0000000 then 2 else 161)
               else (if bs AND 0xf0000000 \<noteq> 0xf0000000 then 5 else 161))
            else if k = 0xc0 then (if bs AND 0x20 \<noteq> 0x20
               then (if bs AND 0x100000 = 0x0
                  then (if bs AND 0xf0000000 \<noteq> 0xf0000000 then 92 else 161)
                  else (if bs AND 0xf0000000 \<noteq> 0xf0000000 then 85 else 161))
               else (if bs AND 0x100000 \<noteq> 0x0
                  then (if bs AND 0xf0000000 \<noteq> 0xf0000000 then 90 else 161)
                  else (if bs AND 0xf0000000 \<noteq> 0xf0000000 then 104 else 161)))
            else if k = 0x80 then (if bs AND 0x20 = 0x20
               then (if bs AND 0x100000 \<noteq> 0x0
                  then (if bs AND 0xf0000000 \<noteq> 0xf0000000 then 87 else 161)
                  else (if bs AND 0xf0000000 \<noteq> 0xf0000000 then 101 else 161))
               else (if bs AND 0xf0000000 \<noteq> 0xf0000000 then 29 else 161))
            else 161)
         else (if bs AND 0x200000 = 0x200000 \<and> bs AND 0xf0000000 \<noteq> 0xf0000000 then 4 else 161))
      else (if bs AND 0xf0000000 \<noteq> 0xf0000000 then 1 else 161))"

definition arm_decode_0_0_0 :: "u32 \<Rightarrow> nat" where
  "arm_decode_0_0_0 bs =
     (if bs AND 0x200010 \<noteq> 0x0
      then (if bs AND 0x10 \<noteq> 0x0
         then (if bs AND 0x200080 \<noteq> 0x0
            then (if bs AND 0x80 \<noteq> 0x0
               then (let k = bs AND 0x60 in
                  if k = 0x40 then (if bs AND 0x100000 = 0x0
                     then (if bs AND 0xf0000000 \<noteq> 0xf0000000 then 92 else 161)
                     else (if bs AND 0xf0000000 \<noteq> 0xf0000000 then 85 else 161))
                  else if k = 0x20 then (if bs AND 0x100000 \<noteq> 0x0
                     then (if bs AND 0xf0000000 \<noteq> 0xf0000000 then 87 else 161)
                     else (if bs AND 0xf0000000 \<noteq> 0xf0000000 then 101 else 161))
                  else if k = 0x0 then (if bs AND 0xf0000000 \<noteq> 0xf0000000
                     then (if bs AND 0xff000f0 = 0x400090 \<and> bs AND 0xf0000000 \<noteq> 0xf0000000
                        then 30
                        else (if bs AND 0xf8000f0 = 0x90 then 27 else 161))
                     else 161)
                  else if k = 0x60 then (if bs AND 0x100000 \<noteq> 0x0
                     then (if bs AND 0xf0000000 \<noteq> 0xf0000000 then 90 else 161)
                     else (if bs AND 0xf0000000 \<noteq> 0xf0000000 then 104 else 161))
                  else 161)
               else (if bs AND 0x200000 = 0x200000 \<and> bs AND 0xf0000000 \<noteq> 0xf0000000 then 39 else 161))
            else (if bs AND 0xf0000000 \<noteq> 0xf0000000 then 36 else 161))
         else (if bs AND 0x200000 = 0x200000 \<and> bs AND 0xf0000000 \<noteq> 0xf0000000 then 38 else 161))
      else (if bs AND 0xf0000000 \<noteq> 0xf0000000 then 35 else 161))"

definition arm_decode_0_0_c00000 :: "u32 \<Rightarrow> nat" where
  "arm_decode_0_0_c00000 bs =
     (if bs AND 0x200010 \<noteq> 0x0
      then (if bs AND 0x10 \<noteq> 0x0
         then (if bs AND 0x200080 \<noteq> 0x0
            then (if bs AND 0x80 \<noteq> 0x0
               then (let k = bs AND 0x60 in
                  if k = 0x20 then (if bs AND 0x100000 = 0x0
                     then (if bs AND 0xf0000000 \<noteq> 0xf0000000 then 100 else 161)
                     else (if bs AND 0xf0000000 \<noteq> 0xf0000000 then 86 else 161))
                  else if k = 0x60 then (if bs AND 0x100000 = 0x0
                     then (if bs AND 0xf0000000 \<noteq> 0xf0000000 then 103 else 161)
                     else (if bs AND 0xf0000000 \<noteq> 0xf0000000 then 89 else 161))
                  else if k = 0x40 then (if bs AND 0x100000 = 0x0
                     then (if bs AND 0xf0000000 \<noteq> 0xf0000000 then 91 else 161)
                     else (if bs AND 0xf0000000 \<noteq> 0xf0000000 then 84 else 161))
                  else if k = 0x0 then (if bs AND 0xf0000000 \<noteq> 0xf0000000 then 29 else 161)
                  else 161)
               else (if bs AND 0x200000 = 0x200000 \<and> bs AND 0xf0000000 \<noteq> 0xf0000000 then 17 else 161))
            else (if bs AND 0xf0000000 \<noteq> 0xf0000000 then 11 else 161))
         else (if bs AND 0x200000 = 0x200000 \<and> bs AND 0xf0000000 \<noteq> 0xf0000000 then 16 else 161))
      else (if bs AND 0xf0000000 \<noteq> 0xf0000000 then 10 else 161))"

definition arm_decode_0_0 :: "u32 \<Rightarrow> nat" where
  "arm_decode_0_0 bs =
     (let k = bs AND 0xc00000 in
      if k = 0x400000 then arm_decode_0_0_400000 bs
      else if k = 0x800000 then arm_decode_0_0_800000 bs
      else if k = 0x0 then arm_decode_0_0_0 bs
      else if k = 0xc00000 then arm_decode_0_0_c00000 bs
      else 161)"

definition arm_decode_0 :: "u32 \<Rightarrow> nat" where
  "arm_decode_0 bs =
     (let k = bs AND 0x3000000 in
      if k = 0x1000000 then arm_decode_0_1000000 bs
      else if k = 0x0 then arm_decode_0_0 bs
      else 161)"

definition arm_decode_2000000_1000000 :: "u32 \<Rightarrow> nat" where
  "arm_decode_2000000_1000000 bs =
     (let k = bs AND 0x300000 in
      if k = 0x100000 then (if bs AND 0x400000 \<noteq> 0x0
         then (if bs AND 0xf0000000 \<noteq> 0xf0000000 then 75 else 161)
         else (if bs AND 0xf0000000 \<noteq> 0xf0000000 then 49 else 161))
      else if k = 0x200000 then (if bs AND 0x4f0000 = 0x0
         then (if bs AND 0x10 = 0x0
            then (if bs AND 0x7 \<noteq> 0x0
               then (if bs AND 0x1 = 0x0
                  then (if bs AND 0x2 = 0x0
                     then (if bs AND 0xec = 0x4 \<and> bs AND 0xf0000000 \<noteq> 0xf0000000 then 146 else 161)
                     else (if bs AND 0xec = 0x0 \<and> bs AND 0xf0000000 \<noteq> 0xf0000000 then 150 else 161))
                  else (if bs AND 0x2 = 0x0
                     then (if bs AND 0xec = 0x0 \<and> bs AND 0xf0000000 \<noteq> 0xf0000000 then 152 else 161)
                     else (if bs AND 0xec = 0x0 \<and> bs AND 0xf0000000 \<noteq> 0xf0000000 then 151 else 161)))
               else (if bs AND 0xe8 = 0x0 \<and> bs AND 0xf0000000 \<noteq> 0xf0000000 then 139 else 161))
            else (if bs AND 0xe0 = 0xe0 \<and> bs AND 0xf0000000 \<noteq> 0xf0000000 then 135 else 161))
         else (if bs AND 0xf0000000 \<noteq> 0xf0000000 \<and> bs AND 0x4f0000 \<noteq> 0x0 then 124 else 161))
      else if k = 0x300000 then (if bs AND 0x400000 \<noteq> 0x0
         then (if bs AND 0xf0000000 \<noteq> 0xf0000000 then 72 else 161)
         else (if bs AND 0xf0000000 \<noteq> 0xf0000000 then 46 else 161))
      else if k = 0x0 then (if bs AND 0x400000 = 0x0
         then (if bs AND 0xf0000000 \<noteq> 0xf0000000 then 120 else 161)
         else (if bs AND 0xf0000000 \<noteq> 0xf0000000 then 121 else 161))
      else 161)"

definition arm_decode_2000000 :: "u32 \<Rightarrow> nat" where
  "arm_decode_2000000 bs =
     (let k = bs AND 0x1800000 in
      if k = 0x1000000 then arm_decode_2000000_1000000 bs
      else if k = 0x1800000 then (if bs AND 0x200000 \<noteq> 0x0
         then (if bs AND 0x400000 = 0x0
            then (if bs AND 0xf0000000 \<noteq> 0xf0000000 then 118 else 161)
            else (if bs AND 0xf0000000 \<noteq> 0xf0000000 then 40 else 161))
         else (if bs AND 0x400000 = 0x0
            then (if bs AND 0xf0000000 \<noteq> 0xf0000000 then 43 else 161)
            else (if bs AND 0xf0000000 \<noteq> 0xf0000000 then 61 else 161)))
      else if k = 0x0 then (if bs AND 0x200000 = 0x0
         then (if bs AND 0x400000 = 0x0
            then (if bs AND 0xf0000000 \<noteq> 0xf0000000 then 34 else 161)
            else (if bs AND 0xf0000000 \<noteq> 0xf0000000 then 6 else 161))
         else (if bs AND 0x400000 = 0x0
            then (if bs AND 0xf0000000 \<noteq> 0xf0000000 then 37 else 161)
            else (if bs AND 0xf0000000 \<noteq> 0xf0000000 then 12 else 161)))
      else if k = 0x800000 then (if bs AND 0x200000 = 0x0
         then (if bs AND 0x400000 = 0x0
            then (if bs AND 0xf0000000 \<noteq> 0xf0000000 then 0 else 161)
            else (if bs AND 0xf0000000 \<noteq> 0xf0000000 then 9 else 161))
         else (if bs AND 0x400000 = 0x0
            then (if bs AND 0xf0000000 \<noteq> 0xf0000000 then 3 else 161)
            else (if bs AND 0xf0000000 \<noteq> 0xf0000000 then 15 else 161)))
      else 161)"

definition arm_decode_6000000_2000000_30 :: "u32 \<Rightarrow> nat" where
  "arm_decode_6000000_2000000_30 bs =
     (let k = bs AND 0xc0 in
      if k = 0x0 then (if bs AND 0x800000 \<noteq> 0x0
         then (if bs AND 0x100000 \<noteq> 0x0
            then (if bs AND 0x400000 = 0x0
               then (if bs AND 0x200000 = 0x200000 \<and> bs AND 0xf0000000 \<noteq> 0xf0000000 then 67 else 161)
               else (if bs AND 0x200000 = 0x200000 \<and> bs AND 0xf0000000 \<noteq> 0xf0000000 then 66 else 161))
            else (if bs AND 0x200000 = 0x200000 \<and> bs AND 0xf0000000 \<noteq> 0xf0000000 then 25 else 161))
         else (if bs AND 0xf0000000 \<noteq> 0xf0000000 \<and> bs AND 0x300000 \<noteq> 0x0 then 22 else 161))
      else if k = 0x80 then (if bs AND 0x100000 \<noteq> 0x0
         then (if bs AND 0x400000 \<noteq> 0x0
            then (if bs AND 0xa00000 = 0xa00000 \<and> bs AND 0xf0000000 \<noteq> 0xf0000000 then 69 else 161)
            else (if bs AND 0xa00000 = 0xa00000 \<and> bs AND 0xf0000000 \<noteq> 0xf0000000 then 68 else 161))
         else (if bs AND 0xe00000 = 0x800000 \<and> bs AND 0xf0000000 \<noteq> 0xf0000000 then 71 else 161))
      else if k = 0x40 then (if bs AND 0x800000 \<noteq> 0x0
         then (if bs AND 0xf0000000 \<noteq> 0xf0000000 \<and> bs AND 0x300000 \<noteq> 0x100000 then 21 else 161)
         else (if bs AND 0xf0000000 \<noteq> 0xf0000000 \<and> bs AND 0x300000 \<noteq> 0x0 then 19 else 161))
      else if k = 0xc0 then (if bs AND 0x800000 = 0x0 \<and> bs AND 0xf0000000 \<noteq> 0xf0000000 \<and> bs AND 0x300000 \<noteq> 0x0 then 19 else 161)
      else 161)"

definition arm_decode_6000000_2000000 :: "u32 \<Rightarrow> nat" where
  "arm_decode_6000000_2000000 bs =
     (let k = bs AND 0x30 in
      if k = 0x0 then (if bs AND 0xf0000000 \<noteq> 0xf0000000
         then (if bs AND 0x100000 = 0x0
            then (if bs AND 0x400000 = 0x0
               then (if bs AND 0xf0000000 \<noteq> 0xf0000000 then 95 else 161)
               else (if bs AND 0xf0000000 \<noteq> 0xf0000000 then 98 else 161))
            else (if bs AND 0x400000 = 0x0
               then (if bs AND 0xf0000000 \<noteq> 0xf0000000 then 79 else 161)
               else (if bs AND 0xf0000000 \<noteq> 0xf0000000 then 82 else 161)))
         else (if bs AND 0x700000 = 0x500000 then 141 else 161))
      else if k = 0x20 then (if bs AND 0xf0000000 \<noteq> 0xf0000000
         then (if bs AND 0x100000 = 0x0
            then (if bs AND 0x400000 = 0x0
               then (if bs AND 0xf0000000 \<noteq> 0xf0000000 then 95 else 161)
               else (if bs AND 0xf0000000 \<noteq> 0xf0000000 then 98 else 161))
            else (if bs AND 0x400000 = 0x0
               then (if bs AND 0xf0000000 \<noteq> 0xf0000000 then 79 else 161)
               else (if bs AND 0xf0000000 \<noteq> 0xf0000000 then 82 else 161)))
         else (if bs AND 0x700000 = 0x500000 then 141 else 161))
      else if k = 0x30 then arm_decode_6000000_2000000_30 bs
      else if k = 0x10 then (if bs AND 0x800000 \<noteq> 0x0
         then (if bs AND 0x200000 = 0x0
            then (if bs AND 0x500000 = 0x0 \<and> bs AND 0xf0000000 \<noteq> 0xf0000000 then 65 else 161)
            else (if bs AND 0xf0000000 \<noteq> 0xf0000000 then 24 else 161))
         else (if bs AND 0x40 \<noteq> 0x0
            then (if bs AND 0x80 = 0x0 \<and> bs AND 0xf0000000 \<noteq> 0xf0000000 \<and> bs AND 0x300000 \<noteq> 0x0 then 23 else 161)
            else (if bs AND 0xf0000000 \<noteq> 0xf0000000 \<and> bs AND 0x300000 \<noteq> 0x0 then 18 else 161)))
      else 161)"

definition arm_decode_6000000_3000000 :: "u32 \<Rightarrow> nat" where
  "arm_decode_6000000_3000000 bs =
     (if bs AND 0xf0000000 \<noteq> 0xf0000000
      then (if bs AND 0x400010 \<noteq> 0x0
         then (if bs AND 0x100010 \<noteq> 0x0
            then (if bs AND 0x10 \<noteq> 0x0
               then (if bs AND 0x800020 \<noteq> 0x800020
                  then (if bs AND 0x900000 \<noteq> 0x100000
                     then (if bs AND 0xa00000 \<noteq> 0x800000
                        then (if bs AND 0x200000 = 0x0
                           then (if bs AND 0x900000 = 0x0 \<and> bs AND 0xf0000000 \<noteq> 0xf0000000 \<and> bs AND 0xc0 \<noteq> 0x80 \<and> bs AND 0xc0 \<noteq> 0xc0 then 32 else 161)
                           else (if bs AND 0x800060 = 0x800040 \<and> bs AND 0xf0000000 \<noteq> 0xf0000000 then 70 else 161))
                        else (if bs AND 0x400000 \<noteq> 0x0
                           then (if bs AND 0x60 = 0x0 \<and> bs AND 0xf0000000 \<noteq> 0xf0000000 then 60 else 161)
                           else (if bs AND 0x1000e0 = 0x0 \<and> bs AND 0xf0000000 \<noteq> 0xf0000000 then 20 else 161)))
                     else (if bs AND 0x400000 \<noteq> 0x0
                        then (if bs AND 0x200000 = 0x0 \<and> bs AND 0xf0000000 \<noteq> 0xf0000000 \<and> bs AND 0xc0 \<noteq> 0x40 \<and> bs AND 0xc0 \<noteq> 0x80 then 28 else 161)
                        else (if bs AND 0xe0 = 0x0 \<and> bs AND 0xf0000000 \<noteq> 0xf0000000 then 33 else 161)))
                  else (if bs AND 0xf07000c0 = 0xe07000c0 then 149 else 161))
               else (if bs AND 0x500000 = 0x500000 \<and> bs AND 0xf0000000 \<noteq> 0xf0000000 then 82 else 161))
            else (if bs AND 0x400000 = 0x400000 \<and> bs AND 0xf0000000 \<noteq> 0xf0000000 then 98 else 161))
         else (if bs AND 0x100000 = 0x0
            then (if bs AND 0xf0000000 \<noteq> 0xf0000000 then 95 else 161)
            else (if bs AND 0xf0000000 \<noteq> 0xf0000000 then 79 else 161)))
      else (if bs AND 0x300010 = 0x100000 then 143 else 161))"

definition arm_decode_6000000 :: "u32 \<Rightarrow> nat" where
  "arm_decode_6000000 bs =
     (let k = bs AND 0x3000000 in
      if k = 0x2000000 then arm_decode_6000000_2000000 bs
      else if k = 0x3000000 then arm_decode_6000000_3000000 bs
      else 161)"

definition arm_decode_8000000 :: "u32 \<Rightarrow> nat" where
  "arm_decode_8000000 bs =
     (if bs AND 0xf0000000 \<noteq> 0xf0000000
      then (let k = bs AND 0x1800000 in
         if k = 0x800000 then (if bs AND 0x100000 = 0x0
            then (if bs AND 0xf0000000 \<noteq> 0xf0000000 then 112 else 161)
            else (if bs AND 0xf0000000 \<noteq> 0xf0000000
               then (if bs AND 0xfff0000 = 0x8bd0000 \<and> bs AND 0xf0000000 \<noteq> 0xf0000000 \<and> bs AND 0xffff \<noteq> 0x0 \<and> bs AND 0xffff \<noteq> 0x1 \<and> bs AND 0xffff \<noteq> 0x2 \<and> bs AND 0xffff \<noteq> 0x4 \<and> bs AND 0xffff \<noteq> 0x8 \<and> bs AND 0xffff \<noteq> 0x10 \<and> bs AND 0xffff \<noteq> 0x20 \<and> bs AND 0xffff \<noteq> 0x40 \<and> bs AND 0xffff \<noteq> 0x80 \<and> bs AND 0xffff \<noteq> 0x100 \<and> bs AND 0xffff \<noteq> 0x200 \<and> bs AND 0xffff \<noteq> 0x400 \<and> bs AND 0xffff \<noteq> 0x800 \<and> bs AND 0xffff \<noteq> 0x1000 \<and> bs AND 0xffff \<noteq> 0x2000 \<and> bs AND 0xffff \<noteq> 0x4000 \<and> bs AND 0xffff \<noteq> 0x8000
                  then 111
                  else (if bs AND 0xf900000 = 0x8900000 then 106 else 161))
               else 161))
         else if k = 0x0 then (if bs AND 0x100000 \<noteq> 0x0
            then (if bs AND 0xf0000000 \<noteq> 0xf0000000 then 108 else 161)
            else (if bs AND 0xf0000000 \<noteq> 0xf0000000 then 114 else 161))
         else if k = 0x1000000 then (if bs AND 0x100000 = 0x0
            then (if bs AND 0xf0000000 \<noteq> 0xf0000000
               then (if bs AND 0xfff0000 = 0x92d0000 \<and> bs AND 0xf0000000 \<noteq> 0xf0000000 \<and> bs AND 0xffff \<noteq> 0x0 \<and> bs AND 0xffff \<noteq> 0x1 \<and> bs AND 0xffff \<noteq> 0x2 \<and> bs AND 0xffff \<noteq> 0x4 \<and> bs AND 0xffff \<noteq> 0x8 \<and> bs AND 0xffff \<noteq> 0x10 \<and> bs AND 0xffff \<noteq> 0x20 \<and> bs AND 0xffff \<noteq> 0x40 \<and> bs AND 0xffff \<noteq> 0x80 \<and> bs AND 0xffff \<noteq> 0x100 \<and> bs AND 0xffff \<noteq> 0x200 \<and> bs AND 0xffff \<noteq> 0x400 \<and> bs AND 0xffff \<noteq> 0x800 \<and> bs AND 0xffff \<noteq> 0x1000 \<and> bs AND 0xffff \<noteq> 0x2000 \<and> bs AND 0xffff \<noteq> 0x4000 \<and> bs AND 0xffff \<noteq> 0x8000
                  then 117
                  else (if bs AND 0xf900000 = 0x9000000 then 115 else 161))
               else 161)
            else (if bs AND 0xf0000000 \<noteq> 0xf0000000 then 109 else 161))
         else if k = 0x1800000 then (if bs AND 0x100000 = 0x0
            then (if bs AND 0xf0000000 \<noteq> 0xf0000000 then 113 else 161)
            else (if bs AND 0xf0000000 \<noteq> 0xf0000000 then 107 else 161))
         else 161)
      else (if bs AND 0x100000 \<noteq> 0x0
         then (if bs AND 0x400000 = 0x0 then 144 else 161)
         else (if bs AND 0x400000 = 0x400000 then 147 else 161)))"

definition arm_decode_4000000 :: "u32 \<Rightarrow> nat" where
  "arm_decode_4000000 bs =
     (if bs AND 0x500000 \<noteq> 0x0
      then (if bs AND 0x100000 \<noteq> 0x0
         then (if bs AND 0xf0000000 \<noteq> 0xf0000000
            then (if bs AND 0x400000 = 0x0
               then (if bs AND 0xf0000000 \<noteq> 0xf0000000
                  then (if bs AND 0xfff0fff = 0x49d0004 \<and> bs AND 0xf0000000 \<noteq> 0xf0000000
                     then 110
                     else (if bs AND 0xe500000 = 0x4100000 then 78 else 161))
                  else 161)
               else (if bs AND 0xf0000000 \<noteq> 0xf0000000 then 81 else 161))
            else (if bs AND 0x200000 \<noteq> 0x0
               then (if bs AND 0x10 \<noteq> 0x0
                  then (if bs AND 0x40 \<noteq> 0x0
                     then (if bs AND 0x1c000a0 = 0x1400000 then 136 else 161)
                     else (if bs AND 0x1c000a0 = 0x1400000 then 133 else 161))
                  else (if bs AND 0x20 \<noteq> 0x0
                     then (if bs AND 0x1c000c0 = 0x1400040 then 138 else 161)
                     else (if bs AND 0x1c000c0 = 0x1400040 then 137 else 161)))
               else (if bs AND 0x1000000 = 0x0
                  then (if bs AND 0x400000 = 0x400000 then 140 else 161)
                  else 142)))
         else (if bs AND 0x400000 = 0x400000 \<and> bs AND 0xf0000000 \<noteq> 0xf0000000 then 97 else 161))
      else (if bs AND 0xf0000000 \<noteq> 0xf0000000
         then (if bs AND 0xfff0fff = 0x52d0004 \<and> bs AND 0xf0000000 \<noteq> 0xf0000000
            then 116
            else (if bs AND 0xe500000 = 0x4000000 then 94 else 161))
         else 161))"

definition arm_decode :: "u32 \<Rightarrow> nat" where
  "arm_decode bs =
     (let k = bs AND 0xe000000 in
      if k = 0x0 then arm_decode_0 bs
      else if k = 0x2000000 then arm_decode_2000000 bs
      else if k = 0x6000000 then arm_decode_6000000 bs
      else if k = 0x8000000 then arm_decode_8000000 bs
      else if k = 0x4000000 then arm_decode_4000000 bs
      else if k = 0xa000000 then (if bs AND 0xf0000000 \<noteq> 0xf0000000
         then (if bs AND 0x1000000 \<noteq> 0x0
            then (if bs AND 0xf0000000 \<noteq> 0xf0000000 then 127 else 161)
            else (if bs AND 0xf0000000 \<noteq> 0xf0000000 then 126 else 161))
         else 129)
      else if k = 0xe000000 then (if bs AND 0x1000000 \<noteq> 0x0
         then (if bs AND 0xf0000000 \<noteq> 0xf0000000 then 148 else 161)
         else (if bs AND 0x10 \<noteq> 0x0
            then (if bs AND 0x100000 \<noteq> 0x0
               then (if bs AND 0xf00 \<noteq> 0xa00 \<and> bs AND 0xf00 \<noteq> 0xb00 then 159 else 161)
               else (if bs AND 0xf00 \<noteq> 0xa00 \<and> bs AND 0xf00 \<noteq> 0xb00 then 157 else 161))
            else (if bs AND 0xf00 \<noteq> 0xa00 \<and> bs AND 0xf00 \<noteq> 0xb00 then 154 else 161)))
      else if k = 0xc000000 then (if bs AND 0x100000 \<noteq> 0x0
         then (if bs AND 0x1a00000 \<noteq> 0x0
            then (if bs AND 0x1a00000 \<noteq> 0x0 \<and> bs AND 0xf00 \<noteq> 0xa00 \<and> bs AND 0xf00 \<noteq> 0xb00 then 155 else 161)
            else (if bs AND 0x400000 = 0x400000 \<and> bs AND 0xf00 \<noteq> 0xa00 \<and> bs AND 0xf00 \<noteq> 0xb00 then 160 else 161))
         else (if bs AND 0x1a00000 = 0x0
            then (if bs AND 0x400000 = 0x400000 \<and> bs AND 0xf00 \<noteq> 0xa00 \<and> bs AND 0xf00 \<noteq> 0xb00 then 158 else 161)
            else (if bs AND 0x1a00000 \<noteq> 0x0 \<and> bs AND 0xf00 \<noteq> 0xa00 \<and> bs AND 0xf00 \<noteq> 0xb00 then 156 else 161)))
      else 161)"

section \<open>The instruction table\<close>

definition arm_INSTRUCTIONS :: "'m cpu_if \<Rightarrow> (arm_params \<Rightarrow> 'm arm \<Rightarrow> 'm ares) list" where
  "arm_INSTRUCTIONS ai =
     [arm_ADD_i, arm_ADD_r, arm_ADD_sr, arm_ADC_i, arm_ADC_r, arm_ADC_sr, arm_SUB_i, arm_SUB_r,
      arm_SUB_sr, arm_SBC_i, arm_SBC_r, arm_SBC_sr, arm_RSB_i, arm_RSB_r, arm_RSB_sr, arm_RSC_i,
      arm_RSC_r, arm_RSC_sr, arm_USHQADD, arm_USHQSUB, arm_USADA8, arm_USXTAHB, arm_USHQASX, arm_USHQSAX,
      arm_USSAT, arm_USSAT16, arm_QDADDSUB, arm_MUL, arm_SMMUL, arm_MULL, arm_UMAAL, arm_SMULBW,
      arm_SMMULD, arm_DIV, arm_AND_i, arm_AND_r, arm_AND_sr, arm_EOR_i, arm_EOR_r, arm_EOR_sr, arm_MVN_i,
      arm_MVN_r, arm_MVN_sr, arm_ORR_i, arm_ORR_r, arm_ORR_sr, arm_TEQ_i, arm_TEQ_r, arm_TEQ_sr,
      arm_TST_i, arm_TST_r, arm_TST_sr, arm_ASR_r, arm_ASR_sr, arm_LSR_r, arm_LSR_sr, arm_LSL_r,
      arm_LSL_sr, arm_ROR_r, arm_ROR_sr, arm_BFCI, arm_BIC_i, arm_BIC_r, arm_BIC_sr, arm_CLZ, arm_PKH,
      arm_RBIT, arm_REV, arm_REV16, arm_REVSH, arm_USBFX, arm_SEL, arm_CMN_i, arm_CMN_r, arm_CMN_sr,
      arm_CMP_i, arm_CMP_r, arm_CMP_sr, arm_LDR_i ai, arm_LDR_r ai, arm_LDREX ai, arm_LDRB_i ai,
      arm_LDRB_r ai, arm_LDREXB ai, arm_LDRSB_i ai, arm_LDRSB_r ai, arm_LDRH_i ai, arm_LDRH_r ai,
      arm_LDREXH ai, arm_LDRSH_i ai, arm_LDRSH_r ai, arm_LDRD_i ai, arm_LDRD_r ai, arm_LDREXD ai,
      arm_STR_i ai, arm_STR_r ai, arm_STREX ai, arm_STRB_i ai, arm_STRB_r ai, arm_STREXB ai,
      arm_STRH_i ai, arm_STRH_r ai, arm_STREXH ai, arm_STRD_i ai, arm_STRD_r ai, arm_STREXD ai,
      arm_LDM ai, arm_LDMIB ai, arm_LDMDA ai, arm_LDMDB ai, arm_POP_single ai, arm_POP_block ai,
      arm_STM ai, arm_STMIB ai, arm_STMDA ai, arm_STMDB ai, arm_PUSH_single ai, arm_PUSH_block ai,
      arm_MOV_i, arm_MOV_r, arm_MOVW, arm_MOVT, arm_SWP ai, arm_MRS, arm_MSR_i, arm_MSR_r, arm_B, arm_BL,
      arm_BX, arm_BLX_i, arm_BLX_r, arm_BXJ, arm_BKPT, arm_CLREX, arm_CPS, arm_DBG, arm_DMB, arm_DSB,
      arm_ISB, arm_NOP, arm_PLI_i, arm_PLI_r, arm_PLD_i, arm_PLD_r, arm_RFE, arm_SETEND, arm_SEV,
      arm_SRS, arm_SVC, arm_UDF, arm_WFE, arm_WFI, arm_YIELD, arm_SMC, arm_CDP, arm_LDC, arm_STC,
      arm_MCR, arm_MCRR, arm_MRC, arm_MRRC, arm_Invalid]"

lemma length_arm_INSTRUCTIONS [simp]: "length (arm_INSTRUCTIONS ai) = 162"
  by (simp add: arm_INSTRUCTIONS_def)

lemmas arm_decode_defs =
  arm_decode_0_1000000_800000_10_def arm_decode_0_1000000_800000_30_def arm_decode_0_1000000_800000_def arm_decode_0_1000000_400000_30_def arm_decode_0_1000000_400000_10_def arm_decode_0_1000000_400000_def arm_decode_0_1000000_0_10_def arm_decode_0_1000000_0_30_def arm_decode_0_1000000_0_0_def arm_decode_0_1000000_0_def arm_decode_0_1000000_c00000_def arm_decode_0_1000000_def arm_decode_0_0_400000_def arm_decode_0_0_800000_def arm_decode_0_0_0_def arm_decode_0_0_c00000_def arm_decode_0_0_def arm_decode_0_def arm_decode_2000000_1000000_def arm_decode_2000000_def arm_decode_6000000_2000000_30_def arm_decode_6000000_2000000_def arm_decode_6000000_3000000_def arm_decode_6000000_def arm_decode_8000000_def arm_decode_4000000_def arm_decode_def Let_def

lemma arm_decode_range: "arm_decode bs < 162"
  unfolding arm_decode_defs by (intro if_lessI) simp_all

end
