(* ===== verification/Arm_Step.thy ===== *)
theory Arm_Step
  imports Arm_Decode
begin

text \<open>
  Reset and the main loop of the ARM core (src/arm/arm/intunit/processor.cpp).  One iteration
  executes the instruction at the program counter, through an instruction cache that is indexed
  by the instruction word, and advances the program counter unless the instruction changed it.
  While an interrupt line is raised an iteration executes the interrupt instruction, whose
  \<^verbatim>\<open>behavior\<close> is empty.  Tools, history, profiling and the quantum keeper are
  left out.
\<close>

section \<open>The core\<close>

record arm_cache_elem =
  ace_instr :: "(nat \<times> arm_params) option"
  ace_count :: u32

definition arm_CacheElem :: arm_cache_elem where
  "arm_CacheElem = \<lparr>ace_instr = None, ace_count = 1\<rparr>"

record 'm arm_core =
  acpu :: "'m arm"
  instr_cache :: "u32 \<rightharpoonup> arm_cache_elem"
  elapsed :: u32
  num_instructions :: u32

section \<open>Reset\<close>

definition arm_reset :: "u32 \<Rightarrow> u32 \<Rightarrow> 'm arm \<Rightarrow> 'm arm" where
  "arm_reset mproc_id entry_point s = set_RB 15 entry_point (arm_registers_reset mproc_id entry_point s)"

definition arm_constructed :: "u32 \<Rightarrow> u32 \<Rightarrow> 'm \<Rightarrow> 'm arm" where
  "arm_constructed mproc_id entry_point m =
     \<lparr>CPSR = 0xd3, SCR = 0x0, SCTLR = 0x0, MP_ID = mproc_id, SPSR = (\<lambda>_. 0x0),
      RB = (\<lambda>i. if i = 15 then entry_point else 0x0), CPREGS = (\<lambda>_. 0x0), REGS = arm_aliases, Mem = m\<rparr>"

section \<open>Executing one instruction\<close>

definition arm_decoded :: "u32 \<Rightarrow> nat \<times> arm_params" where
  "arm_decoded bitstring = (let id = arm_decode bitstring in (id, (arm_set_params ! id) bitstring))"

definition arm_execute :: "'m cpu_if \<Rightarrow> nat \<times> arm_params \<Rightarrow> 'm arm \<Rightarrow> 'm ares" where
  "arm_execute ai i s = (arm_INSTRUCTIONS ai ! fst i) (snd i) s"

definition arm_advance :: "u32 \<Rightarrow> 'm arm \<Rightarrow> 'm arm" where
  "arm_advance cur_PC s =
     (if cur_PC = RB s 15
      then if cpsr CPSR_T s \<noteq> 0 then add_areg 15 2 s
           else if cpsr CPSR_J s \<noteq> 0 then add_areg 15 1 s
           else add_areg 15 4 s
      else s)"

text \<open>The end of an iteration; \<^verbatim>\<open>annul_exception\<close> is caught and costs no cycles, anything
  else that is thrown ends the simulation.\<close>

definition arm_retire :: "u32 \<Rightarrow> 'm ares \<Rightarrow> (u32 \<rightharpoonup> arm_cache_elem) \<Rightarrow> 'm arm_core \<Rightarrow> 'm arm_core option" where
  "arm_retire cur_PC r cache c = (case r of
       Ok num_cycles s \<Rightarrow> Some \<lparr>acpu = arm_advance cur_PC s, instr_cache = cache,
                            elapsed = elapsed c + (num_cycles + 1), num_instructions = num_instructions c + 1\<rparr>
     | Annul s \<Rightarrow> Some \<lparr>acpu = arm_advance cur_PC s, instr_cache = cache,
                            elapsed = elapsed c + (0 + 1), num_instructions = num_instructions c + 1\<rparr>
     | Throw e \<Rightarrow> None)"

section \<open>The main loop\<close>

definition arm_lookup :: "u32 \<Rightarrow> (u32 \<rightharpoonup> arm_cache_elem) \<Rightarrow> (nat \<times> arm_params) \<times> (u32 \<rightharpoonup> arm_cache_elem)" where
  "arm_lookup bitstring cache =
     (case cache bitstring of
        Some e \<Rightarrow>
          (case ace_instr e of
             Some i \<Rightarrow> (i, cache)
           | None \<Rightarrow>
               (let i = arm_decoded bitstring
                in (i, cache(bitstring \<mapsto> (if ace_count e < 256 then e\<lparr>ace_count := ace_count e + 1\<rparr>
                                         else e\<lparr>ace_instr := Some i\<rparr>)))))
      | None \<Rightarrow> (arm_decoded bitstring, cache(bitstring \<mapsto> arm_CacheElem)))"

definition arm_loop :: "'m cpu_if \<Rightarrow> bool \<Rightarrow> bool \<Rightarrow> 'm arm_core \<Rightarrow> 'm arm_core option" where
  "arm_loop ai fiq irq c =
     (let s = acpu c; cur_PC = RB s 15
      in if fiq \<or> irq
         then Some (c\<lparr>elapsed := elapsed c + (0 + 1), num_instructions := num_instructions c + 1\<rparr>)
         else case read_instr ai cur_PC (Mem s) of
                None \<Rightarrow> None
              | Some (bitstring, e, m) \<Rightarrow>
                  (let (i, cache) = arm_lookup bitstring (instr_cache c)
                   in arm_retire cur_PC (arm_execute ai i (s\<lparr>Mem := m\<rparr>)) cache c))"

primrec arm_run :: "'m cpu_if \<Rightarrow> (bool \<times> bool) list \<Rightarrow> 'm arm_core \<Rightarrow> 'm arm_core option" where
  "arm_run ai [] c = Some c"
| "arm_run ai (l # lines) c = (case arm_loop ai (fst l) (snd l) c of None \<Rightarrow> None | Some c' \<Rightarrow> arm_run ai lines c')"

text \<open>One instruction without the cache.\<close>

definition arm_plain :: "'m cpu_if \<Rightarrow> 'm arm \<Rightarrow> 'm arm option" where
  "arm_plain ai s =
     (case read_instr ai (RB s 15) (Mem s) of
        None \<Rightarrow> None
      | Some (bitstring, e, m) \<Rightarrow>
          map_option (arm_advance (RB s 15)) (final_state (arm_execute ai (arm_decoded bitstring) (s\<lparr>Mem := m\<rparr>))))"

end
