(* ===== verification/Arm_Loop_Props.thy ===== *)
theory Arm_Loop_Props
  imports Arm_Step
begin

text \<open>
  The main loop of the ARM core: its instruction cache never changes what a program does, an
  instruction whose condition fails only advances the program counter, and a branch to itself
  falls through.
\<close>

section \<open>The instruction cache\<close>

text \<open>A cached object was made from the word it is filed under.\<close>

definition cache_faithful :: "(u32 \<rightharpoonup> arm_cache_elem) \<Rightarrow> bool" where
  "cache_faithful cache = (\<forall>w e i. cache w = Some e \<longrightarrow> ace_instr e = Some i \<longrightarrow> i = arm_decoded w)"

lemma cache_faithful_empty [simp]: "cache_faithful Map.empty"
  by (simp add: cache_faithful_def)

lemma arm_lookup_faithful:
  assumes "cache_faithful cache"
  shows "fst (arm_lookup w cache) = arm_decoded w" "cache_faithful (snd (arm_lookup w cache))"
  using assms by (auto simp: arm_lookup_def cache_faithful_def arm_CacheElem_def Let_def split: option.splits)

text \<open>An iteration without the cache.\<close>

definition arm_plain_loop :: "'m cpu_if \<Rightarrow> bool \<times> bool \<Rightarrow> 'm arm \<Rightarrow> 'm arm option" where
  "arm_plain_loop ai l s = (if fst l \<or> snd l then Some s else arm_plain ai s)"

primrec arm_plain_run :: "'m cpu_if \<Rightarrow> (bool \<times> bool) list \<Rightarrow> 'm arm \<Rightarrow> 'm arm option" where
  "arm_plain_run ai [] s = Some s"
| "arm_plain_run ai (l # lines) s =
     (case arm_plain_loop ai l s of None \<Rightarrow> None | Some s \<Rightarrow> arm_plain_run ai lines s)"

lemma arm_retire_acpu:
  "map_option acpu (arm_retire cur_PC r cache c) = map_option (arm_advance cur_PC) (final_state r)"
  by (cases r) (simp_all add: arm_retire_def)

lemma arm_retire_cache: "arm_retire cur_PC r cache c = Some c' \<Longrightarrow> instr_cache c' = cache"
  by (cases r) (auto simp: arm_retire_def)

lemma arm_loop_plain:
  assumes "cache_faithful (instr_cache c)"
  shows "map_option acpu (arm_loop ai (fst l) (snd l) c) = arm_plain_loop ai l (acpu c)"
proof (cases "fst l \<or> snd l")
  case False
  then show ?thesis
    by (auto simp: arm_loop_def arm_plain_loop_def arm_plain_def Let_def split_beta arm_retire_acpu
        arm_lookup_faithful(1) [OF assms] split: option.splits)
qed (simp add: arm_loop_def arm_plain_loop_def Let_def)

lemma arm_loop_faithful:
  assumes "cache_faithful (instr_cache c)" "arm_loop ai fiq irq c = Some c'"
  shows "cache_faithful (instr_cache c')"
proof (cases "fiq \<or> irq")
  case False
  then show ?thesis
    using assms arm_lookup_faithful(2) [OF assms(1)]
    by (auto simp: arm_loop_def Let_def split_beta split: option.splits dest: arm_retire_cache)
qed (use assms in \<open>auto simp: arm_loop_def Let_def\<close>)

lemma arm_run_plain:
  assumes "cache_faithful (instr_cache c)"
  shows "map_option acpu (arm_run ai lines c) = arm_plain_run ai lines (acpu c)"
  using assms
proof (induction lines arbitrary: c)
  case (Cons l lines)
  show ?case
  proof (cases "arm_loop ai (fst l) (snd l) c")
    case None
    then show ?thesis using arm_loop_plain [OF Cons.prems, of ai l] by simp
  next
    case (Some c')
    then have "arm_plain_loop ai l (acpu c) = Some (acpu c')"
      using arm_loop_plain [OF Cons.prems, of ai l] by simp
    then show ?thesis using Some Cons.IH [OF arm_loop_faithful [OF Cons.prems Some]] by simp
  qed
qed simp

text \<open>(C27) The instruction cache of the ARM core is transparent.  Whatever the sequence of
  interrupt lines, and however often an instruction word is met before its object is cached, a
  run from an empty cache leaves the registers and the memory as the machine does that decodes
  every word anew, and fails exactly when that machine does.\<close>

theorem arm_cache_transparent:
  "map_option acpu (arm_run ai lines (c\<lparr>instr_cache := Map.empty\<rparr>)) = arm_plain_run ai lines (acpu c)"
  using arm_run_plain [of "c\<lparr>instr_cache := Map.empty\<rparr>"] by simp

section \<open>Conditions\<close>

text \<open>The classes without a condition: \<^verbatim>\<open>CLREX\<close>, \<^verbatim>\<open>CPS\<close>, \<^verbatim>\<open>DMB\<close>, \<^verbatim>\<open>DSB\<close>, \<^verbatim>\<open>ISB\<close>,
  the preloads, \<^verbatim>\<open>RFE\<close>, \<^verbatim>\<open>SETEND\<close>, \<^verbatim>\<open>SRS\<close> and the invalid instruction.\<close>

definition unconditional_ids :: "nat list" where
  "unconditional_ids = [133, 134, 136, 137, 138, 140, 141, 142, 143, 144, 145, 147, 161]"

definition has_condition :: "bool list" where
  "has_condition = replicate 133 True @ [False, False, True, False, False, False, True, False, False, False,
     False, False, False, True, False] @ replicate 13 True @ [False]"

lemma has_condition_nth: "i < 162 \<Longrightarrow> i \<notin> set unconditional_ids \<Longrightarrow> has_condition ! i"
proof -
  have "\<forall>i \<in> set [0..<162]. i \<notin> set unconditional_ids \<longrightarrow> has_condition ! i" by code_simp
  then show "i < 162 \<Longrightarrow> i \<notin> set unconditional_ids \<Longrightarrow> has_condition ! i" by simp
qed

lemma has_condition_list_all2:
  assumes "list_all2 (\<lambda>b f. b \<longrightarrow> P f) has_condition fs" "i < 162" "i \<notin> set unconditional_ids"
  shows "P (fs ! i)"
  using list_all2_nthD [OF assms(1), of i] has_condition_nth [OF assms(2,3)] assms(2)
  by (simp add: has_condition_def)

lemmas conditional_classes =
  arm_ADD_i_def arm_ADD_r_def arm_ADD_sr_def arm_ADC_i_def arm_ADC_r_def arm_ADC_sr_def arm_SUB_i_def
  arm_SUB_r_def arm_SUB_sr_def arm_SBC_i_def arm_SBC_r_def arm_SBC_sr_def arm_RSB_i_def arm_RSB_r_def
  arm_RSB_sr_def arm_RSC_i_def arm_RSC_r_def arm_RSC_sr_def arm_USHQADD_def arm_USHQSUB_def arm_USADA8_def
  arm_USXTAHB_def arm_USHQASX_def arm_USHQSAX_def arm_USSAT_def arm_USSAT16_def arm_QDADDSUB_def arm_MUL_def
  arm_SMMUL_def arm_MULL_def arm_UMAAL_def arm_SMULBW_def arm_SMMULD_def arm_DIV_def arm_AND_i_def
  arm_AND_r_def arm_AND_sr_def arm_EOR_i_def arm_EOR_r_def arm_EOR_sr_def arm_MVN_i_def arm_MVN_r_def
  arm_MVN_sr_def arm_ORR_i_def arm_ORR_r_def arm_ORR_sr_def arm_TEQ_i_def arm_TEQ_r_def arm_TEQ_sr_def
  arm_TST_i_def arm_TST_r_def arm_TST_sr_def arm_ASR_r_def arm_ASR_sr_def arm_LSR_r_def arm_LSR_sr_def
  arm_LSL_r_def arm_LSL_sr_def arm_ROR_r_def arm_ROR_sr_def arm_BFCI_def arm_BIC_i_def arm_BIC_r_def
  arm_BIC_sr_def arm_CLZ_def arm_PKH_def arm_RBIT_def arm_REV_def arm_REV16_def arm_REVSH_def arm_USBFX_def
  arm_SEL_def arm_CMN_i_def arm_CMN_r_def arm_CMN_sr_def arm_CMP_i_def arm_CMP_r_def arm_CMP_sr_def
  arm_LDR_i_def arm_LDR_r_def arm_LDREX_def arm_LDRB_i_def arm_LDRB_r_def arm_LDREXB_def arm_LDRSB_i_def
  arm_LDRSB_r_def arm_LDRH_i_def arm_LDRH_r_def arm_LDREXH_def arm_LDRSH_i_def arm_LDRSH_r_def arm_LDRD_i_def
  arm_LDRD_r_def arm_LDREXD_def arm_STR_i_def arm_STR_r_def arm_STREX_def arm_STRB_i_def arm_STRB_r_def
  arm_STREXB_def arm_STRH_i_def arm_STRH_r_def arm_STREXH_def arm_STRD_i_def arm_STRD_r_def arm_STREXD_def
  arm_LDM_def arm_LDMIB_def arm_LDMDA_def arm_LDMDB_def arm_POP_single_def arm_POP_block_def arm_STM_def
  arm_STMIB_def arm_STMDA_def arm_STMDB_def arm_PUSH_single_def arm_PUSH_block_def arm_MOV_i_def arm_MOV_r_def
  arm_MOVW_def arm_MOVT_def arm_SWP_def arm_MRS_def arm_MSR_i_def arm_MSR_r_def arm_B_def arm_BL_def
  arm_BX_def arm_BLX_i_def arm_BLX_r_def arm_BXJ_def arm_BKPT_def arm_DBG_def arm_NOP_def arm_SEV_def
  arm_SVC_def arm_UDF_def arm_WFE_def arm_WFI_def arm_YIELD_def arm_SMC_def arm_CDP_def arm_LDC_def
  arm_STC_def arm_MCR_def arm_MCRR_def arm_MRC_def arm_MRRC_def

lemmas conditional_params =
  ADD_i_params_def ADD_r_params_def ADD_sr_params_def ADC_i_params_def ADC_r_params_def ADC_sr_params_def
  SUB_i_params_def SUB_r_params_def SUB_sr_params_def SBC_i_params_def SBC_r_params_def SBC_sr_params_def
  RSB_i_params_def RSB_r_params_def RSB_sr_params_def RSC_i_params_def RSC_r_params_def RSC_sr_params_def
  USHQADD_params_def USHQSUB_params_def USADA8_params_def USXTAHB_params_def USHQASX_params_def
  USHQSAX_params_def USSAT_params_def USSAT16_params_def QDADDSUB_params_def MUL_params_def SMMUL_params_def
  MULL_params_def UMAAL_params_def SMULBW_params_def SMMULD_params_def DIV_params_def AND_i_params_def
  AND_r_params_def AND_sr_params_def EOR_i_params_def EOR_r_params_def EOR_sr_params_def MVN_i_params_def
  MVN_r_params_def MVN_sr_params_def ORR_i_params_def ORR_r_params_def ORR_sr_params_def TEQ_i_params_def
  TEQ_r_params_def TEQ_sr_params_def TST_i_params_def TST_r_params_def TST_sr_params_def ASR_r_params_def
  ASR_sr_params_def LSR_r_params_def LSR_sr_params_def LSL_r_params_def LSL_sr_params_def ROR_r_params_def
  ROR_sr_params_def BFCI_params_def BIC_i_params_def BIC_r_params_def BIC_sr_params_def CLZ_params_def
  PKH_params_def RBIT_params_def REV_params_def REV16_params_def REVSH_params_def USBFX_params_def
  SEL_params_def CMN_i_params_def CMN_r_params_def CMN_sr_params_def CMP_i_params_def CMP_r_params_def
  CMP_sr_params_def LDR_i_params_def LDR_r_params_def LDREX_params_def LDRB_i_params_def LDRB_r_params_def
  LDREXB_params_def LDRSB_i_params_def LDRSB_r_params_def LDRH_i_params_def LDRH_r_params_def
  LDREXH_params_def LDRSH_i_params_def LDRSH_r_params_def LDRD_i_params_def LDRD_r_params_def
  LDREXD_params_def STR_i_params_def STR_r_params_def STREX_params_def STRB_i_params_def STRB_r_params_def
  STREXB_params_def STRH_i_params_def STRH_r_params_def STREXH_params_def STRD_i_params_def STRD_r_params_def
  STREXD_params_def LDM_params_def LDMIB_params_def LDMDA_params_def LDMDB_params_def POP_single_params_def
  POP_block_params_def STM_params_def STMIB_params_def STMDA_params_def STMDB_params_def
  PUSH_single_params_def PUSH_block_params_def MOV_i_params_def MOV_r_params_def MOVW_params_def
  MOVT_params_def SWP_params_def MRS_params_def MSR_i_params_def MSR_r_params_def B_params_def BL_params_def
  BX_params_def BLX_i_params_def BLX_r_params_def BXJ_params_def BKPT_params_def DBG_params_def NOP_params_def
  SEV_params_def SVC_params_def UDF_params_def WFE_params_def WFI_params_def YIELD_params_def SMC_params_def
  CDP_params_def LDC_params_def STC_params_def MCR_params_def MCRR_params_def MRC_params_def MRRC_params_def

lemma conditional_annuls: "\<not> ConditionPassed (f_cond p) s \<Longrightarrow> f_cond p \<le> 0xF \<Longrightarrow> conditional p s r = Annul s"
  by (simp add: conditional_def)

definition annuls :: "(arm_params \<Rightarrow> 'm arm \<Rightarrow> 'm ares) \<Rightarrow> bool" where
  "annuls f = (\<forall>p s. \<not> ConditionPassed (f_cond p) s \<longrightarrow> f_cond p \<le> 0xF \<longrightarrow> f p s = Annul s)"

lemma annulsI: "(\<And>p s. \<exists>r. f p s = conditional p s r) \<Longrightarrow> annuls f"
  unfolding annuls_def by (metis conditional_annuls)

lemma conditional_classes_annul: "list_all2 (\<lambda>b f. b \<longrightarrow> annuls f) has_condition (arm_INSTRUCTIONS ai)"
  unfolding arm_INSTRUCTIONS_def has_condition_def
  by (simp add: eval_nat_numeral; intro conjI; rule annulsI, simp only: conditional_classes, rule exI, rule refl)

definition sets_cond :: "(u32 \<Rightarrow> arm_params) \<Rightarrow> bool" where
  "sets_cond f = (\<forall>bs. f_cond (f bs) = drop_bit 28 (bs AND 0xf0000000))"

lemma conditional_classes_cond: "list_all2 (\<lambda>b f. b \<longrightarrow> sets_cond f) has_condition arm_set_params"
  unfolding arm_set_params_def has_condition_def
  by (simp add: eval_nat_numeral; intro conjI; simp add: sets_cond_def conditional_params)

lemma cond_field: "drop_bit 28 bs AND 15 = drop_bit 28 (bs :: u32)"
proof -
  have "take_bit 4 (drop_bit 28 bs) = drop_bit 28 bs" by (simp add: take_bit_drop_bit)
  then show ?thesis by (simp add: take_bit_eq_mask mask_eq_exp_minus_1)
qed

lemma cond_field_bound: "drop_bit 28 (bs :: u32) \<le> 0xF"
  using word_and_le1 [of "drop_bit 28 bs" 15] by (simp add: cond_field)

lemma arm_execute_annuls:
  assumes "arm_decode bs \<notin> set unconditional_ids" "\<not> ConditionPassed (drop_bit 28 bs) s"
  shows "arm_execute ai (arm_decoded bs) s = Annul s"
proof -
  have "annuls (arm_INSTRUCTIONS ai ! arm_decode bs)" "sets_cond (arm_set_params ! arm_decode bs)"
    by (rule has_condition_list_all2 [OF conditional_classes_annul arm_decode_range assms(1)],
        rule has_condition_list_all2 [OF conditional_classes_cond arm_decode_range assms(1)])
  then show ?thesis
    using assms(2) by (simp add: arm_execute_def arm_decoded_def Let_def annuls_def sets_cond_def cond_field cond_field_bound)
qed

text \<open>The machine in ARM state whose program counter is register 15 of the bank.\<close>

definition arm_state :: "'m arm \<Rightarrow> bool" where
  "arm_state s = (cpsr CPSR_T s = 0 \<and> cpsr CPSR_J s = 0 \<and> REGS s 15 = (15, 8))"

lemma cpsr_update_other [simp]: "cpsr f (s\<lparr>Mem := m\<rparr>) = cpsr f s" "cpsr f (s\<lparr>RB := r\<rparr>) = cpsr f s"
    "cpsr f (s\<lparr>REGS := a\<rparr>) = cpsr f s" "cpsr f (s\<lparr>SPSR := b\<rparr>) = cpsr f s"
  by (simp_all add: cpsr_def read_CPSR_def)

lemma ConditionPassed_Mem [simp]: "ConditionPassed c (s\<lparr>Mem := m\<rparr>) = ConditionPassed c s"
  by (simp add: ConditionPassed_def read_CPSR_def)

lemma arm_advance_same: "arm_state s \<Longrightarrow> arm_advance (RB s 15) s = s\<lparr>RB := (RB s)(15 := RB s 15 + 4)\<rparr>"
  by (simp add: arm_advance_def arm_state_def add_areg_def set_RB_def)

lemma arm_advance_other: "RB s 15 \<noteq> pc \<Longrightarrow> arm_advance pc s = s"
  by (auto simp: arm_advance_def)

lemma arm_state_Mem [simp]: "arm_state (s\<lparr>Mem := m\<rparr>) = arm_state s"
  by (simp add: arm_state_def)

lemma arm_loop_plain_at:
  assumes "cache_faithful (instr_cache c)"
    and "read_instr ai (RB (acpu c) 15) (Mem (acpu c)) = Some (bs, e, m)"
  shows "map_option acpu (arm_loop ai False False c) =
    map_option (arm_advance (RB (acpu c) 15)) (final_state (arm_execute ai (arm_decoded bs) ((acpu c)\<lparr>Mem := m\<rparr>)))"
  using arm_loop_plain [OF assms(1), of ai "(False, False)"] assms(2) by (simp add: arm_plain_loop_def arm_plain_def)

text \<open>(C32) An instruction whose condition fails does nothing.  For every word that decodes to
  one of the 149 classes with a condition, wherever it lies, an iteration of the main loop with
  the condition of bits 31 to 28 not satisfied only advances the program counter to the next
  word.\<close>

theorem failed_condition_skips:
  assumes "cache_faithful (instr_cache c)" "arm_state (acpu c)"
    and "read_instr ai (RB (acpu c) 15) (Mem (acpu c)) = Some (bs, e, m)"
    and "arm_decode bs \<notin> set unconditional_ids" "\<not> ConditionPassed (drop_bit 28 bs) (acpu c)"
  shows "map_option acpu (arm_loop ai False False c) =
    Some ((acpu c)\<lparr>RB := (RB (acpu c))(15 := RB (acpu c) 15 + 4), Mem := m\<rparr>)"
proof -
  have "arm_execute ai (arm_decoded bs) ((acpu c)\<lparr>Mem := m\<rparr>) = Annul ((acpu c)\<lparr>Mem := m\<rparr>)"
    using assms(4,5) by (simp add: arm_execute_annuls)
  then show ?thesis
    using arm_advance_same [of "(acpu c)\<lparr>Mem := m\<rparr>"] assms(2) by (simp add: arm_loop_plain_at [OF assms(1,3)])
qed

section \<open>Branches\<close>

lemma arm_sign_extend_signed_take_bit:
  assumes "0 < n" "n < 64"
  shows "arm_sign_extend w n = signed_take_bit (n - 1) w"
proof -
  obtain k where k: "n = Suc k" using assms(1) by (cases n) auto
  let ?y = "take_bit n w"
  have t: "bit ?y k = bit w k" by (simp add: k bit_take_bit_iff)
  have x: "?y XOR push_bit k 1 = (if bit w k then ?y - push_bit k 1 else ?y + push_bit k 1)"
  proof (cases "bit w k")
    case True
    have "?y = (?y XOR push_bit k 1) OR push_bit k 1" "(?y XOR push_bit k 1) AND push_bit k 1 = 0"
      using True t by (auto intro!: bit_word_eqI simp: bit_simps)
    then have "?y = (?y XOR push_bit k 1) + push_bit k 1" using word_plus_and_or [of "?y XOR push_bit k 1" "push_bit k 1"] by simp
    then show ?thesis using True by (simp add: eq_diff_eq)
  next
    case False
    have "?y XOR push_bit k 1 = ?y OR push_bit k 1" "?y AND push_bit k 1 = 0"
      using False t by (auto intro!: bit_word_eqI simp: bit_simps)
    then show ?thesis using False word_plus_and_or [of ?y "push_bit k 1"] by simp
  qed
  have "arm_sign_extend w n = (?y XOR push_bit k 1) - push_bit k 1"
    using assms by (simp add: arm_sign_extend_def take_bit_eq_mask mask_eq_exp_minus_1 k push_bit_eq_mult)
  then show ?thesis unfolding x by (simp add: k signed_take_bit_eq_take_bit_minus push_bit_eq_mult)
qed

lemma take_bit_32_add: "take_bit 32 (take_bit 64 a + take_bit 64 b) = take_bit 32 (a + b :: int)"
proof -
  have "take_bit 32 (take_bit 64 a + take_bit 64 b) = take_bit 32 (take_bit 32 (take_bit 64 a) + take_bit 32 (take_bit 64 b))"
    by (simp only: take_bit_add)
  also have "\<dots> = take_bit 32 (take_bit 32 a + take_bit 32 b)" by simp
  also have "\<dots> = take_bit 32 (a + b)" by (simp only: take_bit_add)
  finally show ?thesis .
qed

lemma ucast_plus_u32: "(ucast (a + b :: u64) :: u32) = ucast a + ucast b"
  by transfer (simp add: take_bit_32_add)

lemma branch_target_u32:
  "(ucast (arm_sign_extend (ucast (pc :: u32)) 32 + push_bit 2 (arm_sign_extend (ucast (bs AND 0xffffff)) 24)) :: u32)
     = pc + push_bit 2 (signed_take_bit 23 bs)"
proof -
  have m: "bs AND 0xffffff = take_bit 24 bs" by (simp add: take_bit_eq_mask mask_eq_exp_minus_1)
  have "(ucast (arm_sign_extend (ucast pc) 32) :: u32) = pc"
    by (auto intro!: bit_word_eqI simp: arm_sign_extend_signed_take_bit bit_simps)
  moreover have "(ucast (push_bit 2 (arm_sign_extend (ucast (bs AND 0xffffff)) 24)) :: u32) = push_bit 2 (signed_take_bit 23 bs)"
    unfolding m by (rule bit_word_eqI) (auto simp: arm_sign_extend_signed_take_bit bit_simps min_def)
  ultimately show ?thesis by (simp add: ucast_plus_u32)
qed

lemma arm_B_table: "arm_INSTRUCTIONS ai ! 126 = arm_B" "arm_set_params ! 126 = B_params"
  by (simp_all add: arm_INSTRUCTIONS_def arm_set_params_def)

lemma arm_B_executes:
  assumes "arm_state s" "arm_decode bs = 126" "ConditionPassed (drop_bit 28 bs) s"
  shows "arm_execute ai (arm_decoded bs) s = Ok 2 (set_RB 15 (RB s 15 + 8 + push_bit 2 (signed_take_bit 23 bs)) s)"
  using assms
  by (simp add: arm_execute_def arm_decoded_def arm_B_table arm_B_def B_params_def conditional_def cond_field leD [OF cond_field_bound]
      branch_offset_def branch_target_u32 arm_state_def areg_def)

lemma arm_state_RB [simp]: "arm_state (s\<lparr>RB := r\<rparr>) = arm_state s"
  by (simp add: arm_state_def)

text \<open>(C33) The conditional branch of the ARM core.  A taken \<^verbatim>\<open>B\<close> continues at the address of the
  branch plus 8 plus four times its signed 24-bit offset, with one exception: a branch to itself
  is not repeated but continues behind the branch, since the main loop advances the program
  counter whenever an instruction leaves it unchanged.\<close>

theorem arm_branch_target:
  assumes "cache_faithful (instr_cache c)" "arm_state (acpu c)"
    and "read_instr ai (RB (acpu c) 15) (Mem (acpu c)) = Some (bs, e, m)"
    and "arm_decode bs = 126" "ConditionPassed (drop_bit 28 bs) (acpu c)"
  defines "pc \<equiv> RB (acpu c) 15"
  defines "target \<equiv> pc + 8 + push_bit 2 (signed_take_bit 23 bs)"
  shows "map_option acpu (arm_loop ai False False c) =
    Some ((acpu c)\<lparr>RB := (RB (acpu c))(15 := (if target = pc then pc + 4 else target)), Mem := m\<rparr>)"
proof -
  have x: "arm_execute ai (arm_decoded bs) ((acpu c)\<lparr>Mem := m\<rparr>) = Ok 2 (set_RB 15 target ((acpu c)\<lparr>Mem := m\<rparr>))"
    using assms(2,4,5) by (simp add: arm_B_executes target_def pc_def)
  show ?thesis
  proof (cases "target = pc")
    case True
    then have "set_RB 15 target ((acpu c)\<lparr>Mem := m\<rparr>) = (acpu c)\<lparr>Mem := m\<rparr>"
      by (simp add: set_RB_def pc_def)
    then show ?thesis
      using True x arm_advance_same [of "(acpu c)\<lparr>Mem := m\<rparr>"] assms(2)
      by (simp add: arm_loop_plain_at [OF assms(1,3)] pc_def)
  next
    case False
    then show ?thesis
      using x by (simp add: arm_loop_plain_at [OF assms(1,3)] arm_advance_other set_RB_def pc_def)
  qed
qed

section \<open>Examples\<close>

definition arm_sample :: "u8 list \<Rightarrow> local_memory arm_core" where
  "arm_sample bytes =
     \<lparr>acpu = arm_constructed 0 0 \<lparr>lm_bytes = bytes, lm_debugger = False, lm_notified = []\<rparr>,
      instr_cache = Map.empty, elapsed = 0, num_instructions = 0\<rparr>"

lemma arm_sample_simps [simp]:
  "cache_faithful (instr_cache (arm_sample bytes))"
  "arm_state (acpu (arm_sample bytes))"
  "RB (acpu (arm_sample bytes)) 15 = 0"
  "Mem (acpu (arm_sample bytes)) = \<lparr>lm_bytes = bytes, lm_debugger = False, lm_notified = []\<rparr>"
  "read_CPSR (acpu (arm_sample bytes)) = 0xd3"
  by (simp_all add: arm_sample_def arm_constructed_def arm_state_def cpsr_def read_CPSR_def PSR_mask_def
      field_read_def field_mask_def cpsr_fields arm_aliases_def)

lemma arm_sample_reads:
  "read_instr local_memory_if 0 \<lparr>lm_bytes = [0x00, 0x81, 0x10, 0x02], lm_debugger = False, lm_notified = []\<rparr>
    = Some (0x00811002, None, \<lparr>lm_bytes = [0x00, 0x81, 0x10, 0x02], lm_debugger = False, lm_notified = []\<rparr>)"
  "read_instr local_memory_if 0 \<lparr>lm_bytes = [0xEA, 0xFF, 0xFF, 0xFE], lm_debugger = False, lm_notified = []\<rparr>
    = Some (0xEAFFFFFE, None, \<lparr>lm_bytes = [0xEA, 0xFF, 0xFF, 0xFE], lm_debugger = False, lm_notified = []\<rparr>)"
  by code_simp+

lemma arm_sample_decodes: "arm_decode 0x00811002 = 1" "arm_decode 0xEAFFFFFE = 126"
  by code_simp+

text \<open>\<^verbatim>\<open>addeq r1, r1, r2\<close> with the Z flag clear.\<close>

lemma failed_condition_skips_witness:
  "map_option (\<lambda>c. RB (acpu c) 15) (arm_loop local_memory_if False False (arm_sample [0x00, 0x81, 0x10, 0x02])) = Some 4"
proof -
  have "\<not> ConditionPassed (drop_bit 28 0x00811002) (acpu (arm_sample [0x00, 0x81, 0x10, 0x02]))"
    by (simp add: ConditionPassed_def cpsr_def field_read_def field_mask_def cpsr_fields)
  then show ?thesis
    using failed_condition_skips [where c = "arm_sample [0x00, 0x81, 0x10, 0x02]" and ai = local_memory_if and bs = "0x00811002" and e = None
        and m = "\<lparr>lm_bytes = [0x00, 0x81, 0x10, 0x02], lm_debugger = False, lm_notified = []\<rparr>"]
    by (auto simp: arm_sample_reads arm_sample_decodes unconditional_ids_def)
qed

text \<open>\<^verbatim>\<open>b .\<close>\<close>

lemma arm_branch_target_witness:
  "map_option (\<lambda>c. RB (acpu c) 15) (arm_loop local_memory_if False False (arm_sample [0xEA, 0xFF, 0xFF, 0xFE])) = Some 4"
proof -
  have "ConditionPassed (drop_bit 28 0xEAFFFFFE) (acpu (arm_sample [0xEA, 0xFF, 0xFF, 0xFE]))"
    by (simp add: ConditionPassed_def)
  moreover have "push_bit 2 (signed_take_bit 23 0xEAFFFFFE) = (- 8 :: u32)" by code_simp
  ultimately show ?thesis
    using arm_branch_target [where c = "arm_sample [0xEA, 0xFF, 0xFF, 0xFE]" and ai = local_memory_if and bs = "0xEAFFFFFE" and e = None
        and m = "\<lparr>lm_bytes = [0xEA, 0xFF, 0xFF, 0xFE], lm_debugger = False, lm_notified = []\<rparr>"]
    by (auto simp: arm_sample_reads arm_sample_decodes)
qed

end
