(* ===== verification/Arm_Flag_Props.thy ===== *)
theory Arm_Flag_Props
  imports Arm_Step
begin

text \<open>
  The condition flags of the ARM core: reading a flag after writing one, the flags of
  \<^verbatim>\<open>AddWithCarry\<close> as statements about the sum of the operands, and the conditions after a
  comparison.
\<close>

section \<open>Single-bit fields of the status register\<close>

lemma field_mask_bit: "field_mask (i, i) = push_bit i 1"
  by (simp add: field_mask_def)

lemma cpsr_bit: "i < 32 \<Longrightarrow> cpsr (i, i) s = int_of_bool (bit (read_CPSR s) i)"
  by (auto intro!: bit_word_eqI simp: cpsr_def field_read_def field_mask_bit bit_simps)

lemma read_put_cpsr_bit:
  assumes "i < 32"
  shows "bit (read_CPSR (put_cpsr (i, i) v s)) j = (if j = i then bit v 0 \<and> bit PSR_mask i else bit (read_CPSR s) j)"
  using assms
  by (auto simp: put_cpsr_def write_CPSR_def read_CPSR_def field_write_def field_mask_bit bit_simps
      dest: bit_imp_le_length)

lemma PSR_mask_flags: "bit PSR_mask 31" "bit PSR_mask 30" "bit PSR_mask 29" "bit PSR_mask 28" "bit PSR_mask 27"
  by (simp_all add: PSR_mask_def)

lemma put_cpsr_frame [simp]:
  "RB (put_cpsr f v s) = RB s" "REGS (put_cpsr f v s) = REGS s" "SPSR (put_cpsr f v s) = SPSR s" "Mem (put_cpsr f v s) = Mem s"
  "CPREGS (put_cpsr f v s) = CPREGS s" "SCR (put_cpsr f v s) = SCR s" "SCTLR (put_cpsr f v s) = SCTLR s" "MP_ID (put_cpsr f v s) = MP_ID s"
  by (simp_all add: put_cpsr_def write_CPSR_def)

abbreviation flag :: "nat \<Rightarrow> 'm arm \<Rightarrow> bool" where
  "flag i s \<equiv> bit (read_CPSR s) i"

lemma cpsr_flags:
  "cpsr CPSR_N s = int_of_bool (flag 31 s)" "cpsr CPSR_Z s = int_of_bool (flag 30 s)"
  "cpsr CPSR_C s = int_of_bool (flag 29 s)" "cpsr CPSR_V s = int_of_bool (flag 28 s)"
  by (simp_all add: cpsr_fields cpsr_bit)

lemma flag_put:
  "flag j (put_cpsr CPSR_N v s) = (if j = 31 then bit v 0 else flag j s)"
  "flag j (put_cpsr CPSR_Z v s) = (if j = 30 then bit v 0 else flag j s)"
  "flag j (put_cpsr CPSR_C v s) = (if j = 29 then bit v 0 else flag j s)"
  "flag j (put_cpsr CPSR_V v s) = (if j = 28 then bit v 0 else flag j s)"
  by (simp_all add: cpsr_fields read_put_cpsr_bit PSR_mask_flags)

lemma bit_int_of_bool: "bit (int_of_bool b :: 'a::len word) 0 = b"
  by simp

section \<open>The flags of a sum\<close>

lemma and_bit_31_u64: "(w AND 0x80000000 \<noteq> 0) = bit (w :: u64) 31"
  using bit_iff_and_push_bit_not_eq_0 [of w 31] by simp

lemma bit_31_range:
  fixes r :: int
  assumes "- 4294967296 \<le> r" "r < 4294967296"
  shows "bit r 32 = (r < 0)" "(bit r 31 \<noteq> (r < 0)) = (r < - 2147483648 \<or> 2147483648 \<le> r)"
proof -
  have "r div 4294967296 = (if r < 0 then - 1 else 0)" using assms by auto
  then show "bit r 32 = (r < 0)" by (simp add: bit_iff_odd)
  have "r div 2147483648 = (if r < - 2147483648 then - 2 else if r < 0 then - 1 else if r < 2147483648 then 0 else 1)"
    using assms by auto
  then show "(bit r 31 \<noteq> (r < 0)) = (r < - 2147483648 \<or> 2147483648 \<le> r)" by (simp add: bit_iff_odd)
qed

lemma sum_u64:
  fixes a b c :: u32
  shows "(scast a + scast b + ucast c :: u64) = word_of_int (sint a + sint b + uint c)"
  by simp

lemma sum_u32:
  fixes a b c :: u32
  shows "a + b + c = word_of_int (sint a + sint b + uint c)"
  by simp

lemma sum_range:
  fixes a b c :: u32
  assumes "c \<le> 1"
  shows "- 4294967296 \<le> sint a + sint b + uint c" "sint a + sint b + uint c < 4294967296"
proof -
  have "uint c \<le> 1" "0 \<le> uint c" using assms by (auto simp: word_le_def)
  moreover have "- 2147483648 \<le> sint a" "sint a < 2147483648" "- 2147483648 \<le> sint b" "sint b < 2147483648"
    using sint_ge [of a] sint_lt [of a] sint_ge [of b] sint_lt [of b] by simp_all
  ultimately show "- 4294967296 \<le> sint a + sint b + uint c" "sint a + sint b + uint c < 4294967296" by linarith+
qed

lemma carry_out:
  fixes a b c :: u32
  assumes "c \<le> 1"
  shows "((bit a 31 \<noteq> bit b 31) \<noteq> (sint a + sint b + uint c < 0)) = (4294967296 \<le> uint a + uint b + uint c)"
proof -
  have "(((2147483648 \<le> x) \<noteq> (2147483648 \<le> y)) \<noteq>
      ((if 2147483648 \<le> x then x - 4294967296 else x) + (if 2147483648 \<le> y then y - 4294967296 else y) + z < 0))
    = (4294967296 \<le> x + y + z)"
    if "0 \<le> x" "x < 4294967296" "0 \<le> y" "y < 4294967296" "0 \<le> z" "z \<le> 1" for x y z :: int
    using that by auto
  moreover have "uint c \<le> 1" "0 \<le> uint c" using assms by (simp_all add: word_le_def)
  ultimately show ?thesis
    unfolding sint_uint_u32 bit_31_uint using uint_range_u32 [of a] uint_range_u32 [of b] by blast
qed

lemma AddWithCarry_flags:
  fixes a b c :: u32
  assumes "c \<le> 1"
  defines "r \<equiv> sint a + sint b + uint c"
  shows "flag 31 (AddWithCarry a b c s) = (sint (a + b + c) < 0)"
    and "flag 30 (AddWithCarry a b c s) = (r = 0)"
    and "flag 29 (AddWithCarry a b c s) = (4294967296 \<le> uint a + uint b + uint c)"
    and "flag 28 (AddWithCarry a b c s) = (r < - 2147483648 \<or> 2147483648 \<le> r)"
    and "(flag 31 (AddWithCarry a b c s) \<noteq> flag 28 (AddWithCarry a b c s)) = (r < 0)"
    and "n < 28 \<Longrightarrow> flag n (AddWithCarry a b c s) = flag n s"
proof -
  let ?R = "word_of_int r :: u64" and ?h = "ucast (signed_drop_bit 1 (word_of_int r :: u64)) :: u32"
  note range = sum_range [OF assms(1), of a b, folded r_def]
  have A: "AddWithCarry a b c s =
    put_cpsr CPSR_V (int_of_bool (?h AND 0x80000000 \<noteq> ucast ?R AND 0x80000000))
     (put_cpsr CPSR_C (int_of_bool ((a XOR b XOR ?h) AND 0x80000000 \<noteq> 0))
      (put_cpsr CPSR_Z (int_of_bool (?R = 0)) (put_cpsr CPSR_N (int_of_bool (?R AND 0x80000000 \<noteq> 0)) s)))"
    unfolding AddWithCarry_def sum_u64 r_def Let_def by (rule refl)
  have h: "bit ?h 31 = (r < 0)"
    by (simp add: bit_simps bit_31_range(1) [OF range])
  have N: "flag 31 (AddWithCarry a b c s) = bit r 31"
    unfolding A by (simp add: flag_put bit_int_of_bool and_bit_31_u64 bit_simps)
  then show "flag 31 (AddWithCarry a b c s) = (sint (a + b + c) < 0)"
    unfolding sum_u32 r_def [symmetric] by (simp add: bit_last_iff [symmetric] bit_simps)
  show "flag 30 (AddWithCarry a b c s) = (r = 0)"
  proof -
    have "(?R = 0) = (r = 0)"
      using range zdvd_not_zless [of r "2 ^ 64"] zdvd_not_zless [of "- r" "2 ^ 64"]
      by (auto simp: word_of_int_eq_0_iff)
    then show ?thesis unfolding A by (simp add: flag_put bit_int_of_bool)
  qed
  show "flag 29 (AddWithCarry a b c s) = (4294967296 \<le> uint a + uint b + uint c)"
    unfolding A carry_out [OF assms(1), symmetric] r_def [symmetric] h [symmetric]
    by (simp add: flag_put bit_int_of_bool and_top_bit bit_xor_iff) blast
  show V: "flag 28 (AddWithCarry a b c s) = (r < - 2147483648 \<or> 2147483648 \<le> r)"
  proof -
    have top: "(x AND 0x80000000 \<noteq> y AND 0x80000000) = (bit x 31 \<noteq> bit y 31)" for x y :: u32
      using and_push_bit_1 [of x 31] and_push_bit_1 [of y 31] by simp
    have "bit (ucast ?R :: u32) 31 = bit r 31" by (simp add: bit_simps)
    then show ?thesis
      unfolding A bit_31_range(2) [OF range, symmetric] h [symmetric]
      by (simp add: flag_put bit_int_of_bool top) blast
  qed
  show "(flag 31 (AddWithCarry a b c s) \<noteq> flag 28 (AddWithCarry a b c s)) = (r < 0)"
    unfolding N V bit_31_range(2) [OF range, symmetric] by blast
  show "n < 28 \<Longrightarrow> flag n (AddWithCarry a b c s) = flag n s"
    unfolding A by (simp add: flag_put)
qed

section \<open>Comparisons\<close>

lemma higher_bits: "(w AND 0x60000000 = (0x20000000 :: u32)) = (\<not> bit w 30 \<and> bit w 29)"
proof -
  have "(0x60000000 :: u32) = push_bit 30 1 OR push_bit 29 1" by simp
  then have "w AND 0x60000000 = (w AND push_bit 30 1) OR (w AND push_bit 29 1)"
    by (simp only: bit.conj_disj_distrib)
  then show ?thesis using and_push_bit_1 [of w 30] and_push_bit_1 [of w 29] by simp
qed

lemma sint_u32_inject: "(sint a = sint b) = (a = (b :: u32))"
  by (rule word_eq_iff_signed [symmetric])

lemma compare_flags:
  fixes a b :: u32 and s :: "'m arm"
  defines "X \<equiv> AddWithCarry a (NOT b) 1 s"
  shows "flag 31 X = (sint (a - b) < 0)" "flag 30 X = (a = b)" "flag 29 X = (b \<le> a)"
    "(flag 31 X \<noteq> flag 28 X) = (sint a < sint b)"
proof -
  have "uint (- 1 :: u32) = 4294967295" by (simp add: unsigned_minus_1_eq_mask mask_eq_exp_minus_1)
  moreover have "NOT b = - 1 - b" by (simp add: not_eq_complement)
  ultimately have u: "uint (NOT b) = 4294967295 - uint b"
    using uint_range_u32 [of b] uint_sub_if' [of "- 1" b] by simp
  have n: "sint (NOT b) = - sint b - 1" by (simp add: sint_uint_u32 u bit_not_iff)
  have e: "a + NOT b + 1 = a - b" by (simp add: not_eq_complement)
  show "flag 31 X = (sint (a - b) < 0)" "flag 30 X = (a = b)" "flag 29 X = (b \<le> a)"
    "(flag 31 X \<noteq> flag 28 X) = (sint a < sint b)"
    unfolding X_def using AddWithCarry_flags [where a = a and b = "NOT b" and c = 1 and s = s]
    by (simp_all add: n u e word_le_def sint_u32_inject)
qed

text \<open>The operand of a comparison.\<close>

definition compare_operand :: "nat \<Rightarrow> arm_params \<Rightarrow> 'm arm \<Rightarrow> u32 option" where
  "compare_operand form p s =
     (if form = 0 then Some (fst (ARMExpandImm (f_rotate p) (f_imm p) s))
      else if form = 1 then Some (fst (DecodeImmShift (rm p s) (f_shift_amm p) (f_shift_op p) s))
      else map_option fst (DecodeRegShift (rm p s) (rs p s) (f_shift_op p) s))"

definition arm_CMP :: "nat \<Rightarrow> arm_params \<Rightarrow> 'm arm \<Rightarrow> 'm ares" where
  "arm_CMP form p s = (if form = 0 then arm_CMP_i p s else if form = 1 then arm_CMP_r p s else arm_CMP_sr p s)"

lemma arm_CMP_state:
  assumes "arm_CMP form p s = Ok n s'"
  shows "\<exists>b. compare_operand form p s = Some b \<and> s' = AddWithCarry (rn p s) (NOT b) 1 s"
  using assms
  by (auto simp: arm_CMP_def compare_operand_def arm_CMP_i_def arm_CMP_r_def arm_CMP_sr_def with_imm_def with_shift_def
      with_reg_shift_def conditional_def check_def split_beta split: if_splits option.splits)

text \<open>(C30) The conditions of the ARM core are the orders of the operands.  After \<^verbatim>\<open>CMP\<close> in any of
  its three forms, \<^verbatim>\<open>EQ\<close>, \<^verbatim>\<open>NE\<close>, the unsigned conditions \<^verbatim>\<open>CS\<close>, \<^verbatim>\<open>CC\<close>, \<^verbatim>\<open>HI\<close>, \<^verbatim>\<open>LS\<close>
  and the signed ones \<^verbatim>\<open>GE\<close>, \<^verbatim>\<open>LT\<close>, \<^verbatim>\<open>GT\<close>, \<^verbatim>\<open>LE\<close> hold exactly when register \<^verbatim>\<open>rn\<close> and
  the shifted operand stand in the relation they name.\<close>

theorem arm_compare_conditions:
  assumes "arm_CMP form p s = Ok n s'" "compare_operand form p s = Some b"
  defines "a \<equiv> rn p s"
  shows "ConditionPassed 0x0 s' = (a = b) \<and> ConditionPassed 0x1 s' = (a \<noteq> b) \<and>
    ConditionPassed 0x2 s' = (b \<le> a) \<and> ConditionPassed 0x3 s' = (a < b) \<and>
    ConditionPassed 0x8 s' = (b < a) \<and> ConditionPassed 0x9 s' = (a \<le> b) \<and>
    ConditionPassed 0xA s' = (sint b \<le> sint a) \<and> ConditionPassed 0xB s' = (sint a < sint b) \<and>
    ConditionPassed 0xC s' = (sint b < sint a) \<and> ConditionPassed 0xD s' = (sint a \<le> sint b)"
proof -
  have s': "s' = AddWithCarry a (NOT b) 1 s" using arm_CMP_state [OF assms(1)] assms(2) by (auto simp: a_def)
  note f = compare_flags [of a b s, folded s']
  have ne: "(sint b < sint a) = (\<not> sint a < sint b \<and> a \<noteq> b)" "(sint a \<le> sint b) = (sint a < sint b \<or> a = b)"
    "(sint b \<le> sint a) = (\<not> sint a < sint b)"
    by (auto simp: sint_u32_inject [symmetric])
  have u: "(b < a) = (b \<le> a \<and> a \<noteq> b)" "(a \<le> b) = (\<not> b \<le> a \<or> a = b)" "(a < b) = (\<not> b \<le> a)" by auto
  show ?thesis
    unfolding ne u f(4) [symmetric]
    by (simp add: ConditionPassed_def cpsr_flags higher_bits f(2,3))
qed

text \<open>\<^verbatim>\<open>cmp r0, #1\<close> with \<^verbatim>\<open>r0 = 0\<close>.\<close>

lemma arm_compare_conditions_witness:
  "\<exists>s'. arm_CMP 0 (CMP_i_params 0xE3500001) (arm_constructed 0 0 ()) = Ok 0 s' \<and> ConditionPassed 0x3 s' \<and> ConditionPassed 0xB s'"
proof -
  let ?s = "arm_constructed 0 0 ()" and ?p = "CMP_i_params 0xE3500001"
  have p: "f_cond ?p = 0xE" "f_rotate ?p = 0" "f_imm ?p = 1" "f_rn_bit ?p = 0"
    by (simp_all add: CMP_i_params_def)
  have x: "arm_CMP 0 ?p ?s = Ok 0 (AddWithCarry (rn ?p ?s) (NOT 1) 1 ?s)" "compare_operand 0 ?p ?s = Some 1"
    by (simp_all add: arm_CMP_def arm_CMP_i_def conditional_def ConditionPassed_def with_imm_def ARMExpandImm_def arm_ROR_def
        compare_operand_def p)
  moreover have "rn ?p ?s = 0" by (simp add: p areg_def arm_constructed_def arm_aliases_def)
  ultimately show ?thesis using arm_compare_conditions [OF x] by auto
qed

section \<open>Additions\<close>

definition arm_ADD :: "nat \<Rightarrow> arm_params \<Rightarrow> 'm arm \<Rightarrow> 'm ares" where
  "arm_ADD form p s = (if form = 0 then arm_ADD_i p s else if form = 1 then arm_ADD_r p s else arm_ADD_sr p s)"

lemma read_CPSR_set_areg [simp]: "read_CPSR (set_areg i v s) = read_CPSR s"
  by (simp add: set_areg_def set_RB_def read_CPSR_def)

lemma RB_AddWithCarry [simp]: "RB (AddWithCarry a b c s) = RB s"
  by (simp add: AddWithCarry_def Let_def)

lemma zero_sum_u32:
  fixes a b :: u32
  shows "(sint a + sint b = 0) = (a + b = 0 \<and> \<not> (a = 0x80000000 \<and> b = 0x80000000))"
proof -
  have r: "- 2147483648 \<le> sint a" "sint a < 2147483648" "- 2147483648 \<le> sint b" "sint b < 2147483648"
    using sint_ge [of a] sint_lt [of a] sint_ge [of b] sint_lt [of b] by simp_all
  have m: "(x = 0x80000000) = (sint x = - 2147483648)" for x :: u32
    by (subst sint_u32_inject [symmetric]) simp
  have "(a + b = 0) = (word_of_int (sint a + sint b) = (0 :: u32))" by simp
  also have "\<dots> = (4294967296 dvd sint a + sint b)" by (subst word_of_int_eq_0_iff) simp
  also have "\<dots> = (sint a + sint b = 0 \<or> sint a + sint b = - 4294967296)"
  proof
    assume "4294967296 dvd sint a + sint b"
    then obtain k where k: "sint a + sint b = 4294967296 * k" by (elim dvdE)
    then have "- 2 < k" "k < 1" using r by linarith+
    then have "k = 0 \<or> k = - 1" by arith
    then show "sint a + sint b = 0 \<or> sint a + sint b = - 4294967296" using k by auto
  qed auto
  finally show ?thesis unfolding m [of a] m [of b] using r by linarith
qed

lemma arm_ADD_state:
  assumes "arm_ADD form p s = Ok n s'" "f_s p \<noteq> 0" "f_rd_bit p \<noteq> 15"
  shows "\<exists>b. compare_operand form p s = Some b \<and> s' = AddWithCarry (rn p s) b 0 (set_rd p (rn p s + b) s)"
  using assms
  by (auto simp: arm_ADD_def compare_operand_def arm_ADD_i_def arm_ADD_r_def arm_ADD_sr_def with_imm_def with_shift_def
      with_reg_shift_def conditional_def check_def pc_latency_def adr_operand_def UpdatePSRAdd_def Let_def and_then_def
      split_beta split: if_splits option.splits res.splits)

text \<open>(C31) The flags of an addition.  \<^verbatim>\<open>ADDS\<close> in any of its three forms writes the sum of \<^verbatim>\<open>rn\<close>
  and the operand; N is the sign of the sum, C its carry out of 32 bits, V tells that the signed
  sum leaves the 32-bit range, and no other bit of the status register below the flags changes.
  Z tells that the sum is zero, except for 0x80000000 + 0x80000000, where it stays clear: the
  simulator tests the sum before it is truncated.\<close>

theorem arm_add_flags:
  assumes "arm_ADD form p s = Ok n s'" "compare_operand form p s = Some b" "f_s p \<noteq> 0" "f_rd_bit p \<noteq> 15"
  defines "a \<equiv> rn p s"
  shows "RB s' = (RB s)(fst (REGS s (unat (f_rd_bit p))) := a + b) \<and>
    (cpsr CPSR_N s' \<noteq> 0) = (sint (a + b) < 0) \<and>
    (cpsr CPSR_Z s' \<noteq> 0) = (a + b = 0 \<and> \<not> (a = 0x80000000 \<and> b = 0x80000000)) \<and>
    (cpsr CPSR_C s' \<noteq> 0) = (2 ^ 32 \<le> uint a + uint b) \<and>
    (cpsr CPSR_V s' \<noteq> 0) = (sint a + sint b < - (2 ^ 31) \<or> 2 ^ 31 \<le> sint a + sint b) \<and>
    (\<forall>k < 28. bit (read_CPSR s') k = bit (read_CPSR s) k)"
proof -
  have s': "s' = AddWithCarry a b 0 (set_rd p (a + b) s)"
    using arm_ADD_state [OF assms(1,3,4)] assms(2) by (auto simp: a_def)
  have z: "(0 :: u32) \<le> 1" by simp
  note f = AddWithCarry_flags [OF z, where a = a and b = b and s = "set_rd p (a + b) s", folded s']
  have "RB s' = (RB s)(fst (REGS s (unat (f_rd_bit p))) := a + b)" by (simp add: s' set_areg_def set_RB_def)
  moreover have "flag 30 s' = (a + b = 0 \<and> \<not> (a = 0x80000000 \<and> b = 0x80000000))"
    unfolding f(2) zero_sum_u32 [of a b, symmetric] by simp
  moreover have "\<forall>k < 28. bit (read_CPSR s') k = bit (read_CPSR s) k" using f(6) by simp
  moreover have "flag 31 s' = (sint (a + b) < 0)" unfolding f(1) by simp
  moreover have "flag 29 s' = (2 ^ 32 \<le> uint a + uint b)" unfolding f(3) by simp
  moreover have "flag 28 s' = (sint a + sint b < - (2 ^ 31) \<or> 2 ^ 31 \<le> sint a + sint b)" unfolding f(4) by simp
  moreover have "(int_of_bool c \<noteq> (0 :: u32)) = c" for c by simp
  ultimately show ?thesis unfolding cpsr_flags by blast
qed

text \<open>\<^verbatim>\<open>adds r1, r0, #1\<close> with \<^verbatim>\<open>r0 = 0\<close>.\<close>

lemma arm_add_flags_witness:
  "\<exists>s'. arm_ADD 0 (ADD_i_params 0xE2901001) (arm_constructed 0 0 ()) = Ok 0 s' \<and> RB s' 1 = 1 \<and> cpsr CPSR_Z s' = 0"
proof -
  let ?s = "arm_constructed 0 0 ()" and ?p = "ADD_i_params 0xE2901001"
  have p: "f_cond ?p = 0xE" "f_rotate ?p = 0" "f_imm ?p = 1" "f_rn_bit ?p = 0" "f_rd_bit ?p = 1" "f_s ?p = 1"
    by (simp_all add: ADD_i_params_def)
  have a: "rn ?p ?s = 0" "fst (REGS ?s 1) = 1" by (simp_all add: p areg_def arm_constructed_def arm_aliases_def)
  have x: "arm_ADD 0 ?p ?s = Ok 0 (AddWithCarry 0 1 0 (set_rd ?p 1 ?s))" "compare_operand 0 ?p ?s = Some 1"
    using a by (simp_all add: arm_ADD_def arm_ADD_i_def conditional_def ConditionPassed_def with_imm_def ARMExpandImm_def arm_ROR_def
        compare_operand_def p check_def subs_illegal_def pc_latency_def adr_operand_def UpdatePSRAdd_def Let_def)
  then show ?thesis using arm_add_flags [OF x] a by (auto simp: p)
qed

end
