(* ===== verification/Arm_Stack_Props.thy ===== *)
theory Arm_Stack_Props
  imports Arm_Bank_Props
begin

text \<open>
  The block transfers of the ARM core over a memory that keeps the contract \<^verbatim>\<open>cpu_memory\<close>: what
  the loops over a register list store and load, and \<^verbatim>\<open>POP\<close> undoing \<^verbatim>\<open>PUSH\<close>.
\<close>

section \<open>The number of registers in a list\<close>

fun popcount :: "nat \<Rightarrow> nat" where
  "popcount n = (if n = 0 then 0 else n mod 2 + popcount (n div 2))"

declare popcount.simps [simp del]

lemma popcount_0 [simp]: "popcount 0 = 0"
  by (simp add: popcount.simps)

lemma popcount_double: "popcount (2 * n) = popcount n" "popcount (2 * n + 1) = popcount n + 1"
  by (simp_all add: popcount.simps [of "2 * n"] popcount.simps [of "Suc (2 * n)"])

lemma popcount_clear: "0 < n \<Longrightarrow> popcount (n AND (n - 1)) + 1 = popcount n"
proof (induction n rule: less_induct)
  case (less n)
  show ?case
  proof (cases "even n")
    case True
    then obtain m where m: "n = 2 * m" by (elim evenE)
    then have "0 < m" using less.prems by simp
    then have "n - 1 = 2 * (m - 1) + 1" using m by simp
    then have "n AND (n - 1) = 2 * (m AND (m - 1))"
      using m by (simp add: and_rec [of "2 * m"])
    then show ?thesis using less.IH [of m] \<open>0 < m\<close> m by (simp add: popcount_double)
  next
    case False
    then obtain m where m: "n = 2 * m + 1" by (elim oddE)
    have "n AND (n - 1) = 2 * m" by (simp add: m and_rec [of "Suc (2 * m)"])
    then show ?thesis using popcount_double [of m] m by simp
  qed
qed

lemma bit_count_popcount: "bit_count x = popcount (unat x)"
proof (induction x rule: bit_count.induct)
  case (1 x)
  show ?case
  proof (cases "x = 0")
    case False
    then have "unat (x AND (x - 1)) = unat x AND (unat x - 1)"
      by (simp add: unsigned_and_eq unat_minus_one)
    then show ?thesis
      using False 1 popcount_clear [of "unat x"] by (simp add: bit_count.simps [of x] unat_gt_0)
  qed (simp add: bit_count.simps)
qed

lemma popcount_filter: "n < 2 ^ w \<Longrightarrow> popcount n = length (filter (bit n) [0..<w])"
proof (induction w arbitrary: n)
  case (Suc w)
  have "[0..<Suc w] = 0 # map Suc [0..<w]" by (simp add: upt_conv_Cons map_Suc_upt del: upt_Suc)
  then have "length (filter (bit n) [0..<Suc w]) = n mod 2 + length (filter (bit (n div 2)) [0..<w])"
    by (simp add: filter_map comp_def bit_Suc bit_0 odd_iff_mod_2_eq_one del: upt_Suc)
  also have "\<dots> = n mod 2 + popcount (n div 2)" using Suc by (simp add: less_mult_imp_div_less)
  also have "\<dots> = popcount n" by (simp add: popcount.simps [of n])
  finally show ?case by simp
qed simp

text \<open>The registers of a list, in the order in which they are transferred.\<close>

definition selected :: "u32 \<Rightarrow> nat list \<Rightarrow> nat list" where
  "selected rl is = filter (bit rl) is"

lemma bit_count_selected:
  assumes "rl < 0x10000"
  shows "bit_count rl = length (selected rl [0..<16])"
proof -
  have "unat rl < 2 ^ 16" using assms by (simp add: word_less_nat_alt)
  moreover have "bit rl = bit (unat rl)" by (rule ext) (simp add: bit_unsigned_iff)
  ultimately show ?thesis by (simp only: bit_count_popcount popcount_filter selected_def)
qed

lemma list_bit: "(rl AND push_bit i 1 \<noteq> 0) = bit (rl :: u32) i"
  by (simp only: bit_iff_and_push_bit_not_eq_0)

section \<open>The loops over a register list\<close>

lemma store_regs_Cons:
  "store_regs ai rl (i # is) a n s =
     (if bit rl i then store (write_word ai a (areg i s)) (store_regs ai rl is (a + 4) (n + 1)) s else store_regs ai rl is a n s)"
  by (simp only: store_regs.simps list_bit)

lemma load_regs_Cons:
  "load_regs ai rl (i # is) a n s =
     (if bit rl i then load (read_word ai a) (\<lambda>v s. load_regs ai rl is (a + 4) (n + 1) (set_areg i v s)) s
      else load_regs ai rl is a n s)"
  by (simp only: load_regs.simps list_bit)

declare store_regs.simps(2) [simp del] load_regs.simps(2) [simp del]

lemma areg_Mem [simp]: "areg i (s\<lparr>Mem := m\<rparr>) = areg i s"
  by (simp add: areg_def)

lemma slots_distinct:
  assumes "j < 16" "k < 16" "a + 4 * of_nat j = a + 4 * (of_nat k :: u32)"
  shows "j = k"
proof -
  have "(of_nat (4 * j) :: u32) = of_nat (4 * k)" using assms(3) by simp
  then have "4 * j mod 2 ^ 32 = 4 * k mod 2 ^ 32"
    by (simp only: word_of_nat_eq_iff take_bit_eq_mod) simp
  then show ?thesis using assms(1,2) by simp
qed

context cpu_memory
begin

lemma store_regs_stores:
  assumes "regular 0xA 0 0" "mem_ok (Mem s)" "length (selected rl is) \<le> 16"
    and "\<forall>k < length (selected rl is). serves (Mem s) (a + 4 * of_nat k)"
  shows "\<exists>m. store_regs cif rl is a n s = Ok (a + 4 * of_nat (length (selected rl is)), n + of_nat (length (selected rl is))) (s\<lparr>Mem := m\<rparr>) \<and>
    mem_ok m \<and> serves m = serves (Mem s) \<and>
    (\<forall>k < length (selected rl is). word_at m (a + 4 * of_nat k) = areg (selected rl is ! k) s) \<and>
    (\<forall>b. serves (Mem s) b \<longrightarrow> (\<forall>k < length (selected rl is). b \<noteq> a + 4 * of_nat k) \<longrightarrow> word_at m b = word_at (Mem s) b)"
  using assms(2-)
proof (induction "is" arbitrary: a n s)
  case Nil
  show ?case using Nil by (intro exI [of _ "Mem s"]) (simp add: selected_def)
next
  case (Cons i "is")
  show ?case
  proof (cases "bit rl i")
    case False
    then show ?thesis using Cons by (simp add: selected_def store_regs_Cons)
  next
    case True
    then have sel: "selected rl (i # is) = i # selected rl is" by (simp add: selected_def)
    have "serves (Mem s) a" using Cons.prems(3) by (auto simp: sel dest: spec [of _ 0])
    then obtain m1 where m1: "if_write_word cif a (areg i s) 0xA 0 0 (Mem s) = Some (None, m1)" "mem_ok m1" "serves m1 = serves (Mem s)"
      "word_at m1 a = areg i s" "\<forall>b. serves (Mem s) b \<longrightarrow> b \<noteq> a \<longrightarrow> word_at m1 b = word_at (Mem s) b"
      using write_word_law [OF assms(1) Cons.prems(1)] by blast
    have slot: "a + 4 + 4 * of_nat k = a + 4 * of_nat (Suc k)" for k by simp
    have len: "length (selected rl is) < 16" using Cons.prems(2) by (simp add: sel)
    have "\<forall>k < length (selected rl is). serves (Mem (s\<lparr>Mem := m1\<rparr>)) (a + 4 + 4 * of_nat k)"
      unfolding slot using Cons.prems(3) m1(3) by (simp add: sel del: of_nat_Suc)
    then obtain m where m: "store_regs cif rl is (a + 4) (n + 1) (s\<lparr>Mem := m1\<rparr>) =
        Ok (a + 4 + 4 * of_nat (length (selected rl is)), n + 1 + of_nat (length (selected rl is))) (s\<lparr>Mem := m1\<rparr>\<lparr>Mem := m\<rparr>)"
      "mem_ok m" "serves m = serves m1"
      "\<forall>k < length (selected rl is). word_at m (a + 4 + 4 * of_nat k) = areg (selected rl is ! k) s"
      "\<forall>b. serves m1 b \<longrightarrow> (\<forall>k < length (selected rl is). b \<noteq> a + 4 + 4 * of_nat k) \<longrightarrow> word_at m b = word_at m1 b"
      using Cons.IH [of "s\<lparr>Mem := m1\<rparr>" "a + 4" "n + 1"] m1(2) len by fastforce
    have run: "store_regs cif rl (i # is) a n s =
        Ok (a + 4 * of_nat (length (selected rl (i # is))), n + of_nat (length (selected rl (i # is)))) (s\<lparr>Mem := m\<rparr>)"
      using True m1(1) m(1) by (simp add: store_regs_Cons store_def sel algebra_simps)
    have first: "word_at m a = areg i s"
    proof -
      have "a \<noteq> a + 4 + 4 * of_nat k" if "k < length (selected rl is)" for k
        using slots_distinct [of 0 "Suc k" a] that len unfolding slot by auto
      then show ?thesis using m(5) m1(3,4) \<open>serves (Mem s) a\<close> by auto
    qed
    have "\<forall>k < length (selected rl (i # is)). word_at m (a + 4 * of_nat k) = areg (selected rl (i # is) ! k) s"
      using first m(4) unfolding slot sel by (auto simp: less_Suc_eq_0_disj simp del: of_nat_Suc)
    moreover have "\<forall>b. serves (Mem s) b \<longrightarrow> (\<forall>k < length (selected rl (i # is)). b \<noteq> a + 4 * of_nat k) \<longrightarrow> word_at m b = word_at (Mem s) b"
    proof (intro allI impI)
      fix b
      assume b: "serves (Mem s) b" "\<forall>k < length (selected rl (i # is)). b \<noteq> a + 4 * of_nat k"
      have "b \<noteq> a" using b(2) by (auto simp: sel dest: spec [of _ 0])
      moreover have "\<forall>k < length (selected rl is). b \<noteq> a + 4 + 4 * of_nat k"
        unfolding slot using b(2) by (simp add: sel del: of_nat_Suc)
      ultimately show "word_at m b = word_at (Mem s) b" using m(5) m1(3,5) b(1) by auto
    qed
    ultimately show ?thesis using run m(2,3) m1(3) by auto
  qed
qed

lemma load_regs_loads:
  assumes "regular 0xA 0 0" "mem_ok (Mem s)" "\<forall>k < length (selected rl is). serves (Mem s) (a + 4 * of_nat k)"
    and "distinct is" "inj_on (\<lambda>i. fst (REGS s i)) (set is)"
  shows "\<exists>m r. load_regs cif rl is a n s =
      Ok (a + 4 * of_nat (length (selected rl is)), n + of_nat (length (selected rl is))) (s\<lparr>Mem := m, RB := r\<rparr>) \<and>
    (\<forall>k < length (selected rl is). r (fst (REGS s (selected rl is ! k))) = word_at (Mem s) (a + 4 * of_nat k)) \<and>
    (\<forall>x. x \<notin> (\<lambda>i. fst (REGS s i)) ` set (selected rl is) \<longrightarrow> r x = RB s x)"
  using assms(2-)
proof (induction "is" arbitrary: a n s)
  case Nil
  show ?case by (intro exI [of _ "Mem s"] exI [of _ "RB s"]) (simp add: selected_def)
next
  case (Cons i "is")
  show ?case
  proof (cases "bit rl i")
    case False
    then show ?thesis using Cons by (simp add: selected_def load_regs_Cons)
  next
    case True
    then have sel: "selected rl (i # is) = i # selected rl is" by (simp add: selected_def)
    have "serves (Mem s) a" using Cons.prems(2) by (auto simp: sel dest: spec [of _ 0])
    then obtain m1 where m1: "if_read_word cif a 0xA 0 0 (Mem s) = Some (word_at (Mem s) a, None, m1)" "mem_ok m1"
      "serves m1 = serves (Mem s)" "\<forall>b. serves (Mem s) b \<longrightarrow> word_at m1 b = word_at (Mem s) b"
      using read_word_law [OF assms(1) Cons.prems(1)] by blast
    let ?v = "word_at (Mem s) a" and ?x = "fst (REGS s i)"
    let ?s1 = "s\<lparr>Mem := m1, RB := (RB s)(?x := ?v)\<rparr>"
    have s1: "set_areg i ?v (s\<lparr>Mem := m1\<rparr>) = ?s1" by (simp add: set_areg_def set_RB_def)
    have slot: "a + 4 + 4 * of_nat k = a + 4 * of_nat (Suc k)" for k by simp
    have "\<forall>k < length (selected rl is). serves (Mem ?s1) (a + 4 + 4 * of_nat k)"
      unfolding slot using Cons.prems(2) m1(3) by (simp add: sel del: of_nat_Suc)
    moreover have "distinct is" "inj_on (\<lambda>i. fst (REGS ?s1 i)) (set is)" using Cons.prems(3,4) by simp_all
    ultimately obtain m r where m: "load_regs cif rl is (a + 4) (n + 1) ?s1 =
        Ok (a + 4 + 4 * of_nat (length (selected rl is)), n + 1 + of_nat (length (selected rl is))) (?s1\<lparr>Mem := m, RB := r\<rparr>)"
      "\<forall>k < length (selected rl is). r (fst (REGS s (selected rl is ! k))) = word_at m1 (a + 4 + 4 * of_nat k)"
      "\<forall>x. x \<notin> (\<lambda>i. fst (REGS s i)) ` set (selected rl is) \<longrightarrow> r x = ((RB s)(?x := ?v)) x"
      using Cons.IH [of ?s1 "a + 4" "n + 1"] m1(2) by fastforce
    have run: "load_regs cif rl (i # is) a n s =
        Ok (a + 4 * of_nat (length (selected rl (i # is))), n + of_nat (length (selected rl (i # is)))) (s\<lparr>Mem := m, RB := r\<rparr>)"
      using True m1(1) m(1) by (simp add: load_regs_Cons load_def s1 sel algebra_simps)
    have "?x \<notin> (\<lambda>i. fst (REGS s i)) ` set (selected rl is)"
      using Cons.prems(3,4) by (auto simp: selected_def)
    then have "r ?x = ?v" using m(3) by simp
    then have "\<forall>k < length (selected rl (i # is)). r (fst (REGS s (selected rl (i # is) ! k))) = word_at (Mem s) (a + 4 * of_nat k)"
      using m(2) m1(4) Cons.prems(2) unfolding slot sel by (auto simp: less_Suc_eq_0_disj simp del: of_nat_Suc)
    moreover have "\<forall>x. x \<notin> (\<lambda>i. fst (REGS s i)) ` set (selected rl (i # is)) \<longrightarrow> r x = RB s x"
      using m(3) by (simp add: sel)
    ultimately show ?thesis using run by blast
  qed
qed

end

section \<open>The aliases of a bank\<close>

lemma bank_alias_HYP: "bank_alias HYP 13 = (31, 0)" "bank_alias HYP 14 = (14, 0)"
  by (simp_all add: bank_alias_def Rmode_index_def modes)

lemma bank_alias_distinct:
  assumes "valid_psr_mode mode"
  shows "distinct (map (\<lambda>i. fst (bank_alias mode i)) [0..<15])" "\<forall>i < 15. snd (bank_alias mode i) = 0"
proof -
  have l: "[0..<15] = [0, Suc 0, 2, 3, 4, 5, 6, 7, 8, 9, 10, 11, 12, 13, 14]" by (simp add: upt_rec)
  show "distinct (map (\<lambda>i. fst (bank_alias mode i)) [0..<15])"
    using assms unfolding l
    by (cases rule: valid_modes) (simp_all add: bank_alias_low bank_alias_mid bank_alias_high bank_alias_HYP modes_distinct)
  show "\<forall>i < 15. snd (bank_alias mode i) = 0"
    by (simp add: bank_alias_def split: option.splits)
qed

lemma banked_inj: "banked mode s \<Longrightarrow> valid_psr_mode mode \<Longrightarrow> inj_on (\<lambda>i. fst (REGS s i)) (set [0..<15])"
  using bank_alias_distinct(1) [of mode] by (auto simp: distinct_map banked_def inj_on_def)

lemma banked_areg: "banked mode s \<Longrightarrow> i < 15 \<Longrightarrow> areg i s = RB s (fst (REGS s i))"
  by (simp add: areg_def banked_def bank_alias_def split: option.splits)

section \<open>Pushing and popping\<close>

lemma areg_add_areg: "areg i (add_areg i v s) = areg i s + v"
  by (simp add: areg_def add_areg_def set_RB_def)

lemma areg_add_areg_other: "fst (REGS s i) \<noteq> fst (REGS s j) \<Longrightarrow> areg i (add_areg j v s) = areg i s"
  by (simp add: areg_def add_areg_def set_RB_def)

lemma REGS_add_areg [simp]: "REGS (add_areg i v s) = REGS s" "Mem (add_areg i v s) = Mem s"
  by (simp_all add: add_areg_def set_RB_def)

lemma list_without_pc: "rl < 0x8000 \<Longrightarrow> \<not> bit (rl :: u32) 15"
proof -
  assume "rl < 0x8000"
  then have "\<not> bit (unat rl) 15" by (simp add: word_less_nat_alt bit_iff_odd)
  then show "\<not> bit rl 15" by (simp add: bit_unsigned_iff)
qed

lemma selected_without_pc: "rl < 0x8000 \<Longrightarrow> selected rl [0..<16] = selected rl [0..<15]"
proof -
  have "[0..<16] = [0..<15] @ [15 :: nat]" using upt_Suc_append [of 0 15] by simp
  then show "rl < 0x8000 \<Longrightarrow> selected rl [0..<16] = selected rl [0..<15]"
    using list_without_pc by (simp add: selected_def)
qed

lemma selected_length: "length (selected rl [0..<15]) \<le> 15"
  using length_filter_le [of "bit rl" "[0..<15]"] by (simp add: selected_def del: length_filter_le)

context cpu_memory
begin

lemma push_list_stores:
  assumes "regular 0xA 0 0" "mem_ok (Mem s)" "rl < 0x8000" "sl = selected rl [0..<15]"
    and "\<forall>k < length sl. serves (Mem s) (areg 13 s - 4 * of_nat (length sl) + 4 * of_nat k)"
  shows "\<exists>m. push_list cif rl s = Ok (of_nat (length sl)) (add_areg 13 (- (4 * of_nat (length sl))) (s\<lparr>Mem := m\<rparr>)) \<and>
    mem_ok m \<and> serves m = serves (Mem s) \<and>
    (\<forall>k < length sl. word_at m (areg 13 s - 4 * of_nat (length sl) + 4 * of_nat k) = areg (sl ! k) s) \<and>
    (\<forall>b. serves (Mem s) b \<longrightarrow> (\<forall>k < length sl. b \<noteq> areg 13 s - 4 * of_nat (length sl) + 4 * of_nat k) \<longrightarrow> word_at m b = word_at (Mem s) b)"
proof -
  have sl: "selected rl [0..<16] = sl" using selected_without_pc assms(3,4) by simp
  have n: "(of_nat (bit_count rl) :: u32) = of_nat (length sl)"
    using bit_count_selected [of rl] assms(3) sl by (simp add: order.strict_trans)
  have "length sl \<le> 16" using selected_length [of rl] assms(4) by simp
  then show ?thesis
    using store_regs_stores [of s rl "[0..<16]" "areg 13 s - 4 * of_nat (length sl)" 0] assms(1,2,5)
    unfolding sl push_list_def n Let_def by auto
qed

lemma pop_list_loads:
  assumes "regular 0xA 0 0" "mem_ok (Mem t)" "rl < 0x8000" "\<not> bit rl 13" "sl = selected rl [0..<15]"
    and "\<forall>k < length sl. serves (Mem t) (areg 13 t + 4 * of_nat k)"
    and "banked mode t" "valid_psr_mode mode"
  shows "\<exists>t'. pop_list cif rl t = Ok (of_nat (length sl) + 1) t' \<and> areg 13 t' = areg 13 t + 4 * of_nat (length sl) \<and>
    (\<forall>k < length sl. areg (sl ! k) t' = word_at (Mem t) (areg 13 t + 4 * of_nat k)) \<and>
    (\<forall>i < 15. i \<noteq> 13 \<longrightarrow> \<not> bit rl i \<longrightarrow> areg i t' = areg i t)"
proof -
  have inj: "inj_on (\<lambda>i. fst (REGS t i)) (set [0..<15])" by (rule banked_inj [OF assms(7,8)])
  have ne: "fst (REGS t i) \<noteq> fst (REGS t j)" if "i < 15" "j < 15" "i \<noteq> j" for i j
    using inj_onD [OF inj] that by fastforce
  have off: "snd (REGS t i) = 0" if "i < 15" for i
    using assms(7) bank_alias_distinct(2) [OF assms(8)] that by (simp add: banked_def)
  obtain m r where r: "load_regs cif rl [0..<15] (areg 13 t) 0 t = Ok (areg 13 t + 4 * of_nat (length sl), of_nat (length sl)) (t\<lparr>Mem := m, RB := r\<rparr>)"
    "\<forall>k < length sl. r (fst (REGS t (sl ! k))) = word_at (Mem t) (areg 13 t + 4 * of_nat k)"
    "\<forall>x. x \<notin> (\<lambda>i. fst (REGS t i)) ` set sl \<longrightarrow> r x = RB t x"
    using load_regs_loads [of t rl "[0..<15]" "areg 13 t" 0] assms(1,2,6) inj unfolding assms(5) by auto
  let ?u = "t\<lparr>Mem := m, RB := r\<rparr>"
  let ?t' = "add_areg 13 (4 * of_nat (length sl)) ?u"
  have mem: "i < 15 \<and> bit rl i" if "i \<in> set sl" for i using that assms(5) by (simp add: selected_def)
  have "rl AND 0x8000 = 0" using list_without_pc [OF assms(3)] list_bit [of rl 15] by simp
  then have run: "pop_list cif rl t = Ok (of_nat (length sl) + 1) ?t'" by (simp add: pop_list_def r(1))
  have keep: "areg i ?u = areg i t" if "i < 15" "i \<notin> set sl" for i
  proof -
    have "fst (REGS t i) \<notin> (\<lambda>i. fst (REGS t i)) ` set sl" using ne that mem by blast
    then show ?thesis using r(3) by (simp add: areg_def)
  qed
  have other: "areg i ?t' = areg i ?u" if "i < 15" "i \<noteq> 13" for i
    using ne [of i 13] that by (intro areg_add_areg_other) simp
  have "areg 13 ?t' = areg 13 t + 4 * of_nat (length sl)"
    using keep [of 13] mem assms(4) by (auto simp: areg_add_areg)
  moreover have "areg (sl ! k) ?t' = word_at (Mem t) (areg 13 t + 4 * of_nat k)" if "k < length sl" for k
  proof -
    have "sl ! k < 15" "sl ! k \<noteq> 13" using mem [of "sl ! k"] that assms(4) by auto
    then show ?thesis using other r(2) off that by (simp add: areg_def)
  qed
  moreover have "areg i ?t' = areg i t" if "i < 15" "i \<noteq> 13" "\<not> bit rl i" for i
    using other keep mem that by metis
  ultimately show ?thesis using run by blast
qed

end

lemma selected_index: "bit rl i \<Longrightarrow> i < 15 \<Longrightarrow> \<exists>k < length (selected rl [0..<15]). selected rl [0..<15] ! k = i"
  by (simp add: selected_def in_set_conv_nth [symmetric])

lemma bit_count_without_pc: "rl < 0x8000 \<Longrightarrow> bit_count rl = length (selected rl [0..<15])"
  using bit_count_selected [of rl] selected_without_pc [of rl] by (simp add: order.strict_trans)

text \<open>(C29) Push and pop.  Let a register list name neither the stack pointer nor the program
  counter, and let the words below the stack pointer that it needs be accessible.  \<^verbatim>\<open>PUSH\<close> lowers
  the stack pointer by four for each register of the list and changes no other register and no
  word but these.  Whatever the program does then, if it comes back to the same
  bank and stack pointer with these words as they were left, the \<^verbatim>\<open>POP\<close> with the same list
  loads each register of the list with what it held before the \<^verbatim>\<open>PUSH\<close>, leaves the other registers alone
  and gives back the stack pointer.\<close>

theorem push_pop_restores:
  assumes "rl = push_bit 12 (f_imm0 p) OR f_imm1 p" "rl < 0x8000" "\<not> bit rl 13" "n = bit_count rl" "sp = areg 13 s - 4 * of_nat n"
    and "\<forall>k < n. lm_serves (Mem s) (sp + 4 * of_nat k)"
    and "banked mode s" "valid_psr_mode mode" "f_cond p \<le> 0xF" "ConditionPassed (f_cond p) s"
  shows "\<exists>s1. arm_PUSH_block local_memory_if p s = Ok (of_nat n) s1 \<and> areg 13 s1 = sp \<and> REGS s1 = REGS s \<and> lm_serves (Mem s1) = lm_serves (Mem s) \<and>
    (\<forall>i < 15. i \<noteq> 13 \<longrightarrow> areg i s1 = areg i s) \<and>
    (\<forall>b. lm_serves (Mem s) b \<longrightarrow> (\<forall>k < n. b \<noteq> sp + 4 * of_nat k) \<longrightarrow> lm_word_at (Mem s1) b = lm_word_at (Mem s) b) \<and>
    (\<forall>t. REGS t = REGS s \<and> areg 13 t = sp \<and> ConditionPassed (f_cond p) t \<and>
      (\<forall>k < n. lm_serves (Mem t) (sp + 4 * of_nat k) \<and> lm_word_at (Mem t) (sp + 4 * of_nat k) = lm_word_at (Mem s1) (sp + 4 * of_nat k)) \<longrightarrow>
      (\<exists>t'. arm_POP_block local_memory_if p t = Ok (of_nat n + 1) t' \<and> areg 13 t' = areg 13 s \<and>
        (\<forall>i < 15. i \<noteq> 13 \<longrightarrow> areg i t' = (if bit rl i then areg i s else areg i t))))"
proof -
  define sl where "sl = selected rl [0..<15]"
  have n: "length sl = n" using bit_count_without_pc assms(2,4) by (simp add: sl_def)
  obtain m where m: "push_list local_memory_if rl s = Ok (of_nat n) (add_areg 13 (- (4 * of_nat n)) (s\<lparr>Mem := m\<rparr>))"
    "lm_serves m = lm_serves (Mem s)"
    "\<forall>k < n. lm_word_at m (sp + 4 * of_nat k) = areg (sl ! k) s"
    "\<forall>b. lm_serves (Mem s) b \<longrightarrow> (\<forall>k < n. b \<noteq> sp + 4 * of_nat k) \<longrightarrow> lm_word_at m b = lm_word_at (Mem s) b"
    using lm.push_list_stores [where s = s and rl = rl and sl = sl] assms(2,6) unfolding n assms(5) [symmetric] by (auto simp: sl_def)
  let ?s1 = "add_areg 13 (- (4 * of_nat n)) (s\<lparr>Mem := m\<rparr>)"
  have push: "arm_PUSH_block local_memory_if p s = Ok (of_nat n) ?s1"
    using m(1) assms(9,10) by (simp add: arm_PUSH_block_def conditional_def assms(1) [symmetric])
  have keep: "areg i ?s1 = areg i s" if "i < 15" "i \<noteq> 13" for i
    using inj_onD [OF banked_inj [OF assms(7,8)], of i 13] that areg_add_areg_other [of "s\<lparr>Mem := m\<rparr>" i 13] by auto
  have pop: "\<exists>t'. arm_POP_block local_memory_if p t = Ok (of_nat n + 1) t' \<and> areg 13 t' = areg 13 s \<and>
      (\<forall>i < 15. i \<noteq> 13 \<longrightarrow> areg i t' = (if bit rl i then areg i s else areg i t))"
    if t: "REGS t = REGS s" "areg 13 t = sp" "ConditionPassed (f_cond p) t"
      "\<forall>k < n. lm_serves (Mem t) (sp + 4 * of_nat k) \<and> lm_word_at (Mem t) (sp + 4 * of_nat k) = lm_word_at (Mem ?s1) (sp + 4 * of_nat k)" for t
  proof -
    have "banked mode t" using assms(7) t(1) by (simp add: banked_def)
    then obtain t' where t': "pop_list local_memory_if rl t = Ok (of_nat n + 1) t'" "areg 13 t' = sp + 4 * of_nat n"
      "\<forall>k < n. areg (sl ! k) t' = lm_word_at (Mem t) (sp + 4 * of_nat k)" "\<forall>i < 15. i \<noteq> 13 \<longrightarrow> \<not> bit rl i \<longrightarrow> areg i t' = areg i t"
      using lm.pop_list_loads [where t = t and rl = rl and sl = sl and mode = mode] assms(2,3,8) t(2,4) unfolding n by (auto simp: sl_def)
    have "areg i t' = areg i s" if "i < 15" "bit rl i" for i
      using selected_index [of rl i] that t'(3) m(3) t(4) n unfolding sl_def by auto
    moreover have "arm_POP_block local_memory_if p t = Ok (of_nat n + 1) t'"
      using t'(1) assms(3,9) t(3) list_bit [of rl 13]
      by (simp add: arm_POP_block_def conditional_def check_def assms(1) [symmetric])
    ultimately show ?thesis using t'(2,4) assms(5) by auto
  qed
  show ?thesis
    by (intro exI [of _ ?s1] conjI) (use push keep m(2,4) pop assms(5) in \<open>auto simp: areg_add_areg\<close>)
qed

text \<open>In the bank of \<^verbatim>\<open>SVC\<close> with 7 in \<^verbatim>\<open>r1\<close> and the stack at the end of sixteen bytes,
  \<^verbatim>\<open>push {r0, r1}\<close> and, after \<^verbatim>\<open>r1\<close> is cleared, \<^verbatim>\<open>pop {r0, r1}\<close>.\<close>

definition stack_sample :: "local_memory arm" where
  "stack_sample = set_RB 29 16 (set_RB 1 7 (alias_to 14 30 0 (alias_to 13 29 0
     (arm_constructed 0 0 \<lparr>lm_bytes = replicate 16 0, lm_debugger = False, lm_notified = []\<rparr>))))"

lemma push_pop_restores_witness:
  "\<exists>s1 t'. arm_PUSH_block local_memory_if (PUSH_block_params 0xE92D0003) stack_sample = Ok 2 s1 \<and> areg 13 s1 = 8 \<and>
    arm_POP_block local_memory_if (PUSH_block_params 0xE92D0003) (set_areg 1 0 s1) = Ok 3 t' \<and>
    areg 1 t' = 7 \<and> areg 13 t' = 16"
proof -
  let ?p = "PUSH_block_params 0xE92D0003"
  have p: "f_cond ?p = 0xE" "f_imm0 ?p = 0" "f_imm1 ?p = 3" by (simp_all add: PUSH_block_params_def)
  have n: "bit_count 3 = 2" by (simp add: bit_count.simps)
  have b: "banked SVC_mode stack_sample"
    unfolding banked_def less_16
    by (simp add: bank_alias_table stack_sample_def set_RB_def alias_to_def arm_constructed_def arm_aliases_def modes_distinct)
  have v: "areg 1 stack_sample = 7" "areg 13 stack_sample = 16" "lm_serves (Mem stack_sample) 8" "lm_serves (Mem stack_sample) 12"
    "fst (REGS stack_sample 1) = 1" "fst (REGS stack_sample 13) = 29"
    by (simp_all add: areg_def stack_sample_def set_RB_def alias_to_def arm_constructed_def arm_aliases_def lm_serves_def lm_accessible_def)
  have c: "ConditionPassed 0xE s" for s :: "local_memory arm" by (simp add: ConditionPassed_def)
  have two: "(\<forall>k < 2. P k) = (P 0 \<and> P (Suc 0))" for P :: "nat \<Rightarrow> bool" by (auto simp: less_2_cases_iff)
  have bits: "\<not> bit (3 :: u32) 13" "bit (3 :: u32) 1" by (simp_all add: bit_iff_odd)
  have h: "(3 :: u32) = push_bit 12 (f_imm0 ?p) OR f_imm1 ?p" "(3 :: u32) < 0x8000" by (simp_all add: p)
  have slots: "8 = areg 13 stack_sample - 4 * of_nat 2" "\<forall>k < (2 :: nat). lm_serves (Mem stack_sample) (8 + 4 * of_nat k)"
    using v(2-4) by (simp, auto simp: two)
  have m: "valid_psr_mode SVC_mode" "f_cond ?p \<le> 0xF" "ConditionPassed (f_cond ?p) stack_sample"
    using c by (simp add: valid_psr_mode_def, simp add: p, simp only: p)
  obtain s1 where s1: "arm_PUSH_block local_memory_if ?p stack_sample = Ok (of_nat 2) s1" "areg 13 s1 = 8" "REGS s1 = REGS stack_sample"
    "lm_serves (Mem s1) = lm_serves (Mem stack_sample)"
    "\<forall>t. REGS t = REGS stack_sample \<and> areg 13 t = 8 \<and> ConditionPassed (f_cond ?p) t \<and>
      (\<forall>k < 2. lm_serves (Mem t) (8 + 4 * of_nat k) \<and> lm_word_at (Mem t) (8 + 4 * of_nat k) = lm_word_at (Mem s1) (8 + 4 * of_nat k)) \<longrightarrow>
      (\<exists>t'. arm_POP_block local_memory_if ?p t = Ok (of_nat 2 + 1) t' \<and> areg 13 t' = areg 13 stack_sample \<and>
        (\<forall>i < 15. i \<noteq> 13 \<longrightarrow> areg i t' = (if bit (3 :: u32) i then areg i stack_sample else areg i t)))"
    using push_pop_restores [OF h bits(1) n [symmetric] slots b m] by blast
  have "areg 13 (set_areg 1 0 s1) = 8" "REGS (set_areg 1 0 s1) = REGS stack_sample" "Mem (set_areg 1 0 s1) = Mem s1"
    using s1(2,3) v(5,6) by (simp_all add: areg_def set_areg_def set_RB_def)
  then obtain t' where "arm_POP_block local_memory_if ?p (set_areg 1 0 s1) = Ok (of_nat 2 + 1) t'" "areg 13 t' = areg 13 stack_sample"
    "\<forall>i < 15. i \<noteq> 13 \<longrightarrow> areg i t' = (if bit (3 :: u32) i then areg i stack_sample else areg i (set_areg 1 0 s1))"
    using s1(5) [rule_format, of "set_areg 1 0 s1"] s1(4) v(3,4) c by (auto simp: two p)
  moreover from this have "areg 1 t' = 7" using v(1) bits(2) by (auto dest: spec [of _ "1 :: nat"])
  ultimately show ?thesis using s1(1,2) v(2) by auto
qed

end
