(* ===== verification/Spec2Isabelle.thy ===== *)
theory Spec2Isabelle
  imports Leon3_Decode_Props Irqmp_Claims Ahbctrl_Arbiter Memory_Props Leon3_Bus_Props
    Mb_Claims Mb_Exceptions Mb_Interface_Props Apb_Props Arm_Loop_Props Arm_Stack_Props
begin

text \<open>
  SoCRocket is a library of SystemC models for a system on chip: a LEON3 (SPARC V8) instruction
  set simulator with its caches and MMU (src/gaisler/leon3), the AMBA buses (src/amba,
  src/gaisler/ahbctrl), memories and peripherals (src/gaisler), a register and signal library
  (src/core), and further processor models (src/arm, src/microblaze).  This development models
  the functional behaviour of the LEON3 machine and of the MicroBlaze and ARM processors: what an
  operation does to the state and which results it gives, in the loosely timed mode.  Simulated
  time, power and statistics are left out, except counters that feed back.

  \<^bold>\<open>Conventions.\<close>  A C++ \<^verbatim>\<open>uint32_t\<close> is a \<^verbatim>\<open>32 word\<close>; a structure is a record with the
  fields of the code; \<^verbatim>\<open>std::map\<close> is a sorted association list (\<^verbatim>\<open>omap\<close>, theory Bus_Decoder).  A
  result \<^verbatim>\<open>None\<close> stands for what the code does not define or ends with: an access outside an
  array, a failed assertion, a null pointer.  Exceptions of the instruction set simulator are
  the constructors of \<^verbatim>\<open>res\<close> (theory Prelude).  The host is little endian
  (\<^verbatim>\<open>LITTLE_ENDIAN_BO\<close>).  A buffer that the code reads before it has written it is a parameter
  \<^verbatim>\<open>junk\<close> of the model.

  \<^bold>\<open>The core.\<close>  Leon3_State: registers, alias tables, register windows, traps (registers.cpp,
  alias.cpp and the helpers of instructions.cpp).  Leon3_Window: the window invariant and what
  each helper does to it.  Leon3_Alu, Leon3_LoadStore, Leon3_Ctrl: \<^verbatim>\<open>behavior()\<close> of every
  instruction class.  Leon3_Decode: the decoder's switch.  Leon3_Step: reset and one iteration
  of \<^verbatim>\<open>mainLoop\<close> (processor.cpp), runs, and the step relation in which the interrupt port may
  change between instructions.  Leon3_Memory: the memory interface \<^verbatim>\<open>cpu_if\<close> as a record, its
  contract \<^verbatim>\<open>cpu_memory\<close>, and \<^verbatim>\<open>LocalMemory\<close>.  Leon3_Alu_Props, Leon3_Mul_Props, Leon3_Trap_Props,
  Leon3_Props and Leon3_Decode_Props hold what is proved of the instructions: arithmetic and
  condition codes against integers, multiplication and division, windows, traps and their
  return, memory accesses, privilege, the decoder against the SPARC opcode tables.

  \<^bold>\<open>The memory sub-system.\<close>  Vectorcache: the set-associative cache (vectorcache.cpp), every
  operation that changes it.  Vectorcache_Props: the geometry of addresses, the coherence of a
  cache with a memory, what a fill and a write keep of it, the termination of the random
  replacement.  Vectorcache_Transparent: over a level that behaves like a memory (locale
  \<^verbatim>\<open>mem_level\<close>) a coherent cache answers like that memory and stays coherent.  Vectorcache_Runs:
  flushing, snooping, construction.  Mmu: the table walk, the protection check, the fault
  registers, the TLBs, the adaptor (mmu.cpp, tlb_adaptor.h).  Mmu_Props, Mmu_Translation and
  Mmu_Claims: the walk as a recursion over the memory, the SPARC access rights, the bound on the
  TLBs, and virtual memory as a refinement.  Mmu_Cache: instruction and data accesses by address
  space, scratchpads, registers, snooping, the bus master (mmu_cache_base.cpp, localram.cpp,
  nocache.cpp).  Leon3_Bus: the core's memory interface on it (leon3.cpp) and the payload
  interface of the stand-alone sub-system (mmu_cache.cpp).

  \<^bold>\<open>The bus.\<close>  Amba: devices and their plug-and-play records (src/amba).  Bus_Decoder: the
  address map of the controller with its cached look-up.  Ahbctrl, Ahbctrl_Props,
  Ahbctrl_Arbiter: transport, plug-and-play area, start of simulation, and arbitration in the
  approximately timed mode as a step function over the queues.  Storage: byte storages, one
  contract (locale) with two implementations.  Memory, Memory_Props: the memories over them.
  Bus_Memory: the controller with AHB memories refines one flat memory.

  \<^bold>\<open>Peripherals.\<close>  Apbctrl: the bridge to the APB (apbctrl.cpp) and the socket of a peripheral's
  register bank (src/amba/apbslave.h).  Apb_Props: its decoder as an \<^verbatim>\<open>address_decoder\<close>, and both
  buses together: a word access of any AHB master is a register access of the bank.

  \<^bold>\<open>Interrupts.\<close>  Sr_Register: register banks and the signal selector.  Irqmp, Irqmp_Props,
  Irqmp_Settle, Irqmp_Claims: the multiprocessor interrupt controller, its invariant and its
  arbitration.

  \<^bold>\<open>MicroBlaze.\<close>  The instruction set simulator in src/microblaze/microblaze/intunit, over the same
  memory interface \<^verbatim>\<open>cpu_if\<close>.  Mb_State: registers, fields of MSR, ESR and FSR, operands, the
  helpers of class Instruction with the exception entries.  Mb_Alu, Mb_Branch, Mb_LoadStore,
  Mb_Float: \<^verbatim>\<open>behavior()\<close> of the 117 instruction classes; single-precision arithmetic is the
  parameter \<^verbatim>\<open>host_float\<close>, about which nothing is assumed.  Mb_Decode: decoder and instruction
  table.  Mb_Step: reset, the main loop with its instruction cache, and the machine without
  the cache.  Mb_Interface: the debugger's view (interface.cpp).  Mb_Sample: the machine the
  witnesses run on.  Mb_Arith_Props, Mb_Control_Props: adds, subtracts and conditional branches
  against one reference function each, what every other instruction does to the program
  counter and the prefix.  Mb_Claims, Mb_Exceptions, Mb_Interface_Props: delay slots, the IMM
  prefix, instructions that never end, the unaligned access exception and its return, floating
  point, saving and restoring the state, and when the misfiled cache does no harm.

  \<^bold>\<open>ARM.\<close>  The Cortex-A9 instruction set simulator in src/arm/arm/intunit, functional model, over
  the same memory interface.  Arm_State: status registers and their fields, the bank of 35
  registers behind the 16 aliases (src/core/trapgen/modules/register), modes, masks, flags,
  shifts, saturation (registers.cpp and the helpers of instructions.cpp).  Arm_Params:
  \<^verbatim>\<open>set_params\<close> of the 161 instruction classes.  Arm_Alu, Arm_Media, Arm_LoadStore, Arm_Branch:
  their \<^verbatim>\<open>behavior\<close>.  Arm_Decode: decoder and instruction table.  Arm_Step: reset and the main
  loop with its instruction cache (processor.cpp).  Arm_Loop_Props: the cache is transparent,
  failed conditions, branches.  Arm_Flag_Props: the flags as statements about integers and the
  conditions as orders of the operands.  Arm_Bank_Props: the banked registers across a switch
  of the mode.  Arm_Stack_Props: the block transfers over the contract \<^verbatim>\<open>cpu_memory\<close>, and pop
  undoing push.

  \<^bold>\<open>How the parts meet.\<close>  Bus_Level shows that the bus master over the AHB controller and the
  memories is a \<^verbatim>\<open>mem_level\<close>, and that an MMU that is absent or switched off passes this on.
  Leon3_System composes caches, MMU, master, controller and memories and shows that the
  composition is one flat memory for any interleaving of the processor's accesses with those of
  other masters.  Leon3_Bus_Props interprets the contract \<^verbatim>\<open>cpu_memory\<close> on that machine, so that
  what is proved of the core over its contract holds on the machine.  Interfaces are locales and
  each is interpreted on the code's model: \<^verbatim>\<open>register_bank\<close>, \<^verbatim>\<open>cpu_memory\<close> (twice), the storage
  contract (twice), \<^verbatim>\<open>address_decoder\<close> (twice), \<^verbatim>\<open>mem_level\<close> and \<^verbatim>\<open>behind_mmu\<close>.

  \<^bold>\<open>Fuel.\<close>  Loops are structural or have a measure.  \<^verbatim>\<open>select_random\<close> of the cache is a
  \<^verbatim>\<open>partial_function\<close>, because the code's loop does not end when every way of a set is locked;
  the property on it says exactly when it returns.

  \<^bold>\<open>Not modelled.\<close>  Timing, power and statistics; the non-blocking transport of slaves and
  masters; the debugger, OS emulation, configuration, scripting and logging libraries, which
  only talk to the host; the platforms that wire the models; the SystemC wrapper of the
  MicroBlaze and of the ARM core, copies of leon3.cpp; the caches and the interrupt controller
  in src/arm, copies of those in src/gaisler; the timer, the UART and the memory
  controller, whose functions are almost only timing or host input and output.
\<close>

end
